(* ===== verification/Prelude.thy ===== *)
theory Prelude
  imports Main "HOL-Library.AList" "HOL-Library.Multiset" "HOL-Library.Word"
begin

text \<open>
  The layer every other theory of the development rests on: Go's fixed-width signed
  integers (as \<open>int\<close> with the wrap-around written out), Go's maps (as association lists
  with distinct keys), the order in which a Go \<open>range\<close> loop visits a map, and the
  generic lemmas on lists, maps and sums the component theories share.
\<close>

section \<open>Collections of facts\<close>

named_theorems go_defs \<open>definitions unfolded to evaluate an operation\<close>
named_theorems inv_intros \<open>an operation keeps an invariant of the store\<close>
named_theorems frame \<open>an operation leaves a field of the store alone\<close>

section \<open>Fixed-width signed integers\<close>

text \<open>
  An \<open>int64\<close> (\<open>int32\<close>) of the source is an \<open>int\<close> in the two's complement range; every
  operation of the source that can leave the range is followed by \<open>wrap64\<close>
  (\<open>wrap32\<close>), as Go's arithmetic wraps silently.
\<close>

type_synonym int64 = int
type_synonym int32 = int
type_synonym uint64 = nat
type_synonym uint32 = "32 word"

definition wrap64 :: "int \<Rightarrow> int64" where
  "wrap64 x = signed_take_bit 63 x"

definition wrap32 :: "int \<Rightarrow> int32" where
  "wrap32 x = signed_take_bit 31 x"

definition in_int64 :: "int \<Rightarrow> bool" where
  "in_int64 x \<longleftrightarrow> - (2 ^ 63) \<le> x \<and> x < 2 ^ 63"

definition in_int32 :: "int \<Rightarrow> bool" where
  "in_int32 x \<longleftrightarrow> - (2 ^ 31) \<le> x \<and> x < 2 ^ 31"

lemma wrap64_id [simp]: "in_int64 x \<Longrightarrow> wrap64 x = x"
  unfolding wrap64_def in_int64_def
  by (rule signed_take_bit_int_eq_self) auto

lemma wrap32_id [simp]: "in_int32 x \<Longrightarrow> wrap32 x = x"
  unfolding wrap32_def in_int32_def
  by (rule signed_take_bit_int_eq_self) auto

lemma wrap64_range [simp]: "in_int64 (wrap64 x)"
  unfolding wrap64_def in_int64_def
  using signed_take_bit_int_greater_eq_minus_exp [of 63 x] signed_take_bit_int_less_exp [of 63 x]
  by simp

lemma wrap64_0 [simp]: "wrap64 0 = 0"
  by (simp add: wrap64_def)

lemma wrap64_wrap64 [simp]: "wrap64 (wrap64 x) = wrap64 x"
  by simp

lemma wrap64_add_left [simp]: "wrap64 (wrap64 x + y) = wrap64 (x + y)"
  unfolding wrap64_def by (rule signed_take_bit_add [where ?n = 63 and ?k = "signed_take_bit 63 x" and ?l = y, symmetric, THEN trans])
    (simp add: signed_take_bit_add)

lemma wrap64_add_right [simp]: "wrap64 (x + wrap64 y) = wrap64 (x + y)"
  using wrap64_add_left [of y x] by (simp add: add.commute)

section \<open>Go maps\<close>

text \<open>
  A Go map with string keys is an association list whose keys are distinct
  (\<open>wf_map\<close>). Reading is \<open>map_of\<close>, storing is \<open>mput\<close>, and the zero value a Go map
  returns for a missing key is written out where the source uses it.
\<close>

type_synonym 'v gomap = "(string \<times> 'v) list"

definition mput :: "string \<Rightarrow> 'v \<Rightarrow> 'v gomap \<Rightarrow> 'v gomap" where
  "mput k v m = AList.update k v m"

definition wf_map :: "'v gomap \<Rightarrow> bool" where
  "wf_map m \<longleftrightarrow> distinct (map fst m)"

definition has_key :: "string \<Rightarrow> 'v gomap \<Rightarrow> bool" where
  "has_key k m \<longleftrightarrow> map_of m k \<noteq> None"

lemma map_of_mput [simp]: "map_of (mput k v m) = (map_of m)(k \<mapsto> v)"
  by (simp add: mput_def update_conv')

lemma wf_map_Nil [simp]: "wf_map []"
  by (simp add: wf_map_def)

lemma wf_map_mput [simp, intro]: "wf_map m \<Longrightarrow> wf_map (mput k v m)"
  by (simp add: wf_map_def mput_def distinct_update)

lemma keys_mput: "map fst (mput k v m) = (if k \<in> set (map fst m) then map fst m else map fst m @ [k])"
  by (simp add: mput_def update_keys)

lemma wf_map_set_iff: "wf_map m \<Longrightarrow> (k, v) \<in> set m \<longleftrightarrow> map_of m k = Some v"
  by (simp add: wf_map_def map_of_eq_Some_iff)

lemma has_key_mput [simp]: "has_key k (mput k' v m) \<longleftrightarrow> k = k' \<or> has_key k m"
  by (simp add: has_key_def)

lemma has_key_Nil [simp]: "\<not> has_key k []"
  by (simp add: has_key_def)

lemma mput_Nil [simp]: "mput k v [] = [(k, v)]"
  by (simp add: mput_def)

lemma mput_Cons [simp]: "mput k v (p # ps) = (if fst p = k then (k, v) # ps else p # mput k v ps)"
  by (simp add: mput_def)

text \<open>
  The effect of storing one entry on a sum over the whole map: the old entry's share, if
  there was one, is replaced by the new one's.
\<close>

lemma sum_mput:
  fixes f :: "string \<times> 'v \<Rightarrow> int"
  assumes "wf_map m"
  shows "sum_list (map f (mput k v m)) =
    sum_list (map f m) + f (k, v) - (case map_of m k of None \<Rightarrow> 0 | Some v' \<Rightarrow> f (k, v'))"
  using assms
proof (induction m)
  case Nil
  then show ?case by simp
next
  case (Cons p m)
  then have "wf_map m" by (simp add: wf_map_def)
  with Cons show ?case
    by (cases p) (auto simp: wf_map_def split: option.splits)
qed

section \<open>The order of a range loop\<close>

text \<open>
  Go visits the entries of a map in an unspecified order. The order of one loop is that
  of an arbitrary priority of the keys (part of the environment of the store), so every
  order is one of the model's, and every theorem about a loop is about all of them.
\<close>

definition range_map :: "(string \<Rightarrow> nat) \<Rightarrow> 'v gomap \<Rightarrow> 'v gomap" where
  "range_map prio m = sort_key (\<lambda>p. prio (fst p)) m"

lemma set_range_map [simp]: "set (range_map prio m) = set m"
  by (simp add: range_map_def)

lemma mset_range_map [simp]: "mset (range_map prio m) = mset m"
  by (simp add: range_map_def)

lemma length_range_map [simp]: "length (range_map prio m) = length m"
  by (simp add: range_map_def)

lemma distinct_keys_range_map [simp]: "distinct (map fst (range_map prio m)) \<longleftrightarrow> wf_map m"
proof -
  have "mset (map fst (range_map prio m)) = mset (map fst m)" by simp
  then show ?thesis unfolding wf_map_def by (rule mset_eq_imp_distinct_iff)
qed

lemma wf_range_map [simp]: "wf_map (range_map prio m) \<longleftrightarrow> wf_map m"
  by (simp add: wf_map_def [of "range_map prio m"])

lemma map_of_range_map: "wf_map m \<Longrightarrow> map_of (range_map prio m) = map_of m"
  by (rule map_of_inject_set [THEN iffD2]) (simp_all add: wf_map_def [symmetric])

lemma sum_range_map:
  "sum_list (map f (range_map prio m)) = (sum_list (map f m) :: int)"
proof -
  have "mset (map f (range_map prio m)) = mset (map f m)" by simp
  then show ?thesis by (metis sum_mset_sum_list)
qed

text \<open>A loop that adds \<open>int64\<close> values one after the other, wrapping each time, returns
  the wrapped sum.\<close>

lemma foldl_wrap64:
  "in_int64 a \<Longrightarrow> foldl (\<lambda>acc x. wrap64 (acc + f x)) a xs = wrap64 (a + sum_list (map f xs))"
proof (induction xs arbitrary: a)
  case Nil
  then show ?case by simp
next
  case (Cons x xs)
  show ?case by (simp add: Cons.IH add.assoc)
qed

section \<open>Lists\<close>

lemma find_SomeD: "find P xs = Some x \<Longrightarrow> x \<in> set xs \<and> P x"
  by (induction xs) (auto split: if_splits)

lemma sorted_wrt_less_append1:
  "sorted_wrt (<) (xs @ [x :: 'a :: linorder]) \<longleftrightarrow> sorted_wrt (<) xs \<and> (\<forall>y \<in> set xs. y < x)"
  by (simp add: sorted_wrt_append)

lemma distinct_if_sorted_wrt_less: "sorted_wrt (<) (xs :: 'a :: linorder list) \<Longrightarrow> distinct xs"
  by (simp add: strict_sorted_iff)

end
