(* ===== verification/GoLib.thy ===== *)
theory GoLib
  imports Prelude
begin

text \<open>
  What the source uses of Go's standard library: \<open>strings\<close>, \<open>strconv\<close>, \<open>encoding/hex\<close>,
  the \<open>%016x\<close> verb of \<open>fmt\<close> and \<open>time\<close>. A Go string is its bytes, one \<open>char\<close> each.
  \<open>ToLower\<close> maps ASCII letters and leaves other bytes alone (Go also maps letters beyond
  ASCII); \<open>TrimSpace\<close> trims every white-space code point in its UTF-8 encoding.
\<close>

section \<open>strings\<close>

definition ascii_space :: "string list" where
  "ascii_space = [[CHR 0x20], [CHR 0x09], [CHR 0x0A], [CHR 0x0B], [CHR 0x0C], [CHR 0x0D]]"

text \<open>The white space beyond ASCII: U+0085, U+00A0, U+1680, U+2000 to U+200A, U+2028,
  U+2029, U+202F, U+205F and U+3000.\<close>

definition wide_space :: "string list" where
  "wide_space =
     [[CHR 0xC2, CHR 0x85], [CHR 0xC2, CHR 0xA0], [CHR 0xE1, CHR 0x9A, CHR 0x80],
      [CHR 0xE2, CHR 0x80, CHR 0x80], [CHR 0xE2, CHR 0x80, CHR 0x81], [CHR 0xE2, CHR 0x80, CHR 0x82],
      [CHR 0xE2, CHR 0x80, CHR 0x83], [CHR 0xE2, CHR 0x80, CHR 0x84], [CHR 0xE2, CHR 0x80, CHR 0x85],
      [CHR 0xE2, CHR 0x80, CHR 0x86], [CHR 0xE2, CHR 0x80, CHR 0x87], [CHR 0xE2, CHR 0x80, CHR 0x88],
      [CHR 0xE2, CHR 0x80, CHR 0x89], [CHR 0xE2, CHR 0x80, CHR 0x8A], [CHR 0xE2, CHR 0x80, CHR 0xA8],
      [CHR 0xE2, CHR 0x80, CHR 0xA9], [CHR 0xE2, CHR 0x80, CHR 0xAF], [CHR 0xE2, CHR 0x81, CHR 0x9F],
      [CHR 0xE3, CHR 0x80, CHR 0x80]]"

definition white_space :: "string list" where
  "white_space = ascii_space @ wide_space"

fun has_prefix :: "string \<Rightarrow> string \<Rightarrow> bool" where
  "has_prefix [] s = True"
| "has_prefix (p # ps) [] = False"
| "has_prefix (p # ps) (c # s) = (p = c \<and> has_prefix ps s)"

fun strip_rune :: "string list \<Rightarrow> string \<Rightarrow> string option" where
  "strip_rune [] s = None"
| "strip_rune (r # rs) s = (if has_prefix r s then Some (drop (length r) s) else strip_rune rs s)"

fun trim_left :: "string list \<Rightarrow> string \<Rightarrow> string" where
  "trim_left rs s = (case strip_rune rs s of
       None \<Rightarrow> s
     | Some s' \<Rightarrow> if length s' < length s then trim_left rs s' else s)"

declare trim_left.simps [simp del]

definition trim_right :: "string list \<Rightarrow> string \<Rightarrow> string" where
  "trim_right rs s = rev (trim_left (map rev rs) (rev s))"

definition TrimSpace :: "string \<Rightarrow> string" where
  "TrimSpace s = trim_right white_space (trim_left white_space s)"

definition TrimPrefix :: "string \<Rightarrow> string \<Rightarrow> string" where
  "TrimPrefix s p = (if has_prefix p s then drop (length p) s else s)"

definition TrimChar :: "char \<Rightarrow> string \<Rightarrow> string" where
  "TrimChar c s = rev (dropWhile ((=) c) (rev (dropWhile ((=) c) s)))"

definition TrimRightChar :: "char \<Rightarrow> string \<Rightarrow> string" where
  "TrimRightChar c s = rev (dropWhile ((=) c) (rev s))"

definition lower_char :: "char \<Rightarrow> char" where
  "lower_char c = (let n = (of_char c :: nat) in
     if 65 \<le> n \<and> n \<le> 90 then char_of (n + 32) else c)"

definition ToLower :: "string \<Rightarrow> string" where
  "ToLower s = map lower_char s"

definition EqualFold :: "string \<Rightarrow> string \<Rightarrow> bool" where
  "EqualFold a b \<longleftrightarrow> ToLower a = ToLower b"

text \<open>\<open>strings.Split\<close> and \<open>strings.SplitN(_, _, 2)\<close> with a separator of one byte.\<close>

fun Split :: "char \<Rightarrow> string \<Rightarrow> string list" where
  "Split sep [] = [[]]"
| "Split sep (c # s) = (if c = sep then [] # Split sep s
     else (case Split sep s of [] \<Rightarrow> [[c]] | p # ps \<Rightarrow> (c # p) # ps))"

fun SplitN2 :: "char \<Rightarrow> string \<Rightarrow> string list" where
  "SplitN2 sep [] = [[]]"
| "SplitN2 sep (c # s) = (if c = sep then [[], s]
     else (case SplitN2 sep s of [] \<Rightarrow> [[c]] | p # ps \<Rightarrow> (c # p) # ps))"

fun Join :: "string list \<Rightarrow> string \<Rightarrow> string" where
  "Join [] sep = []"
| "Join [p] sep = p"
| "Join (p # ps) sep = p @ sep @ Join ps sep"

text \<open>\<open>strings.Contains\<close>.\<close>

fun Contains :: "string \<Rightarrow> string \<Rightarrow> bool" where
  "Contains sub [] \<longleftrightarrow> sub = []"
| "Contains sub (c # s) \<longleftrightarrow> has_prefix sub (c # s) \<or> Contains sub s"

definition ContainsChar :: "char \<Rightarrow> string \<Rightarrow> bool" where
  "ContainsChar c s \<longleftrightarrow> c \<in> set s"

section \<open>strconv and the %x verbs of fmt\<close>

definition digit_char :: "nat \<Rightarrow> char" where
  "digit_char d = (if d < 10 then char_of (48 + d) else char_of (87 + d))"

definition digit_val :: "char \<Rightarrow> nat option" where
  "digit_val c = (let n = (of_char c :: nat) in
     if 48 \<le> n \<and> n \<le> 57 then Some (n - 48)
     else if 97 \<le> n \<and> n \<le> 122 then Some (n - 87)
     else if 65 \<le> n \<and> n \<le> 90 then Some (n - 55)
     else None)"

fun fmt_uint :: "nat \<Rightarrow> nat \<Rightarrow> string" where
  "fmt_uint b n = (if b < 2 \<or> n < b then [digit_char n] else fmt_uint b (n div b) @ [digit_char (n mod b)])"

declare fmt_uint.simps [simp del]

fun parse_digits :: "nat \<Rightarrow> nat \<Rightarrow> string \<Rightarrow> nat option" where
  "parse_digits b acc [] = Some acc"
| "parse_digits b acc (c # cs) = (case digit_val c of
       None \<Rightarrow> None
     | Some d \<Rightarrow> if d < b then parse_digits b (acc * b + d) cs else None)"

definition parse_uint :: "nat \<Rightarrow> string \<Rightarrow> nat option" where
  "parse_uint b s = (if s = [] then None else parse_digits b 0 s)"

text \<open>\<open>FormatInt\<close> in base 10 (\<open>Itoa\<close>, the \<open>%d\<close> verb), and \<open>ParseInt(s, base, 64)\<close> and
  \<open>ParseUint(s, 10, bits)\<close>: \<open>None\<close> is the error result.\<close>

definition FormatInt :: "int \<Rightarrow> string" where
  "FormatInt n = (if n < 0 then CHR ''-'' # fmt_uint 10 (nat (- n)) else fmt_uint 10 (nat n))"

definition ParseInt :: "nat \<Rightarrow> string \<Rightarrow> int64 option" where
  "ParseInt base s = (case s of
       [] \<Rightarrow> None
     | c # cs \<Rightarrow>
         if c = CHR ''-'' then
           (case parse_uint base cs of None \<Rightarrow> None
            | Some n \<Rightarrow> if n \<le> 2 ^ 63 then Some (- int n) else None)
         else
           (case parse_uint base (if c = CHR ''+'' then cs else s) of None \<Rightarrow> None
            | Some n \<Rightarrow> if n < 2 ^ 63 then Some (int n) else None))"

definition ParseUint :: "nat \<Rightarrow> string \<Rightarrow> nat option" where
  "ParseUint bits s = (case parse_uint 10 s of None \<Rightarrow> None
     | Some n \<Rightarrow> if n < 2 ^ bits then Some n else None)"

definition pad0 :: "nat \<Rightarrow> string \<Rightarrow> string" where
  "pad0 w s = replicate (w - length s) (CHR ''0'') @ s"

text \<open>The \<open>%016x\<close> verb on a non-negative counter.\<close>

definition hex016 :: "nat \<Rightarrow> string" where
  "hex016 n = pad0 16 (fmt_uint 16 n)"

section \<open>encoding/hex\<close>

definition hex_encode :: "string \<Rightarrow> string" where
  "hex_encode bs = concat (map (\<lambda>c. let n = (of_char c :: nat) in
     [digit_char (n div 16), digit_char (n mod 16)]) bs)"

definition hex_digit :: "char \<Rightarrow> nat option" where
  "hex_digit c = (case digit_val c of None \<Rightarrow> None | Some d \<Rightarrow> if d < 16 then Some d else None)"

fun hex_decode :: "string \<Rightarrow> string option" where
  "hex_decode [] = Some []"
| "hex_decode [_] = None"
| "hex_decode (a # b # s) = (case (hex_digit a, hex_digit b, hex_decode s) of
       (Some x, Some y, Some r) \<Rightarrow> Some (char_of (16 * x + y) # r)
     | _ \<Rightarrow> None)"

section \<open>time\<close>

text \<open>
  A \<open>time.Time\<close> is the number of nanoseconds since Go's zero time, so \<open>IsZero\<close> is
  equality with 0; the source always moves to UTC, which keeps the instant. A
  \<open>time.Duration\<close> is an \<open>int64\<close> of nanoseconds.
\<close>

type_synonym time = int
type_synonym duration = int64

abbreviation IsZero :: "time \<Rightarrow> bool" where "IsZero t \<equiv> t = 0"

definition Second :: duration where "Second = 1000000000"
definition Millisecond :: duration where "Millisecond = 1000000"
definition Minute :: duration where "Minute = 60 * Second"
definition Hour :: duration where "Hour = 60 * Minute"

text \<open>\<open>Time.Unix\<close>, whole seconds since 1970, and \<open>time.Unix(n, 0).UTC()\<close>.\<close>

definition Unix :: "time \<Rightarrow> int64" where
  "Unix t = t div 1000000000 - 62135596800"

definition unix_time :: "int64 \<Rightarrow> time" where
  "unix_time n = (n + 62135596800) * 1000000000"

lemma Unix_unix_time [simp]: "Unix (unix_time n) = n"
  by (simp add: Unix_def unix_time_def)

section \<open>Lemmas: digits and numbers\<close>

lemma of_char_char_of_small: "n < 256 \<Longrightarrow> (of_char (char_of n :: char) :: nat) = n"
  by simp

lemma digit_val_digit_char [simp]: "d < 16 \<Longrightarrow> digit_val (digit_char d) = Some d"
  by (simp add: digit_val_def digit_char_def Let_def)

lemma parse_digits_append:
  "parse_digits b acc (xs @ ys) = Option.bind (parse_digits b acc xs) (\<lambda>a. parse_digits b a ys)"
  by (induction xs arbitrary: acc) (auto split: option.splits)

lemma fmt_uint_not_Nil [simp]: "fmt_uint b n \<noteq> []"
  by (subst fmt_uint.simps) simp

lemma fmt_uint_small: "n < b \<Longrightarrow> fmt_uint b n = [digit_char n]"
  by (subst fmt_uint.simps) simp

lemma fmt_uint_step:
  "2 \<le> b \<Longrightarrow> \<not> n < b \<Longrightarrow> fmt_uint b n = fmt_uint b (n div b) @ [digit_char (n mod b)]"
  by (subst fmt_uint.simps) simp

lemma of_char_bound: "(of_char (c :: char) :: nat) < 256"
  by (rule nat_of_char_less_256)

text \<open>The characters of a printed number.\<close>

definition is_digit :: "nat \<Rightarrow> char \<Rightarrow> bool" where
  "is_digit b c \<longleftrightarrow> c \<in> digit_char ` {..<b}"

lemma is_digitI [intro]: "d < b \<Longrightarrow> is_digit b (digit_char d)"
  by (simp add: is_digit_def)

lemma is_digit_mono: "is_digit b c \<Longrightarrow> b \<le> b' \<Longrightarrow> is_digit b' c"
  by (auto simp: is_digit_def)

lemma is_digitE: "is_digit b c \<Longrightarrow> (\<And>d. d < b \<Longrightarrow> c = digit_char d \<Longrightarrow> P) \<Longrightarrow> P"
  by (auto simp: is_digit_def)

lemma parse_digits_fmt_uint:
  assumes "2 \<le> b" "b \<le> 16"
  shows "parse_digits b 0 (fmt_uint b n) = Some n"
  using assms
proof (induction b n rule: fmt_uint.induct)
  case (1 b n)
  show ?case
  proof (cases "n < b")
    case True
    with "1.prems" show ?thesis by (subst fmt_uint.simps) simp
  next
    case False
    with 1 have "parse_digits b 0 (fmt_uint b (n div b)) = Some (n div b)" by simp
    moreover have "n mod b < b" "n mod b < 16"
      using "1.prems" mod_less_divisor [of b n] by linarith+
    ultimately show ?thesis
      using False "1.prems" by (subst fmt_uint.simps) (simp add: parse_digits_append)
  qed
qed

lemma parse_digits_zeros: "0 < b \<Longrightarrow> parse_digits b 0 (replicate k (CHR ''0'') @ s) = parse_digits b 0 s"
proof (induction k)
  case (Suc k)
  moreover have "digit_val (CHR ''0'') = Some 0" by (simp add: digit_val_def)
  ultimately show ?case by simp
qed simp

lemma parse_uint_fmt_uint [simp]: "2 \<le> b \<Longrightarrow> b \<le> 16 \<Longrightarrow> parse_uint b (fmt_uint b n) = Some n"
  by (simp add: parse_uint_def parse_digits_fmt_uint)

lemma parse_uint_hex016 [simp]: "parse_uint 16 (hex016 n) = Some n"
  by (simp add: parse_uint_def hex016_def pad0_def parse_digits_zeros parse_digits_fmt_uint)

lemma hex016_inj [simp]: "hex016 m = hex016 n \<longleftrightarrow> m = n"
  using parse_uint_hex016 by (metis option.inject)

lemma is_digit_neq:
  assumes "is_digit 16 c"
  shows "c \<noteq> CHR ''-''" "c \<noteq> CHR ''+''" "c \<noteq> CHR ''|''" "c \<noteq> CHR ''.''" "c \<noteq> CHR ''/''" "c \<noteq> CHR ''_''"
proof -
  have no: "digit_val (CHR ''-'') = None" "digit_val (CHR ''+'') = None" "digit_val (CHR ''|'') = None"
    "digit_val (CHR ''.'') = None" "digit_val (CHR ''/'') = None" "digit_val (CHR ''_'') = None"
    by (simp_all add: digit_val_def)
  from assms obtain d where "d < 16" "c = digit_char d" by (rule is_digitE)
  then have "digit_val c \<noteq> None" by simp
  with no show "c \<noteq> CHR ''-''" "c \<noteq> CHR ''+''" "c \<noteq> CHR ''|''" "c \<noteq> CHR ''.''" "c \<noteq> CHR ''/''" "c \<noteq> CHR ''_''"
    by metis+
qed

lemma set_fmt_uint: "2 \<le> b \<Longrightarrow> c \<in> set (fmt_uint b n) \<Longrightarrow> is_digit b c"
proof (induction b n rule: fmt_uint.induct)
  case (1 b n)
  show ?case
  proof (cases "n < b")
    case True
    with "1.prems" show ?thesis by (auto simp: fmt_uint_small)
  next
    case False
    with "1.prems" have "c \<in> set (fmt_uint b (n div b)) \<or> c = digit_char (n mod b)"
      by (auto simp: fmt_uint_step)
    then show ?thesis
    proof
      assume "c \<in> set (fmt_uint b (n div b))"
      with 1 False show ?thesis by simp
    next
      assume "c = digit_char (n mod b)"
      with "1.prems" show ?thesis by (simp add: is_digitI)
    qed
  qed
qed

lemma hd_fmt_uint: "2 \<le> b \<Longrightarrow> b \<le> 16 \<Longrightarrow> is_digit 16 (hd (fmt_uint b n))"
  using set_fmt_uint [of b "hd (fmt_uint b n)" n] by (simp add: is_digit_mono)

lemma set_hex016: "c \<in> set (hex016 n) \<Longrightarrow> is_digit 16 c"
proof -
  have "digit_char 0 = CHR ''0''" by code_simp
  then have "is_digit 16 (CHR ''0'')" using is_digitI [of 0 16] by simp
  moreover assume "c \<in> set (hex016 n)"
  then have "c = CHR ''0'' \<or> c \<in> set (fmt_uint 16 n)"
    by (auto simp: hex016_def pad0_def split: if_splits)
  ultimately show ?thesis using set_fmt_uint [of 16 c n] by fastforce
qed

lemma hex016_not_Nil [simp]: "hex016 n \<noteq> []"
  by (simp add: hex016_def pad0_def)

text \<open>A number survives printing and parsing, in the range the parser accepts.\<close>

lemma ParseInt_unsigned:
  assumes "s \<noteq> []" "hd s \<noteq> CHR ''-''" "hd s \<noteq> CHR ''+''" "parse_uint b s = Some n" "n < 2 ^ 63"
  shows "ParseInt b s = Some (int n)"
  using assms by (cases s) (simp_all add: ParseInt_def)

lemma ParseInt_FormatInt: "in_int64 n \<Longrightarrow> ParseInt 10 (FormatInt n) = Some n"
proof (cases "n < 0")
  case True
  assume "in_int64 n"
  then have "nat (- n) \<le> 2 ^ 63" by (simp add: in_int64_def nat_le_iff)
  with True show ?thesis by (simp add: ParseInt_def FormatInt_def)
next
  case False
  assume "in_int64 n"
  with False have "nat n < 2 ^ 63" by (simp add: in_int64_def nat_less_iff)
  then show ?thesis
    using False is_digit_neq [OF hd_fmt_uint [of 10 "nat n"]]
      ParseInt_unsigned [of "fmt_uint 10 (nat n)" 10 "nat n"]
    by (simp add: FormatInt_def)
qed

lemma ParseInt_hex016: "n < 2 ^ 63 \<Longrightarrow> ParseInt 16 (hex016 n) = Some (int n)"
  using is_digit_neq [OF set_hex016 [of "hd (hex016 n)" n]]
  by (intro ParseInt_unsigned) auto

lemma fmt_uint_inj: "2 \<le> b \<Longrightarrow> b \<le> 16 \<Longrightarrow> fmt_uint b m = fmt_uint b n \<Longrightarrow> m = n"
  by (metis option.inject parse_uint_fmt_uint)

lemma FormatInt_neg_pos: "m < 0 \<Longrightarrow> 0 \<le> n \<Longrightarrow> FormatInt m \<noteq> FormatInt n"
proof
  assume "m < 0" "0 \<le> n" and eq: "FormatInt m = FormatInt n"
  then have "hd (fmt_uint 10 (nat n)) = CHR ''-''" by (simp add: FormatInt_def) (metis list.sel(1))
  with is_digit_neq [OF hd_fmt_uint [of 10 "nat n"]] show False by simp
qed

lemma FormatInt_inj: "FormatInt m = FormatInt n \<Longrightarrow> m = n"
proof -
  assume eq: "FormatInt m = FormatInt n"
  consider "m < 0" "n < 0" | "0 \<le> m" "0 \<le> n" | "m < 0" "0 \<le> n" | "0 \<le> m" "n < 0" by linarith
  then show ?thesis
  proof cases
    case 1
    with eq have "nat (- m) = nat (- n)" by (intro fmt_uint_inj [of 10]) (simp_all add: FormatInt_def)
    with 1 show ?thesis by simp
  next
    case 2
    with eq have "nat m = nat n" by (intro fmt_uint_inj [of 10]) (simp_all add: FormatInt_def)
    with 2 show ?thesis by simp
  next
    case 3
    with eq show ?thesis using FormatInt_neg_pos by blast
  next
    case 4
    with eq show ?thesis using FormatInt_neg_pos [of n m] by simp
  qed
qed

lemma Split_no_sep: "sep \<notin> set s \<Longrightarrow> Split sep s = [s]"
  by (induction s) auto

lemma Split_append_sep: "sep \<notin> set s \<Longrightarrow> Split sep (s @ sep # t) = s # Split sep t"
  by (induction s) auto

lemma Split_not_Nil [simp]: "Split sep s \<noteq> []"
  by (cases s) (auto split: list.splits)

lemma SplitN2_append_sep: "sep \<notin> set s \<Longrightarrow> SplitN2 sep (s @ sep # t) = [s, t]"
  by (induction s) auto

lemma Join_Split: "Join (Split sep s) [sep] = s"
proof (induction s)
  case (Cons c s)
  obtain p ps where "Split sep s = p # ps" by (meson Split_not_Nil neq_Nil_conv)
  with Cons show ?case by (cases ps) auto
qed simp

lemma Split_parts_no_sep: "p \<in> set (Split sep s) \<Longrightarrow> sep \<notin> set p"
  by (induction s arbitrary: p) (auto split: list.splits if_splits)

section \<open>Lemmas: hexadecimal bytes\<close>

lemma hex_digit_digit_char [simp]: "d < 16 \<Longrightarrow> hex_digit (digit_char d) = Some d"
  by (simp add: hex_digit_def)

lemma hex_decode_encode [simp]: "hex_decode (hex_encode s) = Some s"
proof (induction s)
  case (Cons c s)
  have "(of_char c :: nat) div 16 < 16"
    using of_char_bound [of c] by (simp add: div_less_iff_less_mult)
  moreover have "(char_of (16 * ((of_char c :: nat) div 16) + (of_char c :: nat) mod 16) :: char) = c"
    by simp
  ultimately show ?case
    using Cons by (simp add: hex_encode_def Let_def)
qed (simp add: hex_encode_def)

lemma set_hex_encode: "c \<in> set (hex_encode s) \<Longrightarrow> is_digit 16 c"
proof -
  have "is_digit 16 (digit_char ((of_char x :: nat) div 16))"
    "is_digit 16 (digit_char ((of_char x :: nat) mod 16))" for x :: char
    using of_char_bound [of x] by (auto simp: div_less_iff_less_mult)
  then show "c \<in> set (hex_encode s) \<Longrightarrow> ?thesis"
    by (auto simp: hex_encode_def Let_def)
qed

lemma length_hex_encode [simp]: "length (hex_encode s) = 2 * length s"
  by (induction s) (simp_all add: hex_encode_def Let_def)

section \<open>Lemmas: trimming\<close>

lemma has_prefix_iff: "has_prefix p s \<longleftrightarrow> (\<exists>t. s = p @ t)"
  by (induction p s rule: has_prefix.induct) auto

lemma strip_rune_None: "strip_rune rs s = None \<longleftrightarrow> (\<forall>r \<in> set rs. \<not> has_prefix r s)"
  by (induction rs) auto

lemma trim_left_id: "(\<forall>r \<in> set rs. \<not> has_prefix r s) \<Longrightarrow> trim_left rs s = s"
  by (subst trim_left.simps) (simp add: strip_rune_None [THEN iffD2])

lemma strip_rune_Some:
  "strip_rune rs s = Some s' \<Longrightarrow> \<exists>r \<in> set rs. s = r @ s'"
  by (induction rs) (auto simp: has_prefix_iff split: if_splits)

lemma trim_left_suffix: "\<exists>p. s = p @ trim_left rs s"
proof (induction rs s rule: trim_left.induct)
  case (1 rs s)
  show ?case
  proof (cases "strip_rune rs s")
    case None
    then show ?thesis by (subst trim_left.simps) simp
  next
    case (Some s')
    then obtain r where "s = r @ s'" using strip_rune_Some by blast
    show ?thesis
    proof (cases "length s' < length s")
      case True
      with 1 Some obtain p where "s' = p @ trim_left rs s'" by blast
      with True Some \<open>s = r @ s'\<close> have "s = (r @ p) @ trim_left rs s"
        by (subst trim_left.simps) simp
      then show ?thesis by blast
    next
      case False
      with Some have "s = [] @ trim_left rs s" by (subst trim_left.simps) simp
      then show ?thesis by blast
    qed
  qed
qed

lemma trim_left_stop:
  assumes "[] \<notin> set rs" "r \<in> set rs"
  shows "\<not> has_prefix r (trim_left rs s)"
  using assms
proof (induction rs s rule: trim_left.induct)
  case (1 rs s)
  show ?case
  proof (cases "strip_rune rs s")
    case None
    with "1.prems" show ?thesis
      by (subst trim_left.simps, simp) (simp add: strip_rune_None)
  next
    case (Some s')
    then obtain r' where "r' \<in> set rs" "s = r' @ s'" using strip_rune_Some by blast
    with "1.prems" have "length s' < length s" by (cases r') auto
    with 1 Some show ?thesis by (subst trim_left.simps) simp
  qed
qed

lemma white_space_not_Nil [simp]: "[] \<notin> set white_space"
  by (simp add: white_space_def ascii_space_def wide_space_def)

text \<open>A string that neither starts nor ends with a white-space code point is unchanged.\<close>

definition no_outer_space :: "string \<Rightarrow> bool" where
  "no_outer_space s \<longleftrightarrow>
     (\<forall>r \<in> set white_space. \<not> has_prefix r s \<and> \<not> has_prefix (rev r) (rev s))"

lemma TrimSpace_id: "no_outer_space s \<Longrightarrow> TrimSpace s = s"
  by (simp add: TrimSpace_def trim_right_def no_outer_space_def trim_left_id)

lemma TrimSpace_no_outer: "no_outer_space (TrimSpace s)"
  unfolding no_outer_space_def
proof (intro ballI conjI)
  fix r assume r: "r \<in> set white_space"
  have nil: "[] \<notin> set (map rev white_space)" by (metis image_iff list.set_map rev_is_Nil_conv white_space_not_Nil)
  define t where "t = trim_left white_space s"
  have eq: "TrimSpace s = rev (trim_left (map rev white_space) (rev t))"
    by (simp add: TrimSpace_def trim_right_def t_def)
  show "\<not> has_prefix (rev r) (rev (TrimSpace s))"
    unfolding eq using r trim_left_stop [OF nil, of "rev r"] by simp
  obtain p where "rev t = p @ trim_left (map rev white_space) (rev t)"
    using trim_left_suffix by blast
  then have "t = TrimSpace s @ rev p" unfolding eq by (metis rev_append rev_rev_ident)
  moreover have "\<not> has_prefix r t"
    unfolding t_def using r by (intro trim_left_stop) simp_all
  ultimately show "\<not> has_prefix r (TrimSpace s)" by (auto simp: has_prefix_iff)
qed

lemma TrimSpace_idem [simp]: "TrimSpace (TrimSpace s) = TrimSpace s"
  by (rule TrimSpace_id [OF TrimSpace_no_outer])

lemma TrimSpace_Nil [simp]: "TrimSpace [] = []"
  by (rule TrimSpace_id)
    (simp add: no_outer_space_def white_space_def ascii_space_def wide_space_def)

text \<open>Identifiers: a first byte below 128 that is no space, a last byte that is a digit.\<close>

definition plain_char :: "char \<Rightarrow> bool" where
  "plain_char c \<longleftrightarrow> (let n = (of_char c :: nat) in 33 \<le> n \<and> n < 128)"

lemma no_outer_space_plain:
  assumes "s \<noteq> []" "plain_char (hd s)" "plain_char (last s)"
  shows "no_outer_space s"
proof -
  have ends: "\<forall>r \<in> set white_space. r \<noteq> [] \<and> \<not> plain_char (hd r) \<and> \<not> plain_char (last r)"
    by (simp add: white_space_def ascii_space_def wide_space_def plain_char_def)
  have "\<not> has_prefix r s" if "r \<in> set white_space" for r
    using ends assms that by (auto simp: has_prefix_iff)
  moreover have "\<not> has_prefix (rev r) (rev s)" if "r \<in> set white_space" for r
  proof
    assume "has_prefix (rev r) (rev s)"
    then obtain t where "rev s = rev r @ t" by (auto simp: has_prefix_iff)
    then have "s = rev t @ r" by (metis rev_append rev_rev_ident)
    with ends assms that show False by auto
  qed
  ultimately show ?thesis by (simp add: no_outer_space_def)
qed

lemma plain_digit: "is_digit 16 c \<Longrightarrow> plain_char c"
  by (erule is_digitE) (auto simp: plain_char_def digit_char_def Let_def)

lemma TrimSpace_id_hex016:
  "plain_char c \<Longrightarrow> TrimSpace (c # p @ hex016 n) = c # p @ hex016 n"
  using plain_digit [OF set_hex016 [of "last (hex016 n)" n]]
  by (intro TrimSpace_id no_outer_space_plain) simp_all

lemma lower_char_idem [simp]: "lower_char (lower_char c) = lower_char c"
  by (simp add: lower_char_def Let_def)

lemma ToLower_idem [simp]: "ToLower (ToLower s) = ToLower s"
  by (simp add: ToLower_def)

end
