(* ===== verification/Domain.thy ===== *)
theory Domain
  imports GoLib
begin

text \<open>
  The package \<open>internal/domain\<close>: errors, merchants and their settings, invoices, deposits,
  invoice events, refunds, review cases, event sinks and deliveries. A struct is a record
  with the struct's fields; a string type with named constants is a datatype with one
  constructor per constant. Where the source converts an arbitrary string into such a
  type (the payment policies and the sink kinds, which \<open>Validate\<close> and \<open>CreateEventSink\<close>
  check) the datatype has one more constructor for every other string.
\<close>

section \<open>JSON values\<close>

text \<open>
  A value of \<open>encoding/json\<close>. A number keeps its literal, since decoding it into an integer
  type parses the literal; the members of an object keep their order, since the decoder
  visits them in order. A \<open>json.RawMessage\<close> is the value its text denotes, with the empty
  text and text that is not JSON as two more cases.
\<close>

datatype json = JNull | JBool bool | JNum string | JStr string
  | JArr "json list" | JObj "(string \<times> json) list"

datatype raw_message = RawEmpty | RawBad | RawJson json

section \<open>Errors\<close>

datatype ErrorCode = ErrInvalidArgument | ErrInvariantViolated

fun ErrorCode_str :: "ErrorCode \<Rightarrow> string" where
  "ErrorCode_str ErrInvalidArgument = ''invalid_argument''"
| "ErrorCode_str ErrInvariantViolated = ''invariant_violated''"

text \<open>
  The values of Go's \<open>error\<close> the store returns: the three sentinel errors of
  \<open>internal/store\<close>, a \<open>domain.Error\<close> with its code and message, and any other error
  with its text.
\<close>

datatype store_error = ErrNotFound | ErrConflict | ErrForbidden
  | DomainError ErrorCode string | OtherError string

definition NewError :: "ErrorCode \<Rightarrow> string \<Rightarrow> store_error" where
  "NewError code msg = DomainError code msg"

fun AsError :: "store_error \<Rightarrow> (ErrorCode \<times> string) option" where
  "AsError (DomainError code msg) = Some (code, msg)"
| "AsError _ = None"

abbreviation invalid_argument :: "string \<Rightarrow> store_error" where
  "invalid_argument msg \<equiv> NewError ErrInvalidArgument msg"

section \<open>Merchants\<close>

datatype MerchantStatus = MerchantActive | MerchantDisabled

fun MerchantStatus_str :: "MerchantStatus \<Rightarrow> string" where
  "MerchantStatus_str MerchantActive = ''active''"
| "MerchantStatus_str MerchantDisabled = ''disabled''"

datatype LatePaymentPolicy = LatePaymentMarkPaidLate | LatePaymentManualReview
  | LatePaymentIgnore | LatePaymentOther string

definition LatePaymentPolicy_of :: "string \<Rightarrow> LatePaymentPolicy" where
  "LatePaymentPolicy_of s =
     (if s = ''mark_paid_late'' then LatePaymentMarkPaidLate
      else if s = ''manual_review'' then LatePaymentManualReview
      else if s = ''ignore'' then LatePaymentIgnore
      else LatePaymentOther s)"

fun LatePaymentPolicy_str :: "LatePaymentPolicy \<Rightarrow> string" where
  "LatePaymentPolicy_str LatePaymentMarkPaidLate = ''mark_paid_late''"
| "LatePaymentPolicy_str LatePaymentManualReview = ''manual_review''"
| "LatePaymentPolicy_str LatePaymentIgnore = ''ignore''"
| "LatePaymentPolicy_str (LatePaymentOther s) = s"

datatype PartialPaymentPolicy = PartialPaymentAccept | PartialPaymentReject
  | PartialPaymentOther string

definition PartialPaymentPolicy_of :: "string \<Rightarrow> PartialPaymentPolicy" where
  "PartialPaymentPolicy_of s =
     (if s = ''accept_partial'' then PartialPaymentAccept
      else if s = ''reject_partial'' then PartialPaymentReject
      else PartialPaymentOther s)"

fun PartialPaymentPolicy_str :: "PartialPaymentPolicy \<Rightarrow> string" where
  "PartialPaymentPolicy_str PartialPaymentAccept = ''accept_partial''"
| "PartialPaymentPolicy_str PartialPaymentReject = ''reject_partial''"
| "PartialPaymentPolicy_str (PartialPaymentOther s) = s"

datatype OverpaymentPolicy = OverpaymentMarkOverpaid | OverpaymentManualReview
  | OverpaymentOther string

definition OverpaymentPolicy_of :: "string \<Rightarrow> OverpaymentPolicy" where
  "OverpaymentPolicy_of s =
     (if s = ''mark_overpaid'' then OverpaymentMarkOverpaid
      else if s = ''manual_review'' then OverpaymentManualReview
      else OverpaymentOther s)"

fun OverpaymentPolicy_str :: "OverpaymentPolicy \<Rightarrow> string" where
  "OverpaymentPolicy_str OverpaymentMarkOverpaid = ''mark_overpaid''"
| "OverpaymentPolicy_str OverpaymentManualReview = ''manual_review''"
| "OverpaymentPolicy_str (OverpaymentOther s) = s"

record InvoicePolicies =
  pol_LatePayment :: LatePaymentPolicy
  pol_PartialPayment :: PartialPaymentPolicy
  pol_Overpayment :: OverpaymentPolicy

record MerchantSettings =
  set_InvoiceTTLSeconds :: int64
  set_RequiredConfirmations :: int32
  set_Policies :: InvoicePolicies

text \<open>\<open>time.Duration(s.InvoiceTTLSeconds) * time.Second\<close>, an \<open>int64\<close> product that wraps.\<close>

definition InvoiceTTL :: "MerchantSettings \<Rightarrow> duration" where
  "InvoiceTTL st = wrap64 (set_InvoiceTTLSeconds st * Second)"

definition Validate :: "MerchantSettings \<Rightarrow> store_error option" where
  "Validate st =
     (if set_InvoiceTTLSeconds st < 0 then
        Some (NewError ErrInvalidArgument ''invoice_ttl_seconds must be >= 0'')
      else if set_RequiredConfirmations st < 0 then
        Some (NewError ErrInvalidArgument ''required_confirmations must be >= 0'')
      else (case pol_LatePayment (set_Policies st) of
          LatePaymentOther _ \<Rightarrow> Some (NewError ErrInvalidArgument ''late_payment_policy invalid'')
        | _ \<Rightarrow> (case pol_PartialPayment (set_Policies st) of
          PartialPaymentOther _ \<Rightarrow> Some (NewError ErrInvalidArgument ''partial_payment_policy invalid'')
        | _ \<Rightarrow> (case pol_Overpayment (set_Policies st) of
          OverpaymentOther _ \<Rightarrow> Some (NewError ErrInvalidArgument ''overpayment_policy invalid'')
        | _ \<Rightarrow> None))))"

record Merchant =
  m_MerchantID :: string
  m_Name :: string
  m_Status :: MerchantStatus
  m_Settings :: MerchantSettings
  m_CreatedAt :: time
  m_UpdatedAt :: time

section \<open>Invoices\<close>

datatype InvoiceStatus = InvoiceOpen | InvoicePartialPending | InvoicePending
  | InvoicePartialConfirmed | InvoiceConfirmed | InvoiceOverpaid | InvoiceExpired
  | InvoicePaidLate | InvoiceCanceled

fun InvoiceStatus_str :: "InvoiceStatus \<Rightarrow> string" where
  "InvoiceStatus_str InvoiceOpen = ''open''"
| "InvoiceStatus_str InvoicePartialPending = ''partial_pending''"
| "InvoiceStatus_str InvoicePending = ''pending''"
| "InvoiceStatus_str InvoicePartialConfirmed = ''partial_confirmed''"
| "InvoiceStatus_str InvoiceConfirmed = ''confirmed''"
| "InvoiceStatus_str InvoiceOverpaid = ''overpaid''"
| "InvoiceStatus_str InvoiceExpired = ''expired''"
| "InvoiceStatus_str InvoicePaidLate = ''paid_late''"
| "InvoiceStatus_str InvoiceCanceled = ''canceled''"

record Invoice =
  inv_InvoiceID :: string
  inv_MerchantID :: string
  inv_ExternalOrderID :: string
  inv_WalletID :: string
  inv_AddressIndex :: uint32
  inv_Address :: string
  inv_CreatedAfterHeight :: int64
  inv_CreatedAfterHash :: string
  inv_AmountZat :: int64
  inv_RequiredConfirmations :: int32
  inv_Policies :: InvoicePolicies
  inv_ReceivedPendingZat :: int64
  inv_ReceivedConfirmedZat :: int64
  inv_Status :: InvoiceStatus
  inv_ExpiresAt :: "time option"
  inv_CreatedAt :: time
  inv_UpdatedAt :: time

definition CanApplyDeposit :: "Invoice \<Rightarrow> int64 \<Rightarrow> bool" where
  "CanApplyDeposit iv depositHeight \<longleftrightarrow> depositHeight > inv_CreatedAfterHeight iv"

section \<open>Deposits\<close>

datatype DepositStatus = DepositDetected | DepositConfirmed | DepositUnconfirmed | DepositOrphaned

fun DepositStatus_str :: "DepositStatus \<Rightarrow> string" where
  "DepositStatus_str DepositDetected = ''detected''"
| "DepositStatus_str DepositConfirmed = ''confirmed''"
| "DepositStatus_str DepositUnconfirmed = ''unconfirmed''"
| "DepositStatus_str DepositOrphaned = ''orphaned''"

record Deposit =
  dp_WalletID :: string
  dp_TxID :: string
  dp_ActionIndex :: int32
  dp_RecipientAddress :: string
  dp_AmountZat :: int64
  dp_Height :: int64
  dp_Status :: DepositStatus
  dp_ConfirmedHeight :: "int64 option"
  dp_InvoiceID :: "string option"
  dp_DetectedAt :: time
  dp_UpdatedAt :: time

section \<open>Refunds\<close>

datatype RefundStatus = RefundRequested | RefundSent | RefundCanceled

fun RefundStatus_str :: "RefundStatus \<Rightarrow> string" where
  "RefundStatus_str RefundRequested = ''requested''"
| "RefundStatus_str RefundSent = ''sent''"
| "RefundStatus_str RefundCanceled = ''canceled''"

record Refund =
  rf_RefundID :: string
  rf_MerchantID :: string
  rf_InvoiceID :: "string option"
  rf_ExternalRefundID :: "string option"
  rf_ToAddress :: string
  rf_AmountZat :: int64
  rf_Status :: RefundStatus
  rf_SentTxID :: "string option"
  rf_Notes :: string
  rf_CreatedAt :: time
  rf_UpdatedAt :: time

section \<open>Invoice events\<close>

datatype InvoiceEventType = InvoiceEventInvoiceCreated | InvoiceEventInvoiceExpired
  | InvoiceEventDepositDetected | InvoiceEventDepositConfirmed
  | InvoiceEventInvoicePaid | InvoiceEventInvoiceOverpaid
  | InvoiceEventRefundRequested | InvoiceEventRefundSent

fun InvoiceEventType_str :: "InvoiceEventType \<Rightarrow> string" where
  "InvoiceEventType_str InvoiceEventInvoiceCreated = ''invoice.created''"
| "InvoiceEventType_str InvoiceEventInvoiceExpired = ''invoice.expired''"
| "InvoiceEventType_str InvoiceEventDepositDetected = ''deposit.detected''"
| "InvoiceEventType_str InvoiceEventDepositConfirmed = ''deposit.confirmed''"
| "InvoiceEventType_str InvoiceEventInvoicePaid = ''invoice.paid''"
| "InvoiceEventType_str InvoiceEventInvoiceOverpaid = ''invoice.overpaid''"
| "InvoiceEventType_str InvoiceEventRefundRequested = ''refund.requested''"
| "InvoiceEventType_str InvoiceEventRefundSent = ''refund.sent''"

record DepositRef =
  dref_WalletID :: string
  dref_TxID :: string
  dref_ActionIndex :: int32
  dref_AmountZat :: int64
  dref_Height :: int64

record InvoiceEvent =
  ie_EventID :: string
  ie_Type :: InvoiceEventType
  ie_OccurredAt :: time
  ie_InvoiceID :: string
  ie_Deposit :: "DepositRef option"
  ie_Refund :: "Refund option"

section \<open>Review cases\<close>

datatype ReviewStatus = ReviewOpen | ReviewResolved | ReviewRejected

fun ReviewStatus_str :: "ReviewStatus \<Rightarrow> string" where
  "ReviewStatus_str ReviewOpen = ''open''"
| "ReviewStatus_str ReviewResolved = ''resolved''"
| "ReviewStatus_str ReviewRejected = ''rejected''"

datatype ReviewReason = ReviewLatePayment | ReviewPartialPayment | ReviewOverpayment
  | ReviewUnknownAddress | ReviewReorg | ReviewManualRefund

fun ReviewReason_str :: "ReviewReason \<Rightarrow> string" where
  "ReviewReason_str ReviewLatePayment = ''late_payment''"
| "ReviewReason_str ReviewPartialPayment = ''partial_payment''"
| "ReviewReason_str ReviewOverpayment = ''overpayment''"
| "ReviewReason_str ReviewUnknownAddress = ''unknown_address''"
| "ReviewReason_str ReviewReorg = ''reorg''"
| "ReviewReason_str ReviewManualRefund = ''manual_refund''"

record ReviewCase =
  rc_ReviewID :: string
  rc_MerchantID :: string
  rc_InvoiceID :: "string option"
  rc_Reason :: ReviewReason
  rc_Status :: ReviewStatus
  rc_Notes :: string
  rc_CreatedAt :: time
  rc_UpdatedAt :: time

section \<open>Sinks, deliveries and the outbound event envelope\<close>

datatype EventSinkKind = EventSinkWebhook | EventSinkKafka | EventSinkNATS | EventSinkRabbitMQ
  | EventSinkOther string

definition EventSinkKind_of :: "string \<Rightarrow> EventSinkKind" where
  "EventSinkKind_of s =
     (if s = ''webhook'' then EventSinkWebhook
      else if s = ''kafka'' then EventSinkKafka
      else if s = ''nats'' then EventSinkNATS
      else if s = ''rabbitmq'' then EventSinkRabbitMQ
      else EventSinkOther s)"

fun EventSinkKind_str :: "EventSinkKind \<Rightarrow> string" where
  "EventSinkKind_str EventSinkWebhook = ''webhook''"
| "EventSinkKind_str EventSinkKafka = ''kafka''"
| "EventSinkKind_str EventSinkNATS = ''nats''"
| "EventSinkKind_str EventSinkRabbitMQ = ''rabbitmq''"
| "EventSinkKind_str (EventSinkOther s) = s"

datatype EventSinkStatus = EventSinkActive | EventSinkDisabled

fun EventSinkStatus_str :: "EventSinkStatus \<Rightarrow> string" where
  "EventSinkStatus_str EventSinkActive = ''active''"
| "EventSinkStatus_str EventSinkDisabled = ''disabled''"

record EventSink =
  sk_SinkID :: string
  sk_MerchantID :: string
  sk_Kind :: EventSinkKind
  sk_Status :: EventSinkStatus
  sk_Config :: raw_message
  sk_CreatedAt :: time
  sk_UpdatedAt :: time

datatype EventDeliveryStatus = EventDeliveryPending | EventDeliveryDelivered | EventDeliveryFailed

fun EventDeliveryStatus_str :: "EventDeliveryStatus \<Rightarrow> string" where
  "EventDeliveryStatus_str EventDeliveryPending = ''pending''"
| "EventDeliveryStatus_str EventDeliveryDelivered = ''delivered''"
| "EventDeliveryStatus_str EventDeliveryFailed = ''failed''"

record EventDelivery =
  dl_DeliveryID :: string
  dl_SinkID :: string
  dl_EventID :: string
  dl_Status :: EventDeliveryStatus
  dl_Attempt :: int32
  dl_NextRetryAt :: "time option"
  dl_LastError :: "string option"
  dl_CreatedAt :: time
  dl_UpdatedAt :: time

record CloudEvent =
  ce_SpecVersion :: string
  ce_ID :: string
  ce_Source :: string
  ce_Type :: string
  ce_Subject :: string
  ce_Time :: time
  ce_DataContentType :: string
  ce_Data :: json

section \<open>Finite enumerations\<close>

text \<open>The two status types the case analyses below range over are finite, so the
  library's \<open>enum\<close> class decides closed statements about all their values.\<close>

instantiation DepositStatus :: enum
begin

definition enum_DepositStatus :: "DepositStatus list" where
  "enum_DepositStatus = [DepositDetected, DepositConfirmed, DepositUnconfirmed, DepositOrphaned]"

definition enum_all_DepositStatus :: "(DepositStatus \<Rightarrow> bool) \<Rightarrow> bool" where
  "enum_all_DepositStatus P \<longleftrightarrow> P DepositDetected \<and> P DepositConfirmed \<and> P DepositUnconfirmed \<and> P DepositOrphaned"

definition enum_ex_DepositStatus :: "(DepositStatus \<Rightarrow> bool) \<Rightarrow> bool" where
  "enum_ex_DepositStatus P \<longleftrightarrow> P DepositDetected \<or> P DepositConfirmed \<or> P DepositUnconfirmed \<or> P DepositOrphaned"

instance
proof
  show "(UNIV :: DepositStatus set) = set enum_class.enum"
    by (auto simp: enum_DepositStatus_def intro: DepositStatus.exhaust)
  show "distinct (enum_class.enum :: DepositStatus list)"
    by (simp add: enum_DepositStatus_def)
  fix P :: "DepositStatus \<Rightarrow> bool"
  show "enum_class.enum_all P \<longleftrightarrow> Ball UNIV P"
    by (simp add: enum_all_DepositStatus_def) (metis DepositStatus.exhaust)
  show "enum_class.enum_ex P \<longleftrightarrow> Bex UNIV P"
    by (simp add: enum_ex_DepositStatus_def) (metis DepositStatus.exhaust)
qed

end

section \<open>Properties of the domain types\<close>

lemma LatePaymentPolicy_roundtrip:
  "(\<forall>s. p \<noteq> LatePaymentOther s) \<Longrightarrow> LatePaymentPolicy_of (LatePaymentPolicy_str p) = p"
  by (cases p) (simp_all add: LatePaymentPolicy_of_def)

lemma LatePaymentPolicy_str_of [simp]: "LatePaymentPolicy_str (LatePaymentPolicy_of s) = s"
  by (simp add: LatePaymentPolicy_of_def)

lemma PartialPaymentPolicy_str_of [simp]: "PartialPaymentPolicy_str (PartialPaymentPolicy_of s) = s"
  by (simp add: PartialPaymentPolicy_of_def)

lemma OverpaymentPolicy_str_of [simp]: "OverpaymentPolicy_str (OverpaymentPolicy_of s) = s"
  by (simp add: OverpaymentPolicy_of_def)

lemma EventSinkKind_str_of [simp]: "EventSinkKind_str (EventSinkKind_of s) = s"
  by (simp add: EventSinkKind_of_def)

lemma Validate_None_iff:
  "Validate st = None \<longleftrightarrow> 0 \<le> set_InvoiceTTLSeconds st \<and> 0 \<le> set_RequiredConfirmations st \<and>
     (\<forall>s. pol_LatePayment (set_Policies st) \<noteq> LatePaymentOther s) \<and>
     (\<forall>s. pol_PartialPayment (set_Policies st) \<noteq> PartialPaymentOther s) \<and>
     (\<forall>s. pol_Overpayment (set_Policies st) \<noteq> OverpaymentOther s)"
  by (auto simp: Validate_def split: LatePaymentPolicy.splits PartialPaymentPolicy.splits
      OverpaymentPolicy.splits)

lemma Validate_error_code: "Validate st = Some e \<Longrightarrow> \<exists>msg. e = DomainError ErrInvalidArgument msg"
  by (auto simp: Validate_def NewError_def split: if_splits LatePaymentPolicy.splits
      PartialPaymentPolicy.splits OverpaymentPolicy.splits)

end
