(* ===== verification/JsonText.thy ===== *)
theory JsonText
  imports Domain
begin

text \<open>
  The text \<open>json.Marshal\<close> writes: strings with the escapes of \<open>encoding/json\<close> (HTML escaping
  on, as \<open>Marshal\<close> has it; the strings of the source are taken to be valid UTF-8), arrays and
  objects without white space, times in RFC 3339 with a fraction of up to nine digits and no trailing
  zeros, and the envelope of an outbound event.
\<close>

section \<open>Values\<close>

definition hex4 :: "nat \<Rightarrow> string" where
  "hex4 n = pad0 4 (fmt_uint 16 n)"

definition json_char :: "char \<Rightarrow> string" where
  "json_char c = (let n = (of_char c :: nat) in
     if n = 34 then [CHR 0x5C, c] else if n = 92 then [c, c]
     else if n = 8 then [CHR 0x5C, CHR ''b''] else if n = 12 then [CHR 0x5C, CHR ''f'']
     else if n = 10 then [CHR 0x5C, CHR ''n''] else if n = 13 then [CHR 0x5C, CHR ''r'']
     else if n = 9 then [CHR 0x5C, CHR ''t'']
     else if n < 32 \<or> n = 60 \<or> n = 62 \<or> n = 38 then CHR 0x5C # CHR ''u'' # hex4 n
     else [c])"

text \<open>The line and paragraph separators U+2028 and U+2029 are three bytes each.\<close>

fun json_chars :: "string \<Rightarrow> string" where
  "json_chars (a # b # c # s) =
     (if a = CHR 0xE2 \<and> b = CHR 0x80 \<and> (c = CHR 0xA8 \<or> c = CHR 0xA9)
      then CHR 0x5C # (if c = CHR 0xA8 then ''u2028'' else ''u2029'') @ json_chars s
      else json_char a @ json_chars (b # c # s))"
| "json_chars (a # s) = json_char a @ json_chars s"
| "json_chars [] = []"

definition quote :: "string \<Rightarrow> string" where
  "quote s = CHR 0x22 # json_chars s @ [CHR 0x22]"

fun json_text :: "json \<Rightarrow> string" where
  "json_text JNull = ''null''"
| "json_text (JBool b) = (if b then ''true'' else ''false'')"
| "json_text (JNum l) = l"
| "json_text (JStr s) = quote s"
| "json_text (JArr xs) = ''['' @ Join (map json_text xs) '','' @ '']''"
| "json_text (JObj kvs) = ''{'' @ Join (map (\<lambda>(k, v). quote k @ '':'' @ json_text v) kvs) '','' @ ''}''"

section \<open>Times\<close>

text \<open>The Gregorian date of a number of days since 1 January of year 1.\<close>

definition leap :: "int \<Rightarrow> bool" where
  "leap y \<longleftrightarrow> 4 dvd y \<and> (\<not> 100 dvd y \<or> 400 dvd y)"

definition year_day :: "int \<Rightarrow> int \<times> int" where
  "year_day days =
     (let q = days div 146097; r = days mod 146097;
          c = min 3 (r div 36524); r = r - c * 36524;
          f = r div 1461; r = r mod 1461;
          y = min 3 (r div 365)
      in (400 * q + 100 * c + 4 * f + y + 1, r - y * 365))"

fun month_day :: "nat \<Rightarrow> int list \<Rightarrow> int \<Rightarrow> nat \<times> int" where
  "month_day m [] d = (m, d)"
| "month_day m (l # ls) d = (if d < l then (m, d) else month_day (Suc m) ls (d - l))"

definition month_lengths :: "int \<Rightarrow> int list" where
  "month_lengths y = [31, if leap y then 29 else 28, 31, 30, 31, 30, 31, 31, 30, 31, 30]"

definition dec2 :: "int \<Rightarrow> string" where
  "dec2 n = pad0 2 (fmt_uint 10 (nat n))"

text \<open>\<open>Format(time.RFC3339Nano)\<close> of a time in UTC; \<open>Time.MarshalJSON\<close> writes the same but fails for
  years outside 0 to 9999, here \<open>None\<close>.\<close>

definition year_of :: "time \<Rightarrow> int" where
  "year_of t = fst (year_day (t div 1000000000 div 86400))"

definition year_text :: "int \<Rightarrow> string" where
  "year_text y = (if y < 0 then CHR ''-'' # pad0 4 (fmt_uint 10 (nat (- y))) else pad0 4 (fmt_uint 10 (nat y)))"

definition frac_text :: "int \<Rightarrow> string" where
  "frac_text ns = (let frac = TrimRightChar (CHR ''0'') (pad0 9 (fmt_uint 10 (nat ns)))
     in if frac = [] then [] else CHR ''.'' # frac)"

definition RFC3339Nano :: "time \<Rightarrow> string" where
  "RFC3339Nano t =
     (let secs = t div 1000000000; ns = t mod 1000000000;
          days = secs div 86400; sod = secs mod 86400;
          (y, yd) = year_day days; (m, d) = month_day 1 (month_lengths y) yd
      in year_text y @ ''-'' @ dec2 (int m) @ ''-'' @ dec2 (d + 1) @ ''T'' @
         dec2 (sod div 3600) @ '':'' @ dec2 (sod div 60 mod 60) @ '':'' @ dec2 (sod mod 60) @
         frac_text ns @ ''Z'')"

definition time_text :: "time \<Rightarrow> string option" where
  "time_text t = (if year_of t < 0 \<or> year_of t > 9999 then None else Some (RFC3339Nano t))"

text \<open>\<open>time.Parse(time.RFC3339, s)\<close>, which reads the times of JSON: one digit is enough for the
  hour, a comma may stand for the point of the fraction, and digits after the ninth are dropped.\<close>

definition getnum :: "bool \<Rightarrow> string \<Rightarrow> (int \<times> string) option" where
  "getnum fixed s = (case s of
       a # b # r \<Rightarrow>
         (if \<not> is_digit 10 a then None
          else if is_digit 10 b then Some (10 * (of_char a - 48) + (of_char b - 48), r)
          else if fixed then None else Some (of_char a - 48, b # r))
     | [a] \<Rightarrow> if is_digit 10 a \<and> \<not> fixed then Some (of_char a - 48, []) else None
     | [] \<Rightarrow> None)"

definition expect :: "char \<Rightarrow> string \<Rightarrow> string option" where
  "expect c s = (case s of x # r \<Rightarrow> if x = c then Some r else None | [] \<Rightarrow> None)"

definition get_year :: "string \<Rightarrow> (int \<times> string) option" where
  "get_year s = (case getnum True s of
       Some (a, r) \<Rightarrow> map_option (\<lambda>(b, r). (100 * a + b, r)) (getnum True r) | None \<Rightarrow> None)"

definition get_frac :: "string \<Rightarrow> int \<times> string" where
  "get_frac s = (case s of
       c # d # r \<Rightarrow>
         (if c \<in> set ''.,'' \<and> is_digit 10 d then
            (let ds = takeWhile (is_digit 10) (d # r) in
             (case parse_digits 10 0 (take 9 (ds @ replicate 9 (CHR ''0''))) of None \<Rightarrow> 0 | Some n \<Rightarrow> int n,
              dropWhile (is_digit 10) (d # r)))
          else (0, s))
     | _ \<Rightarrow> (0, s))"

definition get_zone :: "string \<Rightarrow> (int \<times> string) option" where
  "get_zone s = (case s of
       c # r \<Rightarrow>
         (if c = CHR ''Z'' then Some (0, r)
          else if c \<in> set ''+-'' then
            (case getnum True r of
               Some (h, CHR '':'' # r) \<Rightarrow>
                 (case getnum True r of
                    Some (m, r) \<Rightarrow>
                      if h > 24 \<or> m > 60 then None
                      else Some ((if c = CHR ''-'' then - 1 else 1) * (h * 3600 + m * 60), r)
                  | None \<Rightarrow> None)
             | _ \<Rightarrow> None)
          else None)
     | [] \<Rightarrow> None)"

definition days_before :: "int \<Rightarrow> int" where
  "days_before y = (y - 1) * 365 + (y - 1) div 4 - (y - 1) div 100 + (y - 1) div 400"

definition month_length :: "int \<Rightarrow> int \<Rightarrow> int" where
  "month_length y m = (month_lengths y @ [31]) ! nat (m - 1)"

definition date_days :: "int \<Rightarrow> int \<Rightarrow> int \<Rightarrow> int" where
  "date_days y m d = days_before y + sum_list (take (nat (m - 1)) (month_lengths y)) + (d - 1)"

definition get_sep :: "char \<Rightarrow> bool \<Rightarrow> string \<Rightarrow> (int \<times> string) option" where
  "get_sep c fixed s = Option.bind (expect c s) (getnum fixed)"

definition parse_date :: "string \<Rightarrow> (int \<times> int \<times> int \<times> string) option" where
  "parse_date s = (case get_year s of None \<Rightarrow> None
     | Some (y, s) \<Rightarrow> (case get_sep (CHR ''-'') True s of None \<Rightarrow> None
         | Some (m, s) \<Rightarrow> if m < 1 \<or> m > 12 then None
             else map_option (\<lambda>(d, s). (y, m, d, s)) (get_sep (CHR ''-'') True s)))"

definition parse_clock :: "string \<Rightarrow> (int \<times> string) option" where
  "parse_clock s = (case get_sep (CHR ''T'') False s of None \<Rightarrow> None
     | Some (h, s) \<Rightarrow> if h \<ge> 24 then None
         else (case get_sep (CHR '':'') True s of None \<Rightarrow> None
           | Some (i, s) \<Rightarrow> if i \<ge> 60 then None
               else (case get_sep (CHR '':'') True s of None \<Rightarrow> None
                 | Some (x, s) \<Rightarrow> if x \<ge> 60 then None else Some ((h * 60 + i) * 60 + x, s))))"

definition parse_time :: "string \<Rightarrow> time option" where
  "parse_time s = (case parse_date s of None \<Rightarrow> None
     | Some (y, m, d, s) \<Rightarrow> (case parse_clock s of None \<Rightarrow> None
         | Some (sod, s) \<Rightarrow>
             (let (ns, s) = get_frac s in
              case get_zone s of None \<Rightarrow> None
              | Some (z, s) \<Rightarrow>
                  if s \<noteq> [] \<or> d < 1 \<or> d > month_length y m then None
                  else Some ((date_days y m d * 86400 + sod - z) * 1000000000 + ns))))"

section \<open>The envelope of an event\<close>

definition event_json :: "CloudEvent \<Rightarrow> json option" where
  "event_json ev = map_option (\<lambda>t. JObj (
     [(''specversion'', JStr (ce_SpecVersion ev)), (''id'', JStr (ce_ID ev)),
      (''source'', JStr (ce_Source ev)), (''type'', JStr (ce_Type ev))] @
     (if ce_Subject ev = [] then [] else [(''subject'', JStr (ce_Subject ev))]) @
     [(''time'', JStr t), (''datacontenttype'', JStr (ce_DataContentType ev)), (''data'', ce_Data ev)]))
     (time_text (ce_Time ev))"

definition marshal_event :: "CloudEvent \<Rightarrow> string option" where
  "marshal_event ev = map_option json_text (event_json ev)"

end
