(* ===== verification/GoUrl.thy ===== *)
theory GoUrl
  imports GoLib
begin

text \<open>
  What the source uses of \<open>net/url\<close>: \<open>Parse\<close>, of whose result only the scheme and the host
  are kept (\<open>None\<close> is its error), and \<open>PathEscape\<close>.
\<close>

record URL =
  url_Scheme :: string
  url_Host :: string

section \<open>Characters\<close>

definition alpha_char :: "char \<Rightarrow> bool" where
  "alpha_char c = (let n = (of_char c :: nat) in 65 \<le> n \<and> n \<le> 90 \<or> 97 \<le> n \<and> n \<le> 122)"

definition num_char :: "char \<Rightarrow> bool" where
  "num_char c = (let n = (of_char c :: nat) in 48 \<le> n \<and> n \<le> 57)"

definition host_char :: "char \<Rightarrow> bool" where
  "host_char c \<longleftrightarrow> alpha_char c \<or> num_char c \<or>
     c \<in> set (CHR 0x27 # CHR 0x22 # ''!$&()*+,;=:[]<>-_.~'') \<or> 128 \<le> (of_char c :: nat)"

definition userinfo_char :: "char \<Rightarrow> bool" where
  "userinfo_char c \<longleftrightarrow> alpha_char c \<or> num_char c \<or> c \<in> set (CHR 0x27 # ''-._:~!$&()*+,;=%@'')"

definition ctl_char :: "char \<Rightarrow> bool" where
  "ctl_char c = (let n = (of_char c :: nat) in n < 32 \<or> n = 127)"

section \<open>Splitting\<close>

text \<open>\<open>strings.Cut\<close> at a one-byte separator, and the same at its last occurrence.\<close>

definition Cut :: "char \<Rightarrow> string \<Rightarrow> string \<times> string" where
  "Cut sep s = (takeWhile (\<lambda>c. c \<noteq> sep) s, drop 1 (dropWhile (\<lambda>c. c \<noteq> sep) s))"

definition CutLast :: "char \<Rightarrow> string \<Rightarrow> (string \<times> string) option" where
  "CutLast sep s = (if ContainsChar sep s
     then Some (rev (drop 1 (dropWhile (\<lambda>c. c \<noteq> sep) (rev s))), rev (takeWhile (\<lambda>c. c \<noteq> sep) (rev s)))
     else None)"

section \<open>Unescaping\<close>

datatype url_mode = encodePath | encodeHost | encodeZone

fun unescape :: "url_mode \<Rightarrow> string \<Rightarrow> string option" where
  "unescape mode [] = Some []"
| "unescape mode (c # s) =
     (if c = CHR ''%'' then
        (case s of
           a # b # r \<Rightarrow>
             (case (hex_digit a, hex_digit b) of
                (Some x, Some y) \<Rightarrow>
                  (let v = (char_of (16 * x + y) :: char); pc = (a = CHR ''2'' \<and> b = CHR ''5'') in
                   if mode = encodeHost \<and> x < 8 \<and> \<not> pc then None
                   else if mode = encodeZone \<and> \<not> pc \<and> v \<noteq> CHR '' '' \<and> \<not> (host_char v \<and> (of_char v :: nat) < 128) then None
                   else map_option (Cons v) (unescape mode r))
              | _ \<Rightarrow> None)
         | _ \<Rightarrow> None)
      else if mode \<noteq> encodePath \<and> \<not> host_char c then None
      else map_option (Cons c) (unescape mode s))"

section \<open>Parsing\<close>

text \<open>\<open>getScheme\<close>: an error for a leading colon, no scheme when a character that cannot be in
  one comes first.\<close>

fun scheme_end :: "nat \<Rightarrow> string \<Rightarrow> string \<Rightarrow> (string \<times> string) option" where
  "scheme_end i raw [] = Some ([], raw)"
| "scheme_end i raw (c # s) =
     (if alpha_char c then scheme_end (Suc i) raw s
      else if num_char c \<or> c \<in> set ''+-.'' then
        (if i = 0 then Some ([], raw) else scheme_end (Suc i) raw s)
      else if c = CHR '':'' then (if i = 0 then None else Some (take i raw, s))
      else Some ([], raw))"

definition getScheme :: "string \<Rightarrow> (string \<times> string) option" where
  "getScheme raw = scheme_end 0 raw raw"

definition validOptionalPort :: "string \<Rightarrow> bool" where
  "validOptionalPort port \<longleftrightarrow> (case port of [] \<Rightarrow> True | c # ds \<Rightarrow> c = CHR '':'' \<and> list_all num_char ds)"

text \<open>The zone of an IPv6 host begins at \<open>%25\<close>.\<close>

fun zone_index :: "string \<Rightarrow> nat option" where
  "zone_index s = (if has_prefix ''%25'' s then Some 0
     else (case s of [] \<Rightarrow> None | _ # r \<Rightarrow> map_option Suc (zone_index r)))"

declare zone_index.simps [simp del]

definition parseHost :: "string \<Rightarrow> string option" where
  "parseHost host =
     (if has_prefix ''['' host then
        (case CutLast (CHR '']'') host of
           None \<Rightarrow> None
         | Some (inner, colonPort) \<Rightarrow>
             if \<not> validOptionalPort colonPort then None
             else (case zone_index inner of
                 None \<Rightarrow> unescape encodeHost host
               | Some z \<Rightarrow>
                   (case (unescape encodeHost (take z inner), unescape encodeZone (drop z inner),
                          unescape encodeHost (drop (length inner) host)) of
                      (Some a, Some b, Some c) \<Rightarrow> Some (a @ b @ c)
                    | _ \<Rightarrow> None)))
      else (case CutLast (CHR '':'') host of
          None \<Rightarrow> unescape encodeHost host
        | Some (_, port) \<Rightarrow>
            if \<not> validOptionalPort (CHR '':'' # port) then None else unescape encodeHost host))"

definition parseAuthority :: "string \<Rightarrow> string option" where
  "parseAuthority authority =
     (case CutLast (CHR ''@'') authority of
        None \<Rightarrow> parseHost authority
      | Some (userinfo, h) \<Rightarrow>
          (case parseHost h of
             None \<Rightarrow> None
           | Some host \<Rightarrow>
               if list_all userinfo_char userinfo \<and> unescape encodePath userinfo \<noteq> None
               then Some host else None))"

definition parse_rest :: "string \<Rightarrow> string \<Rightarrow> URL option" where
  "parse_rest scheme rest =
     (if \<not> has_prefix ''/'' rest \<and> scheme \<noteq> [] then Some \<lparr>url_Scheme = scheme, url_Host = []\<rparr>
      else if \<not> has_prefix ''/'' rest \<and> ContainsChar (CHR '':'') (fst (Cut (CHR ''/'') rest)) then None
      else if (scheme \<noteq> [] \<or> \<not> has_prefix ''///'' rest) \<and> has_prefix ''//'' rest then
        (let a = drop 2 rest; authority = takeWhile (\<lambda>c. c \<noteq> CHR ''/'') a;
             path = dropWhile (\<lambda>c. c \<noteq> CHR ''/'') a
         in (case parseAuthority authority of
               None \<Rightarrow> None
             | Some host \<Rightarrow> if unescape encodePath path = None then None
                 else Some \<lparr>url_Scheme = scheme, url_Host = host\<rparr>))
      else if unescape encodePath rest = None then None
      else Some \<lparr>url_Scheme = scheme, url_Host = []\<rparr>)"

definition Parse :: "string \<Rightarrow> URL option" where
  "Parse rawURL =
     (let (u, frag) = Cut (CHR ''#'') rawURL in
      if list_ex ctl_char u then None
      else if u = ''*'' then
        (if unescape encodePath frag = None then None else Some \<lparr>url_Scheme = [], url_Host = []\<rparr>)
      else (case getScheme u of
          None \<Rightarrow> None
        | Some (scheme, rest) \<Rightarrow>
            (case parse_rest (ToLower scheme) (fst (Cut (CHR ''?'') rest)) of
               None \<Rightarrow> None
             | Some url \<Rightarrow> if unescape encodePath frag = None then None else Some url)))"

section \<open>Query strings\<close>

text \<open>\<open>URL.Query\<close>: pairs that do not parse are skipped; \<open>Get\<close> takes the first value.\<close>

definition QueryUnescape :: "string \<Rightarrow> string option" where
  "QueryUnescape s = unescape encodePath (map (\<lambda>c. if c = CHR ''+'' then CHR '' '' else c) s)"

definition query_pair :: "string \<Rightarrow> (string \<times> string) option" where
  "query_pair p = (if p = [] \<or> ContainsChar (CHR '';'') p then None
     else (case (QueryUnescape (fst (Cut (CHR ''='') p)), QueryUnescape (snd (Cut (CHR ''='') p))) of
         (Some k, Some v) \<Rightarrow> Some (k, v) | _ \<Rightarrow> None))"

definition Query :: "string \<Rightarrow> (string \<times> string) list" where
  "Query raw = List.map_filter query_pair (Split (CHR ''&'') raw)"

definition Get :: "(string \<times> string) list \<Rightarrow> string \<Rightarrow> string" where
  "Get q k = (case map_of q k of None \<Rightarrow> [] | Some v \<Rightarrow> v)"

section \<open>Escaping a path segment\<close>

definition upper_hex :: "nat \<Rightarrow> char" where
  "upper_hex d = (if d < 10 then char_of (48 + d) else char_of (55 + d))"

definition path_char :: "char \<Rightarrow> bool" where
  "path_char c \<longleftrightarrow> alpha_char c \<or> num_char c \<or> c \<in> set ''-_.~$&+:=@''"

definition PathEscape :: "string \<Rightarrow> string" where
  "PathEscape s = concat (map (\<lambda>c. if path_char c then [c]
     else [CHR ''%'', upper_hex (of_char c div 16), upper_hex (of_char c mod 16)]) s)"

text \<open>Escaping keeps a segment in one piece.\<close>

lemma upper_hex_val: "d < 16 \<Longrightarrow> upper_hex d \<in> set ''0123456789ABCDEF''"
proof -
  assume "d < 16"
  then have "d \<in> set [0..<16]" by simp
  moreover have "\<forall>d \<in> set [0..<16]. upper_hex d \<in> set ''0123456789ABCDEF''" by code_simp
  ultimately show ?thesis by blast
qed

lemma PathEscape_no_slash: "c \<in> set (PathEscape s) \<Longrightarrow> c \<noteq> CHR ''/'' \<and> c \<noteq> CHR ''?''"
proof -
  assume "c \<in> set (PathEscape s)"
  then consider "path_char c" | "c = CHR ''%''" | d where "c = upper_hex d" "d < 16"
    using of_char_bound by (fastforce simp: PathEscape_def less_mult_imp_div_less split: if_splits)
  then show ?thesis
  proof cases
    case 1
    then show ?thesis by (auto simp: path_char_def alpha_char_def num_char_def)
  next
    case 2
    then show ?thesis by simp
  next
    case (3 d)
    then show ?thesis using upper_hex_val [OF 3(2)] by auto
  qed
qed

end
