(* ===== verification/GoHttp.thy ===== *)
theory GoHttp
  imports Domain
begin

text \<open>
  The world outside the process. The state \<open>'w\<close> of the world is a parameter everywhere; what
  acts on it is code that is not in the repository: the HTTP client, the clock, the system's random
  bytes (\<open>None\<close> when it has none) and the clients of the message brokers. An error of such a call is its message.
\<close>

type_synonym 'w io_err = "'w \<Rightarrow> string option \<times> 'w"

section \<open>HTTP\<close>

record Request =
  rq_Method :: string
  rq_URL :: string
  rq_Header :: "(string \<times> string) list"
  rq_Body :: string

text \<open>Of a response body, the bytes that can be read before the end or an error, and the first
  JSON value a decoder finds in it.\<close>

record Response =
  rsp_StatusCode :: int
  rsp_Status :: string
  rsp_Body :: string
  rsp_Value :: raw_message

text \<open>\<open>client.Do\<close>.\<close>

type_synonym 'w http_client = "Request \<Rightarrow> 'w \<Rightarrow> (string + Response) \<times> 'w"

section \<open>Brokers\<close>

text \<open>A connection or a channel is a handle.\<close>

type_synonym handle = nat

record 'w net =
  net_Now :: "'w \<Rightarrow> time \<times> 'w"
  net_Rand :: "nat \<Rightarrow> 'w \<Rightarrow> string option \<times> 'w"
  net_Client :: "duration \<Rightarrow> 'w http_client"
  kafka_WriteMessages :: "string list \<Rightarrow> string \<Rightarrow> string \<Rightarrow> string \<Rightarrow> time \<Rightarrow> 'w io_err"
  nats_Connect :: "string \<Rightarrow> string \<Rightarrow> duration \<Rightarrow> 'w \<Rightarrow> (string + handle) \<times> 'w"
  nats_Publish :: "handle \<Rightarrow> string \<Rightarrow> string \<Rightarrow> 'w io_err"
  nats_FlushTimeout :: "handle \<Rightarrow> duration \<Rightarrow> 'w io_err"
  nats_Close :: "handle \<Rightarrow> 'w \<Rightarrow> 'w"
  amqp_Dial :: "string \<Rightarrow> 'w \<Rightarrow> (string + handle) \<times> 'w"
  amqp_Channel :: "handle \<Rightarrow> 'w \<Rightarrow> (string + handle) \<times> 'w"
  amqp_QueueDeclare :: "handle \<Rightarrow> string \<Rightarrow> bool \<Rightarrow> 'w io_err"
  amqp_Publish :: "handle \<Rightarrow> string \<Rightarrow> (string \<times> string) list \<Rightarrow> string \<Rightarrow> time \<Rightarrow> 'w io_err"
  amqp_CloseChannel :: "handle \<Rightarrow> 'w \<Rightarrow> 'w"
  amqp_Close :: "handle \<Rightarrow> 'w \<Rightarrow> 'w"

end
