(* ===== verification/ScanTypes.thy ===== *)
theory ScanTypes
  imports Domain
begin

text \<open>
  The wallet events of \<open>third_party/juno-sdk-go/types\<close>: the payload structs the scanner
  sends, with the embedding of the source as record extension, and what \<open>encoding/json\<close>
  makes of their field tags, in both directions. An object member goes to the field whose
  name equals its key up to ASCII case, a later member replaces an earlier one, \<open>null\<close>
  changes nothing, unknown members are skipped, and a value of the wrong type, or a number
  outside the field's type, is an error (\<open>None\<close>).
\<close>

section \<open>The structs\<close>

record TxStatus =
  ts_State :: string
  ts_Height :: int64
  ts_Confirmations :: int64

record DepositEvent =
  de_Version :: string
  de_WalletID :: string
  de_AccountID :: string
  de_DiversifierIndex :: nat
  de_TxID :: string
  de_Height :: int64
  de_ActionIndex :: nat
  de_AmountZatoshis :: uint64
  de_MemoHex :: string
  de_Status :: TxStatus

record DepositEventPayload = DepositEvent +
  de_RecipientAddress :: string
  de_NoteNullifier :: string

record DepositConfirmedPayload = DepositEventPayload +
  dc_ConfirmedHeight :: int64
  dc_RequiredConfirmations :: int64

record DepositOrphanedPayload = DepositEventPayload +
  do_OrphanedAtHeight :: int64

record DepositUnconfirmedPayload = DepositEventPayload +
  du_RollbackHeight :: int64
  du_RequiredConfirmations :: int64
  du_PreviousConfirmedHeight :: int64

text \<open>The zero values \<open>var p types.DepositEventPayload\<close> and so on.\<close>

definition zero_TxStatus :: TxStatus where
  "zero_TxStatus = \<lparr>ts_State = [], ts_Height = 0, ts_Confirmations = 0\<rparr>"

definition zero_DepositEventPayload :: DepositEventPayload where
  "zero_DepositEventPayload = \<lparr>de_Version = [], de_WalletID = [], de_AccountID = [],
     de_DiversifierIndex = 0, de_TxID = [], de_Height = 0, de_ActionIndex = 0,
     de_AmountZatoshis = 0, de_MemoHex = [], de_Status = zero_TxStatus,
     de_RecipientAddress = [], de_NoteNullifier = []\<rparr>"

definition zero_DepositConfirmedPayload :: DepositConfirmedPayload where
  "zero_DepositConfirmedPayload = DepositEventPayload.extend zero_DepositEventPayload
     (DepositConfirmedPayload.fields 0 0)"

definition zero_DepositOrphanedPayload :: DepositOrphanedPayload where
  "zero_DepositOrphanedPayload = DepositEventPayload.extend zero_DepositEventPayload
     (DepositOrphanedPayload.fields 0)"

definition zero_DepositUnconfirmedPayload :: DepositUnconfirmedPayload where
  "zero_DepositUnconfirmedPayload = DepositEventPayload.extend zero_DepositEventPayload
     (DepositUnconfirmedPayload.fields 0 0 0)"

section \<open>Decoding\<close>

type_synonym 'p field = "string \<times> (json \<Rightarrow> 'p \<Rightarrow> 'p option)"

definition str_field :: "string \<Rightarrow> ((string \<Rightarrow> string) \<Rightarrow> 'p \<Rightarrow> 'p) \<Rightarrow> 'p field" where
  "str_field name upd = (name, \<lambda>v p. case v of
       JStr x \<Rightarrow> Some (upd (\<lambda>_. x) p) | JNull \<Rightarrow> Some p | _ \<Rightarrow> None)"

definition int_field :: "string \<Rightarrow> ((int64 \<Rightarrow> int64) \<Rightarrow> 'p \<Rightarrow> 'p) \<Rightarrow> 'p field" where
  "int_field name upd = (name, \<lambda>v p. case v of
       JNum l \<Rightarrow> map_option (\<lambda>n. upd (\<lambda>_. n) p) (ParseInt 10 l) | JNull \<Rightarrow> Some p | _ \<Rightarrow> None)"

definition uint_field :: "nat \<Rightarrow> string \<Rightarrow> ((nat \<Rightarrow> nat) \<Rightarrow> 'p \<Rightarrow> 'p) \<Rightarrow> 'p field" where
  "uint_field bits name upd = (name, \<lambda>v p. case v of
       JNum l \<Rightarrow> map_option (\<lambda>n. upd (\<lambda>_. n) p) (ParseUint bits l) | JNull \<Rightarrow> Some p | _ \<Rightarrow> None)"

fun dec_members :: "'p field list \<Rightarrow> (string \<times> json) list \<Rightarrow> 'p \<Rightarrow> 'p option" where
  "dec_members fs [] p = Some p"
| "dec_members fs ((k, v) # kvs) p = (case find (\<lambda>f. EqualFold (fst f) k) fs of
       None \<Rightarrow> dec_members fs kvs p
     | Some f \<Rightarrow> (case snd f v p of None \<Rightarrow> None | Some p' \<Rightarrow> dec_members fs kvs p'))"

definition dec_object :: "'p field list \<Rightarrow> json \<Rightarrow> 'p \<Rightarrow> 'p option" where
  "dec_object fs v p = (case v of JObj kvs \<Rightarrow> dec_members fs kvs p | JNull \<Rightarrow> Some p | _ \<Rightarrow> None)"

definition unmarshal :: "'p field list \<Rightarrow> 'p \<Rightarrow> raw_message \<Rightarrow> 'p option" where
  "unmarshal fs zero raw = (case raw of RawJson v \<Rightarrow> dec_object fs v zero | _ \<Rightarrow> None)"

definition TxStatus_fields :: "TxStatus field list" where
  "TxStatus_fields = [str_field ''state'' ts_State_update, int_field ''height'' ts_Height_update,
     int_field ''confirmations'' ts_Confirmations_update]"

definition status_field :: "'z DepositEvent_scheme field" where
  "status_field = (''status'', \<lambda>v p.
     map_option (\<lambda>st. p\<lparr>de_Status := st\<rparr>) (dec_object TxStatus_fields v (de_Status p)))"

definition DepositEventPayload_fields :: "'z DepositEventPayload_scheme field list" where
  "DepositEventPayload_fields = [
     str_field ''version'' de_Version_update,
     str_field ''wallet_id'' de_WalletID_update,
     str_field ''account_id'' de_AccountID_update,
     uint_field 32 ''diversifier_index'' de_DiversifierIndex_update,
     str_field ''txid'' de_TxID_update,
     int_field ''height'' de_Height_update,
     uint_field 32 ''action_index'' de_ActionIndex_update,
     uint_field 64 ''amount_zatoshis'' de_AmountZatoshis_update,
     str_field ''memo_hex'' de_MemoHex_update,
     status_field,
     str_field ''recipient_address'' de_RecipientAddress_update,
     str_field ''note_nullifier'' de_NoteNullifier_update]"

definition DepositConfirmedPayload_fields :: "DepositConfirmedPayload field list" where
  "DepositConfirmedPayload_fields = DepositEventPayload_fields @
     [int_field ''confirmed_height'' dc_ConfirmedHeight_update,
      int_field ''required_confirmations'' dc_RequiredConfirmations_update]"

definition DepositOrphanedPayload_fields :: "DepositOrphanedPayload field list" where
  "DepositOrphanedPayload_fields = DepositEventPayload_fields @
     [int_field ''orphaned_at_height'' do_OrphanedAtHeight_update]"

definition DepositUnconfirmedPayload_fields :: "DepositUnconfirmedPayload field list" where
  "DepositUnconfirmedPayload_fields = DepositEventPayload_fields @
     [int_field ''rollback_height'' du_RollbackHeight_update,
      int_field ''required_confirmations'' du_RequiredConfirmations_update,
      int_field ''previous_confirmed_height'' du_PreviousConfirmedHeight_update]"

section \<open>Encoding\<close>

text \<open>A field tagged \<open>omitempty\<close> is left out when it holds its zero value.\<close>

definition omit_str :: "string \<Rightarrow> string \<Rightarrow> (string \<times> json) list" where
  "omit_str name x = (if x = [] then [] else [(name, JStr x)])"

definition omit_int :: "string \<Rightarrow> int \<Rightarrow> (string \<times> json) list" where
  "omit_int name n = (if n = 0 then [] else [(name, JNum (FormatInt n))])"

definition enc_TxStatus :: "TxStatus \<Rightarrow> json" where
  "enc_TxStatus st = JObj ((''state'', JStr (ts_State st)) #
     omit_int ''height'' (ts_Height st) @ omit_int ''confirmations'' (ts_Confirmations st))"

definition enc_members :: "'z DepositEventPayload_scheme \<Rightarrow> (string \<times> json) list" where
  "enc_members p =
     [(''version'', JStr (de_Version p)), (''wallet_id'', JStr (de_WalletID p))] @
     omit_str ''account_id'' (de_AccountID p) @
     omit_int ''diversifier_index'' (int (de_DiversifierIndex p)) @
     [(''txid'', JStr (de_TxID p)), (''height'', JNum (FormatInt (de_Height p))),
      (''action_index'', JNum (FormatInt (int (de_ActionIndex p)))),
      (''amount_zatoshis'', JNum (FormatInt (int (de_AmountZatoshis p))))] @
     omit_str ''memo_hex'' (de_MemoHex p) @
     [(''status'', enc_TxStatus (de_Status p))] @
     omit_str ''recipient_address'' (de_RecipientAddress p) @
     omit_str ''note_nullifier'' (de_NoteNullifier p)"

definition enc_DepositEventPayload :: "DepositEventPayload \<Rightarrow> json" where
  "enc_DepositEventPayload p = JObj (enc_members p)"

definition enc_DepositConfirmedPayload :: "DepositConfirmedPayload \<Rightarrow> json" where
  "enc_DepositConfirmedPayload p = JObj (enc_members p @
     [(''confirmed_height'', JNum (FormatInt (dc_ConfirmedHeight p))),
      (''required_confirmations'', JNum (FormatInt (dc_RequiredConfirmations p)))])"

definition enc_DepositOrphanedPayload :: "DepositOrphanedPayload \<Rightarrow> json" where
  "enc_DepositOrphanedPayload p = JObj (enc_members p @
     [(''orphaned_at_height'', JNum (FormatInt (do_OrphanedAtHeight p)))])"

definition enc_DepositUnconfirmedPayload :: "DepositUnconfirmedPayload \<Rightarrow> json" where
  "enc_DepositUnconfirmedPayload p = JObj (enc_members p @
     [(''rollback_height'', JNum (FormatInt (du_RollbackHeight p)))] @
     omit_int ''required_confirmations'' (du_RequiredConfirmations p) @
     [(''previous_confirmed_height'', JNum (FormatInt (du_PreviousConfirmedHeight p)))])"

section \<open>Round trip\<close>

text \<open>The integers of a Go value are within their types.\<close>

definition wf_TxStatus :: "TxStatus \<Rightarrow> bool" where
  "wf_TxStatus st \<longleftrightarrow> in_int64 (ts_Height st) \<and> in_int64 (ts_Confirmations st)"

definition wf_DepositEvent :: "'z DepositEvent_scheme \<Rightarrow> bool" where
  "wf_DepositEvent p \<longleftrightarrow> de_DiversifierIndex p < 2 ^ 32 \<and> de_ActionIndex p < 2 ^ 32 \<and>
     de_AmountZatoshis p < 2 ^ 64 \<and> in_int64 (de_Height p) \<and> wf_TxStatus (de_Status p)"

lemma ParseUint_FormatInt: "n < 2 ^ bits \<Longrightarrow> ParseUint bits (FormatInt (int n)) = Some n"
  by (simp add: ParseUint_def FormatInt_def)

lemma dec_members_append:
  "dec_members fs (xs @ ys) p = Option.bind (dec_members fs xs p) (dec_members fs ys)"
  by (induction xs arbitrary: p) (auto split: option.split)

lemma fst_field [simp]:
  "fst (str_field n u) = n" "fst (int_field n u') = n" "fst (uint_field b n u'') = n"
  "fst status_field = ''status''"
  by (simp_all add: str_field_def int_field_def uint_field_def status_field_def)

lemma snd_field [simp]:
  "snd (str_field n u) (JStr x) p = Some (u (\<lambda>_. x) p)"
  "in_int64 i \<Longrightarrow> snd (int_field n u') (JNum (FormatInt i)) p = Some (u' (\<lambda>_. i) p)"
  "k < 2 ^ b \<Longrightarrow> snd (uint_field b n u'') (JNum (FormatInt (int k))) p = Some (u'' (\<lambda>_. k) p)"
  by (simp_all add: str_field_def int_field_def uint_field_def ParseInt_FormatInt ParseUint_FormatInt)

text \<open>Which field a key selects; the fields of an embedded struct come first.\<close>

definition pick :: "'p field list \<Rightarrow> string \<Rightarrow> 'p field option" where
  "pick fs k = find (\<lambda>f. EqualFold (fst f) k) fs"

lemma dec_members_Cons:
  "dec_members fs ((k, v) # kvs) p = (case pick fs k of None \<Rightarrow> dec_members fs kvs p
     | Some f \<Rightarrow> Option.bind (snd f v p) (dec_members fs kvs))"
  by (auto simp: pick_def split: option.split)

declare dec_members.simps(2) [simp del]

lemma pick_append: "pick (xs @ ys) k = (case pick xs k of None \<Rightarrow> pick ys k | Some f \<Rightarrow> Some f)"
  unfolding pick_def by (induction xs) auto

lemma pick_Cons: "pick (f # fs) k = (if ToLower (fst f) = ToLower k then Some f else pick fs k)"
  by (simp add: pick_def EqualFold_def)

lemma pick_Nil: "pick [] k = None"
  by (simp add: pick_def)

lemmas pick_simps = pick_Cons pick_Nil ToLower_def lower_char_def

lemma pick_payload [simp]:
  "pick DepositEventPayload_fields ''version'' = Some (str_field ''version'' de_Version_update)"
  "pick DepositEventPayload_fields ''wallet_id'' = Some (str_field ''wallet_id'' de_WalletID_update)"
  "pick DepositEventPayload_fields ''account_id'' = Some (str_field ''account_id'' de_AccountID_update)"
  "pick DepositEventPayload_fields ''diversifier_index'' = Some (uint_field 32 ''diversifier_index'' de_DiversifierIndex_update)"
  "pick DepositEventPayload_fields ''txid'' = Some (str_field ''txid'' de_TxID_update)"
  "pick DepositEventPayload_fields ''height'' = Some (int_field ''height'' de_Height_update)"
  "pick DepositEventPayload_fields ''action_index'' = Some (uint_field 32 ''action_index'' de_ActionIndex_update)"
  "pick DepositEventPayload_fields ''amount_zatoshis'' = Some (uint_field 64 ''amount_zatoshis'' de_AmountZatoshis_update)"
  "pick DepositEventPayload_fields ''memo_hex'' = Some (str_field ''memo_hex'' de_MemoHex_update)"
  "pick DepositEventPayload_fields ''status'' = Some (status_field)"
  "pick DepositEventPayload_fields ''recipient_address'' = Some (str_field ''recipient_address'' de_RecipientAddress_update)"
  "pick DepositEventPayload_fields ''note_nullifier'' = Some (str_field ''note_nullifier'' de_NoteNullifier_update)"
  by (simp_all add: DepositEventPayload_fields_def pick_simps)

lemma pick_payload_None:
  "pick DepositEventPayload_fields ''confirmed_height'' = None"
  "pick DepositEventPayload_fields ''required_confirmations'' = None"
  "pick DepositEventPayload_fields ''orphaned_at_height'' = None"
  "pick DepositEventPayload_fields ''rollback_height'' = None"
  "pick DepositEventPayload_fields ''previous_confirmed_height'' = None"
  by (simp_all add: DepositEventPayload_fields_def pick_simps)

lemma pick_status [simp]:
  "pick TxStatus_fields ''state'' = Some (str_field ''state'' ts_State_update)"
  "pick TxStatus_fields ''height'' = Some (int_field ''height'' ts_Height_update)"
  "pick TxStatus_fields ''confirmations'' = Some (int_field ''confirmations'' ts_Confirmations_update)"
  by (simp_all add: TxStatus_fields_def pick_simps)

lemma dec_omit_str:
  "pick fs n = Some (str_field n u) \<Longrightarrow> u (\<lambda>_. []) p = p \<Longrightarrow>
   dec_members fs (omit_str n x) p = Some (u (\<lambda>_. x) p)"
  by (simp add: omit_str_def dec_members_Cons)

lemma dec_omit_int:
  "pick fs n = Some (int_field n u) \<Longrightarrow> u (\<lambda>_. 0) p = p \<Longrightarrow> in_int64 i \<Longrightarrow>
   dec_members fs (omit_int n i) p = Some (u (\<lambda>_. i) p)"
  by (simp add: omit_int_def dec_members_Cons)

lemma dec_omit_uint:
  "pick fs n = Some (uint_field b n u) \<Longrightarrow> u (\<lambda>_. 0) p = p \<Longrightarrow> k < 2 ^ b \<Longrightarrow>
   dec_members fs (omit_int n (int k)) p = Some (u (\<lambda>_. k) p)"
  by (simp add: omit_int_def dec_members_Cons)

lemma dec_enc_TxStatus:
  "wf_TxStatus st \<Longrightarrow> dec_object TxStatus_fields (enc_TxStatus st) zero_TxStatus = Some st"
  by (cases st) (simp add: dec_object_def enc_TxStatus_def dec_members_Cons dec_members_append
      dec_omit_int zero_TxStatus_def wf_TxStatus_def)

lemma snd_status_field:
  "wf_TxStatus st \<Longrightarrow> de_Status p = zero_TxStatus \<Longrightarrow>
   snd status_field (enc_TxStatus st) p = Some (p\<lparr>de_Status := st\<rparr>)"
  by (simp add: status_field_def dec_enc_TxStatus)

lemma dec_enc_members:
  assumes "wf_DepositEvent p"
  shows "dec_members (DepositEventPayload_fields @ ys) (enc_members p)
      (DepositEventPayload.extend zero_DepositEventPayload z) =
    Some (DepositEventPayload.extend (DepositEventPayload.truncate p) z)"
  using assms
  by (cases p) (simp add: enc_members_def wf_DepositEvent_def dec_members_append dec_members_Cons
      dec_omit_str dec_omit_int dec_omit_uint snd_status_field pick_append zero_DepositEventPayload_def
      DepositEventPayload.defs)

theorem DepositEventPayload_roundtrip:
  "wf_DepositEvent p \<Longrightarrow>
   unmarshal DepositEventPayload_fields zero_DepositEventPayload (RawJson (enc_DepositEventPayload p)) = Some p"
  using dec_enc_members [of p "[]" "()"]
  by (cases p) (simp add: unmarshal_def dec_object_def enc_DepositEventPayload_def
      DepositEventPayload.defs zero_DepositEventPayload_def)

theorem DepositConfirmedPayload_roundtrip:
  "wf_DepositEvent p \<Longrightarrow> in_int64 (dc_ConfirmedHeight p) \<Longrightarrow> in_int64 (dc_RequiredConfirmations p) \<Longrightarrow>
   unmarshal DepositConfirmedPayload_fields zero_DepositConfirmedPayload
     (RawJson (enc_DepositConfirmedPayload p)) = Some p"
  unfolding unmarshal_def dec_object_def enc_DepositConfirmedPayload_def
    DepositConfirmedPayload_fields_def zero_DepositConfirmedPayload_def
  by (simp add: dec_members_append dec_enc_members dec_members_Cons pick_append
      pick_payload_None pick_simps)
    (cases p, simp add: DepositConfirmedPayload.defs DepositEventPayload.defs)

theorem DepositOrphanedPayload_roundtrip:
  "wf_DepositEvent p \<Longrightarrow> in_int64 (do_OrphanedAtHeight p) \<Longrightarrow>
   unmarshal DepositOrphanedPayload_fields zero_DepositOrphanedPayload
     (RawJson (enc_DepositOrphanedPayload p)) = Some p"
  unfolding unmarshal_def dec_object_def enc_DepositOrphanedPayload_def
    DepositOrphanedPayload_fields_def zero_DepositOrphanedPayload_def
  by (simp add: dec_members_append dec_enc_members dec_members_Cons pick_append
      pick_payload_None pick_simps)
    (cases p, simp add: DepositOrphanedPayload.defs DepositEventPayload.defs)

theorem DepositUnconfirmedPayload_roundtrip:
  "wf_DepositEvent p \<Longrightarrow> in_int64 (du_RollbackHeight p) \<Longrightarrow> in_int64 (du_RequiredConfirmations p) \<Longrightarrow>
   in_int64 (du_PreviousConfirmedHeight p) \<Longrightarrow>
   unmarshal DepositUnconfirmedPayload_fields zero_DepositUnconfirmedPayload
     (RawJson (enc_DepositUnconfirmedPayload p)) = Some p"
  unfolding unmarshal_def dec_object_def enc_DepositUnconfirmedPayload_def
    DepositUnconfirmedPayload_fields_def zero_DepositUnconfirmedPayload_def
  by (simp add: dec_members_append dec_enc_members dec_members_Cons pick_append dec_omit_int
      pick_payload_None pick_simps)
    (cases p, simp add: DepositUnconfirmedPayload.defs DepositEventPayload.defs dec_members_Cons
      dec_omit_int pick_append pick_payload_None pick_simps)

end
