(* ===== verification/Crypto.thy ===== *)
theory Crypto
  imports GoLib
begin

text \<open>
  \<open>crypto/sha256\<close>, \<open>crypto/hmac\<close> over it and \<open>crypto/subtle.ConstantTimeCompare\<close>, as the
  API keys, the webhook signature and the admin session use them. SHA-256 is written out
  over 32-bit words; bytes are \<open>char\<close>s.
\<close>

unbundle bit_operations_syntax

type_synonym w32 = "32 word"

definition sha_k :: "w32 list" where
  "sha_k = [
     1116352408, 1899447441, 3049323471, 3921009573, 961987163, 1508970993, 2453635748, 2870763221,
     3624381080, 310598401, 607225278, 1426881987, 1925078388, 2162078206, 2614888103, 3248222580,
     3835390401, 4022224774, 264347078, 604807628, 770255983, 1249150122, 1555081692, 1996064986,
     2554220882, 2821834349, 2952996808, 3210313671, 3336571891, 3584528711, 113926993, 338241895,
     666307205, 773529912, 1294757372, 1396182291, 1695183700, 1986661051, 2177026350, 2456956037,
     2730485921, 2820302411, 3259730800, 3345764771, 3516065817, 3600352804, 4094571909, 275423344,
     430227734, 506948616, 659060556, 883997877, 958139571, 1322822218, 1537002063, 1747873779,
     1955562222, 2024104815, 2227730452, 2361852424, 2428436474, 2756734187, 3204031479, 3329325298]"

record sha_state =
  sh_a :: w32  sh_b :: w32  sh_c :: w32  sh_d :: w32
  sh_e :: w32  sh_f :: w32  sh_g :: w32  sh_h :: w32

definition sha_init :: sha_state where
  "sha_init = \<lparr>sh_a = 0x6a09e667, sh_b = 0xbb67ae85, sh_c = 0x3c6ef372, sh_d = 0xa54ff53a,
     sh_e = 0x510e527f, sh_f = 0x9b05688c, sh_g = 0x1f83d9ab, sh_h = 0x5be0cd19\<rparr>"

definition bytes_w32 :: "string \<Rightarrow> w32" where
  "bytes_w32 bs = foldl (\<lambda>acc c. push_bit 8 acc OR of_nat (of_char c)) 0 bs"

definition w32_bytes :: "w32 \<Rightarrow> string" where
  "w32_bytes w = [char_of (unat (drop_bit 24 w)), char_of (unat (drop_bit 16 w)),
     char_of (unat (drop_bit 8 w)), char_of (unat w)]"

fun chunks :: "nat \<Rightarrow> 'a list \<Rightarrow> 'a list list" where
  "chunks n xs = (if n = 0 \<or> xs = [] then [] else take n xs # chunks n (drop n xs))"

declare chunks.simps [simp del]

definition sha_pad :: "string \<Rightarrow> string" where
  "sha_pad m = (let n = length m in
     m @ CHR 0x80 # replicate ((119 - n mod 64) mod 64) (CHR 0x00)
       @ w32_bytes (of_nat (8 * n div 2 ^ 32)) @ w32_bytes (of_nat (8 * n)))"

text \<open>The message schedule, most recent word first.\<close>

fun sha_schedule :: "nat \<Rightarrow> w32 list \<Rightarrow> w32 list" where
  "sha_schedule 0 ws = ws"
| "sha_schedule (Suc k) ws =
     (let x = ws ! 14; y = ws ! 1;
          s0 = word_rotr 7 x XOR word_rotr 18 x XOR drop_bit 3 x;
          s1 = word_rotr 17 y XOR word_rotr 19 y XOR drop_bit 10 y
      in sha_schedule k ((ws ! 15 + s0 + ws ! 6 + s1) # ws))"

definition sha_round :: "sha_state \<Rightarrow> w32 \<times> w32 \<Rightarrow> sha_state" where
  "sha_round st kw =
     (let e = sh_e st; a = sh_a st;
          s1 = word_rotr 6 e XOR word_rotr 11 e XOR word_rotr 25 e;
          ch = (e AND sh_f st) XOR (NOT e AND sh_g st);
          t1 = sh_h st + s1 + ch + fst kw + snd kw;
          s0 = word_rotr 2 a XOR word_rotr 13 a XOR word_rotr 22 a;
          mj = (a AND sh_b st) XOR (a AND sh_c st) XOR (sh_b st AND sh_c st)
      in \<lparr>sh_a = t1 + (s0 + mj), sh_b = a, sh_c = sh_b st, sh_d = sh_c st,
          sh_e = sh_d st + t1, sh_f = e, sh_g = sh_f st, sh_h = sh_g st\<rparr>)"

definition sha_block :: "sha_state \<Rightarrow> string \<Rightarrow> sha_state" where
  "sha_block st b =
     (let ws = rev (sha_schedule 48 (rev (map bytes_w32 (chunks 4 b))));
          r = foldl sha_round st (zip sha_k ws)
      in \<lparr>sh_a = sh_a st + sh_a r, sh_b = sh_b st + sh_b r, sh_c = sh_c st + sh_c r,
          sh_d = sh_d st + sh_d r, sh_e = sh_e st + sh_e r, sh_f = sh_f st + sh_f r,
          sh_g = sh_g st + sh_g r, sh_h = sh_h st + sh_h r\<rparr>)"

definition sha256 :: "string \<Rightarrow> string" where
  "sha256 m = (let st = foldl sha_block sha_init (chunks 64 (sha_pad m)) in
     concat (map w32_bytes [sh_a st, sh_b st, sh_c st, sh_d st, sh_e st, sh_f st, sh_g st, sh_h st]))"

definition xor_byte :: "nat \<Rightarrow> char \<Rightarrow> char" where
  "xor_byte k c = char_of (of_char c XOR k)"

definition hmac_sha256 :: "string \<Rightarrow> string \<Rightarrow> string" where
  "hmac_sha256 key msg =
     (let k0 = (if length key > 64 then sha256 key else key);
          k = k0 @ replicate (64 - length k0) (CHR 0x00)
      in sha256 (map (xor_byte 0x5c) k @ sha256 (map (xor_byte 0x36) k @ msg)))"

definition ConstantTimeCompare :: "string \<Rightarrow> string \<Rightarrow> bool" where
  "ConstantTimeCompare a b \<longleftrightarrow> length a = length b \<and> list_all2 (=) a b"

lemma ConstantTimeCompare_iff [simp]: "ConstantTimeCompare a b \<longleftrightarrow> a = b"
  by (auto simp: ConstantTimeCompare_def list.rel_eq)

lemma length_w32_bytes [simp]: "length (w32_bytes w) = 4"
  by (simp add: w32_bytes_def)

lemma length_sha256 [simp]: "length (sha256 m) = 32"
  by (simp add: sha256_def Let_def)

lemma length_hmac_sha256 [simp]: "length (hmac_sha256 key msg) = 32"
  by (simp add: hmac_sha256_def Let_def)

text \<open>\<open>hex.EncodeToString(sha256.Sum256(_))\<close>.\<close>

definition sha256_hex :: "string \<Rightarrow> string" where
  "sha256_hex m = hex_encode (sha256 m)"

end
