(* ===== verification/Store.thy ===== *)
theory Store
  imports Domain
begin

text \<open>
  \<open>internal/store/store.go\<close>: the request and filter structs and the \<open>Store\<close> interface,
  a record of the operations over an abstract store state; and the state of the in-memory
  store of \<open>internal/store/mem.go\<close> with its constructor. An operation takes the state and
  returns its result, an error or a value, with the next state.
\<close>

type_synonym ('a, 'st) act = "'st \<Rightarrow> (store_error + 'a) \<times> 'st"

section \<open>Requests, filters and results\<close>

record MerchantWallet =
  mw_MerchantID :: string
  mw_WalletID :: string
  mw_UFVK :: string
  mw_Chain :: string
  mw_UAHRP :: string
  mw_CoinType :: int32
  mw_CreatedAt :: time

record MerchantAPIKey =
  mk_KeyID :: string
  mk_MerchantID :: string
  mk_Label :: string
  mk_CreatedAt :: time
  mk_RevokedAt :: "time option"

record InvoiceCreate =
  ic_MerchantID :: string
  ic_ExternalOrderID :: string
  ic_WalletID :: string
  ic_AddressIndex :: uint32
  ic_Address :: string
  ic_CreatedAfterHeight :: int64
  ic_CreatedAfterHash :: string
  ic_AmountZat :: int64
  ic_RequiredConfirmations :: int32
  ic_Policies :: InvoicePolicies
  ic_ExpiresAt :: "time option"

text \<open>The empty status of a filter, which selects every status, is \<open>None\<close>.\<close>

record InvoiceFilter =
  if_MerchantID :: string
  if_Status :: "InvoiceStatus option"
  if_ExternalOrderID :: string
  if_AfterID :: int64
  if_Limit :: int

record DepositFilter =
  df_MerchantID :: string
  df_InvoiceID :: string
  df_TxID :: string
  df_AfterID :: int64
  df_Limit :: int

record RefundCreate =
  rfc_MerchantID :: string
  rfc_InvoiceID :: string
  rfc_ExternalRefundID :: string
  rfc_ToAddress :: string
  rfc_AmountZat :: int64
  rfc_SentTxID :: string
  rfc_Notes :: string

record RefundFilter =
  rff_MerchantID :: string
  rff_InvoiceID :: string
  rff_Status :: "RefundStatus option"
  rff_AfterID :: int64
  rff_Limit :: int

record ReviewCaseFilter =
  rvf_MerchantID :: string
  rvf_Status :: "ReviewStatus option"

record ScanEvent =
  se_WalletID :: string
  se_Cursor :: int64
  se_Kind :: string
  se_Height :: int64
  se_Payload :: raw_message
  se_OccurredAt :: time

record EventSinkCreate =
  skc_MerchantID :: string
  skc_Kind :: EventSinkKind
  skc_Config :: raw_message

record EventDeliveryFilter =
  edf_MerchantID :: string
  edf_SinkID :: string
  edf_Status :: "EventDeliveryStatus option"
  edf_Limit :: int

record DueDelivery =
  dd_Delivery :: EventDelivery
  dd_Sink :: EventSink
  dd_Event :: CloudEvent

section \<open>The Store interface\<close>

text \<open>
  A value of the interface type: the operations, over the state \<open>'st\<close> of whatever store
  implements them. The API key operation reads 32 random bytes, its first argument
  (\<open>None\<close> when the system's generator fails).
\<close>

record 'st Store =
  st_CreateMerchant :: "string \<Rightarrow> MerchantSettings \<Rightarrow> (Merchant, 'st) act"
  st_GetMerchant :: "string \<Rightarrow> (Merchant option, 'st) act"
  st_ListMerchants :: "(Merchant list, 'st) act"
  st_UpdateMerchantSettings :: "string \<Rightarrow> MerchantSettings \<Rightarrow> (Merchant, 'st) act"
  st_SetMerchantWallet :: "string \<Rightarrow> MerchantWallet \<Rightarrow> (MerchantWallet, 'st) act"
  st_GetMerchantWallet :: "string \<Rightarrow> (MerchantWallet option, 'st) act"
  st_ListMerchantWallets :: "(MerchantWallet list, 'st) act"
  st_NextAddressIndex :: "string \<Rightarrow> (uint32, 'st) act"
  st_CreateMerchantAPIKey :: "string option \<Rightarrow> string \<Rightarrow> string \<Rightarrow> (string \<times> string, 'st) act"
  st_RevokeMerchantAPIKey :: "string \<Rightarrow> (unit, 'st) act"
  st_LookupMerchantIDByAPIKey :: "string \<Rightarrow> (string option, 'st) act"
  st_ListMerchantAPIKeys :: "string \<Rightarrow> (MerchantAPIKey list, 'st) act"
  st_CreateInvoice :: "InvoiceCreate \<Rightarrow> (Invoice \<times> bool, 'st) act"
  st_GetInvoice :: "string \<Rightarrow> (Invoice option, 'st) act"
  st_FindInvoiceByExternalOrderID :: "string \<Rightarrow> string \<Rightarrow> (Invoice option, 'st) act"
  st_ListInvoices :: "InvoiceFilter \<Rightarrow> (Invoice list \<times> int64, 'st) act"
  st_PutInvoiceToken :: "string \<Rightarrow> string \<Rightarrow> (unit, 'st) act"
  st_GetInvoiceToken :: "string \<Rightarrow> (string option, 'st) act"
  st_ScanCursor :: "string \<Rightarrow> (int64, 'st) act"
  st_ApplyScanEvent :: "ScanEvent \<Rightarrow> (unit, 'st) act"
  st_UpdateInvoiceConfirmations :: "int64 \<Rightarrow> (unit, 'st) act"
  st_ListInvoiceEvents :: "string \<Rightarrow> int64 \<Rightarrow> int \<Rightarrow> (InvoiceEvent list \<times> int64, 'st) act"
  st_ListDeposits :: "DepositFilter \<Rightarrow> (Deposit list \<times> int64, 'st) act"
  st_CreateRefund :: "RefundCreate \<Rightarrow> (Refund, 'st) act"
  st_ListRefunds :: "RefundFilter \<Rightarrow> (Refund list \<times> int64, 'st) act"
  st_ListReviewCases :: "ReviewCaseFilter \<Rightarrow> (ReviewCase list, 'st) act"
  st_ResolveReviewCase :: "string \<Rightarrow> string \<Rightarrow> (unit, 'st) act"
  st_RejectReviewCase :: "string \<Rightarrow> string \<Rightarrow> (unit, 'st) act"
  st_CreateEventSink :: "EventSinkCreate \<Rightarrow> (EventSink, 'st) act"
  st_GetEventSink :: "string \<Rightarrow> (EventSink option, 'st) act"
  st_ListEventSinks :: "string \<Rightarrow> (EventSink list, 'st) act"
  st_ListOutboundEvents :: "string \<Rightarrow> int64 \<Rightarrow> int \<Rightarrow> (CloudEvent list \<times> int64, 'st) act"
  st_ListEventDeliveries :: "EventDeliveryFilter \<Rightarrow> (EventDelivery list, 'st) act"
  st_ListDueDeliveries :: "time \<Rightarrow> int \<Rightarrow> (DueDelivery list, 'st) act"
  st_UpdateEventDelivery :: "string \<Rightarrow> EventDeliveryStatus \<Rightarrow> int32 \<Rightarrow> time option \<Rightarrow> string option \<Rightarrow> (unit, 'st) act"
  st_ScannerStatus :: "(int64 \<times> time option, 'st) act"
  st_PendingDeliveries :: "(int64, 'st) act"

section \<open>The in-memory store\<close>

record apiKeyRecord =
  ak_KeyID :: string
  ak_MerchantID :: string
  ak_Label :: string
  ak_RevokedAt :: "time option"
  ak_CreatedAt :: time

text \<open>The empty \<open>InvoiceID\<close> of an unattributed deposit is the empty string, as in the code.\<close>

record depositRecord =
  d_Seq :: nat
  d_WalletID :: string
  d_TxID :: string
  d_ActionIndex :: int32
  d_RecipientAddress :: string
  d_AmountZat :: int64
  d_Height :: int64
  d_Status :: DepositStatus
  d_ConfirmedHeight :: "int64 option"
  d_InvoiceID :: string
  d_DetectedAt :: time
  d_UpdatedAt :: time

record outboxEventRecord =
  oe_Seq :: nat
  oe_MerchantID :: string
  oe_Event :: CloudEvent
  oe_CreatedAt :: time

record refundRecord =
  rr_Seq :: nat
  rr_Refund :: Refund

record reviewRecord =
  rvr_Case :: ReviewCase
  rvr_DepositWalletID :: string
  rvr_DepositTxID :: string
  rvr_DepositActionIndex :: int32

text \<open>
  The fields of \<open>MemStore\<close> but for its mutex: every exported operation holds the mutex
  from its first access to the state to its return, so an operation is one atomic step.
  The sequence counters are natural numbers (an \<open>int64\<close> counter wraps after \<open>2^63\<close>
  increments). The last three fields are the environment of the store: the successive
  readings of the wall clock, the order in which each range loop over a map visits the
  keys, and the number of readings and loops so far. Nothing is assumed of the clock
  (it may stand still or go back) or of the orders.
\<close>

record MemStore =
  merchantSeq :: nat
  invoiceSeq :: nat
  depositSeq :: nat
  refundSeq :: nat
  reviewSeq :: nat
  sinkSeq :: nat
  outboxSeq :: nat
  deliverySeq :: nat
  merchants :: "Merchant gomap"
  merchantWallet :: "MerchantWallet gomap"
  nextAddressIndex :: "uint32 gomap"
  invoices :: "Invoice gomap"
  invoiceByExternal :: "string gomap gomap"
  invoiceByAddress :: "string gomap"
  invoiceToken :: "string gomap"
  apiKeySeq :: nat
  apiKeysByID :: "apiKeyRecord gomap"
  apiKeysByHash :: "string gomap"
  scanCursor :: "int64 gomap"
  scanLastEventAt :: "time gomap"
  deposits :: "depositRecord gomap"
  invoiceEventSeq :: nat
  invoiceEvents :: "InvoiceEvent list gomap"
  refunds :: "refundRecord list"
  reviewCases :: "reviewRecord gomap"
  reviewOrder :: "string list"
  eventSinks :: "EventSink gomap"
  outbox :: "outboxEventRecord list"
  deliveries :: "EventDelivery gomap"
  env_clock :: "nat \<Rightarrow> time"
  env_order :: "nat \<Rightarrow> string \<Rightarrow> nat"
  env_ticks :: nat

definition NewMem :: "(nat \<Rightarrow> time) \<Rightarrow> (nat \<Rightarrow> string \<Rightarrow> nat) \<Rightarrow> MemStore" where
  "NewMem clock prio = \<lparr>
     merchantSeq = 0, invoiceSeq = 0, depositSeq = 0, refundSeq = 0, reviewSeq = 0,
     sinkSeq = 0, outboxSeq = 0, deliverySeq = 0,
     merchants = [], merchantWallet = [], nextAddressIndex = [],
     invoices = [], invoiceByExternal = [], invoiceByAddress = [], invoiceToken = [],
     apiKeySeq = 0, apiKeysByID = [], apiKeysByHash = [],
     scanCursor = [], scanLastEventAt = [], deposits = [],
     invoiceEventSeq = 0, invoiceEvents = [], refunds = [],
     reviewCases = [], reviewOrder = [],
     eventSinks = [], outbox = [], deliveries = [],
     env_clock = clock, env_order = prio, env_ticks = 0\<rparr>"

text \<open>\<open>time.Now().UTC()\<close> reads the clock (then \<open>ticked\<close>), and a loop over a map of the
  store takes the order of the present tick.\<close>

definition time_Now :: "MemStore \<Rightarrow> time" where
  "time_Now s = env_clock s (env_ticks s)"

definition ticked :: "MemStore \<Rightarrow> MemStore" where
  "ticked s = s\<lparr>env_ticks := Suc (env_ticks s)\<rparr>"

definition ranged :: "MemStore \<Rightarrow> 'v gomap \<Rightarrow> 'v gomap" where
  "ranged s m = range_map (env_order s (env_ticks s)) m"

text \<open>An identifier: a prefix and the counter in \<open>%016x\<close>.\<close>

definition mk_id :: "string \<Rightarrow> nat \<Rightarrow> string" where
  "mk_id prefix n = prefix @ hex016 n"

lemma mk_id_inj [simp]: "mk_id p m = mk_id p n \<longleftrightarrow> m = n"
  by (simp add: mk_id_def)

lemma mk_id_not_Nil [simp]: "mk_id p n \<noteq> []"
  by (simp add: mk_id_def)

lemma TrimSpace_mk_id: "plain_char c \<Longrightarrow> TrimSpace (mk_id (c # p) n) = mk_id (c # p) n"
  by (simp add: mk_id_def TrimSpace_id_hex016)

lemma set_ranged [simp]: "set (ranged s m) = set m"
  by (simp add: ranged_def)

lemma mset_ranged [simp]: "mset (ranged s m) = mset m"
  by (simp add: ranged_def)

lemma wf_ranged [simp]: "wf_map (ranged s m) = wf_map m"
  by (simp add: ranged_def)

lemma map_of_ranged: "wf_map m \<Longrightarrow> map_of (ranged s m) = map_of m"
  by (simp add: ranged_def map_of_range_map)

text \<open>The clock readings touch no field of the store proper.\<close>

lemma ticked_simps [simp]:
  "merchantSeq (ticked s) = merchantSeq s" "invoiceSeq (ticked s) = invoiceSeq s"
  "depositSeq (ticked s) = depositSeq s" "refundSeq (ticked s) = refundSeq s"
  "reviewSeq (ticked s) = reviewSeq s" "sinkSeq (ticked s) = sinkSeq s"
  "outboxSeq (ticked s) = outboxSeq s" "deliverySeq (ticked s) = deliverySeq s"
  "merchants (ticked s) = merchants s" "merchantWallet (ticked s) = merchantWallet s"
  "nextAddressIndex (ticked s) = nextAddressIndex s" "invoices (ticked s) = invoices s"
  "invoiceByExternal (ticked s) = invoiceByExternal s"
  "invoiceByAddress (ticked s) = invoiceByAddress s" "invoiceToken (ticked s) = invoiceToken s"
  "apiKeySeq (ticked s) = apiKeySeq s" "apiKeysByID (ticked s) = apiKeysByID s"
  "apiKeysByHash (ticked s) = apiKeysByHash s" "scanCursor (ticked s) = scanCursor s"
  "scanLastEventAt (ticked s) = scanLastEventAt s" "deposits (ticked s) = deposits s"
  "invoiceEventSeq (ticked s) = invoiceEventSeq s" "invoiceEvents (ticked s) = invoiceEvents s"
  "refunds (ticked s) = refunds s" "reviewCases (ticked s) = reviewCases s"
  "reviewOrder (ticked s) = reviewOrder s" "eventSinks (ticked s) = eventSinks s"
  "outbox (ticked s) = outbox s" "deliveries (ticked s) = deliveries s"
  by (simp_all add: ticked_def)

end
