(* ===== verification/OutboxWorker.thy ===== *)
theory OutboxWorker
  imports GoHttp GoUrl JsonText ScanTypes Crypto Store
begin

text \<open>
  \<open>internal/outbox/outbox.go\<close>: the worker that delivers outbound events. Its options and
  constructor, the delivery to each kind of sink, one pass over the due deliveries (\<open>Sync\<close>),
  the polling loop (\<open>Run\<close>) and the retry delay. The store is any implementation of the
  interface; the contract the worker relies on is the locale \<open>delivery_store\<close>, and its lemmas say
  what a pass does to the deliveries.
\<close>

section \<open>The worker\<close>

record ('st, 'w) Worker =
  wk_st :: "'st Store"
  wk_http :: "'w http_client"
  wk_now :: "'w \<Rightarrow> time \<times> 'w"
  wk_pollInterval :: duration
  wk_batchSize :: int
  wk_maxAttempts :: int32

text \<open>A nil argument is \<open>None\<close>.\<close>

type_synonym ('st, 'w) Option = "('st, 'w) Worker \<Rightarrow> string + ('st, 'w) Worker"

definition WithHTTPClient :: "'w http_client option \<Rightarrow> ('st, 'w) Option" where
  "WithHTTPClient c wk = (case c of None \<Rightarrow> Inl ''outbox: http client is nil''
     | Some c' \<Rightarrow> Inr (wk\<lparr>wk_http := c'\<rparr>))"

definition WithNowFunc :: "('w \<Rightarrow> time \<times> 'w) option \<Rightarrow> ('st, 'w) Option" where
  "WithNowFunc now wk = (case now of None \<Rightarrow> Inl ''outbox: now func is nil''
     | Some f \<Rightarrow> Inr (wk\<lparr>wk_now := f\<rparr>))"

definition WithPollInterval :: "duration \<Rightarrow> ('st, 'w) Option" where
  "WithPollInterval d wk = (if d \<le> 0 then Inl ''outbox: poll interval must be > 0''
     else Inr (wk\<lparr>wk_pollInterval := d\<rparr>))"

definition WithBatchSize :: "int \<Rightarrow> ('st, 'w) Option" where
  "WithBatchSize n wk = (if n \<le> 0 \<or> n > 1000 then Inl ''outbox: batch size must be 1..1000''
     else Inr (wk\<lparr>wk_batchSize := n\<rparr>))"

definition WithMaxAttempts :: "int32 \<Rightarrow> ('st, 'w) Option" where
  "WithMaxAttempts n wk = (if n \<le> 0 \<or> n > 1000 then Inl ''outbox: max attempts must be 1..1000''
     else Inr (wk\<lparr>wk_maxAttempts := n\<rparr>))"

fun apply_options :: "('st, 'w) Option option list \<Rightarrow> ('st, 'w) Option" where
  "apply_options [] wk = Inr wk"
| "apply_options (None # opts) wk = apply_options opts wk"
| "apply_options (Some opt # opts) wk = (case opt wk of Inl e \<Rightarrow> Inl e | Inr wk' \<Rightarrow> apply_options opts wk')"

definition Worker_New :: "'w net \<Rightarrow> 'st Store option \<Rightarrow> ('st, 'w) Option option list \<Rightarrow> string + ('st, 'w) Worker" where
  "Worker_New net st opts =
     (case st of None \<Rightarrow> Inl ''outbox: store is nil''
      | Some st' \<Rightarrow> apply_options opts \<lparr>wk_st = st', wk_http = net_Client net (10 * Second),
          wk_now = net_Now net, wk_pollInterval = 500 * Millisecond, wk_batchSize = 100,
          wk_maxAttempts = 25\<rparr>)"

section \<open>The delay before a retry\<close>

text \<open>\<open>time.Second << (attempt - 1)\<close> keeps the low 64 bits.\<close>

definition backoff :: "int32 \<Rightarrow> duration" where
  "backoff attempt =
     (if attempt \<le> 1 then 1 * Second
      else (let d = wrap64 (Second * 2 ^ nat (attempt - 1)) in if d > Minute then Minute else d))"

section \<open>Delivery\<close>

text \<open>\<open>Time.MarshalJSON\<close> can fail, the rest of the envelope cannot.\<close>

definition marshal_error :: string where
  "marshal_error = ''json: error calling MarshalJSON for type time.Time: Time.MarshalJSON: year outside of range [0,9999]''"

record webhookConfig =
  wc_URL :: string
  wc_Secret :: string
  wc_TimeoutMS :: int64

definition webhookConfig_fields :: "webhookConfig field list" where
  "webhookConfig_fields = [str_field ''url'' wc_URL_update, str_field ''secret'' wc_Secret_update,
     int_field ''timeout_ms'' wc_TimeoutMS_update]"

definition webhook_timeout :: "int64 \<Rightarrow> duration" where
  "webhook_timeout ms =
     (let timeout = wrap64 (ms * Millisecond);
          timeout = (if timeout < 100 * Millisecond then 100 * Millisecond else timeout)
      in if timeout > 60 * Second then 60 * Second else timeout)"

definition webhook_signature :: "string \<Rightarrow> string \<Rightarrow> string" where
  "webhook_signature secret body = ''sha256='' @ hex_encode (hmac_sha256 secret body)"

definition webhook_request :: "webhookConfig \<Rightarrow> string \<Rightarrow> Request" where
  "webhook_request cfg body = \<lparr>rq_Method = ''POST'', rq_URL = wc_URL cfg,
     rq_Header = [(''Content-Type'', ''application/cloudevents+json''), (''User-Agent'', ''juno-pay-server'')] @
       (if wc_Secret cfg = [] then [] else [(''X-Juno-Signature'', webhook_signature (wc_Secret cfg) body)]),
     rq_Body = body\<rparr>"

definition webhook_result :: "Response \<Rightarrow> string option" where
  "webhook_result resp =
     (if rsp_StatusCode resp \<ge> 200 \<and> rsp_StatusCode resp \<le> 299 then None
      else (let s = TrimSpace (take (8 * 1024) (rsp_Body resp)) in
        Some (''http '' @ rsp_Status resp @ (if s = [] then [] else '': '' @ s))))"

text \<open>\<open>http.NewRequestWithContext\<close> fails for a URL that does not parse, which the code has
  ruled out before.\<close>

definition deliverWebhook :: "'w net \<Rightarrow> ('st, 'w) Worker \<Rightarrow> EventSink \<Rightarrow> CloudEvent \<Rightarrow> 'w io_err" where
  "deliverWebhook net wk sink ev w =
     (case unmarshal webhookConfig_fields \<lparr>wc_URL = [], wc_Secret = [], wc_TimeoutMS = 0\<rparr> (sk_Config sink) of
        None \<Rightarrow> (Some ''webhook config invalid json'', w)
      | Some cfg0 \<Rightarrow>
          (let cfg = cfg0\<lparr>wc_URL := TrimSpace (wc_URL cfg0)\<rparr> in
           if wc_URL cfg = [] then (Some ''webhook url is required'', w)
           else (case Parse (wc_URL cfg) of
               None \<Rightarrow> (Some ''webhook url invalid'', w)
             | Some u \<Rightarrow>
                 if url_Scheme u = [] \<or> url_Host u = [] then (Some ''webhook url invalid'', w)
                 else (case marshal_event ev of
                     None \<Rightarrow> (Some marshal_error, w)
                   | Some body \<Rightarrow>
                       (let client = (if wc_TimeoutMS cfg > 0
                          then net_Client net (webhook_timeout (wc_TimeoutMS cfg)) else wk_http wk) in
                        case client (webhook_request cfg body) w of
                          (Inl e, w) \<Rightarrow> (Some e, w)
                        | (Inr resp, w) \<Rightarrow> (webhook_result resp, w))))))"

definition splitCommaList :: "string \<Rightarrow> string list" where
  "splitCommaList s = filter (\<lambda>r. r \<noteq> []) (map TrimSpace (Split (CHR '','') s))"

record kafkaConfig =
  kc_Brokers :: string
  kc_Topic :: string

definition kafkaConfig_fields :: "kafkaConfig field list" where
  "kafkaConfig_fields = [str_field ''brokers'' kc_Brokers_update, str_field ''topic'' kc_Topic_update]"

definition deliverKafka :: "'w net \<Rightarrow> ('st, 'w) Worker \<Rightarrow> EventSink \<Rightarrow> CloudEvent \<Rightarrow> 'w io_err" where
  "deliverKafka net wk sink ev w =
     (case unmarshal kafkaConfig_fields \<lparr>kc_Brokers = [], kc_Topic = []\<rparr> (sk_Config sink) of
        None \<Rightarrow> (Some ''kafka config invalid json'', w)
      | Some cfg \<Rightarrow>
          (let brokers = TrimSpace (kc_Brokers cfg); topic = TrimSpace (kc_Topic cfg) in
           if brokers = [] then (Some ''kafka brokers is required'', w)
           else if topic = [] then (Some ''kafka topic is required'', w)
           else if splitCommaList brokers = [] then (Some ''kafka brokers invalid'', w)
           else (case marshal_event ev of
               None \<Rightarrow> (Some marshal_error, w)
             | Some body \<Rightarrow>
                 (let (now, w) = wk_now wk w in
                  kafka_WriteMessages net (splitCommaList brokers) topic (ce_ID ev) body now w))))"

record natsConfig =
  nc_URL :: string
  nc_Subject :: string

definition natsConfig_fields :: "natsConfig field list" where
  "natsConfig_fields = [str_field ''url'' nc_URL_update, str_field ''subject'' nc_Subject_update]"

definition deliverNATS :: "'w net \<Rightarrow> ('st, 'w) Worker \<Rightarrow> EventSink \<Rightarrow> CloudEvent \<Rightarrow> 'w io_err" where
  "deliverNATS net wk sink ev w =
     (case unmarshal natsConfig_fields \<lparr>nc_URL = [], nc_Subject = []\<rparr> (sk_Config sink) of
        None \<Rightarrow> (Some ''nats config invalid json'', w)
      | Some cfg \<Rightarrow>
          (let url = TrimSpace (nc_URL cfg); subject = TrimSpace (nc_Subject cfg) in
           if url = [] then (Some ''nats url is required'', w)
           else if subject = [] then (Some ''nats subject is required'', w)
           else (case marshal_event ev of
               None \<Rightarrow> (Some marshal_error, w)
             | Some body \<Rightarrow>
                 (case nats_Connect net url ''juno-pay-server'' (5 * Second) w of
                    (Inl e, w) \<Rightarrow> (Some e, w)
                  | (Inr nc, w) \<Rightarrow>
                      (case nats_Publish net nc subject body w of
                         (Some e, w) \<Rightarrow> (Some e, nats_Close net nc w)
                       | (None, w) \<Rightarrow>
                           (let (r, w) = nats_FlushTimeout net nc (5 * Second) w in (r, nats_Close net nc w)))))))"

record rabbitMQConfig =
  rq_cfg_URL :: string
  rq_cfg_Queue :: string

definition rabbitMQConfig_fields :: "rabbitMQConfig field list" where
  "rabbitMQConfig_fields = [str_field ''url'' rq_cfg_URL_update, str_field ''queue'' rq_cfg_Queue_update]"

definition deliverRabbitMQ :: "'w net \<Rightarrow> ('st, 'w) Worker \<Rightarrow> EventSink \<Rightarrow> CloudEvent \<Rightarrow> 'w io_err" where
  "deliverRabbitMQ net wk sink ev w =
     (case unmarshal rabbitMQConfig_fields \<lparr>rq_cfg_URL = [], rq_cfg_Queue = []\<rparr> (sk_Config sink) of
        None \<Rightarrow> (Some ''rabbitmq config invalid json'', w)
      | Some cfg \<Rightarrow>
          (let url = TrimSpace (rq_cfg_URL cfg); queue = TrimSpace (rq_cfg_Queue cfg) in
           if url = [] then (Some ''rabbitmq url is required'', w)
           else if queue = [] then (Some ''rabbitmq queue is required'', w)
           else (case marshal_event ev of
               None \<Rightarrow> (Some marshal_error, w)
             | Some body \<Rightarrow>
                 (case amqp_Dial net url w of
                    (Inl e, w) \<Rightarrow> (Some e, w)
                  | (Inr conn, w) \<Rightarrow>
                      (case amqp_Channel net conn w of
                         (Inl e, w) \<Rightarrow> (Some e, amqp_Close net conn w)
                       | (Inr ch, w) \<Rightarrow>
                           (case amqp_QueueDeclare net ch queue True w of
                              (Some e, w) \<Rightarrow> (Some e, amqp_Close net conn (amqp_CloseChannel net ch w))
                            | (None, w) \<Rightarrow>
                                (let (now, w) = wk_now wk w;
                                     (r, w) = amqp_Publish net ch queue
                                       [(''ContentType'', ''application/cloudevents+json''),
                                        (''DeliveryMode'', ''persistent''), (''MessageId'', ce_ID ev)] body now w
                                 in (r, amqp_Close net conn (amqp_CloseChannel net ch w)))))))))"

definition deliver :: "'w net \<Rightarrow> ('st, 'w) Worker \<Rightarrow> EventSink \<Rightarrow> CloudEvent \<Rightarrow> 'w io_err" where
  "deliver net wk sink ev w =
     (case sk_Kind sink of
        EventSinkWebhook \<Rightarrow> deliverWebhook net wk sink ev w
      | EventSinkKafka \<Rightarrow> deliverKafka net wk sink ev w
      | EventSinkNATS \<Rightarrow> deliverNATS net wk sink ev w
      | EventSinkRabbitMQ \<Rightarrow> deliverRabbitMQ net wk sink ev w
      | _ \<Rightarrow> (Some (''unsupported sink kind: '' @ EventSinkKind_str (sk_Kind sink)), w))"

section \<open>A pass over the due deliveries\<close>

definition next_attempt :: "EventDelivery \<Rightarrow> int32" where
  "next_attempt d = (let attempt = wrap32 (dl_Attempt d + 1) in if attempt < 1 then 1 else attempt)"

fun sync_tasks :: "'w net \<Rightarrow> ('st, 'w) Worker \<Rightarrow> time \<Rightarrow> DueDelivery list \<Rightarrow> 'st \<Rightarrow> 'w
    \<Rightarrow> store_error option \<times> 'st \<times> 'w" where
  "sync_tasks net wk now [] s w = (None, s, w)"
| "sync_tasks net wk now (t # ts) s w =
     (let k = dl_DeliveryID (dd_Delivery t); attempt = next_attempt (dd_Delivery t);
          (r, w) = deliver net wk (dd_Sink t) (dd_Event t) w;
          update = st_UpdateEventDelivery (wk_st wk) k;
          (u, s) = (case r of
            Some lastErr \<Rightarrow>
              if attempt \<ge> wk_maxAttempts wk
              then update EventDeliveryFailed attempt None (Some lastErr) s
              else update EventDeliveryPending attempt (Some (now + backoff attempt)) (Some lastErr) s
          | None \<Rightarrow> update EventDeliveryDelivered attempt None None s)
      in case u of Inl e \<Rightarrow> (Some e, s, w) | Inr _ \<Rightarrow> sync_tasks net wk now ts s w)"

definition Worker_Sync :: "'w net \<Rightarrow> ('st, 'w) Worker \<Rightarrow> 'st \<Rightarrow> 'w \<Rightarrow> store_error option \<times> 'st \<times> 'w" where
  "Worker_Sync net wk s w =
     (let (now, w) = wk_now wk w in
      case st_ListDueDeliveries (wk_st wk) now (wk_batchSize wk) s of
        (Inl e, s) \<Rightarrow> (Some e, s, w)
      | (Inr tasks, s) \<Rightarrow> sync_tasks net wk now tasks s w)"

text \<open>The loop of \<open>Run\<close>: \<open>ctx_done\<close> waits for the next tick or the end of the context, and
  \<open>fuel\<close> bounds the number of passes (\<open>None\<close>: still running).\<close>

fun Worker_Run :: "'w net \<Rightarrow> ('st, 'w) Worker \<Rightarrow> ('w \<Rightarrow> bool \<times> 'w) \<Rightarrow> nat \<Rightarrow> 'st \<Rightarrow> 'w
    \<Rightarrow> (store_error \<times> 'st \<times> 'w) option" where
  "Worker_Run net wk ctx_done 0 s w = None"
| "Worker_Run net wk ctx_done (Suc fuel) s w =
     (case Worker_Sync net wk s w of
        (Some e, s, w) \<Rightarrow> Some (e, s, w)
      | (None, s, w) \<Rightarrow>
          (let (stop, w) = ctx_done w in
           if stop then Some (OtherError ''context canceled'', s, w)
           else Worker_Run net wk ctx_done fuel s w))"

section \<open>The retry delay\<close>

lemma backoff_range: "1 \<le> attempt \<Longrightarrow> attempt \<le> 34 \<Longrightarrow> in_int64 (Second * 2 ^ nat (attempt - 1))"
proof -
  assume a: "1 \<le> attempt" "attempt \<le> 34"
  define x :: int where "x = 2 ^ nat (attempt - 1)"
  have "x \<le> 2 ^ 33" unfolding x_def using a by (intro power_increasing) auto
  moreover have "0 \<le> x" by (simp add: x_def)
  ultimately show ?thesis unfolding in_int64_def Second_def x_def [symmetric] by auto
qed

lemma backoff_eq: "1 \<le> attempt \<Longrightarrow> attempt \<le> 34 \<Longrightarrow> backoff attempt = min (Second * 2 ^ nat (attempt - 1)) Minute"
  using backoff_range [of attempt] by (auto simp: backoff_def Minute_def Second_def min_def)

lemma backoff_ge: "1 \<le> attempt \<Longrightarrow> attempt \<le> 34 \<Longrightarrow> Second \<le> backoff attempt"
proof -
  assume a: "1 \<le> attempt" "attempt \<le> 34"
  have "(1::int) \<le> 2 ^ nat (attempt - 1)" by simp
  with a show ?thesis by (simp add: backoff_eq Second_def Minute_def)
qed

section \<open>What a pass does to the deliveries\<close>

text \<open>The record of a delivery after an attempt at time \<open>now\<close> with result \<open>r\<close>.\<close>

definition settled :: "int32 \<Rightarrow> time \<Rightarrow> EventDelivery \<Rightarrow> string option \<Rightarrow> time \<Rightarrow> EventDelivery" where
  "settled maxAttempts now d r u = d\<lparr>
     dl_Status := (if r = None then EventDeliveryDelivered
       else if next_attempt d \<ge> maxAttempts then EventDeliveryFailed else EventDeliveryPending),
     dl_Attempt := next_attempt d,
     dl_NextRetryAt := (if r = None \<or> next_attempt d \<ge> maxAttempts then None
       else Some (now + backoff (next_attempt d))),
     dl_LastError := r, dl_UpdatedAt := u\<rparr>"

text \<open>The results of the attempts, made one after the other.\<close>

fun results :: "'w net \<Rightarrow> ('st, 'w) Worker \<Rightarrow> DueDelivery list \<Rightarrow> 'w \<Rightarrow> string option list \<times> 'w" where
  "results net wk [] w = ([], w)"
| "results net wk (t # ts) w = (let (r, w) = deliver net wk (dd_Sink t) (dd_Event t) w;
     (rs, w) = results net wk ts w in (r # rs, w))"

lemma length_results [simp]: "length (fst (results net wk ts w)) = length ts"
  by (induction ts arbitrary: w) (simp_all add: case_prod_beta Let_def)

definition task_key :: "DueDelivery \<Rightarrow> string" where
  "task_key t = dl_DeliveryID (dd_Delivery t)"

text \<open>The attempts a pending delivery has left.\<close>

definition attempts_left :: "int32 \<Rightarrow> EventDelivery \<Rightarrow> nat" where
  "attempts_left maxAttempts d =
     (if dl_Status d = EventDeliveryPending then nat (max 1 (maxAttempts - dl_Attempt d)) else 0)"

definition attempts_ok :: "int32 \<Rightarrow> EventDelivery \<Rightarrow> bool" where
  "attempts_ok maxAttempts d \<longleftrightarrow> 0 \<le> dl_Attempt d \<and> dl_Attempt d \<le> maxAttempts"

lemma next_attempt_ok: "attempts_ok m d \<Longrightarrow> m \<le> 1000 \<Longrightarrow> next_attempt d = dl_Attempt d + 1"
  by (simp add: attempts_ok_def next_attempt_def in_int32_def)

lemma settled_attempts: "attempts_ok m d \<Longrightarrow> dl_Status d = EventDeliveryPending \<Longrightarrow> dl_Attempt d < m \<Longrightarrow>
    m \<le> 1000 \<Longrightarrow>
    attempts_ok m (settled m now d r u) \<and> attempts_left m (settled m now d r u) < attempts_left m d"
  using next_attempt_ok [of m d] by (auto simp: settled_def attempts_ok_def attempts_left_def)

text \<open>The attempts left, over all deliveries.\<close>

definition total_left :: "int32 \<Rightarrow> (string \<Rightarrow> EventDelivery option) \<Rightarrow> nat" where
  "total_left maxAttempts ds = (\<Sum>k \<in> dom ds. attempts_left maxAttempts (the (ds k)))"

locale delivery_store =
  fixes st :: "'st Store" and ok :: "'st \<Rightarrow> bool" and dels :: "'st \<Rightarrow> string \<Rightarrow> EventDelivery option"
    and due :: "'st \<Rightarrow> time \<Rightarrow> DueDelivery \<Rightarrow> bool"
  assumes list_due: "ok s \<Longrightarrow> now \<noteq> 0 \<Longrightarrow> 0 < n \<Longrightarrow> n \<le> 1000 \<Longrightarrow>
      \<exists>ts s'. st_ListDueDeliveries st now n s = (Inr ts, s') \<and> ok s' \<and> dels s' = dels s \<and>
        distinct (map task_key ts) \<and> int (length ts) \<le> n \<and> (\<forall>t \<in> set ts. due s now t) \<and>
        (int (length ts) < n \<longrightarrow> (\<forall>t. due s now t \<longrightarrow> t \<in> set ts))"
    and due_pending: "ok s \<Longrightarrow> due s now t \<Longrightarrow> dels s (task_key t) = Some (dd_Delivery t) \<and>
      dl_Status (dd_Delivery t) = EventDeliveryPending"
    and update: "ok s \<Longrightarrow> dels s k = Some d \<Longrightarrow>
      \<exists>u s'. st_UpdateEventDelivery st k status a nx e s = (Inr (), s') \<and> ok s' \<and>
        dels s' = (dels s)(k \<mapsto> d\<lparr>dl_Status := status, dl_Attempt := a, dl_NextRetryAt := nx,
          dl_LastError := e, dl_UpdatedAt := u\<rparr>)"
    and finite_dels: "ok s \<Longrightarrow> finite (dom (dels s))"
begin

text \<open>One attempt and its record.\<close>

lemma sync_one:
  assumes "wk_st wk = st" "ok s" "dels s (task_key t) = Some (dd_Delivery t)"
    and "deliver net wk (dd_Sink t) (dd_Event t) w = (r, w')"
  obtains u s' where "ok s'"
    "dels s' = (dels s)(task_key t \<mapsto> settled (wk_maxAttempts wk) now (dd_Delivery t) r u)"
    "sync_tasks net wk now (t # ts) s w = sync_tasks net wk now ts s' w'"
proof -
  define status where "status = dl_Status (settled (wk_maxAttempts wk) now (dd_Delivery t) r 0)"
  define nx where "nx = dl_NextRetryAt (settled (wk_maxAttempts wk) now (dd_Delivery t) r 0)"
  obtain u s' where u: "st_UpdateEventDelivery st (task_key t) status (next_attempt (dd_Delivery t)) nx r s = (Inr (), s')"
    "ok s'" "dels s' = (dels s)(task_key t \<mapsto> (dd_Delivery t)\<lparr>dl_Status := status,
       dl_Attempt := next_attempt (dd_Delivery t), dl_NextRetryAt := nx, dl_LastError := r, dl_UpdatedAt := u\<rparr>)"
    using update [OF assms(2,3)] by blast
  have "dels s' = (dels s)(task_key t \<mapsto> settled (wk_maxAttempts wk) now (dd_Delivery t) r u)"
    by (simp add: u(3) status_def nx_def settled_def)
  moreover have "sync_tasks net wk now (t # ts) s w = sync_tasks net wk now ts s' w'"
    using u(1) by (cases r) (simp_all add: assms(1,4) status_def nx_def settled_def task_key_def Let_def split: if_splits)
  ultimately show ?thesis using that u(2) by blast
qed

lemma sync_tasks_spec:
  assumes "wk_st wk = st"
  shows "ok s \<Longrightarrow> distinct (map task_key ts) \<Longrightarrow> (\<forall>t \<in> set ts. dels s (task_key t) = Some (dd_Delivery t)) \<Longrightarrow>
    \<exists>s'. sync_tasks net wk now ts s w = (None, s', snd (results net wk ts w)) \<and> ok s' \<and>
      (\<forall>k. k \<notin> task_key ` set ts \<longrightarrow> dels s' k = dels s k) \<and>
      (\<forall>i < length ts. \<exists>u. dels s' (task_key (ts ! i)) =
        Some (settled (wk_maxAttempts wk) now (dd_Delivery (ts ! i)) (fst (results net wk ts w) ! i) u))"
proof (induction ts arbitrary: s w)
  case Nil
  then show ?case by simp
next
  case (Cons t ts)
  obtain r w1 where d: "deliver net wk (dd_Sink t) (dd_Event t) w = (r, w1)" by fastforce
  obtain u s1 where s1: "ok s1"
    "dels s1 = (dels s)(task_key t \<mapsto> settled (wk_maxAttempts wk) now (dd_Delivery t) r u)"
    "sync_tasks net wk now (t # ts) s w = sync_tasks net wk now ts s1 w1"
    using sync_one [OF assms Cons.prems(1) _ d] Cons.prems(3) by (metis list.set_intros(1))
  have new: "task_key t \<notin> task_key ` set ts" and dist: "distinct (map task_key ts)"
    using Cons.prems(2) by simp_all
  then have "\<forall>t' \<in> set ts. dels s1 (task_key t') = Some (dd_Delivery t')"
    using Cons.prems(3) s1(2) by (auto simp: image_iff)
  then obtain s2 where s2: "sync_tasks net wk now ts s1 w1 = (None, s2, snd (results net wk ts w1))" "ok s2"
    "\<forall>k. k \<notin> task_key ` set ts \<longrightarrow> dels s2 k = dels s1 k"
    "\<forall>i < length ts. \<exists>u. dels s2 (task_key (ts ! i)) =
        Some (settled (wk_maxAttempts wk) now (dd_Delivery (ts ! i)) (fst (results net wk ts w1) ! i) u)"
    using Cons.IH [OF s1(1) dist, of w1] by blast
  have "results net wk (t # ts) w = (r # fst (results net wk ts w1), snd (results net wk ts w1))"
    by (simp add: d case_prod_beta)
  moreover have "dels s2 (task_key t) = Some (settled (wk_maxAttempts wk) now (dd_Delivery t) r u)"
    using s2(3) new s1(2) by simp
  ultimately show ?case using s1(2,3) s2 by (fastforce simp: nth_Cons' less_Suc_eq_0_disj)
qed

text \<open>A pass: the due deliveries are attempted in turn, each record says how its attempt went, and
  no other delivery changes.\<close>

lemma Sync_spec:
  assumes "wk_st wk = st" "ok s" "wk_now wk w = (now, w1)" "now \<noteq> 0" "0 < wk_batchSize wk" "wk_batchSize wk \<le> 1000"
  obtains ts s' where "Worker_Sync net wk s w = (None, s', snd (results net wk ts w1))" "ok s'"
    "distinct (map task_key ts)" "int (length ts) \<le> wk_batchSize wk" "\<forall>t \<in> set ts. due s now t"
    "int (length ts) < wk_batchSize wk \<Longrightarrow> (\<forall>t. due s now t \<longrightarrow> t \<in> set ts)"
    "\<forall>k. k \<notin> task_key ` set ts \<longrightarrow> dels s' k = dels s k"
    "\<forall>i < length ts. \<exists>u. dels s' (task_key (ts ! i)) =
        Some (settled (wk_maxAttempts wk) now (dd_Delivery (ts ! i)) (fst (results net wk ts w1) ! i) u)"
proof -
  obtain ts s0 where l: "st_ListDueDeliveries st now (wk_batchSize wk) s = (Inr ts, s0)" "ok s0" "dels s0 = dels s"
    "distinct (map task_key ts)" "int (length ts) \<le> wk_batchSize wk" "\<forall>t \<in> set ts. due s now t"
    "int (length ts) < wk_batchSize wk \<longrightarrow> (\<forall>t. due s now t \<longrightarrow> t \<in> set ts)"
    using list_due [OF assms(2,4-6)] by blast
  have "\<forall>t \<in> set ts. dels s0 (task_key t) = Some (dd_Delivery t)"
    using l(3,6) due_pending [OF assms(2)] by metis
  then obtain s' where s': "sync_tasks net wk now ts s0 w1 = (None, s', snd (results net wk ts w1))" "ok s'"
    "\<forall>k. k \<notin> task_key ` set ts \<longrightarrow> dels s' k = dels s0 k"
    "\<forall>i < length ts. \<exists>u. dels s' (task_key (ts ! i)) =
        Some (settled (wk_maxAttempts wk) now (dd_Delivery (ts ! i)) (fst (results net wk ts w1) ! i) u)"
    using sync_tasks_spec [OF assms(1) l(2,4), of net now w1] by blast
  show ?thesis
  proof (rule that [of s' ts])
    show "Worker_Sync net wk s w = (None, s', snd (results net wk ts w1))"
      using assms(1,3) l(1) s'(1) by (simp add: Worker_Sync_def)
    show "\<forall>k. k \<notin> task_key ` set ts \<longrightarrow> dels s' k = dels s k" using s'(3) l(3) by simp
    show "\<forall>t. due s now t \<longrightarrow> t \<in> set ts" if "int (length ts) < wk_batchSize wk" using l(7) that by blast
  qed (fact s'(2) l(4) l(5) l(6) s'(4))+
qed

lemma total_left_less:
  assumes "ok s" "dom (dels s') = dom (dels s)" "K \<subseteq> dom (dels s)"
    and "\<And>k. k \<in> dom (dels s) - K \<Longrightarrow> dels s' k = dels s k"
    and "\<And>k. k \<in> K \<Longrightarrow> attempts_left m (the (dels s' k)) < attempts_left m (the (dels s k))"
  shows "total_left m (dels s') + card K \<le> total_left m (dels s)"
proof -
  have fin: "finite (dom (dels s))" using finite_dels [OF assms(1)] .
  have "total_left m (dels s') + card K = (\<Sum>k \<in> dom (dels s). attempts_left m (the (dels s' k)) + (if k \<in> K then 1 else 0))"
    using fin assms(2,3) by (simp add: total_left_def sum.distrib sum.If_cases inf.absorb2)
  also have "\<dots> \<le> total_left m (dels s)"
    unfolding total_left_def
  proof (rule sum_mono)
    fix k assume "k \<in> dom (dels s)"
    then show "attempts_left m (the (dels s' k)) + (if k \<in> K then 1 else 0) \<le> attempts_left m (the (dels s k))"
      using assms(4,5) [of k] by (cases "k \<in> K") auto
  qed
  finally show ?thesis .
qed

lemma Sync_progress:
  assumes "wk_st wk = st" "ok s" "wk_now wk w = (now, w1)" "now \<noteq> 0" "0 < wk_batchSize wk" "wk_batchSize wk \<le> 1000"
    and m: "wk_maxAttempts wk \<le> 1000"
    and attempts: "\<And>k d. dels s k = Some d \<Longrightarrow> attempts_ok (wk_maxAttempts wk) d \<and>
      (dl_Status d = EventDeliveryPending \<longrightarrow> dl_Attempt d < wk_maxAttempts wk)"
  obtains s' w' n where "Worker_Sync net wk s w = (None, s', w')" "ok s'"
    "total_left (wk_maxAttempts wk) (dels s') + n \<le> total_left (wk_maxAttempts wk) (dels s)"
    "n = 0 \<Longrightarrow> (\<forall>t. \<not> due s now t)"
    "\<And>k d. dels s' k = Some d \<Longrightarrow> attempts_ok (wk_maxAttempts wk) d \<and>
      (dl_Status d = EventDeliveryPending \<longrightarrow> dl_Attempt d < wk_maxAttempts wk)"
proof -
  let ?m = "wk_maxAttempts wk"
  obtain ts s' where sy: "Worker_Sync net wk s w = (None, s', snd (results net wk ts w1))" "ok s'"
    "distinct (map task_key ts)" "int (length ts) \<le> wk_batchSize wk" "\<forall>t \<in> set ts. due s now t"
    "int (length ts) < wk_batchSize wk \<Longrightarrow> (\<forall>t. due s now t \<longrightarrow> t \<in> set ts)"
    "\<forall>k. k \<notin> task_key ` set ts \<longrightarrow> dels s' k = dels s k"
    "\<forall>i < length ts. \<exists>u. dels s' (task_key (ts ! i)) =
        Some (settled ?m now (dd_Delivery (ts ! i)) (fst (results net wk ts w1) ! i) u)"
    using Sync_spec [OF assms(1-6), of net] by metis
  have K: "\<exists>t r u. t \<in> set ts \<and> task_key t = k \<and> dels s k = Some (dd_Delivery t) \<and>
      dl_Status (dd_Delivery t) = EventDeliveryPending \<and> dels s' k = Some (settled ?m now (dd_Delivery t) r u)"
    if "k \<in> task_key ` set ts" for k
  proof -
    obtain i where i: "i < length ts" "k = task_key (ts ! i)" using \<open>k \<in> task_key ` set ts\<close> by (auto simp: in_set_conv_nth)
    then show ?thesis using sy(5,8) due_pending [OF assms(2)] nth_mem [OF i(1)] by metis
  qed
  have less: "attempts_left ?m (the (dels s' k)) < attempts_left ?m (the (dels s k))" if k: "k \<in> task_key ` set ts" for k
    using K [OF k] attempts settled_attempts [OF _ _ _ m] by (metis option.sel)
  have dom: "dom (dels s') = dom (dels s)"
  proof (rule set_eqI)
    fix k
    show "k \<in> dom (dels s') \<longleftrightarrow> k \<in> dom (dels s)"
      using K [of k] sy(7) by (cases "k \<in> task_key ` set ts") auto
  qed
  have "total_left ?m (dels s') + card (task_key ` set ts) \<le> total_left ?m (dels s)"
  proof (rule total_left_less [OF assms(2) dom _ _ less])
    show "task_key ` set ts \<subseteq> dom (dels s)" using K by blast
  qed (use sy(7) in auto)
  moreover have "card (task_key ` set ts) = length ts"
    using distinct_card [OF sy(3)] by simp
  moreover have "\<forall>t. \<not> due s now t" if "length ts = 0" using sy(6) that assms(5) by auto
  moreover have "attempts_ok ?m d \<and> (dl_Status d = EventDeliveryPending \<longrightarrow> dl_Attempt d < ?m)"
    if d: "dels s' k = Some d" for k d
  proof (cases "k \<in> task_key ` set ts")
    case True
    obtain t :: DueDelivery and r u where t: "dels s k = Some (dd_Delivery t)" "dl_Status (dd_Delivery t) = EventDeliveryPending"
      "dels s' k = Some (settled ?m now (dd_Delivery t) r u)"
      using K [OF True] by blast
    then have "d = settled ?m now (dd_Delivery t) r u" using d by simp
    with t(1,2) attempts [OF t(1)] settled_attempts [OF _ _ _ m, of "dd_Delivery t" now r u] show ?thesis
      by (auto simp: settled_def split: if_splits)
  next
    case False
    with sy(7) d attempts show ?thesis by simp
  qed
  ultimately show ?thesis using that [of s' "snd (results net wk ts w1)" "length ts"] sy(1,2) by simp
qed

end

end
