(* ===== verification/Paging.thy ===== *)
theory Paging
  imports Prelude
begin

text \<open>
  The listing loops of the store. Each list operation walks records in order, skips those a
  filter rejects, and stops when it has \<open>limit\<close> of them (\<open>collect\<close>); the operations with a
  cursor also return the sequence number of the last record taken (\<open>page\<close>). The locale
  \<open>cursor_log\<close> is the contract such an operation needs of its log, increasing positive
  sequence numbers, and proves once that a client who follows the cursors sees every
  selected record exactly once, in order.
\<close>

section \<open>The loops\<close>

fun collect :: "('a \<Rightarrow> 'b option) \<Rightarrow> int \<Rightarrow> 'b list \<Rightarrow> 'a list \<Rightarrow> 'b list" where
  "collect f limit out [] = out"
| "collect f limit out (x # xs) = (case f x of
       None \<Rightarrow> collect f limit out xs
     | Some y \<Rightarrow> (let out = out @ [y] in
         if limit \<le> int (length out) then out else collect f limit out xs))"

fun page :: "('a \<Rightarrow> int64) \<Rightarrow> ('a \<Rightarrow> bool) \<Rightarrow> int \<Rightarrow> 'a list \<Rightarrow> int64 \<Rightarrow> 'a list \<Rightarrow> 'a list \<times> int64" where
  "page sq keep limit out next [] = (out, next)"
| "page sq keep limit out next (r # rs) =
     (if \<not> keep r then page sq keep limit out next rs
      else (let out = out @ [r]; next = sq r in
        if limit \<le> int (length out) then (out, next) else page sq keep limit out next rs))"

text \<open>The default of a limit: \<open>if limit <= 0 || limit > 1000 { limit = 100 }\<close>.\<close>

definition norm_limit :: "int \<Rightarrow> int" where
  "norm_limit limit = (if limit \<le> 0 \<or> limit > 1000 then 100 else limit)"

lemma norm_limit_pos [simp]: "0 < norm_limit limit"
  by (simp add: norm_limit_def)

lemma norm_limit_bound: "norm_limit limit \<le> 1000"
  by (simp add: norm_limit_def)

lemma norm_limit_id [simp]: "0 < limit \<Longrightarrow> limit \<le> 1000 \<Longrightarrow> norm_limit limit = limit"
  by (simp add: norm_limit_def)

section \<open>What the loops compute\<close>

lemma collect_append:
  "int (length out) < limit \<Longrightarrow>
   collect f limit out xs = out @ take (nat limit - length out) (List.map_filter f xs)"
proof (induction xs arbitrary: out)
  case (Cons x xs)
  show ?case
  proof (cases "f x")
    case None
    with Cons show ?thesis by (simp add: List.map_filter_def)
  next
    case (Some y)
    show ?thesis
    proof (cases "limit \<le> int (length (out @ [y]))")
      case True
      with Cons.prems have "nat limit - length out = 1" by simp
      with True Some show ?thesis by (simp add: List.map_filter_def)
    next
      case False
      with Cons.IH [of "out @ [y]"] Cons.prems Some
      have "collect f limit out (x # xs)
          = out @ y # take (nat limit - Suc (length out)) (List.map_filter f xs)" by simp
      moreover have "nat limit - length out = Suc (nat limit - Suc (length out))"
        using Cons.prems by simp
      ultimately show ?thesis using Some by (simp add: List.map_filter_def)
    qed
  qed
qed (simp add: List.map_filter_def)

lemma collect_eq: "0 < limit \<Longrightarrow> collect f limit [] xs = take (nat limit) (List.map_filter f xs)"
  using collect_append [of "[]" limit f xs] by simp

lemma page_append:
  "int (length out) < limit \<Longrightarrow>
   page sq keep limit out next xs =
     (let new = take (nat limit - length out) (filter keep xs)
      in (out @ new, if new = [] then next else sq (last new)))"
proof (induction xs arbitrary: out "next")
  case (Cons x xs)
  show ?case
  proof (cases "keep x")
    case False
    with Cons show ?thesis by simp
  next
    case True
    show ?thesis
    proof (cases "limit \<le> int (length (out @ [x]))")
      case full: True
      with Cons.prems have "nat limit - length out = 1" by simp
      with full True show ?thesis by (simp add: Let_def)
    next
      case False
      moreover have "nat limit - length out = Suc (nat limit - Suc (length out))"
        using Cons.prems by simp
      ultimately show ?thesis
        using Cons.IH [of "out @ [x]" "sq x"] True by (simp add: Let_def)
    qed
  qed
qed (simp add: Let_def)

lemma page_eq:
  "0 < limit \<Longrightarrow> page sq keep limit [] 0 xs =
     (let new = take (nat limit) (filter keep xs) in (new, if new = [] then 0 else sq (last new)))"
  using page_append [of "[]" limit sq keep 0 xs] by simp

section \<open>Following the cursors\<close>

text \<open>
  A client that asks for a page, continues from the returned cursor and stops at the first
  empty page; \<open>fuel\<close> bounds the number of requests.
\<close>

fun walk :: "(int64 \<Rightarrow> 'a list \<times> int64) \<Rightarrow> nat \<Rightarrow> int64 \<Rightarrow> 'a list option" where
  "walk fetch 0 cursor = None"
| "walk fetch (Suc fuel) cursor = (case fetch cursor of (rs, next) \<Rightarrow>
     if rs = [] then Some []
     else (case walk fetch fuel next of None \<Rightarrow> None | Some rest \<Rightarrow> Some (rs @ rest)))"

locale cursor_log =
  fixes seq_of :: "'a \<Rightarrow> int64"
    and log_of :: "'st \<Rightarrow> 'a list"
    and good :: "'st \<Rightarrow> bool"
  assumes increasing: "good s \<Longrightarrow> sorted_wrt (<) (map seq_of (log_of s))"
    and positive: "good s \<Longrightarrow> r \<in> set (log_of s) \<Longrightarrow> 0 < seq_of r"
begin

text \<open>The page a list operation returns for a cursor.\<close>

definition fetch :: "('a \<Rightarrow> bool) \<Rightarrow> int \<Rightarrow> 'st \<Rightarrow> int64 \<Rightarrow> 'a list \<times> int64" where
  "fetch match limit s cursor =
     page seq_of (\<lambda>r. cursor < seq_of r \<and> match r) limit [] 0 (log_of s)"

definition after :: "('a \<Rightarrow> bool) \<Rightarrow> 'st \<Rightarrow> int64 \<Rightarrow> 'a list" where
  "after match s cursor = filter (\<lambda>r. cursor < seq_of r \<and> match r) (log_of s)"

lemma fetch_eq:
  "0 < limit \<Longrightarrow> fetch match limit s cursor =
     (let new = take (nat limit) (after match s cursor) in (new, if new = [] then 0 else seq_of (last new)))"
  by (simp add: fetch_def after_def page_eq)

lemma fetch_nonneg:
  assumes "good s" "0 < limit" "0 \<le> cursor"
  shows "0 \<le> snd (fetch match limit s cursor)"
proof (cases "take (nat limit) (after match s cursor) = []")
  case True
  with assms(2) show ?thesis by (simp add: fetch_eq Let_def)
next
  case False
  then have "last (take (nat limit) (after match s cursor)) \<in> set (take (nat limit) (after match s cursor))"
    by (rule last_in_set)
  then have "last (take (nat limit) (after match s cursor)) \<in> set (log_of s)"
    using set_take_subset [of "nat limit" "after match s cursor"] by (auto simp: after_def)
  with positive [OF assms(1)] False assms(2) show ?thesis by (auto simp: fetch_eq Let_def less_imp_le)
qed

lemma after_split:
  assumes "good s" "after match s cursor = xs @ ys" "xs \<noteq> []"
  shows "after match s (seq_of (last xs)) = ys"
proof -
  have inc: "sorted_wrt (<) (map seq_of (xs @ ys))"
    using increasing [OF assms(1)] unfolding assms(2) [symmetric] after_def
    by (simp add: sorted_wrt_map sorted_wrt_filter)
  have gt: "cursor < seq_of (last xs)"
  proof -
    have "last xs \<in> set (after match s cursor)" using assms(2,3) by simp
    then show ?thesis by (simp add: after_def)
  qed
  have "after match s (seq_of (last xs)) = filter (\<lambda>r. seq_of (last xs) < seq_of r) (after match s cursor)"
    using gt by (auto simp: after_def intro!: filter_cong)
  also have "\<dots> = filter (\<lambda>r. seq_of (last xs) < seq_of r) xs @ filter (\<lambda>r. seq_of (last xs) < seq_of r) ys"
    by (simp add: assms(2))
  also have "filter (\<lambda>r. seq_of (last xs) < seq_of r) xs = []"
  proof -
    have "\<forall>r \<in> set xs. seq_of r \<le> seq_of (last xs)"
      using inc assms(3) by (cases xs rule: rev_cases) (auto simp: sorted_wrt_append)
    then show ?thesis by (auto simp: filter_empty_conv not_less)
  qed
  also have "filter (\<lambda>r. seq_of (last xs) < seq_of r) ys = ys"
    using inc assms(3) by (auto simp: sorted_wrt_append intro!: filter_True)
  finally show ?thesis by simp
qed

theorem walk_complete:
  assumes "good s" "0 < limit" "length (after match s cursor) < fuel"
  shows "walk (fetch match limit s) fuel cursor = Some (after match s cursor)"
  using assms(3)
proof (induction fuel arbitrary: cursor)
  case (Suc fuel)
  define new where "new = take (nat limit) (after match s cursor)"
  define rest where "rest = drop (nat limit) (after match s cursor)"
  have split: "after match s cursor = new @ rest" by (simp add: new_def rest_def)
  have f: "fetch match limit s cursor = (new, if new = [] then 0 else seq_of (last new))"
    using assms(2) by (simp add: fetch_eq new_def Let_def)
  show ?case
  proof (cases "new = []")
    case True
    with assms(2) have "after match s cursor = []" by (simp add: new_def)
    with f True show ?thesis by simp
  next
    case False
    then have "after match s (seq_of (last new)) = rest"
      using after_split [OF assms(1) split] by simp
    moreover have "length rest < fuel" using Suc.prems split False by (cases new) simp_all
    ultimately have "walk (fetch match limit s) fuel (seq_of (last new)) = Some rest"
      using Suc.IH by metis
    with f False split show ?thesis by simp
  qed
qed simp

text \<open>From the start every selected record is seen, and none twice.\<close>

lemma after_start: "good s \<Longrightarrow> after match s 0 = filter match (log_of s)"
  using positive by (auto simp: after_def intro!: filter_cong)

lemma after_distinct: "good s \<Longrightarrow> distinct (after match s cursor)"
  using increasing by (metis after_def distinct_filter distinct_if_sorted_wrt_less distinct_map)

corollary walk_all:
  assumes "good s" "0 < limit" "length (log_of s) < fuel"
  shows "walk (fetch match limit s) fuel 0 = Some (filter match (log_of s))"
proof -
  have "length (after match s 0) < fuel"
    using assms(3) length_filter_le [of _ "log_of s"] unfolding after_def by (rule le_less_trans [rotated])
  with assms(1,2) walk_complete [of s limit match 0 fuel] show ?thesis by (simp add: after_start)
qed

end

end
