(* ===== verification/MerchantStore.thy ===== *)
theory MerchantStore
  imports Store Crypto "HOL-Library.Char_ord" "HOL-Library.List_Lexorder" "HOL-Library.Product_Lexorder"
begin

text \<open>
  The merchant operations of the in-memory store (\<open>mem.go\<close>): merchants and their settings,
  the one immutable wallet of a merchant, its address counter, and its API keys, which are
  stored under the SHA-256 of the token. \<open>merchant_inv\<close> is what every operation of the
  store keeps of this part of the state.
\<close>

section \<open>Operations\<close>

definition CreateMerchant :: "string \<Rightarrow> MerchantSettings \<Rightarrow> (Merchant, MemStore) act" where
  "CreateMerchant name0 settings s =
     (let name = TrimSpace name0 in
      if name = [] then (Inl (invalid_argument ''name is required''), s)
      else (case Validate settings of
          Some e \<Rightarrow> (Inl e, s)
        | None \<Rightarrow>
            (let s = s\<lparr>merchantSeq := merchantSeq s + 1\<rparr>;
                 now = time_Now s;
                 s = ticked s;
                 id = mk_id ''m_'' (merchantSeq s);
                 m = \<lparr>m_MerchantID = id, m_Name = name, m_Status = MerchantActive,
                      m_Settings = settings, m_CreatedAt = now, m_UpdatedAt = now\<rparr>
             in (Inr m, s\<lparr>merchants := mput id m (merchants s)\<rparr>))))"

definition GetMerchant :: "string \<Rightarrow> (Merchant option, MemStore) act" where
  "GetMerchant merchantID s = (Inr (map_of (merchants s) merchantID), s)"

definition ListMerchants :: "(Merchant list, MemStore) act" where
  "ListMerchants s = (Inr (map snd (ranged s (merchants s))), ticked s)"

definition UpdateMerchantSettings :: "string \<Rightarrow> MerchantSettings \<Rightarrow> (Merchant, MemStore) act" where
  "UpdateMerchantSettings merchantID settings s =
     (case Validate settings of
        Some e \<Rightarrow> (Inl e, s)
      | None \<Rightarrow> (case map_of (merchants s) merchantID of
          None \<Rightarrow> (Inl ErrNotFound, s)
        | Some m0 \<Rightarrow>
            (let m = m0\<lparr>m_Settings := settings, m_UpdatedAt := time_Now s\<rparr>;
                 s = ticked s
             in (Inr m, s\<lparr>merchants := mput merchantID m (merchants s)\<rparr>))))"

definition SetMerchantWallet :: "string \<Rightarrow> MerchantWallet \<Rightarrow> (MerchantWallet, MemStore) act" where
  "SetMerchantWallet merchantID w0 s =
     (let w = w0\<lparr>mw_MerchantID := merchantID, mw_WalletID := TrimSpace (mw_WalletID w0),
                 mw_UFVK := TrimSpace (mw_UFVK w0), mw_Chain := TrimSpace (mw_Chain w0),
                 mw_UAHRP := TrimSpace (mw_UAHRP w0)\<rparr> in
      if mw_WalletID w = [] then (Inl (invalid_argument ''wallet_id is required''), s)
      else if mw_UFVK w = [] then (Inl (invalid_argument ''ufvk is required''), s)
      else if mw_UAHRP w = [] then (Inl (invalid_argument ''ua_hrp is required''), s)
      else if mw_Chain w = [] then (Inl (invalid_argument ''chain is required''), s)
      else if \<not> has_key merchantID (merchants s) then (Inl ErrNotFound, s)
      else if has_key merchantID (merchantWallet s) then (Inl ErrConflict, s)
      else
        (let w = w\<lparr>mw_CreatedAt := time_Now s\<rparr>;
             s = ticked s
         in (Inr w, s\<lparr>merchantWallet := mput merchantID w (merchantWallet s),
                      nextAddressIndex := mput merchantID 0 (nextAddressIndex s)\<rparr>)))"

definition GetMerchantWallet :: "string \<Rightarrow> (MerchantWallet option, MemStore) act" where
  "GetMerchantWallet merchantID s = (Inr (map_of (merchantWallet s) merchantID), s)"

definition ListMerchantWallets :: "(MerchantWallet list, MemStore) act" where
  "ListMerchantWallets s = (Inr (map snd (ranged s (merchantWallet s))), ticked s)"

text \<open>A missing counter reads as 0, as in Go; \<open>idx + 1\<close> wraps at 32 bits.\<close>

definition NextAddressIndex :: "string \<Rightarrow> (uint32, MemStore) act" where
  "NextAddressIndex merchantID0 s =
     (let merchantID = TrimSpace merchantID0 in
      if merchantID = [] then (Inl (invalid_argument ''merchant_id is required''), s)
      else if \<not> has_key merchantID (merchants s) then (Inl ErrNotFound, s)
      else if \<not> has_key merchantID (merchantWallet s) then (Inl ErrNotFound, s)
      else
        (let idx = (case map_of (nextAddressIndex s) merchantID of None \<Rightarrow> 0 | Some i \<Rightarrow> i)
         in (Inr idx, s\<lparr>nextAddressIndex := mput merchantID (idx + 1) (nextAddressIndex s)\<rparr>)))"

text \<open>The argument \<open>raw\<close> is what \<open>rand.Read\<close> returns. A failing generator leaves the key
  counter incremented, as in the code.\<close>

definition CreateMerchantAPIKey :: "string option \<Rightarrow> string \<Rightarrow> string \<Rightarrow> (string \<times> string, MemStore) act" where
  "CreateMerchantAPIKey raw merchantID0 label0 s =
     (let merchantID = TrimSpace merchantID0; label = TrimSpace label0 in
      if merchantID = [] then (Inl (invalid_argument ''merchant_id is required''), s)
      else if \<not> has_key merchantID (merchants s) then (Inl ErrNotFound, s)
      else
        (let s = s\<lparr>apiKeySeq := apiKeySeq s + 1\<rparr>;
             keyID = mk_id ''key_'' (apiKeySeq s)
         in case raw of
              None \<Rightarrow> (Inl (OtherError ''rand''), s)
            | Some bs \<Rightarrow>
                (let apiKey = ''jps_'' @ hex_encode bs;
                     hashHex = sha256_hex apiKey;
                     s = s\<lparr>apiKeysByHash := mput hashHex keyID (apiKeysByHash s)\<rparr>;
                     now = time_Now s;
                     s = ticked s;
                     rec = \<lparr>ak_KeyID = keyID, ak_MerchantID = merchantID, ak_Label = label,
                            ak_RevokedAt = None, ak_CreatedAt = now\<rparr>
                 in (Inr (keyID, apiKey), s\<lparr>apiKeysByID := mput keyID rec (apiKeysByID s)\<rparr>))))"

definition RevokeMerchantAPIKey :: "string \<Rightarrow> (unit, MemStore) act" where
  "RevokeMerchantAPIKey keyID0 s =
     (let keyID = TrimSpace keyID0 in
      if keyID = [] then (Inl (invalid_argument ''key_id is required''), s)
      else (case map_of (apiKeysByID s) keyID of
          None \<Rightarrow> (Inl ErrNotFound, s)
        | Some rec \<Rightarrow>
            (let now = time_Now s; s = ticked s
             in (Inr (), s\<lparr>apiKeysByID := mput keyID (rec\<lparr>ak_RevokedAt := Some now\<rparr>) (apiKeysByID s)\<rparr>))))"

definition LookupMerchantIDByAPIKey :: "string \<Rightarrow> (string option, MemStore) act" where
  "LookupMerchantIDByAPIKey apiKey0 s =
     (let apiKey = TrimSpace apiKey0 in
      if apiKey = [] then (Inr None, s)
      else (case map_of (apiKeysByHash s) (sha256_hex apiKey) of
          None \<Rightarrow> (Inr None, s)
        | Some keyID \<Rightarrow> (case map_of (apiKeysByID s) keyID of
            None \<Rightarrow> (Inr None, s)
          | Some rec \<Rightarrow>
              if ak_RevokedAt rec \<noteq> None then (Inr None, s)
              else (Inr (Some (ak_MerchantID rec)), s))))"

definition api_key_of :: "apiKeyRecord \<Rightarrow> MerchantAPIKey" where
  "api_key_of rec = \<lparr>mk_KeyID = ak_KeyID rec, mk_MerchantID = ak_MerchantID rec,
     mk_Label = ak_Label rec, mk_CreatedAt = ak_CreatedAt rec, mk_RevokedAt = ak_RevokedAt rec\<rparr>"

text \<open>Sorted by creation time, newest first, then by descending key id: the comparison of
  the source is a strict total order on keys with distinct ids.\<close>

definition ListMerchantAPIKeys :: "string \<Rightarrow> (MerchantAPIKey list, MemStore) act" where
  "ListMerchantAPIKeys merchantID0 s =
     (let merchantID = TrimSpace merchantID0 in
      if merchantID = [] then (Inl (invalid_argument ''merchant_id is required''), s)
      else
        (let out = map api_key_of (filter (\<lambda>rec. ak_MerchantID rec = merchantID)
               (map snd (ranged s (apiKeysByID s))))
         in (Inr (rev (sort_key (\<lambda>k. (mk_CreatedAt k, mk_KeyID k)) out)), ticked s)))"

section \<open>The invariant\<close>

definition merchant_inv :: "MemStore \<Rightarrow> bool" where
  "merchant_inv s \<longleftrightarrow>
     wf_map (merchants s) \<and> wf_map (merchantWallet s) \<and> wf_map (nextAddressIndex s) \<and>
     wf_map (apiKeysByID s) \<and> wf_map (apiKeysByHash s) \<and>
     (\<forall>id m. map_of (merchants s) id = Some m \<longrightarrow>
        m_MerchantID m = id \<and> m_Name m \<noteq> [] \<and> Validate (m_Settings m) = None \<and>
        (\<exists>n. 0 < n \<and> n \<le> merchantSeq s \<and> id = mk_id ''m_'' n)) \<and>
     (\<forall>id w. map_of (merchantWallet s) id = Some w \<longrightarrow>
        has_key id (merchants s) \<and> mw_MerchantID w = id \<and> mw_WalletID w \<noteq> [] \<and>
        mw_UFVK w \<noteq> [] \<and> mw_UAHRP w \<noteq> [] \<and> mw_Chain w \<noteq> []) \<and>
     (\<forall>id. has_key id (nextAddressIndex s) \<longleftrightarrow> has_key id (merchantWallet s)) \<and>
     (\<forall>id k. map_of (apiKeysByID s) id = Some k \<longrightarrow>
        ak_KeyID k = id \<and> has_key (ak_MerchantID k) (merchants s) \<and>
        (\<exists>n. 0 < n \<and> n \<le> apiKeySeq s \<and> id = mk_id ''key_'' n)) \<and>
     (\<forall>h id. map_of (apiKeysByHash s) h = Some id \<longrightarrow> has_key id (apiKeysByID s))"

text \<open>What the other operations of the store leave alone.\<close>

definition same_merchants :: "MemStore \<Rightarrow> MemStore \<Rightarrow> bool" where
  "same_merchants s t \<longleftrightarrow>
     merchantSeq t = merchantSeq s \<and> merchants t = merchants s \<and>
     merchantWallet t = merchantWallet s \<and> nextAddressIndex t = nextAddressIndex s \<and>
     apiKeySeq t = apiKeySeq s \<and> apiKeysByID t = apiKeysByID s \<and> apiKeysByHash t = apiKeysByHash s"

lemma same_merchants_refl [simp]: "same_merchants s s"
  by (simp add: same_merchants_def)

lemma same_merchants_trans [trans]: "same_merchants s t \<Longrightarrow> same_merchants t u \<Longrightarrow> same_merchants s u"
  by (simp add: same_merchants_def)

lemma same_merchants_inv: "same_merchants s t \<Longrightarrow> merchant_inv s \<Longrightarrow> merchant_inv t"
  by (simp add: same_merchants_def merchant_inv_def)

lemma merchant_inv_NewMem: "merchant_inv (NewMem clock prio)"
  by (simp add: merchant_inv_def NewMem_def)

lemmas merchant_op_defs =
  CreateMerchant_def GetMerchant_def ListMerchants_def UpdateMerchantSettings_def
  SetMerchantWallet_def GetMerchantWallet_def ListMerchantWallets_def NextAddressIndex_def
  CreateMerchantAPIKey_def RevokeMerchantAPIKey_def LookupMerchantIDByAPIKey_def
  ListMerchantAPIKeys_def

section \<open>Every operation keeps the invariant\<close>

lemma CreateMerchant_inv [inv_intros]: "merchant_inv s \<Longrightarrow> merchant_inv (snd (CreateMerchant name settings s))"
  by (auto simp: CreateMerchant_def merchant_inv_def Let_def has_key_def split: option.split)
     (metis le_SucI)+

lemma UpdateMerchantSettings_inv [inv_intros]:
  "merchant_inv s \<Longrightarrow> merchant_inv (snd (UpdateMerchantSettings mid settings s))"
  by (auto simp: UpdateMerchantSettings_def merchant_inv_def Let_def has_key_def split: option.split)

lemma SetMerchantWallet_inv [inv_intros]: "merchant_inv s \<Longrightarrow> merchant_inv (snd (SetMerchantWallet mid w s))"
  by (auto simp: SetMerchantWallet_def merchant_inv_def Let_def has_key_def)

lemma NextAddressIndex_inv [inv_intros]: "merchant_inv s \<Longrightarrow> merchant_inv (snd (NextAddressIndex mid s))"
  by (auto simp: NextAddressIndex_def merchant_inv_def Let_def has_key_def)

lemma CreateMerchantAPIKey_inv [inv_intros]:
  "merchant_inv s \<Longrightarrow> merchant_inv (snd (CreateMerchantAPIKey raw mid label s))"
  by (auto simp: CreateMerchantAPIKey_def merchant_inv_def Let_def has_key_def split: option.split)
     (metis le_SucI)+

lemma RevokeMerchantAPIKey_inv [inv_intros]: "merchant_inv s \<Longrightarrow> merchant_inv (snd (RevokeMerchantAPIKey k s))"
  by (auto simp: RevokeMerchantAPIKey_def merchant_inv_def Let_def has_key_def split: option.split)

lemma merchant_reads [simp]:
  "snd (GetMerchant mid s) = s" "snd (ListMerchants s) = ticked s"
  "snd (GetMerchantWallet mid s) = s" "snd (ListMerchantWallets s) = ticked s"
  "snd (LookupMerchantIDByAPIKey k s) = s"
  by (auto simp: merchant_op_defs Let_def split: option.split)

lemma snd_ListMerchantAPIKeys: "snd (ListMerchantAPIKeys mid s) \<in> {s, ticked s}"
  by (simp add: ListMerchantAPIKeys_def Let_def)

lemma same_merchants_ticked [simp]: "same_merchants s (ticked s)"
  by (simp add: same_merchants_def)

end
