(* ===== verification/EventStore.thy ===== *)
theory EventStore
  imports Store Paging MerchantStore
begin

text \<open>
  Invoice events, the outbox and its deliveries (\<open>mem.go\<close>): an event is appended to an
  invoice's log at most once per type and deposit or refund, together with one outbound
  event in the outbox and one pending delivery for every active sink of the merchant.
\<close>

section \<open>Appending an event\<close>

definition sink_delivery :: "string \<Rightarrow> string \<Rightarrow> MemStore \<Rightarrow> EventSink \<Rightarrow> MemStore" where
  "sink_delivery merchantID eventID s sink =
     (if sk_MerchantID sink \<noteq> merchantID \<or> sk_Status sink \<noteq> EventSinkActive then s
      else
        (let s = s\<lparr>deliverySeq := deliverySeq s + 1\<rparr>;
             deliveryID = mk_id ''del_'' (deliverySeq s);
             now = time_Now s;
             s = ticked s
         in s\<lparr>deliveries := mput deliveryID
               \<lparr>dl_DeliveryID = deliveryID, dl_SinkID = sk_SinkID sink, dl_EventID = eventID,
                dl_Status = EventDeliveryPending, dl_Attempt = 0, dl_NextRetryAt = None,
                dl_LastError = None, dl_CreatedAt = now, dl_UpdatedAt = now\<rparr> (deliveries s)\<rparr>))"

definition opt_string :: "string option \<Rightarrow> json" where
  "opt_string o' = (case o' of None \<Rightarrow> JNull | Some v \<Rightarrow> JStr v)"

text \<open>The data of an outbound event. \<open>json.Marshal\<close> writes the keys of a map in order.\<close>

definition deposit_data :: "DepositRef \<Rightarrow> json" where
  "deposit_data dep = JObj [
     (''action_index'', JNum (FormatInt (dref_ActionIndex dep))),
     (''amount_zat'', JNum (FormatInt (dref_AmountZat dep))),
     (''height'', JNum (FormatInt (dref_Height dep))),
     (''txid'', JStr (dref_TxID dep)),
     (''wallet_id'', JStr (dref_WalletID dep))]"

definition refund_data :: "Refund \<Rightarrow> json" where
  "refund_data r = JObj [
     (''amount_zat'', JNum (FormatInt (rf_AmountZat r))),
     (''notes'', JStr (rf_Notes r)),
     (''refund_id'', JStr (rf_RefundID r)),
     (''sent_txid'', opt_string (rf_SentTxID r)),
     (''status'', JStr (RefundStatus_str (rf_Status r))),
     (''to_address'', JStr (rf_ToAddress r))]"

definition event_data :: "Invoice \<Rightarrow> string \<Rightarrow> DepositRef option \<Rightarrow> Refund option \<Rightarrow> json" where
  "event_data iv invoiceID dep refund = JObj (
     (case dep of None \<Rightarrow> [] | Some d \<Rightarrow> [(''deposit'', deposit_data d)]) @
     [(''external_order_id'', JStr (inv_ExternalOrderID iv)),
      (''invoice_id'', JStr invoiceID),
      (''merchant_id'', JStr (inv_MerchantID iv))] @
     (case refund of None \<Rightarrow> [] | Some r \<Rightarrow> [(''refund'', refund_data r)]))"

text \<open>Marshalling strings and integers does not fail, so the error branch of
  \<open>json.Marshal\<close> is not taken.\<close>

definition enqueueOutboxLocked :: "string \<Rightarrow> InvoiceEventType \<Rightarrow> time \<Rightarrow> DepositRef option \<Rightarrow>
    Refund option \<Rightarrow> MemStore \<Rightarrow> MemStore" where
  "enqueueOutboxLocked invoiceID typ occurredAt dep refund s =
     (case map_of (invoices s) invoiceID of
        None \<Rightarrow> s
      | Some iv \<Rightarrow>
          (let s = s\<lparr>outboxSeq := outboxSeq s + 1\<rparr>;
               eventID = mk_id ''evt_'' (outboxSeq s);
               ce = \<lparr>ce_SpecVersion = ''1.0'', ce_ID = eventID, ce_Source = ''juno-pay-server'',
                     ce_Type = InvoiceEventType_str typ, ce_Subject = ''invoice/'' @ invoiceID,
                     ce_Time = occurredAt, ce_DataContentType = ''application/json'',
                     ce_Data = event_data iv invoiceID dep refund\<rparr>;
               now = time_Now s;
               s = ticked s;
               s = s\<lparr>outbox := outbox s @ [\<lparr>oe_Seq = outboxSeq s, oe_MerchantID = inv_MerchantID iv,
                     oe_Event = ce, oe_CreatedAt = now\<rparr>]\<rparr>
           in foldl (sink_delivery (inv_MerchantID iv) eventID) s (map snd (ranged s (eventSinks s)))))"

text \<open>The idempotency check: an event of the log counts as the same event.\<close>

definition same_deposit :: "DepositRef \<Rightarrow> DepositRef \<Rightarrow> bool" where
  "same_deposit a b \<longleftrightarrow> dref_WalletID a = dref_WalletID b \<and> dref_TxID a = dref_TxID b \<and>
     dref_ActionIndex a = dref_ActionIndex b"

definition same_event :: "InvoiceEventType \<Rightarrow> DepositRef option \<Rightarrow> Refund option \<Rightarrow> InvoiceEvent \<Rightarrow> bool" where
  "same_event typ dep refund e \<longleftrightarrow>
     (case dep of
        Some d \<Rightarrow> ie_Type e = typ \<and> (case ie_Deposit e of None \<Rightarrow> False | Some d' \<Rightarrow> same_deposit d' d)
      | None \<Rightarrow> (case refund of
          Some r \<Rightarrow> ie_Type e = typ \<and> (case ie_Refund e of None \<Rightarrow> False | Some r' \<Rightarrow> rf_RefundID r' = rf_RefundID r)
        | None \<Rightarrow> ie_Type e = typ \<and> ie_Deposit e = None \<and> ie_Refund e = None))"

definition events_of :: "MemStore \<Rightarrow> string \<Rightarrow> InvoiceEvent list" where
  "events_of s invoiceID = (case map_of (invoiceEvents s) invoiceID of None \<Rightarrow> [] | Some es \<Rightarrow> es)"

definition appendInvoiceEventLocked :: "string \<Rightarrow> InvoiceEventType \<Rightarrow> time \<Rightarrow> DepositRef option \<Rightarrow>
    Refund option \<Rightarrow> MemStore \<Rightarrow> MemStore" where
  "appendInvoiceEventLocked invoiceID typ occurredAt dep refund s =
     (if invoiceID = [] then s
      else if list_ex (same_event typ dep refund) (events_of s invoiceID) then s
      else
        (let s = s\<lparr>invoiceEventSeq := invoiceEventSeq s + 1\<rparr>;
             idStr = FormatInt (int (invoiceEventSeq s));
             e = \<lparr>ie_EventID = idStr, ie_Type = typ, ie_OccurredAt = occurredAt,
                  ie_InvoiceID = invoiceID, ie_Deposit = dep, ie_Refund = refund\<rparr>;
             s = s\<lparr>invoiceEvents := mput invoiceID (events_of s invoiceID @ [e]) (invoiceEvents s)\<rparr>
         in enqueueOutboxLocked invoiceID typ occurredAt dep refund s))"

section \<open>Listing events\<close>

text \<open>\<open>idNum, _ := strconv.ParseInt(e.EventID, 10, 64)\<close>, 0 where the id does not parse.\<close>

definition event_num :: "InvoiceEvent \<Rightarrow> int64" where
  "event_num e = (case ParseInt 10 (ie_EventID e) of None \<Rightarrow> 0 | Some n \<Rightarrow> n)"

definition ListInvoiceEvents :: "string \<Rightarrow> int64 \<Rightarrow> int \<Rightarrow> (InvoiceEvent list \<times> int64, MemStore) act" where
  "ListInvoiceEvents invoiceID0 afterID limit0 s =
     (let invoiceID = TrimSpace invoiceID0 in
      if invoiceID = [] then (Inl (invalid_argument ''invoice_id is required''), s)
      else
        (let limit = norm_limit limit0; evs = events_of s invoiceID in
         if evs = [] then (Inr ([], 0), s)
         else (Inr (page event_num (\<lambda>e. afterID < event_num e) limit [] 0 evs), s)))"

definition ListOutboundEvents :: "string \<Rightarrow> int64 \<Rightarrow> int \<Rightarrow> (CloudEvent list \<times> int64, MemStore) act" where
  "ListOutboundEvents merchantID0 afterID limit0 s =
     (let merchantID = TrimSpace merchantID0; limit = norm_limit limit0;
          (rs, next) = page (\<lambda>r. int (oe_Seq r))
            (\<lambda>r. afterID < int (oe_Seq r) \<and> (merchantID \<noteq> [] \<longrightarrow> oe_MerchantID r = merchantID))
            limit [] 0 (outbox s)
      in (Inr (map oe_Event rs, next), s))"

section \<open>Sinks\<close>

text \<open>
  \<open>json.Marshal\<close> of an unmarshalled value: the keys of every object sorted, the last of
  repeated members kept. (A number is kept as its literal; Go prints it through a float.)
\<close>

definition last_members :: "(string \<times> json) list \<Rightarrow> (string \<times> json) list" where
  "last_members kvs = sort_key fst (foldl (\<lambda>m kv. mput (fst kv) (snd kv) m) [] kvs)"

primrec remarshal :: "json \<Rightarrow> json" where
  "remarshal JNull = JNull"
| "remarshal (JBool b) = JBool b"
| "remarshal (JNum l) = JNum l"
| "remarshal (JStr s) = JStr s"
| "remarshal (JArr xs) = JArr (map remarshal xs)"
| "remarshal (JObj kvs) = JObj (last_members (map (map_prod id remarshal) kvs))"

definition CreateEventSink :: "EventSinkCreate \<Rightarrow> (EventSink, MemStore) act" where
  "CreateEventSink req s =
     (let merchantID = TrimSpace (skc_MerchantID req) in
      if merchantID = [] then (Inl (invalid_argument ''merchant_id is required''), s)
      else if skc_Config req = RawEmpty then (Inl (invalid_argument ''config is required''), s)
      else (case skc_Kind req of
          EventSinkOther _ \<Rightarrow> (Inl (invalid_argument ''kind invalid''), s)
        | _ \<Rightarrow> (case skc_Config req of
            RawJson (JObj kvs) \<Rightarrow>
              if \<not> has_key merchantID (merchants s) then (Inl ErrNotFound, s)
              else
                (let s = s\<lparr>sinkSeq := sinkSeq s + 1\<rparr>;
                     now = time_Now s;
                     s = ticked s;
                     sinkID = mk_id ''sink_'' (sinkSeq s);
                     sink = \<lparr>sk_SinkID = sinkID, sk_MerchantID = merchantID, sk_Kind = skc_Kind req,
                             sk_Status = EventSinkActive, sk_Config = RawJson (remarshal (JObj kvs)),
                             sk_CreatedAt = now, sk_UpdatedAt = now\<rparr>
                 in (Inr sink, s\<lparr>eventSinks := mput sinkID sink (eventSinks s)\<rparr>))
          | RawJson _ \<Rightarrow> (Inl (invalid_argument ''config must be an object''), s)
          | _ \<Rightarrow> (Inl (invalid_argument ''config invalid json''), s))))"

definition GetEventSink :: "string \<Rightarrow> (EventSink option, MemStore) act" where
  "GetEventSink sinkID0 s =
     (let sinkID = TrimSpace sinkID0 in
      if sinkID = [] then (Inr None, s) else (Inr (map_of (eventSinks s) sinkID), s))"

definition ListEventSinks :: "string \<Rightarrow> (EventSink list, MemStore) act" where
  "ListEventSinks merchantID0 s =
     (let merchantID = TrimSpace merchantID0 in
      (Inr (filter (\<lambda>s0. merchantID \<noteq> [] \<longrightarrow> sk_MerchantID s0 = merchantID)
              (map snd (ranged s (eventSinks s)))), ticked s))"

section \<open>Deliveries\<close>

definition ListEventDeliveries :: "EventDeliveryFilter \<Rightarrow> (EventDelivery list, MemStore) act" where
  "ListEventDeliveries f s =
     (let merchantID = TrimSpace (edf_MerchantID f); sinkID = TrimSpace (edf_SinkID f);
          limit = norm_limit (edf_Limit f);
          take_one = (\<lambda>d.
            if sinkID \<noteq> [] \<and> dl_SinkID d \<noteq> sinkID then None
            else if (case edf_Status f of None \<Rightarrow> False | Some st \<Rightarrow> dl_Status d \<noteq> st) then None
            else if merchantID \<noteq> [] \<and> (case map_of (eventSinks s) (dl_SinkID d) of
                None \<Rightarrow> True | Some sink \<Rightarrow> sk_MerchantID sink \<noteq> merchantID) then None
            else Some d)
      in (Inr (collect take_one limit [] (map snd (ranged s (deliveries s)))), ticked s))"

definition findEvent :: "MemStore \<Rightarrow> string \<Rightarrow> CloudEvent option" where
  "findEvent s eventID =
     map_option oe_Event (find (\<lambda>r. ce_ID (oe_Event r) = eventID) (rev (outbox s)))"

definition due_delivery :: "MemStore \<Rightarrow> time \<Rightarrow> EventDelivery \<Rightarrow> DueDelivery option" where
  "due_delivery s now d =
     (if dl_Status d \<noteq> EventDeliveryPending then None
      else if (case dl_NextRetryAt d of None \<Rightarrow> False | Some t \<Rightarrow> t > now) then None
      else (case map_of (eventSinks s) (dl_SinkID d) of
          None \<Rightarrow> None
        | Some sink \<Rightarrow>
            if sk_Status sink \<noteq> EventSinkActive then None
            else (case findEvent s (dl_EventID d) of
                None \<Rightarrow> None
              | Some ev \<Rightarrow> Some \<lparr>dd_Delivery = d, dd_Sink = sink, dd_Event = ev\<rparr>)))"

definition ListDueDeliveries :: "time \<Rightarrow> int \<Rightarrow> (DueDelivery list, MemStore) act" where
  "ListDueDeliveries now0 limit0 s =
     (let limit = norm_limit limit0;
          now = (if IsZero now0 then time_Now s else now0);
          s = (if IsZero now0 then ticked s else s)
      in (Inr (collect (due_delivery s now) limit [] (map snd (ranged s (deliveries s)))), ticked s))"

definition UpdateEventDelivery :: "string \<Rightarrow> EventDeliveryStatus \<Rightarrow> int32 \<Rightarrow> time option \<Rightarrow> string option
    \<Rightarrow> (unit, MemStore) act" where
  "UpdateEventDelivery deliveryID0 status attempt nextRetryAt lastError s =
     (let deliveryID = TrimSpace deliveryID0 in
      if deliveryID = [] then (Inl (invalid_argument ''delivery_id is required''), s)
      else (case map_of (deliveries s) deliveryID of
          None \<Rightarrow> (Inl ErrNotFound, s)
        | Some d \<Rightarrow>
            (let d' = d\<lparr>dl_Status := status, dl_Attempt := attempt, dl_NextRetryAt := nextRetryAt,
                        dl_LastError := lastError, dl_UpdatedAt := time_Now s\<rparr>;
                 s = ticked s
             in (Inr (), s\<lparr>deliveries := mput deliveryID d' (deliveries s)\<rparr>))))"

definition PendingDeliveries :: "(int64, MemStore) act" where
  "PendingDeliveries s =
     (Inr (foldl (\<lambda>n d. if dl_Status d = EventDeliveryPending then wrap64 (n + 1) else n) 0
        (map snd (ranged s (deliveries s)))), ticked s)"

section \<open>What appending an event leaves alone\<close>

lemma sink_delivery_frame [simp]:
  "merchantSeq (sink_delivery m ev s k) = merchantSeq s"
  "invoiceSeq (sink_delivery m ev s k) = invoiceSeq s"
  "depositSeq (sink_delivery m ev s k) = depositSeq s" "refundSeq (sink_delivery m ev s k) = refundSeq s"
  "reviewSeq (sink_delivery m ev s k) = reviewSeq s" "sinkSeq (sink_delivery m ev s k) = sinkSeq s"
  "outboxSeq (sink_delivery m ev s k) = outboxSeq s" "merchants (sink_delivery m ev s k) = merchants s"
  "merchantWallet (sink_delivery m ev s k) = merchantWallet s"
  "nextAddressIndex (sink_delivery m ev s k) = nextAddressIndex s"
  "invoices (sink_delivery m ev s k) = invoices s"
  "invoiceByExternal (sink_delivery m ev s k) = invoiceByExternal s"
  "invoiceByAddress (sink_delivery m ev s k) = invoiceByAddress s"
  "invoiceToken (sink_delivery m ev s k) = invoiceToken s"
  "apiKeySeq (sink_delivery m ev s k) = apiKeySeq s"
  "apiKeysByID (sink_delivery m ev s k) = apiKeysByID s"
  "apiKeysByHash (sink_delivery m ev s k) = apiKeysByHash s"
  "scanCursor (sink_delivery m ev s k) = scanCursor s"
  "scanLastEventAt (sink_delivery m ev s k) = scanLastEventAt s"
  "deposits (sink_delivery m ev s k) = deposits s"
  "invoiceEventSeq (sink_delivery m ev s k) = invoiceEventSeq s"
  "invoiceEvents (sink_delivery m ev s k) = invoiceEvents s"
  "refunds (sink_delivery m ev s k) = refunds s" "reviewCases (sink_delivery m ev s k) = reviewCases s"
  "reviewOrder (sink_delivery m ev s k) = reviewOrder s"
  "eventSinks (sink_delivery m ev s k) = eventSinks s" "outbox (sink_delivery m ev s k) = outbox s"

  by (simp_all add: sink_delivery_def Let_def)

lemma sink_deliveries_frame [simp]:
  "merchantSeq (foldl (sink_delivery m ev) s ks) = merchantSeq s"
  "invoiceSeq (foldl (sink_delivery m ev) s ks) = invoiceSeq s"
  "depositSeq (foldl (sink_delivery m ev) s ks) = depositSeq s"
  "refundSeq (foldl (sink_delivery m ev) s ks) = refundSeq s"
  "reviewSeq (foldl (sink_delivery m ev) s ks) = reviewSeq s"
  "sinkSeq (foldl (sink_delivery m ev) s ks) = sinkSeq s"
  "outboxSeq (foldl (sink_delivery m ev) s ks) = outboxSeq s"
  "merchants (foldl (sink_delivery m ev) s ks) = merchants s"
  "merchantWallet (foldl (sink_delivery m ev) s ks) = merchantWallet s"
  "nextAddressIndex (foldl (sink_delivery m ev) s ks) = nextAddressIndex s"
  "invoices (foldl (sink_delivery m ev) s ks) = invoices s"
  "invoiceByExternal (foldl (sink_delivery m ev) s ks) = invoiceByExternal s"
  "invoiceByAddress (foldl (sink_delivery m ev) s ks) = invoiceByAddress s"
  "invoiceToken (foldl (sink_delivery m ev) s ks) = invoiceToken s"
  "apiKeySeq (foldl (sink_delivery m ev) s ks) = apiKeySeq s"
  "apiKeysByID (foldl (sink_delivery m ev) s ks) = apiKeysByID s"
  "apiKeysByHash (foldl (sink_delivery m ev) s ks) = apiKeysByHash s"
  "scanCursor (foldl (sink_delivery m ev) s ks) = scanCursor s"
  "scanLastEventAt (foldl (sink_delivery m ev) s ks) = scanLastEventAt s"
  "deposits (foldl (sink_delivery m ev) s ks) = deposits s"
  "invoiceEventSeq (foldl (sink_delivery m ev) s ks) = invoiceEventSeq s"
  "invoiceEvents (foldl (sink_delivery m ev) s ks) = invoiceEvents s"
  "refunds (foldl (sink_delivery m ev) s ks) = refunds s"
  "reviewCases (foldl (sink_delivery m ev) s ks) = reviewCases s"
  "reviewOrder (foldl (sink_delivery m ev) s ks) = reviewOrder s"
  "eventSinks (foldl (sink_delivery m ev) s ks) = eventSinks s"
  "outbox (foldl (sink_delivery m ev) s ks) = outbox s"


  by (induction ks arbitrary: s) simp_all

lemma enqueueOutboxLocked_frame [simp]:
  "merchantSeq (enqueueOutboxLocked iid typ t dep ref s) = merchantSeq s"
  "invoiceSeq (enqueueOutboxLocked iid typ t dep ref s) = invoiceSeq s"
  "depositSeq (enqueueOutboxLocked iid typ t dep ref s) = depositSeq s"
  "refundSeq (enqueueOutboxLocked iid typ t dep ref s) = refundSeq s"
  "reviewSeq (enqueueOutboxLocked iid typ t dep ref s) = reviewSeq s"
  "sinkSeq (enqueueOutboxLocked iid typ t dep ref s) = sinkSeq s"
  "merchants (enqueueOutboxLocked iid typ t dep ref s) = merchants s"
  "merchantWallet (enqueueOutboxLocked iid typ t dep ref s) = merchantWallet s"
  "nextAddressIndex (enqueueOutboxLocked iid typ t dep ref s) = nextAddressIndex s"
  "invoices (enqueueOutboxLocked iid typ t dep ref s) = invoices s"
  "invoiceByExternal (enqueueOutboxLocked iid typ t dep ref s) = invoiceByExternal s"
  "invoiceByAddress (enqueueOutboxLocked iid typ t dep ref s) = invoiceByAddress s"
  "invoiceToken (enqueueOutboxLocked iid typ t dep ref s) = invoiceToken s"
  "apiKeySeq (enqueueOutboxLocked iid typ t dep ref s) = apiKeySeq s"
  "apiKeysByID (enqueueOutboxLocked iid typ t dep ref s) = apiKeysByID s"
  "apiKeysByHash (enqueueOutboxLocked iid typ t dep ref s) = apiKeysByHash s"
  "scanCursor (enqueueOutboxLocked iid typ t dep ref s) = scanCursor s"
  "scanLastEventAt (enqueueOutboxLocked iid typ t dep ref s) = scanLastEventAt s"
  "deposits (enqueueOutboxLocked iid typ t dep ref s) = deposits s"
  "invoiceEventSeq (enqueueOutboxLocked iid typ t dep ref s) = invoiceEventSeq s"
  "invoiceEvents (enqueueOutboxLocked iid typ t dep ref s) = invoiceEvents s"
  "refunds (enqueueOutboxLocked iid typ t dep ref s) = refunds s"
  "reviewCases (enqueueOutboxLocked iid typ t dep ref s) = reviewCases s"
  "reviewOrder (enqueueOutboxLocked iid typ t dep ref s) = reviewOrder s"
  "eventSinks (enqueueOutboxLocked iid typ t dep ref s) = eventSinks s"


  by (simp_all add: enqueueOutboxLocked_def Let_def split: option.split)

lemma appendInvoiceEventLocked_frame [simp]:
  "merchantSeq (appendInvoiceEventLocked iid typ t dep ref s) = merchantSeq s"
  "invoiceSeq (appendInvoiceEventLocked iid typ t dep ref s) = invoiceSeq s"
  "depositSeq (appendInvoiceEventLocked iid typ t dep ref s) = depositSeq s"
  "refundSeq (appendInvoiceEventLocked iid typ t dep ref s) = refundSeq s"
  "reviewSeq (appendInvoiceEventLocked iid typ t dep ref s) = reviewSeq s"
  "sinkSeq (appendInvoiceEventLocked iid typ t dep ref s) = sinkSeq s"
  "merchants (appendInvoiceEventLocked iid typ t dep ref s) = merchants s"
  "merchantWallet (appendInvoiceEventLocked iid typ t dep ref s) = merchantWallet s"
  "nextAddressIndex (appendInvoiceEventLocked iid typ t dep ref s) = nextAddressIndex s"
  "invoices (appendInvoiceEventLocked iid typ t dep ref s) = invoices s"
  "invoiceByExternal (appendInvoiceEventLocked iid typ t dep ref s) = invoiceByExternal s"
  "invoiceByAddress (appendInvoiceEventLocked iid typ t dep ref s) = invoiceByAddress s"
  "invoiceToken (appendInvoiceEventLocked iid typ t dep ref s) = invoiceToken s"
  "apiKeySeq (appendInvoiceEventLocked iid typ t dep ref s) = apiKeySeq s"
  "apiKeysByID (appendInvoiceEventLocked iid typ t dep ref s) = apiKeysByID s"
  "apiKeysByHash (appendInvoiceEventLocked iid typ t dep ref s) = apiKeysByHash s"
  "scanCursor (appendInvoiceEventLocked iid typ t dep ref s) = scanCursor s"
  "scanLastEventAt (appendInvoiceEventLocked iid typ t dep ref s) = scanLastEventAt s"
  "deposits (appendInvoiceEventLocked iid typ t dep ref s) = deposits s"
  "refunds (appendInvoiceEventLocked iid typ t dep ref s) = refunds s"
  "reviewCases (appendInvoiceEventLocked iid typ t dep ref s) = reviewCases s"
  "reviewOrder (appendInvoiceEventLocked iid typ t dep ref s) = reviewOrder s"
  "eventSinks (appendInvoiceEventLocked iid typ t dep ref s) = eventSinks s"


  by (simp_all add: appendInvoiceEventLocked_def Let_def)

section \<open>The invariants\<close>

text \<open>
  The part of an invoice no operation changes: its mutable fields are reset. The published
  events depend on nothing else.
\<close>

definition inv_static :: "Invoice \<Rightarrow> Invoice" where
  "inv_static iv = iv\<lparr>inv_ReceivedPendingZat := 0, inv_ReceivedConfirmedZat := 0,
     inv_Status := InvoiceOpen, inv_UpdatedAt := 0\<rparr>"

definition statics :: "MemStore \<Rightarrow> string \<Rightarrow> Invoice option" where
  "statics s iid = map_option inv_static (map_of (invoices s) iid)"

text \<open>The logs: event ids are values of the one event counter, rising within a log; every
  event sits in the log of its invoice; and no log holds two events of the same type for
  the same deposit, the same refund, or (for the events of the invoice itself) at all.\<close>

definition event_key :: "InvoiceEvent \<Rightarrow> InvoiceEventType \<times> (string \<times> string \<times> int32) option \<times> string option" where
  "event_key e = (ie_Type e,
     map_option (\<lambda>d. (dref_WalletID d, dref_TxID d, dref_ActionIndex d)) (ie_Deposit e),
     map_option rf_RefundID (ie_Refund e))"

definition log_inv :: "MemStore \<Rightarrow> bool" where
  "log_inv s \<longleftrightarrow>
     wf_map (invoiceEvents s) \<and>
     (\<forall>iid. events_of s iid \<noteq> [] \<longrightarrow> iid \<noteq> [] \<and> statics s iid \<noteq> None) \<and>
     (\<forall>iid. \<exists>ns. map ie_EventID (events_of s iid) = map (\<lambda>n. FormatInt (int n)) ns \<and>
        sorted_wrt (<) ns \<and> (\<forall>n \<in> set ns. 0 < n \<and> n \<le> invoiceEventSeq s)) \<and>
     (\<forall>iid. \<forall>e \<in> set (events_of s iid). ie_InvoiceID e = iid \<and> (ie_Deposit e = None \<or> ie_Refund e = None)) \<and>
     (\<forall>iid. distinct (map event_key (events_of s iid))) \<and>
     (\<forall>iid iid' e e'. e \<in> set (events_of s iid) \<longrightarrow> e' \<in> set (events_of s iid') \<longrightarrow>
        ie_EventID e = ie_EventID e' \<longrightarrow> e = e')"

text \<open>The outbox: one record per event of the logs, in the order of their numbers.\<close>

definition cloud_event :: "Invoice \<Rightarrow> InvoiceEvent \<Rightarrow> nat \<Rightarrow> CloudEvent" where
  "cloud_event iv e n = \<lparr>ce_SpecVersion = ''1.0'', ce_ID = mk_id ''evt_'' n,
     ce_Source = ''juno-pay-server'', ce_Type = InvoiceEventType_str (ie_Type e),
     ce_Subject = ''invoice/'' @ ie_InvoiceID e, ce_Time = ie_OccurredAt e,
     ce_DataContentType = ''application/json'',
     ce_Data = event_data iv (ie_InvoiceID e) (ie_Deposit e) (ie_Refund e)\<rparr>"

definition publishes :: "MemStore \<Rightarrow> InvoiceEvent \<Rightarrow> outboxEventRecord \<Rightarrow> bool" where
  "publishes s e r \<longleftrightarrow> ie_EventID e = FormatInt (int (oe_Seq r)) \<and>
     (case statics s (ie_InvoiceID e) of None \<Rightarrow> False
      | Some iv \<Rightarrow> oe_MerchantID r = inv_MerchantID iv \<and> oe_Event r = cloud_event iv e (oe_Seq r))"

definition outbox_inv :: "MemStore \<Rightarrow> bool" where
  "outbox_inv s \<longleftrightarrow>
     map oe_Seq (outbox s) = [1..<Suc (outboxSeq s)] \<and> outboxSeq s = invoiceEventSeq s \<and>
     (\<forall>r \<in> set (outbox s). \<exists>iid. \<exists>e \<in> set (events_of s iid). publishes s e r) \<and>
     (\<forall>iid. \<forall>e \<in> set (events_of s iid). \<exists>r \<in> set (outbox s). publishes s e r)"

definition sink_inv :: "MemStore \<Rightarrow> bool" where
  "sink_inv s \<longleftrightarrow> wf_map (eventSinks s) \<and>
     (\<forall>k sink. map_of (eventSinks s) k = Some sink \<longrightarrow>
        sk_SinkID sink = k \<and> has_key (sk_MerchantID sink) (merchants s) \<and>
        (\<forall>x. sk_Kind sink \<noteq> EventSinkOther x) \<and> (\<exists>kvs. sk_Config sink = RawJson (JObj kvs)) \<and>
        (\<exists>n. 0 < n \<and> n \<le> sinkSeq s \<and> k = mk_id ''sink_'' n))"

text \<open>The deliveries: each joins a sink with an event of the sink's merchant, and no two join
  the same sink and event.\<close>

definition published :: "MemStore \<Rightarrow> string \<Rightarrow> string \<Rightarrow> bool" where
  "published s merchantID eventID \<longleftrightarrow>
     (\<exists>r \<in> set (outbox s). ce_ID (oe_Event r) = eventID \<and> oe_MerchantID r = merchantID)"

definition delivery_ok :: "MemStore \<Rightarrow> string \<Rightarrow> EventDelivery \<Rightarrow> bool" where
  "delivery_ok s k d \<longleftrightarrow> dl_DeliveryID d = k \<and>
     (\<exists>n. 0 < n \<and> n \<le> deliverySeq s \<and> k = mk_id ''del_'' n) \<and>
     (\<exists>sink. map_of (eventSinks s) (dl_SinkID d) = Some sink \<and>
        published s (sk_MerchantID sink) (dl_EventID d))"

definition delivery_inv :: "MemStore \<Rightarrow> bool" where
  "delivery_inv s \<longleftrightarrow> wf_map (deliveries s) \<and>
     (\<forall>k d. map_of (deliveries s) k = Some d \<longrightarrow> delivery_ok s k d) \<and>
     (\<forall>k d k' d'. map_of (deliveries s) k = Some d \<longrightarrow> map_of (deliveries s) k' = Some d' \<longrightarrow>
        dl_SinkID d = dl_SinkID d' \<longrightarrow> dl_EventID d = dl_EventID d' \<longrightarrow> k = k')"

definition event_inv :: "MemStore \<Rightarrow> bool" where
  "event_inv s \<longleftrightarrow> log_inv s \<and> outbox_inv s \<and> sink_inv s \<and> delivery_inv s"

definition same_events :: "MemStore \<Rightarrow> MemStore \<Rightarrow> bool" where
  "same_events s t \<longleftrightarrow> invoiceEventSeq t = invoiceEventSeq s \<and> invoiceEvents t = invoiceEvents s \<and>
     outboxSeq t = outboxSeq s \<and> outbox t = outbox s \<and> sinkSeq t = sinkSeq s \<and>
     eventSinks t = eventSinks s \<and> deliverySeq t = deliverySeq s \<and> deliveries t = deliveries s"

text \<open>Invoices may be added and their mutable fields may change, and merchants may be added.\<close>

definition keeps_invoices :: "MemStore \<Rightarrow> MemStore \<Rightarrow> bool" where
  "keeps_invoices s t \<longleftrightarrow> (\<forall>iid iv. statics s iid = Some iv \<longrightarrow> statics t iid = Some iv)"

definition keeps_merchants :: "MemStore \<Rightarrow> MemStore \<Rightarrow> bool" where
  "keeps_merchants s t \<longleftrightarrow> (\<forall>mid. has_key mid (merchants s) \<longrightarrow> has_key mid (merchants t))"

lemma keeps_refl [simp]: "keeps_invoices s s" "keeps_merchants s s"
  by (simp_all add: keeps_invoices_def keeps_merchants_def)

lemma same_events_refl [simp]: "same_events s s"
  by (simp add: same_events_def)

lemma keeps_invoices_eq: "invoices t = invoices s \<Longrightarrow> keeps_invoices s t"
  by (simp add: keeps_invoices_def statics_def)

lemma keeps_merchants_eq: "merchants t = merchants s \<Longrightarrow> keeps_merchants s t"
  by (simp add: keeps_merchants_def)

lemma event_inv_NewMem: "event_inv (NewMem clock prio)"
  by (simp add: event_inv_def log_inv_def outbox_inv_def sink_inv_def delivery_inv_def NewMem_def
      events_of_def)

lemma publishes_keeps: "keeps_invoices s t \<Longrightarrow> publishes s e r \<Longrightarrow> publishes t e r"
  by (auto simp: publishes_def keeps_invoices_def split: option.splits)

lemma event_inv_frame:
  assumes "event_inv s" "same_events s t" "keeps_invoices s t" "keeps_merchants s t"
  shows "event_inv t"
proof -
  have eq: "invoiceEventSeq t = invoiceEventSeq s" "invoiceEvents t = invoiceEvents s"
    "outboxSeq t = outboxSeq s" "outbox t = outbox s" "sinkSeq t = sinkSeq s"
    "eventSinks t = eventSinks s" "deliverySeq t = deliverySeq s" "deliveries t = deliveries s"
    and ev: "events_of t = events_of s"
    using assms(2) by (simp_all add: same_events_def events_of_def fun_eq_iff)
  have st: "\<And>iid. statics s iid \<noteq> None \<Longrightarrow> statics t iid \<noteq> None"
    using assms(3) by (auto simp: keeps_invoices_def)
  have inv: "log_inv s" "outbox_inv s" "sink_inv s" "delivery_inv s"
    using assms(1) by (simp_all add: event_inv_def)
  have "\<forall>iid. events_of s iid \<noteq> [] \<longrightarrow> iid \<noteq> [] \<and> statics s iid \<noteq> None"
    using inv(1) unfolding log_inv_def by (elim conjE)
  with st have "\<forall>iid. events_of s iid \<noteq> [] \<longrightarrow> iid \<noteq> [] \<and> statics t iid \<noteq> None" by blast
  with inv(1) have "log_inv t"
    unfolding log_inv_def eq ev by (elim conjE) (intro conjI)
  moreover have "outbox_inv t"
    using inv(2) publishes_keeps [OF assms(3)] unfolding outbox_inv_def eq ev by meson
  moreover have "sink_inv t"
    using inv(3) assms(4) unfolding sink_inv_def eq keeps_merchants_def by blast
  moreover have "delivery_inv t"
    using inv(4) unfolding delivery_inv_def delivery_ok_def eq published_def .
  ultimately show ?thesis by (simp add: event_inv_def)
qed

section \<open>Appending an event keeps the invariants\<close>

lemma same_event_iff:
  assumes "dep = None \<or> ref = None" "ie_Deposit e = None \<or> ie_Refund e = None"
  shows "same_event typ dep ref e \<longleftrightarrow> event_key e =
    (typ, map_option (\<lambda>d. (dref_WalletID d, dref_TxID d, dref_ActionIndex d)) dep, map_option rf_RefundID ref)"
  using assms by (auto simp: same_event_def same_deposit_def event_key_def split: option.split)

lemma log_invD:
  assumes "log_inv s"
  shows "wf_map (invoiceEvents s)"
    "events_of s iid \<noteq> [] \<Longrightarrow> iid \<noteq> []"
    "events_of s iid \<noteq> [] \<Longrightarrow> statics s iid \<noteq> None"
    "e \<in> set (events_of s iid) \<Longrightarrow> ie_InvoiceID e = iid"
    "e \<in> set (events_of s iid) \<Longrightarrow> ie_Deposit e = None \<or> ie_Refund e = None"
    "distinct (map event_key (events_of s iid))"
    "e \<in> set (events_of s iid) \<Longrightarrow> e' \<in> set (events_of s iid') \<Longrightarrow> ie_EventID e = ie_EventID e' \<Longrightarrow> e = e'"
proof -
  note inv = assms [unfolded log_inv_def]
  show "e \<in> set (events_of s iid) \<Longrightarrow> e' \<in> set (events_of s iid') \<Longrightarrow> ie_EventID e = ie_EventID e' \<Longrightarrow> e = e'"
    using inv [THEN conjunct2, THEN conjunct2, THEN conjunct2, THEN conjunct2, THEN conjunct2] by blast
qed (use assms in \<open>simp_all add: log_inv_def\<close>)

lemma log_inv_ids:
  assumes "log_inv s" "e \<in> set (events_of s iid)"
  shows "\<exists>n. 0 < n \<and> n \<le> invoiceEventSeq s \<and> ie_EventID e = FormatInt (int n)"
proof -
  from assms(1) obtain ns where ns: "map ie_EventID (events_of s iid) = map (\<lambda>n. FormatInt (int n)) ns"
    "\<forall>n \<in> set ns. 0 < n \<and> n \<le> invoiceEventSeq s"
    unfolding log_inv_def by metis
  have "ie_EventID e \<in> set (map ie_EventID (events_of s iid))" using assms(2) by simp
  with ns show ?thesis by auto
qed

lemma FormatInt_eq_iff [simp]: "FormatInt m = FormatInt n \<longleftrightarrow> m = n"
  using FormatInt_inj by auto

lemma log_inv_add:
  assumes inv: "log_inv s"
    and t: "wf_map (invoiceEvents t)" "invoiceEventSeq t = Suc (invoiceEventSeq s)" "invoices t = invoices s"
    and ev: "\<And>i. events_of t i = (if i = iid then events_of s iid @ [e] else events_of s i)"
    and iid: "iid \<noteq> []" "statics s iid \<noteq> None"
    and e: "ie_EventID e = FormatInt (int (Suc (invoiceEventSeq s)))" "ie_InvoiceID e = iid"
      "ie_Deposit e = None \<or> ie_Refund e = None"
      "\<And>x. x \<in> set (events_of s iid) \<Longrightarrow> event_key x \<noteq> event_key e"
  shows "log_inv t"
proof -
  have st: "statics t = statics s" using t(3) by (simp add: statics_def fun_eq_iff)
  have fresh: "ie_EventID x \<noteq> ie_EventID e" if "x \<in> set (events_of s i)" for x i
    using log_inv_ids [OF inv that] e(1) by auto
  show ?thesis
    unfolding log_inv_def st
  proof (intro conjI allI impI ballI)
    fix i
    show "\<exists>ns. map ie_EventID (events_of t i) = map (\<lambda>n. FormatInt (int n)) ns \<and>
        sorted_wrt (<) ns \<and> (\<forall>n \<in> set ns. 0 < n \<and> n \<le> invoiceEventSeq t)"
    proof -
      from inv obtain ns where ns: "map ie_EventID (events_of s i) = map (\<lambda>n. FormatInt (int n)) ns"
        "sorted_wrt (<) ns" "\<forall>n \<in> set ns. 0 < n \<and> n \<le> invoiceEventSeq s"
        unfolding log_inv_def by metis
      show ?thesis
      proof (cases "i = iid")
        case True
        with ns e(1) t(2) ev show ?thesis
          by (intro exI [of _ "ns @ [Suc (invoiceEventSeq s)]"]) (auto simp: sorted_wrt_append le_imp_less_Suc)
      next
        case False
        with ns t(2) ev show ?thesis by (intro exI [of _ ns]) auto
      qed
    qed
  next
    fix i x assume "x \<in> set (events_of t i)"
    then show "ie_InvoiceID x = i" "ie_Deposit x = None \<or> ie_Refund x = None"
      using log_invD(4,5) [OF inv, of x i] e(2,3) ev by (auto split: if_splits)
  next
    fix i show "distinct (map event_key (events_of t i))"
      using log_invD(6) [OF inv] e(4) ev by (cases "i = iid") force+
  next
    fix i i' x x'
    assume "x \<in> set (events_of t i)" "x' \<in> set (events_of t i')" "ie_EventID x = ie_EventID x'"
    then show "x = x'"
      using log_invD(7) [OF inv] fresh fresh [symmetric] ev by (auto split: if_splits)
  next
    fix i assume "events_of t i \<noteq> []"
    then show "i \<noteq> []" "statics s i \<noteq> None"
      using log_invD(2,3) [OF inv, of i] iid ev by (auto split: if_splits)
  qed (rule t(1))
qed

lemma outbox_inv_add:
  assumes inv: "outbox_inv s"
    and t: "outboxSeq t = Suc (outboxSeq s)" "invoiceEventSeq t = Suc (invoiceEventSeq s)"
      "outbox t = outbox s @ [r]" "invoices t = invoices s"
    and ev: "\<And>i. events_of t i = (if i = iid then events_of s iid @ [e] else events_of s i)"
    and r: "oe_Seq r = Suc (outboxSeq s)" "publishes s e r"
  shows "outbox_inv t"
proof -
  have pub: "publishes t = publishes s" using t(4) by (simp add: publishes_def statics_def fun_eq_iff)
  show ?thesis
    unfolding outbox_inv_def pub
  proof (intro conjI allI ballI)
    show "map oe_Seq (outbox t) = [1..<Suc (outboxSeq t)]" "outboxSeq t = invoiceEventSeq t"
      using inv t r by (simp_all add: outbox_inv_def)
  next
    fix r' assume "r' \<in> set (outbox t)"
    then consider "r' = r" | "r' \<in> set (outbox s)" using t(3) by auto
    then show "\<exists>i. \<exists>x\<in>set (events_of t i). publishes s x r'"
    proof cases
      case 1
      then show ?thesis using r(2) ev by (intro exI [of _ iid]) auto
    next
      case 2
      with inv obtain i x where "x \<in> set (events_of s i)" "publishes s x r'" unfolding outbox_inv_def by blast
      then show ?thesis using ev by (intro exI [of _ i]) auto
    qed
  next
    fix i x assume "x \<in> set (events_of t i)"
    then show "\<exists>r\<in>set (outbox t). publishes s x r"
      using inv r(2) t(3) ev unfolding outbox_inv_def by (auto split: if_splits)
  qed
qed

text \<open>The fan-out: a sink of the merchant gets one delivery, any other none.\<close>

definition joined :: "MemStore \<Rightarrow> string \<Rightarrow> string \<Rightarrow> bool" where
  "joined s sinkID eventID \<longleftrightarrow>
     (\<exists>k d. map_of (deliveries s) k = Some d \<and> dl_SinkID d = sinkID \<and> dl_EventID d = eventID)"

lemma delivery_id_fresh:
  assumes "delivery_inv s"
  shows "map_of (deliveries s) (mk_id ''del_'' (Suc (deliverySeq s))) = None"
proof (rule ccontr)
  assume "\<not> ?thesis"
  then obtain d where "map_of (deliveries s) (mk_id ''del_'' (Suc (deliverySeq s))) = Some d" by auto
  with assms obtain n where "n \<le> deliverySeq s" "mk_id ''del_'' (Suc (deliverySeq s)) = mk_id ''del_'' n"
    unfolding delivery_inv_def delivery_ok_def by blast
  then show False by simp
qed

lemma delivery_inv_add:
  assumes inv: "delivery_inv s" and k: "k = mk_id ''del_'' (Suc (deliverySeq s))"
    and d: "dl_DeliveryID d = k" "map_of (eventSinks s) (dl_SinkID d) = Some sink"
      "published s (sk_MerchantID sink) (dl_EventID d)" "\<not> joined s (dl_SinkID d) (dl_EventID d)"
    and t: "deliverySeq t = Suc (deliverySeq s)" "deliveries t = mput k d (deliveries s)"
      "eventSinks t = eventSinks s" "outbox t = outbox s"
  shows "delivery_inv t"
proof -
  have pub: "published t = published s" using t(4) by (simp add: published_def fun_eq_iff)
  show ?thesis
    unfolding delivery_inv_def
  proof (intro conjI allI impI)
    show "wf_map (deliveries t)" using inv t(2) by (simp add: delivery_inv_def)
  next
    fix x y assume xy: "map_of (deliveries t) x = Some y"
    then consider "x = k" "y = d" | "map_of (deliveries s) x = Some y"
      unfolding t(2) by (cases "x = k") simp_all
    then show "delivery_ok t x y"
    proof cases
      case 1
      then show ?thesis using k d(1-3) t pub by (auto simp: delivery_ok_def)
    next
      case 2
      then have "delivery_ok s x y" using inv by (simp add: delivery_inv_def)
      then show ?thesis using t pub by (auto simp: delivery_ok_def intro: le_SucI)
    qed
  next
    fix x y x' y'
    assume xy: "map_of (deliveries t) x = Some y" "map_of (deliveries t) x' = Some y'"
      "dl_SinkID y = dl_SinkID y'" "dl_EventID y = dl_EventID y'"
    have old: "joined s (dl_SinkID y) (dl_EventID y)" if "x \<noteq> k \<or> x' \<noteq> k"
      using that xy t(2) unfolding joined_def by (auto split: if_splits)
    show "x = x'"
    proof (cases "x = k \<or> x' = k")
      case True
      then have "y = d \<or> y' = d" using xy t(2) by auto
      with old d(4) xy(3,4) True show ?thesis by metis
    next
      case False
      then have "map_of (deliveries s) x = Some y" "map_of (deliveries s) x' = Some y'"
        using xy t(2) by simp_all
      with inv [unfolded delivery_inv_def, THEN conjunct2, THEN conjunct2] xy(3,4) show ?thesis by blast
    qed
  qed
qed

lemma sink_delivery_other:
  "sk_MerchantID sink \<noteq> m \<or> sk_Status sink \<noteq> EventSinkActive \<Longrightarrow> sink_delivery m ev s sink = s"
  by (simp add: sink_delivery_def)

lemma sink_delivery_joined:
  assumes "sk_MerchantID sink = m" "sk_Status sink = EventSinkActive" "delivery_inv s"
  shows "joined (sink_delivery m ev s sink) sid ev' \<longleftrightarrow> joined s sid ev' \<or> (sid = sk_SinkID sink \<and> ev' = ev)"
proof -
  have "map_of (deliveries s) k = Some d \<Longrightarrow> k \<noteq> mk_id ''del_'' (Suc (deliverySeq s))" for k d
    using delivery_id_fresh [OF assms(3)] by auto
  with assms(1,2) show ?thesis
    unfolding joined_def sink_delivery_def by (simp add: Let_def) blast
qed

lemma sink_delivery_inv:
  assumes "delivery_inv s" "map_of (eventSinks s) (sk_SinkID sink) = Some sink"
    "published s m ev" "\<not> joined s (sk_SinkID sink) ev"
  shows "delivery_inv (sink_delivery m ev s sink)"
proof (cases "sk_MerchantID sink = m \<and> sk_Status sink = EventSinkActive")
  case True
  with assms show ?thesis
    by (intro delivery_inv_add [OF assms(1) refl, where sink = sink])
      (auto simp: sink_delivery_def Let_def)
qed (use assms in \<open>auto simp: sink_delivery_other\<close>)

lemma fan_out:
  assumes "delivery_inv s" "published s m ev" "distinct (map sk_SinkID sinks)"
    "\<And>sink. sink \<in> set sinks \<Longrightarrow> map_of (eventSinks s) (sk_SinkID sink) = Some sink"
    "\<And>sink. sink \<in> set sinks \<Longrightarrow> \<not> joined s (sk_SinkID sink) ev"
  shows "delivery_inv (foldl (sink_delivery m ev) s sinks) \<and>
    (\<forall>sid ev'. joined (foldl (sink_delivery m ev) s sinks) sid ev' \<longleftrightarrow> joined s sid ev' \<or>
       (ev' = ev \<and> (\<exists>sink \<in> set sinks. sk_SinkID sink = sid \<and> sk_MerchantID sink = m \<and>
          sk_Status sink = EventSinkActive)))"
  using assms
proof (induction sinks arbitrary: s)
  case (Cons sink sinks)
  let ?s = "sink_delivery m ev s sink"
  have inv: "delivery_inv ?s" using Cons.prems by (intro sink_delivery_inv) auto
  have pub: "published ?s m ev" using Cons.prems(2) by (simp add: published_def)
  have j: "joined ?s sid ev' \<longleftrightarrow> joined s sid ev' \<or> (ev' = ev \<and> sid = sk_SinkID sink \<and>
      sk_MerchantID sink = m \<and> sk_Status sink = EventSinkActive)" for sid ev'
    using sink_delivery_joined [of sink m s ev sid ev'] sink_delivery_other [of sink m ev s] Cons.prems(1)
    by (cases "sk_MerchantID sink = m \<and> sk_Status sink = EventSinkActive") auto
  have nj: "\<not> joined ?s (sk_SinkID k) ev" if "k \<in> set sinks" for k
  proof -
    have "sk_SinkID k \<noteq> sk_SinkID sink" using Cons.prems(3) that by (force simp: image_iff)
    with j Cons.prems(5) that show ?thesis by simp
  qed
  have "delivery_inv (foldl (sink_delivery m ev) ?s sinks) \<and>
    (\<forall>sid ev'. joined (foldl (sink_delivery m ev) ?s sinks) sid ev' \<longleftrightarrow> joined ?s sid ev' \<or>
       (ev' = ev \<and> (\<exists>sink \<in> set sinks. sk_SinkID sink = sid \<and> sk_MerchantID sink = m \<and>
          sk_Status sink = EventSinkActive)))"
    using Cons.prems by (intro Cons.IH [OF inv pub _ _ nj]) simp_all
  then show ?case using j by auto
qed simp

text \<open>The event, the outbox record and the state before the fan-out.\<close>

definition new_event :: "string \<Rightarrow> InvoiceEventType \<Rightarrow> time \<Rightarrow> DepositRef option \<Rightarrow> Refund option \<Rightarrow> MemStore
    \<Rightarrow> InvoiceEvent" where
  "new_event iid typ t dep ref s = \<lparr>ie_EventID = FormatInt (int (Suc (invoiceEventSeq s))), ie_Type = typ,
     ie_OccurredAt = t, ie_InvoiceID = iid, ie_Deposit = dep, ie_Refund = ref\<rparr>"

definition new_record :: "Invoice \<Rightarrow> InvoiceEvent \<Rightarrow> MemStore \<Rightarrow> outboxEventRecord" where
  "new_record iv e s = \<lparr>oe_Seq = Suc (outboxSeq s), oe_MerchantID = inv_MerchantID iv,
     oe_Event = cloud_event (inv_static iv) e (Suc (outboxSeq s)), oe_CreatedAt = time_Now s\<rparr>"

definition logged :: "Invoice \<Rightarrow> InvoiceEvent \<Rightarrow> MemStore \<Rightarrow> MemStore" where
  "logged iv e s = s\<lparr>invoiceEventSeq := Suc (invoiceEventSeq s),
     invoiceEvents := mput (ie_InvoiceID e) (events_of s (ie_InvoiceID e) @ [e]) (invoiceEvents s),
     outboxSeq := Suc (outboxSeq s), env_ticks := Suc (env_ticks s),
     outbox := outbox s @ [new_record iv e s]\<rparr>"

lemma inv_static_simps [simp]:
  "inv_InvoiceID (inv_static iv) = inv_InvoiceID iv" "inv_MerchantID (inv_static iv) = inv_MerchantID iv"
  "inv_ExternalOrderID (inv_static iv) = inv_ExternalOrderID iv" "inv_WalletID (inv_static iv) = inv_WalletID iv"
  "inv_Address (inv_static iv) = inv_Address iv" "inv_AmountZat (inv_static iv) = inv_AmountZat iv"
  "inv_CreatedAfterHeight (inv_static iv) = inv_CreatedAfterHeight iv"
  "inv_Policies (inv_static iv) = inv_Policies iv" "inv_ExpiresAt (inv_static iv) = inv_ExpiresAt iv"
  "inv_RequiredConfirmations (inv_static iv) = inv_RequiredConfirmations iv"
  "inv_CreatedAt (inv_static iv) = inv_CreatedAt iv"
  by (simp_all add: inv_static_def)

lemma event_data_static: "event_data (inv_static iv) = event_data iv"
  by (simp add: event_data_def fun_eq_iff)

lemma append_eq:
  assumes "iid \<noteq> []" "map_of (invoices s) iid = Some iv"
    "\<not> list_ex (same_event typ dep ref) (events_of s iid)"
  shows "appendInvoiceEventLocked iid typ t dep ref s =
    foldl (sink_delivery (inv_MerchantID iv) (mk_id ''evt_'' (Suc (outboxSeq s))))
      (logged iv (new_event iid typ t dep ref s) s)
      (map snd (ranged (logged iv (new_event iid typ t dep ref s) s) (eventSinks s)))"
  using assms
  by (simp add: appendInvoiceEventLocked_def enqueueOutboxLocked_def Let_def logged_def new_event_def
      new_record_def cloud_event_def event_data_static ticked_def time_Now_def events_of_def)

lemma append_same:
  "list_ex (same_event typ dep ref) (events_of s iid) \<Longrightarrow> appendInvoiceEventLocked iid typ t dep ref s = s"
  by (simp add: appendInvoiceEventLocked_def)

lemma logged_inv:
  assumes inv: "event_inv s" and iv: "map_of (invoices s) iid = Some iv" "iid \<noteq> []"
    and new: "\<not> list_ex (same_event typ dep ref) (events_of s iid)" and one: "dep = None \<or> ref = None"
    and e_def: "e = new_event iid typ t dep ref s"
  shows "event_inv (logged iv e s)" "\<And>i. events_of (logged iv e s) i = (if i = iid then events_of s iid @ [e] else events_of s i)"
proof -
  let ?u = "logged iv e s"
  have e: "ie_EventID e = FormatInt (int (Suc (invoiceEventSeq s)))" "ie_InvoiceID e = iid"
    "ie_Deposit e = dep" "ie_Refund e = ref" "ie_Type e = typ"
    by (simp_all add: e_def new_event_def)
  show ev: "events_of ?u i = (if i = iid then events_of s iid @ [e] else events_of s i)" for i
    using e(2) by (simp add: logged_def events_of_def)
  have invs: "log_inv s" "outbox_inv s" "sink_inv s" "delivery_inv s"
    using inv by (simp_all add: event_inv_def)
  have st: "statics s iid = Some (inv_static iv)" using iv(1) by (simp add: statics_def)
  have "event_key x \<noteq> event_key e" if "x \<in> set (events_of s iid)" for x
    using new that same_event_iff [OF one log_invD(5) [OF invs(1) that], of "typ"] e
    by (auto simp: list_ex_iff event_key_def)
  then have "log_inv ?u"
    using log_invD(1) [OF invs(1)] iv(2) st e one ev
    by (intro log_inv_add [OF invs(1), where iid = iid and e = e]) (simp_all add: logged_def)
  moreover have "publishes s e (new_record iv e s)"
    using st e invs(2) by (simp add: publishes_def new_record_def outbox_inv_def)
  then have "outbox_inv ?u"
    using ev by (intro outbox_inv_add [OF invs(2), where iid = iid and e = e and r = "new_record iv e s"])
      (simp_all add: logged_def new_record_def)
  moreover have "sink_inv ?u" using invs(3) by (simp add: sink_inv_def logged_def)
  moreover have "delivery_ok s k d \<Longrightarrow> delivery_ok ?u k d" for k d
    by (auto simp: delivery_ok_def logged_def published_def)
  then have "delivery_inv ?u" using invs(4) unfolding delivery_inv_def by (simp add: logged_def)
  ultimately show "event_inv ?u" by (simp add: event_inv_def)
qed

text \<open>An event id that is still to come joins nothing.\<close>

lemma unpublished_not_joined:
  assumes "event_inv s" shows "\<not> joined s sid (mk_id ''evt_'' (Suc (outboxSeq s)))"
proof
  assume "joined s sid (mk_id ''evt_'' (Suc (outboxSeq s)))"
  then obtain k d where "map_of (deliveries s) k = Some d" "dl_EventID d = mk_id ''evt_'' (Suc (outboxSeq s))"
    by (auto simp: joined_def)
  with assms obtain r where r: "r \<in> set (outbox s)" "ce_ID (oe_Event r) = mk_id ''evt_'' (Suc (outboxSeq s))"
    unfolding event_inv_def delivery_inv_def delivery_ok_def published_def by metis
  with assms obtain e where "publishes s e r" unfolding event_inv_def outbox_inv_def by blast
  then have "ce_ID (oe_Event r) = mk_id ''evt_'' (oe_Seq r)"
    by (auto simp: publishes_def cloud_event_def split: option.splits)
  with r have "oe_Seq r = Suc (outboxSeq s)" by simp
  moreover have "oe_Seq r \<in> set (map oe_Seq (outbox s))" using r(1) by simp
  with assms have "oe_Seq r \<in> set [1..<Suc (outboxSeq s)]" unfolding event_inv_def outbox_inv_def by metis
  ultimately show False by simp
qed

lemma append_new:
  fixes tm :: time
  assumes inv: "event_inv s" and iv: "map_of (invoices s) iid = Some iv" "iid \<noteq> []"
    and new: "\<not> list_ex (same_event typ dep ref) (events_of s iid)" and one: "dep = None \<or> ref = None"
  defines "t \<equiv> appendInvoiceEventLocked iid typ tm dep ref s"
  shows "event_inv t"
    and "\<And>i. events_of t i = (if i = iid then events_of s iid @ [new_event iid typ tm dep ref s] else events_of s i)"
    and "outbox t = outbox s @ [new_record iv (new_event iid typ tm dep ref s) s]"
    and "\<And>sid ev. joined t sid ev \<longleftrightarrow> joined s sid ev \<or> (ev = mk_id ''evt_'' (Suc (outboxSeq s)) \<and>
        (\<exists>sink. map_of (eventSinks s) sid = Some sink \<and> sk_MerchantID sink = inv_MerchantID iv \<and>
           sk_Status sink = EventSinkActive))"
proof -
  define e where "e = new_event iid typ tm dep ref s"
  define u where "u = logged iv e s"
  define ev0 where "ev0 = mk_id ''evt_'' (Suc (outboxSeq s))"
  define sinks where "sinks = map snd (ranged u (eventSinks s))"
  have t: "t = foldl (sink_delivery (inv_MerchantID iv) ev0) u sinks"
    unfolding t_def u_def e_def sinks_def ev0_def by (rule append_eq [OF iv(2,1) new])
  note u = logged_inv [OF inv iv new one e_def, folded u_def]
  have evs: "events_of t = events_of u" by (simp add: t events_of_def fun_eq_iff)
  show "events_of t i = (if i = iid then events_of s iid @ [new_event iid typ tm dep ref s] else events_of s i)" for i
    using u(2) evs e_def by simp
  show "outbox t = outbox s @ [new_record iv (new_event iid typ tm dep ref s) s]"
    by (simp add: t u_def logged_def e_def)
  have sinv: "sink_inv s" "delivery_inv u" using inv u(1) by (simp_all add: event_inv_def)
  have sk: "sink \<in> set sinks \<longleftrightarrow> map_of (eventSinks s) (sk_SinkID sink) = Some sink" for sink
  proof -
    have "(k, sink) \<in> set (eventSinks s) \<longleftrightarrow> map_of (eventSinks s) k = Some sink" for k
      using sinv(1) by (simp add: sink_inv_def wf_map_set_iff)
    moreover have "map_of (eventSinks s) k = Some sink \<Longrightarrow> sk_SinkID sink = k" for k
      using sinv(1) by (simp add: sink_inv_def)
    moreover have "sink \<in> set sinks \<longleftrightarrow> (\<exists>k. (k, sink) \<in> set (eventSinks s))"
      by (force simp: sinks_def image_iff)
    ultimately show ?thesis by metis
  qed
  have es: "eventSinks u = eventSinks s" "deliveries u = deliveries s" by (simp_all add: u_def logged_def)
  have jn: "joined u = joined s" by (simp add: joined_def es fun_eq_iff)
  have pub: "published u (inv_MerchantID iv) ev0"
    by (simp add: published_def u_def logged_def new_record_def cloud_event_def ev0_def)
  have "map sk_SinkID sinks = map fst (ranged u (eventSinks s))"
    using sinv(1) unfolding sinks_def map_map
    by (intro map_cong) (auto simp: sink_inv_def wf_map_set_iff)
  then have "distinct (map sk_SinkID sinks)"
    using sinv(1) by (simp add: sink_inv_def wf_map_def [symmetric])
  then have fan: "delivery_inv t \<and> (\<forall>sid ev'. joined t sid ev' \<longleftrightarrow> joined u sid ev' \<or>
       (ev' = ev0 \<and> (\<exists>sink \<in> set sinks. sk_SinkID sink = sid \<and> sk_MerchantID sink = inv_MerchantID iv \<and>
          sk_Status sink = EventSinkActive)))"
    unfolding t using sk es jn unpublished_not_joined [OF inv]
    by (intro fan_out [OF sinv(2) pub]) (simp_all add: ev0_def)
  show "joined t sid ev \<longleftrightarrow> joined s sid ev \<or> (ev = mk_id ''evt_'' (Suc (outboxSeq s)) \<and>
        (\<exists>sink. map_of (eventSinks s) sid = Some sink \<and> sk_MerchantID sink = inv_MerchantID iv \<and>
           sk_Status sink = EventSinkActive))" for sid ev
  proof -
    have "(\<exists>sink \<in> set sinks. sk_SinkID sink = sid \<and> P sink) \<longleftrightarrow>
        (\<exists>sink. map_of (eventSinks s) sid = Some sink \<and> P sink)" for P
      using sk sinv(1) unfolding sink_inv_def by metis
    with fan jn show ?thesis by (simp add: ev0_def)
  qed
  have eqs: "invoiceEvents t = invoiceEvents u" "invoiceEventSeq t = invoiceEventSeq u"
    "statics t = statics u" "outboxSeq t = outboxSeq u" "outbox t = outbox u" "publishes t = publishes u"
    "eventSinks t = eventSinks u" "merchants t = merchants u" "sinkSeq t = sinkSeq u"
    by (simp_all add: t statics_def publishes_def fun_eq_iff)
  have "log_inv t" "outbox_inv t" "sink_inv t"
    using u(1) unfolding event_inv_def log_inv_def outbox_inv_def sink_inv_def eqs evs by simp_all
  with fan show "event_inv t" by (simp add: event_inv_def)
qed

lemma append_inv [inv_intros]:
  assumes "event_inv s" "iid = [] \<or> statics s iid \<noteq> None" "dep = None \<or> ref = None"
  shows "event_inv (appendInvoiceEventLocked iid typ t dep ref s)"
proof (cases "iid = [] \<or> list_ex (same_event typ dep ref) (events_of s iid)")
  case True
  with assms(1) show ?thesis by (auto simp: appendInvoiceEventLocked_def)
next
  case False
  with assms(2) obtain iv where "map_of (invoices s) iid = Some iv" by (auto simp: statics_def)
  with append_new(1) [OF assms(1) this] False assms(3) show ?thesis by simp
qed

text \<open>After the call the log holds the event, and everything it held before.\<close>

lemma append_logged:
  assumes "iid \<noteq> []" "dep = None \<or> ref = None" "log_inv s"
  shows "\<exists>e \<in> set (events_of (appendInvoiceEventLocked iid typ t dep ref s) iid). event_key e =
    (typ, map_option (\<lambda>d. (dref_WalletID d, dref_TxID d, dref_ActionIndex d)) dep, map_option rf_RefundID ref)"
proof (cases "list_ex (same_event typ dep ref) (events_of s iid)")
  case True
  then obtain e where "e \<in> set (events_of s iid)" "same_event typ dep ref e" by (auto simp: list_ex_iff)
  with True same_event_iff [OF assms(2) log_invD(5) [OF assms(3)]] show ?thesis by (auto simp: append_same)
next
  case False
  let ?e = "new_event iid typ t dep ref s"
  have "events_of (appendInvoiceEventLocked iid typ t dep ref s) iid = events_of s iid @ [?e]"
    using False assms(1) by (auto simp: appendInvoiceEventLocked_def enqueueOutboxLocked_def events_of_def
        Let_def new_event_def split: option.split)
  then show ?thesis by (auto simp: event_key_def new_event_def)
qed

lemma append_prefix:
  "\<exists>new. events_of (appendInvoiceEventLocked iid typ t dep ref s) i = events_of s i @ new"
  by (auto simp: appendInvoiceEventLocked_def enqueueOutboxLocked_def events_of_def Let_def split: option.split)

section \<open>The other operations keep the invariants\<close>

lemma event_reads [simp]:
  "snd (ListInvoiceEvents iid a l s) = s" "snd (ListOutboundEvents m a l s) = s"
  "snd (GetEventSink k s) = s" "snd (ListEventSinks m s) = ticked s"
  "snd (ListEventDeliveries f s) = ticked s" "snd (PendingDeliveries s) = ticked s"
  "snd (ListDueDeliveries now l s) \<in> {ticked s, ticked (ticked s)}"
  by (simp_all add: ListInvoiceEvents_def ListOutboundEvents_def GetEventSink_def ListEventSinks_def
      ListEventDeliveries_def PendingDeliveries_def ListDueDeliveries_def Let_def split_def)

lemma same_events_ticked [simp]: "same_events s (ticked s)"
  by (simp add: same_events_def)

lemma sink_id_fresh:
  assumes "sink_inv s"
  shows "map_of (eventSinks s) (mk_id ''sink_'' (Suc (sinkSeq s))) = None"
proof (rule ccontr)
  assume "\<not> ?thesis"
  then obtain k where "map_of (eventSinks s) (mk_id ''sink_'' (Suc (sinkSeq s))) = Some k" by auto
  with assms obtain n where "n \<le> sinkSeq s" "mk_id ''sink_'' (Suc (sinkSeq s)) = mk_id ''sink_'' n"
    unfolding sink_inv_def by blast
  then show False by simp
qed

lemma event_inv_add_sink:
  assumes inv: "event_inv s" and k: "k = mk_id ''sink_'' (Suc (sinkSeq s))"
    and sink: "sk_SinkID sink = k" "has_key (sk_MerchantID sink) (merchants s)"
      "\<And>x. sk_Kind sink \<noteq> EventSinkOther x" "sk_Config sink = RawJson (JObj kvs)"
    and t: "t = s\<lparr>sinkSeq := Suc (sinkSeq s), env_ticks := n, eventSinks := mput k sink (eventSinks s)\<rparr>"
  shows "event_inv t"
proof -
  have invs: "log_inv s" "outbox_inv s" "sink_inv s" "delivery_inv s" using inv by (simp_all add: event_inv_def)
  have fresh: "map_of (eventSinks s) k = None" using sink_id_fresh [OF invs(3)] k by simp
  have evs: "events_of t = events_of s" "statics t = statics s" "publishes t = publishes s"
      "published t = published s"
    by (simp_all add: t events_of_def statics_def publishes_def published_def fun_eq_iff)
  have "log_inv t" using invs(1) unfolding log_inv_def evs by (simp add: t)
  moreover have "outbox_inv t" using invs(2) unfolding outbox_inv_def evs by (simp add: t)
  moreover have "sink_inv t"
    using invs(3) sink k by (auto simp: sink_inv_def t) (meson le_SucI)
  moreover have "delivery_ok s j d \<Longrightarrow> delivery_ok t j d" for j d
    using fresh unfolding delivery_ok_def evs by (auto simp: t)
  then have "delivery_inv t" using invs(4) unfolding delivery_inv_def by (simp add: t)
  ultimately show ?thesis by (simp add: event_inv_def)
qed

lemma CreateEventSink_inv [inv_intros]: "event_inv s \<Longrightarrow> event_inv (snd (CreateEventSink req s))"
  by (auto simp: CreateEventSink_def Let_def ticked_def
      split: raw_message.split json.split EventSinkKind.split)
    (rule event_inv_add_sink [OF _ refl _ _ _ _ refl]; simp)+

lemma UpdateEventDelivery_inv [inv_intros]:
  assumes "event_inv s"
  shows "event_inv (snd (UpdateEventDelivery k st a nr le s))"
proof (cases "map_of (deliveries s) (TrimSpace k)")
  case None
  with assms show ?thesis by (simp add: UpdateEventDelivery_def Let_def)
next
  case (Some d)
  let ?t = "snd (UpdateEventDelivery k st a nr le s)"
  let ?d = "d\<lparr>dl_Status := st, dl_Attempt := a, dl_NextRetryAt := nr, dl_LastError := le, dl_UpdatedAt := time_Now s\<rparr>"
  show ?thesis
  proof (cases "TrimSpace k = []")
    case True
    with assms show ?thesis by (simp add: UpdateEventDelivery_def Let_def)
  next
    case False
    have t: "?t = s\<lparr>env_ticks := Suc (env_ticks s), deliveries := mput (TrimSpace k) ?d (deliveries s)\<rparr>"
      using Some False by (simp add: UpdateEventDelivery_def Let_def ticked_def)
    have evs: "events_of ?t = events_of s" "statics ?t = statics s" "publishes ?t = publishes s"
        "published ?t = published s"
      by (simp_all add: t events_of_def statics_def publishes_def published_def fun_eq_iff)
    have invs: "log_inv s" "outbox_inv s" "sink_inv s" "delivery_inv s"
      using assms by (simp_all add: event_inv_def)
    have "log_inv ?t" using invs(1) unfolding log_inv_def evs by (simp add: t)
    moreover have "outbox_inv ?t" using invs(2) unfolding outbox_inv_def evs by (simp add: t)
    moreover have "sink_inv ?t" using invs(3) by (simp add: sink_inv_def t)
    moreover have ok: "delivery_ok s j x \<Longrightarrow> delivery_ok ?t j x" for j x
      by (simp add: delivery_ok_def evs) (simp add: t)
    have "delivery_inv ?t"
      unfolding delivery_inv_def
    proof (intro conjI allI impI)
      show "wf_map (deliveries ?t)" using invs(4) by (simp add: delivery_inv_def t)
    next
      fix j x assume "map_of (deliveries ?t) j = Some x"
      moreover have "delivery_ok s (TrimSpace k) d" using invs(4) Some by (simp add: delivery_inv_def)
      then have "delivery_ok s (TrimSpace k) ?d" by (simp add: delivery_ok_def)
      ultimately have "delivery_ok s j x" using invs(4) by (auto simp: delivery_inv_def t split: if_splits)
      then show "delivery_ok ?t j x" by (rule ok)
    next
      fix j x j' x'
      assume jx: "map_of (deliveries ?t) j = Some x" "map_of (deliveries ?t) j' = Some x'"
        "dl_SinkID x = dl_SinkID x'" "dl_EventID x = dl_EventID x'"
      have old: "\<exists>y. map_of (deliveries s) i = Some y \<and> dl_SinkID y = dl_SinkID z \<and> dl_EventID y = dl_EventID z"
        if "map_of (deliveries ?t) i = Some z" for i z
        using that Some by (auto simp: t split: if_splits)
      from old [OF jx(1)] old [OF jx(2)] jx(3,4) invs(4) [unfolded delivery_inv_def, THEN conjunct2, THEN conjunct2]
      show "j = j'" by metis
    qed
    ultimately show ?thesis by (simp add: event_inv_def)
  qed
qed

section \<open>Following the logs by cursor\<close>

interpretation outbox_log: cursor_log "\<lambda>r. int (oe_Seq r)" outbox outbox_inv
proof
  fix s assume inv: "outbox_inv s"
  then have "map (\<lambda>r. int (oe_Seq r)) (outbox s) = map int [1..<Suc (outboxSeq s)]"
    by (metis (no_types, lifting) list.map_comp comp_def map_eq_conv outbox_inv_def)
  then show "sorted_wrt (<) (map (\<lambda>r. int (oe_Seq r)) (outbox s))"
    by (simp add: sorted_wrt_map del: upt_Suc)
  fix r assume "r \<in> set (outbox s)"
  then have "oe_Seq r \<in> set (map oe_Seq (outbox s))" by simp
  with inv have "oe_Seq r \<in> set [1..<Suc (outboxSeq s)]" by (simp only: outbox_inv_def)
  then show "0 < int (oe_Seq r)" by (auto split: if_splits)
qed

interpretation invoice_log: cursor_log event_num "\<lambda>(s, iid). events_of s iid"
  "\<lambda>(s, iid). log_inv s \<and> invoiceEventSeq s < 2 ^ 63"
proof
  fix p :: "MemStore \<times> string"
  assume good: "case p of (s, iid) \<Rightarrow> log_inv s \<and> invoiceEventSeq s < 2 ^ 63"
  obtain s iid where p: "p = (s, iid)" by (cases p)
  with good obtain ns where ns: "map ie_EventID (events_of s iid) = map (\<lambda>n. FormatInt (int n)) ns"
    "sorted_wrt (<) ns" "\<forall>n \<in> set ns. 0 < n \<and> n \<le> invoiceEventSeq s"
    unfolding log_inv_def by (auto; metis)
  have num: "map event_num (events_of s iid) = map int ns"
  proof -
    have "map event_num (events_of s iid) =
        map (\<lambda>i. case ParseInt 10 i of None \<Rightarrow> 0 | Some n \<Rightarrow> n) (map ie_EventID (events_of s iid))"
      by (simp add: event_num_def)
    also have "\<dots> = map int ns"
      using good ns(3) p unfolding ns(1) by (auto simp: ParseInt_FormatInt in_int64_def)
    finally show ?thesis .
  qed
  then show "sorted_wrt (<) (map event_num (case p of (s, iid) \<Rightarrow> events_of s iid))"
    using ns(2) p by (simp add: sorted_wrt_map)
  fix e assume "e \<in> set (case p of (s, iid) \<Rightarrow> events_of s iid)"
  then have "event_num e \<in> set (map event_num (events_of s iid))" using p by simp
  with num ns(3) show "0 < event_num e" by auto
qed

end
