(* ===== verification/ReviewStore.thy ===== *)
theory ReviewStore
  imports Store
begin

text \<open>
  The manual review queue of the in-memory store (\<open>mem.go\<close>): cases are opened by the
  invoice accounting, at most one open case per merchant, reason and invoice (or deposit),
  and closed by an administrator.
\<close>

section \<open>Operations\<close>

text \<open>An open case that makes \<open>createReviewCaseLocked\<close> return without adding another.\<close>

definition covers_case :: "string \<Rightarrow> string option \<Rightarrow> ReviewReason \<Rightarrow> string \<Rightarrow> string \<Rightarrow> int32 \<Rightarrow> reviewRecord \<Rightarrow> bool" where
  "covers_case merchantID invoiceID reason depWalletID depTxID depActionIndex r \<longleftrightarrow>
     rc_Status (rvr_Case r) = ReviewOpen \<and> rc_MerchantID (rvr_Case r) = merchantID \<and>
     rc_Reason (rvr_Case r) = reason \<and>
     ((case invoiceID of None \<Rightarrow> False | Some a \<Rightarrow> rc_InvoiceID (rvr_Case r) = Some a) \<or>
      (invoiceID = None \<and> depWalletID \<noteq> [] \<and> depTxID \<noteq> [] \<and>
       rvr_DepositWalletID r = depWalletID \<and> rvr_DepositTxID r = depTxID \<and>
       rvr_DepositActionIndex r = depActionIndex))"

definition createReviewCaseLocked :: "string \<Rightarrow> string option \<Rightarrow> ReviewReason \<Rightarrow> string \<Rightarrow>
    string \<Rightarrow> string \<Rightarrow> int32 \<Rightarrow> MemStore \<Rightarrow> MemStore" where
  "createReviewCaseLocked merchantID0 invoiceID reason notes depWalletID depTxID depActionIndex s =
     (let merchantID = TrimSpace merchantID0 in
      if merchantID = [] then s
      else if list_ex (covers_case merchantID invoiceID reason depWalletID depTxID depActionIndex)
          (map snd (ranged s (reviewCases s))) then s
      else
        (let s = s\<lparr>reviewSeq := reviewSeq s + 1\<rparr>;
             now = time_Now s;
             s = ticked s;
             id = mk_id ''rev_'' (reviewSeq s);
             c = \<lparr>rc_ReviewID = id, rc_MerchantID = merchantID, rc_InvoiceID = invoiceID,
                  rc_Reason = reason, rc_Status = ReviewOpen, rc_Notes = TrimSpace notes,
                  rc_CreatedAt = now, rc_UpdatedAt = now\<rparr>;
             r = \<lparr>rvr_Case = c, rvr_DepositWalletID = depWalletID, rvr_DepositTxID = depTxID,
                  rvr_DepositActionIndex = depActionIndex\<rparr>
         in s\<lparr>reviewCases := mput id r (reviewCases s), reviewOrder := reviewOrder s @ [id]\<rparr>))"

definition ListReviewCases :: "ReviewCaseFilter \<Rightarrow> (ReviewCase list, MemStore) act" where
  "ListReviewCases f s =
     (let merchantID = TrimSpace (rvf_MerchantID f) in
      (Inr (filter (\<lambda>c. (merchantID \<noteq> [] \<longrightarrow> rc_MerchantID c = merchantID) \<and>
                       (case rvf_Status f of None \<Rightarrow> True | Some st \<Rightarrow> rc_Status c = st))
              (List.map_filter (\<lambda>id. map_option rvr_Case (map_of (reviewCases s) id)) (reviewOrder s))), s))"

text \<open>The two closing operations differ in the status they set.\<close>

definition ResolveReviewCase :: "string \<Rightarrow> string \<Rightarrow> (unit, MemStore) act" where
  "ResolveReviewCase reviewID0 notes0 s =
     (let reviewID = TrimSpace reviewID0; notes = TrimSpace notes0 in
      if reviewID = [] then (Inl (invalid_argument ''review_id is required''), s)
      else if notes = [] then (Inl (invalid_argument ''notes is required''), s)
      else (case map_of (reviewCases s) reviewID of
          None \<Rightarrow> (Inl ErrNotFound, s)
        | Some r \<Rightarrow>
            (let now = time_Now s; s = ticked s;
                 r' = r\<lparr>rvr_Case := (rvr_Case r)\<lparr>rc_Status := ReviewResolved, rc_Notes := notes,
                        rc_UpdatedAt := now\<rparr>\<rparr>
             in (Inr (), s\<lparr>reviewCases := mput reviewID r' (reviewCases s)\<rparr>))))"

definition RejectReviewCase :: "string \<Rightarrow> string \<Rightarrow> (unit, MemStore) act" where
  "RejectReviewCase reviewID0 notes0 s =
     (let reviewID = TrimSpace reviewID0; notes = TrimSpace notes0 in
      if reviewID = [] then (Inl (invalid_argument ''review_id is required''), s)
      else if notes = [] then (Inl (invalid_argument ''notes is required''), s)
      else (case map_of (reviewCases s) reviewID of
          None \<Rightarrow> (Inl ErrNotFound, s)
        | Some r \<Rightarrow>
            (let now = time_Now s; s = ticked s;
                 r' = r\<lparr>rvr_Case := (rvr_Case r)\<lparr>rc_Status := ReviewRejected, rc_Notes := notes,
                        rc_UpdatedAt := now\<rparr>\<rparr>
             in (Inr (), s\<lparr>reviewCases := mput reviewID r' (reviewCases s)\<rparr>))))"

lemma createReviewCaseLocked_frame [simp]:
  "merchantSeq (createReviewCaseLocked m i r n w x a s) = merchantSeq s"
  "invoiceSeq (createReviewCaseLocked m i r n w x a s) = invoiceSeq s"
  "depositSeq (createReviewCaseLocked m i r n w x a s) = depositSeq s"
  "refundSeq (createReviewCaseLocked m i r n w x a s) = refundSeq s"
  "sinkSeq (createReviewCaseLocked m i r n w x a s) = sinkSeq s"
  "outboxSeq (createReviewCaseLocked m i r n w x a s) = outboxSeq s"
  "deliverySeq (createReviewCaseLocked m i r n w x a s) = deliverySeq s"
  "merchants (createReviewCaseLocked m i r n w x a s) = merchants s"
  "merchantWallet (createReviewCaseLocked m i r n w x a s) = merchantWallet s"
  "nextAddressIndex (createReviewCaseLocked m i r n w x a s) = nextAddressIndex s"
  "invoices (createReviewCaseLocked m i r n w x a s) = invoices s"
  "invoiceByExternal (createReviewCaseLocked m i r n w x a s) = invoiceByExternal s"
  "invoiceByAddress (createReviewCaseLocked m i r n w x a s) = invoiceByAddress s"
  "invoiceToken (createReviewCaseLocked m i r n w x a s) = invoiceToken s"
  "apiKeySeq (createReviewCaseLocked m i r n w x a s) = apiKeySeq s"
  "apiKeysByID (createReviewCaseLocked m i r n w x a s) = apiKeysByID s"
  "apiKeysByHash (createReviewCaseLocked m i r n w x a s) = apiKeysByHash s"
  "scanCursor (createReviewCaseLocked m i r n w x a s) = scanCursor s"
  "scanLastEventAt (createReviewCaseLocked m i r n w x a s) = scanLastEventAt s"
  "deposits (createReviewCaseLocked m i r n w x a s) = deposits s"
  "invoiceEventSeq (createReviewCaseLocked m i r n w x a s) = invoiceEventSeq s"
  "invoiceEvents (createReviewCaseLocked m i r n w x a s) = invoiceEvents s"
  "refunds (createReviewCaseLocked m i r n w x a s) = refunds s"
  "eventSinks (createReviewCaseLocked m i r n w x a s) = eventSinks s"
  "outbox (createReviewCaseLocked m i r n w x a s) = outbox s"
  "deliveries (createReviewCaseLocked m i r n w x a s) = deliveries s"
  by (simp_all add: createReviewCaseLocked_def Let_def)

section \<open>The invariant\<close>

text \<open>The queue order lists every case once, ids are counter values, and two open cases
  never share merchant, reason and invoice, nor (without an invoice) deposit.\<close>

definition open_case_key :: "reviewRecord \<Rightarrow> (string \<times> ReviewReason \<times> string option \<times> (string \<times> string \<times> int32) option) option" where
  "open_case_key r =
     (if rc_Status (rvr_Case r) \<noteq> ReviewOpen then None
      else (case rc_InvoiceID (rvr_Case r) of
          Some i \<Rightarrow> Some (rc_MerchantID (rvr_Case r), rc_Reason (rvr_Case r), Some i, None)
        | None \<Rightarrow>
            if rvr_DepositWalletID r = [] \<or> rvr_DepositTxID r = [] then None
            else Some (rc_MerchantID (rvr_Case r), rc_Reason (rvr_Case r), None,
              Some (rvr_DepositWalletID r, rvr_DepositTxID r, rvr_DepositActionIndex r))))"

definition review_inv :: "MemStore \<Rightarrow> bool" where
  "review_inv s \<longleftrightarrow>
     wf_map (reviewCases s) \<and> reviewOrder s = map fst (reviewCases s) \<and>
     (\<forall>id r. map_of (reviewCases s) id = Some r \<longrightarrow>
        rc_ReviewID (rvr_Case r) = id \<and> rc_MerchantID (rvr_Case r) \<noteq> [] \<and>
        (\<exists>n. 0 < n \<and> n \<le> reviewSeq s \<and> id = mk_id ''rev_'' n)) \<and>
     (\<forall>id r id' r'. map_of (reviewCases s) id = Some r \<longrightarrow> map_of (reviewCases s) id' = Some r' \<longrightarrow>
        open_case_key r \<noteq> None \<longrightarrow> open_case_key r = open_case_key r' \<longrightarrow> id = id')"

definition same_reviews :: "MemStore \<Rightarrow> MemStore \<Rightarrow> bool" where
  "same_reviews s t \<longleftrightarrow> reviewSeq t = reviewSeq s \<and> reviewCases t = reviewCases s \<and> reviewOrder t = reviewOrder s"

lemma same_reviews_refl [simp]: "same_reviews s s"
  by (simp add: same_reviews_def)

lemma same_reviews_ticked [simp]: "same_reviews s (ticked s)"
  by (simp add: same_reviews_def)

lemma same_reviews_trans [trans]: "same_reviews s t \<Longrightarrow> same_reviews t u \<Longrightarrow> same_reviews s u"
  by (simp add: same_reviews_def)

lemma same_reviews_inv: "same_reviews s t \<Longrightarrow> review_inv s \<Longrightarrow> review_inv t"
  unfolding same_reviews_def review_inv_def by metis

lemma review_inv_NewMem: "review_inv (NewMem clock prio)"
  by (simp add: review_inv_def NewMem_def)

lemma review_id_fresh:
  assumes "review_inv s"
  shows "map_of (reviewCases s) (mk_id ''rev_'' (Suc (reviewSeq s))) = None"
proof (rule ccontr)
  assume "\<not> ?thesis"
  then obtain r where "map_of (reviewCases s) (mk_id ''rev_'' (Suc (reviewSeq s))) = Some r" by auto
  with assms obtain n where "n \<le> reviewSeq s" "mk_id ''rev_'' (Suc (reviewSeq s)) = mk_id ''rev_'' n"
    unfolding review_inv_def by blast
  then show False by simp
qed

lemma covers_case_key:
  assumes "open_case_key r = open_case_key r'" "open_case_key r' \<noteq> None"
  shows "covers_case (rc_MerchantID (rvr_Case r')) (rc_InvoiceID (rvr_Case r')) (rc_Reason (rvr_Case r'))
     (rvr_DepositWalletID r') (rvr_DepositTxID r') (rvr_DepositActionIndex r') r"
  using assms by (auto simp: open_case_key_def covers_case_def split: if_splits option.splits)

lemma review_inv_add:
  assumes inv: "review_inv s" and rid: "rid = mk_id ''rev_'' (Suc (reviewSeq s))"
    and r: "rc_ReviewID (rvr_Case r) = rid" "rc_MerchantID (rvr_Case r) \<noteq> []"
    and new: "\<And>id' r'. map_of (reviewCases s) id' = Some r' \<Longrightarrow> open_case_key r \<noteq> None \<Longrightarrow>
        open_case_key r' \<noteq> open_case_key r"
    and t: "reviewSeq t = Suc (reviewSeq s)" "reviewCases t = mput rid r (reviewCases s)"
      "reviewOrder t = reviewOrder s @ [rid]"
  shows "review_inv t"
proof -
  have fresh: "map_of (reviewCases s) rid = None" using review_id_fresh [OF inv] rid by simp
  then have "rid \<notin> set (map fst (reviewCases s))" by (simp add: map_of_eq_None_iff)
  then have ord: "reviewOrder t = map fst (reviewCases t)"
    using inv t by (simp add: review_inv_def keys_mput)
  show ?thesis
    unfolding review_inv_def
  proof (intro conjI allI impI)
    show "wf_map (reviewCases t)" using inv t by (simp add: review_inv_def)
    show "reviewOrder t = map fst (reviewCases t)" by (rule ord)
  next
    fix x y assume xy: "map_of (reviewCases t) x = Some y"
    show "rc_ReviewID (rvr_Case y) = x"
      using xy inv r t by (auto simp: review_inv_def split: if_splits)
    show "rc_MerchantID (rvr_Case y) \<noteq> []"
      using xy inv r t by (auto simp: review_inv_def split: if_splits)
    show "\<exists>n>0. n \<le> reviewSeq t \<and> x = mk_id ''rev_'' n"
    proof (cases "x = rid")
      case True
      then show ?thesis using rid t by auto
    next
      case False
      with xy inv t obtain n where "0 < n" "n \<le> reviewSeq s" "x = mk_id ''rev_'' n"
        unfolding review_inv_def by (metis fun_upd_other map_of_mput)
      then show ?thesis using t by auto
    qed
  next
    fix x y x' y'
    assume "map_of (reviewCases t) x = Some y" "map_of (reviewCases t) x' = Some y'"
      "open_case_key y \<noteq> None" "open_case_key y = open_case_key y'"
    then show "x = x'"
      using inv new t by (auto simp: review_inv_def split: if_splits)
  qed
qed

lemma createReviewCaseLocked_inv [inv_intros]:
  assumes "review_inv s"
  shows "review_inv (createReviewCaseLocked mid iid reason notes w x a s)"
proof (cases "TrimSpace mid = [] \<or> list_ex (covers_case (TrimSpace mid) iid reason w x a) (map snd (ranged s (reviewCases s)))")
  case True
  with assms show ?thesis by (auto simp: createReviewCaseLocked_def Let_def)
next
  case False
  then have none: "\<not> covers_case (TrimSpace mid) iid reason w x a r'"
    if "map_of (reviewCases s) id' = Some r'" for id' r'
    using that by (force simp: list_ex_iff dest: map_of_SomeD)
  let ?id = "mk_id ''rev_'' (Suc (reviewSeq s))"
  let ?s = "s\<lparr>reviewSeq := Suc (reviewSeq s)\<rparr>"
  define r where "r = \<lparr>rvr_Case = \<lparr>rc_ReviewID = ?id, rc_MerchantID = TrimSpace mid, rc_InvoiceID = iid,
      rc_Reason = reason, rc_Status = ReviewOpen, rc_Notes = TrimSpace notes,
      rc_CreatedAt = time_Now ?s, rc_UpdatedAt = time_Now ?s\<rparr>,
      rvr_DepositWalletID = w, rvr_DepositTxID = x, rvr_DepositActionIndex = a\<rparr>"
  have eq: "createReviewCaseLocked mid iid reason notes w x a s =
      (ticked ?s)\<lparr>reviewCases := mput ?id r (reviewCases s), reviewOrder := reviewOrder s @ [?id]\<rparr>"
    using False by (simp add: createReviewCaseLocked_def Let_def r_def)
  show ?thesis
    unfolding eq
  proof (rule review_inv_add [OF assms refl, where r = r])
    fix id' r' assume "map_of (reviewCases s) id' = Some r'" "open_case_key r \<noteq> None"
    with none [of id' r'] covers_case_key [of r' r] show "open_case_key r' \<noteq> open_case_key r"
      by (auto simp: r_def)
  qed (use False in \<open>simp_all add: r_def\<close>)
qed

text \<open>Closing a case can only remove its key from the open ones.\<close>

lemma review_inv_close:
  assumes "review_inv s" "map_of (reviewCases s) rid = Some r"
    and r': "rc_ReviewID (rvr_Case r') = rc_ReviewID (rvr_Case r)"
      "rc_MerchantID (rvr_Case r') = rc_MerchantID (rvr_Case r)" "open_case_key r' = None"
    and t: "reviewSeq t = reviewSeq s" "reviewCases t = mput rid r' (reviewCases s)"
      "reviewOrder t = reviewOrder s"
  shows "review_inv t"
proof -
  have "rid \<in> set (map fst (reviewCases s))" using assms(2) by (force dest: map_of_SomeD)
  then have "map fst (mput rid r' (reviewCases s)) = map fst (reviewCases s)" by (simp add: keys_mput)
  with assms show ?thesis
    unfolding review_inv_def by (auto split: if_splits)
qed

lemma ResolveReviewCase_inv [inv_intros]: "review_inv s \<Longrightarrow> review_inv (snd (ResolveReviewCase rid notes s))"
  by (auto simp: ResolveReviewCase_def Let_def split: option.split)
    (erule (1) review_inv_close; simp add: open_case_key_def)

lemma RejectReviewCase_inv [inv_intros]: "review_inv s \<Longrightarrow> review_inv (snd (RejectReviewCase rid notes s))"
  by (auto simp: RejectReviewCase_def Let_def split: option.split)
    (erule (1) review_inv_close; simp add: open_case_key_def)

lemma snd_ListReviewCases [simp]: "snd (ListReviewCases f s) = s"
  by (simp add: ListReviewCases_def Let_def)

text \<open>A case for the merchant, invoice and reason is in the queue, in whatever status.\<close>

definition reviewed :: "MemStore \<Rightarrow> string \<Rightarrow> string \<Rightarrow> ReviewReason \<Rightarrow> bool" where
  "reviewed s mid iid reason \<longleftrightarrow> (\<exists>k r. map_of (reviewCases s) k = Some r \<and>
     rc_MerchantID (rvr_Case r) = mid \<and> rc_InvoiceID (rvr_Case r) = Some iid \<and> rc_Reason (rvr_Case r) = reason)"

definition reviews_grow :: "MemStore \<Rightarrow> MemStore \<Rightarrow> bool" where
  "reviews_grow s t \<longleftrightarrow> (\<forall>mid iid reason. reviewed s mid iid reason \<longrightarrow> reviewed t mid iid reason)"

lemma reviews_grow_same: "same_reviews s t \<Longrightarrow> reviews_grow s t"
  by (simp add: same_reviews_def reviews_grow_def reviewed_def)

lemma createReviewCaseLocked_grow:
  assumes "review_inv s" shows "reviews_grow s (createReviewCaseLocked m i r n w x a s)"
proof -
  have "k \<noteq> mk_id ''rev_'' (Suc (reviewSeq s))" if "map_of (reviewCases s) k = Some c" for k c
    using that review_id_fresh [OF assms] by auto
  then show ?thesis
    unfolding reviews_grow_def reviewed_def createReviewCaseLocked_def
    by (simp add: Let_def) metis
qed

lemma createReviewCaseLocked_reviewed:
  assumes inv: "review_inv s" and m: "TrimSpace m \<noteq> []"
  shows "reviewed (createReviewCaseLocked m (Some iid) r n w x a s) (TrimSpace m) iid r"
proof (cases "list_ex (covers_case (TrimSpace m) (Some iid) r w x a) (map snd (ranged s (reviewCases s)))")
  case True
  then obtain k c where kc: "(k, c) \<in> set (reviewCases s)" "covers_case (TrimSpace m) (Some iid) r w x a c"
    by (auto simp: list_ex_iff)
  have "map_of (reviewCases s) k = Some c" using kc(1) inv by (simp add: review_inv_def wf_map_set_iff)
  then have "reviewed s (TrimSpace m) iid r" using kc(2) unfolding reviewed_def covers_case_def by auto
  moreover have "createReviewCaseLocked m (Some iid) r n w x a s = s"
    using True m by (simp add: createReviewCaseLocked_def Let_def)
  ultimately show ?thesis by simp
next
  case False
  with m show ?thesis by (auto simp: createReviewCaseLocked_def reviewed_def Let_def)
qed

lemma close_grow:
  assumes "map_of (reviewCases s) rid = Some r"
    "reviewCases t = mput rid (r\<lparr>rvr_Case := (rvr_Case r)\<lparr>rc_Status := st, rc_Notes := n, rc_UpdatedAt := u\<rparr>\<rparr>)
       (reviewCases s)"
  shows "reviews_grow s t"
proof -
  have "\<exists>c'. map_of (reviewCases t) k = Some c' \<and> rc_MerchantID (rvr_Case c') = rc_MerchantID (rvr_Case c) \<and>
      rc_InvoiceID (rvr_Case c') = rc_InvoiceID (rvr_Case c) \<and> rc_Reason (rvr_Case c') = rc_Reason (rvr_Case c)"
    if "map_of (reviewCases s) k = Some c" for k c
    using that assms by (cases "k = rid") auto
  then show ?thesis unfolding reviews_grow_def reviewed_def by metis
qed

lemma close_reviews_grow:
  "reviews_grow s (snd (ResolveReviewCase rid notes s))" "reviews_grow s (snd (RejectReviewCase rid notes s))"
  by (auto simp: ResolveReviewCase_def RejectReviewCase_def Let_def reviews_grow_same split: option.split)
    (erule close_grow, simp)+

end
