(* ===== verification/InvoiceStore.thy ===== *)
theory InvoiceStore
  imports EventStore ReviewStore
begin

text \<open>
  The invoice and refund operations of the in-memory store (\<open>mem.go\<close>): creating an invoice
  once per merchant and external order id, with one address per wallet; its token; lookups
  and listings; refunds.
\<close>

section \<open>Invoices\<close>

definition address_key :: "string \<Rightarrow> string \<Rightarrow> string" where
  "address_key walletID addr = walletID @ ''|'' @ addr"

text \<open>
  The inner map of a merchant is created before the lookup, so it is there even when the
  creation fails afterwards. A dangling invoice id reads as the zero invoice, whose amount
  of 0 never equals the requested one.
\<close>

definition CreateInvoice :: "InvoiceCreate \<Rightarrow> (Invoice \<times> bool, MemStore) act" where
  "CreateInvoice req0 s =
     (let req = req0\<lparr>ic_MerchantID := TrimSpace (ic_MerchantID req0),
                ic_ExternalOrderID := TrimSpace (ic_ExternalOrderID req0),
                ic_WalletID := TrimSpace (ic_WalletID req0),
                ic_Address := ToLower (TrimSpace (ic_Address req0))\<rparr> in
      if ic_MerchantID req = [] then (Inl (invalid_argument ''merchant_id is required''), s)
      else if ic_ExternalOrderID req = [] then (Inl (invalid_argument ''external_order_id is required''), s)
      else if ic_AmountZat req \<le> 0 then (Inl (invalid_argument ''amount_zat must be > 0''), s)
      else if ic_Address req = [] then (Inl (invalid_argument ''address is required''), s)
      else if ic_WalletID req = [] then (Inl (invalid_argument ''wallet_id is required''), s)
      else if \<not> has_key (ic_MerchantID req) (merchants s) then (Inl ErrNotFound, s)
      else
        (let extMap = (case map_of (invoiceByExternal s) (ic_MerchantID req) of None \<Rightarrow> [] | Some m \<Rightarrow> m);
             s = s\<lparr>invoiceByExternal := mput (ic_MerchantID req) extMap (invoiceByExternal s)\<rparr>;
             addrKey = address_key (ic_WalletID req) (ic_Address req)
         in case map_of extMap (ic_ExternalOrderID req) of
              Some invID \<Rightarrow> (case map_of (invoices s) invID of
                  None \<Rightarrow> (Inl ErrConflict, s)
                | Some existing \<Rightarrow>
                    if inv_AmountZat existing \<noteq> ic_AmountZat req then (Inl ErrConflict, s)
                    else (Inr (existing, False), s))
            | None \<Rightarrow>
                if has_key addrKey (invoiceByAddress s) then (Inl ErrConflict, s)
                else
                  (let s = s\<lparr>invoiceSeq := invoiceSeq s + 1\<rparr>;
                       now = time_Now s;
                       s = ticked s;
                       id = mk_id ''inv_'' (invoiceSeq s);
                       iv = \<lparr>inv_InvoiceID = id, inv_MerchantID = ic_MerchantID req,
                             inv_ExternalOrderID = ic_ExternalOrderID req,
                             inv_WalletID = ic_WalletID req, inv_AddressIndex = ic_AddressIndex req,
                             inv_Address = ic_Address req,
                             inv_CreatedAfterHeight = ic_CreatedAfterHeight req,
                             inv_CreatedAfterHash = ic_CreatedAfterHash req,
                             inv_AmountZat = ic_AmountZat req,
                             inv_RequiredConfirmations = ic_RequiredConfirmations req,
                             inv_Policies = ic_Policies req, inv_ReceivedPendingZat = 0,
                             inv_ReceivedConfirmedZat = 0, inv_Status = InvoiceOpen,
                             inv_ExpiresAt = ic_ExpiresAt req, inv_CreatedAt = now,
                             inv_UpdatedAt = now\<rparr>;
                       s = s\<lparr>invoices := mput id iv (invoices s),
                             invoiceByExternal := mput (ic_MerchantID req)
                               (mput (ic_ExternalOrderID req) id extMap) (invoiceByExternal s),
                             invoiceByAddress := mput addrKey id (invoiceByAddress s)\<rparr>
                   in (Inr (iv, True),
                       appendInvoiceEventLocked id InvoiceEventInvoiceCreated now None None s))))"

definition GetInvoice :: "string \<Rightarrow> (Invoice option, MemStore) act" where
  "GetInvoice invoiceID s = (Inr (map_of (invoices s) invoiceID), s)"

definition FindInvoiceByExternalOrderID :: "string \<Rightarrow> string \<Rightarrow> (Invoice option, MemStore) act" where
  "FindInvoiceByExternalOrderID merchantID0 externalOrderID0 s =
     (let merchantID = TrimSpace merchantID0; externalOrderID = TrimSpace externalOrderID0 in
      (Inr (case map_of (invoiceByExternal s) merchantID of
          None \<Rightarrow> None
        | Some extMap \<Rightarrow> (case map_of extMap externalOrderID of
            None \<Rightarrow> None
          | Some invID \<Rightarrow> map_of (invoices s) invID)), s))"

text \<open>The sequence number of an invoice, read back from its id; 0 where it does not parse.\<close>

definition invoice_seq :: "Invoice \<Rightarrow> int64" where
  "invoice_seq iv = (case SplitN2 (CHR ''_'') (inv_InvoiceID iv) of
       [_, p] \<Rightarrow> (case ParseInt 16 p of Some n \<Rightarrow> if n > 0 then n else 0 | None \<Rightarrow> 0)
     | _ \<Rightarrow> 0)"

definition invoice_match :: "string \<Rightarrow> InvoiceStatus option \<Rightarrow> string \<Rightarrow> Invoice \<Rightarrow> bool" where
  "invoice_match merchantID status externalOrderID iv \<longleftrightarrow>
     (merchantID \<noteq> [] \<longrightarrow> inv_MerchantID iv = merchantID) \<and>
     (case status of None \<Rightarrow> True | Some st \<Rightarrow> inv_Status iv = st) \<and>
     (externalOrderID \<noteq> [] \<longrightarrow> inv_ExternalOrderID iv = externalOrderID)"

definition ListInvoices :: "InvoiceFilter \<Rightarrow> (Invoice list \<times> int64, MemStore) act" where
  "ListInvoices f s =
     (let merchantID = TrimSpace (if_MerchantID f);
          externalOrderID = TrimSpace (if_ExternalOrderID f);
          afterID = (if if_AfterID f < 0 then 0 else if_AfterID f);
          limit = norm_limit (if_Limit f);
          recs = filter (\<lambda>iv. invoice_match merchantID (if_Status f) externalOrderID iv \<and>
                   \<not> invoice_seq iv \<le> afterID) (map snd (ranged s (invoices s)))
      in (Inr (page invoice_seq (\<lambda>_. True) limit [] 0 (sort_key invoice_seq recs)), ticked s))"

definition PutInvoiceToken :: "string \<Rightarrow> string \<Rightarrow> (unit, MemStore) act" where
  "PutInvoiceToken invoiceID0 token0 s =
     (let invoiceID = TrimSpace invoiceID0; token = TrimSpace token0 in
      if invoiceID = [] then (Inl (invalid_argument ''invoice_id is required''), s)
      else if token = [] then (Inl (invalid_argument ''token is required''), s)
      else if \<not> has_key invoiceID (invoices s) then (Inl ErrNotFound, s)
      else (Inr (), s\<lparr>invoiceToken := mput invoiceID token (invoiceToken s)\<rparr>))"

definition GetInvoiceToken :: "string \<Rightarrow> (string option, MemStore) act" where
  "GetInvoiceToken invoiceID0 s = (Inr (map_of (invoiceToken s) (TrimSpace invoiceID0)), s)"

section \<open>Refunds\<close>

text \<open>The empty string of an optional field is a nil pointer in the stored refund.\<close>

definition opt_of :: "string \<Rightarrow> string option" where
  "opt_of v = (if v = [] then None else Some v)"

text \<open>The invoice a refund names must exist and belong to the merchant.\<close>

definition refund_check :: "MemStore \<Rightarrow> string \<Rightarrow> string \<Rightarrow> store_error option" where
  "refund_check s merchantID invoiceID =
     (if invoiceID = [] then None
      else (case map_of (invoices s) invoiceID of
          None \<Rightarrow> Some ErrNotFound
        | Some iv \<Rightarrow> if inv_MerchantID iv \<noteq> merchantID then Some ErrForbidden else None))"

definition CreateRefund :: "RefundCreate \<Rightarrow> (Refund, MemStore) act" where
  "CreateRefund req0 s =
     (let req = \<lparr>rfc_MerchantID = TrimSpace (rfc_MerchantID req0),
                 rfc_InvoiceID = TrimSpace (rfc_InvoiceID req0),
                 rfc_ExternalRefundID = TrimSpace (rfc_ExternalRefundID req0),
                 rfc_ToAddress = TrimSpace (rfc_ToAddress req0),
                 rfc_AmountZat = rfc_AmountZat req0,
                 rfc_SentTxID = TrimSpace (rfc_SentTxID req0),
                 rfc_Notes = TrimSpace (rfc_Notes req0)\<rparr> in
      if rfc_MerchantID req = [] then (Inl (invalid_argument ''merchant_id is required''), s)
      else if rfc_ToAddress req = [] then (Inl (invalid_argument ''to_address is required''), s)
      else if rfc_AmountZat req \<le> 0 then (Inl (invalid_argument ''amount_zat must be > 0''), s)
      else if \<not> has_key (rfc_MerchantID req) (merchants s) then (Inl ErrNotFound, s)
      else case refund_check s (rfc_MerchantID req) (rfc_InvoiceID req) of
        Some e \<Rightarrow> (Inl e, s)
      | None \<Rightarrow>
          (let s = s\<lparr>refundSeq := refundSeq s + 1\<rparr>;
               now = time_Now s;
               s = ticked s;
               refundID = mk_id ''refund_'' (refundSeq s);
               sentTxID = opt_of (rfc_SentTxID req);
               status = (if sentTxID \<noteq> None then RefundSent else RefundRequested);
               refund = \<lparr>rf_RefundID = refundID, rf_MerchantID = rfc_MerchantID req,
                         rf_InvoiceID = opt_of (rfc_InvoiceID req),
                         rf_ExternalRefundID = opt_of (rfc_ExternalRefundID req),
                         rf_ToAddress = rfc_ToAddress req, rf_AmountZat = rfc_AmountZat req,
                         rf_Status = status, rf_SentTxID = sentTxID, rf_Notes = rfc_Notes req,
                         rf_CreatedAt = now, rf_UpdatedAt = now\<rparr>;
               s = s\<lparr>refunds := refunds s @ [\<lparr>rr_Seq = refundSeq s, rr_Refund = refund\<rparr>]\<rparr>
           in (Inr refund,
               case rf_InvoiceID refund of
                 None \<Rightarrow> s
               | Some invoiceID \<Rightarrow>
                   appendInvoiceEventLocked invoiceID
                     (if status = RefundSent then InvoiceEventRefundSent else InvoiceEventRefundRequested)
                     now None (Some refund) s)))"

definition refund_match :: "string \<Rightarrow> string \<Rightarrow> RefundStatus option \<Rightarrow> Refund \<Rightarrow> bool" where
  "refund_match merchantID invoiceID status r \<longleftrightarrow>
     (merchantID \<noteq> [] \<longrightarrow> rf_MerchantID r = merchantID) \<and>
     (invoiceID \<noteq> [] \<longrightarrow> rf_InvoiceID r = Some invoiceID) \<and>
     (case status of None \<Rightarrow> True | Some st \<Rightarrow> rf_Status r = st)"

definition ListRefunds :: "RefundFilter \<Rightarrow> (Refund list \<times> int64, MemStore) act" where
  "ListRefunds f s =
     (let merchantID = TrimSpace (rff_MerchantID f); invoiceID = TrimSpace (rff_InvoiceID f);
          afterID = (if rff_AfterID f < 0 then 0 else rff_AfterID f);
          limit = norm_limit (rff_Limit f);
          (rs, next) = page (\<lambda>r. int (rr_Seq r))
            (\<lambda>r. afterID < int (rr_Seq r) \<and> refund_match merchantID invoiceID (rff_Status f) (rr_Refund r))
            limit [] 0 (refunds s)
      in (Inr (map rr_Refund rs, next), s))"

section \<open>The invariant of the invoices\<close>

text \<open>
  Every invoice is indexed under its merchant and external order id and under its wallet and
  address, and the indexes hold nothing else; so no two invoices share either.
\<close>

definition ext_index :: "MemStore \<Rightarrow> string \<Rightarrow> string \<Rightarrow> string option" where
  "ext_index s mid ext = (case map_of (invoiceByExternal s) mid of None \<Rightarrow> None | Some m \<Rightarrow> map_of m ext)"

definition invoice_ok :: "MemStore \<Rightarrow> string \<Rightarrow> Invoice \<Rightarrow> bool" where
  "invoice_ok s iid iv \<longleftrightarrow> inv_InvoiceID iv = iid \<and>
     (\<exists>n. 0 < n \<and> n \<le> invoiceSeq s \<and> iid = mk_id ''inv_'' n) \<and>
     has_key (inv_MerchantID iv) (merchants s) \<and> inv_ExternalOrderID iv \<noteq> [] \<and>
     inv_WalletID iv \<noteq> [] \<and> inv_Address iv \<noteq> [] \<and> 0 < inv_AmountZat iv \<and>
     ext_index s (inv_MerchantID iv) (inv_ExternalOrderID iv) = Some iid \<and>
     map_of (invoiceByAddress s) (address_key (inv_WalletID iv) (inv_Address iv)) = Some iid"

definition invoice_inv :: "MemStore \<Rightarrow> bool" where
  "invoice_inv s \<longleftrightarrow>
     wf_map (invoices s) \<and> wf_map (invoiceByExternal s) \<and> wf_map (invoiceByAddress s) \<and> wf_map (invoiceToken s) \<and>
     (\<forall>iid iv. map_of (invoices s) iid = Some iv \<longrightarrow> invoice_ok s iid iv) \<and>
     (\<forall>mid ext iid. ext_index s mid ext = Some iid \<longrightarrow>
        (\<exists>iv. statics s iid = Some iv \<and> inv_MerchantID iv = mid \<and> inv_ExternalOrderID iv = ext)) \<and>
     (\<forall>key iid. map_of (invoiceByAddress s) key = Some iid \<longrightarrow>
        (\<exists>iv. statics s iid = Some iv \<and> key = address_key (inv_WalletID iv) (inv_Address iv))) \<and>
     (\<forall>iid tok. map_of (invoiceToken s) iid = Some tok \<longrightarrow> tok \<noteq> [] \<and> has_key iid (invoices s))"

lemma invoice_invD:
  assumes "invoice_inv s"
  shows "wf_map (invoices s)"
    "map_of (invoices s) iid = Some iv \<Longrightarrow> invoice_ok s iid iv"
    "ext_index s mid ext = Some iid \<Longrightarrow>
       \<exists>iv. statics s iid = Some iv \<and> inv_MerchantID iv = mid \<and> inv_ExternalOrderID iv = ext"
    "map_of (invoiceByAddress s) key = Some iid \<Longrightarrow>
       \<exists>iv. statics s iid = Some iv \<and> key = address_key (inv_WalletID iv) (inv_Address iv)"
  using assms by (simp_all add: invoice_inv_def)

lemma invoice_inv_NewMem: "invoice_inv (NewMem clock prio)"
  by (simp add: invoice_inv_def NewMem_def ext_index_def)

definition same_invoices :: "MemStore \<Rightarrow> MemStore \<Rightarrow> bool" where
  "same_invoices s t \<longleftrightarrow> invoiceSeq t = invoiceSeq s \<and> invoices t = invoices s \<and>
     invoiceByExternal t = invoiceByExternal s \<and> invoiceByAddress t = invoiceByAddress s \<and>
     invoiceToken t = invoiceToken s"

lemma same_invoices_simps [simp]: "same_invoices s s" "same_invoices s (ticked s)"
  by (simp_all add: same_invoices_def)

lemma invoice_inv_frame:
  assumes "invoice_inv s" "same_invoices s t" "keeps_merchants s t"
  shows "invoice_inv t"
proof -
  have eq: "invoiceSeq t = invoiceSeq s" "invoices t = invoices s" "invoiceByExternal t = invoiceByExternal s"
    "invoiceByAddress t = invoiceByAddress s" "invoiceToken t = invoiceToken s"
    and ix: "ext_index t = ext_index s" "statics t = statics s"
    using assms(2) by (simp_all add: same_invoices_def ext_index_def statics_def fun_eq_iff)
  have "invoice_ok s iid iv \<Longrightarrow> invoice_ok t iid iv" for iid iv
    using assms(3) unfolding invoice_ok_def keeps_merchants_def eq ix by blast
  with assms(1) show ?thesis unfolding invoice_inv_def eq ix by blast
qed

text \<open>Changing the mutable fields of one invoice keeps the invariant.\<close>

lemma invoice_ok_static:
  "inv_static iv' = inv_static iv \<Longrightarrow> invoice_ok s iid iv \<Longrightarrow> invoice_ok s iid iv'"
  unfolding invoice_ok_def by (metis inv_static_simps(1-6))

lemma statics_update:
  assumes "map_of (invoices s) iid = Some iv" "inv_static iv' = inv_static iv"
    "invoices t = mput iid iv' (invoices s)"
  shows "statics t = statics s"
  using assms by (simp add: statics_def fun_eq_iff)

lemma invoice_inv_update:
  assumes inv: "invoice_inv s" and iv: "map_of (invoices s) iid = Some iv" "inv_static iv' = inv_static iv"
    and t: "invoices t = mput iid iv' (invoices s)" "invoiceSeq t = invoiceSeq s"
      "invoiceByExternal t = invoiceByExternal s" "invoiceByAddress t = invoiceByAddress s"
      "invoiceToken t = invoiceToken s" "merchants t = merchants s"
  shows "invoice_inv t"
proof -
  have ix: "ext_index t = ext_index s" "statics t = statics s" "invoice_ok t = invoice_ok s"
    "has_key x (invoices t) \<longleftrightarrow> has_key x (invoices s)" for x
    using t statics_update [OF iv t(1)] iv by (auto simp: ext_index_def invoice_ok_def fun_eq_iff has_key_def)
  have "invoice_ok s i v" if "map_of (invoices t) i = Some v" for i v
    using that inv iv t(1) invoice_ok_static [OF iv(2)] by (auto simp: invoice_inv_def split: if_splits)
  with inv show ?thesis unfolding invoice_inv_def ix t(2-6) by (simp add: t(1))
qed

section \<open>The invariant of the refunds\<close>

definition refund_inv :: "MemStore \<Rightarrow> bool" where
  "refund_inv s \<longleftrightarrow> map rr_Seq (refunds s) = [1..<Suc (refundSeq s)] \<and>
     (\<forall>r \<in> set (refunds s). rf_RefundID (rr_Refund r) = mk_id ''refund_'' (rr_Seq r) \<and>
        has_key (rf_MerchantID (rr_Refund r)) (merchants s) \<and> rf_ToAddress (rr_Refund r) \<noteq> [] \<and>
        0 < rf_AmountZat (rr_Refund r) \<and>
        (rf_Status (rr_Refund r) = (if rf_SentTxID (rr_Refund r) = None then RefundRequested else RefundSent)) \<and>
        (\<forall>iid. rf_InvoiceID (rr_Refund r) = Some iid \<longrightarrow>
           (\<exists>iv. statics s iid = Some iv \<and> inv_MerchantID iv = rf_MerchantID (rr_Refund r))))"

definition same_refunds :: "MemStore \<Rightarrow> MemStore \<Rightarrow> bool" where
  "same_refunds s t \<longleftrightarrow> refundSeq t = refundSeq s \<and> refunds t = refunds s"

lemma same_refunds_simps [simp]: "same_refunds s s" "same_refunds s (ticked s)"
  by (simp_all add: same_refunds_def)

lemma refund_inv_NewMem: "refund_inv (NewMem clock prio)"
  by (simp add: refund_inv_def NewMem_def)

lemma refund_inv_frame:
  assumes "refund_inv s" "same_refunds s t" "keeps_merchants s t" "keeps_invoices s t"
  shows "refund_inv t"
proof -
  have eq: "refundSeq t = refundSeq s" "refunds t = refunds s" using assms(2) by (simp_all add: same_refunds_def)
  show ?thesis
    using assms(1,3,4) unfolding refund_inv_def eq keeps_merchants_def keeps_invoices_def by blast
qed

section \<open>Creating an invoice\<close>

lemma invoice_id_fresh:
  assumes "invoice_inv s"
  shows "map_of (invoices s) (mk_id ''inv_'' (Suc (invoiceSeq s))) = None"
proof (rule ccontr)
  assume "\<not> ?thesis"
  then obtain iv where "map_of (invoices s) (mk_id ''inv_'' (Suc (invoiceSeq s))) = Some iv" by auto
  from invoice_invD(2) [OF assms this] obtain n
    where "n \<le> invoiceSeq s" "mk_id ''inv_'' (Suc (invoiceSeq s)) = mk_id ''inv_'' n"
    unfolding invoice_ok_def by blast
  then show False by simp
qed

lemma invoice_inv_add:
  assumes inv: "invoice_inv s" and iid: "iid = mk_id ''inv_'' (Suc (invoiceSeq s))"
    and iv: "inv_InvoiceID iv = iid" "has_key (inv_MerchantID iv) (merchants s)" "inv_ExternalOrderID iv \<noteq> []"
      "inv_WalletID iv \<noteq> []" "inv_Address iv \<noteq> []" "0 < inv_AmountZat iv"
    and new: "ext_index s (inv_MerchantID iv) (inv_ExternalOrderID iv) = None"
      "map_of (invoiceByAddress s) (address_key (inv_WalletID iv) (inv_Address iv)) = None"
    and t: "invoices t = mput iid iv (invoices s)" "invoiceSeq t = Suc (invoiceSeq s)"
      "wf_map (invoiceByExternal t)"
      "\<And>m e. ext_index t m e = (if m = inv_MerchantID iv \<and> e = inv_ExternalOrderID iv then Some iid else ext_index s m e)"
      "invoiceByAddress t = mput (address_key (inv_WalletID iv) (inv_Address iv)) iid (invoiceByAddress s)"
      "invoiceToken t = invoiceToken s" "merchants t = merchants s"
  shows "invoice_inv t" "keeps_invoices s t"
proof -
  have fresh: "map_of (invoices s) iid = None" using invoice_id_fresh [OF inv] iid by simp
  have st: "statics t j = (if j = iid then Some (inv_static iv) else statics s j)" for j
    using t(1) by (simp add: statics_def)
  have s_iid: "statics s iid = None" using fresh by (simp add: statics_def)
  show "keeps_invoices s t" using s_iid st by (auto simp: keeps_invoices_def)
  have ok: "invoice_ok t j v" if "invoice_ok s j v" for j v
    using that new t unfolding invoice_ok_def by (auto simp: le_SucI)
  have ok_new: "invoice_ok t iid iv" using iv iid t unfolding invoice_ok_def by auto
  show "invoice_inv t"
    unfolding invoice_inv_def
  proof (intro conjI allI impI)
    fix j v assume "map_of (invoices t) j = Some v"
    then show "invoice_ok t j v"
      using invoice_invD(2) [OF inv] ok ok_new t(1) by (cases "j = iid") auto
  next
    fix m e j assume "ext_index t m e = Some j"
    then show "\<exists>v. statics t j = Some v \<and> inv_MerchantID v = m \<and> inv_ExternalOrderID v = e"
      using invoice_invD(3) [OF inv, of m e j] s_iid st t(4) by (auto split: if_splits)
  next
    fix key j assume "map_of (invoiceByAddress t) key = Some j"
    then show "\<exists>v. statics t j = Some v \<and> key = address_key (inv_WalletID v) (inv_Address v)"
      using invoice_invD(4) [OF inv, of key j] s_iid st t(5) by (auto split: if_splits)
  next
    fix j tok assume "map_of (invoiceToken t) j = Some tok"
    then show "tok \<noteq> []" "has_key j (invoices t)"
      using inv t(1,6) unfolding invoice_inv_def by auto
  qed (use inv t in \<open>simp_all add: invoice_inv_def\<close>)
qed

text \<open>
  What \<open>CreateInvoice\<close> does, in one of two ways: it leaves the state as it was (but for an
  empty inner map), or it adds one invoice.
\<close>

definition touched :: "MemStore \<Rightarrow> MemStore \<Rightarrow> bool" where
  "touched s t \<longleftrightarrow> t = s \<or> (\<exists>mid m. t = s\<lparr>invoiceByExternal := mput mid m (invoiceByExternal s)\<rparr> \<and>
     m = (case map_of (invoiceByExternal s) mid of None \<Rightarrow> [] | Some m \<Rightarrow> m))"

definition before_created :: "string \<Rightarrow> Invoice \<Rightarrow> MemStore \<Rightarrow> MemStore" where
  "before_created iid iv s = s\<lparr>invoiceSeq := Suc (invoiceSeq s), env_ticks := Suc (env_ticks s),
     invoices := mput iid iv (invoices s),
     invoiceByExternal := mput (inv_MerchantID iv) (mput (inv_ExternalOrderID iv) iid
       (case map_of (invoiceByExternal s) (inv_MerchantID iv) of None \<Rightarrow> [] | Some m \<Rightarrow> m)) (invoiceByExternal s),
     invoiceByAddress := mput (address_key (inv_WalletID iv) (inv_Address iv)) iid (invoiceByAddress s)\<rparr>"

lemma mput_mput [simp]: "mput k v (mput k w m) = mput k v m"
  by (induction m) auto

lemma CreateInvoice_cases:
  obtains (same) r t where "CreateInvoice req s = (r, t)" "touched s t" "\<And>iv. r \<noteq> Inr (iv, True)"
  | (new) iid iv where
      "CreateInvoice req s = (Inr (iv, True),
         appendInvoiceEventLocked iid InvoiceEventInvoiceCreated (inv_CreatedAt iv) None None (before_created iid iv s))"
      "iid = mk_id ''inv_'' (Suc (invoiceSeq s))" "inv_InvoiceID iv = iid"
      "has_key (inv_MerchantID iv) (merchants s)" "inv_ExternalOrderID iv \<noteq> []" "inv_WalletID iv \<noteq> []"
      "inv_Address iv \<noteq> []" "0 < inv_AmountZat iv" "inv_Status iv = InvoiceOpen"
      "inv_ReceivedPendingZat iv = 0" "inv_ReceivedConfirmedZat iv = 0"
      "ext_index s (inv_MerchantID iv) (inv_ExternalOrderID iv) = None"
      "map_of (invoiceByAddress s) (address_key (inv_WalletID iv) (inv_Address iv)) = None"
proof -
  define mid ext wal adr where "mid = TrimSpace (ic_MerchantID req)" and "ext = TrimSpace (ic_ExternalOrderID req)"
    and "wal = TrimSpace (ic_WalletID req)" and "adr = ToLower (TrimSpace (ic_Address req))"
  define m where "m = (case map_of (invoiceByExternal s) mid of None \<Rightarrow> [] | Some m \<Rightarrow> m)"
  define iid where "iid = mk_id ''inv_'' (Suc (invoiceSeq s))"
  define iv where "iv = \<lparr>inv_InvoiceID = iid, inv_MerchantID = mid, inv_ExternalOrderID = ext,
    inv_WalletID = wal, inv_AddressIndex = ic_AddressIndex req, inv_Address = adr,
    inv_CreatedAfterHeight = ic_CreatedAfterHeight req, inv_CreatedAfterHash = ic_CreatedAfterHash req,
    inv_AmountZat = ic_AmountZat req, inv_RequiredConfirmations = ic_RequiredConfirmations req,
    inv_Policies = ic_Policies req, inv_ReceivedPendingZat = 0, inv_ReceivedConfirmedZat = 0,
    inv_Status = InvoiceOpen, inv_ExpiresAt = ic_ExpiresAt req, inv_CreatedAt = time_Now s, inv_UpdatedAt = time_Now s\<rparr>"
  note d = CreateInvoice_def Let_def mid_def [symmetric] ext_def [symmetric] wal_def [symmetric] adr_def [symmetric]
  show thesis
  proof (cases "mid = [] \<or> ext = [] \<or> ic_AmountZat req \<le> 0 \<or> adr = [] \<or> wal = [] \<or> \<not> has_key mid (merchants s)")
    case True
    then have "\<exists>e. CreateInvoice req s = (Inl e, s)" by (auto simp: d)
    then show thesis using same [of _ s] unfolding touched_def by blast
  next
    case ok: False
    show thesis
    proof (cases "map_of m ext \<noteq> None \<or> has_key (address_key wal adr) (invoiceByAddress s)")
      case True
      then have "\<exists>r. CreateInvoice req s = (r, s\<lparr>invoiceByExternal := mput mid m (invoiceByExternal s)\<rparr>) \<and>
          (\<forall>iv. r \<noteq> Inr (iv, True))"
        using ok by (auto simp: d m_def split: option.splits)
      then show thesis using same unfolding touched_def m_def by blast
    next
      case False
      then have "CreateInvoice req s = (Inr (iv, True),
         appendInvoiceEventLocked iid InvoiceEventInvoiceCreated (inv_CreatedAt iv) None None (before_created iid iv s))"
        using ok by (simp add: d iv_def iid_def before_created_def ticked_def time_Now_def m_def [symmetric])
      then show thesis
        using ok False by (intro new [of iv iid])
          (auto simp: iv_def iid_def ext_index_def m_def has_key_def split: option.splits)
    qed
  qed
qed

lemma touched_frame:
  assumes "touched s t"
  shows "same_events s t" "same_reviews s t" "same_refunds s t" "same_merchants s t" "invoices t = invoices s"
    "deposits t = deposits s" "scanCursor t = scanCursor s"
    "merchants t = merchants s" "keeps_invoices s t" "keeps_merchants s t" "depositSeq t = depositSeq s"
  using assms unfolding touched_def keeps_invoices_def keeps_merchants_def statics_def
  by (auto simp: same_events_def same_reviews_def same_refunds_def same_merchants_def)

lemma touched_inv:
  assumes inv: "invoice_inv s" and "touched s t"
  shows "invoice_inv t"
proof -
  consider "t = s" | mid m where "t = s\<lparr>invoiceByExternal := mput mid m (invoiceByExternal s)\<rparr>"
     "m = (case map_of (invoiceByExternal s) mid of None \<Rightarrow> [] | Some m \<Rightarrow> m)"
    using assms(2) unfolding touched_def by blast
  then show ?thesis
  proof cases
    case 1
    with inv show ?thesis by simp
  next
    case 2
    have ix: "ext_index t = ext_index s" "statics t = statics s"
      by (auto simp: 2 ext_index_def statics_def fun_eq_iff split: option.split)
    have ok: "invoice_ok t = invoice_ok s"
      unfolding invoice_ok_def fun_eq_iff ix by (simp add: 2(1))
    show ?thesis using inv unfolding invoice_inv_def ix ok by (simp add: 2(1))
  qed
qed

text \<open>The part of the store this theory completes.\<close>

definition base_inv :: "MemStore \<Rightarrow> bool" where
  "base_inv s \<longleftrightarrow> merchant_inv s \<and> review_inv s \<and> invoice_inv s \<and> event_inv s \<and> refund_inv s"

lemma base_invD:
  assumes "base_inv s"
  shows "merchant_inv s" "review_inv s" "invoice_inv s" "event_inv s" "refund_inv s"
  using assms by (simp_all add: base_inv_def)

lemma base_inv_NewMem: "base_inv (NewMem clock prio)"
  by (simp add: base_inv_def merchant_inv_NewMem review_inv_NewMem invoice_inv_NewMem event_inv_NewMem
      refund_inv_NewMem)

text \<open>An operation of one component leaves the others alone.\<close>

lemma base_inv_frame:
  assumes "base_inv s" "same_merchants s t" "same_reviews s t" "same_invoices s t" "same_events s t" "same_refunds s t"
  shows "base_inv t"
proof -
  have k: "keeps_merchants s t" "keeps_invoices s t"
    using assms(2,4) by (simp_all add: keeps_merchants_eq keeps_invoices_eq same_merchants_def same_invoices_def)
  show ?thesis
    using base_invD [OF assms(1)] k assms(2-)
    by (simp add: base_inv_def same_merchants_inv [of s t] same_reviews_inv [of s t] invoice_inv_frame [of s t]
        event_inv_frame [of s t] refund_inv_frame [of s t])
qed

lemma base_inv_ticked [simp]: "base_inv s \<Longrightarrow> base_inv (ticked s)"
  by (rule base_inv_frame [of s]) simp_all

lemma append_base [inv_intros]:
  assumes "base_inv s" "iid = [] \<or> statics s iid \<noteq> None" "dep = None \<or> ref = None"
  shows "base_inv (appendInvoiceEventLocked iid typ t dep ref s)"
proof -
  let ?t = "appendInvoiceEventLocked iid typ t dep ref s"
  have f: "same_merchants s ?t" "same_reviews s ?t" "same_invoices s ?t" "same_refunds s ?t"
    by (simp_all add: same_merchants_def same_reviews_def same_invoices_def same_refunds_def)
  have k: "keeps_merchants s ?t" "keeps_invoices s ?t"
    by (simp_all add: keeps_merchants_eq keeps_invoices_eq)
  show ?thesis
    using base_invD [OF assms(1)] f k append_inv [OF base_invD(4) [OF assms(1)] assms(2,3)]
    by (simp add: base_inv_def same_merchants_inv [of s ?t] same_reviews_inv [of s ?t] invoice_inv_frame [of s ?t]
        refund_inv_frame [of s ?t])
qed

lemma review_base [inv_intros]:
  assumes "base_inv s"
  shows "base_inv (createReviewCaseLocked m i r n w x a s)"
proof -
  let ?t = "createReviewCaseLocked m i r n w x a s"
  have f: "same_merchants s ?t" "same_events s ?t" "same_invoices s ?t" "same_refunds s ?t"
    by (simp_all add: same_merchants_def same_events_def same_invoices_def same_refunds_def
        createReviewCaseLocked_def Let_def)
  have k: "keeps_merchants s ?t" "keeps_invoices s ?t"
    using f(1,3) by (simp_all add: keeps_merchants_eq keeps_invoices_eq same_merchants_def same_invoices_def)
  show ?thesis
    using base_invD [OF assms(1)] f k createReviewCaseLocked_inv [OF base_invD(2) [OF assms]]
    by (simp add: base_inv_def same_merchants_inv [of s ?t] invoice_inv_frame [of s ?t]
        event_inv_frame [of s ?t] refund_inv_frame [of s ?t])
qed

lemma before_created_base:
  assumes inv: "base_inv s" and iid: "iid = mk_id ''inv_'' (Suc (invoiceSeq s))"
    and iv: "inv_InvoiceID iv = iid" "has_key (inv_MerchantID iv) (merchants s)" "inv_ExternalOrderID iv \<noteq> []"
      "inv_WalletID iv \<noteq> []" "inv_Address iv \<noteq> []" "0 < inv_AmountZat iv"
      "ext_index s (inv_MerchantID iv) (inv_ExternalOrderID iv) = None"
      "map_of (invoiceByAddress s) (address_key (inv_WalletID iv) (inv_Address iv)) = None"
  shows "base_inv (before_created iid iv s)" "keeps_invoices s (before_created iid iv s)"
proof -
  let ?t = "before_created iid iv s"
  have f: "same_merchants s ?t" "same_events s ?t" "same_reviews s ?t" "same_refunds s ?t"
    by (simp_all add: same_merchants_def same_events_def same_reviews_def same_refunds_def before_created_def)
  have k: "keeps_merchants s ?t" by (simp add: keeps_merchants_eq before_created_def)
  have i: "invoice_inv ?t" "keeps_invoices s ?t"
  proof -
    have w: "wf_map (invoiceByExternal s)" using base_invD(3) [OF inv] by (simp add: invoice_inv_def)
    note add = invoice_inv_add [OF base_invD(3) [OF inv] iid iv, of ?t]
    show "invoice_inv ?t" "keeps_invoices s ?t"
      by (rule add; use w in \<open>auto simp: before_created_def ext_index_def split: option.split\<close>)+
  qed
  show "base_inv ?t"
    using base_invD [OF inv] f k i
    by (simp add: base_inv_def same_merchants_inv [of s ?t] same_reviews_inv [of s ?t]
        event_inv_frame [of s ?t] refund_inv_frame [of s ?t])
  show "keeps_invoices s ?t" by (rule i(2))
qed

lemma touched_base:
  assumes "base_inv s" "touched s t"
  shows "base_inv t"
  using base_invD [OF assms(1)] touched_frame [OF assms(2)] touched_inv [OF _ assms(2)]
  by (simp add: base_inv_def same_merchants_inv [of s t] same_reviews_inv [of s t]
      event_inv_frame [of s t] refund_inv_frame [of s t])

lemma CreateInvoice_base [inv_intros]:
  assumes "base_inv s"
  shows "base_inv (snd (CreateInvoice req s))"
proof (cases rule: CreateInvoice_cases [of req s])
  case (same r t)
  with assms touched_base show ?thesis by simp
next
  case (new iid iv)
  have "base_inv (before_created iid iv s)"
    by (rule before_created_base(1) [OF assms]) (use new in simp_all)
  then show ?thesis
    unfolding new(1) by (auto intro!: append_base simp: before_created_def statics_def)
qed

section \<open>The other operations\<close>

lemma invoice_reads [simp]:
  "snd (GetInvoice iid s) = s" "snd (FindInvoiceByExternalOrderID m e s) = s"
  "snd (ListInvoices f s) = ticked s" "snd (GetInvoiceToken iid s) = s" "snd (ListRefunds rf s) = s"
  by (simp_all add: GetInvoice_def FindInvoiceByExternalOrderID_def ListInvoices_def GetInvoiceToken_def
      ListRefunds_def Let_def split_def)

lemma PutInvoiceToken_base [inv_intros]:
  assumes "base_inv s"
  shows "base_inv (snd (PutInvoiceToken iid tok s))"
proof -
  let ?t = "snd (PutInvoiceToken iid tok s)"
  have f: "same_merchants s ?t" "same_events s ?t" "same_reviews s ?t" "same_refunds s ?t"
    by (simp_all add: same_merchants_def same_events_def same_reviews_def same_refunds_def PutInvoiceToken_def Let_def)
  have k: "keeps_merchants s ?t" "keeps_invoices s ?t"
    by (simp_all add: keeps_merchants_eq keeps_invoices_eq PutInvoiceToken_def Let_def)
  have "invoice_inv ?t"
  proof -
    have eq: "invoiceSeq ?t = invoiceSeq s" "invoices ?t = invoices s" "invoiceByExternal ?t = invoiceByExternal s"
      "invoiceByAddress ?t = invoiceByAddress s" "merchants ?t = merchants s"
      by (simp_all add: PutInvoiceToken_def Let_def)
    have ix: "ext_index ?t = ext_index s" "statics ?t = statics s" "invoice_ok ?t = invoice_ok s"
      unfolding fun_eq_iff ext_index_def statics_def invoice_ok_def eq by simp_all
    show ?thesis
      using base_invD(3) [OF assms] unfolding invoice_inv_def ix eq by (auto simp: PutInvoiceToken_def Let_def)
  qed
  then show ?thesis
    using base_invD [OF assms] f k
    by (simp add: base_inv_def same_merchants_inv [of s ?t] same_reviews_inv [of s ?t]
        event_inv_frame [of s ?t] refund_inv_frame [of s ?t])
qed

lemma refund_inv_add:
  assumes inv: "refund_inv s"
    and r: "rf_RefundID r = mk_id ''refund_'' (Suc (refundSeq s))" "has_key (rf_MerchantID r) (merchants s)"
      "rf_ToAddress r \<noteq> []" "0 < rf_AmountZat r"
      "rf_Status r = (if rf_SentTxID r = None then RefundRequested else RefundSent)"
      "\<And>iid. rf_InvoiceID r = Some iid \<Longrightarrow> \<exists>iv. statics s iid = Some iv \<and> inv_MerchantID iv = rf_MerchantID r"
    and t: "t = s\<lparr>refundSeq := Suc (refundSeq s), env_ticks := n,
      refunds := refunds s @ [\<lparr>rr_Seq = Suc (refundSeq s), rr_Refund = r\<rparr>]\<rparr>"
  shows "refund_inv t"
proof -
  have eq: "statics t = statics s" by (simp add: t statics_def fun_eq_iff)
  show ?thesis
    using inv r unfolding refund_inv_def eq by (auto simp: t)
qed

lemma CreateRefund_cases:
  obtains (error) e where "CreateRefund req s = (Inl e, s)"
  | (new) r where "CreateRefund req s = (Inr r,
        (case rf_InvoiceID r of None \<Rightarrow> (\<lambda>u. u) | Some iid \<Rightarrow> appendInvoiceEventLocked iid
          (if rf_Status r = RefundSent then InvoiceEventRefundSent else InvoiceEventRefundRequested)
          (rf_CreatedAt r) None (Some r))
        (s\<lparr>refundSeq := Suc (refundSeq s), env_ticks := Suc (env_ticks s),
           refunds := refunds s @ [\<lparr>rr_Seq = Suc (refundSeq s), rr_Refund = r\<rparr>]\<rparr>))"
      "rf_RefundID r = mk_id ''refund_'' (Suc (refundSeq s))" "has_key (rf_MerchantID r) (merchants s)"
      "rf_ToAddress r \<noteq> []" "0 < rf_AmountZat r"
      "rf_Status r = (if rf_SentTxID r = None then RefundRequested else RefundSent)"
      "\<And>iid. rf_InvoiceID r = Some iid \<Longrightarrow> iid \<noteq> [] \<and> (\<exists>iv. statics s iid = Some iv \<and> inv_MerchantID iv = rf_MerchantID r)"
proof -
  define mid iid adr where "mid = TrimSpace (rfc_MerchantID req)" and "iid = TrimSpace (rfc_InvoiceID req)"
    and "adr = TrimSpace (rfc_ToAddress req)"
  define r where "r = \<lparr>rf_RefundID = mk_id ''refund_'' (Suc (refundSeq s)), rf_MerchantID = mid,
    rf_InvoiceID = opt_of iid, rf_ExternalRefundID = opt_of (TrimSpace (rfc_ExternalRefundID req)),
    rf_ToAddress = adr, rf_AmountZat = rfc_AmountZat req,
    rf_Status = (if opt_of (TrimSpace (rfc_SentTxID req)) \<noteq> None then RefundSent else RefundRequested),
    rf_SentTxID = opt_of (TrimSpace (rfc_SentTxID req)), rf_Notes = TrimSpace (rfc_Notes req),
    rf_CreatedAt = time_Now s, rf_UpdatedAt = time_Now s\<rparr>"
  note d = CreateRefund_def Let_def mid_def [symmetric] iid_def [symmetric] adr_def [symmetric]
  show thesis
  proof (cases "mid = [] \<or> adr = [] \<or> rfc_AmountZat req \<le> 0 \<or> \<not> has_key mid (merchants s) \<or> refund_check s mid iid \<noteq> None")
    case True
    then have "\<exists>e. CreateRefund req s = (Inl e, s)"
      by (auto simp: d)
    then show thesis using error by blast
  next
    case False
    then have chk: "refund_check s mid iid = None" by simp
    have "CreateRefund req s = (Inr r,
        (case rf_InvoiceID r of None \<Rightarrow> (\<lambda>u. u) | Some iid \<Rightarrow> appendInvoiceEventLocked iid
          (if rf_Status r = RefundSent then InvoiceEventRefundSent else InvoiceEventRefundRequested)
          (rf_CreatedAt r) None (Some r))
        (s\<lparr>refundSeq := Suc (refundSeq s), env_ticks := Suc (env_ticks s),
           refunds := refunds s @ [\<lparr>rr_Seq = Suc (refundSeq s), rr_Refund = r\<rparr>]\<rparr>))"
      using False
      by (cases "opt_of iid"; cases "opt_of (TrimSpace (rfc_SentTxID req))")
        (simp_all add: d r_def ticked_def time_Now_def)
    then show thesis
      using False chk
      by (intro new [of r]) (auto simp: r_def opt_of_def refund_check_def statics_def split: if_splits option.splits)
  qed
qed

lemma CreateRefund_base [inv_intros]:
  assumes "base_inv s"
  shows "base_inv (snd (CreateRefund req s))"
proof (cases rule: CreateRefund_cases [of req s])
  case (error e)
  with assms show ?thesis by simp
next
  case (new r)
  let ?t = "s\<lparr>refundSeq := Suc (refundSeq s), env_ticks := Suc (env_ticks s),
           refunds := refunds s @ [\<lparr>rr_Seq = Suc (refundSeq s), rr_Refund = r\<rparr>]\<rparr>"
  have f: "same_merchants s ?t" "same_events s ?t" "same_reviews s ?t" "same_invoices s ?t"
    by (simp_all add: same_merchants_def same_events_def same_reviews_def same_invoices_def)
  have k: "keeps_merchants s ?t" "keeps_invoices s ?t"
    by (simp_all add: keeps_merchants_eq keeps_invoices_eq)
  have "refund_inv ?t"
    by (rule refund_inv_add [OF base_invD(5) [OF assms] new(2-6) _ refl]) (use new(7) in blast)
  then have "base_inv ?t"
    using base_invD [OF assms] f k
    by (simp add: base_inv_def same_merchants_inv [of s ?t] same_reviews_inv [of s ?t]
        event_inv_frame [of s ?t] invoice_inv_frame [of s ?t])
  moreover have "statics ?t = statics s" by (simp add: statics_def fun_eq_iff)
  ultimately show ?thesis
    using new(7) unfolding new(1) by (auto intro!: append_base split: option.split)
qed

end

