(* ===== verification/DepositStore.thy ===== *)
theory DepositStore
  imports InvoiceStore ScanTypes
begin

text \<open>
  Deposits and the accounting of invoices (\<open>mem.go\<close>): applying a scanner event, confirming
  deposits against the height of the chain, recomputing the amounts and the status of an
  invoice from its deposits, with the events and review cases a change of status raises.
\<close>

section \<open>The status of an invoice\<close>

text \<open>\<open>now.After(inv.ExpiresAt.UTC())\<close>, for a nil \<open>ExpiresAt\<close> false.\<close>

definition expired_at :: "Invoice \<Rightarrow> time \<Rightarrow> bool" where
  "expired_at iv now \<longleftrightarrow> (case inv_ExpiresAt iv of None \<Rightarrow> False | Some t \<Rightarrow> now > t)"

definition computeInvoiceStatus :: "Invoice \<Rightarrow> time \<Rightarrow> InvoiceStatus" where
  "computeInvoiceStatus iv now =
     (let expired = expired_at iv now;
          total = wrap64 (inv_ReceivedPendingZat iv + inv_ReceivedConfirmedZat iv) in
      if total = 0 \<and> expired then InvoiceExpired
      else if total = 0 then InvoiceOpen
      else if inv_ReceivedConfirmedZat iv > inv_AmountZat iv then InvoiceOverpaid
      else if inv_ReceivedConfirmedZat iv = inv_AmountZat iv then
        (if expired \<and> pol_LatePayment (inv_Policies iv) = LatePaymentMarkPaidLate then InvoicePaidLate
         else InvoiceConfirmed)
      else if total \<ge> inv_AmountZat iv then InvoicePending
      else if inv_ReceivedConfirmedZat iv > 0 then InvoicePartialConfirmed
      else InvoicePartialPending)"

text \<open>One iteration of the loop over the deposits, on the pair \<open>(pending, confirmed)\<close>.\<close>

definition add_deposit :: "string \<Rightarrow> int64 \<times> int64 \<Rightarrow> depositRecord \<Rightarrow> int64 \<times> int64" where
  "add_deposit invoiceID acc d =
     (let (pending, confirmed) = acc in
      if d_InvoiceID d \<noteq> invoiceID then acc
      else (case d_Status d of
          DepositConfirmed \<Rightarrow> (pending, wrap64 (confirmed + d_AmountZat d))
        | DepositDetected \<Rightarrow> (wrap64 (pending + d_AmountZat d), confirmed)
        | DepositUnconfirmed \<Rightarrow> (wrap64 (pending + d_AmountZat d), confirmed)
        | DepositOrphaned \<Rightarrow> acc))"

definition status_event :: "string \<Rightarrow> InvoiceStatus \<Rightarrow> time \<Rightarrow> MemStore \<Rightarrow> MemStore" where
  "status_event invoiceID status now s =
     (case status of
        InvoiceExpired \<Rightarrow> appendInvoiceEventLocked invoiceID InvoiceEventInvoiceExpired now None None s
      | InvoiceConfirmed \<Rightarrow> appendInvoiceEventLocked invoiceID InvoiceEventInvoicePaid now None None s
      | InvoicePaidLate \<Rightarrow> appendInvoiceEventLocked invoiceID InvoiceEventInvoicePaid now None None s
      | InvoiceOverpaid \<Rightarrow> appendInvoiceEventLocked invoiceID InvoiceEventInvoiceOverpaid now None None s
      | _ \<Rightarrow> s)"

definition status_review :: "Invoice \<Rightarrow> string \<Rightarrow> time \<Rightarrow> MemStore \<Rightarrow> MemStore" where
  "status_review iv invoiceID now s =
     (if inv_Status iv = InvoicePartialConfirmed \<and>
         pol_PartialPayment (inv_Policies iv) = PartialPaymentReject then
        createReviewCaseLocked (inv_MerchantID iv) (Some invoiceID) ReviewPartialPayment
          ''partial payment requires review'' [] [] 0 s
      else if inv_Status iv = InvoiceOverpaid \<and>
         pol_Overpayment (inv_Policies iv) = OverpaymentManualReview then
        createReviewCaseLocked (inv_MerchantID iv) (Some invoiceID) ReviewOverpayment
          ''overpayment requires review'' [] [] 0 s
      else if inv_Status iv = InvoiceConfirmed \<or> inv_Status iv = InvoicePaidLate then
        (if expired_at iv now \<and> inv_ReceivedConfirmedZat iv = inv_AmountZat iv \<and>
            pol_LatePayment (inv_Policies iv) = LatePaymentManualReview then
           createReviewCaseLocked (inv_MerchantID iv) (Some invoiceID) ReviewLatePayment
             ''late payment requires review'' [] [] 0 s
         else s)
      else s)"

definition recomputeInvoiceLocked :: "string \<Rightarrow> MemStore \<Rightarrow> MemStore" where
  "recomputeInvoiceLocked invoiceID s =
     (case map_of (invoices s) invoiceID of
        None \<Rightarrow> s
      | Some iv0 \<Rightarrow>
          (let (pending, confirmed) =
                 foldl (add_deposit invoiceID) (0, 0) (map snd (ranged s (deposits s)));
               iv = iv0\<lparr>inv_ReceivedPendingZat := pending, inv_ReceivedConfirmedZat := confirmed\<rparr>;
               prevStatus = inv_Status iv;
               now = time_Now s;
               s = ticked s;
               iv = iv\<lparr>inv_Status := computeInvoiceStatus iv now, inv_UpdatedAt := now\<rparr>;
               s = s\<lparr>invoices := mput invoiceID iv (invoices s)\<rparr>
           in if inv_Status iv \<noteq> prevStatus then
                status_review iv invoiceID now (status_event invoiceID (inv_Status iv) now s)
              else s))"

section \<open>Applying a deposit\<close>

definition deposit_key :: "string \<Rightarrow> string \<Rightarrow> int32 \<Rightarrow> string" where
  "deposit_key walletID txid actionIndex = walletID @ ''|'' @ txid @ ''|'' @ FormatInt actionIndex"

text \<open>The invoice the deposit's address belongs to, if it was created below the deposit's
  height, else the empty string; a dangling id reads as the zero invoice.\<close>

definition match_invoice :: "MemStore \<Rightarrow> string \<Rightarrow> string \<Rightarrow> int64 \<Rightarrow> string" where
  "match_invoice s walletID addr height =
     (case map_of (invoiceByAddress s) (address_key walletID addr) of
        None \<Rightarrow> []
      | Some invID \<Rightarrow>
          if (case map_of (invoices s) invID of
              None \<Rightarrow> height > 0 | Some iv \<Rightarrow> CanApplyDeposit iv height)
          then invID else [])"

text \<open>The record of a known deposit after the event.\<close>

definition merge_deposit :: "depositRecord \<Rightarrow> string \<Rightarrow> int64 \<Rightarrow> int64 \<Rightarrow> DepositStatus \<Rightarrow>
    int64 option \<Rightarrow> string \<Rightarrow> time \<Rightarrow> depositRecord" where
  "merge_deposit rec addr amountZat height status confirmedHeight invoiceID now =
     (let rec = rec\<lparr>d_RecipientAddress := addr, d_AmountZat := amountZat, d_Height := height\<rparr>;
          nextStatus = (if d_Status rec = DepositConfirmed \<and> status = DepositDetected
                        then d_Status rec else status);
          rec = rec\<lparr>d_Status := nextStatus\<rparr>;
          rec = (case status of
              DepositConfirmed \<Rightarrow> rec\<lparr>d_ConfirmedHeight := confirmedHeight\<rparr>
            | DepositUnconfirmed \<Rightarrow> rec\<lparr>d_ConfirmedHeight := None\<rparr>
            | DepositOrphaned \<Rightarrow> rec\<lparr>d_ConfirmedHeight := None\<rparr>
            | DepositDetected \<Rightarrow>
                if nextStatus \<noteq> DepositConfirmed then rec\<lparr>d_ConfirmedHeight := None\<rparr> else rec);
          rec = rec\<lparr>d_UpdatedAt := now\<rparr>
      in if d_InvoiceID rec = [] \<and> invoiceID \<noteq> [] then rec\<lparr>d_InvoiceID := invoiceID\<rparr> else rec)"

definition unknown_notes :: "string \<Rightarrow> string \<Rightarrow> int32 \<Rightarrow> string \<Rightarrow> int64 \<Rightarrow> int64 \<Rightarrow> string" where
  "unknown_notes walletID txid actionIndex addr amountZat height =
     ''wallet_id='' @ walletID @ '' txid='' @ txid @ '' action_index='' @ FormatInt actionIndex @
     '' recipient_address='' @ addr @ '' amount_zat='' @ FormatInt amountZat @
     '' height='' @ FormatInt height"

text \<open>The merchant of the first wallet the loop meets with the deposit's wallet id.\<close>

definition wallet_merchant :: "MemStore \<Rightarrow> string \<Rightarrow> string" where
  "wallet_merchant s walletID =
     (case find (\<lambda>w. mw_WalletID w = walletID) (map snd (ranged s (merchantWallet s))) of
        None \<Rightarrow> [] | Some w \<Rightarrow> mw_MerchantID w)"

definition deposit_event :: "string \<Rightarrow> DepositStatus \<Rightarrow> time \<Rightarrow> DepositRef \<Rightarrow> MemStore \<Rightarrow> MemStore" where
  "deposit_event invoiceID status occurredAt depRef s =
     (case status of
        DepositDetected \<Rightarrow>
          appendInvoiceEventLocked invoiceID InvoiceEventDepositDetected occurredAt (Some depRef) None s
      | DepositConfirmed \<Rightarrow>
          appendInvoiceEventLocked invoiceID InvoiceEventDepositConfirmed occurredAt (Some depRef) None s
      | _ \<Rightarrow> s)"

definition applyDepositLocked :: "ScanEvent \<Rightarrow> string \<Rightarrow> string \<Rightarrow> int32 \<Rightarrow> string \<Rightarrow> uint64 \<Rightarrow>
    int64 \<Rightarrow> DepositStatus \<Rightarrow> int64 option \<Rightarrow> MemStore \<Rightarrow> MemStore" where
  "applyDepositLocked ev walletID0 txid actionIndex recipientAddress amountZatoshis height status
      confirmedHeight0 s =
     (let walletID = (if walletID0 = [] then se_WalletID ev else walletID0) in
      if recipientAddress = [] then s
      else
        (let now = time_Now s; s = ticked s in
         if amountZatoshis > 2 ^ 63 - 1 then s
         else
           (let amountZat = int amountZatoshis;
                addr = ToLower (TrimSpace recipientAddress);
                invoiceID = match_invoice s walletID addr height;
                depKey = deposit_key walletID txid actionIndex;
                (rec, s) = (case map_of (deposits s) depKey of
                    None \<Rightarrow>
                      (let s = s\<lparr>depositSeq := depositSeq s + 1\<rparr>;
                           detectedAt = (if IsZero (se_OccurredAt ev) then now else se_OccurredAt ev);
                           confirmedHeight = (if status = DepositUnconfirmed \<or> status = DepositOrphaned
                                              then None else confirmedHeight0)
                       in (\<lparr>d_Seq = depositSeq s, d_WalletID = walletID, d_TxID = txid,
                            d_ActionIndex = actionIndex, d_RecipientAddress = addr,
                            d_AmountZat = amountZat, d_Height = height, d_Status = status,
                            d_ConfirmedHeight = confirmedHeight, d_InvoiceID = invoiceID,
                            d_DetectedAt = detectedAt, d_UpdatedAt = now\<rparr>, s))
                  | Some rec \<Rightarrow>
                      (merge_deposit rec addr amountZat height status confirmedHeight0 invoiceID now, s));
                s = s\<lparr>deposits := mput depKey rec (deposits s)\<rparr>
            in if d_InvoiceID rec = [] then
                 (let merchantID = wallet_merchant s walletID in
                  if merchantID \<noteq> [] then
                    createReviewCaseLocked merchantID None ReviewUnknownAddress
                      (unknown_notes walletID txid actionIndex addr amountZat height)
                      walletID txid actionIndex s
                  else s)
               else
                 recomputeInvoiceLocked (d_InvoiceID rec)
                   (deposit_event (d_InvoiceID rec) status (se_OccurredAt ev)
                     \<lparr>dref_WalletID = walletID, dref_TxID = txid, dref_ActionIndex = actionIndex,
                      dref_AmountZat = amountZat, dref_Height = height\<rparr> s))))"

section \<open>The scanner operations\<close>

definition scan_cursor :: "MemStore \<Rightarrow> string \<Rightarrow> int64" where
  "scan_cursor s walletID = (case map_of (scanCursor s) walletID of None \<Rightarrow> 0 | Some c \<Rightarrow> c)"

definition ScanCursor :: "string \<Rightarrow> (int64, MemStore) act" where
  "ScanCursor walletID0 s =
     (let walletID = TrimSpace walletID0 in
      if walletID = [] then (Inl (invalid_argument ''wallet_id is required''), s)
      else (Inr (scan_cursor s walletID), s))"

text \<open>\<open>int32(p.ActionIndex)\<close> wraps. The payload of a kind the store ignores is not read; the
  text of a decoding error is the JSON library's.\<close>

definition apply_payload :: "ScanEvent \<Rightarrow> DepositStatus \<Rightarrow> 'z DepositEventPayload_scheme \<Rightarrow> MemStore \<Rightarrow> MemStore" where
  "apply_payload ev status p s =
     applyDepositLocked ev (de_WalletID p) (de_TxID p) (wrap32 (int (de_ActionIndex p)))
       (de_RecipientAddress p) (de_AmountZatoshis p) (de_Height p) status None s"

definition json_error :: store_error where
  "json_error = OtherError ''json''"

definition apply_kind :: "ScanEvent \<Rightarrow> MemStore \<Rightarrow> store_error + MemStore" where
  "apply_kind ev s =
     (if se_Kind ev = ''DepositEvent'' then
        (case unmarshal DepositEventPayload_fields zero_DepositEventPayload (se_Payload ev) of
           None \<Rightarrow> Inl json_error | Some p \<Rightarrow> Inr (apply_payload ev DepositDetected p s))
      else if se_Kind ev = ''DepositConfirmed'' then
        (case unmarshal DepositConfirmedPayload_fields zero_DepositConfirmedPayload (se_Payload ev) of
           None \<Rightarrow> Inl json_error | Some p \<Rightarrow> Inr (apply_payload ev DepositDetected p s))
      else if se_Kind ev = ''DepositUnconfirmed'' then
        (case unmarshal DepositUnconfirmedPayload_fields zero_DepositUnconfirmedPayload (se_Payload ev) of
           None \<Rightarrow> Inl json_error | Some p \<Rightarrow> Inr (apply_payload ev DepositUnconfirmed p s))
      else if se_Kind ev = ''DepositOrphaned'' then
        (case unmarshal DepositOrphanedPayload_fields zero_DepositOrphanedPayload (se_Payload ev) of
           None \<Rightarrow> Inl json_error | Some p \<Rightarrow> Inr (apply_payload ev DepositOrphaned p s))
      else Inr s)"

definition ApplyScanEvent :: "ScanEvent \<Rightarrow> (unit, MemStore) act" where
  "ApplyScanEvent ev0 s =
     (let ev = ev0\<lparr>se_WalletID := TrimSpace (se_WalletID ev0), se_Kind := TrimSpace (se_Kind ev0)\<rparr> in
      if se_WalletID ev = [] then (Inl (invalid_argument ''wallet_id is required''), s)
      else if se_Cursor ev \<le> 0 then (Inl (invalid_argument ''cursor must be > 0''), s)
      else if se_Cursor ev \<le> scan_cursor s (se_WalletID ev) then (Inr (), s)
      else (case apply_kind ev s of
          Inl e \<Rightarrow> (Inl e, s)
        | Inr s \<Rightarrow>
            (let s = s\<lparr>scanCursor := mput (se_WalletID ev) (se_Cursor ev) (scanCursor s)\<rparr>;
                 (t, s) = (if IsZero (se_OccurredAt ev) then (time_Now s, ticked s)
                           else (se_OccurredAt ev, s))
             in (Inr (), s\<lparr>scanLastEventAt := mput (se_WalletID ev) t (scanLastEventAt s)\<rparr>))))"

definition required_confs :: "Invoice \<Rightarrow> int64" where
  "required_confs iv = (if inv_RequiredConfirmations iv \<le> 0 then 1 else inv_RequiredConfirmations iv)"

text \<open>One iteration of the confirmation loop, on the store and the set of affected
  invoices. The loop overwrites only the entry it is at, so it visits the entries the map
  had when it started.\<close>

definition confirm_deposit :: "int64 \<Rightarrow> time \<Rightarrow> MemStore \<times> unit gomap \<Rightarrow> string \<times> depositRecord
    \<Rightarrow> MemStore \<times> unit gomap" where
  "confirm_deposit bestHeight now acc kd =
     (let (s, affected) = acc; (k, d) = kd in
      if d_InvoiceID d = [] \<or> d_Status d \<noteq> DepositDetected then acc
      else (case map_of (invoices s) (d_InvoiceID d) of
          None \<Rightarrow> acc
        | Some iv \<Rightarrow>
            (let required = required_confs iv;
                 confs = wrap64 (bestHeight - d_Height d + 1) in
             if confs < required then acc
             else
               (let ch = wrap64 (d_Height d + required - 1);
                    d' = d\<lparr>d_Status := DepositConfirmed, d_ConfirmedHeight := Some ch,
                           d_UpdatedAt := now\<rparr>;
                    s = s\<lparr>deposits := mput k d' (deposits s)\<rparr>;
                    depRef = \<lparr>dref_WalletID = d_WalletID d', dref_TxID = d_TxID d',
                       dref_ActionIndex = d_ActionIndex d', dref_AmountZat = d_AmountZat d',
                       dref_Height = d_Height d'\<rparr>
                in (appendInvoiceEventLocked (d_InvoiceID d') InvoiceEventDepositConfirmed now
                      (Some depRef) None s, mput (d_InvoiceID d') () affected)))))"

definition UpdateInvoiceConfirmations :: "int64 \<Rightarrow> (unit, MemStore) act" where
  "UpdateInvoiceConfirmations bestHeight s =
     (let now = time_Now s;
          s = ticked s;
          (s', affected) = foldl (confirm_deposit bestHeight now) (s, []) (ranged s (deposits s));
          s' = ticked s'
      in (Inr (), foldl (\<lambda>s invoiceID. recomputeInvoiceLocked invoiceID s) s' (map fst (ranged s' affected))))"

definition ScannerStatus :: "(int64 \<times> time option, MemStore) act" where
  "ScannerStatus s =
     (let lastCursor = foldl (\<lambda>m cur. if cur > m then cur else m) 0 (map snd (ranged s (scanCursor s)));
          mx = foldl (\<lambda>m t. if IsZero t then m else if IsZero m \<or> t > m then t else m) 0
                 (map snd (ranged s (scanLastEventAt s)))
      in (Inr (lastCursor, if IsZero mx then None else Some mx), ticked s))"

section \<open>Listing deposits\<close>

definition deposit_view :: "depositRecord \<Rightarrow> Deposit" where
  "deposit_view d = \<lparr>dp_WalletID = d_WalletID d, dp_TxID = d_TxID d, dp_ActionIndex = d_ActionIndex d,
     dp_RecipientAddress = d_RecipientAddress d, dp_AmountZat = d_AmountZat d, dp_Height = d_Height d,
     dp_Status = d_Status d, dp_ConfirmedHeight = d_ConfirmedHeight d,
     dp_InvoiceID = opt_of (d_InvoiceID d), dp_DetectedAt = d_DetectedAt d,
     dp_UpdatedAt = d_UpdatedAt d\<rparr>"

definition wallet_to_merchant :: "MemStore \<Rightarrow> string gomap" where
  "wallet_to_merchant s =
     foldl (\<lambda>m w. mput (mw_WalletID w) (mw_MerchantID w) m) [] (map snd (ranged s (merchantWallet s)))"

definition deposit_match :: "string gomap \<Rightarrow> string \<Rightarrow> string \<Rightarrow> string \<Rightarrow> depositRecord \<Rightarrow> bool" where
  "deposit_match walletToMerchant merchantID invoiceID txID d \<longleftrightarrow>
     (txID \<noteq> [] \<longrightarrow> d_TxID d = txID) \<and>
     (invoiceID \<noteq> [] \<longrightarrow> d_InvoiceID d = invoiceID) \<and>
     (merchantID \<noteq> [] \<longrightarrow> map_of walletToMerchant (d_WalletID d) = Some merchantID)"

definition ListDeposits :: "DepositFilter \<Rightarrow> (Deposit list \<times> int64, MemStore) act" where
  "ListDeposits f s =
     (let afterID = (if df_AfterID f < 0 then 0 else df_AfterID f);
          limit = norm_limit (df_Limit f);
          w2m = wallet_to_merchant s;
          s = ticked s;
          recs = filter (\<lambda>d. \<not> (afterID > 0 \<and> int (d_Seq d) \<le> afterID) \<and>
              deposit_match w2m (TrimSpace (df_MerchantID f)) (TrimSpace (df_InvoiceID f))
                (TrimSpace (df_TxID f)) d) (map snd (ranged s (deposits s)));
          (rs, next) = page (\<lambda>d. int (d_Seq d)) (\<lambda>_. True) limit [] 0 (sort_key d_Seq recs)
      in (Inr (map deposit_view rs, next), ticked s))"

section \<open>The invariants\<close>

text \<open>Deposits: the keys are those of the records, sequence numbers are distinct, amounts are
  what an \<open>int64\<close> holds, attribution is to an existing invoice, and a confirmed deposit is
  attributed, has its confirmation height, and its event is in the log of its invoice.\<close>

type_synonym event_id = "InvoiceEventType \<times> (string \<times> string \<times> int32) option \<times> string option"

definition has_event :: "MemStore \<Rightarrow> string \<Rightarrow> event_id \<Rightarrow> bool" where
  "has_event s iid key \<longleftrightarrow> (\<exists>e \<in> set (events_of s iid). event_key e = key)"

definition deposit_ok :: "MemStore \<Rightarrow> string \<Rightarrow> depositRecord \<Rightarrow> bool" where
  "deposit_ok s k d \<longleftrightarrow> k = deposit_key (d_WalletID d) (d_TxID d) (d_ActionIndex d) \<and>
     0 < d_Seq d \<and> d_Seq d \<le> depositSeq s \<and> 0 \<le> d_AmountZat d \<and> in_int64 (d_AmountZat d) \<and>
     (d_InvoiceID d \<noteq> [] \<longrightarrow> statics s (d_InvoiceID d) \<noteq> None) \<and>
     (d_Status d = DepositConfirmed \<longleftrightarrow> d_ConfirmedHeight d \<noteq> None) \<and>
     (d_Status d = DepositConfirmed \<longrightarrow> d_InvoiceID d \<noteq> [] \<and> has_event s (d_InvoiceID d)
        (InvoiceEventDepositConfirmed, Some (d_WalletID d, d_TxID d, d_ActionIndex d), None))"

definition deposit_inv :: "MemStore \<Rightarrow> bool" where
  "deposit_inv s \<longleftrightarrow> wf_map (deposits s) \<and>
     (\<forall>k d. map_of (deposits s) k = Some d \<longrightarrow> deposit_ok s k d) \<and>
     (\<forall>k d k' d'. map_of (deposits s) k = Some d \<longrightarrow> map_of (deposits s) k' = Some d' \<longrightarrow>
        d_Seq d = d_Seq d' \<longrightarrow> k = k')"

text \<open>The accounting: the two amounts of an invoice are the (wrapped) sums over its deposits,
  and its status is that of the amounts at its last update; without deposits it is open.
  \<open>X\<close> holds the invoices an operation has yet to recompute.\<close>

definition deposit_share :: "string \<Rightarrow> DepositStatus set \<Rightarrow> depositRecord \<Rightarrow> int" where
  "deposit_share iid sts d = (if d_InvoiceID d = iid \<and> d_Status d \<in> sts then d_AmountZat d else 0)"

definition received :: "MemStore \<Rightarrow> string \<Rightarrow> DepositStatus set \<Rightarrow> int" where
  "received s iid sts = sum_list (map (\<lambda>p. deposit_share iid sts (snd p)) (deposits s))"

definition owned :: "MemStore \<Rightarrow> string \<Rightarrow> bool" where
  "owned s iid \<longleftrightarrow> (\<exists>k d. map_of (deposits s) k = Some d \<and> d_InvoiceID d = iid)"

definition acct_ok :: "MemStore \<Rightarrow> string \<Rightarrow> Invoice \<Rightarrow> bool" where
  "acct_ok s iid iv \<longleftrightarrow>
     inv_ReceivedPendingZat iv = wrap64 (received s iid {DepositDetected, DepositUnconfirmed}) \<and>
     inv_ReceivedConfirmedZat iv = wrap64 (received s iid {DepositConfirmed}) \<and>
     inv_Status iv = (if owned s iid then computeInvoiceStatus iv (inv_UpdatedAt iv) else InvoiceOpen)"

definition acct_inv :: "string set \<Rightarrow> MemStore \<Rightarrow> bool" where
  "acct_inv X s \<longleftrightarrow> (\<forall>iid iv. map_of (invoices s) iid = Some iv \<longrightarrow> iid \<notin> X \<longrightarrow> acct_ok s iid iv)"

text \<open>What a status tells the world: its event is in the log, and a case is in the review
  queue where the policies of the invoice ask for one.\<close>

fun status_type :: "InvoiceStatus \<Rightarrow> InvoiceEventType option" where
  "status_type InvoiceExpired = Some InvoiceEventInvoiceExpired"
| "status_type InvoiceConfirmed = Some InvoiceEventInvoicePaid"
| "status_type InvoicePaidLate = Some InvoiceEventInvoicePaid"
| "status_type InvoiceOverpaid = Some InvoiceEventInvoiceOverpaid"
| "status_type _ = None"

definition manual_reason :: "Invoice \<Rightarrow> ReviewReason option" where
  "manual_reason iv =
     (if inv_Status iv = InvoicePartialConfirmed \<and> pol_PartialPayment (inv_Policies iv) = PartialPaymentReject
      then Some ReviewPartialPayment
      else if inv_Status iv = InvoiceOverpaid \<and> pol_Overpayment (inv_Policies iv) = OverpaymentManualReview
      then Some ReviewOverpayment else None)"

definition told_ok :: "MemStore \<Rightarrow> string \<Rightarrow> Invoice \<Rightarrow> bool" where
  "told_ok s iid iv \<longleftrightarrow> has_event s iid (InvoiceEventInvoiceCreated, None, None) \<and>
     (\<forall>ty. status_type (inv_Status iv) = Some ty \<longrightarrow> has_event s iid (ty, None, None)) \<and>
     (\<forall>r. manual_reason iv = Some r \<longrightarrow> reviewed s (inv_MerchantID iv) iid r)"

definition told_inv :: "MemStore \<Rightarrow> bool" where
  "told_inv s \<longleftrightarrow> (\<forall>iid iv. map_of (invoices s) iid = Some iv \<longrightarrow> told_ok s iid iv)"

definition scan_inv :: "MemStore \<Rightarrow> bool" where
  "scan_inv s \<longleftrightarrow> wf_map (scanCursor s) \<and> wf_map (scanLastEventAt s) \<and>
     (\<forall>w. has_key w (scanLastEventAt s) \<longleftrightarrow> has_key w (scanCursor s)) \<and>
     (\<forall>w c. map_of (scanCursor s) w = Some c \<longrightarrow> w \<noteq> [] \<and> 0 < c)"

section \<open>Frames\<close>

definition events_grow :: "MemStore \<Rightarrow> MemStore \<Rightarrow> bool" where
  "events_grow s t \<longleftrightarrow> (\<forall>iid. \<exists>new. events_of t iid = events_of s iid @ new)"

lemma events_grow_refl [simp]: "events_grow s s" "events_grow s (ticked s)"
  by (simp_all add: events_grow_def events_of_def)

lemma events_grow_same: "same_events s t \<Longrightarrow> events_grow s t"
  by (simp add: same_events_def events_grow_def events_of_def)

lemma events_grow_trans [trans]: "events_grow s t \<Longrightarrow> events_grow t u \<Longrightarrow> events_grow s u"
  unfolding events_grow_def by (metis append.assoc)

lemma events_grow_append [simp]: "events_grow s (appendInvoiceEventLocked iid typ t dep ref s)"
  unfolding events_grow_def by (auto intro: append_prefix)

lemma has_event_grow: "events_grow s t \<Longrightarrow> has_event s iid key \<Longrightarrow> has_event t iid key"
  unfolding events_grow_def has_event_def by (metis UnCI set_append)

lemma has_event_append:
  "iid \<noteq> [] \<Longrightarrow> log_inv s \<Longrightarrow> dep = None \<or> ref = None \<Longrightarrow>
   has_event (appendInvoiceEventLocked iid typ t dep ref s) iid
     (typ, map_option (\<lambda>d. (dref_WalletID d, dref_TxID d, dref_ActionIndex d)) dep, map_option rf_RefundID ref)"
  unfolding has_event_def by (rule append_logged)

lemma reviews_grow_refl [simp]: "reviews_grow s s" "reviews_grow s (ticked s)"
  by (simp_all add: reviews_grow_same)

lemma reviews_grow_trans [trans]: "reviews_grow s t \<Longrightarrow> reviews_grow t u \<Longrightarrow> reviews_grow s u"
  by (simp add: reviews_grow_def)

lemma deposit_inv_frame:
  assumes "deposit_inv s" "deposits t = deposits s" "depositSeq t = depositSeq s" "keeps_invoices s t" "events_grow s t"
  shows "deposit_inv t"
proof -
  have "deposit_ok s k d \<Longrightarrow> deposit_ok t k d" for k d
    using assms(3) has_event_grow [OF assms(5)] assms(4)
    by (auto simp: deposit_ok_def keeps_invoices_def)
  with assms(1) show ?thesis unfolding deposit_inv_def assms(2) by blast
qed

lemma acct_ok_cong: "deposits t = deposits s \<Longrightarrow> acct_ok t iid iv \<longleftrightarrow> acct_ok s iid iv"
  by (simp add: acct_ok_def received_def owned_def)

lemma acct_inv_frame: "acct_inv X s \<Longrightarrow> deposits t = deposits s \<Longrightarrow> invoices t = invoices s \<Longrightarrow> acct_inv X t"
  by (simp add: acct_inv_def acct_ok_cong [of t s])

lemma told_ok_grow:
  "told_ok s iid iv \<Longrightarrow> events_grow s t \<Longrightarrow> reviews_grow s t \<Longrightarrow> told_ok t iid iv"
  using has_event_grow [of s t iid] by (auto simp: told_ok_def reviews_grow_def)

lemma told_inv_frame:
  "told_inv s \<Longrightarrow> events_grow s t \<Longrightarrow> reviews_grow s t \<Longrightarrow> invoices t = invoices s \<Longrightarrow> told_inv t"
  using told_ok_grow [of s _ _ t] by (simp add: told_inv_def)

lemma scan_inv_frame:
  "scan_inv s \<Longrightarrow> scanCursor t = scanCursor s \<Longrightarrow> scanLastEventAt t = scanLastEventAt s \<Longrightarrow> scan_inv t"
  by (simp add: scan_inv_def)

text \<open>The invariant of the whole store, but for the accounting of the invoices in \<open>X\<close>.\<close>

definition mem_inv :: "string set \<Rightarrow> MemStore \<Rightarrow> bool" where
  "mem_inv X s \<longleftrightarrow> base_inv s \<and> deposit_inv s \<and> acct_inv X s \<and> told_inv s \<and> scan_inv s"

lemma mem_invD:
  assumes "mem_inv X s"
  shows "base_inv s" "deposit_inv s" "acct_inv X s" "told_inv s" "scan_inv s"
    "merchant_inv s" "review_inv s" "invoice_inv s" "event_inv s" "refund_inv s"
    "log_inv s" "outbox_inv s" "sink_inv s" "delivery_inv s"
  using assms by (simp_all add: mem_inv_def base_inv_def event_inv_def)

lemma mem_inv_NewMem: "mem_inv {} (NewMem clock prio)"
  by (simp add: mem_inv_def base_inv_NewMem deposit_inv_def acct_inv_def told_inv_def scan_inv_def NewMem_def [of clock prio])
    (simp add: NewMem_def [of clock prio, symmetric] base_inv_NewMem)

lemma mem_inv_mono: "mem_inv X s \<Longrightarrow> X \<subseteq> Y \<Longrightarrow> mem_inv Y s"
  by (auto simp: mem_inv_def acct_inv_def)

text \<open>An operation that leaves the deposits, the invoices and the scan cursors alone.\<close>

lemma mem_inv_frame:
  assumes "mem_inv X s" "base_inv t" "deposits t = deposits s" "depositSeq t = depositSeq s"
    "invoices t = invoices s" "events_grow s t" "reviews_grow s t"
    "scanCursor t = scanCursor s" "scanLastEventAt t = scanLastEventAt s"
  shows "mem_inv X t"
  using mem_invD(1-5) [OF assms(1)] assms(2-)
  by (simp add: mem_inv_def deposit_inv_frame [of s t] acct_inv_frame [of X s t] told_inv_frame [of s t]
      scan_inv_frame [of s t] keeps_invoices_eq)

lemma mem_inv_ticked [simp]: "mem_inv X s \<Longrightarrow> mem_inv X (ticked s)"
  by (rule mem_inv_frame [of X s]) (simp_all add: mem_invD)

lemma append_mem [inv_intros]:
  "mem_inv X s \<Longrightarrow> iid = [] \<or> statics s iid \<noteq> None \<Longrightarrow> dep = None \<or> ref = None \<Longrightarrow>
   mem_inv X (appendInvoiceEventLocked iid typ t dep ref s)"
  by (rule mem_inv_frame [of X s]) (simp_all add: append_base mem_invD reviews_grow_same same_reviews_def)

lemma review_mem [inv_intros]: "mem_inv X s \<Longrightarrow> mem_inv X (createReviewCaseLocked m i r n w x a s)"
  by (rule mem_inv_frame [of X s])
    (simp_all add: review_base mem_invD createReviewCaseLocked_grow events_grow_same same_events_def)

section \<open>Recomputing an invoice\<close>

lemma add_deposits:
  assumes "in_int64 p" "in_int64 c"
  shows "foldl (add_deposit iid) (p, c) ds =
    (wrap64 (p + sum_list (map (deposit_share iid {DepositDetected, DepositUnconfirmed}) ds)),
     wrap64 (c + sum_list (map (deposit_share iid {DepositConfirmed}) ds)))"
  using assms
proof (induction ds arbitrary: p c)
  case (Cons d ds)
  obtain p' c' where pc: "add_deposit iid (p, c) d = (p', c')" by fastforce
  then have "p' = wrap64 (p + deposit_share iid {DepositDetected, DepositUnconfirmed} d)"
    "c' = wrap64 (c + deposit_share iid {DepositConfirmed} d)"
    using Cons.prems by (cases "d_Status d"; auto simp: add_deposit_def deposit_share_def split: if_splits)+
  with Cons.IH [of p' c'] pc show ?case by (simp add: add.assoc)
qed simp

lemma received_fold:
  "foldl (add_deposit iid) (0, 0) (map snd (ranged s (deposits s))) =
     (wrap64 (received s iid {DepositDetected, DepositUnconfirmed}), wrap64 (received s iid {DepositConfirmed}))"
proof -
  have "sum_list (map (deposit_share iid sts) (map snd (ranged s (deposits s)))) = received s iid sts" for sts
    using sum_range_map [of "\<lambda>p. deposit_share iid sts (snd p)" _ "deposits s"]
    by (simp add: received_def ranged_def comp_def)
  then show ?thesis by (subst add_deposits) (simp_all add: in_int64_def)
qed

text \<open>The invoice after recomputation.\<close>

definition recomputed :: "MemStore \<Rightarrow> string \<Rightarrow> Invoice \<Rightarrow> Invoice" where
  "recomputed s iid iv0 =
     (let iv = iv0\<lparr>inv_ReceivedPendingZat := wrap64 (received s iid {DepositDetected, DepositUnconfirmed}),
                   inv_ReceivedConfirmedZat := wrap64 (received s iid {DepositConfirmed})\<rparr>
      in iv\<lparr>inv_Status := computeInvoiceStatus iv (time_Now s), inv_UpdatedAt := time_Now s\<rparr>)"

lemma recomputeInvoiceLocked_eq:
  assumes "map_of (invoices s) iid = Some iv0"
  shows "recomputeInvoiceLocked iid s =
    (let iv = recomputed s iid iv0;
         u = (ticked s)\<lparr>invoices := mput iid iv (invoices s)\<rparr>
     in if inv_Status iv \<noteq> inv_Status iv0
        then status_review iv iid (time_Now s) (status_event iid (inv_Status iv) (time_Now s) u) else u)"
  using assms by (simp add: recomputeInvoiceLocked_def received_fold recomputed_def Let_def)

lemma recomputed_simps [simp]:
  "inv_static (recomputed s iid iv0) = inv_static iv0" "inv_MerchantID (recomputed s iid iv0) = inv_MerchantID iv0"
  "inv_Policies (recomputed s iid iv0) = inv_Policies iv0"
  by (simp_all add: recomputed_def inv_static_def Let_def)

lemma computeInvoiceStatus_cong:
  "computeInvoiceStatus (iv\<lparr>inv_Status := st, inv_UpdatedAt := t\<rparr>) now = computeInvoiceStatus iv now"
  by (simp add: computeInvoiceStatus_def expired_at_def Let_def)

lemma recomputed_acct: "owned s iid \<Longrightarrow> acct_ok s iid (recomputed s iid iv0)"
  by (simp add: acct_ok_def recomputed_def Let_def computeInvoiceStatus_cong)

lemma status_event_alt:
  "status_event iid st now s = (case status_type st of None \<Rightarrow> s
     | Some ty \<Rightarrow> appendInvoiceEventLocked iid ty now None None s)"
  by (cases st) (simp_all add: status_event_def)

lemma status_event_frame [simp]:
  "invoices (status_event iid st now s) = invoices s" "deposits (status_event iid st now s) = deposits s"
  "depositSeq (status_event iid st now s) = depositSeq s" "scanCursor (status_event iid st now s) = scanCursor s"
  "scanLastEventAt (status_event iid st now s) = scanLastEventAt s" "merchants (status_event iid st now s) = merchants s"
  "reviewCases (status_event iid st now s) = reviewCases s" "reviewSeq (status_event iid st now s) = reviewSeq s"
  "reviewOrder (status_event iid st now s) = reviewOrder s"
  "statics (status_event iid st now s) = statics s" "events_grow s (status_event iid st now s)"
  by (simp_all add: status_event_alt statics_def fun_eq_iff split: option.split)

lemma status_review_frame [simp]:
  "invoices (status_review iv iid now s) = invoices s" "deposits (status_review iv iid now s) = deposits s"
  "depositSeq (status_review iv iid now s) = depositSeq s" "scanCursor (status_review iv iid now s) = scanCursor s"
  "scanLastEventAt (status_review iv iid now s) = scanLastEventAt s" "merchants (status_review iv iid now s) = merchants s"
  "statics (status_review iv iid now s) = statics s" "events_of (status_review iv iid now s) = events_of s"
  "events_grow s (status_review iv iid now s)"
  by (simp_all add: status_review_def statics_def events_of_def fun_eq_iff events_grow_def)

lemma status_event_base:
  "base_inv s \<Longrightarrow> statics s iid \<noteq> None \<Longrightarrow> base_inv (status_event iid st now s)"
  by (auto simp: status_event_alt intro: append_base split: option.split)

lemma status_event_has:
  "iid \<noteq> [] \<Longrightarrow> log_inv s \<Longrightarrow> status_type st = Some ty \<Longrightarrow> has_event (status_event iid st now s) iid (ty, None, None)"
  using has_event_append [of iid s None None ty now] by (simp add: status_event_alt)

lemma status_review_base: "base_inv s \<Longrightarrow> base_inv (status_review iv iid now s)"
  by (simp add: status_review_def review_base)

lemma status_review_grow: "review_inv s \<Longrightarrow> reviews_grow s (status_review iv iid now s)"
  by (simp add: status_review_def createReviewCaseLocked_grow)

lemma status_review_reviewed:
  assumes "review_inv s" "TrimSpace (inv_MerchantID iv) = inv_MerchantID iv" "inv_MerchantID iv \<noteq> []"
    "manual_reason iv = Some r"
  shows "reviewed (status_review iv iid now s) (inv_MerchantID iv) iid r"
  using assms createReviewCaseLocked_reviewed [OF assms(1), of "inv_MerchantID iv" iid]
  by (auto simp: manual_reason_def status_review_def split: if_splits)

lemma merchant_id_trim:
  assumes "merchant_inv s" "has_key mid (merchants s)"
  shows "TrimSpace mid = mid" "mid \<noteq> []"
proof -
  from assms obtain n where "mid = mk_id ''m_'' n"
    unfolding merchant_inv_def has_key_def by blast
  moreover have "plain_char (CHR ''m'')" by code_simp
  ultimately show "TrimSpace mid = mid" "mid \<noteq> []" by (simp_all add: TrimSpace_mk_id)
qed

lemma recompute_mem:
  assumes inv: "mem_inv X s" and own: "owned s iid"
  shows "mem_inv (X - {iid}) (recomputeInvoiceLocked iid s)"
proof (cases "map_of (invoices s) iid")
  case None
  then have "recomputeInvoiceLocked iid s = s" by (simp add: recomputeInvoiceLocked_def)
  moreover have "acct_inv (X - {iid}) s"
    using mem_invD(3) [OF inv] None unfolding acct_inv_def by auto
  ultimately show ?thesis using inv by (simp add: mem_inv_def)
next
  case (Some iv0)
  define iv where "iv = recomputed s iid iv0"
  define u where "u = (ticked s)\<lparr>invoices := mput iid iv (invoices s)\<rparr>"
  define v where "v = status_event iid (inv_Status iv) (time_Now s) u"
  define w where "w = status_review iv iid (time_Now s) v"
  let ?t = "recomputeInvoiceLocked iid s"
  have t: "?t = (if inv_Status iv \<noteq> inv_Status iv0 then w else u)"
    using recomputeInvoiceLocked_eq [OF Some] by (simp add: iv_def u_def v_def w_def Let_def)
  have static: "inv_static iv = inv_static iv0" by (simp add: iv_def)
  have st: "statics u = statics s" by (rule statics_update [OF Some static]) (simp add: u_def)
  have iid: "statics s iid \<noteq> None" using Some by (simp add: statics_def)
  have ok: "invoice_ok s iid iv0" by (rule invoice_invD(2) [OF mem_invD(8) [OF inv] Some])
  then obtain n where "iid = mk_id ''inv_'' n" unfolding invoice_ok_def by blast
  then have iid0: "iid \<noteq> []" by simp
  have u_frame: "same_merchants s u" "same_events s u" "same_reviews s u" "same_refunds s u"
    by (simp_all add: u_def same_merchants_def same_events_def same_reviews_def same_refunds_def)
  have k: "keeps_merchants s u" "keeps_invoices s u"
    using st by (simp_all add: keeps_merchants_eq u_def keeps_invoices_def)
  have iu: "invoice_inv u"
    by (rule invoice_inv_update [OF mem_invD(8) [OF inv] Some static]) (simp_all add: u_def)
  have bu: "base_inv u"
    using mem_invD [OF inv] u_frame k iu
    by (simp add: base_inv_def same_merchants_inv [of s u] same_reviews_inv [of s u]
        event_inv_frame [of s u] refund_inv_frame [of s u])
  have bv: "base_inv v" unfolding v_def using bu iid st by (intro status_event_base) simp_all
  have bw: "base_inv w" unfolding w_def using bv by (rule status_review_base)
  have bt: "base_inv ?t" using bu bw t by simp
  have grow: "events_grow s v" "events_grow v w" "events_grow s u"
    using events_grow_same [OF u_frame(2)] by (auto simp: v_def w_def intro: events_grow_trans)
  have rgrow: "reviews_grow s v" "reviews_grow v w"
    using status_review_grow [OF base_invD(2) [OF bv]] u_frame(3)
    by (auto simp: w_def v_def same_reviews_def intro: reviews_grow_same)
  have fields: "invoices ?t = mput iid iv (invoices s)" "deposits ?t = deposits s" "depositSeq ?t = depositSeq s"
    "scanCursor ?t = scanCursor s" "scanLastEventAt ?t = scanLastEventAt s" "statics ?t = statics s"
    using st by (auto simp: t u_def v_def w_def)
  have egrow: "events_grow s ?t" and rg: "reviews_grow s ?t"
    using grow rgrow events_grow_trans [OF grow(1,2)] reviews_grow_trans [OF rgrow(1,2)]
      reviews_grow_same [OF u_frame(3)] by (simp_all add: t)
  have "deposit_inv ?t"
    by (rule deposit_inv_frame [OF mem_invD(2) [OF inv] fields(2,3) _ egrow]) (simp add: keeps_invoices_def fields(6))
  moreover have "acct_inv (X - {iid}) ?t"
    using mem_invD(3) [OF inv] recomputed_acct [OF own, of iv0] fields(1,2)
    by (auto simp: acct_inv_def acct_ok_cong [of ?t s] iv_def)
  moreover have "told_inv ?t"
    unfolding told_inv_def
  proof (intro allI impI)
    fix j x assume jx: "map_of (invoices ?t) j = Some x"
    show "told_ok ?t j x"
    proof (cases "j = iid")
      case False
      with jx fields(1) mem_invD(4) [OF inv] have "told_ok s j x" by (simp add: told_inv_def)
      then show ?thesis by (rule told_ok_grow [OF _ egrow rg])
    next
      case True
      then have x: "x = iv" using jx fields(1) by simp
      have old: "told_ok ?t iid iv0"
        using told_ok_grow [OF _ egrow rg] mem_invD(4) [OF inv] Some by (simp add: told_inv_def)
      show ?thesis
      proof (cases "inv_Status iv = inv_Status iv0")
        case same: True
        with old show ?thesis
          unfolding told_ok_def manual_reason_def x True by (simp add: iv_def)
      next
        case False
        then have tw: "?t = w" using t by simp
        have "has_event w iid (ty, None, None)" if "status_type (inv_Status iv) = Some ty" for ty
          using status_event_has [OF iid0 _ that, of u] bu has_event_grow [OF grow(2)]
          by (simp add: v_def base_inv_def event_inv_def)
        moreover have "reviewed w (inv_MerchantID iv) iid r" if "manual_reason iv = Some r" for r
        proof -
          have "has_key (inv_MerchantID iv) (merchants s)" using ok by (simp add: invoice_ok_def iv_def)
          note m = merchant_id_trim [OF mem_invD(6) [OF inv] this]
          show ?thesis unfolding w_def by (rule status_review_reviewed [OF base_invD(2) [OF bv] m that])
        qed
        ultimately show ?thesis using old unfolding told_ok_def x True tw by simp
      qed
    qed
  qed
  moreover have "scan_inv ?t" by (rule scan_inv_frame [OF mem_invD(5) [OF inv] fields(4,5)])
  ultimately show ?thesis using bt by (simp add: mem_inv_def)
qed

lemma recompute_none: "map_of (invoices s) iid = None \<Longrightarrow> recomputeInvoiceLocked iid s = s"
  by (simp add: recomputeInvoiceLocked_def)

lemma recompute_frame [simp]:
  "deposits (recomputeInvoiceLocked iid s) = deposits s" "depositSeq (recomputeInvoiceLocked iid s) = depositSeq s"
  "scanCursor (recomputeInvoiceLocked iid s) = scanCursor s"
  "scanLastEventAt (recomputeInvoiceLocked iid s) = scanLastEventAt s"
  "merchants (recomputeInvoiceLocked iid s) = merchants s"
  "owned (recomputeInvoiceLocked iid s) = owned s"
proof -
  show "deposits (recomputeInvoiceLocked iid s) = deposits s" "depositSeq (recomputeInvoiceLocked iid s) = depositSeq s"
    "scanCursor (recomputeInvoiceLocked iid s) = scanCursor s"
    "scanLastEventAt (recomputeInvoiceLocked iid s) = scanLastEventAt s"
    "merchants (recomputeInvoiceLocked iid s) = merchants s"
    by (cases "map_of (invoices s) iid"; simp add: recompute_none recomputeInvoiceLocked_eq Let_def)+
  then show "owned (recomputeInvoiceLocked iid s) = owned s" by (simp add: owned_def fun_eq_iff)
qed

section \<open>Storing a deposit\<close>

lemma received_mput:
  assumes "wf_map (deposits s)" "deposits t = mput k d' (deposits s)" "d_InvoiceID d' \<noteq> iid"
    "\<And>d. map_of (deposits s) k = Some d \<Longrightarrow> d_InvoiceID d \<noteq> iid"
  shows "received t iid sts = received s iid sts" "owned t iid \<longleftrightarrow> owned s iid"
proof -
  show "received t iid sts = received s iid sts"
    using assms by (auto simp: received_def sum_mput deposit_share_def split: option.split)
  show "owned t iid \<longleftrightarrow> owned s iid"
    using assms(2-4) unfolding owned_def by (metis fun_upd_apply map_of_mput option.inject)
qed

lemma invoice_id_not_Nil: "invoice_inv s \<Longrightarrow> map_of (invoices s) [] = None"
proof (rule ccontr)
  assume "invoice_inv s" "map_of (invoices s) [] \<noteq> None"
  then obtain iv where "invoice_ok s [] iv" using invoice_invD(2) by blast
  then obtain n where "[] = mk_id ''inv_'' n" unfolding invoice_ok_def by blast
  then show False using mk_id_not_Nil by metis
qed

lemma put_deposit_mem:
  assumes inv: "mem_inv X s" and base: "base_inv t"
    and t: "deposits t = mput k d' (deposits s)" "depositSeq s \<le> depositSeq t" "invoices t = invoices s"
      "events_grow s t" "reviews_grow s t" "scanCursor t = scanCursor s" "scanLastEventAt t = scanLastEventAt s"
    and ok: "deposit_ok t k d'"
    and old: "map_of (deposits s) k = None \<Longrightarrow> depositSeq s < d_Seq d'"
      "\<And>d. map_of (deposits s) k = Some d \<Longrightarrow>
         d_Seq d' = d_Seq d \<and> (d_InvoiceID d = [] \<or> d_InvoiceID d = d_InvoiceID d')"
  shows "mem_inv (insert (d_InvoiceID d') X) t" "owned t (d_InvoiceID d')"
proof -
  show "owned t (d_InvoiceID d')" unfolding owned_def t(1) by (intro exI [of _ k] exI [of _ d']) simp
  have ok_old: "deposit_ok s j d \<Longrightarrow> deposit_ok t j d" for j d
    using t(2,3) has_event_grow [OF t(4)] by (auto simp: deposit_ok_def statics_def)
  have dinv: "wf_map (deposits s)" "\<And>j d. map_of (deposits s) j = Some d \<Longrightarrow> deposit_ok s j d"
    "\<And>j d j' e. map_of (deposits s) j = Some d \<Longrightarrow> map_of (deposits s) j' = Some e \<Longrightarrow> d_Seq d = d_Seq e \<Longrightarrow> j = j'"
    using mem_invD(2) [OF inv] unfolding deposit_inv_def by blast+
  have fresh: "j = k" if "map_of (deposits s) j = Some d" "d_Seq d = d_Seq d'" for j d
  proof (cases "map_of (deposits s) k")
    case None
    with old(1) that dinv(2) [OF that(1)] show ?thesis by (simp add: deposit_ok_def)
  next
    case (Some e)
    with old(2) [OF Some] that dinv(3) [OF that(1) Some] show ?thesis by simp
  qed
  have "deposit_inv t"
    unfolding deposit_inv_def
  proof (intro conjI allI impI)
    show "wf_map (deposits t)" using dinv(1) t(1) by simp
  next
    fix j d assume "map_of (deposits t) j = Some d"
    then show "deposit_ok t j d" using ok ok_old dinv(2) t(1) by (cases "j = k") auto
  next
    fix j d j' e
    assume je: "map_of (deposits t) j = Some d" "map_of (deposits t) j' = Some e" "d_Seq d = d_Seq e"
    consider "j = k" "j' = k" | "j = k" "j' \<noteq> k" | "j \<noteq> k" "j' = k" | "j \<noteq> k" "j' \<noteq> k" by blast
    then show "j = j'"
    proof cases
      case 2
      with je t(1) have "map_of (deposits s) j' = Some e" "d_Seq e = d_Seq d'" by simp_all
      with fresh 2 show ?thesis by blast
    next
      case 3
      with je t(1) have "map_of (deposits s) j = Some d" "d_Seq d = d_Seq d'" by simp_all
      with fresh 3 show ?thesis by blast
    next
      case 4
      with je t(1) have "map_of (deposits s) j = Some d" "map_of (deposits s) j' = Some e" by simp_all
      with dinv(3) je(3) show ?thesis by blast
    qed simp
  qed
  moreover have "acct_inv (insert (d_InvoiceID d') X) t"
    unfolding acct_inv_def
  proof (intro allI impI)
    fix iid iv assume iv: "map_of (invoices t) iid = Some iv" and X: "iid \<notin> insert (d_InvoiceID d') X"
    have "iid \<noteq> []" using iv t(3) invoice_id_not_Nil [OF mem_invD(8) [OF inv]] by auto
    then have ne: "d_InvoiceID d \<noteq> iid" if "map_of (deposits s) k = Some d" for d
      using old(2) [OF that] X by auto
    have "acct_ok s iid iv" using mem_invD(3) [OF inv] iv X t(3) by (simp add: acct_inv_def)
    moreover have "d_InvoiceID d' \<noteq> iid" using X by auto
    note received_mput [OF dinv(1) t(1) this ne]
    ultimately show "acct_ok t iid iv" by (simp add: acct_ok_def)
  qed
  ultimately show "mem_inv (insert (d_InvoiceID d') X) t"
    using base told_inv_frame [OF mem_invD(4) [OF inv] t(4,5,3)] scan_inv_frame [OF mem_invD(5) [OF inv] t(6,7)]
    by (simp add: mem_inv_def)
qed

lemma mem_inv_unattributed: "mem_inv (insert [] X) s \<Longrightarrow> mem_inv X s"
proof -
  assume inv: "mem_inv (insert [] X) s"
  have "acct_inv X s"
    unfolding acct_inv_def
  proof (intro allI impI)
    fix iid iv assume "map_of (invoices s) iid = Some iv" "iid \<notin> X"
    moreover from this have "iid \<noteq> []" using invoice_id_not_Nil [OF mem_invD(8) [OF inv]] by auto
    ultimately show "acct_ok s iid iv" using mem_invD(3) [OF inv] by (simp add: acct_inv_def)
  qed
  with inv show "mem_inv X s" by (simp add: mem_inv_def)
qed

lemma match_invoice_known:
  assumes "invoice_inv s" "match_invoice s w a h \<noteq> []"
  shows "statics s (match_invoice s w a h) \<noteq> None"
  using assms(2) invoice_invD(4) [OF assms(1), of "address_key w a"]
  by (auto simp: match_invoice_def split: option.splits if_splits)

lemma merge_deposit_simps [simp]:
  "d_Seq (merge_deposit r a am h st None i now) = d_Seq r"
  "d_WalletID (merge_deposit r a am h st None i now) = d_WalletID r"
  "d_TxID (merge_deposit r a am h st None i now) = d_TxID r"
  "d_ActionIndex (merge_deposit r a am h st None i now) = d_ActionIndex r"
  "d_AmountZat (merge_deposit r a am h st None i now) = am"
  "d_InvoiceID (merge_deposit r a am h st None i now) = (if d_InvoiceID r = [] \<and> i \<noteq> [] then i else d_InvoiceID r)"
  by (cases st; simp add: merge_deposit_def Let_def)+

lemma merge_deposit_status:
  assumes "st \<noteq> DepositConfirmed"
  shows "d_Status (merge_deposit r a am h st None i now) =
      (if d_Status r = DepositConfirmed \<and> st = DepositDetected then DepositConfirmed else st)"
    "d_ConfirmedHeight (merge_deposit r a am h st None i now) =
      (if d_Status r = DepositConfirmed \<and> st = DepositDetected then d_ConfirmedHeight r else None)"
  using assms by (cases st; simp add: merge_deposit_def Let_def)+

lemma merge_deposit_ok:
  assumes "deposit_ok s k r" "st \<noteq> DepositConfirmed" "0 \<le> am" "in_int64 am" "i \<noteq> [] \<Longrightarrow> statics s i \<noteq> None"
  shows "deposit_ok s k (merge_deposit r a am h st None i now)"
  using assms by (auto simp: deposit_ok_def merge_deposit_status)

section \<open>Applying a deposit keeps the invariant\<close>

text \<open>What follows the storing of a deposit.\<close>

lemma deposit_event_alt:
  assumes "st \<noteq> DepositConfirmed"
  shows "deposit_event iid st t ref s = (if st = DepositDetected
    then appendInvoiceEventLocked iid InvoiceEventDepositDetected t (Some ref) None s else s)"
  using assms by (cases st) (simp_all add: deposit_event_def)

lemma deposit_event_mem:
  assumes "mem_inv X s" "statics s iid \<noteq> None" "st \<noteq> DepositConfirmed" "owned s iid"
  shows "mem_inv X (deposit_event iid st t ref s)" "owned (deposit_event iid st t ref s) iid"
proof -
  show "mem_inv X (deposit_event iid st t ref s)"
    using assms by (auto simp: deposit_event_alt intro: append_mem)
  show "owned (deposit_event iid st t ref s) iid"
    using assms by (simp add: deposit_event_alt owned_def)
qed

text \<open>The record \<open>applyDepositLocked\<close> stores, and the counter it leaves.\<close>

definition stored_deposit :: "ScanEvent \<Rightarrow> string \<Rightarrow> string \<Rightarrow> int32 \<Rightarrow> string \<Rightarrow> int64 \<Rightarrow> int64 \<Rightarrow>
    DepositStatus \<Rightarrow> MemStore \<Rightarrow> depositRecord" where
  "stored_deposit ev w x a addr am h st s =
     (let i = match_invoice s w addr h; now = time_Now s in
      case map_of (deposits s) (deposit_key w x a) of
        None \<Rightarrow> \<lparr>d_Seq = Suc (depositSeq s), d_WalletID = w, d_TxID = x, d_ActionIndex = a,
          d_RecipientAddress = addr, d_AmountZat = am, d_Height = h, d_Status = st, d_ConfirmedHeight = None,
          d_InvoiceID = i, d_DetectedAt = (if IsZero (se_OccurredAt ev) then now else se_OccurredAt ev),
          d_UpdatedAt = now\<rparr>
      | Some r \<Rightarrow> merge_deposit r addr am h st None i now)"

definition stored_seq :: "string \<Rightarrow> MemStore \<Rightarrow> nat" where
  "stored_seq k s = (if map_of (deposits s) k = None then Suc (depositSeq s) else depositSeq s)"

definition with_deposit :: "string \<Rightarrow> depositRecord \<Rightarrow> MemStore \<Rightarrow> MemStore" where
  "with_deposit k d s = s\<lparr>env_ticks := Suc (env_ticks s), depositSeq := stored_seq k s,
     deposits := mput k d (deposits s)\<rparr>"

lemma match_invoice_cong:
  "invoiceByAddress t = invoiceByAddress s \<Longrightarrow> invoices t = invoices s \<Longrightarrow> match_invoice t w a h = match_invoice s w a h"
  by (simp only: match_invoice_def)

lemma applyDepositLocked_eq:
  fixes ev :: ScanEvent and w0 x addr0 :: string and a :: int32 and h :: int64 and s :: MemStore and am :: nat
  assumes "st \<noteq> DepositConfirmed" "addr0 \<noteq> []" "am \<le> 2 ^ 63 - 1"
  defines "w \<equiv> if w0 = [] then se_WalletID ev else w0"
  defines "addr \<equiv> ToLower (TrimSpace addr0)"
  defines "d \<equiv> stored_deposit ev w x a addr (int am) h st s"
  defines "u \<equiv> with_deposit (deposit_key w x a) d s"
  shows "applyDepositLocked ev w0 x a addr0 am h st None s =
    (if d_InvoiceID d = [] then
       (if wallet_merchant u w \<noteq> [] then createReviewCaseLocked (wallet_merchant u w) None ReviewUnknownAddress
          (unknown_notes w x a addr (int am) h) w x a u else u)
     else recomputeInvoiceLocked (d_InvoiceID d) (deposit_event (d_InvoiceID d) st (se_OccurredAt ev)
       \<lparr>dref_WalletID = w, dref_TxID = x, dref_ActionIndex = a, dref_AmountZat = int am, dref_Height = h\<rparr> u))"
proof (cases "map_of (deposits s) (deposit_key w x a)")
  case None
  then have "u = (ticked s)\<lparr>depositSeq := Suc (depositSeq s), deposits := mput (deposit_key w x a) d (deposits s)\<rparr>"
    by (simp add: u_def with_deposit_def stored_seq_def ticked_def)
  moreover have "d = \<lparr>d_Seq = Suc (depositSeq s), d_WalletID = w, d_TxID = x, d_ActionIndex = a,
      d_RecipientAddress = addr, d_AmountZat = int am, d_Height = h, d_Status = st, d_ConfirmedHeight = None,
      d_InvoiceID = match_invoice (ticked s) w addr h,
      d_DetectedAt = (if IsZero (se_OccurredAt ev) then time_Now s else se_OccurredAt ev), d_UpdatedAt = time_Now s\<rparr>"
    using None by (simp add: d_def stored_deposit_def match_invoice_cong [of "ticked s" s] Let_def)
  ultimately show ?thesis
    using assms(2,3) None
    unfolding applyDepositLocked_def w_def [symmetric] addr_def [symmetric]
    by (simp add: Let_def)
next
  case (Some r)
  then have "u = (ticked s)\<lparr>deposits := mput (deposit_key w x a) d (deposits s)\<rparr>"
    by (simp add: u_def with_deposit_def stored_seq_def ticked_def)
  moreover have "d = merge_deposit r addr (int am) h st None (match_invoice (ticked s) w addr h) (time_Now s)"
    using Some by (simp add: d_def stored_deposit_def match_invoice_cong [of "ticked s" s] Let_def)
  ultimately show ?thesis
    using assms(2,3) Some
    unfolding applyDepositLocked_def w_def [symmetric] addr_def [symmetric]
    by (simp add: Let_def)
qed

lemma stored_deposit_mem:
  fixes ev :: ScanEvent and w x addr :: string and a :: int32 and h :: int64 and s :: MemStore and am :: nat
  assumes inv: "mem_inv X s" and st: "st \<noteq> DepositConfirmed" and am: "am \<le> 2 ^ 63 - 1"
  defines "d \<equiv> stored_deposit ev w x a addr (int am) h st s"
  defines "t \<equiv> with_deposit (deposit_key w x a) d s"
  shows "mem_inv (insert (d_InvoiceID d) X) t" "owned t (d_InvoiceID d)"
    "d_InvoiceID d \<noteq> [] \<Longrightarrow> statics t (d_InvoiceID d) \<noteq> None"
proof -
  let ?k = "deposit_key w x a"
  have base: "base_inv t"
    by (rule base_inv_frame [OF mem_invD(1) [OF inv]])
      (simp_all add: t_def with_deposit_def same_merchants_def same_reviews_def same_invoices_def
        same_events_def same_refunds_def)
  have stat: "statics t = statics s" by (simp add: t_def with_deposit_def statics_def fun_eq_iff)
  have evs: "has_event t = has_event s"
    by (simp add: t_def with_deposit_def has_event_def events_of_def fun_eq_iff)
  have seq: "depositSeq t = stored_seq ?k s" by (simp add: t_def with_deposit_def)
  have known: "match_invoice s w addr h \<noteq> [] \<Longrightarrow> statics s (match_invoice s w addr h) \<noteq> None"
    using match_invoice_known [OF mem_invD(8) [OF inv]] by blast
  have amt: "0 \<le> int am" "in_int64 (int am)" using am by (simp_all add: in_int64_def)
  have ok: "deposit_ok t ?k d"
  proof (cases "map_of (deposits s) ?k")
    case None
    then show ?thesis
      using st amt known
      by (simp add: deposit_ok_def stat seq stored_seq_def d_def stored_deposit_def Let_def)
  next
    case (Some r)
    then have "deposit_ok s ?k r" using mem_invD(2) [OF inv] by (simp add: deposit_inv_def)
    then have "deposit_ok s ?k d"
      using Some known st amt
      by (auto simp: d_def stored_deposit_def Let_def intro!: merge_deposit_ok)
    with Some show ?thesis by (simp add: deposit_ok_def stat evs seq stored_seq_def)
  qed
  then show "d_InvoiceID d \<noteq> [] \<Longrightarrow> statics t (d_InvoiceID d) \<noteq> None"
    by (simp add: deposit_ok_def)
  have old: "map_of (deposits s) ?k = None \<Longrightarrow> depositSeq s < d_Seq d"
    "\<And>r. map_of (deposits s) ?k = Some r \<Longrightarrow> d_Seq d = d_Seq r \<and> (d_InvoiceID r = [] \<or> d_InvoiceID r = d_InvoiceID d)"
    by (simp_all add: d_def stored_deposit_def Let_def)
  have fr: "deposits t = mput ?k d (deposits s)" "depositSeq s \<le> depositSeq t" "invoices t = invoices s"
    "events_grow s t" "reviews_grow s t" "scanCursor t = scanCursor s" "scanLastEventAt t = scanLastEventAt s"
    by (simp_all add: t_def with_deposit_def stored_seq_def events_grow_def events_of_def reviews_grow_def reviewed_def)
  show "mem_inv (insert (d_InvoiceID d) X) t" "owned t (d_InvoiceID d)"
    using put_deposit_mem [OF inv base fr ok old] by blast+
qed

lemma applyDepositLocked_mem:
  assumes inv: "mem_inv X s" and st: "st \<noteq> DepositConfirmed"
  shows "mem_inv X (applyDepositLocked ev w0 x a addr0 am h st None s)"
proof (cases "addr0 = [] \<or> \<not> am \<le> 2 ^ 63 - 1")
  case True
  with inv show ?thesis by (auto simp: applyDepositLocked_def Let_def)
next
  case False
  define w where "w = (if w0 = [] then se_WalletID ev else w0)"
  define addr where "addr = ToLower (TrimSpace addr0)"
  define d where "d = stored_deposit ev w x a addr (int am) h st s"
  define u where "u = with_deposit (deposit_key w x a) d s"
  have am: "am \<le> 2 ^ 63 - 1" and addr0: "addr0 \<noteq> []" using False by simp_all
  note eq = applyDepositLocked_eq [OF st addr0 am, where ev = ev and ?w0.0 = w0 and x = x and a = a and h = h and s = s, folded w_def addr_def, folded d_def, folded u_def]
  note u = stored_deposit_mem [OF inv st am, where ev = ev and w = w and x = x and a = a and addr = addr and h = h, folded d_def, folded u_def]
  show ?thesis
  proof (cases "d_InvoiceID d = []")
    case True
    then have "mem_inv X u" using u(1) mem_inv_unattributed by simp
    then show ?thesis unfolding eq using True by (auto intro: review_mem)
  next
    case attributed: False
    note ev = deposit_event_mem [OF u(1) u(3) [OF attributed] st u(2)]
    from recompute_mem [OF ev] have "mem_inv (insert (d_InvoiceID d) X - {d_InvoiceID d})
      (recomputeInvoiceLocked (d_InvoiceID d) (deposit_event (d_InvoiceID d) st (se_OccurredAt ev)
       \<lparr>dref_WalletID = w, dref_TxID = x, dref_ActionIndex = a, dref_AmountZat = int am, dref_Height = h\<rparr> u))" .
    then show ?thesis unfolding eq using attributed by (auto intro: mem_inv_mono)
  qed
qed

section \<open>The scanner operations keep the invariant\<close>

lemma apply_kind_cases:
  assumes "apply_kind ev s = Inr t"
  obtains "t = s" | w0 x a addr0 am h st where "st \<noteq> DepositConfirmed"
      "t = applyDepositLocked ev w0 x a addr0 am h st None s"
proof -
  define applied where "applied u \<longleftrightarrow> (\<exists>st w0 x a addr0 am h. st \<noteq> DepositConfirmed \<and>
      u = applyDepositLocked ev w0 x a addr0 am h st None s)" for u
  have ap: "applied (apply_payload ev st p s)" if "st \<noteq> DepositConfirmed" for st p
    using that unfolding applied_def apply_payload_def by blast
  have "t = s \<or> applied t"
    using assms by (auto simp: apply_kind_def ap split: if_splits option.splits)
  then show thesis using that unfolding applied_def by blast
qed

lemma createReview_scan: "scanCursor (createReviewCaseLocked m i r n w x a s) = scanCursor s"
  by simp

lemma deposit_event_frame [simp]:
  "scanCursor (deposit_event iid st t ref s) = scanCursor s"
  "scanLastEventAt (deposit_event iid st t ref s) = scanLastEventAt s"
  "merchants (deposit_event iid st t ref s) = merchants s"
  by (cases st; simp add: deposit_event_def)+

lemma applyDepositLocked_frame:
  assumes "st \<noteq> DepositConfirmed"
  shows "scanCursor (applyDepositLocked ev w0 x a addr0 am h st None s) = scanCursor s"
    "scanLastEventAt (applyDepositLocked ev w0 x a addr0 am h st None s) = scanLastEventAt s"
    "merchants (applyDepositLocked ev w0 x a addr0 am h st None s) = merchants s"
proof -
  let ?t = "applyDepositLocked ev w0 x a addr0 am h st None s"
  have "scanCursor ?t = scanCursor s \<and> scanLastEventAt ?t = scanLastEventAt s \<and> merchants ?t = merchants s"
  proof (cases "addr0 = [] \<or> \<not> am \<le> 2 ^ 63 - 1")
    case True
    then show ?thesis by (auto simp: applyDepositLocked_def Let_def)
  next
    case False
    then have "addr0 \<noteq> []" "am \<le> 2 ^ 63 - 1" by simp_all
    then show ?thesis by (simp add: applyDepositLocked_eq [OF assms] with_deposit_def)
  qed
  then show "scanCursor ?t = scanCursor s" "scanLastEventAt ?t = scanLastEventAt s" "merchants ?t = merchants s"
    by simp_all
qed

lemma ApplyScanEvent_cases:
  obtains (same) r where "ApplyScanEvent ev0 s = (r, s)"
      "r = Inr () \<Longrightarrow> se_Cursor ev0 \<le> scan_cursor s (TrimSpace (se_WalletID ev0))"
  | (applied) u t n where
      "apply_kind (ev0\<lparr>se_WalletID := TrimSpace (se_WalletID ev0), se_Kind := TrimSpace (se_Kind ev0)\<rparr>) s = Inr u"
      "ApplyScanEvent ev0 s = (Inr (), u\<lparr>env_ticks := n,
         scanCursor := mput (TrimSpace (se_WalletID ev0)) (se_Cursor ev0) (scanCursor u),
         scanLastEventAt := mput (TrimSpace (se_WalletID ev0)) t (scanLastEventAt u)\<rparr>)"
      "TrimSpace (se_WalletID ev0) \<noteq> []" "0 < se_Cursor ev0"
      "scan_cursor s (TrimSpace (se_WalletID ev0)) < se_Cursor ev0"
proof -
  define w where "w = TrimSpace (se_WalletID ev0)"
  define ev where "ev = ev0\<lparr>se_WalletID := w, se_Kind := TrimSpace (se_Kind ev0)\<rparr>"
  have ev_simps: "se_WalletID ev = w" "se_Cursor ev = se_Cursor ev0" "se_OccurredAt ev = se_OccurredAt ev0"
    by (simp_all add: ev_def)
  note d = ApplyScanEvent_def Let_def w_def [symmetric] ev_def [symmetric] ev_simps
  show thesis
  proof (cases "w = [] \<or> se_Cursor ev0 \<le> 0 \<or> se_Cursor ev0 \<le> scan_cursor s w")
    case True
    then have "\<exists>r. ApplyScanEvent ev0 s = (r, s) \<and> (r = Inr () \<longrightarrow> se_Cursor ev0 \<le> scan_cursor s w)"
      by (auto simp: d)
    then show thesis using same unfolding w_def by blast
  next
    case ok: False
    show thesis
    proof (cases "apply_kind ev s")
      case (Inl e)
      then have "ApplyScanEvent ev0 s = (Inl e, s)" using ok by (simp add: d)
      then show thesis using same by blast
    next
      case (Inr u)
      show thesis
      proof (cases "IsZero (se_OccurredAt ev0)")
        case True
        then have "ApplyScanEvent ev0 s = (Inr (), u\<lparr>env_ticks := Suc (env_ticks u),
          scanCursor := mput w (se_Cursor ev0) (scanCursor u),
          scanLastEventAt := mput w (time_Now u) (scanLastEventAt u)\<rparr>)"
          using ok Inr by (simp add: d ticked_def time_Now_def)
        from Inr this show thesis
          by (rule applied [folded w_def, folded ev_def]) (use ok in simp_all)
      next
        case False
        then have "ApplyScanEvent ev0 s = (Inr (), u\<lparr>env_ticks := env_ticks u,
          scanCursor := mput w (se_Cursor ev0) (scanCursor u),
          scanLastEventAt := mput w (se_OccurredAt ev0) (scanLastEventAt u)\<rparr>)"
          using ok Inr by (simp add: d)
        from Inr this show thesis
          by (rule applied [folded w_def, folded ev_def]) (use ok in simp_all)
      qed
    qed
  qed
qed

lemma apply_kind_mem:
  assumes "mem_inv X s" "apply_kind ev s = Inr u"
  shows "mem_inv X u" "scanCursor u = scanCursor s" "scanLastEventAt u = scanLastEventAt s" "merchants u = merchants s"
  by (cases rule: apply_kind_cases [OF assms(2)]; simp add: assms(1) applyDepositLocked_mem applyDepositLocked_frame)+

lemma scan_update_mem:
  assumes "mem_inv X u" "w \<noteq> []" "0 < c"
    and t: "t = u\<lparr>env_ticks := n, scanCursor := mput w c (scanCursor u), scanLastEventAt := mput w tm (scanLastEventAt u)\<rparr>"
  shows "mem_inv X t"
proof -
  have fr: "deposits t = deposits u" "depositSeq t = depositSeq u" "invoices t = invoices u" by (simp_all add: t)
  have "base_inv t"
    by (rule base_inv_frame [OF mem_invD(1) [OF assms(1)]])
      (simp_all add: t same_merchants_def same_reviews_def same_invoices_def same_events_def same_refunds_def)
  moreover have "events_grow u t" "reviews_grow u t"
    by (simp_all add: t events_grow_def events_of_def reviews_grow_def reviewed_def)
  moreover have "scan_inv t"
    using mem_invD(5) [OF assms(1)] assms(2,3) by (auto simp: scan_inv_def t split: if_splits)
  ultimately show ?thesis
    using mem_invD(2-4) [OF assms(1)]
    using fr by (simp add: mem_inv_def deposit_inv_frame [of u t] acct_inv_frame [of X u t] told_inv_frame [of u t]
        keeps_invoices_eq)
qed

lemma ApplyScanEvent_mem [inv_intros]:
  assumes "mem_inv X s" shows "mem_inv X (snd (ApplyScanEvent ev s))"
proof (cases rule: ApplyScanEvent_cases [of ev s])
  case (same r)
  with assms show ?thesis by simp
next
  case (applied u t n)
  from scan_update_mem [OF apply_kind_mem(1) [OF assms applied(1)] applied(3,4) refl]
  show ?thesis unfolding applied(2) by simp
qed

text \<open>One confirmation, and the loop.\<close>

lemma confirm_deposit_cases:
  obtains (skip) "confirm_deposit best now (s, aff) (k, d) = (s, aff)"
  | (confirm) iv where "map_of (invoices s) (d_InvoiceID d) = Some iv" "d_InvoiceID d \<noteq> []"
      "d_Status d = DepositDetected" "required_confs iv \<le> wrap64 (best - d_Height d + 1)"
      "confirm_deposit best now (s, aff) (k, d) =
        (appendInvoiceEventLocked (d_InvoiceID d) InvoiceEventDepositConfirmed now
           (Some \<lparr>dref_WalletID = d_WalletID d, dref_TxID = d_TxID d, dref_ActionIndex = d_ActionIndex d,
             dref_AmountZat = d_AmountZat d, dref_Height = d_Height d\<rparr>) None
           (s\<lparr>deposits := mput k (d\<lparr>d_Status := DepositConfirmed,
              d_ConfirmedHeight := Some (wrap64 (d_Height d + required_confs iv - 1)), d_UpdatedAt := now\<rparr>) (deposits s)\<rparr>),
         mput (d_InvoiceID d) () aff)"
proof (cases "d_InvoiceID d = [] \<or> d_Status d \<noteq> DepositDetected")
  case True
  then have "confirm_deposit best now (s, aff) (k, d) = (s, aff)" by (auto simp: confirm_deposit_def)
  then show thesis by (rule skip)
next
  case ok: False
  show thesis
  proof (cases "map_of (invoices s) (d_InvoiceID d)")
    case None
    with ok have "confirm_deposit best now (s, aff) (k, d) = (s, aff)" by (simp add: confirm_deposit_def)
    then show thesis by (rule skip)
  next
    case (Some iv)
    show thesis
    proof (cases "wrap64 (best - d_Height d + 1) < required_confs iv")
      case True
      with ok Some have "confirm_deposit best now (s, aff) (k, d) = (s, aff)"
        by (simp add: confirm_deposit_def Let_def)
      then show thesis by (rule skip)
    next
      case False
      then show thesis using ok Some
        by (intro confirm [of iv]) (simp_all add: confirm_deposit_def Let_def)
    qed
  qed
qed

lemma confirm_deposit_mem:
  assumes inv: "mem_inv (set (map fst aff)) s" and d: "map_of (deposits s) k = Some d"
    and c: "confirm_deposit best now (s, aff) (k, d) = (t, aff')"
    and own: "\<And>i. i \<in> set (map fst aff) \<Longrightarrow> owned s i"
  shows "mem_inv (set (map fst aff')) t" "\<And>i. i \<in> set (map fst aff') \<Longrightarrow> owned t i"
    "\<And>k'. k' \<noteq> k \<Longrightarrow> map_of (deposits t) k' = map_of (deposits s) k'" "wf_map aff \<Longrightarrow> wf_map aff'"
proof -
  have "mem_inv (set (map fst aff')) t \<and> (\<forall>i \<in> set (map fst aff'). owned t i) \<and>
    (\<forall>k'. k' \<noteq> k \<longrightarrow> map_of (deposits t) k' = map_of (deposits s) k') \<and> (wf_map aff \<longrightarrow> wf_map aff')"
  proof (cases rule: confirm_deposit_cases [of best now s aff k d])
    case skip
    with c inv own show ?thesis by simp
  next
    case (confirm iv)
    let ?i = "d_InvoiceID d"
    let ?d = "d\<lparr>d_Status := DepositConfirmed,
      d_ConfirmedHeight := Some (wrap64 (d_Height d + required_confs iv - 1)), d_UpdatedAt := now\<rparr>"
    let ?ref = "\<lparr>dref_WalletID = d_WalletID d, dref_TxID = d_TxID d, dref_ActionIndex = d_ActionIndex d,
             dref_AmountZat = d_AmountZat d, dref_Height = d_Height d\<rparr>"
    let ?u = "s\<lparr>deposits := mput k ?d (deposits s)\<rparr>"
    have t: "t = appendInvoiceEventLocked ?i InvoiceEventDepositConfirmed now (Some ?ref) None ?u"
      and aff': "aff' = mput ?i () aff"
      using c confirm(5) by simp_all
    have ok: "deposit_ok s k d" using mem_invD(2) [OF inv] d by (simp add: deposit_inv_def)
    have stat: "statics ?u = statics s" by (simp add: statics_def fun_eq_iff)
    have bu: "base_inv ?u"
      by (rule base_inv_frame [OF mem_invD(1) [OF inv]])
        (simp_all add: same_merchants_def same_reviews_def same_invoices_def same_events_def same_refunds_def)
    have bt: "base_inv t"
      unfolding t using bu confirm(1) by (auto intro!: append_base simp: statics_def)
    have has: "has_event t ?i (InvoiceEventDepositConfirmed, Some (d_WalletID d, d_TxID d, d_ActionIndex d), None)"
      unfolding t using has_event_append [of ?i ?u "Some ?ref" None] confirm(2) bu
      by (simp add: base_inv_def event_inv_def)
    have grow: "events_grow s t"
      unfolding t by (rule events_grow_trans [OF events_grow_same events_grow_append]) (simp add: same_events_def)
    have fr: "deposits t = mput k ?d (deposits s)" "depositSeq s \<le> depositSeq t" "invoices t = invoices s"
      "reviews_grow s t" "scanCursor t = scanCursor s" "scanLastEventAt t = scanLastEventAt s"
      by (simp_all add: t reviews_grow_def reviewed_def)
    have okt: "deposit_ok t k ?d"
      using ok has confirm(2) fr(2,3) by (simp add: deposit_ok_def statics_def)
    have "mem_inv (insert (d_InvoiceID ?d) (set (map fst aff))) t" "owned t (d_InvoiceID ?d)"
      using put_deposit_mem [OF inv bt fr(1-3) grow fr(4-6) okt] d by simp_all
    moreover have "set (map fst aff') = insert ?i (set (map fst aff))"
      by (auto simp: aff' keys_mput)
    moreover have "owned t i" if "owned s i" for i
    proof -
      from that obtain k' e where e: "map_of (deposits s) k' = Some e" "d_InvoiceID e = i" by (auto simp: owned_def)
      show ?thesis
      proof (cases "k' = k")
        case True
        with e d fr(1) show ?thesis unfolding owned_def by (intro exI [of _ k] exI [of _ ?d]) simp
      next
        case False
        with e fr(1) show ?thesis unfolding owned_def by (intro exI [of _ k'] exI [of _ e]) simp
      qed
    qed
    ultimately show ?thesis using own fr(1) aff' by auto
  qed
  then show "mem_inv (set (map fst aff')) t" "\<And>i. i \<in> set (map fst aff') \<Longrightarrow> owned t i"
    "\<And>k'. k' \<noteq> k \<Longrightarrow> map_of (deposits t) k' = map_of (deposits s) k'" "wf_map aff \<Longrightarrow> wf_map aff'"
    by blast+
qed

lemma confirm_deposits_mem:
  assumes "mem_inv (set (map fst aff)) s" "distinct (map fst kds)"
    "\<And>k d. (k, d) \<in> set kds \<Longrightarrow> map_of (deposits s) k = Some d"
    "\<And>i. i \<in> set (map fst aff) \<Longrightarrow> owned s i" "wf_map aff"
    "foldl (confirm_deposit best now) (s, aff) kds = (t, aff')"
  shows "mem_inv (set (map fst aff')) t \<and> (\<forall>i \<in> set (map fst aff'). owned t i) \<and> wf_map aff'"
  using assms
proof (induction kds arbitrary: s aff)
  case (Cons kd kds)
  obtain k d where kd: "kd = (k, d)" by (cases kd)
  obtain s1 aff1 where c: "confirm_deposit best now (s, aff) (k, d) = (s1, aff1)" by fastforce
  have "map_of (deposits s) k = Some d" using Cons.prems(3) kd by simp
  note step = confirm_deposit_mem [OF Cons.prems(1) this c Cons.prems(4)]
  have "map_of (deposits s1) k' = Some e" if "(k', e) \<in> set kds" for k' e
  proof -
    have "k' \<noteq> k" using Cons.prems(2) that kd by (force simp: image_iff)
    with step(3) Cons.prems(3) that show ?thesis by simp
  qed
  with Cons.IH [OF step(1) _ _ step(2) step(4)] Cons.prems(2,5,6) c kd show ?case by simp
qed simp

lemma recompute_all_mem:
  "mem_inv (set ids) s \<Longrightarrow> \<forall>i \<in> set ids. owned s i \<Longrightarrow>
   mem_inv {} (foldl (\<lambda>s i. recomputeInvoiceLocked i s) s ids)"
proof (induction ids arbitrary: s)
  case (Cons i ids)
  have "mem_inv (set (i # ids) - {i}) (recomputeInvoiceLocked i s)"
    using Cons.prems by (intro recompute_mem) simp_all
  then have "mem_inv (set ids) (recomputeInvoiceLocked i s)" by (rule mem_inv_mono) auto
  with Cons show ?case by simp
qed simp

lemma UpdateInvoiceConfirmations_mem [inv_intros]:
  assumes inv: "mem_inv {} s" shows "mem_inv {} (snd (UpdateInvoiceConfirmations best s))"
proof -
  let ?s = "ticked s"
  obtain t aff where c: "foldl (confirm_deposit best (time_Now s)) (?s, []) (ranged ?s (deposits s)) = (t, aff)"
    by fastforce
  have wf: "wf_map (deposits s)" using mem_invD(2) [OF inv] by (simp add: deposit_inv_def)
  have loop: "mem_inv (set (map fst aff)) t \<and> (\<forall>i \<in> set (map fst aff). owned t i) \<and> wf_map aff"
    using inv wf
    by (intro confirm_deposits_mem [OF _ _ _ _ _ c])
      (simp_all add: wf_map_set_iff, simp add: wf_map_def [symmetric])
  have keys: "set (map fst (ranged (ticked t) aff)) = set (map fst aff)" by simp
  have own: "owned (ticked t) i \<longleftrightarrow> owned t i" for i by (simp add: owned_def)
  have "mem_inv {} (foldl (\<lambda>s i. recomputeInvoiceLocked i s) (ticked t) (map fst (ranged (ticked t) aff)))"
    using loop keys own by (intro recompute_all_mem) auto
  then show ?thesis using c by (simp add: UpdateInvoiceConfirmations_def Let_def)
qed

end
