(* ===== verification/MemModel.thy ===== *)
theory MemModel
  imports DepositStore
begin

text \<open>
  The in-memory store as a whole: the value of the \<open>Store\<close> interface its operations make up,
  the transition relation of a store that serves any sequence of calls, and the invariants of
  the reachable states.
\<close>

section \<open>The store\<close>

definition mem_Store :: "MemStore Store" where
  "mem_Store = \<lparr>
     st_CreateMerchant = CreateMerchant, st_GetMerchant = GetMerchant, st_ListMerchants = ListMerchants,
     st_UpdateMerchantSettings = UpdateMerchantSettings, st_SetMerchantWallet = SetMerchantWallet,
     st_GetMerchantWallet = GetMerchantWallet, st_ListMerchantWallets = ListMerchantWallets,
     st_NextAddressIndex = NextAddressIndex, st_CreateMerchantAPIKey = CreateMerchantAPIKey,
     st_RevokeMerchantAPIKey = RevokeMerchantAPIKey,
     st_LookupMerchantIDByAPIKey = LookupMerchantIDByAPIKey,
     st_ListMerchantAPIKeys = ListMerchantAPIKeys, st_CreateInvoice = CreateInvoice,
     st_GetInvoice = GetInvoice, st_FindInvoiceByExternalOrderID = FindInvoiceByExternalOrderID,
     st_ListInvoices = ListInvoices, st_PutInvoiceToken = PutInvoiceToken,
     st_GetInvoiceToken = GetInvoiceToken, st_ScanCursor = ScanCursor, st_ApplyScanEvent = ApplyScanEvent,
     st_UpdateInvoiceConfirmations = UpdateInvoiceConfirmations, st_ListInvoiceEvents = ListInvoiceEvents,
     st_ListDeposits = ListDeposits, st_CreateRefund = CreateRefund, st_ListRefunds = ListRefunds,
     st_ListReviewCases = ListReviewCases, st_ResolveReviewCase = ResolveReviewCase,
     st_RejectReviewCase = RejectReviewCase, st_CreateEventSink = CreateEventSink,
     st_GetEventSink = GetEventSink, st_ListEventSinks = ListEventSinks,
     st_ListOutboundEvents = ListOutboundEvents, st_ListEventDeliveries = ListEventDeliveries,
     st_ListDueDeliveries = ListDueDeliveries, st_UpdateEventDelivery = UpdateEventDelivery,
     st_ScannerStatus = ScannerStatus, st_PendingDeliveries = PendingDeliveries\<rparr>"

text \<open>One call of any operation, with any arguments. A read may use up clock readings.\<close>

inductive mem_step :: "MemStore \<Rightarrow> MemStore \<Rightarrow> bool" where
  "mem_step s (snd (CreateMerchant name settings s))"
| "mem_step s (snd (UpdateMerchantSettings mid settings s))"
| "mem_step s (snd (SetMerchantWallet mid w s))"
| "mem_step s (snd (NextAddressIndex mid s))"
| "mem_step s (snd (CreateMerchantAPIKey raw mid label s))"
| "mem_step s (snd (RevokeMerchantAPIKey key s))"
| "mem_step s (snd (CreateInvoice inv_req s))"
| "mem_step s (snd (PutInvoiceToken iid tok s))"
| "mem_step s (snd (ApplyScanEvent ev s))"
| "mem_step s (snd (UpdateInvoiceConfirmations best s))"
| "mem_step s (snd (CreateRefund refund_req s))"
| "mem_step s (snd (ResolveReviewCase rid notes s))"
| "mem_step s (snd (RejectReviewCase rid notes s))"
| "mem_step s (snd (CreateEventSink sink_req s))"
| "mem_step s (snd (UpdateEventDelivery did st att nr le s))"
| "mem_step s s"
| "mem_step s (ticked s)"

inductive_cases mem_stepE: "mem_step s t"

inductive mem_reach :: "(nat \<Rightarrow> time) \<Rightarrow> (nat \<Rightarrow> string \<Rightarrow> nat) \<Rightarrow> MemStore \<Rightarrow> bool"
  for clock :: "nat \<Rightarrow> time" and prio :: "nat \<Rightarrow> string \<Rightarrow> nat" where
  mem_init: "mem_reach clock prio (NewMem clock prio)"
| mem_next: "mem_reach clock prio s \<Longrightarrow> mem_step s t \<Longrightarrow> mem_reach clock prio t"

text \<open>Every operation of the interface is a step, or a few readings of the clock.\<close>

lemma snd_ListDeposits: "snd (ListDeposits f s) = ticked (ticked s)"
  by (simp add: ListDeposits_def Let_def split_def)

lemma snd_ScannerStatus: "snd (ScannerStatus s) = ticked s"
  by (simp add: ScannerStatus_def Let_def)

lemma snd_ScanCursor: "snd (ScanCursor w s) = s"
  by (simp add: ScanCursor_def Let_def)

lemmas mem_reads = merchant_reads invoice_reads event_reads snd_ListReviewCases snd_ListDeposits
  snd_ScannerStatus snd_ScanCursor

section \<open>Every step keeps the invariant\<close>

lemma mem_inv_other:
  assumes "mem_inv X s" "base_inv t" "same_invoices s t" "same_events s t"
    "deposits t = deposits s" "depositSeq t = depositSeq s" "reviews_grow s t"
    "scanCursor t = scanCursor s" "scanLastEventAt t = scanLastEventAt s"
  shows "mem_inv X t"
  using assms by (intro mem_inv_frame [OF assms(1)]) (simp_all add: same_invoices_def events_grow_same)

text \<open>Merchants: the other components see only that merchants are never removed.\<close>

lemma mem_inv_merchants:
  assumes inv: "mem_inv X s" and m: "merchant_inv t" "keeps_merchants s t"
    and fr: "same_reviews s t" "same_invoices s t" "same_events s t" "same_refunds s t"
      "deposits t = deposits s" "depositSeq t = depositSeq s"
      "scanCursor t = scanCursor s" "scanLastEventAt t = scanLastEventAt s"
  shows "mem_inv X t"
proof (rule mem_inv_other [OF inv _ fr(2,3,5,6) reviews_grow_same [OF fr(1)] fr(7,8)])
  have k: "keeps_invoices s t" using fr(2) by (simp add: keeps_invoices_eq same_invoices_def)
  show "base_inv t"
    using mem_invD [OF inv] m fr k
    by (simp add: base_inv_def same_reviews_inv [of s t] invoice_inv_frame [of s t] event_inv_frame [of s t]
        refund_inv_frame [of s t])
qed

lemmas same_defs = same_reviews_def same_invoices_def same_events_def same_refunds_def same_merchants_def

lemma CreateMerchant_mem [inv_intros]: "mem_inv X s \<Longrightarrow> mem_inv X (snd (CreateMerchant n st s))"
  by (rule mem_inv_merchants [of X s])
    (auto simp: CreateMerchant_inv mem_invD, auto simp: CreateMerchant_def Let_def same_defs keeps_merchants_def
      split: option.split)

lemma UpdateMerchantSettings_mem [inv_intros]: "mem_inv X s \<Longrightarrow> mem_inv X (snd (UpdateMerchantSettings m st s))"
  by (rule mem_inv_merchants [of X s])
    (auto simp: UpdateMerchantSettings_inv mem_invD, auto simp: UpdateMerchantSettings_def Let_def same_defs
      keeps_merchants_def split: option.split)

lemma SetMerchantWallet_mem [inv_intros]: "mem_inv X s \<Longrightarrow> mem_inv X (snd (SetMerchantWallet m w s))"
  by (rule mem_inv_merchants [of X s])
    (auto simp: SetMerchantWallet_inv mem_invD, auto simp: SetMerchantWallet_def Let_def same_defs
      keeps_merchants_def split: option.split)

lemma NextAddressIndex_mem [inv_intros]: "mem_inv X s \<Longrightarrow> mem_inv X (snd (NextAddressIndex m s))"
  by (rule mem_inv_merchants [of X s])
    (auto simp: NextAddressIndex_inv mem_invD, auto simp: NextAddressIndex_def Let_def same_defs
      keeps_merchants_def split: option.split)

lemma CreateMerchantAPIKey_mem [inv_intros]: "mem_inv X s \<Longrightarrow> mem_inv X (snd (CreateMerchantAPIKey raw m l s))"
  by (rule mem_inv_merchants [of X s])
    (auto simp: CreateMerchantAPIKey_inv mem_invD, auto simp: CreateMerchantAPIKey_def Let_def same_defs
      keeps_merchants_def split: option.split)

lemma RevokeMerchantAPIKey_mem [inv_intros]: "mem_inv X s \<Longrightarrow> mem_inv X (snd (RevokeMerchantAPIKey k s))"
  by (rule mem_inv_merchants [of X s])
    (auto simp: RevokeMerchantAPIKey_inv mem_invD, auto simp: RevokeMerchantAPIKey_def Let_def same_defs
      keeps_merchants_def split: option.split)

lemma close_base:
  assumes "base_inv s" "review_inv t" "same_invoices s t" "same_events s t" "same_refunds s t" "same_merchants s t"
  shows "base_inv t"
proof -
  have k: "keeps_merchants s t" "keeps_invoices s t"
    using assms(3,6) by (simp_all add: keeps_merchants_eq keeps_invoices_eq same_merchants_def same_invoices_def)
  show ?thesis
    using base_invD [OF assms(1)] k assms(2-)
    by (simp add: base_inv_def same_merchants_inv [of s t] invoice_inv_frame [of s t]
        event_inv_frame [of s t] refund_inv_frame [of s t])
qed

lemma ResolveReviewCase_mem [inv_intros]: "mem_inv X s \<Longrightarrow> mem_inv X (snd (ResolveReviewCase r n s))"
  by (rule mem_inv_other [of X s], assumption, rule close_base [of s])
    (auto simp: ResolveReviewCase_inv mem_invD close_reviews_grow, auto simp: ResolveReviewCase_def Let_def same_defs
      split: option.split)

lemma RejectReviewCase_mem [inv_intros]: "mem_inv X s \<Longrightarrow> mem_inv X (snd (RejectReviewCase r n s))"
  by (rule mem_inv_other [of X s], assumption, rule close_base [of s])
    (auto simp: RejectReviewCase_inv mem_invD close_reviews_grow, auto simp: RejectReviewCase_def Let_def same_defs
      split: option.split)

lemma event_op_mem:
  assumes "mem_inv X s" "event_inv t" "same_invoices s t" "same_reviews s t" "same_refunds s t" "same_merchants s t"
    "deposits t = deposits s" "depositSeq t = depositSeq s" "invoiceEvents t = invoiceEvents s"
    "scanCursor t = scanCursor s" "scanLastEventAt t = scanLastEventAt s"
  shows "mem_inv X t"
proof -
  have k: "keeps_merchants s t" "keeps_invoices s t"
    using assms(3,6) by (simp_all add: keeps_merchants_eq keeps_invoices_eq same_merchants_def same_invoices_def)
  have "base_inv t"
    using mem_invD [OF assms(1)] k assms(2-6)
    by (simp add: base_inv_def same_merchants_inv [of s t] same_reviews_inv [of s t] invoice_inv_frame [of s t]
        refund_inv_frame [of s t])
  then show ?thesis
    using assms by (intro mem_inv_frame [OF assms(1)])
      (simp_all add: same_invoices_def events_grow_def events_of_def reviews_grow_same)
qed

lemma CreateEventSink_mem [inv_intros]: "mem_inv X s \<Longrightarrow> mem_inv X (snd (CreateEventSink req s))"
  by (rule event_op_mem [of X s], assumption, simp add: CreateEventSink_inv mem_invD)
    (auto simp: CreateEventSink_def Let_def same_defs split: raw_message.split json.split EventSinkKind.split)

lemma UpdateEventDelivery_mem [inv_intros]: "mem_inv X s \<Longrightarrow> mem_inv X (snd (UpdateEventDelivery k st a n l s))"
  by (rule event_op_mem [of X s], assumption, simp add: UpdateEventDelivery_inv mem_invD)
    (auto simp: UpdateEventDelivery_def Let_def same_defs split: option.split)

lemma PutInvoiceToken_mem [inv_intros]: "mem_inv X s \<Longrightarrow> mem_inv X (snd (PutInvoiceToken i tok s))"
  by (rule mem_inv_frame [of X s], assumption, simp add: PutInvoiceToken_base mem_invD)
    (auto simp: PutInvoiceToken_def Let_def events_grow_def events_of_def reviews_grow_def reviewed_def)

lemma CreateRefund_mem [inv_intros]:
  assumes inv: "mem_inv X s" shows "mem_inv X (snd (CreateRefund req s))"
proof (cases rule: CreateRefund_cases [of req s])
  case (error e)
  with inv show ?thesis by simp
next
  case (new r)
  let ?u = "s\<lparr>refundSeq := Suc (refundSeq s), env_ticks := Suc (env_ticks s),
    refunds := refunds s @ [\<lparr>rr_Seq = Suc (refundSeq s), rr_Refund = r\<rparr>]\<rparr>"
  have "events_grow s (snd (CreateRefund req s))"
    unfolding new(1) snd_conv
    by (rule events_grow_trans [of s ?u], simp add: events_grow_same same_events_def)
      (auto split: option.split)
  moreover have "base_inv (snd (CreateRefund req s))" by (rule CreateRefund_base [OF mem_invD(1) [OF inv]])
  ultimately show ?thesis
    by (intro mem_inv_frame [OF inv])
      (auto simp: new(1) reviews_grow_def reviewed_def split: option.split)
qed

lemma CreateInvoice_mem [inv_intros]:
  assumes inv: "mem_inv X s" shows "mem_inv X (snd (CreateInvoice req s))"
proof (cases rule: CreateInvoice_cases [of req s])
  case (same r t)
  then have "mem_inv X t"
    using touched_frame [OF same(2)] touched_base [OF mem_invD(1) [OF inv] same(2)] same(2)
    by (intro mem_inv_frame [OF inv])
      (auto simp: events_grow_same reviews_grow_same, auto simp: touched_def)
  with same show ?thesis by simp
next
  case (new iid iv)
  let ?u = "before_created iid iv s"
  let ?t = "appendInvoiceEventLocked iid InvoiceEventInvoiceCreated (inv_CreatedAt iv) None None ?u"
  have fresh: "map_of (invoices s) iid = None" using invoice_id_fresh [OF mem_invD(8) [OF inv]] new(2) by simp
  have iid0: "iid \<noteq> []" using new(2) by simp
  have bu: "base_inv ?u" "keeps_invoices s ?u"
    by (rule before_created_base [OF mem_invD(1) [OF inv]]; use new in simp)+
  have su: "statics ?u iid \<noteq> None" by (simp add: statics_def before_created_def)
  have bt: "base_inv ?t" using bu(1) su by (intro append_base) simp_all
  have grow: "events_grow s ?t"
    by (rule events_grow_trans [OF events_grow_same events_grow_append]) (simp add: before_created_def same_events_def)
  have rg: "reviews_grow s ?t" by (simp add: reviews_grow_def reviewed_def before_created_def)
  have fr: "deposits ?t = deposits s" "depositSeq ?t = depositSeq s" "invoices ?t = mput iid iv (invoices s)"
    "scanCursor ?t = scanCursor s" "scanLastEventAt ?t = scanLastEventAt s"
    by (simp_all add: before_created_def)
  have k: "keeps_invoices s ?t" using bu(2) by (simp add: keeps_invoices_def statics_def)
  have "has_event ?t iid (InvoiceEventInvoiceCreated, None, None)"
    using has_event_append [of iid ?u None None] iid0 bu(1) by (simp add: base_inv_def event_inv_def)
  then have told: "told_ok ?t iid iv"
    using new(9) by (simp add: told_ok_def manual_reason_def)
  have unowned: "d_InvoiceID d \<noteq> iid" if "map_of (deposits s) key = Some d" for key d
  proof
    assume i: "d_InvoiceID d = iid"
    have "deposit_ok s key d" using that mem_invD(2) [OF inv] by (simp add: deposit_inv_def)
    with i iid0 fresh show False by (simp add: deposit_ok_def statics_def)
  qed
  have "received ?t iid sts = 0" for sts
  proof -
    have "deposit_share iid sts (snd p) = 0" if "p \<in> set (deposits s)" for p
    proof -
      have "map_of (deposits s) (fst p) = Some (snd p)"
        using that mem_invD(2) [OF inv] by (simp add: deposit_inv_def wf_map_set_iff [symmetric])
      from unowned [OF this] show ?thesis by (simp add: deposit_share_def)
    qed
    then show ?thesis by (simp add: received_def before_created_def cong: map_cong)
  qed
  moreover have "\<not> owned ?t iid" using unowned by (auto simp: owned_def before_created_def)
  ultimately have acct: "acct_ok ?t iid iv" using new(9-11) by (simp add: acct_ok_def)
  have "acct_inv X ?t"
    using mem_invD(3) [OF inv] acct fr(1,3) by (auto simp: acct_inv_def acct_ok_cong [of ?t s])
  moreover have "told_inv ?t"
    using told told_ok_grow [OF _ grow rg] mem_invD(4) [OF inv] fr(3) by (auto simp: told_inv_def)
  ultimately have "mem_inv X ?t"
    using bt deposit_inv_frame [OF mem_invD(2) [OF inv] fr(1,2) k grow] scan_inv_frame [OF mem_invD(5) [OF inv] fr(4,5)]
    by (simp add: mem_inv_def)
  then show ?thesis unfolding new(1) by simp
qed

theorem mem_step_inv: "mem_step s t \<Longrightarrow> mem_inv {} s \<Longrightarrow> mem_inv {} t"
  by (erule mem_step.cases) (simp_all add: inv_intros)

theorem mem_reach_inv: "mem_reach clock prio s \<Longrightarrow> mem_inv {} s"
  by (induction rule: mem_reach.induct) (auto intro: mem_inv_NewMem mem_step_inv)

section \<open>What no step ever undoes\<close>

text \<open>
  Merchants stay, their wallets do not change, a revoked API key stays revoked, invoices keep
  every field but the amounts, the status and the time of their update, logs, outbox and
  refunds only grow at their end, a deposit keeps its sequence number and, once attributed,
  its invoice, and scan cursors do not go back.
\<close>

definition extends :: "'a list \<Rightarrow> 'a list \<Rightarrow> bool" where
  "extends xs ys \<longleftrightarrow> (\<exists>new. ys = xs @ new)"

definition keeps_wallets :: "MemStore \<Rightarrow> MemStore \<Rightarrow> bool" where
  "keeps_wallets s t \<longleftrightarrow> (\<forall>mid w. map_of (merchantWallet s) mid = Some w \<longrightarrow> map_of (merchantWallet t) mid = Some w)"

definition revoked :: "MemStore \<Rightarrow> string \<Rightarrow> bool" where
  "revoked s key \<longleftrightarrow> (\<exists>r. map_of (apiKeysByID s) key = Some r \<and> ak_RevokedAt r \<noteq> None)"

definition keeps_deposits :: "MemStore \<Rightarrow> MemStore \<Rightarrow> bool" where
  "keeps_deposits s t \<longleftrightarrow> (\<forall>k d. map_of (deposits s) k = Some d \<longrightarrow>
     (\<exists>d'. map_of (deposits t) k = Some d' \<and> d_Seq d' = d_Seq d \<and> (d_InvoiceID d \<noteq> [] \<longrightarrow> d_InvoiceID d' = d_InvoiceID d)))"

definition evolves :: "MemStore \<Rightarrow> MemStore \<Rightarrow> bool" where
  "evolves s t \<longleftrightarrow> keeps_merchants s t \<and> keeps_wallets s t \<and> (\<forall>key. revoked s key \<longrightarrow> revoked t key) \<and>
     keeps_invoices s t \<and> events_grow s t \<and> extends (outbox s) (outbox t) \<and> extends (refunds s) (refunds t) \<and>
     keeps_deposits s t \<and> (\<forall>w. scan_cursor s w \<le> scan_cursor t w)"

lemma extends_refl [simp]: "extends xs xs"
  by (simp add: extends_def)

lemma extends_snoc [simp]: "extends xs (xs @ ys)"
  by (simp add: extends_def)

lemma extends_trans: "extends xs ys \<Longrightarrow> extends ys zs \<Longrightarrow> extends xs zs"
  by (auto simp: extends_def)

lemma evolves_trans [trans]:
  assumes "evolves s t" "evolves t u" shows "evolves s u"
proof -
  have "keeps_deposits s u"
    using assms unfolding evolves_def keeps_deposits_def by metis
  moreover have "scan_cursor s w \<le> scan_cursor u w" for w
    using assms unfolding evolves_def by (meson order.trans)
  moreover have "extends (outbox s) (outbox u)" "extends (refunds s) (refunds u)" "events_grow s u"
    using assms extends_trans [of "outbox s" "outbox t" "outbox u"] extends_trans [of "refunds s" "refunds t" "refunds u"]
      events_grow_trans [of s t u] by (simp_all add: evolves_def)
  moreover have "keeps_merchants s u" "keeps_wallets s u" "keeps_invoices s u" "revoked s key \<longrightarrow> revoked u key" for key
    using assms by (simp_all add: evolves_def keeps_merchants_def keeps_wallets_def keeps_invoices_def)
  ultimately show ?thesis by (simp add: evolves_def)
qed

text \<open>Steps that leave most of the store alone.\<close>

lemma evolvesI:
  assumes "merchants t = merchants s" "merchantWallet t = merchantWallet s" "apiKeysByID t = apiKeysByID s"
    "statics t = statics s" "events_grow s t" "extends (outbox s) (outbox t)" "refunds t = refunds s"
    "deposits t = deposits s" "scanCursor t = scanCursor s"
  shows "evolves s t"
  using assms by (simp add: evolves_def keeps_merchants_eq keeps_wallets_def revoked_def keeps_invoices_def
      keeps_deposits_def scan_cursor_def)

lemma evolves_refl [simp]: "evolves s s" "evolves s (ticked s)"
  by (rule evolvesI; simp add: statics_def fun_eq_iff)+

lemma enqueue_outbox: "extends (outbox s) (outbox (enqueueOutboxLocked iid typ t dep ref s))"
  by (simp add: enqueueOutboxLocked_def Let_def split: option.split)

lemma append_evolves: "evolves s (appendInvoiceEventLocked iid typ t dep ref s)"
proof (rule evolvesI)
  show "extends (outbox s) (outbox (appendInvoiceEventLocked iid typ t dep ref s))"
  proof -
    have "extends (outbox s) (outbox (enqueueOutboxLocked iid typ t dep ref u))" if "outbox u = outbox s" for u
      using enqueue_outbox [of u] that by simp
    then show ?thesis by (simp add: appendInvoiceEventLocked_def Let_def)
  qed
qed (simp_all add: statics_def fun_eq_iff)

lemma review_evolves: "evolves s (createReviewCaseLocked m i r n w x a s)"
  by (rule evolvesI) (simp_all add: statics_def fun_eq_iff events_grow_same same_events_def)

lemma status_event_evolves: "evolves s (status_event iid st now s)"
  by (simp add: status_event_alt append_evolves split: option.split)

lemma status_review_evolves: "evolves s (status_review iv iid now s)"
  by (simp add: status_review_def review_evolves)

lemma recompute_evolves: "evolves s (recomputeInvoiceLocked iid s)"
proof (cases "map_of (invoices s) iid")
  case None
  then show ?thesis by (simp add: recompute_none)
next
  case (Some iv0)
  define u where "u = (ticked s)\<lparr>invoices := mput iid (recomputed s iid iv0) (invoices s)\<rparr>"
  have "statics u = statics s" by (rule statics_update [OF Some]) (simp_all add: u_def)
  then have "evolves s u"
    by (intro evolvesI) (simp_all add: u_def events_grow_same same_events_def)
  then show ?thesis
    unfolding recomputeInvoiceLocked_eq [OF Some] u_def [symmetric]
    using evolves_trans [OF evolves_trans [OF _ status_event_evolves] status_review_evolves]
    by (simp add: Let_def u_def [symmetric])
qed

lemma recompute_all_evolves: "evolves s (foldl (\<lambda>s i. recomputeInvoiceLocked i s) s ids)"
proof (induction ids arbitrary: s)
  case (Cons i ids)
  show ?case using evolves_trans [OF recompute_evolves Cons.IH] by simp
qed simp

lemma put_deposit_evolves:
  assumes "\<And>d. map_of (deposits s) k = Some d \<Longrightarrow> d_Seq d' = d_Seq d \<and> (d_InvoiceID d = [] \<or> d_InvoiceID d = d_InvoiceID d')"
    and t: "t = s\<lparr>env_ticks := n, depositSeq := q, deposits := mput k d' (deposits s)\<rparr>"
  shows "evolves s t"
proof -
  have "keeps_deposits s t"
    using assms(1) unfolding keeps_deposits_def t by fastforce
  then show ?thesis
    by (simp add: evolves_def t keeps_merchants_eq keeps_wallets_def revoked_def keeps_invoices_eq
        scan_cursor_def events_grow_same same_events_def)
qed

lemma applyDeposit_evolves:
  assumes "st \<noteq> DepositConfirmed"
  shows "evolves s (applyDepositLocked ev w0 x a addr0 am h st None s)"
proof (cases "addr0 = [] \<or> \<not> am \<le> 2 ^ 63 - 1")
  case True
  then show ?thesis by (auto simp: applyDepositLocked_def Let_def)
next
  case False
  define w where "w = (if w0 = [] then se_WalletID ev else w0)"
  define addr where "addr = ToLower (TrimSpace addr0)"
  define d where "d = stored_deposit ev w x a addr (int am) h st s"
  define u where "u = with_deposit (deposit_key w x a) d s"
  have am: "am \<le> 2 ^ 63 - 1" and addr0: "addr0 \<noteq> []" using False by simp_all
  note eq = applyDepositLocked_eq [OF assms addr0 am, where ev = ev and ?w0.0 = w0 and x = x and a = a and h = h
      and s = s, folded w_def addr_def, folded d_def, folded u_def]
  have "evolves s u"
    unfolding u_def with_deposit_def
    by (rule put_deposit_evolves [OF _ refl]) (simp add: d_def stored_deposit_def Let_def)
  moreover have "evolves u (deposit_event i st t ref u)" for i t ref
    using assms by (simp add: deposit_event_alt append_evolves)
  ultimately show ?thesis
    unfolding eq using evolves_trans [OF evolves_trans recompute_evolves] evolves_trans [OF _ review_evolves]
    by simp
qed

lemma apply_kind_evolves: "apply_kind ev s = Inr u \<Longrightarrow> evolves s u"
  by (erule apply_kind_cases) (auto intro: applyDeposit_evolves)

lemma ApplyScanEvent_evolves:
  "evolves s (snd (ApplyScanEvent ev s))"
proof (cases rule: ApplyScanEvent_cases [of ev s])
  case (applied u t n)
  have cur: "scanCursor u = scanCursor s"
    by (cases rule: apply_kind_cases [OF applied(1)]) (simp_all add: applyDepositLocked_frame)
  let ?v = "u\<lparr>env_ticks := n, scanCursor := mput (TrimSpace (se_WalletID ev)) (se_Cursor ev) (scanCursor u),
         scanLastEventAt := mput (TrimSpace (se_WalletID ev)) t (scanLastEventAt u)\<rparr>"
  have "evolves u ?v"
    using applied(5) cur
    by (auto simp: evolves_def keeps_merchants_eq keeps_wallets_def revoked_def keeps_invoices_eq
        scan_cursor_def events_grow_same same_events_def keeps_deposits_def)
  with apply_kind_evolves [OF applied(1)] show ?thesis unfolding applied(2) snd_conv by (rule evolves_trans)
qed simp

lemma confirm_deposit_evolves:
  assumes "map_of (deposits s) k = Some d" "confirm_deposit best now (s, aff) (k, d) = (t, aff')"
  shows "evolves s t" "\<And>k'. k' \<noteq> k \<Longrightarrow> map_of (deposits t) k' = map_of (deposits s) k'"
proof -
  have "evolves s t \<and> (\<forall>k'. k' \<noteq> k \<longrightarrow> map_of (deposits t) k' = map_of (deposits s) k')"
  proof (cases rule: confirm_deposit_cases [of best now s aff k d])
    case skip
    with assms(2) show ?thesis by simp
  next
    case (confirm iv)
    let ?u = "s\<lparr>deposits := mput k (d\<lparr>d_Status := DepositConfirmed,
       d_ConfirmedHeight := Some (wrap64 (d_Height d + required_confs iv - 1)), d_UpdatedAt := now\<rparr>) (deposits s)\<rparr>"
    have "evolves s ?u"
      by (rule put_deposit_evolves [where q = "depositSeq s" and n = "env_ticks s"]) (use assms(1) in simp_all)
    then show ?thesis
      using confirm(5) assms(2) append_evolves [of ?u] evolves_trans by auto
  qed
  then show "evolves s t" "\<And>k'. k' \<noteq> k \<Longrightarrow> map_of (deposits t) k' = map_of (deposits s) k'" by blast+
qed

lemma confirm_deposits_evolves:
  assumes "distinct (map fst kds)" "\<And>k d. (k, d) \<in> set kds \<Longrightarrow> map_of (deposits s) k = Some d"
    "foldl (confirm_deposit best now) (s, aff) kds = (t, aff')"
  shows "evolves s t"
  using assms
proof (induction kds arbitrary: s aff)
  case (Cons kd kds)
  obtain k d where kd: "kd = (k, d)" by (cases kd)
  obtain s1 aff1 where c: "confirm_deposit best now (s, aff) (k, d) = (s1, aff1)" by fastforce
  have d: "map_of (deposits s) k = Some d" using Cons.prems(2) kd by simp
  have "map_of (deposits s1) k' = Some e" if "(k', e) \<in> set kds" for k' e
  proof -
    have "k' \<noteq> k" using Cons.prems(1) that kd by (force simp: image_iff)
    with confirm_deposit_evolves(2) [OF d c] Cons.prems(2) that show ?thesis by simp
  qed
  with Cons.IH [of s1 aff1] Cons.prems c kd have "evolves s1 t" by simp
  with confirm_deposit_evolves(1) [OF d c] show ?case by (rule evolves_trans)
qed simp

lemma UpdateInvoiceConfirmations_evolves:
  assumes "deposit_inv s" shows "evolves s (snd (UpdateInvoiceConfirmations best s))"
proof -
  let ?s = "ticked s"
  obtain t aff where c: "foldl (confirm_deposit best (time_Now s)) (?s, []) (ranged ?s (deposits s)) = (t, aff)"
    by fastforce
  have wf: "wf_map (deposits s)" using assms by (simp add: deposit_inv_def)
  have "evolves ?s t"
    using wf by (intro confirm_deposits_evolves [OF _ _ c]) (simp_all add: wf_map_set_iff, simp add: wf_map_def [symmetric])
  then have "evolves s (ticked t)" using evolves_trans evolves_refl(2) by blast
  with recompute_all_evolves [of "ticked t"] evolves_trans show ?thesis
    using c by (auto simp: UpdateInvoiceConfirmations_def Let_def)
qed

text \<open>The operations on merchants, keys, sinks, tokens and reviews.\<close>

lemma evolves_merchants:
  assumes "same_reviews s t" "same_invoices s t" "same_events s t" "same_refunds s t" "deposits t = deposits s"
    "scanCursor t = scanCursor s" "keeps_merchants s t" "keeps_wallets s t" "\<And>key. revoked s key \<Longrightarrow> revoked t key"
  shows "evolves s t"
  using assms by (simp add: evolves_def keeps_invoices_eq events_grow_same keeps_deposits_def scan_cursor_def
      same_invoices_def same_events_def same_refunds_def)

lemma merchant_id_fresh:
  assumes "merchant_inv s" shows "\<not> has_key (mk_id ''m_'' (Suc (merchantSeq s))) (merchants s)"
proof
  assume "has_key (mk_id ''m_'' (Suc (merchantSeq s))) (merchants s)"
  with assms obtain n where "n \<le> merchantSeq s" "mk_id ''m_'' (Suc (merchantSeq s)) = mk_id ''m_'' n"
    unfolding merchant_inv_def has_key_def by blast
  then show False by simp
qed

lemma api_key_fresh:
  assumes "merchant_inv s" shows "map_of (apiKeysByID s) (mk_id ''key_'' (Suc (apiKeySeq s))) = None"
proof (rule ccontr)
  assume "\<not> ?thesis"
  then obtain k where "map_of (apiKeysByID s) (mk_id ''key_'' (Suc (apiKeySeq s))) = Some k" by auto
  with assms obtain n where "n \<le> apiKeySeq s" "mk_id ''key_'' (Suc (apiKeySeq s)) = mk_id ''key_'' n"
    unfolding merchant_inv_def by blast
  then show False by simp
qed

lemma merchant_ops_evolve:
  "evolves s (snd (CreateMerchant n st s))" "evolves s (snd (UpdateMerchantSettings m st s))"
  "evolves s (snd (SetMerchantWallet m w s))" "evolves s (snd (NextAddressIndex m s))"
  "evolves s (snd (RevokeMerchantAPIKey k s))"
  by (rule evolves_merchants; auto simp: merchant_op_defs Let_def same_defs keeps_merchants_def keeps_wallets_def
      revoked_def has_key_def split: option.split)+

lemma CreateMerchantAPIKey_evolves:
  assumes "merchant_inv s" shows "evolves s (snd (CreateMerchantAPIKey raw m l s))"
proof -
  have "revoked s key \<Longrightarrow> key \<noteq> mk_id ''key_'' (Suc (apiKeySeq s))" for key
    using api_key_fresh [OF assms] by (auto simp: revoked_def)
  then show ?thesis
    by (intro evolves_merchants) (auto simp: CreateMerchantAPIKey_def Let_def same_defs keeps_merchants_def
        keeps_wallets_def revoked_def split: option.split)
qed

lemma other_ops_evolve:
  "evolves s (snd (PutInvoiceToken i tok s))" "evolves s (snd (ResolveReviewCase r n s))"
  "evolves s (snd (RejectReviewCase r n s))" "evolves s (snd (UpdateEventDelivery d st a nr le s))"
  "evolves s (snd (CreateEventSink req s))"
  by (rule evolvesI; auto simp: PutInvoiceToken_def ResolveReviewCase_def RejectReviewCase_def UpdateEventDelivery_def
      CreateEventSink_def Let_def statics_def fun_eq_iff events_grow_def events_of_def
      split: option.split raw_message.split json.split EventSinkKind.split)+

lemma CreateRefund_evolves: "evolves s (snd (CreateRefund req s))"
proof (cases rule: CreateRefund_cases [of req s])
  case (new r)
  let ?u = "s\<lparr>refundSeq := Suc (refundSeq s), env_ticks := Suc (env_ticks s),
    refunds := refunds s @ [\<lparr>rr_Seq = Suc (refundSeq s), rr_Refund = r\<rparr>]\<rparr>"
  have "evolves s ?u"
    by (simp add: evolves_def keeps_merchants_eq keeps_wallets_def revoked_def keeps_invoices_eq scan_cursor_def
        events_grow_same same_events_def keeps_deposits_def)
  with append_evolves [of ?u] evolves_trans show ?thesis
    unfolding new(1) by (auto split: option.split)
qed simp

lemma CreateInvoice_evolves:
  assumes "base_inv s" shows "evolves s (snd (CreateInvoice req s))"
proof (cases rule: CreateInvoice_cases [of req s])
  case (same r t)
  have "evolves s t"
    by (rule evolvesI)
      (use same(2) in \<open>auto simp: touched_def statics_def fun_eq_iff events_grow_same same_events_def\<close>)
  with same(1) show ?thesis by simp
next
  case (new iid iv)
  have "keeps_invoices s (before_created iid iv s)"
    by (rule before_created_base [OF assms]; use new in simp)
  then have "evolves s (before_created iid iv s)"
    by (simp add: evolves_def keeps_merchants_eq keeps_wallets_def revoked_def scan_cursor_def
        events_grow_same same_events_def keeps_deposits_def before_created_def)
  with append_evolves evolves_trans show ?thesis unfolding new(1) by auto
qed

theorem mem_step_evolves:
  assumes "mem_step s t" "mem_inv {} s" shows "evolves s t"
  using assms
  by (cases rule: mem_step.cases)
    (simp_all add: merchant_ops_evolve other_ops_evolve CreateMerchantAPIKey_evolves CreateInvoice_evolves
      CreateRefund_evolves ApplyScanEvent_evolves UpdateInvoiceConfirmations_evolves mem_invD)

text \<open>Runs: from a reachable state, through any number of steps.\<close>

abbreviation mem_steps :: "MemStore \<Rightarrow> MemStore \<Rightarrow> bool" where
  "mem_steps \<equiv> mem_step\<^sup>*\<^sup>*"

lemma mem_steps_inv: "mem_steps s t \<Longrightarrow> mem_inv {} s \<Longrightarrow> mem_inv {} t"
  by (induction rule: rtranclp_induct) (auto intro: mem_step_inv)

lemma mem_steps_evolve: "mem_steps s t \<Longrightarrow> mem_inv {} s \<Longrightarrow> evolves s t"
proof (induction rule: rtranclp_induct)
  case (step t u)
  then have "evolves s t" "evolves t u"
    using mem_step_evolves mem_steps_inv by blast+
  then show ?case by (rule evolves_trans)
qed simp

section \<open>Following the listings by cursor\<close>

interpretation refund_log: cursor_log "\<lambda>r. int (rr_Seq r)" refunds refund_inv
proof
  fix s assume inv: "refund_inv s"
  then have "map (\<lambda>r. int (rr_Seq r)) (refunds s) = map int [1..<Suc (refundSeq s)]"
    by (metis (no_types, lifting) list.map_comp comp_def map_eq_conv refund_inv_def)
  then show "sorted_wrt (<) (map (\<lambda>r. int (rr_Seq r)) (refunds s))"
    by (simp add: sorted_wrt_map del: upt_Suc)
  fix r assume "r \<in> set (refunds s)"
  then have "rr_Seq r \<in> set (map rr_Seq (refunds s))" by simp
  with inv have "rr_Seq r \<in> set [1..<Suc (refundSeq s)]" by (simp only: refund_inv_def)
  then show "0 < int (rr_Seq r)" by (auto split: if_splits)
qed

text \<open>Deposits and invoices are sorted by the listing itself.\<close>

definition deposit_log :: "MemStore \<Rightarrow> depositRecord list" where
  "deposit_log s = sort_key d_Seq (map snd (deposits s))"

definition invoice_log :: "MemStore \<Rightarrow> Invoice list" where
  "invoice_log s = sort_key invoice_seq (map snd (invoices s))"

lemma sort_key_strict:
  fixes f :: "'a \<Rightarrow> 'b :: linorder"
  assumes "distinct (map f xs)" shows "sorted_wrt (<) (map f (sort_key f xs))"
proof -
  have "mset (map f (sort_key f xs)) = mset (map f xs)" by simp
  then have "distinct (map f (sort_key f xs))" using assms mset_eq_imp_distinct_iff by blast
  then show ?thesis by (simp add: strict_sorted_iff)
qed

lemma distinct_values:
  assumes "wf_map m" "\<And>k v k' v'. map_of m k = Some v \<Longrightarrow> map_of m k' = Some v' \<Longrightarrow> f v = f v' \<Longrightarrow> k = k'"
  shows "distinct (map f (map snd m))"
proof -
  have "inj_on (\<lambda>p. f (snd p)) (set m)"
  proof (rule inj_onI)
    fix p q assume pq: "p \<in> set m" "q \<in> set m" "f (snd p) = f (snd q)"
    then have "map_of m (fst p) = Some (snd p)" "map_of m (fst q) = Some (snd q)"
      using assms(1) by (simp_all add: wf_map_set_iff [symmetric])
    with assms(2) pq(3) show "p = q" by (metis option.inject prod.expand)
  qed
  moreover have "distinct m" using assms(1) by (simp add: wf_map_def distinct_map)
  ultimately show ?thesis by (simp add: distinct_map comp_def)
qed

lemma invoice_seq_id:
  assumes "inv_InvoiceID iv = mk_id ''inv_'' n" "0 < n" "n < 2 ^ 63"
  shows "invoice_seq iv = int n"
proof -
  have "SplitN2 (CHR ''_'') (mk_id ''inv_'' n) = [''inv'', hex016 n]"
    using SplitN2_append_sep [of "CHR ''_''" "''inv''" "hex016 n"] by (simp add: mk_id_def)
  with assms show ?thesis by (simp add: invoice_seq_def ParseInt_hex016)
qed

interpretation deposit_pages: cursor_log "\<lambda>d. int (d_Seq d)" deposit_log deposit_inv
proof
  fix s assume inv: "deposit_inv s"
  have "distinct (map d_Seq (map snd (deposits s)))"
    using inv unfolding deposit_inv_def by (intro distinct_values) blast+
  from sort_key_strict [OF this] show "sorted_wrt (<) (map (\<lambda>d. int (d_Seq d)) (deposit_log s))"
    by (simp add: deposit_log_def sorted_wrt_map)
  fix d assume "d \<in> set (deposit_log s)"
  then obtain k where "(k, d) \<in> set (deposits s)" by (auto simp: deposit_log_def)
  with inv have "deposit_ok s k d" by (simp add: deposit_inv_def wf_map_set_iff)
  then show "0 < int (d_Seq d)" by (simp add: deposit_ok_def)
qed

interpretation invoice_pages: cursor_log invoice_seq invoice_log "\<lambda>s. invoice_inv s \<and> invoiceSeq s < 2 ^ 63"
proof
  fix s assume good: "invoice_inv s \<and> invoiceSeq s < 2 ^ 63"
  have seq: "\<exists>n. k = mk_id ''inv_'' n \<and> 0 < n \<and> invoice_seq iv = int n" if "map_of (invoices s) k = Some iv" for k iv
  proof -
    from invoice_invD(2) [OF conjunct1 [OF good] that] obtain n
      where "0 < n" "n \<le> invoiceSeq s" "k = mk_id ''inv_'' n" "inv_InvoiceID iv = k"
      unfolding invoice_ok_def by blast
    with good invoice_seq_id [of iv n] show ?thesis by auto
  qed
  have wf: "wf_map (invoices s)" using good by (simp add: invoice_inv_def)
  have "distinct (map invoice_seq (map snd (invoices s)))"
    using seq by (intro distinct_values [OF wf]) (metis of_nat_eq_iff)
  from sort_key_strict [OF this] show "sorted_wrt (<) (map invoice_seq (invoice_log s))"
    by (simp add: invoice_log_def)
  fix iv assume "iv \<in> set (invoice_log s)"
  then obtain k where "(k, iv) \<in> set (invoices s)" by (auto simp: invoice_log_def)
  with wf have "map_of (invoices s) k = Some iv" by (simp add: wf_map_set_iff)
  from seq [OF this] show "0 < invoice_seq iv" by auto
qed

end
