(* ===== verification/Demo.thy ===== *)
theory Demo
  imports MemModel "HOL-Library.Code_Target_Nat"
begin

text \<open>
  A run of the store on concrete values, evaluated by the kernel: a merchant with a wallet
  and a webhook sink issues an invoice, the scanner reports a deposit to the invoice's address, and
  the deposit is confirmed at the height the invoice asks for. The theorems about reachable states are
  instantiated at the states of this run.
\<close>

definition demo_clock :: "nat \<Rightarrow> time" where
  "demo_clock n = 1000 + int n"

definition demo_order :: "nat \<Rightarrow> string \<Rightarrow> nat" where
  "demo_order n k = 0"

definition demo_settings :: MerchantSettings where
  "demo_settings = \<lparr>set_InvoiceTTLSeconds = 0, set_RequiredConfirmations = 3,
     set_Policies = \<lparr>pol_LatePayment = LatePaymentMarkPaidLate, pol_PartialPayment = PartialPaymentAccept,
       pol_Overpayment = OverpaymentMarkOverpaid\<rparr>\<rparr>"

definition demo_new :: MemStore where
  "demo_new = NewMem demo_clock demo_order"

definition demo_merchant :: MemStore where
  "demo_merchant = snd (CreateMerchant ''Acme'' demo_settings demo_new)"

definition demo_wallet :: MemStore where
  "demo_wallet = snd (SetMerchantWallet ''m_0000000000000001''
     \<lparr>mw_MerchantID = [], mw_WalletID = ''w1'', mw_UFVK = ''ufvk'', mw_Chain = ''regtest'', mw_UAHRP = ''j'',
      mw_CoinType = 1, mw_CreatedAt = 0\<rparr> demo_merchant)"

definition demo_sink_req :: EventSinkCreate where
  "demo_sink_req = \<lparr>skc_MerchantID = ''m_0000000000000001'', skc_Kind = EventSinkWebhook,
     skc_Config = RawJson (JObj [(''url'', JStr ''http://x'')])\<rparr>"

definition demo_sink :: MemStore where
  "demo_sink = snd (CreateEventSink demo_sink_req demo_wallet)"

definition demo_req :: InvoiceCreate where
  "demo_req = \<lparr>ic_MerchantID = ''m_0000000000000001'', ic_ExternalOrderID = ''o1'', ic_WalletID = ''w1'',
     ic_AddressIndex = 0, ic_Address = ''j1abc'', ic_CreatedAfterHeight = 10, ic_CreatedAfterHash = ''h'',
     ic_AmountZat = 500, ic_RequiredConfirmations = 3, ic_Policies = set_Policies demo_settings,
     ic_ExpiresAt = None\<rparr>"

definition demo_invoice :: MemStore where
  "demo_invoice = snd (CreateInvoice demo_req demo_sink)"

definition demo_payload :: DepositEventPayload where
  "demo_payload = zero_DepositEventPayload\<lparr>de_Version := ''v1'', de_WalletID := ''w1'', de_TxID := ''t1'',
     de_Height := 20, de_ActionIndex := 0, de_AmountZatoshis := 500, de_RecipientAddress := ''j1abc''\<rparr>"

definition demo_event :: ScanEvent where
  "demo_event = \<lparr>se_WalletID = ''w1'', se_Cursor = 1, se_Kind = ''DepositEvent'', se_Height = 20,
     se_Payload = RawJson (enc_DepositEventPayload demo_payload), se_OccurredAt = 77\<rparr>"

definition demo_detected :: MemStore where
  "demo_detected = snd (ApplyScanEvent demo_event demo_invoice)"

definition demo_paid :: MemStore where
  "demo_paid = snd (UpdateInvoiceConfirmations 22 demo_detected)"

definition demo_refund_req :: RefundCreate where
  "demo_refund_req = \<lparr>rfc_MerchantID = ''m_0000000000000001'', rfc_InvoiceID = ''inv_0000000000000001'',
     rfc_ExternalRefundID = [], rfc_ToAddress = ''j1back'', rfc_AmountZat = 5, rfc_SentTxID = [], rfc_Notes = []\<rparr>"

definition demo_refunded :: MemStore where
  "demo_refunded = snd (CreateRefund demo_refund_req demo_paid)"

lemmas demo_states = demo_merchant_def demo_wallet_def demo_sink_def demo_invoice_def demo_detected_def
  demo_paid_def demo_refunded_def

lemma demo_reach:
  "mem_reach demo_clock demo_order demo_new" "mem_reach demo_clock demo_order demo_sink"
  "mem_reach demo_clock demo_order demo_invoice" "mem_reach demo_clock demo_order demo_detected"
  "mem_reach demo_clock demo_order demo_paid" "mem_reach demo_clock demo_order demo_refunded"
proof -
  show new: "mem_reach demo_clock demo_order demo_new" unfolding demo_new_def by (rule mem_init)
  show sink: "mem_reach demo_clock demo_order demo_sink"
    unfolding demo_sink_def demo_wallet_def demo_merchant_def by (intro mem_next [OF _ mem_step.intros(14)]
        mem_next [OF _ mem_step.intros(3)] mem_next [OF _ mem_step.intros(1)] new)
  show inv: "mem_reach demo_clock demo_order demo_invoice"
    unfolding demo_invoice_def by (rule mem_next [OF sink mem_step.intros(7)])
  show det: "mem_reach demo_clock demo_order demo_detected"
    unfolding demo_detected_def by (rule mem_next [OF inv mem_step.intros(9)])
  show paid: "mem_reach demo_clock demo_order demo_paid"
    unfolding demo_paid_def by (rule mem_next [OF det mem_step.intros(10)])
  show "mem_reach demo_clock demo_order demo_refunded"
    unfolding demo_refunded_def by (rule mem_next [OF paid mem_step.intros(11)])
qed

text \<open>What the last state holds, evaluated once.\<close>

definition demo_iid :: string where
  "demo_iid = ''inv_0000000000000001''"

definition demo_key :: string where
  "demo_key = ''w1|t1|0''"

definition demo_check :: "MemStore \<Rightarrow> bool" where
  "demo_check s \<longleftrightarrow>
     map_option inv_Status (map_of (invoices s) demo_iid) = Some InvoiceConfirmed \<and>
     map_option inv_ReceivedConfirmedZat (map_of (invoices s) demo_iid) = Some 500 \<and>
     map_option d_InvoiceID (map_of (deposits s) demo_key) = Some demo_iid \<and>
     map_option d_Status (map_of (deposits s) demo_key) = Some DepositConfirmed \<and>
     map ie_Type (events_of s demo_iid) = [InvoiceEventInvoiceCreated, InvoiceEventDepositDetected,
       InvoiceEventDepositConfirmed, InvoiceEventInvoicePaid, InvoiceEventRefundRequested] \<and>
     map oe_Seq (outbox s) = [1, 2, 3, 4, 5] \<and> length (deliveries s) = 5 \<and> length (refunds s) = 1 \<and>
     map_of (deliveries s) ''del_0000000000000001'' \<noteq> None \<and> invoiceSeq s = 1 \<and>
     invoiceEventSeq s = 5 \<and> length (invoices s) = 1 \<and> length (deposits s) = 1 \<and> scan_cursor s ''w1'' = 1"

lemma demo_checked: "demo_check demo_refunded"
  by code_simp

end
