(* ===== verification/OutboxProps.thy ===== *)
theory OutboxProps
  imports OutboxWorker Demo
begin

text \<open>
  The outbox worker on the in-memory store: the store keeps the contract the worker relies on, and
  the properties of a pass follow.
\<close>

section \<open>The in-memory store as a store of deliveries\<close>

definition mem_deliveries :: "MemStore \<Rightarrow> string \<Rightarrow> EventDelivery option" where
  "mem_deliveries s = map_of (deliveries s)"

definition mem_due :: "MemStore \<Rightarrow> time \<Rightarrow> DueDelivery \<Rightarrow> bool" where
  "mem_due s now t \<longleftrightarrow> (\<exists>k d. map_of (deliveries s) k = Some d \<and> due_delivery s now d = Some t)"

lemma due_delivery_SomeD: "due_delivery s now d = Some t \<Longrightarrow>
    dd_Delivery t = d \<and> dl_Status d = EventDeliveryPending \<and>
    (\<forall>r. dl_NextRetryAt d = Some r \<longrightarrow> r \<le> now) \<and>
    map_of (eventSinks s) (dl_SinkID d) = Some (dd_Sink t) \<and> sk_Status (dd_Sink t) = EventSinkActive \<and>
    findEvent s (dl_EventID d) = Some (dd_Event t)"
  by (auto simp: due_delivery_def split: if_splits option.splits)

lemma delivery_id: "event_inv s \<Longrightarrow> map_of (deliveries s) k = Some d \<Longrightarrow> dl_DeliveryID d = k"
  by (auto simp: event_inv_def delivery_inv_def delivery_ok_def)

lemma delivery_id_plain: "event_inv s \<Longrightarrow> map_of (deliveries s) k = Some d \<Longrightarrow> TrimSpace k = k \<and> k \<noteq> []"
proof -
  assume a: "event_inv s" "map_of (deliveries s) k = Some d"
  then have "delivery_ok s k d" by (simp add: event_inv_def delivery_inv_def)
  then obtain n where "k = mk_id ''del_'' n" by (auto simp: delivery_ok_def)
  then show ?thesis by (simp add: TrimSpace_mk_id plain_char_def)
qed

lemma mem_due_list:
  assumes "event_inv s" "now \<noteq> 0" "0 < n" "n \<le> 1000"
  shows "\<exists>ts. ListDueDeliveries now n s = (Inr ts, ticked s) \<and> distinct (map task_key ts) \<and>
    int (length ts) \<le> n \<and> (\<forall>t \<in> set ts. mem_due s now t) \<and>
    (int (length ts) < n \<longrightarrow> (\<forall>t. mem_due s now t \<longrightarrow> t \<in> set ts))"
proof -
  let ?xs = "ranged s (deliveries s)"
  let ?all = "List.map_filter (due_delivery s now) (map snd ?xs)"
  let ?ts = "take (nat n) ?all"
  have wf: "wf_map (deliveries s)" using assms(1) by (simp add: event_inv_def delivery_inv_def)
  then have mem: "(k, d) \<in> set ?xs \<longleftrightarrow> map_of (deliveries s) k = Some d" for k d
    by (simp add: wf_map_set_iff)
  have key: "task_key t = k" if "(k, d) \<in> set ?xs" "due_delivery s now d = Some t" for k d t
    using that mem delivery_id [OF assms(1)] due_delivery_SomeD [OF that(2)] by (simp add: task_key_def)
  have "map task_key (List.map_filter (due_delivery s now) (map snd ys)) =
      map fst (filter (\<lambda>kd. due_delivery s now (snd kd) \<noteq> None) ys)" if "set ys \<subseteq> set ?xs" for ys
    using that key by (induction ys) (auto simp: List.map_filter_simps split: option.splits)
  from this [of ?xs] have "map task_key ?all = map fst (filter (\<lambda>kd. due_delivery s now (snd kd) \<noteq> None) ?xs)"
    by blast
  moreover have "distinct (map fst ?xs)" using wf by (simp add: ranged_def)
  ultimately have "distinct (map task_key ?all)" by (simp add: distinct_map_filter)
  then have "distinct (map task_key ?ts)" by (metis distinct_take take_map)
  moreover have all: "t \<in> set ?all \<longleftrightarrow> mem_due s now t" for t
    using mem by (force simp: mem_due_def List.map_filter_def)
  then have "\<forall>t \<in> set ?ts. mem_due s now t" by (meson in_set_takeD)
  moreover have "\<forall>t. mem_due s now t \<longrightarrow> t \<in> set ?ts" if "int (length ?ts) < n"
  proof -
    have "length ?all \<le> nat n" using that assms(3) by auto
    then have "?ts = ?all" by simp
    with all show ?thesis by simp
  qed
  moreover have "ListDueDeliveries now n s = (Inr ?ts, ticked s)"
    using assms(2-4) by (simp add: ListDueDeliveries_def collect_eq Let_def)
  moreover have "int (length ?ts) \<le> n" using assms(3) by auto
  ultimately show ?thesis by blast
qed

lemma event_inv_ticked: "event_inv s \<Longrightarrow> event_inv (ticked s)"
  by (rule event_inv_frame [of s]) (simp_all add: keeps_invoices_def keeps_merchants_def statics_def)

lemma mem_update:
  assumes "event_inv s" "map_of (deliveries s) k = Some d"
  shows "\<exists>u s'. UpdateEventDelivery k status a nx e s = (Inr (), s') \<and> event_inv s' \<and>
    mem_deliveries s' = (mem_deliveries s)(k \<mapsto> d\<lparr>dl_Status := status, dl_Attempt := a, dl_NextRetryAt := nx,
      dl_LastError := e, dl_UpdatedAt := u\<rparr>)"
proof -
  let ?r = "UpdateEventDelivery k status a nx e s"
  have "event_inv (snd ?r)" by (rule UpdateEventDelivery_inv [OF assms(1)])
  moreover have "fst ?r = Inr () \<and> mem_deliveries (snd ?r) = (mem_deliveries s)(k \<mapsto> d\<lparr>dl_Status := status,
      dl_Attempt := a, dl_NextRetryAt := nx, dl_LastError := e, dl_UpdatedAt := time_Now s\<rparr>)"
    using assms(2) delivery_id_plain [OF assms] by (simp add: UpdateEventDelivery_def Let_def mem_deliveries_def)
  ultimately show ?thesis by (metis prod.collapse)
qed

interpretation mem_dels: delivery_store mem_Store event_inv mem_deliveries mem_due
proof unfold_locales
  fix s :: MemStore and now :: time and n :: int
  assume a: "event_inv s" "now \<noteq> 0" "0 < n" "n \<le> 1000"
  show "\<exists>ts s'. st_ListDueDeliveries mem_Store now n s = (Inr ts, s') \<and> event_inv s' \<and>
      mem_deliveries s' = mem_deliveries s \<and> distinct (map task_key ts) \<and> int (length ts) \<le> n \<and>
      (\<forall>t \<in> set ts. mem_due s now t) \<and> (int (length ts) < n \<longrightarrow> (\<forall>t. mem_due s now t \<longrightarrow> t \<in> set ts))"
    using mem_due_list [OF a] event_inv_ticked [OF a(1)] by (auto simp: mem_Store_def mem_deliveries_def)
next
  fix s now t
  assume "event_inv s" "mem_due s now t"
  then show "mem_deliveries s (task_key t) = Some (dd_Delivery t) \<and> dl_Status (dd_Delivery t) = EventDeliveryPending"
    using due_delivery_SomeD delivery_id by (fastforce simp: mem_due_def mem_deliveries_def task_key_def)
next
  fix s k d status a nx e
  assume "event_inv s" "mem_deliveries s k = Some d"
  then show "\<exists>u s'. st_UpdateEventDelivery mem_Store k status a nx e s = (Inr (), s') \<and> event_inv s' \<and>
      mem_deliveries s' = (mem_deliveries s)(k \<mapsto> d\<lparr>dl_Status := status, dl_Attempt := a,
        dl_NextRetryAt := nx, dl_LastError := e, dl_UpdatedAt := u\<rparr>)"
    using mem_update [of s k d] by (simp add: mem_Store_def mem_deliveries_def)
next
  fix s
  assume "event_inv s"
  show "finite (dom (mem_deliveries s))" by (simp add: mem_deliveries_def finite_dom_map_of)
qed

section \<open>A pass over the store\<close>

text \<open>C21: One pass of the worker. It attempts the due deliveries (each once, and all of them if they are
  fewer than a batch), and afterwards the record of every attempted delivery tells how its attempt went: delivered, failed
  for good after the last attempt, or pending with the retry delay; all other deliveries are as before.\<close>

theorem outbox_pass:
  assumes "mem_reach clock prio s" "wk_st wk = mem_Store" "wk_now wk w = (now, w1)" "now \<noteq> 0"
    "0 < wk_batchSize wk" "wk_batchSize wk \<le> 1000"
  shows "\<exists>ts s'. Worker_Sync net wk s w = (None, s', snd (results net wk ts w1)) \<and>
    distinct (map task_key ts) \<and> (\<forall>t \<in> set ts. mem_due s now t) \<and>
    (int (length ts) < wk_batchSize wk \<longrightarrow> (\<forall>t. mem_due s now t \<longrightarrow> t \<in> set ts)) \<and>
    (\<forall>k. k \<notin> task_key ` set ts \<longrightarrow> map_of (deliveries s') k = map_of (deliveries s) k) \<and>
    (\<forall>i < length ts. \<exists>u. map_of (deliveries s') (task_key (ts ! i)) =
      Some (settled (wk_maxAttempts wk) now (dd_Delivery (ts ! i)) (fst (results net wk ts w1) ! i) u))"
proof -
  have inv: "event_inv s"
    using mem_invD(11-14) [OF mem_reach_inv [OF assms(1)]] by (simp add: event_inv_def)
  show ?thesis
    by (rule mem_dels.Sync_spec [OF assms(2) inv assms(3-6), of net])
      (unfold mem_deliveries_def, blast)
qed

definition demo_net :: "unit net" where
  "demo_net = \<lparr>net_Now = \<lambda>w. (1000, w), net_Rand = \<lambda>n w. (Some (replicate n (CHR ''r'')), w), net_Client = \<lambda>_ _ w. (Inr \<lparr>rsp_StatusCode = 204,
       rsp_Status = ''204 No Content'', rsp_Body = [], rsp_Value = RawEmpty\<rparr>, w),
     kafka_WriteMessages = \<lambda>_ _ _ _ _ w. (None, w), nats_Connect = \<lambda>_ _ _ w. (Inr 0, w),
     nats_Publish = \<lambda>_ _ _ w. (None, w), nats_FlushTimeout = \<lambda>_ _ w. (None, w), nats_Close = \<lambda>_ w. w,
     amqp_Dial = \<lambda>_ w. (Inr 0, w), amqp_Channel = \<lambda>_ w. (Inr 0, w), amqp_QueueDeclare = \<lambda>_ _ _ w. (None, w),
     amqp_Publish = \<lambda>_ _ _ _ _ w. (None, w), amqp_CloseChannel = \<lambda>_ w. w, amqp_Close = \<lambda>_ w. w\<rparr>"

definition demo_worker :: "(MemStore, unit) Worker" where
  "demo_worker = \<lparr>wk_st = mem_Store, wk_http = net_Client demo_net Second, wk_now = net_Now demo_net,
     wk_pollInterval = Second, wk_batchSize = 100, wk_maxAttempts = 25\<rparr>"

lemma demo_worker_simps:
  "wk_st demo_worker = mem_Store" "wk_now demo_worker () = (1000, ())" "wk_batchSize demo_worker = 100"
  "wk_maxAttempts demo_worker = 25"
  by (simp_all add: demo_worker_def demo_net_def)

theorem outbox_pass_witness: "fst (Worker_Sync demo_net demo_worker demo_refunded ()) = None"
  using outbox_pass [OF demo_reach(6) demo_worker_simps(1,2), of demo_net] by (auto simp: demo_worker_simps)

text \<open>Delivery: a pass over fewer due deliveries than a batch, whose sinks accept their events, leaves every
  one of them delivered.\<close>

theorem outbox_delivers:
  assumes "mem_reach clock prio s" "wk_st wk = mem_Store" "wk_now wk w = (now, w1)" "now \<noteq> 0"
    "0 < wk_batchSize wk" "wk_batchSize wk \<le> 1000"
    "ListDueDeliveries now (wk_batchSize wk) s = (Inr ts, s0)" "int (length ts) < wk_batchSize wk"
    "\<And>t v. t \<in> set ts \<Longrightarrow> fst (deliver net wk (dd_Sink t) (dd_Event t) v) = None"
    "mem_due s now t"
  shows "\<exists>d. map_of (deliveries (fst (snd (Worker_Sync net wk s w)))) (task_key t) = Some d \<and>
    dl_Status d = EventDeliveryDelivered"
proof -
  have inv: "event_inv s"
    using mem_invD(11-14) [OF mem_reach_inv [OF assms(1)]] by (simp add: event_inv_def)
  obtain ts' s' where p: "Worker_Sync net wk s w = (None, s', snd (results net wk ts' w1))"
    "\<forall>t \<in> set ts'. mem_due s now t" "int (length ts') \<le> wk_batchSize wk"
    "int (length ts') < wk_batchSize wk \<Longrightarrow> (\<forall>t. mem_due s now t \<longrightarrow> t \<in> set ts')" "distinct (map task_key ts')"
    "\<forall>i < length ts'. \<exists>u. map_of (deliveries s') (task_key (ts' ! i)) =
      Some (settled (wk_maxAttempts wk) now (dd_Delivery (ts' ! i)) (fst (results net wk ts' w1) ! i) u)"
    using mem_dels.Sync_spec [OF assms(2) inv assms(3-6), of net] unfolding mem_deliveries_def by metis
  have all: "\<forall>t. mem_due s now t \<longleftrightarrow> t \<in> set ts" and dist: "distinct (map task_key ts)"
    using mem_due_list [OF inv assms(4-6)] assms(7,8) by auto
  have "set ts' \<subseteq> set ts" using p(2) all by blast
  then have "length ts' \<le> length ts"
    using p(5) dist by (metis card_mono distinct_card distinct_map List.finite_set)
  then have sub: "t \<in> set ts'" using p(4) assms(8,10) by auto
  have none: "fst (results net wk us v) ! i = None" if "set us \<subseteq> set ts" "i < length us" for us v i
    using that
  proof (induction us arbitrary: v i)
    case (Cons u us)
    have "fst (deliver net wk (dd_Sink u) (dd_Event u) v) = None" using assms(9) Cons.prems(1) by simp
    with Cons show ?case by (cases i) (auto simp: case_prod_beta Let_def)
  qed simp
  obtain i where i: "i < length ts'" "ts' ! i = t" using sub by (auto simp: in_set_conv_nth)
  with p(6) none [OF \<open>set ts' \<subseteq> set ts\<close> i(1)] show ?thesis by (auto simp: p(1) settled_def)
qed

definition demo_due :: "DueDelivery list" where
  "demo_due = (case fst (ListDueDeliveries 1000 100 demo_refunded) of Inl e \<Rightarrow> [] | Inr ts \<Rightarrow> ts)"

lemma demo_due_check: "length demo_due = 5 \<and>
    list_all (\<lambda>t. fst (deliver demo_net demo_worker (dd_Sink t) (dd_Event t) ()) = None) demo_due"
  by code_simp

lemma demo_due_hd: "hd demo_due \<in> set demo_due"
proof (rule hd_in_set)
  have "length demo_due = 5" using demo_due_check by (rule conjunct1)
  then show "demo_due \<noteq> []" by force
qed

lemma demo_due_list: "ListDueDeliveries 1000 100 demo_refunded = (Inr demo_due, ticked demo_refunded)"
proof -
  have "event_inv demo_refunded"
    using mem_invD(11-14) [OF mem_reach_inv [OF demo_reach(6)]] by (simp add: event_inv_def)
  from mem_due_list [OF this, of 1000 100] show ?thesis by (auto simp: demo_due_def)
qed

theorem outbox_delivers_witness:
  "\<exists>t. mem_due demo_refunded 1000 t \<and>
    (\<exists>d. map_of (deliveries (fst (snd (Worker_Sync demo_net demo_worker demo_refunded ())))) (task_key t) = Some d \<and>
      dl_Status d = EventDeliveryDelivered)"
proof -
  have inv: "event_inv demo_refunded"
    using mem_invD(11-14) [OF mem_reach_inv [OF demo_reach(6)]] by (simp add: event_inv_def)
  have "hd demo_due \<in> set demo_due" by (rule demo_due_hd)
  then have due: "mem_due demo_refunded 1000 (hd demo_due)"
    using mem_due_list [OF inv, of 1000 100] by (auto simp: demo_due_list)
  have "\<exists>d. map_of (deliveries (fst (snd (Worker_Sync demo_net demo_worker demo_refunded ())))) (task_key (hd demo_due)) =
      Some d \<and> dl_Status d = EventDeliveryDelivered"
    by (rule outbox_delivers [OF demo_reach(6) demo_worker_simps(1,2) _ _ _ _ _ _ due, of demo_due "ticked demo_refunded"])
      (use demo_due_check in \<open>auto simp: demo_worker_simps demo_due_list list_all_iff\<close>)
  with due show ?thesis by blast
qed


lemma demo_attempts: "list_all (\<lambda>(k, d). dl_Attempt d = 0) (deliveries demo_refunded)"
  by code_simp


text \<open>The retry delay doubles from a second up to a minute, for the first 34 attempts.\<close>

theorem backoff_doubles:
  assumes "1 \<le> attempt" "attempt \<le> 34"
  shows "backoff attempt = min (Second * 2 ^ nat (attempt - 1)) Minute \<and> Second \<le> backoff attempt"
  using backoff_eq [OF assms] backoff_ge [OF assms] by simp

theorem backoff_doubles_witness: "backoff 6 = 32 * Second \<and> backoff 34 = Minute"
  using backoff_doubles [of 6] backoff_doubles [of 34] by (simp add: Second_def Minute_def)

text \<open>The shift overflows from the 35th attempt on, which a configuration of up to 1000 attempts reaches: the delay is
  then not the minute the code caps it at but negative, and zero from the 56th attempt on, so such a delivery is due again at once.\<close>

theorem backoff_overflows: "backoff 35 = - 1266874889709551616 \<and> backoff 56 = 0"
  by (simp add: backoff_def wrap64_def Second_def Minute_def)

end
