(* ===== verification/ScanClient.thy ===== *)
theory ScanClient
  imports GoHttp GoUrl JsonText ScanTypes
begin

text \<open>
  \<open>internal/scanclient/scanclient.go\<close>: the client of the scanner's HTTP interface. The HTTP client
  is a parameter, part of the client's record; an error is its message (for a URL that does not parse
  and for a body that does not decode, a fixed text stands for the library's message).
\<close>

record 'w Client =
  cl_baseURL :: string
  cl_http :: "'w http_client"

definition ScanClient_New :: "'w net \<Rightarrow> string \<Rightarrow> string + 'w Client" where
  "ScanClient_New net baseURL0 =
     (let baseURL = TrimRightChar (CHR ''/'') (TrimSpace baseURL0) in
      if baseURL = [] then Inl ''scanclient: base url is required''
      else (case Parse baseURL of
          None \<Rightarrow> Inl ''scanclient: invalid base url''
        | Some u \<Rightarrow>
            if url_Scheme u = [] \<or> url_Host u = [] then Inl ''scanclient: invalid base url''
            else Inr \<lparr>cl_baseURL = baseURL, cl_http = net_Client net (10 * Second)\<rparr>))"

definition url_error :: string where
  "url_error = ''parse url''"

definition decode_error :: string where
  "decode_error = ''decode json''"

definition http_Do :: "'w Client \<Rightarrow> Request \<Rightarrow> 'w \<Rightarrow> (string + Response) \<times> 'w" where
  "http_Do c req w = (if Parse (rq_URL req) = None then (Inl url_error, w) else cl_http c req w)"

text \<open>A nil client is \<open>None\<close>.\<close>

definition health_fields :: "string field list" where
  "health_fields = [str_field ''status'' (\<lambda>f x. f x)]"

definition Healthy :: "'w Client option \<Rightarrow> 'w \<Rightarrow> (string + bool) \<times> 'w" where
  "Healthy c0 w =
     (case c0 of None \<Rightarrow> (Inl ''scanclient: not initialized'', w)
      | Some c \<Rightarrow>
          if cl_baseURL c = [] then (Inl ''scanclient: not initialized'', w)
          else (case http_Do c \<lparr>rq_Method = ''GET'', rq_URL = cl_baseURL c @ ''/v1/health'',
                     rq_Header = [], rq_Body = []\<rparr> w of
              (Inl e, w) \<Rightarrow> (Inl e, w)
            | (Inr resp, w) \<Rightarrow>
                if rsp_StatusCode resp \<noteq> 200 then (Inr False, w)
                else (case unmarshal health_fields [] (rsp_Value resp) of
                    None \<Rightarrow> (Inl decode_error, w)
                  | Some status \<Rightarrow> (Inr (TrimSpace status = ''ok''), w))))"

text \<open>The body of the request has the struct's fields in their order.\<close>

definition walletUpsertRequest :: "string \<Rightarrow> string \<Rightarrow> json" where
  "walletUpsertRequest walletID ufvk = JObj [(''wallet_id'', JStr walletID), (''ufvk'', JStr ufvk)]"

definition UpsertWallet :: "'w Client \<Rightarrow> string \<Rightarrow> string \<Rightarrow> 'w io_err" where
  "UpsertWallet c walletID0 ufvk0 w =
     (let walletID = TrimSpace walletID0; ufvk = TrimSpace ufvk0 in
      if walletID = [] \<or> ufvk = [] then (Some ''scanclient: wallet_id and ufvk are required'', w)
      else (case http_Do c \<lparr>rq_Method = ''POST'', rq_URL = cl_baseURL c @ ''/v1/wallets'',
                 rq_Header = [(''Content-Type'', ''application/json'')],
                 rq_Body = json_text (walletUpsertRequest walletID ufvk)\<rparr> w of
          (Inl e, w) \<Rightarrow> (Some e, w)
        | (Inr resp, w) \<Rightarrow>
            if rsp_StatusCode resp \<noteq> 200
            then (Some (''scanclient: upsert wallet: http '' @ FormatInt (rsp_StatusCode resp)), w)
            else (None, w)))"

record WalletEvent =
  we_ID :: int64
  we_Kind :: string
  we_WalletID :: string
  we_Height :: int64
  we_Payload :: raw_message
  we_CreatedAt :: time

definition zero_WalletEvent :: WalletEvent where
  "zero_WalletEvent = \<lparr>we_ID = 0, we_Kind = [], we_WalletID = [], we_Height = 0,
     we_Payload = RawEmpty, we_CreatedAt = 0\<rparr>"

definition time_field :: "string \<Rightarrow> ((time \<Rightarrow> time) \<Rightarrow> 'p \<Rightarrow> 'p) \<Rightarrow> 'p field" where
  "time_field name upd = (name, \<lambda>v p. case v of
       JStr x \<Rightarrow> map_option (\<lambda>t. upd (\<lambda>_. t) p) (parse_time x) | JNull \<Rightarrow> Some p | _ \<Rightarrow> None)"

definition raw_field :: "string \<Rightarrow> ((raw_message \<Rightarrow> raw_message) \<Rightarrow> 'p \<Rightarrow> 'p) \<Rightarrow> 'p field" where
  "raw_field name upd = (name, \<lambda>v p. Some (upd (\<lambda>_. RawJson v) p))"

definition WalletEvent_fields :: "WalletEvent field list" where
  "WalletEvent_fields = [int_field ''id'' we_ID_update, str_field ''kind'' we_Kind_update,
     str_field ''wallet_id'' we_WalletID_update, int_field ''height'' we_Height_update,
     raw_field ''payload'' we_Payload_update, time_field ''created_at'' we_CreatedAt_update]"

record WalletEvents =
  wes_Events :: "WalletEvent list"
  wes_NextCursor :: int64

definition events_field :: "WalletEvents field" where
  "events_field = (''events'', \<lambda>v p. case v of
       JArr xs \<Rightarrow> map_option (\<lambda>es. p\<lparr>wes_Events := es\<rparr>)
         (those (map (\<lambda>x. dec_object WalletEvent_fields x zero_WalletEvent) xs))
     | JNull \<Rightarrow> Some (p\<lparr>wes_Events := []\<rparr>) | _ \<Rightarrow> None)"

definition WalletEvents_fields :: "WalletEvents field list" where
  "WalletEvents_fields = [events_field, int_field ''next_cursor'' wes_NextCursor_update]"

definition events_url :: "'w Client \<Rightarrow> string \<Rightarrow> int64 \<Rightarrow> int \<Rightarrow> string" where
  "events_url c walletID afterID limit = cl_baseURL c @ ''/v1/wallets/'' @ PathEscape walletID @
     ''/events?cursor='' @ FormatInt afterID @ ''&limit='' @ FormatInt limit"

definition ListWalletEvents :: "'w Client \<Rightarrow> string \<Rightarrow> int64 \<Rightarrow> int \<Rightarrow> 'w
    \<Rightarrow> (string + WalletEvent list \<times> int64) \<times> 'w" where
  "ListWalletEvents c walletID0 afterID limit0 w =
     (let walletID = TrimSpace walletID0 in
      if walletID = [] then (Inl ''scanclient: wallet_id is required'', w)
      else (let limit = (if limit0 \<le> 0 \<or> limit0 > 1000 then 100 else limit0) in
        case http_Do c \<lparr>rq_Method = ''GET'', rq_URL = events_url c walletID afterID limit,
            rq_Header = [], rq_Body = []\<rparr> w of
          (Inl e, w) \<Rightarrow> (Inl e, w)
        | (Inr resp, w) \<Rightarrow>
            if rsp_StatusCode resp \<noteq> 200
            then (Inl (''scanclient: list wallet events: http '' @ FormatInt (rsp_StatusCode resp)), w)
            else (case unmarshal WalletEvents_fields \<lparr>wes_Events = [], wes_NextCursor = 0\<rparr> (rsp_Value resp) of
                None \<Rightarrow> (Inl decode_error, w)
              | Some out \<Rightarrow> (Inr (wes_Events out, wes_NextCursor out), w))))"

end
