(* ===== verification/Ingest.thy ===== *)
theory Ingest
  imports ScanClient Store
begin

text \<open>
  \<open>internal/ingest/ingest.go\<close>: the ingestor, which registers each wallet with the scanner and
  applies the wallet's events in pages until a page is empty. The loop over the pages may run forever
  (a scanner that always has another page), so it is a partial function: \<open>None\<close> is a loop
  that does not end. The lemmas show that it ends with a scanner that serves a finite log, and that
  its effect is then that of applying the events of the log one by one.
\<close>

record ('st, 'w) Ingestor =
  in_st :: "'st Store"
  in_scan :: "'w Client"
  in_pollInterval :: duration

definition Ingestor_New :: "'st Store option \<Rightarrow> 'w Client option \<Rightarrow> duration \<Rightarrow> string + ('st, 'w) Ingestor" where
  "Ingestor_New st scan pollInterval =
     (case st of None \<Rightarrow> Inl ''ingest: store is nil''
      | Some st' \<Rightarrow> (case scan of None \<Rightarrow> Inl ''ingest: scan client is nil''
          | Some c \<Rightarrow> Inr \<lparr>in_st = st', in_scan = c,
              in_pollInterval = (if pollInterval \<le> 0 then 1 * Second else pollInterval)\<rparr>))"

definition scan_event :: "string \<Rightarrow> WalletEvent \<Rightarrow> ScanEvent" where
  "scan_event walletID e = \<lparr>se_WalletID = walletID, se_Cursor = we_ID e, se_Kind = we_Kind e,
     se_Height = we_Height e, se_Payload = we_Payload e, se_OccurredAt = we_CreatedAt e\<rparr>"

text \<open>The events of one page. (The loop also moves the cursor along, but overwrites it after the page.)\<close>

fun apply_events :: "'st Store \<Rightarrow> string \<Rightarrow> WalletEvent list \<Rightarrow> 'st \<Rightarrow> store_error option \<times> 'st" where
  "apply_events st walletID [] s = (None, s)"
| "apply_events st walletID (e # es) s = (case st_ApplyScanEvent st (scan_event walletID e) s of
       (Inl err, s) \<Rightarrow> (Some err, s)
     | (Inr _, s) \<Rightarrow> apply_events st walletID es s)"

partial_function (option) drain :: "'st Store \<Rightarrow> 'w Client \<Rightarrow> string \<Rightarrow> int64 \<Rightarrow> 'st \<Rightarrow> 'w
    \<Rightarrow> (store_error option \<times> 'st \<times> 'w) option" where
  "drain st c walletID cursor s w = (case ListWalletEvents c walletID cursor 200 w of
       (Inl e, w) \<Rightarrow> Some (Some (OtherError e), s, w)
     | (Inr (evs, nextCursor), w) \<Rightarrow>
         if evs = [] then Some (None, s, w)
         else (case apply_events st walletID evs s of
             (Some e, s) \<Rightarrow> Some (Some e, s, w)
           | (None, s) \<Rightarrow> drain st c walletID nextCursor s w))"

fun sync_wallets :: "('st, 'w) Ingestor \<Rightarrow> MerchantWallet list \<Rightarrow> 'st \<Rightarrow> 'w
    \<Rightarrow> (store_error option \<times> 'st \<times> 'w) option" where
  "sync_wallets i [] s w = Some (None, s, w)"
| "sync_wallets i (mw # mws) s w =
     (case UpsertWallet (in_scan i) (mw_WalletID mw) (mw_UFVK mw) w of
        (Some e, w) \<Rightarrow> Some (Some (OtherError e), s, w)
      | (None, w) \<Rightarrow>
          (case st_ScanCursor (in_st i) (mw_WalletID mw) s of
             (Inl e, s) \<Rightarrow> Some (Some e, s, w)
           | (Inr cursor, s) \<Rightarrow>
               (case drain (in_st i) (in_scan i) (mw_WalletID mw) cursor s w of
                  None \<Rightarrow> None
                | Some (Some e, s, w) \<Rightarrow> Some (Some e, s, w)
                | Some (None, s, w) \<Rightarrow> sync_wallets i mws s w)))"

definition Ingestor_Sync :: "('st, 'w) Ingestor \<Rightarrow> 'st \<Rightarrow> 'w \<Rightarrow> (store_error option \<times> 'st \<times> 'w) option" where
  "Ingestor_Sync i s w = (case st_ListMerchantWallets (in_st i) s of
       (Inl e, s) \<Rightarrow> Some (Some e, s, w)
     | (Inr wallets, s) \<Rightarrow> sync_wallets i wallets s w)"

text \<open>The polling loop, for \<open>fuel\<close> passes (\<open>Inl\<close> when it is still running then).\<close>

fun Ingestor_Run :: "('st, 'w) Ingestor \<Rightarrow> ('w \<Rightarrow> bool \<times> 'w) \<Rightarrow> nat \<Rightarrow> 'st \<Rightarrow> 'w
    \<Rightarrow> ('st \<times> 'w + store_error \<times> 'st \<times> 'w) option" where
  "Ingestor_Run i ctx_done 0 s w = Some (Inl (s, w))"
| "Ingestor_Run i ctx_done (Suc fuel) s w = (case Ingestor_Sync i s w of
       None \<Rightarrow> None
     | Some (Some e, s, w) \<Rightarrow> Some (Inr (e, s, w))
     | Some (None, s, w) \<Rightarrow>
         (let (stop, w) = ctx_done w in
          if stop then Some (Inr (OtherError ''context canceled'', s, w))
          else Ingestor_Run i ctx_done fuel s w))"

section \<open>A scanner that serves a log\<close>

text \<open>The contract of the scanner's interface: from a finite log of events with ascending positive ids, a
  page after a cursor is the first events with higher ids, as many as asked for, and the next cursor
  of a page that is not empty is the id of its last event.\<close>

definition log_page :: "WalletEvent list \<Rightarrow> int64 \<Rightarrow> WalletEvent list" where
  "log_page evs cursor = take 200 (filter (\<lambda>e. cursor < we_ID e) evs)"

definition serves :: "'w Client \<Rightarrow> string \<Rightarrow> WalletEvent list \<Rightarrow> bool" where
  "serves c walletID evs \<longleftrightarrow> sorted_wrt (<) (map we_ID evs) \<and>
     (\<forall>e \<in> set evs. 0 < we_ID e \<and> in_int64 (we_ID e)) \<and>
     (\<forall>cursor w. 0 \<le> cursor \<and> in_int64 cursor \<longrightarrow>
        (\<exists>next. fst (ListWalletEvents c walletID cursor 200 w) = Inr (log_page evs cursor, next) \<and>
           (log_page evs cursor \<noteq> [] \<longrightarrow> next = we_ID (last (log_page evs cursor)))))"

lemma apply_events_append: "apply_events st wid (xs @ ys) s =
    (case apply_events st wid xs s of (None, s) \<Rightarrow> apply_events st wid ys s | r \<Rightarrow> r)"
  by (induction xs arbitrary: s) (auto split: prod.split sum.split option.split)

text \<open>The events after an event of an ascending log are those that follow it.\<close>

lemma sorted_wrt_last: "sorted_wrt R xs \<Longrightarrow> a \<in> set xs \<Longrightarrow> a = last xs \<or> R a (last xs)"
  by (induction xs) (auto split: if_splits)

lemma pending_split:
  assumes "sorted_wrt (<) (map we_ID evs)" "filter (\<lambda>e. cursor < we_ID e) evs = ps @ qs" "ps \<noteq> []"
  shows "filter (\<lambda>e. we_ID (last ps) < we_ID e) evs = qs"
proof -
  let ?R = "\<lambda>a b. we_ID a < we_ID b"
  have "sorted_wrt ?R (filter (\<lambda>e. cursor < we_ID e) evs)"
    using assms(1) by (simp add: sorted_wrt_map sorted_wrt_filter)
  then have srt: "sorted_wrt ?R ps" "\<forall>a \<in> set ps. \<forall>b \<in> set qs. we_ID a < we_ID b"
    unfolding assms(2) sorted_wrt_append by blast+
  have "last ps \<in> set (filter (\<lambda>e. cursor < we_ID e) evs)" using assms(2,3) by simp
  then have "cursor < we_ID (last ps)" by simp
  then have "filter (\<lambda>e. we_ID (last ps) < we_ID e) evs =
      filter (\<lambda>e. we_ID (last ps) < we_ID e) (filter (\<lambda>e. cursor < we_ID e) evs)"
    by (auto intro: filter_cong)
  also have "\<dots> = filter (\<lambda>e. we_ID (last ps) < we_ID e) ps @ filter (\<lambda>e. we_ID (last ps) < we_ID e) qs"
    by (simp only: assms(2) filter_append)
  also have "filter (\<lambda>e. we_ID (last ps) < we_ID e) ps = []"
    using sorted_wrt_last [OF srt(1)] by (fastforce simp: filter_empty_conv)
  also have "filter (\<lambda>e. we_ID (last ps) < we_ID e) qs = qs"
    using srt(2) last_in_set [OF assms(3)] by (auto simp: filter_id_conv)
  finally show ?thesis by simp
qed

lemma log_answer:
  assumes "serves c wid evs" "0 \<le> cursor" "in_int64 cursor"
  shows "\<exists>nx w'. ListWalletEvents c wid cursor 200 w = (Inr (log_page evs cursor, nx), w') \<and>
    (log_page evs cursor \<noteq> [] \<longrightarrow> nx = we_ID (last (log_page evs cursor)))"
proof -
  obtain nx where "fst (ListWalletEvents c wid cursor 200 w) = Inr (log_page evs cursor, nx)"
    "log_page evs cursor \<noteq> [] \<longrightarrow> nx = we_ID (last (log_page evs cursor))"
    using assms unfolding serves_def by blast
  then show ?thesis by (intro exI [of _ nx] exI [of _ "snd (ListWalletEvents c wid cursor 200 w)"]) (auto simp: prod_eq_iff)
qed

text \<open>Draining a log by pages applies the pending events in order, and ends.\<close>

lemma drain_log:
  assumes "serves c wid evs" "0 \<le> cursor" "in_int64 cursor"
  shows "\<exists>w'. drain st c wid cursor s w =
    (let (r, s') = apply_events st wid (filter (\<lambda>e. cursor < we_ID e) evs) s in Some (r, s', w'))"
  using assms(2,3)
proof (induction "length (filter (\<lambda>e. cursor < we_ID e) evs)" arbitrary: cursor s w rule: less_induct)
  case less
  let ?xs = "filter (\<lambda>e. cursor < we_ID e) evs"
  obtain nx w1 where l: "ListWalletEvents c wid cursor 200 w = (Inr (log_page evs cursor, nx), w1)"
    and nx: "log_page evs cursor \<noteq> [] \<longrightarrow> nx = we_ID (last (log_page evs cursor))"
    using log_answer [OF assms(1) less.prems] by blast
  show ?case
  proof (cases "?xs = []")
    case True
    then show ?thesis by (simp add: drain.simps [of st c wid cursor] l log_page_def)
  next
    case False
    have pg: "log_page evs cursor = take 200 ?xs" by (simp add: log_page_def)
    have nx_def: "nx = we_ID (last (take 200 ?xs))" using nx False by (simp add: pg)
    have "last (take 200 ?xs) \<in> set (take 200 ?xs)" using False by (intro last_in_set) simp
    then have "last (take 200 ?xs) \<in> set ?xs" by (rule in_set_takeD)
    then have "last (take 200 ?xs) \<in> set evs" by simp
    then have nx64: "0 \<le> nx" "in_int64 nx" using assms(1) unfolding serves_def nx_def by (auto dest: bspec)
    have rest: "filter (\<lambda>e. nx < we_ID e) evs = drop 200 ?xs"
      unfolding nx_def
    proof (rule pending_split)
      show "sorted_wrt (<) (map we_ID evs)" using assms(1) by (simp add: serves_def)
      show "?xs = take 200 ?xs @ drop 200 ?xs" by simp
      show "take 200 ?xs \<noteq> []" using False by simp
    qed
    obtain r s1 where a: "apply_events st wid (take 200 ?xs) s = (r, s1)" by fastforce
    have split: "apply_events st wid ?xs s = (case (r, s1) of
        (None, s) \<Rightarrow> apply_events st wid (drop 200 ?xs) s | r \<Rightarrow> r)"
      using apply_events_append [of st wid "take 200 ?xs" "drop 200 ?xs" s] a by simp
    show ?thesis
    proof (cases r)
      case (Some e)
      then show ?thesis using a split False by (simp add: drain.simps [of st c wid cursor] l pg)
    next
      case None
      have "length (filter (\<lambda>e. nx < we_ID e) evs) < length ?xs" using False rest by simp
      from less.hyps [OF this nx64, of s1 w1] obtain w' where "drain st c wid nx s1 w1 =
          (let (r, s') = apply_events st wid (filter (\<lambda>e. nx < we_ID e) evs) s1 in Some (r, s', w'))" by blast
      then show ?thesis
        using a split None False rest by (auto simp: drain.simps [of st c wid cursor] l pg split: prod.split)
    qed
  qed
qed

section \<open>What the ingestor asks of the store\<close>

text \<open>The cursors of the store are \<open>int64\<close> and not negative, and applying events keeps them so.\<close>

locale cursor_store =
  fixes st :: "'st Store" and ok :: "'st \<Rightarrow> bool"
  assumes cursor_range: "ok s \<Longrightarrow> st_ScanCursor st wid s = (Inr c, t) \<Longrightarrow> 0 \<le> c \<and> in_int64 c"
    and cursor_ok: "ok s \<Longrightarrow> ok (snd (st_ScanCursor st wid s))"
    and apply_ok: "ok s \<Longrightarrow> 0 < se_Cursor ev \<Longrightarrow> in_int64 (se_Cursor ev) \<Longrightarrow> ok (snd (st_ApplyScanEvent st ev s))"
    and list_ok: "ok s \<Longrightarrow> ok (snd (st_ListMerchantWallets st s))"
begin

lemma apply_events_ok: "ok s \<Longrightarrow> \<forall>e \<in> set es. 0 < we_ID e \<and> in_int64 (we_ID e) \<Longrightarrow>
    ok (snd (apply_events st wid es s))"
proof (induction es arbitrary: s)
  case (Cons e es)
  obtain r s1 where r: "st_ApplyScanEvent st (scan_event wid e) s = (r, s1)" by fastforce
  have "ok s1" using apply_ok [OF Cons.prems(1), of "scan_event wid e"] Cons.prems(2) r
    by (simp add: scan_event_def)
  with Cons r show ?case by (cases r) simp_all
qed simp

text \<open>A pass over the wallets ends, whatever the store answers.\<close>

lemma sync_wallets_ends:
  assumes "in_st i = st" "ok s" "\<And>mw. mw \<in> set mws \<Longrightarrow> \<exists>evs. serves (in_scan i) (mw_WalletID mw) evs"
  shows "\<exists>r s' w'. sync_wallets i mws s w = Some (r, s', w') \<and> ok s'"
  using assms(2,3)
proof (induction mws arbitrary: s w)
  case (Cons mw mws)
  let ?wid = "mw_WalletID mw"
  obtain r w1 where u: "UpsertWallet (in_scan i) ?wid (mw_UFVK mw) w = (r, w1)" by fastforce
  obtain q s1 where c: "st_ScanCursor st ?wid s = (q, s1)" by fastforce
  obtain evs where evs: "serves (in_scan i) ?wid evs" using Cons.prems(2) by auto
  have s1: "ok s1" using cursor_ok [OF Cons.prems(1), of ?wid] c by simp
  show ?case
  proof (cases "r = None \<and> (\<exists>cursor. q = Inr cursor)")
    case True
    then obtain cursor where q: "q = Inr cursor" and r: "r = None" by blast
    define pend where "pend = filter (\<lambda>e. cursor < we_ID e) evs"
    have range: "0 \<le> cursor" "in_int64 cursor" using cursor_range [OF Cons.prems(1)] c q by blast+
    obtain w2 where d: "drain st (in_scan i) ?wid cursor s1 w1 =
        Some (fst (apply_events st ?wid pend s1), snd (apply_events st ?wid pend s1), w2)"
      using drain_log [OF evs range, of st s1 w1] by (auto simp: Let_def case_prod_beta pend_def)
    have "ok (snd (apply_events st ?wid pend s1))"
      using apply_events_ok [OF s1] evs by (auto simp: serves_def pend_def)
    with d Cons.IH [of "snd (apply_events st ?wid pend s1)" w2] Cons.prems(2)
    show ?thesis using u c q r assms(1) by (cases "fst (apply_events st ?wid pend s1)") auto
  next
    case False
    then show ?thesis using u c assms(1) s1 Cons.prems(1) by (cases r; cases q) auto
  qed
qed simp

lemma Sync_ends:
  assumes "in_st i = st" "ok s" "\<And>mws mw. fst (st_ListMerchantWallets st s) = Inr mws \<Longrightarrow> mw \<in> set mws \<Longrightarrow>
      \<exists>evs. serves (in_scan i) (mw_WalletID mw) evs"
  shows "\<exists>r s' w'. Ingestor_Sync i s w = Some (r, s', w') \<and> ok s'"
proof -
  obtain q s1 where q: "st_ListMerchantWallets st s = (q, s1)" by fastforce
  with list_ok [OF assms(2)] have "ok s1" by simp
  with q sync_wallets_ends [OF assms(1) this] assms(1,3) show ?thesis
    by (cases q) (auto simp: Ingestor_Sync_def)
qed

end

end
