(* ===== verification/IngestProps.thy ===== *)
theory IngestProps
  imports Ingest Demo
begin

text \<open>
  The ingestor on the in-memory store, with a scanner that serves a log: catching up, and what an
  event that cannot be applied does.
\<close>

section \<open>Applying a list of events\<close>

lemma ApplyScanEvent_scan_event:
  assumes "ApplyScanEvent (scan_event wid e) s = (r, t)"
    "scan_cursor s (TrimSpace wid) < we_ID e"
  shows "case r of Inl err \<Rightarrow> t = s | Inr _ \<Rightarrow> scan_cursor t (TrimSpace wid) = we_ID e"
  by (cases rule: ApplyScanEvent_cases [of "scan_event wid e" s])
    (use assms in \<open>auto simp: scan_event_def scan_cursor_def split: sum.splits\<close>)

lemma mem_apply: "st_ApplyScanEvent mem_Store = ApplyScanEvent" "st_ScanCursor mem_Store = ScanCursor"
  "st_ListMerchantWallets mem_Store = ListMerchantWallets"
  by (simp_all add: mem_Store_def)

lemma apply_events_mem:
  assumes "apply_events mem_Store wid xs s = (r, t)" "sorted_wrt (<) (map we_ID xs)"
    "\<forall>e \<in> set xs. scan_cursor s (TrimSpace wid) < we_ID e"
  shows "\<exists>ys zs. xs = ys @ zs \<and> apply_events mem_Store wid ys s = (None, t) \<and>
    scan_cursor t (TrimSpace wid) = (if ys = [] then scan_cursor s (TrimSpace wid) else we_ID (last ys)) \<and>
    (case r of None \<Rightarrow> zs = [] | Some err \<Rightarrow> zs \<noteq> [] \<and> ApplyScanEvent (scan_event wid (hd zs)) t = (Inl err, t))"
  using assms
proof (induction xs arbitrary: s)
  case (Cons e es)
  obtain q s1 where q: "ApplyScanEvent (scan_event wid e) s = (q, s1)" by fastforce
  note one = ApplyScanEvent_scan_event [OF q]
  show ?case
  proof (cases q)
    case (Inl err)
    then have "s1 = s" using one Cons.prems(3) by simp
    then have "r = Some err" "t = s" using Cons.prems(1) Inl q by (simp_all add: mem_apply)
    then show ?thesis
      using Inl q \<open>s1 = s\<close> by (intro exI [of _ "[]"] exI [of _ "e # es"]) simp
  next
    case (Inr u)
    then have c: "scan_cursor s1 (TrimSpace wid) = we_ID e" using one Cons.prems(3) by simp
    have "apply_events mem_Store wid es s1 = (r, t)" using Cons.prems(1) Inr q by (simp add: mem_apply)
    moreover have "\<forall>x \<in> set es. scan_cursor s1 (TrimSpace wid) < we_ID x" using Cons.prems(2) c by simp
    ultimately obtain ys zs where "es = ys @ zs" "apply_events mem_Store wid ys s1 = (None, t)"
      "scan_cursor t (TrimSpace wid) = (if ys = [] then scan_cursor s1 (TrimSpace wid) else we_ID (last ys))"
      "case r of None \<Rightarrow> zs = [] | Some err \<Rightarrow> zs \<noteq> [] \<and> ApplyScanEvent (scan_event wid (hd zs)) t = (Inl err, t)"
      using Cons.IH [of s1] Cons.prems(2) by auto
    then show ?thesis
      using Inr q c by (intro exI [of _ "e # ys"] exI [of _ zs]) (simp add: mem_apply)
  qed
qed simp

lemma ScanCursor_mem: "TrimSpace wid \<noteq> [] \<Longrightarrow> ScanCursor wid s = (Inr (scan_cursor s (TrimSpace wid)), s)"
  by (simp add: ScanCursor_def Let_def)

definition cursors_ok :: "MemStore \<Rightarrow> bool" where
  "cursors_ok s \<longleftrightarrow> (\<forall>wid. 0 \<le> scan_cursor s wid \<and> in_int64 (scan_cursor s wid))"

lemma apply_kind_scan: "apply_kind ev s = Inr u \<Longrightarrow> scanCursor u = scanCursor s"
  by (erule apply_kind_cases) (auto intro: applyDepositLocked_frame)

lemma ApplyScanEvent_cursors_ok:
  assumes "cursors_ok s" "0 < se_Cursor ev" "in_int64 (se_Cursor ev)"
  shows "cursors_ok (snd (ApplyScanEvent ev s))"
proof (cases rule: ApplyScanEvent_cases [of ev s])
  case (same r)
  with assms show ?thesis by simp
next
  case (applied u t n)
  have "scanCursor u = scanCursor s" using apply_kind_scan [OF applied(1)] .
  with applied(2) assms show ?thesis by (simp add: cursors_ok_def scan_cursor_def)
qed

lemma ListMerchantWallets_cursors: "scanCursor (snd (ListMerchantWallets s)) = scanCursor s"
  by (simp add: ListMerchantWallets_def Let_def)

interpretation mem_cursors: cursor_store mem_Store cursors_ok
proof unfold_locales
  fix s wid c t
  assume "cursors_ok s" "st_ScanCursor mem_Store wid s = (Inr c, t)"
  then show "0 \<le> c \<and> in_int64 c"
    by (auto simp: mem_apply ScanCursor_def Let_def cursors_ok_def split: if_splits)
next
  fix s wid
  assume "cursors_ok s"
  then show "cursors_ok (snd (st_ScanCursor mem_Store wid s))"
    by (simp add: mem_apply ScanCursor_def Let_def)
next
  fix s and ev :: ScanEvent
  assume "cursors_ok s" "0 < se_Cursor ev" "in_int64 (se_Cursor ev)"
  then show "cursors_ok (snd (st_ApplyScanEvent mem_Store ev s))"
    by (simp add: mem_apply ApplyScanEvent_cursors_ok)
next
  fix s
  assume "cursors_ok s"
  then show "cursors_ok (snd (st_ListMerchantWallets mem_Store s))"
    by (simp add: mem_apply cursors_ok_def scan_cursor_def ListMerchantWallets_cursors)
qed

section \<open>Properties\<close>

text \<open>C24: Draining the pages of a scanner that serves a finite log ends, and does exactly what applying the events after
  the cursor one by one, in the order of the log, does: the page size does not show.\<close>

theorem ingest_pages_transparent:
  assumes "serves c wid evs" "0 \<le> cursor" "in_int64 cursor"
  shows "\<exists>w'. drain st c wid cursor s w =
    Some (fst (apply_events st wid (filter (\<lambda>e. cursor < we_ID e) evs) s),
      snd (apply_events st wid (filter (\<lambda>e. cursor < we_ID e) evs) s), w')"
  using drain_log [OF assms, of st s w] by (simp add: Let_def case_prod_beta)

text \<open>A scanner with one event for every wallet, as its HTTP interface answers.\<close>

definition event_member :: "WalletEvent \<Rightarrow> json" where
  "event_member e = JObj [(''id'', JNum (FormatInt (we_ID e))), (''kind'', JStr (we_Kind e)),
     (''wallet_id'', JStr (we_WalletID e)), (''height'', JNum (FormatInt (we_Height e)))]"

definition demo_page :: "WalletEvent list \<Rightarrow> Response" where
  "demo_page es = \<lparr>rsp_StatusCode = 200, rsp_Status = ''200 OK'', rsp_Body = [], rsp_Value = RawJson (JObj
     [(''events'', JArr (map event_member es)),
      (''next_cursor'', JNum (FormatInt (if es = [] then 0 else we_ID (last es))))])\<rparr>"

definition demo_scan_event :: "string \<Rightarrow> WalletEvent" where
  "demo_scan_event kind = \<lparr>we_ID = 7, we_Kind = kind, we_WalletID = ''w1'', we_Height = 21,
     we_Payload = RawEmpty, we_CreatedAt = 0\<rparr>"

text \<open>The cursor of a request, from its URL.\<close>

definition url_cursor :: "string \<Rightarrow> int64" where
  "url_cursor u = (case ParseInt 10 (takeWhile (\<lambda>c. c \<noteq> CHR ''&'') (drop 1 (dropWhile (\<lambda>c. c \<noteq> CHR ''='') u))) of
     None \<Rightarrow> 0 | Some n \<Rightarrow> n)"

definition demo_client :: "string \<Rightarrow> unit Client" where
  "demo_client kind = \<lparr>cl_baseURL = ''http://scan'', cl_http = (\<lambda>req w.
     (Inr (demo_page (if url_cursor (rq_URL req) < 7 then [demo_scan_event kind] else [])), w))\<rparr>"

lemma digit10: "is_digit 10 c \<Longrightarrow> c \<in> set ''0123456789''"
proof (erule is_digitE)
  fix d :: nat
  assume "d < 10"
  then have "d \<in> set [0..<10]" by simp
  moreover have "\<forall>d \<in> set [0..<10]. digit_char d \<in> set ''0123456789''" by code_simp
  ultimately show "c = digit_char d \<Longrightarrow> c \<in> set ''0123456789''" by blast
qed

lemma cursor_chars: "0 \<le> n \<Longrightarrow> c \<in> set (FormatInt n) \<Longrightarrow> c \<in> set ''0123456789''"
  using set_fmt_uint [of 10 c "nat n"] by (auto simp: FormatInt_def intro: digit10 simp del: list.set)

definition url_head :: string where
  "url_head = ''http://scan/v1/wallets/w1/events?cursor=''"

lemma demo_url: "events_url (demo_client kind) ''w1'' n 200 = url_head @ FormatInt n @ ''&limit=200''"
proof -
  have "PathEscape ''w1'' = ''w1''" "FormatInt 200 = ''200''" by code_simp+
  then show ?thesis by (simp add: events_url_def demo_client_def url_head_def)
qed

lemma demo_url_parses:
  assumes "0 \<le> n"
  shows "Parse (url_head @ FormatInt n @ ''&limit=200'') \<noteq> None"
proof -
  let ?u = "url_head @ FormatInt n @ ''&limit=200''"
  have "\<forall>c \<in> set ''0123456789''. c \<noteq> CHR ''#'' \<and> \<not> ctl_char c" by code_simp
  then have chars: "\<forall>c \<in> set (FormatInt n). c \<noteq> CHR ''#'' \<and> \<not> ctl_char c" using cursor_chars [OF assms] by blast
  have "\<forall>c \<in> set (url_head @ ''&limit=200''). c \<noteq> CHR ''#'' \<and> \<not> ctl_char c" by code_simp
  with chars have all: "\<forall>c \<in> set ?u. c \<noteq> CHR ''#'' \<and> \<not> ctl_char c" by (simp only: set_append) blast
  then have cut: "Cut (CHR ''#'') ?u = (?u, [])" unfolding Cut_def by (subst takeWhile_eq_all_conv [THEN iffD2]) auto
  have ctl: "\<not> list_ex ctl_char ?u" using all by (auto simp only: list_ex_iff)
  have sch: "getScheme ?u = Some (''http'', drop 5 url_head @ FormatInt n @ ''&limit=200'')"
    by (simp add: getScheme_def url_head_def alpha_char_def num_char_def)
  have q: "fst (Cut (CHR ''?'') (drop 5 url_head @ FormatInt n @ ''&limit=200'')) = ''//scan/v1/wallets/w1/events''"
    by (simp add: Cut_def url_head_def)
  have "parse_rest (ToLower ''http'') ''//scan/v1/wallets/w1/events'' \<noteq> None" "unescape encodePath [] \<noteq> None" by code_simp+
  moreover have "?u \<noteq> ''*''" by (simp add: url_head_def)
  moreover define u where "u = ?u"
  ultimately have "Parse u \<noteq> None"
    using cut ctl sch q unfolding u_def [symmetric] by (auto simp: Parse_def)
  then show ?thesis by (simp add: u_def)
qed

lemma demo_url_cursor:
  assumes "0 \<le> n" "in_int64 n"
  shows "url_cursor (url_head @ FormatInt n @ ''&limit=200'') = n"
proof -
  have "\<forall>c \<in> set ''0123456789''. c \<noteq> CHR ''&''" by code_simp
  then have "\<forall>c \<in> set (FormatInt n). c \<noteq> CHR ''&''" using cursor_chars [OF assms(1)] by blast
  then have "takeWhile (\<lambda>c. c \<noteq> CHR ''&'') (FormatInt n @ ''&limit=200'') = FormatInt n"
    by (simp add: takeWhile_append)
  moreover have "drop 1 (dropWhile (\<lambda>c. c \<noteq> CHR ''='') (url_head @ FormatInt n @ ''&limit=200'')) =
      FormatInt n @ ''&limit=200''"
    by (simp add: url_head_def)
  ultimately show ?thesis by (simp add: url_cursor_def ParseInt_FormatInt [OF assms(2)])
qed

lemma demo_decode:
  "unmarshal WalletEvents_fields \<lparr>wes_Events = [], wes_NextCursor = 0\<rparr> (rsp_Value (demo_page [])) =
    Some \<lparr>wes_Events = [], wes_NextCursor = 0\<rparr>"
  "kind \<in> {''SpendEvent'', ''DepositEvent''} \<Longrightarrow>
   unmarshal WalletEvents_fields \<lparr>wes_Events = [], wes_NextCursor = 0\<rparr> (rsp_Value (demo_page [demo_scan_event kind])) =
    Some \<lparr>wes_Events = [demo_scan_event kind], wes_NextCursor = 7\<rparr>"
proof -
  show "unmarshal WalletEvents_fields \<lparr>wes_Events = [], wes_NextCursor = 0\<rparr> (rsp_Value (demo_page [])) =
    Some \<lparr>wes_Events = [], wes_NextCursor = 0\<rparr>" by code_simp
  assume "kind \<in> {''SpendEvent'', ''DepositEvent''}"
  then consider "kind = ''SpendEvent''" | "kind = ''DepositEvent''" by blast
  then show "unmarshal WalletEvents_fields \<lparr>wes_Events = [], wes_NextCursor = 0\<rparr> (rsp_Value (demo_page [demo_scan_event kind])) =
    Some \<lparr>wes_Events = [demo_scan_event kind], wes_NextCursor = 7\<rparr>"
    by cases (hypsubst, code_simp)+
qed

lemma demo_serves:
  assumes "kind \<in> {''SpendEvent'', ''DepositEvent''}"
  shows "serves (demo_client kind) ''w1'' [demo_scan_event kind]"
proof -
  have id7: "we_ID (demo_scan_event kind) = 7" by (simp add: demo_scan_event_def)
  have "fst (ListWalletEvents (demo_client kind) ''w1'' n 200 w) =
      Inr (log_page [demo_scan_event kind] n, if n < 7 then 7 else 0)" if "0 \<le> n" "in_int64 n" for n w
  proof -
    have "TrimSpace ''w1'' = ''w1''" by code_simp
    moreover have "http_Do (demo_client kind) \<lparr>rq_Method = ''GET'', rq_URL = url_head @ FormatInt n @ ''&limit=200'',
        rq_Header = [], rq_Body = []\<rparr> w = (Inr (demo_page (if n < 7 then [demo_scan_event kind] else [])), w)"
      using demo_url_parses [OF that(1)] by (simp add: http_Do_def demo_client_def demo_url_cursor [OF that])
    ultimately show ?thesis
      by (simp add: ListWalletEvents_def demo_url demo_decode(1) demo_decode(2) [OF assms] log_page_def id7)
        (simp add: demo_page_def)
  qed
  then show ?thesis by (simp add: serves_def id7 in_int64_def log_page_def)
qed

lemma demo_cursors: "cursors_ok demo_new" "scan_cursor demo_new wid = 0"
  by (simp_all add: cursors_ok_def scan_cursor_def demo_new_def NewMem_def in_int64_def)

lemma demo_drained:
  "fst (ApplyScanEvent (scan_event ''w1'' (demo_scan_event ''SpendEvent'')) demo_new) = Inr ()"
  "ApplyScanEvent (scan_event ''w1'' (demo_scan_event ''DepositEvent'')) demo_new = (Inl json_error, demo_new)"
proof -
  have "TrimSpace ''w1'' = ''w1''" "TrimSpace ''SpendEvent'' = ''SpendEvent''" "TrimSpace ''DepositEvent'' = ''DepositEvent''"
    by code_simp+
  then show "fst (ApplyScanEvent (scan_event ''w1'' (demo_scan_event ''SpendEvent'')) demo_new) = Inr ()"
    "ApplyScanEvent (scan_event ''w1'' (demo_scan_event ''DepositEvent'')) demo_new = (Inl json_error, demo_new)"
    by (simp_all add: ApplyScanEvent_def scan_event_def demo_scan_event_def apply_kind_def unmarshal_def demo_cursors(2) Let_def)
qed

theorem ingest_pages_transparent_witness:
  "\<exists>w'. drain mem_Store (demo_client ''DepositEvent'') ''w1'' 0 demo_new () = Some (Some json_error, demo_new, w')"
  using ingest_pages_transparent [OF demo_serves [of "''DepositEvent''"], of 0 mem_Store demo_new "()"] demo_drained(2)
  by (simp add: in_int64_def demo_scan_event_def mem_apply)

text \<open>C38: Catching up: when draining a wallet succeeds, every event of the scanner's log is at or below the wallet's
  cursor, and draining again changes nothing.\<close>

theorem ingest_catches_up:
  assumes "serves c wid evs" "cursors_ok s"
    "drain mem_Store c wid (scan_cursor s (TrimSpace wid)) s w = Some (None, t, w')"
  shows "(\<forall>e \<in> set evs. we_ID e \<le> scan_cursor t (TrimSpace wid)) \<and>
    (\<forall>v. \<exists>v'. drain mem_Store c wid (scan_cursor t (TrimSpace wid)) t v = Some (None, t, v'))"
proof -
  let ?c = "scan_cursor s (TrimSpace wid)" and ?d = "scan_cursor t (TrimSpace wid)"
  let ?xs = "filter (\<lambda>e. ?c < we_ID e) evs"
  have c: "0 \<le> ?c" "in_int64 ?c" using assms(2) by (simp_all add: cursors_ok_def)
  have srt: "sorted_wrt (<) (map we_ID evs)" using assms(1) by (simp add: serves_def)
  have a: "apply_events mem_Store wid ?xs s = (None, t)"
    using drain_log [OF assms(1) c, of mem_Store s w] assms(3) by (auto simp: Let_def case_prod_beta prod_eq_iff)
  have xs: "sorted_wrt (<) (map we_ID ?xs)" using srt by (simp add: sorted_wrt_map sorted_wrt_filter)
  obtain ys zs where yz: "?xs = ys @ zs" "zs = []" "?d = (if ys = [] then ?c else we_ID (last ys))"
    using apply_events_mem [OF a xs] by auto
  have "filter (\<lambda>e. ?d < we_ID e) evs = []"
  proof (cases "ys = []")
    case True
    with yz show ?thesis by simp
  next
    case False
    from pending_split [OF srt, of ?c ys "[]"] yz False show ?thesis by simp
  qed
  then have pend: "\<forall>e \<in> set evs. we_ID e \<le> ?d" by (auto simp: filter_empty_conv not_less)
  have "cursors_ok t"
    using mem_cursors.apply_events_ok [OF assms(2), of ?xs wid] assms(1) a by (auto simp: serves_def)
  then have d: "0 \<le> ?d" "in_int64 ?d" by (simp_all add: cursors_ok_def)
  have "\<exists>v'. drain mem_Store c wid ?d t v = Some (None, t, v')" for v
    using drain_log [OF assms(1) d, of mem_Store t v] \<open>filter (\<lambda>e. ?d < we_ID e) evs = []\<close> by simp
  with pend show ?thesis by blast
qed

text \<open>An event that cannot be applied blocks its wallet: when draining stops with an error of the store, an event of the
  log fails on the store as it is left, with that error and without any change, no later event is past the cursor,
  and draining again stops at the same event with the same error, however often it is tried.\<close>

theorem ingest_blocked:
  assumes "serves c wid evs" "cursors_ok s"
    "drain mem_Store c wid (scan_cursor s (TrimSpace wid)) s w = Some (Some err, t, w')"
  shows "\<exists>e \<in> set evs. ApplyScanEvent (scan_event wid e) t = (Inl err, t) \<and>
    (\<forall>e' \<in> set evs. we_ID e \<le> we_ID e' \<longrightarrow> scan_cursor t (TrimSpace wid) < we_ID e') \<and>
    (\<forall>v. \<exists>v'. drain mem_Store c wid (scan_cursor t (TrimSpace wid)) t v = Some (Some err, t, v'))"
proof -
  let ?c = "scan_cursor s (TrimSpace wid)" and ?d = "scan_cursor t (TrimSpace wid)"
  let ?xs = "filter (\<lambda>e. ?c < we_ID e) evs"
  have c: "0 \<le> ?c" "in_int64 ?c" using assms(2) by (simp_all add: cursors_ok_def)
  have srt: "sorted_wrt (<) (map we_ID evs)" using assms(1) by (simp add: serves_def)
  have a: "apply_events mem_Store wid ?xs s = (Some err, t)"
    using drain_log [OF assms(1) c, of mem_Store s w] assms(3) by (auto simp: Let_def case_prod_beta prod_eq_iff)
  have xs: "sorted_wrt (<) (map we_ID ?xs)" using srt by (simp add: sorted_wrt_map sorted_wrt_filter)
  obtain ys zs where yz: "?xs = ys @ zs" "zs \<noteq> []" "?d = (if ys = [] then ?c else we_ID (last ys))"
    "ApplyScanEvent (scan_event wid (hd zs)) t = (Inl err, t)"
    using apply_events_mem [OF a xs] by auto
  have rest: "filter (\<lambda>e. ?d < we_ID e) evs = zs"
  proof (cases "ys = []")
    case True
    with yz show ?thesis by simp
  next
    case False
    from pending_split [OF srt yz(1) False] yz(3) False show ?thesis by simp
  qed
  obtain e es where zs: "zs = e # es" using yz(2) by (cases zs) auto
  have e: "e \<in> set evs" "?d < we_ID e" 
  proof -
    have "e \<in> set (filter (\<lambda>e. ?d < we_ID e) evs)" by (simp add: rest zs)
    then show "e \<in> set evs" "?d < we_ID e" by simp_all
  qed
  have "cursors_ok t"
    using mem_cursors.apply_events_ok [OF assms(2), of ?xs wid] assms(1) a by (auto simp: serves_def)
  then have d: "0 \<le> ?d" "in_int64 ?d" by (simp_all add: cursors_ok_def)
  have "apply_events mem_Store wid zs t = (Some err, t)" using yz(4) zs by (simp add: mem_apply)
  then have "\<exists>v'. drain mem_Store c wid ?d t v = Some (Some err, t, v')" for v
    using drain_log [OF assms(1) d, of mem_Store t v] by (simp add: rest)
  with e yz(4) zs show ?thesis by (intro bexI [of _ e]) auto
qed

text \<open>A pass of the ingestor over the wallets of the store ends, if the scanner serves a log for each of them.\<close>

theorem ingest_ends:
  assumes "in_st i = mem_Store" "cursors_ok s"
    "\<And>mid mw. map_of (merchantWallet s) mid = Some mw \<Longrightarrow> \<exists>evs. serves (in_scan i) (mw_WalletID mw) evs"
    "wf_map (merchantWallet s)"
  shows "\<exists>r t w'. Ingestor_Sync i s w = Some (r, t, w') \<and> cursors_ok t"
proof (rule mem_cursors.Sync_ends [OF assms(1,2)])
  fix mws mw
  assume "fst (st_ListMerchantWallets mem_Store s) = Inr mws" "mw \<in> set mws"
  then obtain mid where "(mid, mw) \<in> set (merchantWallet s)" by (auto simp: mem_apply ListMerchantWallets_def)
  then have "map_of (merchantWallet s) mid = Some mw" using assms(4) by (simp add: wf_map_set_iff)
  then show "\<exists>evs. serves (in_scan i) (mw_WalletID mw) evs" by (rule assms(3))
qed

theorem ingest_catches_up_witness:
  "\<exists>t. scan_cursor t ''w1'' \<ge> 7 \<and> (\<exists>v'. drain mem_Store (demo_client ''SpendEvent'') ''w1'' (scan_cursor t ''w1'') t () = Some (None, t, v'))"
proof -
  have w: "TrimSpace ''w1'' = ''w1''" by code_simp
  have id7: "we_ID (demo_scan_event ''SpendEvent'') = 7" by (simp add: demo_scan_event_def)
  have sv: "serves (demo_client ''SpendEvent'') ''w1'' [demo_scan_event ''SpendEvent'']" by (rule demo_serves) simp
  obtain t where "ApplyScanEvent (scan_event ''w1'' (demo_scan_event ''SpendEvent'')) demo_new = (Inr (), t)"
    using demo_drained(1) by (metis prod.collapse)
  then obtain w' where "drain mem_Store (demo_client ''SpendEvent'') ''w1'' (scan_cursor demo_new (TrimSpace ''w1'')) demo_new () =
      Some (None, t, w')"
    using drain_log [OF sv, of 0 mem_Store demo_new "()"] by (auto simp: demo_cursors(2) id7 in_int64_def mem_apply)
  from ingest_catches_up [OF sv demo_cursors(1) this] show ?thesis by (auto simp: id7 w)
qed

theorem ingest_blocked_witness:
  "\<forall>v. \<exists>v'. drain mem_Store (demo_client ''DepositEvent'') ''w1'' 0 demo_new v = Some (Some json_error, demo_new, v')"
proof -
  have id7: "we_ID (demo_scan_event ''DepositEvent'') = 7" by (simp add: demo_scan_event_def)
  have sv: "serves (demo_client ''DepositEvent'') ''w1'' [demo_scan_event ''DepositEvent'']" by (rule demo_serves) simp
  obtain w' where "drain mem_Store (demo_client ''DepositEvent'') ''w1'' (scan_cursor demo_new (TrimSpace ''w1'')) demo_new () =
      Some (Some json_error, demo_new, w')"
    using drain_log [OF sv, of 0 mem_Store demo_new "()"] demo_drained(2)
    by (auto simp: demo_cursors(2) id7 in_int64_def mem_apply)
  from ingest_blocked [OF sv demo_cursors(1) this] show ?thesis by (auto simp: demo_cursors(2))
qed

definition demo_ingestor :: "(MemStore, unit) Ingestor" where
  "demo_ingestor = \<lparr>in_st = mem_Store, in_scan = demo_client ''SpendEvent'', in_pollInterval = Second\<rparr>"

lemma demo_wallets: "cursors_ok demo_sink \<and> wf_map (merchantWallet demo_sink) \<and>
    map (\<lambda>(m, w). mw_WalletID w) (merchantWallet demo_sink) = [''w1'']"
proof -
  have c: "scanCursor demo_sink = [] \<and> map (\<lambda>(m, w). mw_WalletID w) (merchantWallet demo_sink) = [''w1'']"
    by code_simp
  from arg_cong [OF conjunct2 [OF c], of length] obtain mw where "merchantWallet demo_sink = [mw]"
    by (auto simp: length_Suc_conv)
  with c show ?thesis by (simp add: cursors_ok_def scan_cursor_def in_int64_def wf_map_def)
qed

theorem ingest_ends_witness: "\<exists>r t w'. Ingestor_Sync demo_ingestor demo_sink () = Some (r, t, w')"
proof -
  have sv: "serves (demo_client ''SpendEvent'') ''w1'' [demo_scan_event ''SpendEvent'']" by (rule demo_serves) simp
  have "\<exists>evs. serves (in_scan demo_ingestor) (mw_WalletID mw) evs" if "map_of (merchantWallet demo_sink) mid = Some mw" for mid mw
  proof -
    have "mw_WalletID mw \<in> set (map (\<lambda>(m, w). mw_WalletID w) (merchantWallet demo_sink))"
      using map_of_SomeD [OF that] by force
    then have "mw_WalletID mw = ''w1''" using demo_wallets by simp
    with sv show ?thesis by (auto simp: demo_ingestor_def)
  qed
  with ingest_ends [of demo_ingestor demo_sink "()"] demo_wallets show ?thesis by (auto simp: demo_ingestor_def)
qed

end
