(* ===== verification/MemProps.thy ===== *)
theory MemProps
  imports Demo
begin

text \<open>
  The properties of the in-memory store as its callers see them: the accounting of invoices,
  the events and deliveries they raise, retries and replays, and the listings. Each rests on
  the invariant of the reachable states and on the relation between the states of a run.
\<close>

section \<open>Accounting\<close>

text \<open>C1: In every reachable state the two amounts of an invoice are the (\<open>int64\<close>) sums of its
  deposits: confirmed deposits count as confirmed, detected and unconfirmed ones as pending,
  orphaned ones not at all.\<close>

theorem invoice_accounting:
  assumes "mem_reach clock prio s" "map_of (invoices s) iid = Some iv"
  shows "inv_ReceivedConfirmedZat iv = wrap64 (\<Sum>(k, d) \<leftarrow> deposits s.
      if d_InvoiceID d = iid \<and> d_Status d = DepositConfirmed then d_AmountZat d else 0) \<and>
    inv_ReceivedPendingZat iv = wrap64 (\<Sum>(k, d) \<leftarrow> deposits s.
      if d_InvoiceID d = iid \<and> (d_Status d = DepositDetected \<or> d_Status d = DepositUnconfirmed)
      then d_AmountZat d else 0)"
proof -
  have "acct_ok s iid iv"
    using mem_invD(3) [OF mem_reach_inv [OF assms(1)]] assms(2) by (simp add: acct_inv_def)
  then show ?thesis
    by (simp_all add: acct_ok_def received_def deposit_share_def split_def cong: if_cong)
qed

lemma demo_invoice_obtain:
  obtains iv where "map_of (invoices demo_refunded) demo_iid = Some iv" "inv_Status iv = InvoiceConfirmed"
    "inv_ReceivedConfirmedZat iv = 500"
  using demo_checked by (auto simp: demo_check_def)

theorem invoice_accounting_witness:
  "(\<Sum>(k, d) \<leftarrow> deposits demo_refunded.
      if d_InvoiceID d = demo_iid \<and> d_Status d = DepositConfirmed then d_AmountZat d else 0) \<noteq> 0"
proof -
  obtain iv where "map_of (invoices demo_refunded) demo_iid = Some iv" "inv_ReceivedConfirmedZat iv = 500"
    using demo_invoice_obtain by metis
  with invoice_accounting [OF demo_reach(6)] show ?thesis by fastforce
qed

text \<open>C30: The status of an invoice is \<open>computeInvoiceStatus\<close> of its amounts at the time of its last
  update once a deposit is attributed to it, and \<open>open\<close> before that, however late.\<close>

theorem invoice_status:
  assumes "mem_reach clock prio s" "map_of (invoices s) iid = Some iv"
  shows "inv_Status iv = (if \<exists>k d. map_of (deposits s) k = Some d \<and> d_InvoiceID d = iid
    then computeInvoiceStatus iv (inv_UpdatedAt iv) else InvoiceOpen)"
proof -
  have "acct_ok s iid iv"
    using mem_invD(3) [OF mem_reach_inv [OF assms(1)]] assms(2) by (simp add: acct_inv_def)
  then show ?thesis unfolding acct_ok_def owned_def by simp
qed

theorem invoice_status_witness:
  "\<exists>iv. map_of (invoices demo_refunded) demo_iid = Some iv \<and> computeInvoiceStatus iv (inv_UpdatedAt iv) = InvoiceConfirmed"
proof -
  obtain iv where iv: "map_of (invoices demo_refunded) demo_iid = Some iv" "inv_Status iv = InvoiceConfirmed"
    using demo_invoice_obtain by metis
  with invoice_status [OF demo_reach(6) iv(1)] show ?thesis by (auto split: if_splits)
qed

text \<open>What the status says of the amounts, where they are not negative and their total fits an
  \<open>int64\<close>: paid exactly when the confirmed amount reaches the price (late only if expired
  under the policy that marks it), overpaid when it exceeds it, pending when only unconfirmed deposits are
  missing, partial while something came in, and expired or open when nothing did.\<close>

theorem computeInvoiceStatus_spec:
  fixes now :: time
  assumes "0 \<le> inv_ReceivedPendingZat iv" "0 \<le> inv_ReceivedConfirmedZat iv" "0 < inv_AmountZat iv"
    "in_int64 (inv_ReceivedPendingZat iv + inv_ReceivedConfirmedZat iv)"
  defines "p \<equiv> inv_ReceivedPendingZat iv" and "c \<equiv> inv_ReceivedConfirmedZat iv" and "a \<equiv> inv_AmountZat iv"
    and "st \<equiv> computeInvoiceStatus iv now"
  shows "(st = InvoiceExpired \<longleftrightarrow> p = 0 \<and> c = 0 \<and> expired_at iv now) \<and>
    (st = InvoiceOpen \<longleftrightarrow> p = 0 \<and> c = 0 \<and> \<not> expired_at iv now) \<and>
    (st = InvoiceOverpaid \<longleftrightarrow> a < c) \<and>
    (st = InvoicePaidLate \<longleftrightarrow> c = a \<and> expired_at iv now \<and>
       pol_LatePayment (inv_Policies iv) = LatePaymentMarkPaidLate) \<and>
    (st = InvoiceConfirmed \<longleftrightarrow> c = a \<and> \<not> (expired_at iv now \<and>
       pol_LatePayment (inv_Policies iv) = LatePaymentMarkPaidLate)) \<and>
    (st = InvoicePending \<longleftrightarrow> c < a \<and> a \<le> p + c) \<and>
    (st = InvoicePartialConfirmed \<longleftrightarrow> 0 < c \<and> p + c < a) \<and>
    (st = InvoicePartialPending \<longleftrightarrow> c = 0 \<and> 0 < p \<and> p < a) \<and> st \<noteq> InvoiceCanceled"
  using assms(1-4) unfolding p_def c_def a_def st_def computeInvoiceStatus_def
  by (simp add: Let_def)

definition demo_due :: Invoice where
  "demo_due = \<lparr>inv_InvoiceID = ''i'', inv_MerchantID = ''m'', inv_ExternalOrderID = ''o'', inv_WalletID = ''w'',
     inv_AddressIndex = 0, inv_Address = ''a'', inv_CreatedAfterHeight = 0, inv_CreatedAfterHash = ''h'',
     inv_AmountZat = 10, inv_RequiredConfirmations = 1, inv_Policies = set_Policies demo_settings,
     inv_ReceivedPendingZat = 4, inv_ReceivedConfirmedZat = 7, inv_Status = InvoiceOpen, inv_ExpiresAt = Some 5,
     inv_CreatedAt = 1, inv_UpdatedAt = 1\<rparr>"

theorem computeInvoiceStatus_spec_witness: "computeInvoiceStatus demo_due 9 = InvoicePending"
  using computeInvoiceStatus_spec [of demo_due 9] by (simp add: demo_due_def in_int64_def)

text \<open>No two invoices of a merchant share an external order id, and no two invoices share a wallet
  and address.\<close>

theorem invoice_unique:
  assumes "mem_reach clock prio s" "map_of (invoices s) i = Some a" "map_of (invoices s) j = Some b"
    "(inv_MerchantID a = inv_MerchantID b \<and> inv_ExternalOrderID a = inv_ExternalOrderID b) \<or>
     (inv_WalletID a = inv_WalletID b \<and> inv_Address a = inv_Address b)"
  shows "i = j"
proof -
  have "invoice_ok s i a" "invoice_ok s j b"
    using invoice_invD(2) [OF mem_invD(8) [OF mem_reach_inv [OF assms(1)]]] assms(2,3) by blast+
  with assms(4) show ?thesis unfolding invoice_ok_def by auto
qed

theorem invoice_unique_witness:
  "\<exists>iv. map_of (invoices demo_refunded) demo_iid = Some iv \<and>
     (\<forall>j. map_of (invoices demo_refunded) j = Some iv \<longrightarrow> j = demo_iid)"
proof -
  obtain iv where "map_of (invoices demo_refunded) demo_iid = Some iv" by (rule demo_invoice_obtain)
  with invoice_unique [OF demo_reach(6) _ this] show ?thesis by blast
qed

section \<open>Events\<close>

text \<open>The log of an invoice holds an event at most once: two events at different places differ in
  type, or in the deposit or refund they are about. So an invoice is, for instance, reported paid at most once.\<close>

theorem events_once:
  assumes "mem_reach clock prio s" "x < length (events_of s iid)" "y < length (events_of s iid)" "x \<noteq> y"
  shows "event_key (events_of s iid ! x) \<noteq> event_key (events_of s iid ! y)"
  using log_invD(6) [OF mem_invD(11) [OF mem_reach_inv [OF assms(1)]], of iid] assms(2-4)
  by (simp add: distinct_conv_nth)

theorem events_once_witness:
  "event_key (events_of demo_refunded demo_iid ! 1) \<noteq> event_key (events_of demo_refunded demo_iid ! 2)"
proof -
  have "length (map ie_Type (events_of demo_refunded demo_iid)) = 5"
    using demo_checked unfolding demo_check_def by simp
  then show ?thesis by (intro events_once [OF demo_reach(6)]) simp_all
qed



text \<open>C6: The outbox publishes the events of all logs, each exactly once, numbered from 1 without gaps in
  the order they occurred: every record is the envelope of one event, and every event has one
  record, with the merchant and the data of its invoice.\<close>

theorem outbox_exact:
  assumes "mem_reach clock prio s"
  shows "map oe_Seq (outbox s) = [1..<Suc (length (outbox s))] \<and>
    (\<forall>r \<in> set (outbox s). \<exists>!e. e \<in> (\<Union>iid. set (events_of s iid)) \<and> publishes s e r) \<and>
    (\<forall>e \<in> (\<Union>iid. set (events_of s iid)). \<exists>!r. r \<in> set (outbox s) \<and> publishes s e r)"
proof (intro conjI ballI)
  have inv: "outbox_inv s" "log_inv s" using mem_invD [OF mem_reach_inv [OF assms]] by simp_all
  then have seqs: "map oe_Seq (outbox s) = [1..<Suc (outboxSeq s)]" by (simp add: outbox_inv_def)
  have "length (map oe_Seq (outbox s)) = length [1..<Suc (outboxSeq s)]" by (rule arg_cong [OF seqs])
  then have len: "length (outbox s) = outboxSeq s" by (simp del: upt_Suc)
  show "map oe_Seq (outbox s) = [1..<Suc (length (outbox s))]" unfolding len by (rule seqs)
  have dist: "distinct (map oe_Seq (outbox s))" unfolding seqs by (rule distinct_upt)
  fix r assume r: "r \<in> set (outbox s)"
  then obtain iid e where e: "e \<in> set (events_of s iid)" "publishes s e r"
    using inv(1) unfolding outbox_inv_def by blast
  show "\<exists>!e. e \<in> (\<Union>iid. set (events_of s iid)) \<and> publishes s e r"
  proof (rule ex1I [of _ e])
    fix x assume "x \<in> (\<Union>iid. set (events_of s iid)) \<and> publishes s x r"
    then show "x = e" using log_invD(7) [OF inv(2) _ e(1)] e(2) by (auto simp: publishes_def)
  qed (use e in auto)
next
  have inv: "outbox_inv s" "log_inv s" using mem_invD [OF mem_reach_inv [OF assms]] by simp_all
  then have "distinct (map oe_Seq (outbox s))"
    unfolding outbox_inv_def using distinct_upt [of 1 "Suc (outboxSeq s)"] by metis
  then have inj: "inj_on oe_Seq (set (outbox s))" by (simp add: distinct_map)
  fix e assume "e \<in> (\<Union>iid. set (events_of s iid))"
  then obtain r where r: "r \<in> set (outbox s)" "publishes s e r" using inv(1) unfolding outbox_inv_def by blast
  show "\<exists>!r. r \<in> set (outbox s) \<and> publishes s e r"
  proof (rule ex1I [of _ r])
    fix x assume "x \<in> set (outbox s) \<and> publishes s e x"
    then show "x = r" using r inj by (auto simp: publishes_def dest: inj_onD)
  qed (use r in simp)
qed

theorem outbox_exact_witness: "map oe_Seq (outbox demo_refunded) = [1, 2, 3, 4, 5]"
proof -
  have "map oe_Seq (outbox demo_refunded) = [1, 2, 3, 4, 5]"
    using demo_checked unfolding demo_check_def by blast
  from arg_cong [OF this, of length] have "length (outbox demo_refunded) = 5" by simp
  then have "[1..<Suc (length (outbox demo_refunded))] = [1, 2, 3, 4, 5]" by (simp add: upt_conv_Cons)
  with outbox_exact [OF demo_reach(6)] show ?thesis by simp
qed

section \<open>Deliveries\<close>

text \<open>In every reachable state a delivery joins an existing sink with a published event of the
  sink's merchant, and no two deliveries join the same sink and event.\<close>

theorem deliveries_sound:
  assumes "mem_reach clock prio s" "map_of (deliveries s) k = Some d"
  shows "(\<exists>sink r. map_of (eventSinks s) (dl_SinkID d) = Some sink \<and> r \<in> set (outbox s) \<and>
      ce_ID (oe_Event r) = dl_EventID d \<and> oe_MerchantID r = sk_MerchantID sink) \<and>
    (\<forall>k' d'. map_of (deliveries s) k' = Some d' \<and> dl_SinkID d' = dl_SinkID d \<and> dl_EventID d' = dl_EventID d \<longrightarrow> k' = k)"
proof -
  have inv: "delivery_inv s" by (rule mem_invD(14) [OF mem_reach_inv [OF assms(1)]])
  have "delivery_ok s k d" using inv assms(2) by (simp add: delivery_inv_def)
  moreover note inv [unfolded delivery_inv_def, THEN conjunct2, THEN conjunct2]
  ultimately show ?thesis using assms(2) unfolding delivery_ok_def published_def by metis
qed

theorem deliveries_sound_witness:
  "\<exists>d sink. map_of (deliveries demo_refunded) ''del_0000000000000001'' = Some d \<and>
     map_of (eventSinks demo_refunded) (dl_SinkID d) = Some sink"
proof -
  obtain d where "map_of (deliveries demo_refunded) ''del_0000000000000001'' = Some d"
    using demo_checked unfolding demo_check_def by auto
  with deliveries_sound [OF demo_reach(6) this] show ?thesis by blast
qed

text \<open>The fan-out. When an event is appended that the log did not hold, the log and the outbox
  gain exactly that event, at their ends, and a sink gets a delivery of it if and only if it is an active sink of
  the invoice's merchant; all earlier deliveries stay.\<close>

theorem append_fan_out:
  assumes "mem_reach clock prio s" "map_of (invoices s) iid = Some iv"
    "\<not> list_ex (same_event ty dep ref) (events_of s iid)" "dep = None \<or> ref = None"
  defines "t \<equiv> appendInvoiceEventLocked iid ty (inv_UpdatedAt iv) dep ref s"
  shows "(\<exists>e. ie_Type e = ty \<and> ie_Deposit e = dep \<and> ie_Refund e = ref \<and> events_of t iid = events_of s iid @ [e]) \<and>
    (\<exists>r. outbox t = outbox s @ [r] \<and> oe_MerchantID r = inv_MerchantID iv \<and>
      (\<forall>sid. joined t sid (ce_ID (oe_Event r)) \<longleftrightarrow>
         (\<exists>sink. map_of (eventSinks s) sid = Some sink \<and> sk_MerchantID sink = inv_MerchantID iv \<and>
            sk_Status sink = EventSinkActive)) \<and>
      (\<forall>sid ev. ev \<noteq> ce_ID (oe_Event r) \<longrightarrow> joined t sid ev = joined s sid ev))"
proof -
  have inv: "event_inv s" by (rule mem_invD(9) [OF mem_reach_inv [OF assms(1)]])
  have "iid \<noteq> []" using invoice_id_not_Nil [OF mem_invD(8) [OF mem_reach_inv [OF assms(1)]]] assms(2) by auto
  note new = append_new [OF inv assms(2) this assms(3,4), of "inv_UpdatedAt iv", folded t_def]
  let ?e = "new_event iid ty (inv_UpdatedAt iv) dep ref s"
  have id: "ce_ID (oe_Event (new_record iv ?e s)) = mk_id ''evt_'' (Suc (outboxSeq s))"
    by (simp add: new_record_def cloud_event_def)
  show ?thesis
    using new(2-4) unpublished_not_joined [OF inv]
    by (intro conjI exI [of _ ?e] exI [of _ "new_record iv ?e s"])
      (simp_all add: id, simp_all add: new_event_def new_record_def)
qed

theorem append_fan_out_witness:
  "\<exists>iv r. map_of (invoices demo_refunded) demo_iid = Some iv \<and>
     outbox (appendInvoiceEventLocked demo_iid InvoiceEventInvoiceExpired (inv_UpdatedAt iv) None None demo_refunded)
       = outbox demo_refunded @ [r]"
proof -
  obtain iv where iv: "map_of (invoices demo_refunded) demo_iid = Some iv" by (rule demo_invoice_obtain)
  have "map ie_Type (events_of demo_refunded demo_iid) = [InvoiceEventInvoiceCreated, InvoiceEventDepositDetected,
       InvoiceEventDepositConfirmed, InvoiceEventInvoicePaid, InvoiceEventRefundRequested]"
    using demo_checked unfolding demo_check_def by blast
  then have "InvoiceEventInvoiceExpired \<notin> ie_Type ` set (events_of demo_refunded demo_iid)"
    by (metis InvoiceEventType.distinct list.set_map set_ConsD empty_iff list.set(1))
  then have "\<not> list_ex (same_event InvoiceEventInvoiceExpired None None) (events_of demo_refunded demo_iid)"
    by (force simp: list_ex_iff same_event_def)
  from append_fan_out [OF demo_reach(6) iv this] iv show ?thesis by auto
qed

section \<open>Runs\<close>

lemma run_monotone_core:
  assumes "mem_inv {} s" "mem_step\<^sup>*\<^sup>* s t" "map_of (invoices s) iid = Some iv"
  shows "\<exists>iv'. map_of (invoices t) iid = Some iv' \<and> inv_static iv' = inv_static iv"
proof -
  have "statics s iid = Some (inv_static iv)" using assms(3) by (simp add: statics_def)
  with mem_steps_evolve [OF assms(2,1)] have "statics t iid = Some (inv_static iv)"
    by (simp add: evolves_def keeps_invoices_def)
  then show ?thesis by (auto simp: statics_def)
qed

text \<open>C39: Nothing a later call does can undo: however the store goes on from a reachable state, merchants and
  wallets stay as they are, a revoked key stays revoked, an invoice keeps every field but the amounts, the status and the time of
  its update, the events of an invoice, the outbox and the refunds only grow at their ends, an attributed
  deposit stays with its invoice, and no scan cursor goes back.\<close>

theorem run_monotone:
  assumes "mem_reach clock prio s" "mem_step\<^sup>*\<^sup>* s t"
  shows "(\<forall>mid w. map_of (merchantWallet s) mid = Some w \<longrightarrow> map_of (merchantWallet t) mid = Some w) \<and>
    (\<forall>key. revoked s key \<longrightarrow> revoked t key) \<and>
    (\<forall>iid iv. map_of (invoices s) iid = Some iv \<longrightarrow>
       (\<exists>iv'. map_of (invoices t) iid = Some iv' \<and> inv_static iv' = inv_static iv)) \<and>
    (\<forall>iid. \<exists>new. events_of t iid = events_of s iid @ new) \<and>
    (\<exists>new. outbox t = outbox s @ new) \<and> (\<exists>new. refunds t = refunds s @ new) \<and>
    (\<forall>k d. map_of (deposits s) k = Some d \<and> d_InvoiceID d \<noteq> [] \<longrightarrow>
       (\<exists>d'. map_of (deposits t) k = Some d' \<and> d_InvoiceID d' = d_InvoiceID d)) \<and>
    (\<forall>w. scan_cursor s w \<le> scan_cursor t w)"
proof -
  have e: "evolves s t" by (rule mem_steps_evolve [OF assms(2) mem_reach_inv [OF assms(1)]])
  note core = run_monotone_core [OF mem_reach_inv [OF assms(1)] assms(2)]
  from e core show ?thesis
    unfolding evolves_def keeps_wallets_def events_grow_def extends_def keeps_deposits_def by blast
qed

lemma demo_run: "mem_step\<^sup>*\<^sup>* demo_invoice demo_detected"
  unfolding demo_detected_def by (rule r_into_rtranclp) (rule mem_step.intros(9))

theorem run_monotone_witness: "\<exists>new. outbox demo_detected = outbox demo_invoice @ new"
  using run_monotone [OF demo_reach(3) demo_run] by blast

lemma mput_same: "map_of m k = Some v \<Longrightarrow> mput k v m = m"
  by (induction m) (auto split: if_splits)

lemma CreateInvoice_again:
  assumes inv: "invoice_inv u" and iv: "map_of (invoices u) iid = Some iv"
    and req: "TrimSpace (ic_MerchantID req) = inv_MerchantID iv"
      "TrimSpace (ic_ExternalOrderID req) = inv_ExternalOrderID iv"
      "0 < ic_AmountZat req" "ToLower (TrimSpace (ic_Address req)) \<noteq> []" "TrimSpace (ic_WalletID req) \<noteq> []"
      "inv_MerchantID iv \<noteq> []"
  shows "CreateInvoice req u = (if inv_AmountZat iv = ic_AmountZat req then (Inr (iv, False), u) else (Inl ErrConflict, u))"
proof -
  have ok: "invoice_ok u iid iv" by (rule invoice_invD(2) [OF inv iv])
  then have ix: "ext_index u (inv_MerchantID iv) (inv_ExternalOrderID iv) = Some iid"
    and key: "has_key (inv_MerchantID iv) (merchants u)" "inv_ExternalOrderID iv \<noteq> []"
    by (simp_all add: invoice_ok_def)
  then obtain m where m: "map_of (invoiceByExternal u) (inv_MerchantID iv) = Some m"
    "map_of m (inv_ExternalOrderID iv) = Some iid"
    by (auto simp: ext_index_def split: option.splits)
  show ?thesis
    using req iv key m by (simp add: CreateInvoice_def Let_def mput_same)
qed

lemma CreateInvoice_ok:
  assumes inv: "mem_inv {} s" and c: "CreateInvoice req s = (Inr (iv, new), t)"
  shows "\<exists>iv'. map_of (invoices t) (inv_InvoiceID iv) = Some iv' \<and> inv_static iv' = inv_static iv"
    "TrimSpace (ic_MerchantID req) = inv_MerchantID iv" "TrimSpace (ic_ExternalOrderID req) = inv_ExternalOrderID iv"
    "0 < ic_AmountZat req" "ToLower (TrimSpace (ic_Address req)) \<noteq> []" "TrimSpace (ic_WalletID req) \<noteq> []"
    "inv_MerchantID iv \<noteq> []" "inv_AmountZat iv = ic_AmountZat req"
proof -
  define mid ext wal adr where "mid = TrimSpace (ic_MerchantID req)" and "ext = TrimSpace (ic_ExternalOrderID req)"
    and "wal = TrimSpace (ic_WalletID req)" and "adr = ToLower (TrimSpace (ic_Address req))"
  note d = CreateInvoice_def Let_def mid_def [symmetric] ext_def [symmetric] wal_def [symmetric] adr_def [symmetric]
  define m where "m = (case map_of (invoiceByExternal s) mid of None \<Rightarrow> [] | Some m \<Rightarrow> m)"
  have ok: "mid \<noteq> []" "ext \<noteq> []" "0 < ic_AmountZat req" "adr \<noteq> []" "wal \<noteq> []" "has_key mid (merchants s)"
    using c by (simp_all add: d split: if_splits)
  have res: "inv_MerchantID iv = mid \<and> inv_ExternalOrderID iv = ext \<and> inv_AmountZat iv = ic_AmountZat req \<and>
      (\<exists>iv'. map_of (invoices t) (inv_InvoiceID iv) = Some iv' \<and> inv_static iv' = inv_static iv)"
  proof (cases "map_of m ext")
    case None
    with c ok show ?thesis
      by (auto simp: d m_def [symmetric] split: if_splits)
  next
    case (Some iid)
    have "ext_index s mid ext = Some iid"
      using Some by (auto simp: ext_index_def m_def split: option.splits)
    from invoice_invD(3) [OF mem_invD(8) [OF inv] this] obtain x
      where x: "statics s iid = Some x" "inv_MerchantID x = mid" "inv_ExternalOrderID x = ext" by blast
    then obtain y where y: "map_of (invoices s) iid = Some y" "x = inv_static y" by (auto simp: statics_def)
    have "inv_InvoiceID y = iid"
      using invoice_invD(2) [OF mem_invD(8) [OF inv] y(1)] by (simp add: invoice_ok_def)
    with c ok Some x y show ?thesis
      by (auto simp: d m_def [symmetric] split: if_splits)
  qed
  then show "\<exists>iv'. map_of (invoices t) (inv_InvoiceID iv) = Some iv' \<and> inv_static iv' = inv_static iv"
    "TrimSpace (ic_MerchantID req) = inv_MerchantID iv" "TrimSpace (ic_ExternalOrderID req) = inv_ExternalOrderID iv"
    "inv_MerchantID iv \<noteq> []" "inv_AmountZat iv = ic_AmountZat req"
    using ok(1) by (simp_all add: mid_def ext_def)
  show "0 < ic_AmountZat req" "ToLower (TrimSpace (ic_Address req)) \<noteq> []" "TrimSpace (ic_WalletID req) \<noteq> []"
    using ok by (simp_all add: adr_def wal_def)
qed

lemma create_again_core:
  assumes "mem_reach clock prio s" "CreateInvoice req s = (Inr (iv, new), t)" "mem_step\<^sup>*\<^sup>* t u"
    "TrimSpace (ic_MerchantID req') = TrimSpace (ic_MerchantID req)"
    "TrimSpace (ic_ExternalOrderID req') = TrimSpace (ic_ExternalOrderID req)"
    "TrimSpace (ic_WalletID req') \<noteq> []" "TrimSpace (ic_Address req') \<noteq> []" "0 < ic_AmountZat req'"
  shows "\<exists>iv'. inv_static iv' = inv_static iv \<and> CreateInvoice req' u =
    (if ic_AmountZat req' = ic_AmountZat req then (Inr (iv', False), u) else (Inl ErrConflict, u))"
proof -
  have s: "mem_inv {} s" by (rule mem_reach_inv [OF assms(1)])
  note c = CreateInvoice_ok [OF s assms(2)]
  have t: "mem_reach clock prio t"
    using mem_next [OF assms(1) mem_step.intros(7) [of s req]] assms(2) by simp
  from c(1) obtain x where x: "map_of (invoices t) (inv_InvoiceID iv) = Some x" "inv_static x = inv_static iv" by blast
  with run_monotone_core [OF mem_reach_inv [OF t] assms(3)] obtain y
    where y: "map_of (invoices u) (inv_InvoiceID iv) = Some y" "inv_static y = inv_static iv" by metis
  have u: "invoice_inv u" by (rule mem_invD(8) [OF mem_steps_inv [OF assms(3) mem_reach_inv [OF t]]])
  have fields: "inv_MerchantID y = inv_MerchantID iv" "inv_ExternalOrderID y = inv_ExternalOrderID iv"
    "inv_AmountZat y = inv_AmountZat iv"
    using y(2) by (metis inv_static_simps(2), metis inv_static_simps(3), metis inv_static_simps(6))
  have "CreateInvoice req' u = (if inv_AmountZat y = ic_AmountZat req' then (Inr (y, False), u) else (Inl ErrConflict, u))"
    by (rule CreateInvoice_again [OF u y(1)]) (use c assms(4-8) fields in \<open>simp_all add: ToLower_def\<close>)
  with y(2) fields(3) c(8) show ?thesis by (intro exI [of _ y]) auto
qed

text \<open>C5: Creating an invoice can be retried: once \<open>CreateInvoice\<close> has answered a request with an
  invoice, the same order of the same merchant gets the same invoice at any later time, whatever address, wallet and
  terms the retry comes with, marked as not created, and leaves the store exactly as it is; a request that differs
  in the amount is refused as a conflict.\<close>

theorem create_invoice_retry:
  assumes "mem_reach clock prio s" "CreateInvoice req s = (Inr (iv, new), t)" "mem_step\<^sup>*\<^sup>* t u"
    "TrimSpace (ic_MerchantID req') = TrimSpace (ic_MerchantID req)"
    "TrimSpace (ic_ExternalOrderID req') = TrimSpace (ic_ExternalOrderID req)"
    "TrimSpace (ic_WalletID req') \<noteq> []" "TrimSpace (ic_Address req') \<noteq> []" "0 < ic_AmountZat req'"
  shows "\<exists>iv'. inv_static iv' = inv_static iv \<and> CreateInvoice req' u =
    (if ic_AmountZat req' = ic_AmountZat req then (Inr (iv', False), u) else (Inl ErrConflict, u))"
  by (rule create_again_core [OF assms])

lemma demo_created: "\<exists>iv. CreateInvoice demo_req demo_sink = (Inr (iv, True), demo_invoice)"
proof -
  have "(case fst (CreateInvoice demo_req demo_sink) of Inr (iv, new) \<Rightarrow> new | Inl e \<Rightarrow> False)" by code_simp
  then show ?thesis
    unfolding demo_invoice_def by (cases "CreateInvoice demo_req demo_sink") (auto split: sum.splits prod.splits)
qed

theorem create_invoice_retry_witness:
  "\<exists>iv'. CreateInvoice demo_req demo_detected = (Inr (iv', False), demo_detected)"
proof -
  obtain iv where "CreateInvoice demo_req demo_sink = (Inr (iv, True), demo_invoice)" using demo_created by blast
  moreover have "TrimSpace (ic_WalletID demo_req) \<noteq> [] \<and> TrimSpace (ic_Address demo_req) \<noteq> []" by code_simp
  ultimately show ?thesis
    using create_invoice_retry [OF demo_reach(2) _ demo_run refl refl] by (fastforce simp: demo_req_def)
qed

section \<open>Scanner events\<close>

lemma ApplyScanEvent_cursor:
  assumes "ApplyScanEvent ev s = (Inr (), t)"
  shows "se_Cursor ev \<le> scan_cursor t (TrimSpace (se_WalletID ev))"
    "scan_cursor s (TrimSpace (se_WalletID ev)) < se_Cursor ev \<Longrightarrow> scan_cursor t (TrimSpace (se_WalletID ev)) = se_Cursor ev"
  by (cases rule: ApplyScanEvent_cases [of ev s]; use assms in \<open>auto simp: scan_cursor_def\<close>)+

text \<open>C4: Scanner events are applied at most once: after an event is applied, at any later time, that event
  and every other event of the wallet with no higher cursor is acknowledged and changes nothing at all.\<close>

theorem scan_event_once:
  assumes "mem_reach clock prio s" "ApplyScanEvent ev s = (Inr (), t)" "mem_step\<^sup>*\<^sup>* t u"
    "TrimSpace (se_WalletID ev') = TrimSpace (se_WalletID ev)" "TrimSpace (se_WalletID ev) \<noteq> []"
    "0 < se_Cursor ev'" "se_Cursor ev' \<le> se_Cursor ev"
  shows "ApplyScanEvent ev' u = (Inr (), u)"
proof -
  have t: "mem_reach clock prio t"
    using mem_next [OF assms(1) mem_step.intros(9) [of s ev]] assms(2) by simp
  have "evolves t u" by (rule mem_steps_evolve [OF assms(3) mem_reach_inv [OF t]])
  then have "scan_cursor t (TrimSpace (se_WalletID ev)) \<le> scan_cursor u (TrimSpace (se_WalletID ev))"
    by (simp add: evolves_def)
  with ApplyScanEvent_cursor(1) [OF assms(2)] assms(4-7) show ?thesis
    by (simp add: ApplyScanEvent_def Let_def)
qed

lemma demo_applied: "ApplyScanEvent demo_event demo_invoice = (Inr (), demo_detected)"
proof -
  have "(case fst (ApplyScanEvent demo_event demo_invoice) of Inr () \<Rightarrow> True | Inl e \<Rightarrow> False)" by code_simp
  then show ?thesis
    unfolding demo_detected_def by (cases "ApplyScanEvent demo_event demo_invoice") (auto split: sum.splits)
qed

theorem scan_event_once_witness: "ApplyScanEvent demo_event demo_paid = (Inr (), demo_paid)"
proof -
  have run: "mem_step\<^sup>*\<^sup>* demo_detected demo_paid"
    unfolding demo_paid_def by (rule r_into_rtranclp) (rule mem_step.intros(10))
  have "TrimSpace (se_WalletID demo_event) \<noteq> []" "0 < se_Cursor demo_event"
    by code_simp+
  then show ?thesis by (intro scan_event_once [OF demo_reach(3) demo_applied run refl]) simp_all
qed

section \<open>Confirmations\<close>

text \<open>The record of a deposit after the confirmations are brought up to a height.\<close>

definition confirmed_view :: "MemStore \<Rightarrow> int64 \<Rightarrow> depositRecord \<Rightarrow> depositRecord" where
  "confirmed_view s best d =
     (if d_InvoiceID d = [] \<or> d_Status d \<noteq> DepositDetected then d
      else (case map_of (invoices s) (d_InvoiceID d) of
          None \<Rightarrow> d
        | Some iv \<Rightarrow>
            if wrap64 (best - d_Height d + 1) < required_confs iv then d
            else d\<lparr>d_Status := DepositConfirmed,
                   d_ConfirmedHeight := Some (wrap64 (d_Height d + required_confs iv - 1)),
                   d_UpdatedAt := time_Now s\<rparr>))"

lemma confirm_deposit_view:
  assumes "confirm_deposit best (time_Now s0) (s, aff) (k, d) = (t, aff')" "invoices s = invoices s0"
    "map_of (deposits s) k = Some d"
  shows "invoices t = invoices s0" "map_of (deposits t) = (map_of (deposits s))(k \<mapsto> confirmed_view s0 best d)"
  using assms by (auto simp: confirm_deposit_def confirmed_view_def Let_def split: if_splits option.splits)

lemma confirm_deposits_view:
  assumes "foldl (confirm_deposit best (time_Now s0)) (s, aff) kds = (t, aff')" "invoices s = invoices s0"
    "distinct (map fst kds)" "\<And>k d. (k, d) \<in> set kds \<Longrightarrow> map_of (deposits s) k = Some d"
  shows "map_of (deposits t) k = (if k \<in> fst ` set kds then map_option (confirmed_view s0 best) (map_of (deposits s) k)
    else map_of (deposits s) k)"
  using assms
proof (induction kds arbitrary: s aff)
  case (Cons kd kds)
  obtain k0 d where kd: "kd = (k0, d)" by (cases kd)
  obtain s1 aff1 where c: "confirm_deposit best (time_Now s0) (s, aff) (k0, d) = (s1, aff1)" by fastforce
  have d: "map_of (deposits s) k0 = Some d" using Cons.prems(4) kd by simp
  note v = confirm_deposit_view [OF c Cons.prems(2) d]
  have k0: "k0 \<notin> fst ` set kds" using Cons.prems(3) kd by simp
  have "map_of (deposits s1) k' = Some e" if "(k', e) \<in> set kds" for k' e
  proof -
    have "k' \<noteq> k0" using k0 that by force
    with v(2) Cons.prems(4) that show ?thesis by simp
  qed
  with Cons.IH [of s1 aff1] Cons.prems c kd v(1)
  have "map_of (deposits t) k = (if k \<in> fst ` set kds then map_option (confirmed_view s0 best) (map_of (deposits s1) k)
    else map_of (deposits s1) k)" by simp
  then show ?case using kd d k0 unfolding v(2) by auto
qed simp

lemma recompute_all_deposits: "deposits (foldl (\<lambda>s i. recomputeInvoiceLocked i s) s ids) = deposits s"
  by (induction ids arbitrary: s) simp_all

lemma confirmations_core:
  assumes "mem_reach clock prio s"
  shows "map_of (deposits (snd (UpdateInvoiceConfirmations best s))) k =
    map_option (confirmed_view s best) (map_of (deposits s) k)"
proof -
  let ?s = "ticked s"
  obtain t aff where c: "foldl (confirm_deposit best (time_Now s)) (?s, []) (ranged ?s (deposits s)) = (t, aff)"
    by fastforce
  have wf: "wf_map (deposits s)"
    using mem_invD(2) [OF mem_reach_inv [OF assms]] by (simp add: deposit_inv_def)
  have keys: "fst ` set (ranged ?s (deposits s)) = fst ` set (deposits s)" by simp
  have "map_of (deposits t) k = (if k \<in> fst ` set (deposits s)
      then map_option (confirmed_view s best) (map_of (deposits s) k) else map_of (deposits s) k)"
    using confirm_deposits_view [OF c, of k] wf keys
    by (simp add: wf_map_set_iff) (simp add: wf_map_def [symmetric])
  moreover have "map_of (deposits s) k = None" if "k \<notin> fst ` set (deposits s)"
    using that by (simp add: map_of_eq_None_iff)
  ultimately have "map_of (deposits t) k = map_option (confirmed_view s best) (map_of (deposits s) k)" by auto
  then show ?thesis using c by (simp add: UpdateInvoiceConfirmations_def Let_def recompute_all_deposits)
qed

text \<open>C14: Bringing the confirmations up to a height confirms exactly the detected, attributed deposits that have the confirmations
  their invoice asks for (at least one), at the height where they got them, and changes no other
  deposit. Whatever the order in which the loop visits them.\<close>

theorem confirmations_exact:
  assumes "mem_reach clock prio s"
  shows "map_of (deposits (snd (UpdateInvoiceConfirmations best s))) k =
    map_option (confirmed_view s best) (map_of (deposits s) k)"
  by (rule confirmations_core [OF assms])

theorem confirmations_exact_witness:
  "map_of (deposits demo_paid) demo_key = map_option (confirmed_view demo_detected 22) (map_of (deposits demo_detected) demo_key)"
  unfolding demo_paid_def by (rule confirmations_exact [OF demo_reach(4)])

section \<open>Listings\<close>

text \<open>A client of a listing: the page for a cursor, and an error as an empty page.\<close>

definition page_of :: "store_error + 'a list \<times> int64 \<Rightarrow> 'a list \<times> int64" where
  "page_of r = (case r of Inr p \<Rightarrow> p | Inl e \<Rightarrow> ([], 0))"

lemma walk_map: "walk (\<lambda>c. map_prod (map g) (\<lambda>n. n) (f c)) fuel cursor = map_option (map g) (walk f fuel cursor)"
  by (induction fuel arbitrary: cursor) (auto split: prod.splits option.splits)

lemma walk_cong:
  assumes "\<And>c. 0 \<le> c \<Longrightarrow> f c = f' c" "\<And>c. 0 \<le> c \<Longrightarrow> 0 \<le> snd (f c)" "0 \<le> cursor"
  shows "walk f fuel cursor = walk f' fuel cursor"
  using assms(3)
proof (induction fuel arbitrary: cursor)
  case (Suc fuel)
  obtain rs n where f: "f cursor = (rs, n)" by fastforce
  then have "f' cursor = (rs, n)" "0 \<le> n" using assms(1,2) [OF Suc.prems] by simp_all
  with f Suc.IH [of n] show ?case by simp
qed simp

lemma mset_eq_short: "mset xs = mset ys \<Longrightarrow> length ys \<le> 1 \<Longrightarrow> xs = ys"
  by (cases ys) auto

lemma page_sorted:
  assumes "0 < limit" "mset xs = mset ys" "distinct (map sq ys)"
  shows "page sq' (\<lambda>_. True) limit [] 0 (sort_key sq (filter P xs)) =
    page sq' P limit [] 0 (sort_key sq ys)"
proof -
  have "mset (map sq xs) = mset (map sq ys)" using assms(2) by simp
  with assms(3) have inj: "distinct (map sq xs)" using mset_eq_imp_distinct_iff by blast
  have "sort_key sq xs = sort_key sq ys"
  proof (rule properties_for_sort_key)
    show "mset (sort_key sq ys) = mset xs" using assms(2) by simp
    fix k assume "k \<in> set (sort_key sq ys)"
    show "filter (\<lambda>x. sq k = sq x) (sort_key sq ys) = filter (\<lambda>x. sq k = sq x) xs"
    proof -
      have len: "length (filter (\<lambda>x. sq k = sq x) zs) \<le> 1" if "distinct (map sq zs)" for zs
        using that by (induction zs) (auto simp: filter_empty_conv)
      show ?thesis by (rule mset_eq_short [OF _ len [OF inj]]) (simp add: assms(2))
    qed
  qed simp
  then show ?thesis using assms(1) by (simp add: page_eq filter_sort [symmetric])
qed

text \<open>Listing invoices page by page misses and repeats none: a client that follows the cursor from
  the start until a page is empty has received every invoice the filter selects, in order of creation, once.\<close>

theorem list_invoices_complete:
  assumes "mem_reach clock prio s" "invoiceSeq s < 2 ^ 63" "0 < if_Limit f" "if_Limit f \<le> 1000"
    "length (invoices s) < fuel"
  shows "walk (\<lambda>c. page_of (fst (ListInvoices (f\<lparr>if_AfterID := c\<rparr>) s))) fuel 0 =
    Some (filter (invoice_match (TrimSpace (if_MerchantID f)) (if_Status f) (TrimSpace (if_ExternalOrderID f)))
      (sort_key invoice_seq (map snd (invoices s))))"
proof -
  let ?match = "invoice_match (TrimSpace (if_MerchantID f)) (if_Status f) (TrimSpace (if_ExternalOrderID f))"
  have good: "invoice_inv s \<and> invoiceSeq s < 2 ^ 63"
    using mem_invD(8) [OF mem_reach_inv [OF assms(1)]] assms(2) by simp
  have "distinct (map invoice_seq (invoice_log s))"
    using invoice_pages.increasing [OF good] by (rule distinct_if_sorted_wrt_less)
  moreover have "mset (map invoice_seq (invoice_log s)) = mset (map invoice_seq (map snd (invoices s)))"
    by (simp add: invoice_log_def image_mset.compositionality comp_def)
  ultimately have dist: "distinct (map invoice_seq (map snd (invoices s)))"
    using mset_eq_imp_distinct_iff by blast
  have page: "page_of (fst (ListInvoices (f\<lparr>if_AfterID := c\<rparr>) s)) = invoice_pages.fetch ?match (if_Limit f) s c" if "0 \<le> c" for c
  proof -
    have "page_of (fst (ListInvoices (f\<lparr>if_AfterID := c\<rparr>) s)) =
      page invoice_seq (\<lambda>_. True) (if_Limit f) [] 0 (sort_key invoice_seq
        (filter (\<lambda>iv. ?match iv \<and> \<not> invoice_seq iv \<le> c) (map snd (ranged s (invoices s)))))"
      using that assms(3,4) by (simp add: ListInvoices_def page_of_def Let_def)
    also have "\<dots> = page invoice_seq (\<lambda>iv. ?match iv \<and> \<not> invoice_seq iv \<le> c) (if_Limit f) [] 0
        (sort_key invoice_seq (map snd (invoices s)))"
      by (rule page_sorted [OF assms(3) _ dist]) simp
    also have "\<dots> = invoice_pages.fetch ?match (if_Limit f) s c"
      by (simp add: invoice_pages.fetch_def invoice_log_def not_le conj_commute)
    finally show ?thesis .
  qed
  have "0 \<le> snd (invoice_pages.fetch ?match (if_Limit f) s c)" if "0 \<le> c" for c
    by (rule invoice_pages.fetch_nonneg [OF good assms(3) that])
  then have "walk (\<lambda>c. page_of (fst (ListInvoices (f\<lparr>if_AfterID := c\<rparr>) s))) fuel 0 =
      walk (invoice_pages.fetch ?match (if_Limit f) s) fuel 0"
    using page by (intro walk_cong) simp_all
  also have "\<dots> = Some (filter ?match (invoice_log s))"
    using assms(3,5) by (intro invoice_pages.walk_all [OF good]) (simp_all add: invoice_log_def)
  finally show ?thesis by (simp add: invoice_log_def)
qed

theorem list_invoices_complete_witness:
  "\<exists>iv. walk (\<lambda>c. page_of (fst (ListInvoices
      (\<lparr>if_MerchantID = [], if_Status = None, if_ExternalOrderID = [], if_AfterID = 0, if_Limit = 1\<rparr>\<lparr>if_AfterID := c\<rparr>)
      demo_refunded))) 2 0 = Some iv"
  using demo_checked
  by (subst list_invoices_complete [OF demo_reach(6)]) (auto simp: demo_check_def)

text \<open>The outbound events of a merchant, read page by page from the start, are exactly the published
  events of that merchant, in order, once each.\<close>

theorem outbound_events_complete:
  assumes "mem_reach clock prio s" "0 < limit" "limit \<le> 1000" "TrimSpace mid \<noteq> []" "length (outbox s) < fuel"
  shows "walk (\<lambda>c. page_of (fst (ListOutboundEvents mid c limit s))) fuel 0 =
    Some (map oe_Event (filter (\<lambda>r. oe_MerchantID r = TrimSpace mid) (outbox s)))"
proof -
  let ?match = "\<lambda>r. oe_MerchantID r = TrimSpace mid"
  have good: "outbox_inv s" by (rule mem_invD(12) [OF mem_reach_inv [OF assms(1)]])
  have page: "page_of (fst (ListOutboundEvents mid c limit s)) =
      map_prod (map oe_Event) (\<lambda>n. n) (outbox_log.fetch ?match limit s c)" for c
    using assms(2-4)
    by (simp add: ListOutboundEvents_def page_of_def Let_def outbox_log.fetch_def split: prod.splits)
  show ?thesis
    unfolding page walk_map using outbox_log.walk_all [OF good assms(2,5), of ?match] by simp
qed

theorem outbound_events_complete_witness:
  "\<exists>es. walk (\<lambda>c. page_of (fst (ListOutboundEvents ''m_0000000000000001'' c 2 demo_refunded))) 6 0 = Some es"
proof -
  have "map oe_Seq (outbox demo_refunded) = [1, 2, 3, 4, 5]"
    using demo_checked unfolding demo_check_def by blast
  from arg_cong [OF this, of length] have "length (outbox demo_refunded) = 5" by simp
  moreover have "TrimSpace ''m_0000000000000001'' \<noteq> []" by code_simp
  ultimately show ?thesis by (subst outbound_events_complete [OF demo_reach(6)]) auto
qed

text \<open>The events of one invoice, read page by page, are its whole log.\<close>

theorem invoice_events_complete:
  assumes "mem_reach clock prio s" "invoiceEventSeq s < 2 ^ 63" "0 < limit" "limit \<le> 1000" "TrimSpace iid \<noteq> []"
    "length (events_of s (TrimSpace iid)) < fuel"
  shows "walk (\<lambda>c. page_of (fst (ListInvoiceEvents iid c limit s))) fuel 0 = Some (events_of s (TrimSpace iid))"
proof -
  let ?p = "(s, TrimSpace iid)"
  have good: "case ?p of (s, iid) \<Rightarrow> log_inv s \<and> invoiceEventSeq s < 2 ^ 63"
    using mem_invD(11) [OF mem_reach_inv [OF assms(1)]] assms(2) by simp
  have page: "page_of (fst (ListInvoiceEvents iid c limit s)) = invoice_log.fetch (\<lambda>_. True) limit ?p c" for c
    using assms(3-5) by (simp add: ListInvoiceEvents_def page_of_def Let_def invoice_log.fetch_def)
  show ?thesis
    unfolding page using invoice_log.walk_all [OF good assms(3), of fuel "\<lambda>_. True"] assms(6) by simp
qed

theorem invoice_events_complete_witness:
  "walk (\<lambda>c. page_of (fst (ListInvoiceEvents demo_iid c 2 demo_refunded))) 6 0 = Some (events_of demo_refunded demo_iid)"
proof -
  have "map ie_Type (events_of demo_refunded demo_iid) = [InvoiceEventInvoiceCreated, InvoiceEventDepositDetected,
       InvoiceEventDepositConfirmed, InvoiceEventInvoicePaid, InvoiceEventRefundRequested]" "invoiceEventSeq demo_refunded = 5"
    using demo_checked unfolding demo_check_def by blast+
  moreover from arg_cong [OF this(1), of length] have "length (events_of demo_refunded demo_iid) = 5" by simp
  moreover have "TrimSpace demo_iid = demo_iid" by code_simp
  moreover have "demo_iid \<noteq> []" by (simp add: demo_iid_def)
  ultimately show ?thesis using invoice_events_complete [OF demo_reach(6), of 2 demo_iid 6] by simp
qed

section \<open>Keys, addresses and reviews\<close>

lemma token_plain:
  "TrimSpace (''jps_'' @ hex_encode bs) = ''jps_'' @ hex_encode bs" "''jps_'' @ hex_encode bs \<noteq> []"
proof -
  have j: "plain_char (CHR ''j'')" "plain_char (CHR ''_'')" by code_simp+
  have "plain_char (last (''jps_'' @ hex_encode bs))"
  proof (cases "hex_encode bs = []")
    case True
    with j show ?thesis by simp
  next
    case False
    then have "last (hex_encode bs) \<in> set (hex_encode bs)" by simp
    then have "plain_char (last (hex_encode bs))" by (rule plain_digit [OF set_hex_encode])
    with False show ?thesis by simp
  qed
  with j show "TrimSpace (''jps_'' @ hex_encode bs) = ''jps_'' @ hex_encode bs"
    by (intro TrimSpace_id no_outer_space_plain) simp_all
qed simp

lemma CreateMerchantAPIKey_ok:
  assumes "CreateMerchantAPIKey raw mid label s = (Inr (keyID, tok), t)"
  shows "TrimSpace tok = tok" "tok \<noteq> []" "TrimSpace keyID = keyID" "keyID \<noteq> []"
    "map_of (apiKeysByHash t) (sha256_hex tok) = Some keyID"
    "\<exists>r. map_of (apiKeysByID t) keyID = Some r \<and> ak_MerchantID r = TrimSpace mid \<and> ak_RevokedAt r = None"
proof -
  have k: "plain_char (CHR ''k'')" by code_simp
  obtain bs where tok: "tok = ''jps_'' @ hex_encode bs" and key: "keyID = mk_id ''key_'' (Suc (apiKeySeq s))"
    and t: "map_of (apiKeysByHash t) (sha256_hex tok) = Some keyID"
      "\<exists>r. map_of (apiKeysByID t) keyID = Some r \<and> ak_MerchantID r = TrimSpace mid \<and> ak_RevokedAt r = None"
    using assms by (auto simp: CreateMerchantAPIKey_def Let_def split: if_splits option.splits)
  show "TrimSpace tok = tok" "tok \<noteq> []" unfolding tok by (rule token_plain)+
  show "TrimSpace keyID = keyID" "keyID \<noteq> []" unfolding key by (simp_all add: TrimSpace_mk_id k)
qed (use assms in \<open>auto simp: CreateMerchantAPIKey_def Let_def split: if_splits option.splits\<close>)

text \<open>The life of an API key: the token \<open>CreateMerchantAPIKey\<close> returns identifies the merchant it was made
  for, and once the key is revoked the token identifies nobody, however the store goes on, unless the store
  takes the hash of the token for another key.\<close>

theorem api_key_life:
  assumes "mem_reach clock prio s" "CreateMerchantAPIKey raw mid label s = (Inr (keyID, tok), t)"
  shows "LookupMerchantIDByAPIKey tok t = (Inr (Some (TrimSpace mid)), t) \<and>
    fst (RevokeMerchantAPIKey keyID t) = Inr () \<and>
    (\<forall>u. mem_step\<^sup>*\<^sup>* (snd (RevokeMerchantAPIKey keyID t)) u \<and> map_of (apiKeysByHash u) (sha256_hex tok) = Some keyID \<longrightarrow>
       LookupMerchantIDByAPIKey tok u = (Inr None, u))"
proof (intro conjI allI impI)
  note k = CreateMerchantAPIKey_ok [OF assms(2)]
  then obtain r where r: "map_of (apiKeysByID t) keyID = Some r" "ak_MerchantID r = TrimSpace mid" "ak_RevokedAt r = None"
    by blast
  show "LookupMerchantIDByAPIKey tok t = (Inr (Some (TrimSpace mid)), t)"
    using k(1,2,5) r by (simp add: LookupMerchantIDByAPIKey_def Let_def)
  have rev: "fst (RevokeMerchantAPIKey keyID t) = Inr ()" "revoked (snd (RevokeMerchantAPIKey keyID t)) keyID"
    using k(3,4) r by (simp_all add: RevokeMerchantAPIKey_def Let_def revoked_def)
  then show "fst (RevokeMerchantAPIKey keyID t) = Inr ()" by simp
  have t: "mem_reach clock prio t"
    using mem_next [OF assms(1) mem_step.intros(5) [of s raw mid label]] assms(2) by simp
  have t': "mem_inv {} (snd (RevokeMerchantAPIKey keyID t))"
    by (rule mem_reach_inv [OF mem_next [OF t mem_step.intros(6)]])
  fix u assume u: "mem_step\<^sup>*\<^sup>* (snd (RevokeMerchantAPIKey keyID t)) u \<and> map_of (apiKeysByHash u) (sha256_hex tok) = Some keyID"
  then have "evolves (snd (RevokeMerchantAPIKey keyID t)) u" using mem_steps_evolve t' by blast
  with rev(2) have "revoked u keyID" by (simp add: evolves_def)
  with u k(1,2) show "LookupMerchantIDByAPIKey tok u = (Inr None, u)"
    by (auto simp: LookupMerchantIDByAPIKey_def Let_def revoked_def)
qed

lemma demo_key_made:
  "\<exists>keyID tok. CreateMerchantAPIKey (Some ''secret'') ''m_0000000000000001'' [] demo_sink =
    (Inr (keyID, tok), snd (CreateMerchantAPIKey (Some ''secret'') ''m_0000000000000001'' [] demo_sink))"
proof -
  have m: "has_key ''m_0000000000000001'' (merchants demo_sink)" "TrimSpace ''m_0000000000000001'' = ''m_0000000000000001''"
    by code_simp+
  then show ?thesis by (simp add: CreateMerchantAPIKey_def Let_def)
qed

theorem api_key_life_witness:
  "\<exists>tok t. LookupMerchantIDByAPIKey tok t = (Inr (Some (TrimSpace ''m_0000000000000001'')), t)"
proof -
  obtain keyID tok where k: "CreateMerchantAPIKey (Some ''secret'') ''m_0000000000000001'' [] demo_sink =
    (Inr (keyID, tok), snd (CreateMerchantAPIKey (Some ''secret'') ''m_0000000000000001'' [] demo_sink))"
    using demo_key_made by blast
  from api_key_life [OF demo_reach(2) k] show ?thesis by blast
qed

fun next_indexes :: "nat \<Rightarrow> string \<Rightarrow> MemStore \<Rightarrow> uint32 list option" where
  "next_indexes 0 mid s = Some []"
| "next_indexes (Suc n) mid s = (case NextAddressIndex mid s of
       (Inl e, s') \<Rightarrow> None
     | (Inr i, s') \<Rightarrow> map_option (Cons i) (next_indexes n mid s'))"

lemma next_indexes_eq:
  assumes "TrimSpace mid \<noteq> []" "has_key (TrimSpace mid) (merchants s)" "has_key (TrimSpace mid) (merchantWallet s)"
    "map_of (nextAddressIndex s) (TrimSpace mid) = Some i"
  shows "next_indexes n mid s = Some (map (\<lambda>k. i + of_nat k) [0..<n])"
  using assms
proof (induction n arbitrary: i s)
  case (Suc n)
  let ?s = "s\<lparr>nextAddressIndex := mput (TrimSpace mid) (i + 1) (nextAddressIndex s)\<rparr>"
  have step: "NextAddressIndex mid s = (Inr i, ?s)"
    using Suc.prems by (simp add: NextAddressIndex_def Let_def)
  have "next_indexes n mid ?s = Some (map (\<lambda>k. i + 1 + of_nat k) [0..<n])"
    using Suc.prems by (intro Suc.IH) simp_all
  moreover have "map (\<lambda>k. i + of_nat k) [0..<Suc n] = i # map (\<lambda>k. i + 1 + of_nat k) [0..<n]"
    by (simp only: upt_conv_Cons [OF zero_less_Suc] list.map map_Suc_upt [symmetric] map_map)
      (simp add: comp_def add.assoc)
  ultimately show ?case using step by simp
qed simp

text \<open>Addresses are not reused: asking \<open>NextAddressIndex\<close> \<open>n\<close> times in a row for a merchant with a wallet
  returns \<open>n\<close> consecutive indexes, distinct as long as the 32-bit counter does not wrap.\<close>

theorem address_indexes_fresh:
  assumes "mem_reach clock prio s" "has_key mid (merchantWallet s)" "n \<le> 2 ^ 32"
  shows "\<exists>is. next_indexes n mid s = Some is \<and> length is = n \<and> distinct is \<and>
    (\<forall>k. k + 1 < n \<longrightarrow> is ! (k + 1) = is ! k + 1)"
proof -
  have inv: "merchant_inv s" by (rule mem_invD(6) [OF mem_reach_inv [OF assms(1)]])
  have key: "has_key mid (merchants s)" "has_key mid (nextAddressIndex s)"
    using inv assms(2) by (auto simp: merchant_inv_def has_key_def)
  note m = merchant_id_trim [OF inv key(1)]
  obtain i where i: "map_of (nextAddressIndex s) mid = Some i" using key(2) by (auto simp: has_key_def)
  let ?is = "map (\<lambda>k. i + of_nat k) [0..<n]"
  have "next_indexes n mid s = Some ?is"
    using next_indexes_eq [of mid s i n] m key(1) assms(2) i by simp
  moreover have "distinct ?is"
  proof -
    have "inj_on (\<lambda>k. i + of_nat k) {0..<n}"
    proof (rule inj_onI)
      fix a b assume ab: "a \<in> {0..<n}" "b \<in> {0..<n}" "i + of_nat a = i + of_nat b"
      then have eq: "(of_nat a :: 32 word) = of_nat b" by simp
      have "take_bit 32 a = a" "take_bit 32 b = b"
        using ab assms(3) by (simp_all add: take_bit_nat_eq_self_iff)
      with eq show "a = b" by (simp add: word_of_nat_eq_iff)
    qed
    then show ?thesis by (simp add: distinct_map)
  qed
  ultimately show ?thesis by (intro exI [of _ ?is]) (simp add: add.assoc)
qed

theorem address_indexes_fresh_witness: "\<exists>is. next_indexes 3 ''m_0000000000000001'' demo_sink = Some is \<and> distinct is"
proof -
  have "has_key ''m_0000000000000001'' (merchantWallet demo_sink)" by code_simp
  from address_indexes_fresh [OF demo_reach(2) this, of 3] show ?thesis by auto
qed

text \<open>The review queue never holds two open cases for the same merchant, reason and invoice, nor, for
  deposits without an invoice, for the same merchant, reason and deposit.\<close>

theorem open_reviews_unique:
  assumes "mem_reach clock prio s" "map_of (reviewCases s) k = Some r" "map_of (reviewCases s) k' = Some r'"
    "open_case_key r \<noteq> None" "open_case_key r = open_case_key r'"
  shows "k = k'"
  using mem_invD(7) [OF mem_reach_inv [OF assms(1)]] assms(2-5) unfolding review_inv_def by blast

definition demo_stray :: MemStore where
  "demo_stray = snd (ApplyScanEvent (demo_event\<lparr>se_Payload := RawJson (enc_DepositEventPayload
     (demo_payload\<lparr>de_RecipientAddress := ''j1other''\<rparr>))\<rparr>) demo_invoice)"

theorem open_reviews_unique_witness:
  "\<exists>k r. map_of (reviewCases demo_stray) k = Some r \<and> open_case_key r \<noteq> None \<and>
     (\<forall>k'. map_of (reviewCases demo_stray) k' = Some r \<longrightarrow> k' = k)"
proof -
  have reach: "mem_reach demo_clock demo_order demo_stray"
    unfolding demo_stray_def by (rule mem_next [OF demo_reach(3) mem_step.intros(9)])
  have "(case map_of (reviewCases demo_stray) ''rev_0000000000000001'' of None \<Rightarrow> False
      | Some r \<Rightarrow> open_case_key r \<noteq> None)" by code_simp
  then obtain r where r: "map_of (reviewCases demo_stray) ''rev_0000000000000001'' = Some r" "open_case_key r \<noteq> None"
    by (auto split: option.splits)
  have "k' = ''rev_0000000000000001''" if "map_of (reviewCases demo_stray) k' = Some r" for k'
    by (rule open_reviews_unique [OF reach that r(1) r(2) refl])
  with r show ?thesis by blast
qed

end
