(* ===== verification/ApiTypes.thy ===== *)
theory ApiTypes
  imports OutboxWorker EventStore
begin

text \<open>
  \<open>internal/api/api.go\<close>, its types: the server with its options and constructor, requests and
  replies, the JSON a reply is made of, the reading of query parameters and request bodies. The
  contexts with their time limits are left out: a call that is cut short answers with its error.
\<close>

section \<open>Requests and replies\<close>

text \<open>
  Of a request: the path is the decoded one, the cookies are what \<open>net/http\<close> parses, the body is
  the first JSON value a decoder finds in it. The last two fields tell of a streaming client
  whether its connection can be flushed and for how many ticks it stays.
\<close>

record HttpRequest =
  hr_Method :: string
  hr_Path :: string
  hr_RawQuery :: string
  hr_Authorization :: string
  hr_Cookies :: "(string \<times> string) list"
  hr_Body :: raw_message
  hr_Flusher :: bool
  hr_Ticks :: nat

datatype reply_body = NoBody | PlainText string | JsonBody json

record Reply =
  rp_Status :: int
  rp_Header :: "(string \<times> string) list"
  rp_Body :: reply_body

text \<open>A map of the source, as \<open>encoding/json\<close> writes it: in the order of the keys.\<close>

definition jmap :: "(string \<times> json) list \<Rightarrow> json" where
  "jmap kvs = JObj (sort_key fst kvs)"

definition jint :: "int \<Rightarrow> json" where
  "jint n = JNum (FormatInt n)"

definition jopt :: "('a \<Rightarrow> json) \<Rightarrow> 'a option \<Rightarrow> json" where
  "jopt f v = (case v of None \<Rightarrow> JNull | Some x \<Rightarrow> f x)"

definition jtime :: "time \<Rightarrow> json" where
  "jtime t = JStr (RFC3339Nano t)"

definition writeJSON :: "int \<Rightarrow> json \<Rightarrow> Reply" where
  "writeJSON status v = \<lparr>rp_Status = status, rp_Header = [(''Content-Type'', ''application/json'')],
     rp_Body = JsonBody v\<rparr>"

definition writeError :: "int \<Rightarrow> string \<Rightarrow> string \<Rightarrow> Reply" where
  "writeError status code msg = writeJSON status (jmap [(''status'', JStr ''error''),
     (''error'', jmap [(''code'', JStr code), (''message'', JStr msg)])])"

definition ok_reply :: "int \<Rightarrow> json \<Rightarrow> Reply" where
  "ok_reply status data = writeJSON status (jmap [(''status'', JStr ''ok''), (''data'', data)])"

text \<open>\<open>http.Error\<close>, \<open>http.NotFound\<close> and \<open>http.Redirect\<close>.\<close>

definition http_Error :: "int \<Rightarrow> string \<Rightarrow> Reply" where
  "http_Error status msg = \<lparr>rp_Status = status,
     rp_Header = [(''Content-Type'', ''text/plain; charset=utf-8''), (''X-Content-Type-Options'', ''nosniff'')],
     rp_Body = PlainText (msg @ [CHR 0x0A])\<rparr>"

abbreviation method_not_allowed :: Reply where
  "method_not_allowed \<equiv> http_Error 405 ''method not allowed''"

abbreviation not_found :: Reply where
  "not_found \<equiv> http_Error 404 ''404 page not found''"

definition http_Redirect :: "HttpRequest \<Rightarrow> string \<Rightarrow> Reply" where
  "http_Redirect r url = \<lparr>rp_Status = 307,
     rp_Header = (''Location'', url) # (if hr_Method r = ''GET'' \<or> hr_Method r = ''HEAD''
       then [(''Content-Type'', ''text/html; charset=utf-8'')] else []),
     rp_Body = (if hr_Method r = ''GET'' then PlainText (''<a href='' @ [CHR 0x22] @ url @ [CHR 0x22] @
       ''>Temporary Redirect</a>.'' @ [CHR 0x0A, CHR 0x0A]) else NoBody)\<rparr>"

abbreviation internal :: "string \<Rightarrow> Reply" where
  "internal msg \<equiv> writeError 500 ''internal'' msg"

abbreviation bad_argument :: "string \<Rightarrow> Reply" where
  "bad_argument msg \<equiv> writeError 400 ''invalid_argument'' msg"

abbreviation unauthorized :: "string \<Rightarrow> Reply" where
  "unauthorized msg \<equiv> writeError 401 ''unauthorized'' msg"

abbreviation invalid_json :: Reply where
  "invalid_json \<equiv> writeError 400 ''invalid_json'' ''invalid json''"

text \<open>The end of every chain of error checks: an invalid argument is the client's, anything else is ours.\<close>

definition store_reply :: "store_error \<Rightarrow> Reply" where
  "store_reply e = (case AsError e of
       Some (code, msg) \<Rightarrow> if code = ErrInvalidArgument then writeError 400 (ErrorCode_str code) msg
         else internal ''db error''
     | None \<Rightarrow> internal ''db error'')"

section \<open>The server\<close>

text \<open>\<open>ErrUptimeUnsupported\<close> and any other error of \<open>UptimeSeconds\<close>.\<close>

datatype uptime_error = UptimeUnsupported | UptimeError string

record 'w TipSource =
  tip_BestTip :: "'w \<Rightarrow> (string + int64 \<times> string) \<times> 'w"
  tip_UptimeSeconds :: "'w \<Rightarrow> (uptime_error + int64) \<times> 'w"

type_synonym Deriver = "string \<Rightarrow> string \<Rightarrow> uint32 \<Rightarrow> string + string"

text \<open>The configuration of a server; the fields under its mutex are a record of their own.\<close>

record ('st, 'w) Server =
  sv_st :: "'st Store"
  sv_deriver :: Deriver
  sv_tip :: "'w TipSource"
  sv_clock :: "'w \<Rightarrow> time \<times> 'w"
  sv_tokenGen :: "'w \<Rightarrow> (string + string) \<times> 'w"
  sv_scanHealth :: "('w \<Rightarrow> (string + bool) \<times> 'w) option"
  sv_adminUI :: "(HttpRequest \<Rightarrow> 'w \<Rightarrow> Reply \<times> 'w) option"
  sv_adminEnabled :: bool
  sv_adminPassHash :: string
  sv_adminSessionKey :: string
  sv_adminSessionTTL :: duration

record Restarts =
  rs_lastUptimeKnown :: bool
  rs_lastUptimeSeconds :: int64
  rs_restartsDetected :: int64
  rs_lastRestartAt :: "time option"

definition no_restarts :: Restarts where
  "no_restarts = \<lparr>rs_lastUptimeKnown = False, rs_lastUptimeSeconds = 0, rs_restartsDetected = 0,
     rs_lastRestartAt = None\<rparr>"

type_synonym ('st, 'w) ServerOption = "('st, 'w) Server \<Rightarrow> string + ('st, 'w) Server"

definition WithAdminPassword :: "string \<Rightarrow> ('st, 'w) ServerOption" where
  "WithAdminPassword password0 sv =
     (let password = TrimSpace password0 in
      if password = [] then Inl ''api: admin password is required''
      else Inr (sv\<lparr>sv_adminEnabled := True, sv_adminPassHash := sha256 password,
             sv_adminSessionKey := sha256 (''juno-pay-server/session:'' @ password),
             sv_adminSessionTTL := (if sv_adminSessionTTL sv = 0 then 12 * Hour else sv_adminSessionTTL sv)\<rparr>))"

definition WithScannerHealth :: "('w \<Rightarrow> (string + bool) \<times> 'w) \<Rightarrow> ('st, 'w) ServerOption" where
  "WithScannerHealth h sv = Inr (sv\<lparr>sv_scanHealth := Some h\<rparr>)"

text \<open>The handler of the admin pages is a parameter: the embedded one, if the build has it, or the one
  for a directory, after a look at the directory (an error, or whether it is one).\<close>

definition WithAdminUI :: "(HttpRequest \<Rightarrow> 'w \<Rightarrow> Reply \<times> 'w) option \<Rightarrow> (string \<Rightarrow> string + bool) \<Rightarrow>
    (string \<Rightarrow> HttpRequest \<Rightarrow> 'w \<Rightarrow> Reply \<times> 'w) \<Rightarrow> string \<Rightarrow> ('st, 'w) ServerOption" where
  "WithAdminUI embedded stat ui dir0 sv =
     (let dir = TrimSpace dir0 in
      if dir = [] then (case embedded of None \<Rightarrow> Inr sv | Some h \<Rightarrow> Inr (sv\<lparr>sv_adminUI := Some h\<rparr>))
      else (case stat dir of
          Inl e \<Rightarrow> Inl e
        | Inr isDir \<Rightarrow> if \<not> isDir then Inl (''admin ui dir is not a directory: '' @ dir)
            else Inr (sv\<lparr>sv_adminUI := Some (ui dir)\<rparr>)))"

fun server_options :: "('st, 'w) ServerOption option list \<Rightarrow> ('st, 'w) ServerOption" where
  "server_options [] sv = Inr sv"
| "server_options (None # opts) sv = server_options opts sv"
| "server_options (Some opt # opts) sv = (case opt sv of Inl e \<Rightarrow> Inl e | Inr sv' \<Rightarrow> server_options opts sv')"

definition Server_New :: "'st Store option \<Rightarrow> Deriver option \<Rightarrow> 'w TipSource option \<Rightarrow> ('w \<Rightarrow> time \<times> 'w) option \<Rightarrow>
    ('w \<Rightarrow> (string + string) \<times> 'w) option \<Rightarrow> ('st, 'w) ServerOption option list \<Rightarrow> string + ('st, 'w) Server" where
  "Server_New st deriver tip clock tokenGen opts =
     (case st of None \<Rightarrow> Inl ''api: store is nil'' | Some st' \<Rightarrow>
      (case deriver of None \<Rightarrow> Inl ''api: deriver is nil'' | Some d \<Rightarrow>
      (case tip of None \<Rightarrow> Inl ''api: tip source is nil'' | Some t \<Rightarrow>
      (case clock of None \<Rightarrow> Inl ''api: clock is nil'' | Some c \<Rightarrow>
      (case tokenGen of None \<Rightarrow> Inl ''api: token generator is nil'' | Some g \<Rightarrow>
        server_options opts \<lparr>sv_st = st', sv_deriver = d, sv_tip = t, sv_clock = c, sv_tokenGen = g,
          sv_scanHealth = None, sv_adminUI = None, sv_adminEnabled = False,
          sv_adminPassHash = replicate 32 (CHR 0x00), sv_adminSessionKey = replicate 32 (CHR 0x00),
          sv_adminSessionTTL = 0\<rparr>)))))"

text \<open>What a handler works on: the store, the restart counters and the world.\<close>

record ('st, 'w) System =
  sy_st :: 'st
  sy_rs :: Restarts
  sy_w :: 'w

type_synonym ('a, 'st, 'w) call = "('st, 'w) System \<Rightarrow> 'a \<times> ('st, 'w) System"
type_synonym ('st, 'w) handler = "HttpRequest \<Rightarrow> (Reply, 'st, 'w) call"

definition on_store :: "('st \<Rightarrow> 'a \<times> 'st) \<Rightarrow> ('a, 'st, 'w) call" where
  "on_store f y = (let (a, s) = f (sy_st y) in (a, y\<lparr>sy_st := s\<rparr>))"

definition on_world :: "('w \<Rightarrow> 'a \<times> 'w) \<Rightarrow> ('a, 'st, 'w) call" where
  "on_world f y = (let (a, w) = f (sy_w y) in (a, y\<lparr>sy_w := w\<rparr>))"

definition observeUptime :: "time \<Rightarrow> int64 \<Rightarrow> (int64 \<times> time option, 'st, 'w) call" where
  "observeUptime now uptimeSeconds y =
     (let rs = sy_rs y;
          rs = (if rs_lastUptimeKnown rs \<and> uptimeSeconds < rs_lastUptimeSeconds rs
                then rs\<lparr>rs_restartsDetected := wrap64 (rs_restartsDetected rs + 1), rs_lastRestartAt := Some now\<rparr>
                else rs);
          rs = rs\<lparr>rs_lastUptimeKnown := True, rs_lastUptimeSeconds := uptimeSeconds\<rparr>
      in ((rs_restartsDetected rs, rs_lastRestartAt rs), y\<lparr>sy_rs := rs\<rparr>))"

section \<open>Query parameters\<close>

definition query :: "HttpRequest \<Rightarrow> string \<Rightarrow> string" where
  "query r k = TrimSpace (Get (Query (hr_RawQuery r)) k)"

definition query_cursor :: "HttpRequest \<Rightarrow> int64 option" where
  "query_cursor r = (let v = query r ''cursor'' in
     if v = [] then Some 0
     else (case ParseInt 10 v of None \<Rightarrow> None | Some n \<Rightarrow> if n < 0 then None else Some n))"

definition query_limit :: "HttpRequest \<Rightarrow> int option" where
  "query_limit r = (let v = query r ''limit'' in
     if v = [] then Some 100
     else (case ParseInt 10 v of None \<Rightarrow> None | Some n \<Rightarrow> if n < 1 \<or> n > 500 then None else Some n))"

text \<open>A status parameter: \<open>None\<close> is invalid, \<open>Some None\<close> the empty one, which selects all.\<close>

definition query_status :: "('s \<Rightarrow> string) \<Rightarrow> 's list \<Rightarrow> string \<Rightarrow> 's option option" where
  "query_status str all v = (if v = [] then Some None else map_option Some (find (\<lambda>s. str s = v) all))"

section \<open>Request bodies\<close>

text \<open>\<open>DisallowUnknownFields\<close>: a member that names no field is an error.\<close>

fun dec_strict :: "'p field list \<Rightarrow> (string \<times> json) list \<Rightarrow> 'p \<Rightarrow> 'p option" where
  "dec_strict fs [] p = Some p"
| "dec_strict fs ((k, v) # kvs) p = (case find (\<lambda>f. EqualFold (fst f) k) fs of
       None \<Rightarrow> None
     | Some f \<Rightarrow> (case snd f v p of None \<Rightarrow> None | Some p' \<Rightarrow> dec_strict fs kvs p'))"

definition decode_body :: "'p field list \<Rightarrow> 'p \<Rightarrow> raw_message \<Rightarrow> 'p option" where
  "decode_body fs zero raw = (case raw of
       RawJson (JObj kvs) \<Rightarrow> dec_strict fs kvs zero
     | RawJson JNull \<Rightarrow> Some zero
     | _ \<Rightarrow> None)"

definition int32_field :: "string \<Rightarrow> ((int32 \<Rightarrow> int32) \<Rightarrow> 'p \<Rightarrow> 'p) \<Rightarrow> 'p field" where
  "int32_field name upd = (name, \<lambda>v p. case v of
       JNum l \<Rightarrow> (case ParseInt 10 l of
           Some n \<Rightarrow> if in_int32 n then Some (upd (\<lambda>_. n) p) else None | None \<Rightarrow> None)
     | JNull \<Rightarrow> Some p | _ \<Rightarrow> None)"

text \<open>A field of type \<open>map[string]any\<close>: \<open>null\<close> is the nil map, an object adds its members to
  the map that is there. (Numbers keep their literals here.)\<close>

type_synonym anymap = "(string \<times> json) list option"

definition map_field :: "string \<Rightarrow> (anymap \<Rightarrow> 'p \<Rightarrow> 'p) \<Rightarrow> ('p \<Rightarrow> anymap) \<Rightarrow> 'p field" where
  "map_field name upd get = (name, \<lambda>v p. case v of
       JNull \<Rightarrow> Some (upd None p)
     | JObj kvs \<Rightarrow> Some (upd (Some (last_members ((case get p of None \<Rightarrow> [] | Some m \<Rightarrow> m) @
         map (\<lambda>(k, x). (k, remarshal x)) kvs))) p)
     | _ \<Rightarrow> None)"

definition struct_field :: "string \<Rightarrow> 'q field list \<Rightarrow> ('p \<Rightarrow> 'q) \<Rightarrow> ('q \<Rightarrow> 'p \<Rightarrow> 'p) \<Rightarrow> 'p field" where
  "struct_field name fs get upd = (name, \<lambda>v p. case v of
       JNull \<Rightarrow> Some p
     | JObj kvs \<Rightarrow> map_option (\<lambda>q. upd q p) (dec_strict fs kvs (get p))
     | _ \<Rightarrow> None)"

definition pointer_field :: "string \<Rightarrow> 'q field list \<Rightarrow> 'q \<Rightarrow> ('p \<Rightarrow> 'q option) \<Rightarrow> ('q option \<Rightarrow> 'p \<Rightarrow> 'p) \<Rightarrow> 'p field" where
  "pointer_field name fs zero get upd = (name, \<lambda>v p. case v of
       JNull \<Rightarrow> Some (upd None p)
     | JObj kvs \<Rightarrow> map_option (\<lambda>q. upd (Some q) p)
         (dec_strict fs kvs (case get p of None \<Rightarrow> zero | Some q \<Rightarrow> q))
     | _ \<Rightarrow> None)"

end
