(* ===== verification/ApiJson.thy ===== *)
theory ApiJson
  imports ApiTypes
begin

text \<open>
  The JSON views of the model's records: the \<open>to...JSON\<close> functions of \<open>internal/api/api.go\<close>.
\<close>

text \<open>A pointer to a string that is nil or blank is written as \<open>null\<close>.\<close>

definition jblank :: "string option \<Rightarrow> json" where
  "jblank v = (case v of None \<Rightarrow> JNull | Some s \<Rightarrow> if TrimSpace s = [] then JNull else JStr s)"

definition policies_json :: "InvoicePolicies \<Rightarrow> json" where
  "policies_json p = jmap [
     (''late_payment_policy'', JStr (LatePaymentPolicy_str (pol_LatePayment p))),
     (''partial_payment_policy'', JStr (PartialPaymentPolicy_str (pol_PartialPayment p))),
     (''overpayment_policy'', JStr (OverpaymentPolicy_str (pol_Overpayment p)))]"

text \<open>An open invoice whose time is over is shown as expired, whatever the store says.\<close>

definition shown_status :: "Invoice \<Rightarrow> time \<Rightarrow> InvoiceStatus" where
  "shown_status iv now =
     (if (case inv_ExpiresAt iv of None \<Rightarrow> False | Some t \<Rightarrow> now > t) \<and> inv_ReceivedPendingZat iv = 0 \<and>
         inv_ReceivedConfirmedZat iv = 0 \<and> inv_Status iv = InvoiceOpen
      then InvoiceExpired else inv_Status iv)"

definition invoice_members :: "Invoice \<Rightarrow> time \<Rightarrow> (string \<times> json) list" where
  "invoice_members iv now = [
     (''invoice_id'', JStr (inv_InvoiceID iv)),
     (''merchant_id'', JStr (inv_MerchantID iv)),
     (''external_order_id'', JStr (inv_ExternalOrderID iv)),
     (''status'', JStr (InvoiceStatus_str (shown_status iv now))),
     (''address'', JStr (inv_Address iv)),
     (''amount_zat'', jint (inv_AmountZat iv)),
     (''required_confirmations'', jint (inv_RequiredConfirmations iv)),
     (''received_zat_pending'', jint (inv_ReceivedPendingZat iv)),
     (''received_zat_confirmed'', jint (inv_ReceivedConfirmedZat iv)),
     (''expires_at'', jopt jtime (inv_ExpiresAt iv)),
     (''created_at'', jtime (inv_CreatedAt iv)),
     (''updated_at'', jtime (inv_UpdatedAt iv))]"

definition toInvoiceJSON :: "Invoice \<Rightarrow> time \<Rightarrow> json" where
  "toInvoiceJSON iv now = jmap (invoice_members iv now)"

definition toAdminInvoiceJSON :: "Invoice \<Rightarrow> time \<Rightarrow> json" where
  "toAdminInvoiceJSON iv now = jmap (invoice_members iv now @ [
     (''wallet_id'', JStr (inv_WalletID iv)),
     (''address_index'', jint (uint (inv_AddressIndex iv))),
     (''created_after_height'', jint (inv_CreatedAfterHeight iv)),
     (''created_after_hash'', JStr (inv_CreatedAfterHash iv)),
     (''policies'', policies_json (inv_Policies iv))])"

definition merchant_members :: "Merchant \<Rightarrow> (string \<times> json) list" where
  "merchant_members m = [
     (''merchant_id'', JStr (m_MerchantID m)),
     (''name'', JStr (m_Name m)),
     (''status'', JStr (MerchantStatus_str (m_Status m))),
     (''settings'', jmap [
        (''invoice_ttl_seconds'', jint (set_InvoiceTTLSeconds (m_Settings m))),
        (''required_confirmations'', jint (set_RequiredConfirmations (m_Settings m))),
        (''policies'', policies_json (set_Policies (m_Settings m)))]),
     (''created_at'', jtime (m_CreatedAt m)),
     (''updated_at'', jtime (m_UpdatedAt m))]"

definition toMerchantJSON :: "Merchant \<Rightarrow> json" where
  "toMerchantJSON m = jmap (merchant_members m)"

definition toMerchantWalletJSON :: "MerchantWallet \<Rightarrow> json" where
  "toMerchantWalletJSON w = jmap [
     (''merchant_id'', JStr (mw_MerchantID w)),
     (''wallet_id'', JStr (mw_WalletID w)),
     (''ufvk'', JStr (mw_UFVK w)),
     (''chain'', JStr (mw_Chain w)),
     (''ua_hrp'', JStr (mw_UAHRP w)),
     (''coin_type'', jint (mw_CoinType w)),
     (''created_at'', jtime (mw_CreatedAt w))]"

definition toMerchantAPIKeyJSON :: "MerchantAPIKey \<Rightarrow> json" where
  "toMerchantAPIKeyJSON k = jmap [
     (''key_id'', JStr (mk_KeyID k)),
     (''merchant_id'', JStr (mk_MerchantID k)),
     (''label'', JStr (mk_Label k)),
     (''created_at'', jtime (mk_CreatedAt k)),
     (''revoked_at'', jopt jtime (mk_RevokedAt k))]"

definition toEventSinkJSON :: "EventSink \<Rightarrow> json" where
  "toEventSinkJSON sink = jmap [
     (''sink_id'', JStr (sk_SinkID sink)),
     (''merchant_id'', JStr (sk_MerchantID sink)),
     (''kind'', JStr (EventSinkKind_str (sk_Kind sink))),
     (''status'', JStr (EventSinkStatus_str (sk_Status sink))),
     (''config'', (case sk_Config sink of RawJson (JObj kvs) \<Rightarrow> remarshal (JObj kvs) | _ \<Rightarrow> JObj [])),
     (''created_at'', jtime (sk_CreatedAt sink)),
     (''updated_at'', jtime (sk_UpdatedAt sink))]"

definition toEventDeliveryJSON :: "EventDelivery \<Rightarrow> json" where
  "toEventDeliveryJSON d = jmap [
     (''delivery_id'', JStr (dl_DeliveryID d)),
     (''sink_id'', JStr (dl_SinkID d)),
     (''event_id'', JStr (dl_EventID d)),
     (''status'', JStr (EventDeliveryStatus_str (dl_Status d))),
     (''attempt'', jint (dl_Attempt d)),
     (''next_retry_at'', jopt jtime (dl_NextRetryAt d)),
     (''last_error'', jblank (dl_LastError d)),
     (''created_at'', jtime (dl_CreatedAt d)),
     (''updated_at'', jtime (dl_UpdatedAt d))]"

definition toDepositJSON :: "Deposit \<Rightarrow> json" where
  "toDepositJSON d = jmap [
     (''wallet_id'', JStr (dp_WalletID d)),
     (''txid'', JStr (dp_TxID d)),
     (''action_index'', jint (dp_ActionIndex d)),
     (''recipient_address'', JStr (dp_RecipientAddress d)),
     (''amount_zat'', jint (dp_AmountZat d)),
     (''height'', jint (dp_Height d)),
     (''status'', JStr (DepositStatus_str (dp_Status d))),
     (''confirmed_height'', jopt jint (dp_ConfirmedHeight d)),
     (''invoice_id'', jblank (dp_InvoiceID d)),
     (''detected_at'', jtime (dp_DetectedAt d)),
     (''updated_at'', jtime (dp_UpdatedAt d))]"

definition toRefundJSON :: "Refund \<Rightarrow> json" where
  "toRefundJSON r = jmap [
     (''refund_id'', JStr (rf_RefundID r)),
     (''merchant_id'', JStr (rf_MerchantID r)),
     (''invoice_id'', jblank (rf_InvoiceID r)),
     (''external_refund_id'', jblank (rf_ExternalRefundID r)),
     (''to_address'', JStr (rf_ToAddress r)),
     (''amount_zat'', jint (rf_AmountZat r)),
     (''status'', JStr (RefundStatus_str (rf_Status r))),
     (''sent_txid'', jblank (rf_SentTxID r)),
     (''notes'', JStr (rf_Notes r)),
     (''created_at'', jtime (rf_CreatedAt r)),
     (''updated_at'', jtime (rf_UpdatedAt r))]"

definition toReviewCaseJSON :: "ReviewCase \<Rightarrow> json" where
  "toReviewCaseJSON c = jmap [
     (''review_id'', JStr (rc_ReviewID c)),
     (''merchant_id'', JStr (rc_MerchantID c)),
     (''invoice_id'', jblank (rc_InvoiceID c)),
     (''reason'', JStr (ReviewReason_str (rc_Reason c))),
     (''status'', JStr (ReviewStatus_str (rc_Status c))),
     (''notes'', JStr (rc_Notes c)),
     (''created_at'', jtime (rc_CreatedAt c)),
     (''updated_at'', jtime (rc_UpdatedAt c))]"

definition dep_json :: "DepositRef \<Rightarrow> json" where
  "dep_json d = jmap [
     (''wallet_id'', JStr (dref_WalletID d)),
     (''txid'', JStr (dref_TxID d)),
     (''action_index'', jint (dref_ActionIndex d)),
     (''amount_zat'', jint (dref_AmountZat d)),
     (''height'', jint (dref_Height d))]"

definition toInvoiceEventJSON :: "InvoiceEvent \<Rightarrow> json" where
  "toInvoiceEventJSON e = jmap [
     (''event_id'', JStr (ie_EventID e)),
     (''type'', JStr (InvoiceEventType_str (ie_Type e))),
     (''occurred_at'', jtime (ie_OccurredAt e)),
     (''invoice_id'', JStr (ie_InvoiceID e)),
     (''deposit'', jopt dep_json (ie_Deposit e)),
     (''refund'', jopt toRefundJSON (ie_Refund e))]"

text \<open>A cloud event inside a reply is written by \<open>encoding/json\<close>; a time it cannot write makes the
  encoding of the whole reply fail, which leaves the body empty.\<close>

definition events_reply :: "CloudEvent list \<Rightarrow> int64 \<Rightarrow> Reply" where
  "events_reply evs nextCursor = (case those (map event_json evs) of
       Some es \<Rightarrow> ok_reply 200 (jmap [(''events'', JArr es), (''next_cursor'', JStr (FormatInt nextCursor))])
     | None \<Rightarrow> (writeJSON 200 JNull)\<lparr>rp_Body := NoBody\<rparr>)"

definition page_reply :: "string \<Rightarrow> json list \<Rightarrow> int64 \<Rightarrow> Reply" where
  "page_reply name out nextCursor = ok_reply 200 (jmap [(name, JArr out), (''next_cursor'', JStr (FormatInt nextCursor))])"

end
