(* ===== verification/ApiAuth.thy ===== *)
theory ApiAuth
  imports ApiJson
begin

text \<open>
  \<open>internal/api/api.go\<close>, authentication: the password and the session cookie of the admin, the API
  key of a merchant and the token of an invoice.
\<close>

section \<open>The admin's session\<close>

definition checkAdminPassword :: "('st, 'w) Server \<Rightarrow> string \<Rightarrow> bool" where
  "checkAdminPassword sv password = ConstantTimeCompare (sha256 password) (sv_adminPassHash sv)"

definition adminSign :: "('st, 'w) Server \<Rightarrow> string \<Rightarrow> string" where
  "adminSign sv payload = hmac_sha256 (sv_adminSessionKey sv) payload"

definition session_value :: "('st, 'w) Server \<Rightarrow> int64 \<Rightarrow> string \<Rightarrow> string" where
  "session_value sv exp nonce =
     (let payload = ''v1.'' @ FormatInt exp @ ''.'' @ hex_encode nonce
      in payload @ ''.'' @ hex_encode (adminSign sv payload))"

definition cookie_header :: "string \<Rightarrow> string \<times> string" where
  "cookie_header v = (''Set-Cookie'', ''juno_admin_session='' @ v @ ''; Path=/; HttpOnly; SameSite=Lax'')"

definition setAdminSessionCookie :: "'w net \<Rightarrow> ('st, 'w) Server \<Rightarrow> 'w \<Rightarrow> (string \<times> string) option \<times> 'w" where
  "setAdminSessionCookie net sv w =
     (let ttl = (if sv_adminSessionTTL sv \<le> 0 then 12 * Hour else sv_adminSessionTTL sv);
          (now, w) = sv_clock sv w;
          exp = Unix (now + ttl)
      in case net_Rand net 32 w of
           (None, w) \<Rightarrow> (None, w)
         | (Some nonce, w) \<Rightarrow> (Some (cookie_header (session_value sv exp nonce)), w))"

definition clearAdminSessionCookie :: "string \<times> string" where
  "clearAdminSessionCookie = (''Set-Cookie'', ''juno_admin_session=; Path=/; Max-Age=0; HttpOnly; SameSite=Lax'')"

definition isAdminAuthenticated :: "('st, 'w) Server \<Rightarrow> HttpRequest \<Rightarrow> 'w \<Rightarrow> bool \<times> 'w" where
  "isAdminAuthenticated sv r w =
     (case map_of (hr_Cookies r) ''juno_admin_session'' of
        None \<Rightarrow> (False, w)
      | Some v \<Rightarrow>
          (case Split (CHR ''.'') v of
             [p0, p1, p2, p3] \<Rightarrow>
               if p0 \<noteq> ''v1'' then (False, w)
               else (case ParseInt 10 p1 of
                   None \<Rightarrow> (False, w)
                 | Some exp \<Rightarrow>
                     if exp \<le> 0 then (False, w)
                     else (let (now, w) = sv_clock sv w in
                       if Unix now > exp then (False, w)
                       else (case hex_decode p3 of
                           None \<Rightarrow> (False, w)
                         | Some sig \<Rightarrow>
                             if length sig \<noteq> 32 then (False, w)
                             else (ConstantTimeCompare sig (adminSign sv (Join [p0, p1, p2] ''.'')), w))))
           | _ \<Rightarrow> (False, w)))"

text \<open>\<open>Some\<close> is the reply of a request that is turned away.\<close>

definition requireAdmin :: "('st, 'w) Server \<Rightarrow> HttpRequest \<Rightarrow> (Reply option, 'st, 'w) call" where
  "requireAdmin sv r y =
     (if \<not> sv_adminEnabled sv then (Some (unauthorized ''unauthorized''), y)
      else (case on_world (isAdminAuthenticated sv r) y of
          (True, y) \<Rightarrow> (None, y)
        | (False, y) \<Rightarrow> (Some (unauthorized ''unauthorized''), y)))"

definition login_fields :: "string field list" where
  "login_fields = [str_field ''password'' (\<lambda>f x. f x)]"

definition handleAdminLogin :: "'w net \<Rightarrow> ('st, 'w) Server \<Rightarrow> ('st, 'w) handler" where
  "handleAdminLogin net sv r y =
     (if hr_Method r = ''GET'' \<and> sv_adminUI sv \<noteq> None then (http_Redirect r ''/admin/login/'', y)
      else if hr_Method r \<noteq> ''POST'' then (method_not_allowed, y)
      else if \<not> sv_adminEnabled sv then (unauthorized ''unauthorized'', y)
      else (case decode_body login_fields [] (hr_Body r) of
          None \<Rightarrow> (invalid_json, y)
        | Some password \<Rightarrow>
            (let pw = TrimSpace password in
             if pw = [] then (bad_argument ''password is required'', y)
             else if \<not> checkAdminPassword sv pw then (unauthorized ''unauthorized'', y)
             else (case on_world (setAdminSessionCookie net sv) y of
                 (None, y) \<Rightarrow> (internal ''session error'', y)
               | (Some c, y) \<Rightarrow> (\<lparr>rp_Status = 204, rp_Header = [c], rp_Body = NoBody\<rparr>, y)))))"

definition handleAdminLogout :: "('st, 'w) Server \<Rightarrow> ('st, 'w) handler" where
  "handleAdminLogout sv r y =
     (if hr_Method r = ''GET'' \<and> sv_adminUI sv \<noteq> None then (http_Redirect r ''/admin/'', y)
      else if hr_Method r \<noteq> ''POST'' then (method_not_allowed, y)
      else (case requireAdmin sv r y of
          (Some rep, y) \<Rightarrow> (rep, y)
        | (None, y) \<Rightarrow> (\<lparr>rp_Status = 204, rp_Header = [clearAdminSessionCookie], rp_Body = NoBody\<rparr>, y)))"

section \<open>Merchants and invoice tokens\<close>

definition authMerchant :: "('st, 'w) Server \<Rightarrow> HttpRequest \<Rightarrow> (store_error + string option, 'st, 'w) call" where
  "authMerchant sv r y =
     (let h = TrimSpace (hr_Authorization r) in
      if h = [] then (Inr None, y)
      else (case SplitN2 (CHR '' '') h of
          [scheme, key] \<Rightarrow>
            if \<not> EqualFold scheme ''bearer'' then (Inr None, y)
            else (let apiKey = TrimSpace key in
              if apiKey = [] then (Inr None, y)
              else on_store (st_LookupMerchantIDByAPIKey (sv_st sv) apiKey) y)
        | _ \<Rightarrow> (Inr None, y)))"

definition authorizeInvoiceToken :: "('st, 'w) Server \<Rightarrow> HttpRequest \<Rightarrow> string \<Rightarrow> (Reply + Invoice, 'st, 'w) call" where
  "authorizeInvoiceToken sv r invoiceID y =
     (let token = query r ''token'' in
      if token = [] then (Inl (unauthorized ''invalid token''), y)
      else (case on_store (st_GetInvoice (sv_st sv) invoiceID) y of
          (Inl e, y) \<Rightarrow> (Inl (internal ''db error''), y)
        | (Inr None, y) \<Rightarrow> (Inl (writeError 404 ''not_found'' ''invoice not found''), y)
        | (Inr (Some iv), y) \<Rightarrow>
            (case on_store (st_GetInvoiceToken (sv_st sv) invoiceID) y of
               (Inl e, y) \<Rightarrow> (Inl (internal ''db error''), y)
             | (Inr None, y) \<Rightarrow> (Inl (writeError 404 ''not_found'' ''invoice not found''), y)
             | (Inr (Some wantToken), y) \<Rightarrow>
                 if \<not> ConstantTimeCompare token wantToken then (Inl (unauthorized ''invalid token''), y)
                 else (Inr iv, y))))"

end
