(* ===== verification/ApiPublic.thy ===== *)
theory ApiPublic
  imports ApiAuth
begin

text \<open>
  \<open>internal/api/api.go\<close>, the handlers a merchant's server and a customer's browser use: health and
  status, the creation of an invoice, and the view, the events and the event stream of an invoice.
\<close>

section \<open>Health and status\<close>

definition handleHealth :: "('st, 'w) Server \<Rightarrow> ('st, 'w) handler" where
  "handleHealth sv r y =
     (if hr_Method r \<noteq> ''GET'' then (method_not_allowed, y)
      else (ok_reply 200 (jmap [(''healthy'', JBool True)]), y))"

text \<open>The chain's tip and uptime, which both status handlers start with.\<close>

definition chain_status :: "('st, 'w) Server \<Rightarrow> (Reply + (int64 \<times> string) \<times> int64 option, 'st, 'w) call" where
  "chain_status sv y =
     (case on_world (tip_BestTip (sv_tip sv)) y of
        (Inl e, y) \<Rightarrow> (Inl (internal ''tip error''), y)
      | (Inr best, y) \<Rightarrow>
          (case on_world (tip_UptimeSeconds (sv_tip sv)) y of
             (Inl UptimeUnsupported, y) \<Rightarrow> (Inr (best, None), y)
           | (Inl (UptimeError e), y) \<Rightarrow> (Inl (internal ''uptime error''), y)
           | (Inr n, y) \<Rightarrow> (Inr (best, Some n), y)))"

definition observed :: "('st, 'w) Server \<Rightarrow> int64 option \<Rightarrow> (int64 \<times> time option, 'st, 'w) call" where
  "observed sv uptime y =
     (case uptime of None \<Rightarrow> ((0, None), y)
      | Some n \<Rightarrow> (let (now, y) = on_world (sv_clock sv) y in observeUptime now n y))"

definition scanner_connected :: "('st, 'w) Server \<Rightarrow> (bool, 'st, 'w) call" where
  "scanner_connected sv y =
     (case sv_scanHealth sv of None \<Rightarrow> (False, y)
      | Some h \<Rightarrow> (case on_world h y of (Inr b, y) \<Rightarrow> (b, y) | (Inl e, y) \<Rightarrow> (False, y)))"

text \<open>A zero time is shown as none.\<close>

definition jtime_nz :: "time option \<Rightarrow> json" where
  "jtime_nz t = (case t of None \<Rightarrow> JNull | Some t' \<Rightarrow> if IsZero t' then JNull else jtime t')"

definition status_members :: "int64 \<times> string \<Rightarrow> int64 option \<Rightarrow> bool \<Rightarrow> int64 \<Rightarrow> time option \<Rightarrow> int64
    \<Rightarrow> (string \<times> json) list" where
  "status_members best uptime connected lastCursor lastEventAt pending = [
     (''chain'', jmap [(''best_height'', jint (fst best)), (''best_hash'', JStr (snd best)),
        (''uptime_seconds'', jopt jint uptime)]),
     (''scanner'', jmap [(''connected'', JBool connected), (''last_cursor_applied'', jint lastCursor),
        (''last_event_at'', jtime_nz lastEventAt)]),
     (''event_delivery'', jmap [(''pending_deliveries'', jint pending)])]"

text \<open>The rest of both handlers; \<open>restarts\<close> is what the admin's adds.\<close>

definition status_rest :: "('st, 'w) Server \<Rightarrow> int64 \<times> string \<Rightarrow> int64 option \<Rightarrow> (string \<times> json) list
    \<Rightarrow> (Reply, 'st, 'w) call" where
  "status_rest sv best uptime restarts y =
     (let (connected, y) = scanner_connected sv y in
      case on_store (st_ScannerStatus (sv_st sv)) y of
        (Inl e, y) \<Rightarrow> (internal ''db error'', y)
      | (Inr (lastCursor, lastEventAt), y) \<Rightarrow>
          (case on_store (st_PendingDeliveries (sv_st sv)) y of
             (Inl e, y) \<Rightarrow> (internal ''db error'', y)
           | (Inr pending, y) \<Rightarrow>
               (ok_reply 200 (jmap (status_members best uptime connected lastCursor lastEventAt pending @ restarts)), y)))"

definition handleStatus :: "('st, 'w) Server \<Rightarrow> ('st, 'w) handler" where
  "handleStatus sv r y =
     (if hr_Method r \<noteq> ''GET'' then (method_not_allowed, y)
      else (case chain_status sv y of
          (Inl rep, y) \<Rightarrow> (rep, y)
        | (Inr (best, uptime), y) \<Rightarrow>
            (let (_, y) = observed sv uptime y in status_rest sv best uptime [] y)))"

section \<open>Creating an invoice\<close>

record invoiceCreateRequest =
  icr_ExternalOrderID :: string
  icr_AmountZat :: int64
  icr_Metadata :: anymap

definition invoiceCreateRequest_fields :: "invoiceCreateRequest field list" where
  "invoiceCreateRequest_fields = [str_field ''external_order_id'' icr_ExternalOrderID_update,
     int_field ''amount_zat'' icr_AmountZat_update,
     map_field ''metadata'' (\<lambda>m. icr_Metadata_update (\<lambda>_. m)) icr_Metadata]"

definition create_error :: "store_error \<Rightarrow> Reply" where
  "create_error e = (if e = ErrConflict then writeError 409 ''conflict'' ''conflict''
     else if e = ErrNotFound then writeError 400 ''not_found'' ''not found''
     else store_reply e)"

text \<open>The token of a new invoice is generated and stored; that of an invoice that was there is looked up.\<close>

definition invoice_token :: "('st, 'w) Server \<Rightarrow> Invoice \<Rightarrow> bool \<Rightarrow> (Reply + string, 'st, 'w) call" where
  "invoice_token sv iv created y =
     (if created then
        (case on_world (sv_tokenGen sv) y of
           (Inl e, y) \<Rightarrow> (Inl (internal ''token generation failed''), y)
         | (Inr token, y) \<Rightarrow>
             (case on_store (st_PutInvoiceToken (sv_st sv) (inv_InvoiceID iv) token) y of
                (Inl e, y) \<Rightarrow> (Inl (internal ''db error''), y)
              | (Inr _, y) \<Rightarrow> (Inr token, y)))
      else
        (case on_store (st_GetInvoiceToken (sv_st sv) (inv_InvoiceID iv)) y of
           (Inl e, y) \<Rightarrow> (Inl (internal ''db error''), y)
         | (Inr None, y) \<Rightarrow> (Inl (internal ''invoice token missing''), y)
         | (Inr (Some token), y) \<Rightarrow> (Inr token, y)))"

definition invoice_expiry :: "('st, 'w) Server \<Rightarrow> MerchantSettings \<Rightarrow> (time option, 'st, 'w) call" where
  "invoice_expiry sv settings y =
     (let ttl = InvoiceTTL settings in
      if ttl > 0 then (let (now, y) = on_world (sv_clock sv) y in (Some (now + ttl), y)) else (None, y))"

text \<open>From the wallet on: the next address, the tip, the expiry, the invoice and its token.\<close>

definition create_for_wallet :: "('st, 'w) Server \<Rightarrow> Merchant \<Rightarrow> string \<Rightarrow> invoiceCreateRequest \<Rightarrow> MerchantWallet
    \<Rightarrow> (Reply, 'st, 'w) call" where
  "create_for_wallet sv m merchantID req wallet y =
     (case on_store (st_NextAddressIndex (sv_st sv) merchantID) y of
        (Inl e, y) \<Rightarrow> (if e = ErrNotFound then writeError 409 ''wallet_not_set'' ''merchant wallet is not set''
           else internal ''db error'', y)
      | (Inr addrIndex, y) \<Rightarrow>
          (case sv_deriver sv (mw_UFVK wallet) (mw_UAHRP wallet) addrIndex of
             Inl e \<Rightarrow> (internal ''address derivation failed'', y)
           | Inr addr \<Rightarrow>
               (case on_world (tip_BestTip (sv_tip sv)) y of
                  (Inl e, y) \<Rightarrow> (internal ''tip error'', y)
                | (Inr (tipHeight, tipHash), y) \<Rightarrow>
                    (let (expiresAt, y) = invoice_expiry sv (m_Settings m) y in
                     case on_store (st_CreateInvoice (sv_st sv)
                         \<lparr>ic_MerchantID = merchantID, ic_ExternalOrderID = icr_ExternalOrderID req,
                          ic_WalletID = mw_WalletID wallet, ic_AddressIndex = addrIndex, ic_Address = addr,
                          ic_CreatedAfterHeight = tipHeight, ic_CreatedAfterHash = tipHash,
                          ic_AmountZat = icr_AmountZat req,
                          ic_RequiredConfirmations = set_RequiredConfirmations (m_Settings m),
                          ic_Policies = set_Policies (m_Settings m), ic_ExpiresAt = expiresAt\<rparr>) y of
                       (Inl e, y) \<Rightarrow> (create_error e, y)
                     | (Inr (iv, created), y) \<Rightarrow>
                         (case invoice_token sv iv created y of
                            (Inl rep, y) \<Rightarrow> (rep, y)
                          | (Inr token, y) \<Rightarrow>
                              (let (now, y) = on_world (sv_clock sv) y in
                               (ok_reply (if created then 201 else 200)
                                 (jmap [(''invoice'', toInvoiceJSON iv now), (''invoice_token'', JStr token)]), y)))))))"

definition handleCreateInvoice :: "('st, 'w) Server \<Rightarrow> ('st, 'w) handler" where
  "handleCreateInvoice sv r y =
     (case authMerchant sv r y of
        (Inl e, y) \<Rightarrow> (internal ''auth error'', y)
      | (Inr None, y) \<Rightarrow> (unauthorized ''unauthorized'', y)
      | (Inr (Some merchantID), y) \<Rightarrow>
          (case decode_body invoiceCreateRequest_fields
               \<lparr>icr_ExternalOrderID = [], icr_AmountZat = 0, icr_Metadata = None\<rparr> (hr_Body r) of
             None \<Rightarrow> (invalid_json, y)
           | Some req0 \<Rightarrow>
               (let req = req0\<lparr>icr_ExternalOrderID := TrimSpace (icr_ExternalOrderID req0)\<rparr> in
                if icr_ExternalOrderID req = [] then (bad_argument ''external_order_id is required'', y)
                else if icr_AmountZat req \<le> 0 then (bad_argument ''amount_zat must be > 0'', y)
                else (case on_store (st_GetMerchant (sv_st sv) merchantID) y of
                    (Inl e, y) \<Rightarrow> (internal ''db error'', y)
                  | (Inr None, y) \<Rightarrow> (unauthorized ''unauthorized'', y)
                  | (Inr (Some m), y) \<Rightarrow>
                      if Validate (m_Settings m) \<noteq> None then (internal ''invalid merchant settings'', y)
                      else (case on_store (st_GetMerchantWallet (sv_st sv) merchantID) y of
                          (Inl e, y) \<Rightarrow> (internal ''db error'', y)
                        | (Inr None, y) \<Rightarrow> (writeError 409 ''wallet_not_set'' ''merchant wallet is not set'', y)
                        | (Inr (Some wallet), y) \<Rightarrow> create_for_wallet sv m merchantID req wallet y)))))"

definition handleInvoices :: "('st, 'w) Server \<Rightarrow> ('st, 'w) handler" where
  "handleInvoices sv r y =
     (if hr_Method r = ''POST'' then handleCreateInvoice sv r y else (method_not_allowed, y))"

section \<open>The customer's view\<close>

definition handleGetPublicInvoice :: "('st, 'w) Server \<Rightarrow> string \<Rightarrow> ('st, 'w) handler" where
  "handleGetPublicInvoice sv invoiceID r y =
     (if hr_Method r \<noteq> ''GET'' then (method_not_allowed, y)
      else (case authorizeInvoiceToken sv r invoiceID y of
          (Inl rep, y) \<Rightarrow> (rep, y)
        | (Inr iv, y) \<Rightarrow>
            (let (now, y) = on_world (sv_clock sv) y in (ok_reply 200 (toInvoiceJSON iv now), y))))"

definition handleListPublicInvoiceEvents :: "('st, 'w) Server \<Rightarrow> string \<Rightarrow> ('st, 'w) handler" where
  "handleListPublicInvoiceEvents sv invoiceID r y =
     (if hr_Method r \<noteq> ''GET'' then (method_not_allowed, y)
      else (case authorizeInvoiceToken sv r invoiceID y of
          (Inl rep, y) \<Rightarrow> (rep, y)
        | (Inr iv, y) \<Rightarrow>
            (case query_cursor r of
               None \<Rightarrow> (bad_argument ''invalid cursor'', y)
             | Some afterID \<Rightarrow>
                 (case on_store (st_ListInvoiceEvents (sv_st sv) invoiceID afterID 100) y of
                    (Inl e, y) \<Rightarrow> (internal ''db error'', y)
                  | (Inr (events, nextCursor), y) \<Rightarrow>
                      (page_reply ''events'' (map toInvoiceEventJSON events) nextCursor, y)))))"

definition sse_event :: "InvoiceEvent \<Rightarrow> string" where
  "sse_event e = (let nl = [CHR 0x0A] in
     ''id: '' @ ie_EventID e @ nl @ ''event: invoice_event'' @ nl @
     ''data: '' @ json_text (toInvoiceEventJSON e) @ nl @ nl)"

text \<open>The events sent over a number of ticks, one list per tick, until the store fails.\<close>

fun stream_ticks :: "('st, 'w) Server \<Rightarrow> string \<Rightarrow> nat \<Rightarrow> int64 \<Rightarrow> (InvoiceEvent list, 'st, 'w) call" where
  "stream_ticks sv invoiceID 0 afterID y = ([], y)"
| "stream_ticks sv invoiceID (Suc n) afterID y =
     (case on_store (st_ListInvoiceEvents (sv_st sv) invoiceID afterID 100) y of
        (Inl e, y) \<Rightarrow> ([], y)
      | (Inr (evs, nextCursor), y) \<Rightarrow>
          if evs = [] then stream_ticks sv invoiceID n afterID y
          else (let (rest, y) = stream_ticks sv invoiceID n nextCursor y in (evs @ rest, y)))"

text \<open>Here an invalid cursor means the start.\<close>

definition handleStreamPublicInvoiceEvents :: "('st, 'w) Server \<Rightarrow> string \<Rightarrow> ('st, 'w) handler" where
  "handleStreamPublicInvoiceEvents sv invoiceID r y =
     (if hr_Method r \<noteq> ''GET'' then (method_not_allowed, y)
      else (case authorizeInvoiceToken sv r invoiceID y of
          (Inl rep, y) \<Rightarrow> (rep, y)
        | (Inr iv, y) \<Rightarrow>
            if \<not> hr_Flusher r then (internal ''stream unsupported'', y)
            else (let afterID = (case query_cursor r of None \<Rightarrow> 0 | Some n \<Rightarrow> n);
                      (evs, y) = stream_ticks sv invoiceID (hr_Ticks r) afterID y
                  in (\<lparr>rp_Status = 200, rp_Header = [(''Content-Type'', ''text/event-stream''),
                         (''Cache-Control'', ''no-cache''), (''Connection'', ''keep-alive'')],
                       rp_Body = PlainText (concat (map sse_event evs))\<rparr>, y))))"

definition handlePublicInvoices :: "('st, 'w) Server \<Rightarrow> ('st, 'w) handler" where
  "handlePublicInvoices sv r y =
     (let path = TrimPrefix (hr_Path r) ''/v1/public/invoices/'' in
      if path = [] then (not_found, y)
      else (case Split (CHR ''/'') path of
          [] \<Rightarrow> (not_found, y)
        | invoiceID # rest \<Rightarrow>
            if invoiceID = [] then (not_found, y)
            else (case rest of
                [] \<Rightarrow> handleGetPublicInvoice sv invoiceID r y
              | part # _ \<Rightarrow>
                  if part = ''events'' then handleListPublicInvoiceEvents sv invoiceID r y
                  else if part = ''stream'' then handleStreamPublicInvoiceEvents sv invoiceID r y
                  else (not_found, y))))"

end
