(* ===== verification/ApiAdmin.thy ===== *)
theory ApiAdmin
  imports ApiPublic
begin

text \<open>
  \<open>internal/api/api.go\<close>, the handlers of the admin interface: merchants, wallets and keys, event
  sinks, events and deliveries, review cases, invoices, deposits and refunds; and the router.
\<close>

text \<open>What every handler of the group starts with.\<close>

definition admin_only :: "('st, 'w) Server \<Rightarrow> ('st, 'w) handler \<Rightarrow> ('st, 'w) handler" where
  "admin_only sv h r y = (case requireAdmin sv r y of (Some rep, y) \<Rightarrow> (rep, y) | (None, y) \<Rightarrow> h r y)"

definition get_only :: "('st, 'w) handler \<Rightarrow> ('st, 'w) handler" where
  "get_only h r y = (if hr_Method r \<noteq> ''GET'' then (method_not_allowed, y) else h r y)"

text \<open>A missing record, with the message for it, then the common end.\<close>

definition missing_reply :: "string \<Rightarrow> store_error \<Rightarrow> Reply" where
  "missing_reply msg e = (if e = ErrNotFound then writeError 404 ''not_found'' msg else store_reply e)"

definition list_reply :: "json list \<Rightarrow> Reply" where
  "list_reply out = ok_reply 200 (JArr out)"

definition done_reply :: Reply where
  "done_reply = writeJSON 200 (jmap [(''status'', JStr ''ok'')])"

section \<open>Status\<close>

definition handleAdminStatus :: "('st, 'w) Server \<Rightarrow> ('st, 'w) handler" where
  "handleAdminStatus sv = get_only (admin_only sv (\<lambda>r y.
     case chain_status sv y of
       (Inl rep, y) \<Rightarrow> (rep, y)
     | (Inr (best, uptime), y) \<Rightarrow>
         (let ((restarts, lastRestartAt), y) = observed sv uptime y in
          status_rest sv best uptime [(''restarts'', jmap [(''junocashd_restarts_detected'', jint restarts),
            (''last_restart_at'', jtime_nz lastRestartAt)])] y)))"

section \<open>Merchants\<close>

record invoicePoliciesInput =
  pi_LatePaymentPolicy :: string
  pi_PartialPaymentPolicy :: string
  pi_OverpaymentPolicy :: string

record merchantSettingsInput =
  si_InvoiceTTLSeconds :: int64
  si_RequiredConfirmations :: int32
  si_Policies :: invoicePoliciesInput

record merchantCreateRequest =
  mcr_Name :: string
  mcr_Settings :: "merchantSettingsInput option"

definition zero_policies :: invoicePoliciesInput where
  "zero_policies = \<lparr>pi_LatePaymentPolicy = [], pi_PartialPaymentPolicy = [], pi_OverpaymentPolicy = []\<rparr>"

definition zero_settings :: merchantSettingsInput where
  "zero_settings = \<lparr>si_InvoiceTTLSeconds = 0, si_RequiredConfirmations = 0, si_Policies = zero_policies\<rparr>"

definition policies_fields :: "invoicePoliciesInput field list" where
  "policies_fields = [str_field ''late_payment_policy'' pi_LatePaymentPolicy_update,
     str_field ''partial_payment_policy'' pi_PartialPaymentPolicy_update,
     str_field ''overpayment_policy'' pi_OverpaymentPolicy_update]"

definition settings_fields :: "merchantSettingsInput field list" where
  "settings_fields = [int_field ''invoice_ttl_seconds'' si_InvoiceTTLSeconds_update,
     int32_field ''required_confirmations'' si_RequiredConfirmations_update,
     struct_field ''policies'' policies_fields si_Policies (\<lambda>q. si_Policies_update (\<lambda>_. q))]"

definition merchantCreateRequest_fields :: "merchantCreateRequest field list" where
  "merchantCreateRequest_fields = [str_field ''name'' mcr_Name_update,
     pointer_field ''settings'' settings_fields zero_settings mcr_Settings (\<lambda>q. mcr_Settings_update (\<lambda>_. q))]"

definition defaultMerchantSettings :: MerchantSettings where
  "defaultMerchantSettings = \<lparr>set_InvoiceTTLSeconds = 900, set_RequiredConfirmations = 100,
     set_Policies = \<lparr>pol_LatePayment = LatePaymentManualReview, pol_PartialPayment = PartialPaymentAccept,
       pol_Overpayment = OverpaymentManualReview\<rparr>\<rparr>"

definition toDomain :: "merchantSettingsInput \<Rightarrow> MerchantSettings" where
  "toDomain i = \<lparr>set_InvoiceTTLSeconds = si_InvoiceTTLSeconds i,
     set_RequiredConfirmations = si_RequiredConfirmations i,
     set_Policies = \<lparr>pol_LatePayment = LatePaymentPolicy_of (pi_LatePaymentPolicy (si_Policies i)),
       pol_PartialPayment = PartialPaymentPolicy_of (pi_PartialPaymentPolicy (si_Policies i)),
       pol_Overpayment = OverpaymentPolicy_of (pi_OverpaymentPolicy (si_Policies i))\<rparr>\<rparr>"

definition handleAdminCreateMerchant :: "('st, 'w) Server \<Rightarrow> ('st, 'w) handler" where
  "handleAdminCreateMerchant sv r y =
     (case decode_body merchantCreateRequest_fields \<lparr>mcr_Name = [], mcr_Settings = None\<rparr> (hr_Body r) of
        None \<Rightarrow> (invalid_json, y)
      | Some req \<Rightarrow>
          (let name = TrimSpace (mcr_Name req) in
           if name = [] then (bad_argument ''name is required'', y)
           else (let settings = (case mcr_Settings req of None \<Rightarrow> defaultMerchantSettings | Some i \<Rightarrow> toDomain i) in
             case on_store (st_CreateMerchant (sv_st sv) name settings) y of
               (Inl e, y) \<Rightarrow> (store_reply e, y)
             | (Inr m, y) \<Rightarrow> (ok_reply 201 (toMerchantJSON m), y))))"

definition handleAdminListMerchants :: "('st, 'w) Server \<Rightarrow> ('st, 'w) handler" where
  "handleAdminListMerchants sv r y =
     (case on_store (st_ListMerchants (sv_st sv)) y of
        (Inl e, y) \<Rightarrow> (internal ''db error'', y)
      | (Inr ms, y) \<Rightarrow> (list_reply (map toMerchantJSON ms), y))"

definition handleAdminMerchants :: "('st, 'w) Server \<Rightarrow> ('st, 'w) handler" where
  "handleAdminMerchants sv = admin_only sv (\<lambda>r y.
     if hr_Method r = ''POST'' then handleAdminCreateMerchant sv r y
     else if hr_Method r = ''GET'' then handleAdminListMerchants sv r y
     else (method_not_allowed, y))"

definition handleAdminGetMerchant :: "('st, 'w) Server \<Rightarrow> string \<Rightarrow> ('st, 'w) handler" where
  "handleAdminGetMerchant sv merchantID = get_only (\<lambda>r y.
     case on_store (st_GetMerchant (sv_st sv) merchantID) y of
       (Inl e, y) \<Rightarrow> (internal ''db error'', y)
     | (Inr None, y) \<Rightarrow> (writeError 404 ''not_found'' ''merchant not found'', y)
     | (Inr (Some m), y) \<Rightarrow>
         (case on_store (st_GetMerchantWallet (sv_st sv) merchantID) y of
            (Inl e, y) \<Rightarrow> (internal ''db error'', y)
          | (Inr wallet, y) \<Rightarrow>
              (case on_store (st_ListMerchantAPIKeys (sv_st sv) merchantID) y of
                 (Inl e, y) \<Rightarrow> (internal ''db error'', y)
               | (Inr keys, y) \<Rightarrow>
                   (ok_reply 200 (jmap (merchant_members m @
                      [(''wallet'', jopt toMerchantWalletJSON wallet),
                       (''api_keys'', JArr (map toMerchantAPIKeyJSON keys))])), y))))"

record merchantWalletSetRequest =
  wsr_WalletID :: string
  wsr_UFVK :: string
  wsr_Chain :: string
  wsr_UAHRP :: string
  wsr_CoinType :: int32

definition merchantWalletSetRequest_fields :: "merchantWalletSetRequest field list" where
  "merchantWalletSetRequest_fields = [str_field ''wallet_id'' wsr_WalletID_update,
     str_field ''ufvk'' wsr_UFVK_update, str_field ''chain'' wsr_Chain_update,
     str_field ''ua_hrp'' wsr_UAHRP_update, int32_field ''coin_type'' wsr_CoinType_update]"

definition handleAdminSetMerchantWallet :: "('st, 'w) Server \<Rightarrow> string \<Rightarrow> ('st, 'w) handler" where
  "handleAdminSetMerchantWallet sv merchantID r y =
     (if hr_Method r \<noteq> ''POST'' then (method_not_allowed, y)
      else (case decode_body merchantWalletSetRequest_fields
          \<lparr>wsr_WalletID = [], wsr_UFVK = [], wsr_Chain = [], wsr_UAHRP = [], wsr_CoinType = 0\<rparr> (hr_Body r) of
          None \<Rightarrow> (invalid_json, y)
        | Some req \<Rightarrow>
            (let walletID = TrimSpace (wsr_WalletID req); ufvk = TrimSpace (wsr_UFVK req);
                 chain = TrimSpace (wsr_Chain req); uahrp = TrimSpace (wsr_UAHRP req);
                 walletID = (if walletID = [] then ''wallet_'' @ merchantID else walletID) in
             if ufvk = [] \<or> chain = [] \<or> uahrp = [] then (bad_argument ''ufvk, chain, and ua_hrp are required'', y)
             else (case sv_deriver sv ufvk uahrp 0 of
                 Inl e \<Rightarrow> (bad_argument ''invalid ufvk'', y)
               | Inr addr \<Rightarrow>
                   (case on_store (st_SetMerchantWallet (sv_st sv) merchantID
                        \<lparr>mw_MerchantID = [], mw_WalletID = walletID, mw_UFVK = ufvk, mw_Chain = chain,
                         mw_UAHRP = uahrp, mw_CoinType = wsr_CoinType req, mw_CreatedAt = 0\<rparr>) y of
                      (Inl e, y) \<Rightarrow> (if e = ErrConflict then writeError 409 ''conflict'' ''wallet already set''
                          else missing_reply ''merchant not found'' e, y)
                    | (Inr w0, y) \<Rightarrow> (ok_reply 200 (toMerchantWalletJSON w0), y))))))"

definition handleAdminSetMerchantSettings :: "('st, 'w) Server \<Rightarrow> string \<Rightarrow> ('st, 'w) handler" where
  "handleAdminSetMerchantSettings sv merchantID r y =
     (if hr_Method r \<noteq> ''PUT'' then (method_not_allowed, y)
      else (case decode_body settings_fields zero_settings (hr_Body r) of
          None \<Rightarrow> (invalid_json, y)
        | Some i \<Rightarrow>
            (case on_store (st_UpdateMerchantSettings (sv_st sv) merchantID (toDomain i)) y of
               (Inl e, y) \<Rightarrow> (missing_reply ''merchant not found'' e, y)
             | (Inr m, y) \<Rightarrow> (ok_reply 200 (toMerchantJSON m), y))))"

definition label_fields :: "string field list" where
  "label_fields = [str_field ''label'' (\<lambda>f x. f x)]"

text \<open>The store draws the key's random bytes; they are passed to its operation.\<close>

definition create_key :: "'w net \<Rightarrow> ('st, 'w) Server \<Rightarrow> string \<Rightarrow> string \<Rightarrow> (store_error + string \<times> string, 'st, 'w) call" where
  "create_key net sv merchantID label y =
     (let (raw, y) = on_world (net_Rand net 32) y in
      on_store (st_CreateMerchantAPIKey (sv_st sv) raw merchantID label) y)"

definition handleAdminCreateMerchantAPIKey :: "'w net \<Rightarrow> ('st, 'w) Server \<Rightarrow> string \<Rightarrow> ('st, 'w) handler" where
  "handleAdminCreateMerchantAPIKey net sv merchantID r y =
     (if hr_Method r \<noteq> ''POST'' then (method_not_allowed, y)
      else (case decode_body label_fields [] (hr_Body r) of
          None \<Rightarrow> (invalid_json, y)
        | Some label0 \<Rightarrow>
            (let label = TrimSpace label0 in
             case create_key net sv merchantID label y of
               (Inl e, y) \<Rightarrow> (missing_reply ''merchant not found'' e, y)
             | (Inr (keyID, apiKey), y) \<Rightarrow>
                 (let (now, y) = on_world (sv_clock sv) y in
                  (ok_reply 201 (jmap [(''api_key'', JStr apiKey),
                     (''key'', jmap [(''key_id'', JStr keyID), (''merchant_id'', JStr merchantID),
                        (''label'', JStr label), (''created_at'', jtime now), (''revoked_at'', JNull)])]), y)))))"

definition handleAdminMerchantSubroutes :: "'w net \<Rightarrow> ('st, 'w) Server \<Rightarrow> ('st, 'w) handler" where
  "handleAdminMerchantSubroutes net sv = admin_only sv (\<lambda>r y.
     case Split (CHR ''/'') (TrimPrefix (hr_Path r) ''/v1/admin/merchants/'') of
       [] \<Rightarrow> (not_found, y)
     | merchantID # rest \<Rightarrow>
         if merchantID = [] then (not_found, y)
         else (case rest of
             [] \<Rightarrow> handleAdminGetMerchant sv merchantID r y
           | part # _ \<Rightarrow>
               if part = ''wallet'' then handleAdminSetMerchantWallet sv merchantID r y
               else if part = ''settings'' then handleAdminSetMerchantSettings sv merchantID r y
               else if part = ''api-keys'' then handleAdminCreateMerchantAPIKey net sv merchantID r y
               else (not_found, y)))"

definition handleAdminAPIKeys :: "('st, 'w) Server \<Rightarrow> ('st, 'w) handler" where
  "handleAdminAPIKeys sv = admin_only sv (\<lambda>r y.
     if hr_Method r \<noteq> ''DELETE'' then (method_not_allowed, y)
     else (let keyID = TrimSpace (TrimPrefix (hr_Path r) ''/v1/admin/api-keys/'') in
       if keyID = [] \<or> ContainsChar (CHR ''/'') keyID then (not_found, y)
       else (case on_store (st_RevokeMerchantAPIKey (sv_st sv) keyID) y of
           (Inl e, y) \<Rightarrow> (if e = ErrNotFound then done_reply else internal ''db error'', y)
         | (Inr _, y) \<Rightarrow> (done_reply, y))))"

section \<open>Event sinks\<close>

record eventSinkCreateRequest =
  escr_MerchantID :: string
  escr_Kind :: string
  escr_Config :: anymap

definition eventSinkCreateRequest_fields :: "eventSinkCreateRequest field list" where
  "eventSinkCreateRequest_fields = [str_field ''merchant_id'' escr_MerchantID_update,
     str_field ''kind'' escr_Kind_update,
     map_field ''config'' (\<lambda>m. escr_Config_update (\<lambda>_. m)) escr_Config]"

text \<open>\<open>cfg[k].(string)\<close>, and a number below zero: a minus sign and a digit of the mantissa that is not zero.\<close>

definition cfg_lookup :: "anymap \<Rightarrow> string \<Rightarrow> json option" where
  "cfg_lookup cfg k = (case cfg of None \<Rightarrow> None | Some m \<Rightarrow> map_of m k)"

definition cfg_str :: "anymap \<Rightarrow> string \<Rightarrow> string" where
  "cfg_str cfg k = TrimSpace (case cfg_lookup cfg k of Some (JStr s) \<Rightarrow> s | _ \<Rightarrow> [])"

definition negative_literal :: "string \<Rightarrow> bool" where
  "negative_literal l \<longleftrightarrow> has_prefix ''-'' l \<and>
     list_ex (\<lambda>c. c \<in> set ''123456789'') (takeWhile (\<lambda>c. c \<noteq> CHR ''e'' \<and> c \<noteq> CHR ''E'') l)"

definition validate_webhook :: "anymap \<Rightarrow> string option" where
  "validate_webhook cfg =
     (let rawURL = cfg_str cfg ''url'' in
      if rawURL = [] then Some ''config.url is required''
      else (case Parse rawURL of
          None \<Rightarrow> Some ''config.url invalid''
        | Some u \<Rightarrow>
            if url_Scheme u = [] \<or> url_Host u = [] then Some ''config.url invalid''
            else if (case cfg_lookup cfg ''secret'' of None \<Rightarrow> False | Some (JStr s) \<Rightarrow> False | Some v \<Rightarrow> True)
            then Some ''config.secret must be a string''
            else (case cfg_lookup cfg ''timeout_ms'' of
                None \<Rightarrow> None
              | Some (JNum l) \<Rightarrow> if negative_literal l then Some ''config.timeout_ms must be >= 0'' else None
              | Some v \<Rightarrow> Some ''config.timeout_ms must be a number'')))"

definition validate_pair :: "string \<Rightarrow> string \<Rightarrow> anymap \<Rightarrow> string option" where
  "validate_pair a b cfg =
     (if cfg_str cfg a = [] then Some (''config.'' @ a @ '' is required'')
      else if cfg_str cfg b = [] then Some (''config.'' @ b @ '' is required'') else None)"

definition validateEventSinkConfig :: "EventSinkKind \<Rightarrow> anymap \<Rightarrow> string option" where
  "validateEventSinkConfig kind cfg =
     (case kind of
        EventSinkWebhook \<Rightarrow> validate_webhook cfg
      | EventSinkKafka \<Rightarrow> validate_pair ''brokers'' ''topic'' cfg
      | EventSinkNATS \<Rightarrow> validate_pair ''url'' ''subject'' cfg
      | EventSinkRabbitMQ \<Rightarrow> validate_pair ''url'' ''queue'' cfg
      | _ \<Rightarrow> Some ''kind invalid'')"

definition handleAdminCreateEventSink :: "('st, 'w) Server \<Rightarrow> ('st, 'w) handler" where
  "handleAdminCreateEventSink sv r y =
     (if hr_Method r \<noteq> ''POST'' then (method_not_allowed, y)
      else (case decode_body eventSinkCreateRequest_fields
          \<lparr>escr_MerchantID = [], escr_Kind = [], escr_Config = None\<rparr> (hr_Body r) of
          None \<Rightarrow> (invalid_json, y)
        | Some req \<Rightarrow>
            (let merchantID = TrimSpace (escr_MerchantID req);
                 kind = EventSinkKind_of (TrimSpace (escr_Kind req)) in
             if merchantID = [] then (bad_argument ''merchant_id is required'', y)
             else (case validateEventSinkConfig kind (escr_Config req) of
                 Some msg \<Rightarrow> (bad_argument msg, y)
               | None \<Rightarrow>
                   (case on_store (st_CreateEventSink (sv_st sv)
                        \<lparr>skc_MerchantID = merchantID, skc_Kind = kind,
                         skc_Config = RawJson (case escr_Config req of None \<Rightarrow> JNull | Some m \<Rightarrow> JObj m)\<rparr>) y of
                      (Inl e, y) \<Rightarrow> (missing_reply ''merchant not found'' e, y)
                    | (Inr sink, y) \<Rightarrow> (ok_reply 201 (toEventSinkJSON sink), y))))))"

definition handleAdminListEventSinks :: "('st, 'w) Server \<Rightarrow> ('st, 'w) handler" where
  "handleAdminListEventSinks sv = get_only (\<lambda>r y.
     case on_store (st_ListEventSinks (sv_st sv) (query r ''merchant_id'')) y of
       (Inl e, y) \<Rightarrow> (internal ''db error'', y)
     | (Inr sinks, y) \<Rightarrow> (list_reply (map toEventSinkJSON sinks), y))"

definition handleAdminEventSinks :: "('st, 'w) Server \<Rightarrow> ('st, 'w) handler" where
  "handleAdminEventSinks sv = admin_only sv (\<lambda>r y.
     if hr_Method r = ''POST'' then handleAdminCreateEventSink sv r y
     else if hr_Method r = ''GET'' then handleAdminListEventSinks sv r y
     else (method_not_allowed, y))"

definition event_of_test :: "EventSink \<Rightarrow> string \<Rightarrow> time \<Rightarrow> CloudEvent" where
  "event_of_test sink nonce now = \<lparr>ce_SpecVersion = ''1.0'', ce_ID = ''test_'' @ hex_encode nonce,
     ce_Source = ''juno-pay-server'', ce_Type = ''event-sink.test'', ce_Subject = ''event-sink/'' @ sk_SinkID sink,
     ce_Time = now, ce_DataContentType = ''application/json'',
     ce_Data = jmap [(''merchant_id'', JStr (sk_MerchantID sink)), (''sink_id'', JStr (sk_SinkID sink))]\<rparr>"

definition handleAdminTestEventSink :: "'w net \<Rightarrow> ('st, 'w) Server \<Rightarrow> string \<Rightarrow> ('st, 'w) handler" where
  "handleAdminTestEventSink net sv sinkID r y =
     (if hr_Method r \<noteq> ''POST'' then (method_not_allowed, y)
      else (case on_store (st_GetEventSink (sv_st sv) sinkID) y of
          (Inl e, y) \<Rightarrow> (internal ''db error'', y)
        | (Inr None, y) \<Rightarrow> (writeError 404 ''not_found'' ''sink not found'', y)
        | (Inr (Some sink), y) \<Rightarrow>
            (case on_world (net_Rand net 16) y of
               (None, y) \<Rightarrow> (internal ''random error'', y)
             | (Some nonce, y) \<Rightarrow>
                 (let (now, y) = on_world (sv_clock sv) y in
                  case Worker_New net (Some (sv_st sv)) [] of
                    Inl e \<Rightarrow> (internal ''outbox error'', y)
                  | Inr worker \<Rightarrow>
                      (case on_world (deliver net worker sink (event_of_test sink nonce now)) y of
                         (Some e, y) \<Rightarrow> (writeError 400 ''delivery_failed'' e, y)
                       | (None, y) \<Rightarrow> (done_reply, y))))))"

definition handleAdminEventSinkSubroutes :: "'w net \<Rightarrow> ('st, 'w) Server \<Rightarrow> ('st, 'w) handler" where
  "handleAdminEventSinkSubroutes net sv = admin_only sv (\<lambda>r y.
     case Split (CHR ''/'') (TrimPrefix (hr_Path r) ''/v1/admin/event-sinks/'') of
       [sinkID, action] \<Rightarrow>
         if sinkID = [] \<or> action \<noteq> ''test'' then (not_found, y)
         else handleAdminTestEventSink net sv sinkID r y
     | _ \<Rightarrow> (not_found, y))"

end
