(* ===== verification/ApiAdminLists.thy ===== *)
theory ApiAdminLists
  imports ApiAdmin
begin

text \<open>
  \<open>internal/api/api.go\<close>, the rest of the admin interface: the lists of events, deliveries, review
  cases, invoices, deposits and refunds, the decision of a review case and the creation of a refund;
  and the router.
\<close>

section \<open>Lists\<close>

text \<open>The cursor and the limit of a page, or the reply to a bad one.\<close>

definition paging :: "HttpRequest \<Rightarrow> Reply + int64 \<times> int" where
  "paging r = (case query_cursor r of None \<Rightarrow> Inl (bad_argument ''invalid cursor'')
     | Some afterID \<Rightarrow> (case query_limit r of None \<Rightarrow> Inl (bad_argument ''invalid limit'')
         | Some limit \<Rightarrow> Inr (afterID, limit)))"

definition handleAdminEvents :: "('st, 'w) Server \<Rightarrow> ('st, 'w) handler" where
  "handleAdminEvents sv = get_only (admin_only sv (\<lambda>r y.
     case paging r of
       Inl rep \<Rightarrow> (rep, y)
     | Inr (afterID, limit) \<Rightarrow>
         (case on_store (st_ListOutboundEvents (sv_st sv) (query r ''merchant_id'') afterID limit) y of
            (Inl e, y) \<Rightarrow> (internal ''db error'', y)
          | (Inr (events, nextCursor), y) \<Rightarrow> (events_reply events nextCursor, y))))"

definition all_delivery_statuses :: "EventDeliveryStatus list" where
  "all_delivery_statuses = [EventDeliveryPending, EventDeliveryDelivered, EventDeliveryFailed]"

definition handleAdminEventDeliveries :: "('st, 'w) Server \<Rightarrow> ('st, 'w) handler" where
  "handleAdminEventDeliveries sv = get_only (admin_only sv (\<lambda>r y.
     case query_status EventDeliveryStatus_str all_delivery_statuses (query r ''status'') of
       None \<Rightarrow> (bad_argument ''invalid status'', y)
     | Some status \<Rightarrow>
         (case query_limit r of
            None \<Rightarrow> (bad_argument ''invalid limit'', y)
          | Some limit \<Rightarrow>
              (case on_store (st_ListEventDeliveries (sv_st sv)
                   \<lparr>edf_MerchantID = query r ''merchant_id'', edf_SinkID = query r ''sink_id'',
                    edf_Status = status, edf_Limit = limit\<rparr>) y of
                 (Inl e, y) \<Rightarrow> (internal ''db error'', y)
               | (Inr ds, y) \<Rightarrow> (list_reply (map toEventDeliveryJSON ds), y)))))"

definition all_review_statuses :: "ReviewStatus list" where
  "all_review_statuses = [ReviewOpen, ReviewResolved, ReviewRejected]"

definition handleAdminReviewCases :: "('st, 'w) Server \<Rightarrow> ('st, 'w) handler" where
  "handleAdminReviewCases sv = get_only (admin_only sv (\<lambda>r y.
     case query_status ReviewStatus_str all_review_statuses (query r ''status'') of
       None \<Rightarrow> (bad_argument ''invalid status'', y)
     | Some status \<Rightarrow>
         (case on_store (st_ListReviewCases (sv_st sv)
              \<lparr>rvf_MerchantID = query r ''merchant_id'', rvf_Status = status\<rparr>) y of
            (Inl e, y) \<Rightarrow> (internal ''db error'', y)
          | (Inr cases, y) \<Rightarrow> (list_reply (map toReviewCaseJSON cases), y))))"

definition notes_fields :: "string field list" where
  "notes_fields = [str_field ''notes'' (\<lambda>f x. f x)]"

definition decide_case :: "('st, 'w) Server \<Rightarrow> string \<Rightarrow> string \<Rightarrow> string \<Rightarrow> (Reply, 'st, 'w) call" where
  "decide_case sv reviewID action notes y =
     (if action \<noteq> ''resolve'' \<and> action \<noteq> ''reject'' then (not_found, y)
      else (let decide = (if action = ''resolve'' then st_ResolveReviewCase (sv_st sv) else st_RejectReviewCase (sv_st sv)) in
        case on_store (decide reviewID notes) y of
          (Inl e, y) \<Rightarrow> (missing_reply ''review case not found'' e, y)
        | (Inr _, y) \<Rightarrow> (done_reply, y)))"

definition handleAdminReviewCaseSubroutes :: "('st, 'w) Server \<Rightarrow> ('st, 'w) handler" where
  "handleAdminReviewCaseSubroutes sv = admin_only sv (\<lambda>r y.
     if hr_Method r \<noteq> ''POST'' then (method_not_allowed, y)
     else (case Split (CHR ''/'') (TrimChar (CHR ''/'') (TrimPrefix (hr_Path r) ''/v1/admin/review-cases/'')) of
         [part, action0] \<Rightarrow>
           (let reviewID = TrimSpace part; action = TrimSpace action0 in
            if reviewID = [] then (not_found, y)
            else (case decode_body notes_fields [] (hr_Body r) of
                None \<Rightarrow> (invalid_json, y)
              | Some notes0 \<Rightarrow>
                  (let notes = TrimSpace notes0 in
                   if notes = [] then (bad_argument ''notes is required'', y)
                   else if length notes > 4096 then (bad_argument ''notes too long'', y)
                   else decide_case sv reviewID action notes y)))
       | _ \<Rightarrow> (not_found, y)))"

definition all_invoice_statuses :: "InvoiceStatus list" where
  "all_invoice_statuses = [InvoiceOpen, InvoicePartialPending, InvoicePending, InvoicePartialConfirmed,
     InvoiceConfirmed, InvoiceOverpaid, InvoiceExpired, InvoicePaidLate, InvoiceCanceled]"

text \<open>Two older names of statuses are still accepted.\<close>

definition invoice_status_name :: "string \<Rightarrow> string" where
  "invoice_status_name raw =
     (if raw = ''paid'' then InvoiceStatus_str InvoiceConfirmed
      else if raw = ''partial'' then InvoiceStatus_str InvoicePartialConfirmed else raw)"

text \<open>The views of a list of invoices, each at the time the clock shows when its turn comes.\<close>

fun invoice_views :: "('st, 'w) Server \<Rightarrow> Invoice list \<Rightarrow> (json list, 'st, 'w) call" where
  "invoice_views sv [] y = ([], y)"
| "invoice_views sv (iv # ivs) y =
     (let (now, y) = on_world (sv_clock sv) y; (out, y) = invoice_views sv ivs y
      in (toInvoiceJSON iv now # out, y))"

definition handleAdminInvoices :: "('st, 'w) Server \<Rightarrow> ('st, 'w) handler" where
  "handleAdminInvoices sv = get_only (admin_only sv (\<lambda>r y.
     case query_status InvoiceStatus_str all_invoice_statuses (invoice_status_name (query r ''status'')) of
       None \<Rightarrow> (bad_argument ''invalid status'', y)
     | Some status \<Rightarrow>
         (case paging r of
            Inl rep \<Rightarrow> (rep, y)
          | Inr (afterID, limit) \<Rightarrow>
              (case on_store (st_ListInvoices (sv_st sv)
                   \<lparr>if_MerchantID = query r ''merchant_id'', if_Status = status,
                    if_ExternalOrderID = query r ''external_order_id'', if_AfterID = afterID, if_Limit = limit\<rparr>) y of
                 (Inl e, y) \<Rightarrow> (internal ''db error'', y)
               | (Inr (ivs, nextCursor), y) \<Rightarrow>
                   (let (out, y) = invoice_views sv ivs y in (page_reply ''invoices'' out nextCursor, y))))))"

text \<open>The full view of one invoice takes the time from the system, not from the server's clock.\<close>

definition handleAdminInvoiceSubroutes :: "'w net \<Rightarrow> ('st, 'w) Server \<Rightarrow> ('st, 'w) handler" where
  "handleAdminInvoiceSubroutes net sv = admin_only sv (\<lambda>r y.
     if hr_Method r \<noteq> ''GET'' then (method_not_allowed, y)
     else (let invoiceID = TrimSpace (TrimPrefix (hr_Path r) ''/v1/admin/invoices/'') in
       if invoiceID = [] \<or> ContainsChar (CHR ''/'') invoiceID then (not_found, y)
       else (case on_store (st_GetInvoice (sv_st sv) invoiceID) y of
           (Inl e, y) \<Rightarrow> (internal ''db error'', y)
         | (Inr None, y) \<Rightarrow> (writeError 404 ''not_found'' ''invoice not found'', y)
         | (Inr (Some iv), y) \<Rightarrow>
             (let (now, y) = on_world (net_Now net) y in (ok_reply 200 (toAdminInvoiceJSON iv now), y)))))"

definition handleAdminDeposits :: "('st, 'w) Server \<Rightarrow> ('st, 'w) handler" where
  "handleAdminDeposits sv = get_only (admin_only sv (\<lambda>r y.
     case paging r of
       Inl rep \<Rightarrow> (rep, y)
     | Inr (afterID, limit) \<Rightarrow>
         (case on_store (st_ListDeposits (sv_st sv)
              \<lparr>df_MerchantID = query r ''merchant_id'', df_InvoiceID = query r ''invoice_id'',
               df_TxID = query r ''txid'', df_AfterID = afterID, df_Limit = limit\<rparr>) y of
            (Inl e, y) \<Rightarrow> (internal ''db error'', y)
          | (Inr (deps, nextCursor), y) \<Rightarrow> (page_reply ''deposits'' (map toDepositJSON deps) nextCursor, y))))"

section \<open>Refunds\<close>

record refundCreateRequest =
  rcr_MerchantID :: string
  rcr_InvoiceID :: string
  rcr_ExternalRefundID :: string
  rcr_ToAddress :: string
  rcr_AmountZat :: int64
  rcr_SentTxID :: string
  rcr_Notes :: string

definition refundCreateRequest_fields :: "refundCreateRequest field list" where
  "refundCreateRequest_fields = [str_field ''merchant_id'' rcr_MerchantID_update,
     str_field ''invoice_id'' rcr_InvoiceID_update,
     str_field ''external_refund_id'' rcr_ExternalRefundID_update,
     str_field ''to_address'' rcr_ToAddress_update, int_field ''amount_zat'' rcr_AmountZat_update,
     str_field ''sent_txid'' rcr_SentTxID_update, str_field ''notes'' rcr_Notes_update]"

definition handleAdminCreateRefund :: "('st, 'w) Server \<Rightarrow> ('st, 'w) handler" where
  "handleAdminCreateRefund sv r y =
     (if hr_Method r \<noteq> ''POST'' then (method_not_allowed, y)
      else (case decode_body refundCreateRequest_fields
          \<lparr>rcr_MerchantID = [], rcr_InvoiceID = [], rcr_ExternalRefundID = [], rcr_ToAddress = [],
           rcr_AmountZat = 0, rcr_SentTxID = [], rcr_Notes = []\<rparr> (hr_Body r) of
          None \<Rightarrow> (invalid_json, y)
        | Some req \<Rightarrow>
            if TrimSpace (rcr_MerchantID req) = [] then (bad_argument ''merchant_id is required'', y)
            else if TrimSpace (rcr_ToAddress req) = [] then (bad_argument ''to_address is required'', y)
            else if rcr_AmountZat req \<le> 0 then (bad_argument ''amount_zat must be > 0'', y)
            else (case on_store (st_CreateRefund (sv_st sv)
                \<lparr>rfc_MerchantID = TrimSpace (rcr_MerchantID req), rfc_InvoiceID = TrimSpace (rcr_InvoiceID req),
                 rfc_ExternalRefundID = TrimSpace (rcr_ExternalRefundID req),
                 rfc_ToAddress = TrimSpace (rcr_ToAddress req), rfc_AmountZat = rcr_AmountZat req,
                 rfc_SentTxID = TrimSpace (rcr_SentTxID req), rfc_Notes = TrimSpace (rcr_Notes req)\<rparr>) y of
                (Inl e, y) \<Rightarrow> (if e = ErrNotFound then writeError 404 ''not_found'' ''not found''
                    else if e = ErrForbidden then writeError 403 ''forbidden'' ''forbidden''
                    else store_reply e, y)
              | (Inr refund, y) \<Rightarrow> (ok_reply 201 (toRefundJSON refund), y))))"

definition all_refund_statuses :: "RefundStatus list" where
  "all_refund_statuses = [RefundRequested, RefundSent, RefundCanceled]"

definition handleAdminListRefunds :: "('st, 'w) Server \<Rightarrow> ('st, 'w) handler" where
  "handleAdminListRefunds sv = get_only (\<lambda>r y.
     case query_status RefundStatus_str all_refund_statuses (query r ''status'') of
       None \<Rightarrow> (bad_argument ''invalid status'', y)
     | Some status \<Rightarrow>
         (case paging r of
            Inl rep \<Rightarrow> (rep, y)
          | Inr (afterID, limit) \<Rightarrow>
              (case on_store (st_ListRefunds (sv_st sv)
                   \<lparr>rff_MerchantID = query r ''merchant_id'', rff_InvoiceID = query r ''invoice_id'',
                    rff_Status = status, rff_AfterID = afterID, rff_Limit = limit\<rparr>) y of
                 (Inl e, y) \<Rightarrow> (internal ''db error'', y)
               | (Inr (rfs, nextCursor), y) \<Rightarrow> (page_reply ''refunds'' (map toRefundJSON rfs) nextCursor, y))))"

definition handleAdminRefunds :: "('st, 'w) Server \<Rightarrow> ('st, 'w) handler" where
  "handleAdminRefunds sv = admin_only sv (\<lambda>r y.
     if hr_Method r = ''POST'' then handleAdminCreateRefund sv r y
     else if hr_Method r = ''GET'' then handleAdminListRefunds sv r y
     else (method_not_allowed, y))"

section \<open>The router\<close>

text \<open>The patterns of the mux; the longest one that matches a path is taken, and one that ends with a
  slash matches every path below it. Paths are taken to be clean (\<open>net/http\<close> redirects others).\<close>

definition routes :: "'w net \<Rightarrow> ('st, 'w) Server \<Rightarrow> (string \<times> ('st, 'w) handler) list" where
  "routes net sv = [
     (''/admin/login'', handleAdminLogin net sv),
     (''/admin/logout'', handleAdminLogout sv)] @
     (case sv_adminUI sv of None \<Rightarrow> []
      | Some ui \<Rightarrow> [(''/admin/'', \<lambda>r. on_world (ui r)),
          (''/admin'', \<lambda>r y. if hr_Method r \<noteq> ''GET'' \<and> hr_Method r \<noteq> ''HEAD'' then (method_not_allowed, y)
             else (http_Redirect r ''/admin/'', y))]) @
     [(''/v1/health'', handleHealth sv),
      (''/v1/status'', handleStatus sv),
      (''/v1/invoices'', handleInvoices sv),
      (''/v1/public/invoices/'', handlePublicInvoices sv),
      (''/v1/admin/status'', handleAdminStatus sv),
      (''/v1/admin/merchants'', handleAdminMerchants sv),
      (''/v1/admin/merchants/'', handleAdminMerchantSubroutes net sv),
      (''/v1/admin/api-keys/'', handleAdminAPIKeys sv),
      (''/v1/admin/event-sinks'', handleAdminEventSinks sv),
      (''/v1/admin/event-sinks/'', handleAdminEventSinkSubroutes net sv),
      (''/v1/admin/events'', handleAdminEvents sv),
      (''/v1/admin/event-deliveries'', handleAdminEventDeliveries sv),
      (''/v1/admin/review-cases'', handleAdminReviewCases sv),
      (''/v1/admin/review-cases/'', handleAdminReviewCaseSubroutes sv),
      (''/v1/admin/invoices'', handleAdminInvoices sv),
      (''/v1/admin/invoices/'', handleAdminInvoiceSubroutes net sv),
      (''/v1/admin/deposits'', handleAdminDeposits sv),
      (''/v1/admin/refunds'', handleAdminRefunds sv)]"

definition pattern_matches :: "string \<Rightarrow> string \<Rightarrow> bool" where
  "pattern_matches pat path \<longleftrightarrow> pat = path \<or> pat \<noteq> [] \<and> last pat = CHR ''/'' \<and> has_prefix pat path"

fun longest_match :: "string \<Rightarrow> (string \<times> 'a) list \<Rightarrow> (string \<times> 'a) option" where
  "longest_match path [] = None"
| "longest_match path ((pat, h) # rts) =
     (case longest_match path rts of
        None \<Rightarrow> if pattern_matches pat path then Some (pat, h) else None
      | Some (pat', h') \<Rightarrow> if pattern_matches pat path \<and> length pat > length pat' then Some (pat, h) else Some (pat', h'))"

definition Server_Handler :: "'w net \<Rightarrow> ('st, 'w) Server \<Rightarrow> ('st, 'w) handler" where
  "Server_Handler net sv r y =
     (case longest_match (hr_Path r) (routes net sv) of None \<Rightarrow> (not_found, y) | Some (_, h) \<Rightarrow> h r y)"

end
