(* ===== verification/PayServer.thy ===== *)
theory PayServer
  imports ApiAdminLists Ingest
begin

text \<open>
  \<open>cmd/juno-pay-server/main.go\<close>: the settings read from the environment, the start of the program
  and its three activities - the HTTP handler, the scan loop and the outbox loop - as steps on one
  state. The store that a driver opens, the node's RPC client (a vendored SDK), the key derivation
  (a native library) and the admin pages are parameters.
\<close>

section \<open>Settings\<close>

text \<open>\<open>os.LookupEnv\<close>, and the functions that read settings.\<close>

type_synonym env = "string \<Rightarrow> string option"

definition getenv :: "env \<Rightarrow> string \<Rightarrow> string \<Rightarrow> string" where
  "getenv e key fallback = (case e key of Some v \<Rightarrow> v | None \<Rightarrow> fallback)"

definition defaultAdminUIDir :: "env \<Rightarrow> string" where
  "defaultAdminUIDir e = (case e ''JUNO_PAY_ADMIN_UI_DIR'' of Some v \<Rightarrow> TrimSpace v | None \<Rightarrow> [])"

definition parsePollInterval :: "string \<Rightarrow> duration" where
  "parsePollInterval ms =
     (case ParseInt 10 ms of
        None \<Rightarrow> Second
      | Some n \<Rightarrow>
          if n \<le> 0 then Second
          else (let n = (if n < 100 then 100 else n); n = (if n > 60000 then 60000 else n)
                in n * Millisecond))"

definition parseIntClamp :: "string \<Rightarrow> int \<Rightarrow> int \<Rightarrow> int" where
  "parseIntClamp v lo hi =
     (case ParseInt 10 (TrimSpace v) of
        None \<Rightarrow> lo
      | Some n \<Rightarrow> if n < lo then lo else if n > hi then hi else n)"

section \<open>The node and the tokens\<close>

text \<open>An error of the RPC client: one the node answered with, by its code, or any other.\<close>

datatype rpc_error = RPCError int string | CallError string

record 'w junocashd =
  jc_GetBlockCount :: "'w \<Rightarrow> (rpc_error + int64) \<times> 'w"
  jc_GetBlockHash :: "int64 \<Rightarrow> 'w \<Rightarrow> (rpc_error + string) \<times> 'w"
  jc_Uptime :: "'w \<Rightarrow> (rpc_error + int64) \<times> 'w"

definition rpc_message :: "rpc_error \<Rightarrow> string" where
  "rpc_message e = (case e of
       CallError m \<Rightarrow> m
     | RPCError c m \<Rightarrow> ''junocashd: rpc error '' @ FormatInt c @ (if m = [] then [] else '': '' @ m))"

definition BestTip :: "'w junocashd option \<Rightarrow> 'w \<Rightarrow> (string + int64 \<times> string) \<times> 'w" where
  "BestTip cli w =
     (case cli of
        None \<Rightarrow> (Inr (0, []), w)
      | Some jc \<Rightarrow>
          (case jc_GetBlockCount jc w of
             (Inl e, w) \<Rightarrow> (Inl (rpc_message e), w)
           | (Inr height, w) \<Rightarrow>
               (case jc_GetBlockHash jc height w of
                  (Inl e, w) \<Rightarrow> (Inl (rpc_message e), w)
                | (Inr hash, w) \<Rightarrow> (Inr (height, hash), w))))"

definition UptimeSeconds :: "'w junocashd option \<Rightarrow> 'w \<Rightarrow> (uptime_error + int64) \<times> 'w" where
  "UptimeSeconds cli w =
     (case cli of
        None \<Rightarrow> (Inr 0, w)
      | Some jc \<Rightarrow>
          (case jc_Uptime jc w of
             (Inl (RPCError c m), w) \<Rightarrow>
               (Inl (if c = -32601 then UptimeUnsupported else UptimeError (rpc_message (RPCError c m))), w)
           | (Inl e, w) \<Rightarrow> (Inl (UptimeError (rpc_message e)), w)
           | (Inr out, w) \<Rightarrow> (Inr (if out < 0 then 0 else out), w)))"

definition junocashdTip :: "'w junocashd option \<Rightarrow> 'w TipSource" where
  "junocashdTip cli = \<lparr>tip_BestTip = BestTip cli, tip_UptimeSeconds = UptimeSeconds cli\<rparr>"

definition NewInvoiceToken :: "'w net \<Rightarrow> 'w \<Rightarrow> (string + string) \<times> 'w" where
  "NewInvoiceToken net w =
     (case net_Rand net 32 w of
        (None, w) \<Rightarrow> (Inl ''rand error'', w)
      | (Some raw, w) \<Rightarrow> (Inr (''inv_tok_'' @ hex_encode raw), w))"

section \<open>The start\<close>

text \<open>What a driver is opened with, besides the token key and the table prefix.\<close>

datatype StoreDriver = SQLiteAt string | PostgresAt string | MySQLAt string | MongoAt string string

definition store_driver :: "env \<Rightarrow> string \<Rightarrow> string + StoreDriver" where
  "store_driver e dataDir =
     (let driver = ToLower (TrimSpace (getenv e ''JUNO_PAY_STORE_DRIVER'' ''sqlite''));
          dsn = TrimSpace (getenv e ''JUNO_PAY_STORE_DSN'' []);
          db = TrimSpace (getenv e ''JUNO_PAY_STORE_DB'' []) in
      if driver = ''sqlite'' then Inr (SQLiteAt dataDir)
      else if driver = ''postgres'' then
        (if dsn = [] then Inl ''missing env: JUNO_PAY_STORE_DSN'' else Inr (PostgresAt dsn))
      else if driver = ''mysql'' then
        (if dsn = [] then Inl ''missing env: JUNO_PAY_STORE_DSN'' else Inr (MySQLAt dsn))
      else if driver = ''mongo'' \<or> driver = ''mongodb'' then
        (if dsn = [] then Inl ''missing env: JUNO_PAY_STORE_DSN''
         else if db = [] then Inl ''missing env: JUNO_PAY_STORE_DB'' else Inr (MongoAt dsn db))
      else Inl ''invalid JUNO_PAY_STORE_DRIVER'')"

text \<open>The parameters of the program.\<close>

record ('st, 'w) platform =
  pf_net :: "'w net"
  pf_dataDir :: string
  pf_open :: "StoreDriver \<Rightarrow> string \<Rightarrow> string \<Rightarrow> 'w \<Rightarrow> (string + 'st Store) \<times> 'w"
  pf_junocashd :: "string \<Rightarrow> string \<Rightarrow> string \<Rightarrow> 'w junocashd"
  pf_deriver :: Deriver
  pf_embedded :: "(HttpRequest \<Rightarrow> 'w \<Rightarrow> Reply \<times> 'w) option"
  pf_stat :: "string \<Rightarrow> string + bool"
  pf_ui :: "string \<Rightarrow> HttpRequest \<Rightarrow> 'w \<Rightarrow> Reply \<times> 'w"

record ('st, 'w) Program =
  pg_addr :: string
  pg_server :: "('st, 'w) Server"
  pg_store :: "'st Store"
  pg_junocashd :: "'w junocashd"
  pg_ingestor :: "('st, 'w) Ingestor"
  pg_pollInterval :: duration
  pg_worker :: "('st, 'w) Worker"
  pg_outboxPoll :: duration

text \<open>\<open>Inl\<close> is the message of a fatal error.\<close>

definition token_key :: "env \<Rightarrow> string + string" where
  "token_key e =
     (let tokenKeyHex = getenv e ''JUNO_PAY_TOKEN_KEY_HEX'' [] in
      if tokenKeyHex = [] then Inl ''missing env: JUNO_PAY_TOKEN_KEY_HEX''
      else (case hex_decode tokenKeyHex of
          None \<Rightarrow> Inl ''invalid JUNO_PAY_TOKEN_KEY_HEX (expected 32-byte hex)''
        | Some k \<Rightarrow> if length k \<noteq> 32 then Inl ''invalid JUNO_PAY_TOKEN_KEY_HEX (expected 32-byte hex)''
            else Inr k))"

text \<open>From the opened store on: the clients, the server, the ingestor and the worker.\<close>

definition main_program :: "('st, 'w) platform \<Rightarrow> env \<Rightarrow> string \<Rightarrow> 'st Store \<Rightarrow> string + ('st, 'w) Program" where
  "main_program pf e adminPassword st =
     (let jcd = pf_junocashd pf (getenv e ''JUNO_CASHD_RPC_URL'' ''http://127.0.0.1:8232'')
            (getenv e ''JUNO_CASHD_RPC_USER'' []) (getenv e ''JUNO_CASHD_RPC_PASS'' []);
          scanURL = getenv e ''JUNO_SCAN_URL'' [] in
      if scanURL = [] then Inl ''missing env: JUNO_SCAN_URL''
      else (case ScanClient_New (pf_net pf) scanURL of
          Inl m \<Rightarrow> Inl (''init scan client: '' @ m)
        | Inr sc \<Rightarrow>
            (case Server_New (Some st) (Some (pf_deriver pf)) (Some (junocashdTip (Some jcd)))
                (Some (net_Now (pf_net pf))) (Some (NewInvoiceToken (pf_net pf)))
                [Some (WithAdminPassword adminPassword),
                 Some (WithAdminUI (pf_embedded pf) (pf_stat pf) (pf_ui pf) (defaultAdminUIDir e)),
                 Some (WithScannerHealth (Healthy (Some sc)))] of
               Inl m \<Rightarrow> Inl (''init error: '' @ m)
             | Inr s \<Rightarrow>
                 (let pollInterval = parsePollInterval (getenv e ''JUNO_PAY_SCAN_POLL_MS'' ''1000'') in
                  case Ingestor_New (Some st) (Some sc) pollInterval of
                    Inl m \<Rightarrow> Inl (''init ingestor: '' @ m)
                  | Inr ing \<Rightarrow>
                      (case Worker_New (pf_net pf) (Some st)
                          [Some (WithBatchSize (parseIntClamp (getenv e ''JUNO_PAY_OUTBOX_BATCH_SIZE'' ''100'') 1 1000)),
                           Some (WithMaxAttempts (wrap32 (parseIntClamp (getenv e ''JUNO_PAY_OUTBOX_MAX_ATTEMPTS'' ''25'') 1 1000)))] of
                         Inl m \<Rightarrow> Inl (''init outbox: '' @ m)
                       | Inr ob \<Rightarrow> Inr \<lparr>pg_addr = getenv e ''JUNO_PAY_ADDR'' ''127.0.0.1:8080'', pg_server = s,
                           pg_store = st, pg_junocashd = jcd, pg_ingestor = ing, pg_pollInterval = pollInterval, pg_worker = ob,
                           pg_outboxPoll = parsePollInterval (getenv e ''JUNO_PAY_OUTBOX_POLL_MS'' ''500'')\<rparr>)))))"

definition main_start :: "('st, 'w) platform \<Rightarrow> env \<Rightarrow> 'w \<Rightarrow> (string + ('st, 'w) Program) \<times> 'w" where
  "main_start pf e w =
     (let adminPassword = getenv e ''JUNO_PAY_ADMIN_PASSWORD'' [] in
      if adminPassword = [] then (Inl ''missing env: JUNO_PAY_ADMIN_PASSWORD'', w)
      else (case token_key e of
          Inl m \<Rightarrow> (Inl m, w)
        | Inr tokenKey \<Rightarrow>
            (case store_driver e (getenv e ''JUNO_PAY_DATA_DIR'' (pf_dataDir pf)) of
               Inl m \<Rightarrow> (Inl m, w)
             | Inr d \<Rightarrow>
                 (case pf_open pf d tokenKey (TrimSpace (getenv e ''JUNO_PAY_STORE_PREFIX'' [])) w of
                    (Inl m, w) \<Rightarrow> (Inl m, w)
                  | (Inr st, w) \<Rightarrow> (main_program pf e adminPassword st, w)))))"

section \<open>The three activities\<close>

text \<open>One round of the scan loop: a pass of the ingestor, then the confirmations at the node's
  height; errors are logged and the loop goes on. A pass that never returns is \<open>None\<close>.\<close>

definition confirmations_tick :: "('st, 'w) Program \<Rightarrow> 'st \<Rightarrow> 'w \<Rightarrow> 'st \<times> 'w" where
  "confirmations_tick pg s w =
     (case jc_GetBlockCount (pg_junocashd pg) w of
        (Inl e, w) \<Rightarrow> (s, w)
      | (Inr bestHeight, w) \<Rightarrow> (snd (st_UpdateInvoiceConfirmations (pg_store pg) bestHeight s), w))"

definition scan_tick :: "('st, 'w) Program \<Rightarrow> 'st \<Rightarrow> 'w \<Rightarrow> ('st \<times> 'w) option" where
  "scan_tick pg s w =
     (case Ingestor_Sync (pg_ingestor pg) s w of
        None \<Rightarrow> None
      | Some (e, s, w) \<Rightarrow> Some (confirmations_tick pg s w))"

definition outbox_tick :: "'w net \<Rightarrow> ('st, 'w) Program \<Rightarrow> 'st \<Rightarrow> 'w \<Rightarrow> 'st \<times> 'w" where
  "outbox_tick net pg s w = snd (Worker_Sync net (pg_worker pg) s w)"

text \<open>The activities as steps, in any order. The mutex of the store makes each of its operations
  atomic; a step here is a whole request, round or pass.\<close>

inductive server_step :: "'w net \<Rightarrow> ('st, 'w) Program \<Rightarrow> ('st, 'w) System \<Rightarrow> ('st, 'w) System \<Rightarrow> bool"
  for net :: "'w net" and pg :: "('st, 'w) Program" where
  step_request: "server_step net pg y (snd (Server_Handler net (pg_server pg) r y))"
| step_scan: "scan_tick pg (sy_st y) (sy_w y) = Some (s, w) \<Longrightarrow> server_step net pg y (y\<lparr>sy_st := s, sy_w := w\<rparr>)"
| step_outbox: "outbox_tick net pg (sy_st y) (sy_w y) = (s, w) \<Longrightarrow> server_step net pg y (y\<lparr>sy_st := s, sy_w := w\<rparr>)"
| step_world: "server_step net pg y (y\<lparr>sy_w := w\<rparr>)"

end
