(* ===== verification/ServerPaths.thy ===== *)
theory ServerPaths
  imports PayServer
begin

text \<open>
  Everything the program does to the store is a sequence of calls of the store's interface. So a
  relation that contains every single call, and sequences of its own steps, contains whatever a
  request, a round of the scan loop or a pass of the outbox worker does: the contract
  \<open>closed_store\<close>, with the handlers followed one by one.
\<close>

section \<open>The router\<close>

lemma longest_match_in: "longest_match path rts = Some (pat, h) \<Longrightarrow> (pat, h) \<in> set rts \<and> pattern_matches pat path"
  by (induction rts arbitrary: pat h) (auto split: option.splits if_splits)

section \<open>Calls of the interface\<close>

text \<open>All but \<open>PutInvoiceToken\<close>, which has a condition of its own below: the program calls it for an invoice it has just created,
  and for no other.\<close>

inductive store_call :: "'st Store \<Rightarrow> 'st \<Rightarrow> 'st \<Rightarrow> bool" for st :: "'st Store" where
  "store_call st s (snd (st_CreateMerchant st a b s))"
| "store_call st s (snd (st_GetMerchant st a s))"
| "store_call st s (snd (st_ListMerchants st s))"
| "store_call st s (snd (st_UpdateMerchantSettings st a b s))"
| "store_call st s (snd (st_SetMerchantWallet st a b s))"
| "store_call st s (snd (st_GetMerchantWallet st a s))"
| "store_call st s (snd (st_ListMerchantWallets st s))"
| "store_call st s (snd (st_NextAddressIndex st a s))"
| "store_call st s (snd (st_CreateMerchantAPIKey st a b c s))"
| "store_call st s (snd (st_RevokeMerchantAPIKey st a s))"
| "store_call st s (snd (st_LookupMerchantIDByAPIKey st a s))"
| "store_call st s (snd (st_ListMerchantAPIKeys st a s))"
| "store_call st s (snd (st_CreateInvoice st a s))"
| "store_call st s (snd (st_GetInvoice st a s))"
| "store_call st s (snd (st_FindInvoiceByExternalOrderID st a b s))"
| "store_call st s (snd (st_ListInvoices st a s))"
| "store_call st s (snd (st_GetInvoiceToken st a s))"
| "store_call st s (snd (st_ScanCursor st a s))"
| "store_call st s (snd (st_ApplyScanEvent st a s))"
| "store_call st s (snd (st_UpdateInvoiceConfirmations st a s))"
| "store_call st s (snd (st_ListInvoiceEvents st a b c s))"
| "store_call st s (snd (st_ListDeposits st a s))"
| "store_call st s (snd (st_CreateRefund st a s))"
| "store_call st s (snd (st_ListRefunds st a s))"
| "store_call st s (snd (st_ListReviewCases st a s))"
| "store_call st s (snd (st_ResolveReviewCase st a b s))"
| "store_call st s (snd (st_RejectReviewCase st a b s))"
| "store_call st s (snd (st_CreateEventSink st a s))"
| "store_call st s (snd (st_GetEventSink st a s))"
| "store_call st s (snd (st_ListEventSinks st a s))"
| "store_call st s (snd (st_ListOutboundEvents st a b c s))"
| "store_call st s (snd (st_ListEventDeliveries st a s))"
| "store_call st s (snd (st_ListDueDeliveries st a b s))"
| "store_call st s (snd (st_UpdateEventDelivery st a b c d e s))"
| "store_call st s (snd (st_ScannerStatus st s))"
| "store_call st s (snd (st_PendingDeliveries st s))"

definition store_op :: "'st Store \<Rightarrow> ('st \<Rightarrow> 'a \<times> 'st) \<Rightarrow> bool" where
  "store_op st f \<longleftrightarrow> (\<forall>s. store_call st s (snd (f s)))"

lemma store_ops [simp]:
  "store_op st (st_CreateMerchant st a1 b1)" "store_op st (st_GetMerchant st a2)"
    "store_op st (st_ListMerchants st)" "store_op st (st_UpdateMerchantSettings st a4 b4)"
    "store_op st (st_SetMerchantWallet st a5 b5)" "store_op st (st_GetMerchantWallet st a6)"
    "store_op st (st_ListMerchantWallets st)" "store_op st (st_NextAddressIndex st a8)"
    "store_op st (st_CreateMerchantAPIKey st a9 b9 c9)" "store_op st (st_RevokeMerchantAPIKey st a10)"
    "store_op st (st_LookupMerchantIDByAPIKey st a11)" "store_op st (st_ListMerchantAPIKeys st a12)"
    "store_op st (st_CreateInvoice st a13)" "store_op st (st_GetInvoice st a14)"
    "store_op st (st_FindInvoiceByExternalOrderID st a15 b15)" "store_op st (st_ListInvoices st a16)"
    "store_op st (st_GetInvoiceToken st a18)"
    "store_op st (st_ScanCursor st a19)" "store_op st (st_ApplyScanEvent st a20)"
    "store_op st (st_UpdateInvoiceConfirmations st a21)"
    "store_op st (st_ListInvoiceEvents st a22 b22 c22)" "store_op st (st_ListDeposits st a23)"
    "store_op st (st_CreateRefund st a24)" "store_op st (st_ListRefunds st a25)"
    "store_op st (st_ListReviewCases st a26)" "store_op st (st_ResolveReviewCase st a27 b27)"
    "store_op st (st_RejectReviewCase st a28 b28)" "store_op st (st_CreateEventSink st a29)"
    "store_op st (st_GetEventSink st a30)" "store_op st (st_ListEventSinks st a31)"
    "store_op st (st_ListOutboundEvents st a32 b32 c32)" "store_op st (st_ListEventDeliveries st a33)"
    "store_op st (st_ListDueDeliveries st a34 b34)" "store_op st (st_UpdateEventDelivery st a35 b35 c35 d35 e35)"
    "store_op st (st_ScannerStatus st)" "store_op st (st_PendingDeliveries st)"
  by (auto simp: store_op_def intro: store_call.intros)

named_theorems flow

locale closed_store =
  fixes st :: "'st Store" and R :: "'st \<Rightarrow> 'st \<Rightarrow> bool"
  assumes R_refl [flow]: "R s s"
    and R_trans: "R s t \<Longrightarrow> R t u \<Longrightarrow> R s u"
    and R_call: "store_call st s t \<Longrightarrow> R s t"
    and R_put: "R s u \<Longrightarrow> st_CreateInvoice st ic u = (Inr (iv, True), t) \<Longrightarrow>
      R s (snd (st_PutInvoiceToken st (inv_InvoiceID iv) tok t))"
begin

text \<open>A part of a handler that stays within \<open>R\<close>, and one that is reached from \<open>s\<close> within it.\<close>

definition sound :: "('a, 'st, 'w) call \<Rightarrow> bool" where
  "sound c \<longleftrightarrow> (\<forall>y. R (sy_st y) (sy_st (snd (c y))))"

definition flows :: "'st \<Rightarrow> 'a \<times> ('st, 'w) System \<Rightarrow> bool" where
  "flows s p \<longleftrightarrow> R s (sy_st (snd p))"

lemma soundI: "(\<And>y. flows (sy_st y) (c y)) \<Longrightarrow> sound c"
  by (simp add: sound_def flows_def)

lemma R_op: "store_op st f \<Longrightarrow> f s = (a, t) \<Longrightarrow> R s t"
  unfolding store_op_def using R_call by (metis snd_conv)

lemma flows_end [flow]: "R s (sy_st y) \<Longrightarrow> flows s (a, y)"
  by (simp add: flows_def)

lemma flows_tail: "sound c \<Longrightarrow> R s (sy_st y) \<Longrightarrow> flows s (c y)"
  unfolding sound_def flows_def using R_trans by blast

lemma flows_call: "sound c \<Longrightarrow> R s (sy_st y) \<Longrightarrow> (\<And>a y'. R s (sy_st y') \<Longrightarrow> flows s (h a y'))
    \<Longrightarrow> flows s (case_prod h (c y))"
  using flows_tail [of c s y] by (simp add: flows_def split_def)

lemma flows_cases [flow]:
  "(\<And>e. flows s (f e)) \<Longrightarrow> (\<And>v. flows s (g v)) \<Longrightarrow> flows s (case_sum f g x)"
  "flows s p \<Longrightarrow> (\<And>v. flows s (g v)) \<Longrightarrow> flows s (case_option p g ov)"
  "flows s p \<Longrightarrow> flows s q \<Longrightarrow> flows s (case_bool p q b)"
  "flows s p \<Longrightarrow> (\<And>v vs. flows s (k v vs)) \<Longrightarrow> flows s (case_list p k l)"
  "flows s p \<Longrightarrow> flows s q \<Longrightarrow> flows s (if b then p else q)"
  "(\<And>e. flows s (f' e)) \<Longrightarrow> flows s p \<Longrightarrow> flows s (case_uptime_error p f' u)"
  "(\<And>a b. flows s (h a b y)) \<Longrightarrow> flows s (case_prod h ab y)"
  by (simp_all split: sum.split option.split bool.split list.split prod.split uptime_error.split)

lemma flows_pair: "(\<And>a b. flows s (h a b)) \<Longrightarrow> flows s (case_prod h ab)"
  by (simp split: prod.split)

lemma sound_store [simp]: "store_op st f \<Longrightarrow> sound (on_store f)"
  by (rule soundI) (auto simp: on_store_def flows_def split: prod.splits dest: R_op)

lemma sound_world [simp]: "sound (on_world f)"
  by (rule soundI) (auto simp: on_world_def R_refl flows_def split: prod.splits)

lemmas flows_store [flow] = flows_call [OF sound_store] flows_tail [OF sound_store]
lemmas flows_world [flow] = flows_call [OF sound_world] flows_tail [OF sound_world]

text \<open>The handlers and their parts, in the order of the code.\<close>

lemma sound_requireAdmin: "sv_st sv = st \<Longrightarrow> sound (requireAdmin sv r)"
  by (rule soundI, simp only: requireAdmin_def Let_def)
    (assumption | intro flow store_ops | rule flows_pair)+

lemmas [flow] = flows_call [OF sound_requireAdmin] flows_tail [OF sound_requireAdmin]

lemma sound_observeUptime: "sound (observeUptime n u)"
  by (rule soundI) (simp add: observeUptime_def flows_def Let_def R_refl)

lemmas [flow] = flows_call [OF sound_observeUptime] flows_tail [OF sound_observeUptime]

lemma sound_chain_status: "sv_st sv = st \<Longrightarrow> sound (chain_status sv)"
  by (rule soundI, simp only: chain_status_def Let_def)
    (assumption | intro flow store_ops | rule flows_pair)+

lemmas [flow] = flows_call [OF sound_chain_status] flows_tail [OF sound_chain_status]

lemma sound_observed: "sv_st sv = st \<Longrightarrow> sound (observed sv u)"
  by (rule soundI, simp only: observed_def Let_def)
    (assumption | intro flow store_ops | rule flows_pair)+

lemmas [flow] = flows_call [OF sound_observed] flows_tail [OF sound_observed]

lemma sound_scanner_connected: "sv_st sv = st \<Longrightarrow> sound (scanner_connected sv)"
  by (rule soundI, simp only: scanner_connected_def Let_def)
    (assumption | intro flow store_ops | rule flows_pair)+

lemmas [flow] = flows_call [OF sound_scanner_connected] flows_tail [OF sound_scanner_connected]

lemma sound_status_rest: "sv_st sv = st \<Longrightarrow> sound (status_rest sv best u rs)"
  by (rule soundI, simp only: status_rest_def Let_def)
    (assumption | intro flow store_ops | rule flows_pair)+

lemmas [flow] = flows_call [OF sound_status_rest] flows_tail [OF sound_status_rest]

lemma sound_authMerchant: "sv_st sv = st \<Longrightarrow> sound (authMerchant sv r)"
  by (rule soundI, simp only: authMerchant_def Let_def)
    (assumption | intro flow store_ops | rule flows_pair)+

lemmas [flow] = flows_call [OF sound_authMerchant] flows_tail [OF sound_authMerchant]

lemma sound_authorizeInvoiceToken: "sv_st sv = st \<Longrightarrow> sound (authorizeInvoiceToken sv r i)"
  by (rule soundI, simp only: authorizeInvoiceToken_def Let_def)
    (assumption | intro flow store_ops | rule flows_pair)+

lemmas [flow] = flows_call [OF sound_authorizeInvoiceToken] flows_tail [OF sound_authorizeInvoiceToken]

text \<open>The creation of an invoice: a token is put only for a new one.\<close>

lemma flows_create:
  assumes "R s (sy_st y)" "\<And>e y'. R s (sy_st y') \<Longrightarrow> flows s (f e y')"
    "\<And>iv y'. R s (sy_st y') \<Longrightarrow> (\<And>tok. R s (snd (st_PutInvoiceToken st (inv_InvoiceID iv) tok (sy_st y')))) \<Longrightarrow>
      flows s (g (iv, True) y')"
    "\<And>iv y'. R s (sy_st y') \<Longrightarrow> flows s (g (iv, False) y')"
  shows "flows s (case on_store (st_CreateInvoice st ic) y of (Inl e, y') \<Rightarrow> f e y' | (Inr v, y') \<Rightarrow> g v y')"
proof -
  obtain r t where c: "st_CreateInvoice st ic (sy_st y) = (r, t)" by fastforce
  have t: "R s t" using R_trans [OF assms(1) R_op [OF store_ops(13) c]] .
  show ?thesis
  proof (cases r)
    case (Inl e)
    then show ?thesis using assms(2) [of "y\<lparr>sy_st := t\<rparr>" e] t by (simp add: on_store_def c)
  next
    case (Inr p)
    obtain iv b where p: "p = (iv, b)" by fastforce
    then show ?thesis
      using Inr assms(3) [of "y\<lparr>sy_st := t\<rparr>" iv] assms(4) [of "y\<lparr>sy_st := t\<rparr>" iv] t R_put [OF assms(1)] c
      by (cases b) (auto simp: on_store_def)
  qed
qed

lemma flows_token_old:
  assumes "sv_st sv = st" "R s (sy_st y)" "\<And>a y'. R s (sy_st y') \<Longrightarrow> flows s (h a y')"
  shows "flows s (case_prod h (invoice_token sv iv False y))"
proof -
  obtain r t where c: "st_GetInvoiceToken st (inv_InvoiceID iv) (sy_st y) = (r, t)" by fastforce
  have "R s t" using R_trans [OF assms(2) R_op [OF store_ops(17) c]] .
  then show ?thesis
    using assms(3) by (simp add: invoice_token_def assms(1) on_store_def c split: sum.split option.split)
qed

lemma flows_token_new:
  assumes "sv_st sv = st" "R s (sy_st y)" "\<And>a y'. R s (sy_st y') \<Longrightarrow> flows s (h a y')"
    "\<And>tok. R s (snd (st_PutInvoiceToken st (inv_InvoiceID iv) tok (sy_st y)))"
  shows "flows s (case_prod h (invoice_token sv iv True y))"
proof -
  obtain r w where g: "sv_tokenGen sv (sy_w y) = (r, w)" by fastforce
  show ?thesis
  proof (cases r)
    case (Inl e)
    then show ?thesis using assms(3) [of "y\<lparr>sy_w := w\<rparr>"] assms(2) by (simp add: invoice_token_def on_world_def g)
  next
    case (Inr tok)
    obtain q t where c: "st_PutInvoiceToken st (inv_InvoiceID iv) tok (sy_st y) = (q, t)" by fastforce
    have "R s t" using assms(4) [of tok] c by simp
    then show ?thesis
      using Inr assms(3) [of "y\<lparr>sy_w := w, sy_st := t\<rparr>"]
      by (simp add: invoice_token_def on_world_def g assms(1) on_store_def c split: sum.split)
  qed
qed

lemma sound_invoice_expiry: "sv_st sv = st \<Longrightarrow> sound (invoice_expiry sv se)"
  by (rule soundI, simp only: invoice_expiry_def Let_def)
    (assumption | intro flow store_ops | rule flows_pair)+

lemmas [flow] = flows_call [OF sound_invoice_expiry] flows_tail [OF sound_invoice_expiry]

lemma sound_create_for_wallet: "sv_st sv = st \<Longrightarrow> sound (create_for_wallet sv m mid req wl)"
  by (rule soundI, simp only: create_for_wallet_def Let_def)
    (assumption | simp only: prod.case | rule flows_create flows_token_old flows_token_new
      | rule flow store_ops | rule flows_pair)+

lemmas [flow] = flows_call [OF sound_create_for_wallet] flows_tail [OF sound_create_for_wallet]

lemma sound_handleHealth: "sv_st sv = st \<Longrightarrow> sound (handleHealth sv r)"
  by (rule soundI, simp only: handleHealth_def Let_def)
    (assumption | intro flow store_ops | rule flows_pair)+

lemmas [flow] = flows_call [OF sound_handleHealth] flows_tail [OF sound_handleHealth]

lemma sound_handleStatus: "sv_st sv = st \<Longrightarrow> sound (handleStatus sv r)"
  by (rule soundI, simp only: handleStatus_def Let_def)
    (assumption | intro flow store_ops | rule flows_pair)+

lemmas [flow] = flows_call [OF sound_handleStatus] flows_tail [OF sound_handleStatus]

lemma sound_handleCreateInvoice: "sv_st sv = st \<Longrightarrow> sound (handleCreateInvoice sv r)"
  by (rule soundI, simp only: handleCreateInvoice_def Let_def)
    (assumption | intro flow store_ops | rule flows_pair)+

lemmas [flow] = flows_call [OF sound_handleCreateInvoice] flows_tail [OF sound_handleCreateInvoice]

lemma sound_handleInvoices: "sv_st sv = st \<Longrightarrow> sound (handleInvoices sv r)"
  by (rule soundI, simp only: handleInvoices_def Let_def)
    (assumption | intro flow store_ops | rule flows_pair)+

lemmas [flow] = flows_call [OF sound_handleInvoices] flows_tail [OF sound_handleInvoices]

lemma sound_handleGetPublicInvoice: "sv_st sv = st \<Longrightarrow> sound (handleGetPublicInvoice sv i r)"
  by (rule soundI, simp only: handleGetPublicInvoice_def Let_def)
    (assumption | intro flow store_ops | rule flows_pair)+

lemmas [flow] = flows_call [OF sound_handleGetPublicInvoice] flows_tail [OF sound_handleGetPublicInvoice]

lemma sound_handleListPublicInvoiceEvents: "sv_st sv = st \<Longrightarrow> sound (handleListPublicInvoiceEvents sv i r)"
  by (rule soundI, simp only: handleListPublicInvoiceEvents_def Let_def)
    (assumption | intro flow store_ops | rule flows_pair)+

lemmas [flow] = flows_call [OF sound_handleListPublicInvoiceEvents] flows_tail [OF sound_handleListPublicInvoiceEvents]

lemma sound_stream_ticks: "sv_st sv = st \<Longrightarrow> sound (stream_ticks sv i n a)"
proof (induction n arbitrary: a)
  case 0
  show ?case by (rule soundI, simp only: stream_ticks.simps) (assumption | intro flow store_ops | rule flows_pair)+
next
  case (Suc n)
  note [flow] = flows_call [OF Suc.IH] flows_tail [OF Suc.IH]
  from Suc.prems show ?case
    by - (rule soundI, simp only: stream_ticks.simps Let_def, (assumption | intro flow store_ops | rule flows_pair)+)
qed

lemmas [flow] = flows_call [OF sound_stream_ticks] flows_tail [OF sound_stream_ticks]

lemma sound_handleStreamPublicInvoiceEvents: "sv_st sv = st \<Longrightarrow> sound (handleStreamPublicInvoiceEvents sv i r)"
  by (rule soundI, simp only: handleStreamPublicInvoiceEvents_def Let_def)
    (assumption | intro flow store_ops | rule flows_pair)+

lemmas [flow] = flows_call [OF sound_handleStreamPublicInvoiceEvents] flows_tail [OF sound_handleStreamPublicInvoiceEvents]

lemma sound_handlePublicInvoices: "sv_st sv = st \<Longrightarrow> sound (handlePublicInvoices sv r)"
  by (rule soundI, simp only: handlePublicInvoices_def Let_def)
    (assumption | intro flow store_ops | rule flows_pair)+

lemmas [flow] = flows_call [OF sound_handlePublicInvoices] flows_tail [OF sound_handlePublicInvoices]

lemma sound_handleAdminLogin: "sv_st sv = st \<Longrightarrow> sound (handleAdminLogin net sv r)"
  by (rule soundI, simp only: handleAdminLogin_def Let_def)
    (assumption | intro flow store_ops | rule flows_pair)+

lemmas [flow] = flows_call [OF sound_handleAdminLogin] flows_tail [OF sound_handleAdminLogin]

lemma sound_handleAdminLogout: "sv_st sv = st \<Longrightarrow> sound (handleAdminLogout sv r)"
  by (rule soundI, simp only: handleAdminLogout_def Let_def)
    (assumption | intro flow store_ops | rule flows_pair)+

lemmas [flow] = flows_call [OF sound_handleAdminLogout] flows_tail [OF sound_handleAdminLogout]

lemma sound_handleAdminStatus: "sv_st sv = st \<Longrightarrow> sound (handleAdminStatus sv r)"
  by (rule soundI, simp only: handleAdminStatus_def admin_only_def get_only_def Let_def)
    (assumption | intro flow store_ops | rule flows_pair)+

lemmas [flow] = flows_call [OF sound_handleAdminStatus] flows_tail [OF sound_handleAdminStatus]

lemma sound_handleAdminCreateMerchant: "sv_st sv = st \<Longrightarrow> sound (handleAdminCreateMerchant sv r)"
  by (rule soundI, simp only: handleAdminCreateMerchant_def admin_only_def get_only_def Let_def)
    (assumption | intro flow store_ops | rule flows_pair)+

lemmas [flow] = flows_call [OF sound_handleAdminCreateMerchant] flows_tail [OF sound_handleAdminCreateMerchant]

lemma sound_handleAdminListMerchants: "sv_st sv = st \<Longrightarrow> sound (handleAdminListMerchants sv r)"
  by (rule soundI, simp only: handleAdminListMerchants_def admin_only_def get_only_def Let_def)
    (assumption | intro flow store_ops | rule flows_pair)+

lemmas [flow] = flows_call [OF sound_handleAdminListMerchants] flows_tail [OF sound_handleAdminListMerchants]

lemma sound_handleAdminMerchants: "sv_st sv = st \<Longrightarrow> sound (handleAdminMerchants sv r)"
  by (rule soundI, simp only: handleAdminMerchants_def admin_only_def get_only_def Let_def)
    (assumption | intro flow store_ops | rule flows_pair)+

lemmas [flow] = flows_call [OF sound_handleAdminMerchants] flows_tail [OF sound_handleAdminMerchants]

lemma sound_handleAdminGetMerchant: "sv_st sv = st \<Longrightarrow> sound (handleAdminGetMerchant sv m r)"
  by (rule soundI, simp only: handleAdminGetMerchant_def admin_only_def get_only_def Let_def)
    (assumption | intro flow store_ops | rule flows_pair)+

lemmas [flow] = flows_call [OF sound_handleAdminGetMerchant] flows_tail [OF sound_handleAdminGetMerchant]

lemma sound_handleAdminSetMerchantWallet: "sv_st sv = st \<Longrightarrow> sound (handleAdminSetMerchantWallet sv m r)"
  by (rule soundI, simp only: handleAdminSetMerchantWallet_def admin_only_def get_only_def Let_def)
    (assumption | intro flow store_ops | rule flows_pair)+

lemmas [flow] = flows_call [OF sound_handleAdminSetMerchantWallet] flows_tail [OF sound_handleAdminSetMerchantWallet]

lemma sound_handleAdminSetMerchantSettings: "sv_st sv = st \<Longrightarrow> sound (handleAdminSetMerchantSettings sv m r)"
  by (rule soundI, simp only: handleAdminSetMerchantSettings_def admin_only_def get_only_def Let_def)
    (assumption | intro flow store_ops | rule flows_pair)+

lemmas [flow] = flows_call [OF sound_handleAdminSetMerchantSettings] flows_tail [OF sound_handleAdminSetMerchantSettings]

lemma sound_create_key: "sv_st sv = st \<Longrightarrow> sound (create_key net sv m l)"
  by (rule soundI, simp only: create_key_def admin_only_def get_only_def Let_def)
    (assumption | intro flow store_ops | rule flows_pair)+

lemmas [flow] = flows_call [OF sound_create_key] flows_tail [OF sound_create_key]

lemma sound_handleAdminCreateMerchantAPIKey: "sv_st sv = st \<Longrightarrow> sound (handleAdminCreateMerchantAPIKey net sv m r)"
  by (rule soundI, simp only: handleAdminCreateMerchantAPIKey_def admin_only_def get_only_def Let_def)
    (assumption | intro flow store_ops | rule flows_pair)+

lemmas [flow] = flows_call [OF sound_handleAdminCreateMerchantAPIKey] flows_tail [OF sound_handleAdminCreateMerchantAPIKey]

lemma sound_handleAdminMerchantSubroutes: "sv_st sv = st \<Longrightarrow> sound (handleAdminMerchantSubroutes net sv r)"
  by (rule soundI, simp only: handleAdminMerchantSubroutes_def admin_only_def get_only_def Let_def)
    (assumption | intro flow store_ops | rule flows_pair)+

lemmas [flow] = flows_call [OF sound_handleAdminMerchantSubroutes] flows_tail [OF sound_handleAdminMerchantSubroutes]

lemma sound_handleAdminAPIKeys: "sv_st sv = st \<Longrightarrow> sound (handleAdminAPIKeys sv r)"
  by (rule soundI, simp only: handleAdminAPIKeys_def admin_only_def get_only_def Let_def)
    (assumption | intro flow store_ops | rule flows_pair)+

lemmas [flow] = flows_call [OF sound_handleAdminAPIKeys] flows_tail [OF sound_handleAdminAPIKeys]

lemma sound_handleAdminCreateEventSink: "sv_st sv = st \<Longrightarrow> sound (handleAdminCreateEventSink sv r)"
  by (rule soundI, simp only: handleAdminCreateEventSink_def admin_only_def get_only_def Let_def)
    (assumption | intro flow store_ops | rule flows_pair)+

lemmas [flow] = flows_call [OF sound_handleAdminCreateEventSink] flows_tail [OF sound_handleAdminCreateEventSink]

lemma sound_handleAdminListEventSinks: "sv_st sv = st \<Longrightarrow> sound (handleAdminListEventSinks sv r)"
  by (rule soundI, simp only: handleAdminListEventSinks_def admin_only_def get_only_def Let_def)
    (assumption | intro flow store_ops | rule flows_pair)+

lemmas [flow] = flows_call [OF sound_handleAdminListEventSinks] flows_tail [OF sound_handleAdminListEventSinks]

lemma sound_handleAdminEventSinks: "sv_st sv = st \<Longrightarrow> sound (handleAdminEventSinks sv r)"
  by (rule soundI, simp only: handleAdminEventSinks_def admin_only_def get_only_def Let_def)
    (assumption | intro flow store_ops | rule flows_pair)+

lemmas [flow] = flows_call [OF sound_handleAdminEventSinks] flows_tail [OF sound_handleAdminEventSinks]

lemma sound_handleAdminTestEventSink: "sv_st sv = st \<Longrightarrow> sound (handleAdminTestEventSink net sv k r)"
  by (rule soundI, simp only: handleAdminTestEventSink_def admin_only_def get_only_def Let_def)
    (assumption | intro flow store_ops | rule flows_pair)+

lemmas [flow] = flows_call [OF sound_handleAdminTestEventSink] flows_tail [OF sound_handleAdminTestEventSink]

lemma sound_handleAdminEventSinkSubroutes: "sv_st sv = st \<Longrightarrow> sound (handleAdminEventSinkSubroutes net sv r)"
  by (rule soundI, simp only: handleAdminEventSinkSubroutes_def admin_only_def get_only_def Let_def)
    (assumption | intro flow store_ops | rule flows_pair)+

lemmas [flow] = flows_call [OF sound_handleAdminEventSinkSubroutes] flows_tail [OF sound_handleAdminEventSinkSubroutes]

lemma sound_handleAdminEvents: "sv_st sv = st \<Longrightarrow> sound (handleAdminEvents sv r)"
  by (rule soundI, simp only: handleAdminEvents_def admin_only_def get_only_def Let_def)
    (assumption | intro flow store_ops | rule flows_pair)+

lemmas [flow] = flows_call [OF sound_handleAdminEvents] flows_tail [OF sound_handleAdminEvents]

lemma sound_handleAdminEventDeliveries: "sv_st sv = st \<Longrightarrow> sound (handleAdminEventDeliveries sv r)"
  by (rule soundI, simp only: handleAdminEventDeliveries_def admin_only_def get_only_def Let_def)
    (assumption | intro flow store_ops | rule flows_pair)+

lemmas [flow] = flows_call [OF sound_handleAdminEventDeliveries] flows_tail [OF sound_handleAdminEventDeliveries]

lemma sound_handleAdminReviewCases: "sv_st sv = st \<Longrightarrow> sound (handleAdminReviewCases sv r)"
  by (rule soundI, simp only: handleAdminReviewCases_def admin_only_def get_only_def Let_def)
    (assumption | intro flow store_ops | rule flows_pair)+

lemmas [flow] = flows_call [OF sound_handleAdminReviewCases] flows_tail [OF sound_handleAdminReviewCases]

lemma store_op_decide: "store_op st ((if b then st_ResolveReviewCase st else st_RejectReviewCase st) i n)"
  by simp

lemmas [flow] = flows_call [OF sound_store [OF store_op_decide]]

lemma sound_decide_case: "sv_st sv = st \<Longrightarrow> sound (decide_case sv i a n)"
  by (rule soundI, simp only: decide_case_def admin_only_def get_only_def Let_def)
    (assumption | intro flow store_ops | rule flows_pair)+

lemmas [flow] = flows_call [OF sound_decide_case] flows_tail [OF sound_decide_case]

lemma sound_handleAdminReviewCaseSubroutes: "sv_st sv = st \<Longrightarrow> sound (handleAdminReviewCaseSubroutes sv r)"
  by (rule soundI, simp only: handleAdminReviewCaseSubroutes_def admin_only_def get_only_def Let_def)
    (assumption | intro flow store_ops | rule flows_pair)+

lemmas [flow] = flows_call [OF sound_handleAdminReviewCaseSubroutes] flows_tail [OF sound_handleAdminReviewCaseSubroutes]

lemma sound_invoice_views: "sv_st sv = st \<Longrightarrow> sound (invoice_views sv ivs)"
proof (induction ivs)
  case Nil
  show ?case by (rule soundI, simp only: invoice_views.simps) (assumption | intro flow store_ops | rule flows_pair)+
next
  case (Cons iv ivs)
  note [flow] = flows_call [OF Cons.IH] flows_tail [OF Cons.IH]
  from Cons.prems show ?case
    by - (rule soundI, simp only: invoice_views.simps Let_def, (assumption | intro flow store_ops | rule flows_pair)+)
qed

lemmas [flow] = flows_call [OF sound_invoice_views] flows_tail [OF sound_invoice_views]

lemma sound_handleAdminInvoices: "sv_st sv = st \<Longrightarrow> sound (handleAdminInvoices sv r)"
  by (rule soundI, simp only: handleAdminInvoices_def admin_only_def get_only_def Let_def)
    (assumption | intro flow store_ops | rule flows_pair)+

lemmas [flow] = flows_call [OF sound_handleAdminInvoices] flows_tail [OF sound_handleAdminInvoices]

lemma sound_handleAdminInvoiceSubroutes: "sv_st sv = st \<Longrightarrow> sound (handleAdminInvoiceSubroutes net sv r)"
  by (rule soundI, simp only: handleAdminInvoiceSubroutes_def admin_only_def get_only_def Let_def)
    (assumption | intro flow store_ops | rule flows_pair)+

lemmas [flow] = flows_call [OF sound_handleAdminInvoiceSubroutes] flows_tail [OF sound_handleAdminInvoiceSubroutes]

lemma sound_handleAdminDeposits: "sv_st sv = st \<Longrightarrow> sound (handleAdminDeposits sv r)"
  by (rule soundI, simp only: handleAdminDeposits_def admin_only_def get_only_def Let_def)
    (assumption | intro flow store_ops | rule flows_pair)+

lemmas [flow] = flows_call [OF sound_handleAdminDeposits] flows_tail [OF sound_handleAdminDeposits]

lemma sound_handleAdminCreateRefund: "sv_st sv = st \<Longrightarrow> sound (handleAdminCreateRefund sv r)"
  by (rule soundI, simp only: handleAdminCreateRefund_def admin_only_def get_only_def Let_def)
    (assumption | intro flow store_ops | rule flows_pair)+

lemmas [flow] = flows_call [OF sound_handleAdminCreateRefund] flows_tail [OF sound_handleAdminCreateRefund]

lemma sound_handleAdminListRefunds: "sv_st sv = st \<Longrightarrow> sound (handleAdminListRefunds sv r)"
  by (rule soundI, simp only: handleAdminListRefunds_def admin_only_def get_only_def Let_def)
    (assumption | intro flow store_ops | rule flows_pair)+

lemmas [flow] = flows_call [OF sound_handleAdminListRefunds] flows_tail [OF sound_handleAdminListRefunds]

lemma sound_handleAdminRefunds: "sv_st sv = st \<Longrightarrow> sound (handleAdminRefunds sv r)"
  by (rule soundI, simp only: handleAdminRefunds_def admin_only_def get_only_def Let_def)
    (assumption | intro flow store_ops | rule flows_pair)+

lemmas [flow] = flows_call [OF sound_handleAdminRefunds] flows_tail [OF sound_handleAdminRefunds]

section \<open>Requests, rounds and passes\<close>

lemmas sound_handlers = sound_handleAdminLogin sound_handleAdminLogout sound_handleHealth sound_handleStatus
  sound_handleInvoices sound_handlePublicInvoices sound_handleAdminStatus sound_handleAdminMerchants
  sound_handleAdminMerchantSubroutes sound_handleAdminAPIKeys sound_handleAdminEventSinks
  sound_handleAdminEventSinkSubroutes sound_handleAdminEvents sound_handleAdminEventDeliveries
  sound_handleAdminReviewCases sound_handleAdminReviewCaseSubroutes sound_handleAdminInvoices
  sound_handleAdminInvoiceSubroutes sound_handleAdminDeposits sound_handleAdminRefunds

lemma sound_admin_page: "sound (\<lambda>y. if b then (method_not_allowed, y) else (rep, y))"
  by (rule soundI) (intro flow)

lemma sound_routes: "sv_st sv = st \<Longrightarrow> (pat, h) \<in> set (routes net sv) \<Longrightarrow> sound (h r)"
  by (auto simp: routes_def sound_handlers sound_admin_page split: option.splits)

lemma sound_Server_Handler: "sv_st sv = st \<Longrightarrow> sound (Server_Handler net sv r)"
proof (rule soundI)
  fix y assume st: "sv_st sv = st"
  show "flows (sy_st y) (Server_Handler net sv r y)"
  proof (cases "longest_match (hr_Path r) (routes net sv)")
    case None
    then show ?thesis by (simp add: Server_Handler_def flows_end R_refl)
  next
    case (Some ph)
    then show ?thesis
      using longest_match_in [of "hr_Path r" "routes net sv" "fst ph" "snd ph"] sound_routes [OF st, of "fst ph" "snd ph" net r]
      by (simp add: Server_Handler_def flows_tail R_refl split_def)
  qed
qed

lemma R_sync_tasks:
  assumes st: "wk_st wk = st" shows "R s (fst (snd (sync_tasks net wk now ts s w)))"
proof (induction ts arbitrary: s w)
  case (Cons t ts)
  have op: "st_UpdateEventDelivery st k u n r m s = (a, t) \<Longrightarrow> R s t" for k u n r m a t s
    using R_op [OF store_ops(34)] .
  show ?case
    by (auto simp: Let_def R_refl st split: prod.split sum.split option.split
        dest!: op intro: R_trans [OF _ Cons.IH])
qed (simp add: R_refl)

lemma R_Worker_Sync:
  assumes st: "wk_st wk = st" shows "R s (fst (snd (Worker_Sync net wk s w)))"
proof -
  have due: "st_ListDueDeliveries st now n s = (a, t) \<Longrightarrow> R s t" for now n a t
    using R_op [OF store_ops(33)] .
  show ?thesis
    by (auto simp: Worker_Sync_def st split: prod.split sum.split dest!: due intro: R_trans [OF _ R_sync_tasks [OF st]])
qed

lemma R_outbox: "wk_st (pg_worker pg) = st \<Longrightarrow> R s (fst (outbox_tick net pg s w))"
  unfolding outbox_tick_def by (rule R_Worker_Sync)

lemma R_apply_events: "apply_events st wid evs s = (r, t) \<Longrightarrow> R s t"
proof (induction evs arbitrary: s)
  case (Cons ev evs)
  have op: "st_ApplyScanEvent st ev s = (a, t) \<Longrightarrow> R s t" for ev s a t
    using R_op [OF store_ops(19)] .
  from Cons show ?case by (auto split: prod.splits sum.splits dest!: op intro: R_trans)
qed (simp add: R_refl)

lemma R_drain: "drain st c wid cur s w = Some x \<Longrightarrow> R s (fst (snd x))"
proof -
  have "st' = st \<longrightarrow> R s (fst (snd x))" if "drain st' c wid cur s w = Some x" for st'
    using that
  proof (rule drain.raw_induct [where P = "\<lambda>st' c wid cur s w x. st' = st \<longrightarrow> R s (fst (snd x))", rotated])
    fix dr st' c wid cur s w x
    assume IH: "\<And>st' c wid cur s w x. dr st' c wid cur s w = Some x \<Longrightarrow> st' = st \<longrightarrow> R s (fst (snd x))"
      and eq: "(case ListWalletEvents c wid cur 200 w of
          (Inl e, w) \<Rightarrow> Some (Some (OtherError e), s, w)
        | (Inr (evs, nextCursor), w) \<Rightarrow>
            if evs = [] then Some (None, s, w)
            else (case apply_events st' wid evs s of
                (Some e, s) \<Rightarrow> Some (Some e, s, w)
              | (None, s) \<Rightarrow> dr st' c wid nextCursor s w)) = Some x"
    have IH': "dr st c wid n t w = Some x \<Longrightarrow> R t (fst (snd x))" for c wid n t w x using IH by blast
    show "st' = st \<longrightarrow> R s (fst (snd x))"
      using eq by (auto simp: R_refl split: prod.splits sum.splits option.splits if_splits
          dest!: R_apply_events IH' intro: R_trans)
  qed
  then show "drain st c wid cur s w = Some x \<Longrightarrow> ?thesis" by blast
qed

lemma R_sync_wallets:
  assumes st: "in_st i = st" and "sync_wallets i mws s w = Some x" shows "R s (fst (snd x))"
  using assms(2)
proof (induction mws arbitrary: s w)
  case (Cons mw mws)
  have cursor: "st_ScanCursor st wid s = (a, t) \<Longrightarrow> R s t" for wid s a t
    using R_op [OF store_ops(18)] .
  have drained: "drain st c wid cur s w = Some (e, t, w') \<Longrightarrow> R s t" for c wid cur s w e t w'
    using R_drain by fastforce
  from Cons.prems show ?case
    by (auto simp: R_refl st split: prod.splits sum.splits option.splits
        dest!: cursor drained Cons.IH intro: R_trans)
qed (auto simp: R_refl)

lemma R_Ingestor_Sync:
  assumes st: "in_st i = st" and "Ingestor_Sync i s w = Some x" shows "R s (fst (snd x))"
proof -
  have wallets: "st_ListMerchantWallets st s = (a, t) \<Longrightarrow> R s t" for a t
    using R_op [OF store_ops(7)] .
  from assms(2) show ?thesis
    by (auto simp: Ingestor_Sync_def st split: prod.splits sum.splits
        dest!: wallets R_sync_wallets [OF st] intro: R_trans)
qed

lemma R_confirmations: "pg_store pg = st \<Longrightarrow> R s (fst (confirmations_tick pg s w))"
  using R_call [OF store_call.intros(20)]
  by (simp add: confirmations_tick_def R_refl split: prod.split sum.split)

lemma R_scan:
  assumes "in_st (pg_ingestor pg) = st" "pg_store pg = st" "scan_tick pg s w = Some x" shows "R s (fst x)"
proof -
  from assms(3) obtain e t v where "Ingestor_Sync (pg_ingestor pg) s w = Some (e, t, v)" "x = confirmations_tick pg t v"
    by (auto simp: scan_tick_def split: option.splits)
  then show ?thesis using R_Ingestor_Sync [OF assms(1)] R_confirmations [OF assms(2)] R_trans
    by (metis fst_conv snd_conv)
qed

text \<open>A program whose parts share the store.\<close>

theorem R_server_step:
  assumes "server_step net pg y y'" "sv_st (pg_server pg) = st" "pg_store pg = st"
    "in_st (pg_ingestor pg) = st" "wk_st (pg_worker pg) = st"
  shows "R (sy_st y) (sy_st y')"
  using assms(1)
proof cases
  case (step_request r)
  then show ?thesis using sound_Server_Handler [OF assms(2)] by (simp add: sound_def)
next
  case (step_scan s w)
  then show ?thesis using R_scan [OF assms(4,3), of "sy_st y" "sy_w y"] by simp
next
  case (step_outbox s w)
  then show ?thesis using R_outbox [OF assms(5), of "sy_st y" net "sy_w y"] by simp
qed (simp add: R_refl)

end

end
