(* ===== verification/ServerProps.thy ===== *)
theory ServerProps
  imports ServerPaths OutboxProps IngestProps MemProps
begin

text \<open>
  The program as a whole: what its start guarantees, and that the running server, with the in-memory
  store behind its three activities, never leaves the states the theorems on the store speak of.
\<close>

section \<open>The in-memory store\<close>

text \<open>No operation but \<open>PutInvoiceToken\<close> changes a token.\<close>

lemma recompute_token [simp]: "invoiceToken (recomputeInvoiceLocked iid s) = invoiceToken s"
  by (simp add: recomputeInvoiceLocked_def status_event_def status_review_def Let_def
      split: option.split prod.split InvoiceStatus.split)

lemma applyDeposit_token:
  assumes "st \<noteq> DepositConfirmed"
  shows "invoiceToken (applyDepositLocked ev w0 x a addr0 am h st None s) = invoiceToken s"
proof (cases "addr0 = [] \<or> \<not> am \<le> 2 ^ 63 - 1")
  case True
  then show ?thesis by (auto simp: applyDepositLocked_def Let_def)
next
  case False
  have ev: "invoiceToken (deposit_event i st t d u) = invoiceToken u" for i t d u
    by (simp add: deposit_event_def split: DepositStatus.split)
  from False show ?thesis by (simp add: applyDepositLocked_eq [OF assms] with_deposit_def ev)
qed

lemma apply_token: "invoiceToken (snd (ApplyScanEvent ev s)) = invoiceToken s"
proof -
  have kind: "apply_kind e s = Inr t \<Longrightarrow> invoiceToken t = invoiceToken s" for e t
    by (auto simp: apply_kind_def apply_payload_def applyDeposit_token split: if_splits option.splits)
  show ?thesis by (auto simp: ApplyScanEvent_def Let_def split: sum.split dest: kind)
qed

lemma confirm_token: "invoiceToken (fst (foldl (confirm_deposit best now) acc kds)) = invoiceToken (fst acc)"
  by (induction kds arbitrary: acc) (simp_all add: confirm_deposit_def Let_def split_def split: option.split)

lemma recompute_all_token: "invoiceToken (foldl (\<lambda>s i. recomputeInvoiceLocked i s) s ids) = invoiceToken s"
  by (induction ids arbitrary: s) simp_all

lemma confirmations_token: "invoiceToken (snd (UpdateInvoiceConfirmations best s)) = invoiceToken s"
  using confirm_token [of best "time_Now s" "(ticked s, [])"]
  by (simp add: UpdateInvoiceConfirmations_def Let_def recompute_all_token split: prod.split) (metis fst_conv)

lemma CreateInvoice_token: "invoiceToken (snd (CreateInvoice req s)) = invoiceToken s"
  by (simp add: CreateInvoice_def Let_def split: option.split)

lemma CreateEventSink_token: "invoiceToken (snd (CreateEventSink req s)) = invoiceToken s"
  by (simp add: CreateEventSink_def Let_def split: raw_message.split json.split EventSinkKind.split)

lemma store_call_token:
  assumes "store_call mem_Store s t" shows "invoiceToken t = invoiceToken s"
  using assms
  by cases (simp_all add: mem_Store_def mem_reads apply_token confirmations_token CreateInvoice_token
      CreateEventSink_token, simp_all add: merchant_op_defs ListMerchantAPIKeys_def ListDueDeliveries_def CreateRefund_def
      UpdateEventDelivery_def ResolveReviewCase_def RejectReviewCase_def CreateMerchantAPIKey_def
      RevokeMerchantAPIKey_def Let_def split: option.split)

lemma mem_store_call: "store_call mem_Store s t \<Longrightarrow> mem_step\<^sup>*\<^sup>* s t"
proof -
  have one: "mem_step u v \<Longrightarrow> mem_step\<^sup>*\<^sup>* u v" for u v by (rule r_into_rtranclp)
  have tick: "mem_step\<^sup>*\<^sup>* u (ticked u)" "mem_step\<^sup>*\<^sup>* u (ticked (ticked u))" for u
    by (blast intro: mem_step.intros rtranclp.intros)+
  have reads: "mem_step\<^sup>*\<^sup>* s (snd (ListMerchantAPIKeys mid s))" "mem_step\<^sup>*\<^sup>* s (snd (ListDueDeliveries now n s))" for mid now n
    by (auto simp: ListMerchantAPIKeys_def ListDueDeliveries_def Let_def tick)
  assume "store_call mem_Store s t"
  then show ?thesis
    by cases (simp_all add: mem_Store_def mem_reads reads tick one mem_step.intros)
qed

text \<open>What the program keeps of a store that satisfies the invariant: it goes on by steps, and an invoice that exists
  keeps the token it has, or has none forever.\<close>

definition kept :: "MemStore \<Rightarrow> MemStore \<Rightarrow> bool" where
  "kept s t \<longleftrightarrow> mem_step\<^sup>*\<^sup>* s t \<and>
     (\<forall>iid. has_key iid (invoices s) \<longrightarrow> map_of (invoiceToken t) iid = map_of (invoiceToken s) iid)"

definition keeps :: "MemStore \<Rightarrow> MemStore \<Rightarrow> bool" where
  "keeps s t \<longleftrightarrow> (mem_inv {} s \<longrightarrow> kept s t)"

lemma has_key_steps: "mem_step\<^sup>*\<^sup>* s t \<Longrightarrow> mem_inv {} s \<Longrightarrow> has_key iid (invoices s) \<Longrightarrow> has_key iid (invoices t)"
  using run_monotone_core [of s t iid] by (auto simp: has_key_def)

lemma kept_trans: "mem_inv {} s \<Longrightarrow> kept s t \<Longrightarrow> kept t u \<Longrightarrow> kept s u"
  unfolding kept_def using has_key_steps by (metis rtranclp_trans)

lemma keeps_trans: "keeps s t \<Longrightarrow> keeps t u \<Longrightarrow> keeps s u"
  unfolding keeps_def using kept_trans mem_steps_inv by (metis kept_def)

lemma keeps_put:
  assumes "keeps s u" "CreateInvoice ic u = (Inr (iv, True), t)"
  shows "keeps s (snd (PutInvoiceToken (inv_InvoiceID iv) tok t))"
proof -
  have "kept s (snd (PutInvoiceToken (inv_InvoiceID iv) tok t))" if inv: "mem_inv {} s"
  proof -
    have su: "kept s u" using assms(1) inv by (simp add: keeps_def)
    then have "mem_step\<^sup>*\<^sup>* s u" by (simp add: kept_def)
    then have u: "mem_inv {} u" by (rule mem_steps_inv) (rule inv)
    have "mem_step u t" using mem_step.intros(7) [of u ic] assms(2) by simp
    then have steps: "mem_step\<^sup>*\<^sup>* s (snd (PutInvoiceToken (inv_InvoiceID iv) tok t))"
      using su mem_step.intros(8) [of t] by (meson kept_def rtranclp.rtrancl_into_rtrancl)
    have tok: "invoiceToken t = invoiceToken u" using CreateInvoice_token [of ic u] assms(2) by simp
    have fresh: "inv_InvoiceID iv \<noteq> iid" if "has_key iid (invoices u)" for iid
      using that assms(2) invoice_id_fresh [OF mem_invD(8) [OF u]]
      by (cases rule: CreateInvoice_cases [of ic u]) (auto simp: has_key_def)
    have "TrimSpace (inv_InvoiceID iv) = inv_InvoiceID iv"
      using assms(2) by (cases rule: CreateInvoice_cases [of ic u]) (auto simp: TrimSpace_mk_id plain_char_def)
    then have "map_of (invoiceToken (snd (PutInvoiceToken (inv_InvoiceID iv) tok t))) iid = map_of (invoiceToken s) iid"
      if "has_key iid (invoices s)" for iid
      using fresh [OF has_key_steps [OF _ inv that]] su that tok by (auto simp: PutInvoiceToken_def Let_def kept_def)
    with steps show ?thesis by (simp add: kept_def)
  qed
  then show ?thesis by (simp add: keeps_def)
qed

interpretation mem_server: closed_store mem_Store keeps
proof unfold_locales
  fix s t u assume "keeps s t" "keeps t u"
  then show "keeps s u" by (rule keeps_trans)
next
  fix s t assume c: "store_call mem_Store s t"
  then show "keeps s t" using mem_store_call [OF c] store_call_token [OF c] by (simp add: keeps_def kept_def)
next
  fix s u ic iv t tok assume "keeps s u" "st_CreateInvoice mem_Store ic u = (Inr (iv, True), t)"
  then show "keeps s (snd (st_PutInvoiceToken mem_Store (inv_InvoiceID iv) tok t))"
    using keeps_put by (simp add: mem_Store_def)
qed (simp add: keeps_def kept_def)

section \<open>The settings\<close>

lemma FormatInt_chars: "c \<in> set (FormatInt n) \<Longrightarrow> c = CHR ''-'' \<or> is_digit 10 c"
  by (auto simp: FormatInt_def dest: set_fmt_uint [of 10, simplified] split: if_splits)

lemma TrimSpace_FormatInt [simp]: "TrimSpace (FormatInt n) = FormatInt n"
proof -
  have plain: "plain_char c" if "c \<in> set (FormatInt n)" for c
    using FormatInt_chars [OF that] plain_digit [of c] is_digit_mono [of 10 c 16] by (auto simp: plain_char_def)
  have "FormatInt n \<noteq> []" by (simp add: FormatInt_def)
  then show ?thesis by (intro TrimSpace_id no_outer_space_plain plain) simp_all
qed

text \<open>Numeric settings stay in their bounds whatever the environment holds: a poll interval is between 100
  milliseconds and a minute and is the given number of milliseconds where that lies between; a clamped number lies
  between its bounds, is the given number where that does, and the lower bound where it is no number at all.\<close>

theorem settings_bounded:
  "100 * Millisecond \<le> parsePollInterval v \<and> parsePollInterval v \<le> 60 * Second \<and>
   (100 \<le> n \<and> n \<le> 60000 \<longrightarrow> parsePollInterval (FormatInt n) = n * Millisecond) \<and>
   (lo \<le> hi \<longrightarrow> lo \<le> parseIntClamp v lo hi \<and> parseIntClamp v lo hi \<le> hi \<and>
     (in_int64 n \<longrightarrow> parseIntClamp (FormatInt n) lo hi = max lo (min hi n)) \<and>
     (ParseInt 10 (TrimSpace v) = None \<longrightarrow> parseIntClamp v lo hi = lo))"
proof -
  have "100 * Millisecond \<le> parsePollInterval v \<and> parsePollInterval v \<le> 60 * Second"
    by (auto simp: parsePollInterval_def Let_def Millisecond_def Second_def split: option.split)
  moreover have "parsePollInterval (FormatInt n) = n * Millisecond" if "100 \<le> n \<and> n \<le> 60000"
    using that by (simp add: parsePollInterval_def ParseInt_FormatInt in_int64_def)
  moreover have "lo \<le> parseIntClamp v lo hi \<and> parseIntClamp v lo hi \<le> hi" if "lo \<le> hi"
    using that by (auto simp: parseIntClamp_def split: option.split)
  moreover have "parseIntClamp (FormatInt n) lo hi = max lo (min hi n)" if "lo \<le> hi" "in_int64 n"
    using that by (simp add: parseIntClamp_def ParseInt_FormatInt)
  moreover have "parseIntClamp v lo hi = lo" if "ParseInt 10 (TrimSpace v) = None"
    using that by (simp add: parseIntClamp_def)
  ultimately show ?thesis by blast
qed

theorem settings_bounded_witness: "parsePollInterval ''250'' = 250 * Millisecond \<and> parseIntClamp ''x'' 1 1000 = 1"
proof -
  have "FormatInt 250 = ''250''" "ParseInt 10 (TrimSpace ''x'') = None" by code_simp+
  with settings_bounded [of "''x''" 250 1 1000] show ?thesis by simp
qed

section \<open>The start\<close>

text \<open>The program a successful start leaves: one store behind all parts, a password, and options in their bounds.\<close>

definition program_ok :: "'st Store \<Rightarrow> string \<Rightarrow> ('st, 'w) Program \<Rightarrow> bool" where
  "program_ok st password pg \<longleftrightarrow>
     pg_store pg = st \<and> sv_st (pg_server pg) = st \<and> in_st (pg_ingestor pg) = st \<and> wk_st (pg_worker pg) = st \<and>
     sv_adminEnabled (pg_server pg) \<and> TrimSpace password \<noteq> [] \<and>
     sv_adminPassHash (pg_server pg) = sha256 (TrimSpace password) \<and>
     sv_adminSessionTTL (pg_server pg) = 12 * Hour \<and>
     100 * Millisecond \<le> in_pollInterval (pg_ingestor pg) \<and> in_pollInterval (pg_ingestor pg) = pg_pollInterval pg \<and>
     pg_pollInterval pg \<le> 60 * Second \<and>
     100 * Millisecond \<le> pg_outboxPoll pg \<and> pg_outboxPoll pg \<le> 60 * Second \<and>
     1 \<le> wk_batchSize (pg_worker pg) \<and> wk_batchSize (pg_worker pg) \<le> 1000 \<and>
     1 \<le> wk_maxAttempts (pg_worker pg) \<and> wk_maxAttempts (pg_worker pg) \<le> 1000"

lemma clamp_range: "1 \<le> parseIntClamp v 1 1000" "parseIntClamp v 1 1000 \<le> 1000"
  by (auto simp: parseIntClamp_def split: option.split)

lemma clamp_wrap: "wrap32 (parseIntClamp v 1 1000) = parseIntClamp v 1 1000"
  using clamp_range [of v] by (simp add: in_int32_def)

lemma poll_range: "100 * Millisecond \<le> parsePollInterval v" "parsePollInterval v \<le> 60 * Second" "0 < parsePollInterval v"
  by (auto simp: parsePollInterval_def Let_def Millisecond_def Second_def split: option.split)

lemma server_built:
  assumes "Server_New (Some st) (Some d) (Some t) (Some c) (Some g)
      [Some (WithAdminPassword pw), Some (WithAdminUI a b u dir), Some (WithScannerHealth h)] = Inr s"
  shows "sv_st s = st \<and> sv_adminEnabled s \<and> TrimSpace pw \<noteq> [] \<and> sv_adminPassHash s = sha256 (TrimSpace pw) \<and>
    sv_adminSessionTTL s = 12 * Hour"
proof -
  have ui: "sv_st s1 = sv_st s0 \<and> sv_adminEnabled s1 = sv_adminEnabled s0 \<and> sv_adminPassHash s1 = sv_adminPassHash s0 \<and>
      sv_adminSessionTTL s1 = sv_adminSessionTTL s0" if "WithAdminUI a b u dir s0 = Inr s1" for s0 s1
    using that by (auto simp: WithAdminUI_def Let_def split: if_splits option.splits sum.splits)
  show ?thesis
    using assms by (auto simp: Server_New_def WithAdminPassword_def WithScannerHealth_def Let_def
        split: if_splits sum.splits dest!: ui)
qed

lemma worker_built:
  assumes "Worker_New net (Some st) [Some (WithBatchSize n), Some (WithMaxAttempts m)] = Inr ob"
  shows "wk_st ob = st \<and> wk_batchSize ob = n \<and> wk_maxAttempts ob = m"
  using assms by (auto simp: Worker_New_def WithBatchSize_def WithMaxAttempts_def split: if_splits sum.splits)

lemma ingestor_built:
  assumes "Ingestor_New (Some st) (Some c) d = Inr ing" "0 < d"
  shows "in_st ing = st \<and> in_pollInterval ing = d"
  using assms by (auto simp: Ingestor_New_def split: if_splits)

lemma main_program_ok:
  assumes "main_program pf e password st = Inr pg" shows "program_ok st password pg"
proof -
  obtain sc s ing ob where parts: "Server_New (Some st) (Some (pf_deriver pf))
        (Some (junocashdTip (Some (pg_junocashd pg)))) (Some (net_Now (pf_net pf))) (Some (NewInvoiceToken (pf_net pf)))
        [Some (WithAdminPassword password),
         Some (WithAdminUI (pf_embedded pf) (pf_stat pf) (pf_ui pf) (defaultAdminUIDir e)),
         Some (WithScannerHealth (Healthy (Some sc)))] = Inr s"
      "Ingestor_New (Some st) (Some sc) (parsePollInterval (getenv e ''JUNO_PAY_SCAN_POLL_MS'' ''1000'')) = Inr ing"
      "Worker_New (pf_net pf) (Some st)
        [Some (WithBatchSize (parseIntClamp (getenv e ''JUNO_PAY_OUTBOX_BATCH_SIZE'' ''100'') 1 1000)),
         Some (WithMaxAttempts (wrap32 (parseIntClamp (getenv e ''JUNO_PAY_OUTBOX_MAX_ATTEMPTS'' ''25'') 1 1000)))] = Inr ob"
      "pg_server pg = s" "pg_store pg = st" "pg_ingestor pg = ing" "pg_worker pg = ob"
      "pg_pollInterval pg = parsePollInterval (getenv e ''JUNO_PAY_SCAN_POLL_MS'' ''1000'')"
      "pg_outboxPoll pg = parsePollInterval (getenv e ''JUNO_PAY_OUTBOX_POLL_MS'' ''500'')"
    using assms unfolding main_program_def Let_def
    by (simp split: sum.splits if_splits) force
  show ?thesis
    using server_built [OF parts(1)] ingestor_built [OF parts(2) poll_range(3)] worker_built [OF parts(3)]
    by (simp add: program_ok_def parts(4-) clamp_wrap clamp_range poll_range)
qed

lemma main_start_core:
  assumes "main_start pf e w = (Inr pg, w')"
  shows "\<exists>d key prefix st. pf_open pf d key prefix w = (Inr st, w') \<and> length key = 32 \<and>
    program_ok st (getenv e ''JUNO_PAY_ADMIN_PASSWORD'' []) pg"
  using assms main_program_ok [of pf e "getenv e ''JUNO_PAY_ADMIN_PASSWORD'' []" _ pg]
  by (fastforce simp: main_start_def token_key_def Let_def split: if_splits sum.splits option.splits prod.splits)

text \<open>A successful start: a store was opened with a 32-byte token key, the server, the ingestor and the
  outbox worker work on that one store, the admin's password is not blank, and the poll intervals, the batch size and the
  number of attempts are in their bounds.\<close>

theorem main_start_sound:
  assumes "main_start pf e w = (Inr pg, w')"
  shows "\<exists>d key prefix st. pf_open pf d key prefix w = (Inr st, w') \<and> length key = 32 \<and>
    program_ok st (getenv e ''JUNO_PAY_ADMIN_PASSWORD'' []) pg"
  by (rule main_start_core [OF assms])

text \<open>The environment of an example, with the in-memory store for the driver's.\<close>

definition demo_env :: env where
  "demo_env k = map_of [(''JUNO_PAY_ADMIN_PASSWORD'', ''pw''), (''JUNO_PAY_TOKEN_KEY_HEX'', replicate 64 (CHR ''a'')),
     (''JUNO_SCAN_URL'', ''http://scan''), (''JUNO_PAY_OUTBOX_BATCH_SIZE'', ''5000'')] k"

definition demo_platform :: "(MemStore, unit) platform" where
  "demo_platform = \<lparr>pf_net = demo_net, pf_dataDir = ''d'', pf_open = \<lambda>_ _ _ w. (Inr mem_Store, w),
     pf_junocashd = \<lambda>_ _ _. \<lparr>jc_GetBlockCount = \<lambda>w. (Inr 22, w), jc_GetBlockHash = \<lambda>_ w. (Inr ''h'', w),
       jc_Uptime = \<lambda>w. (Inr 5, w)\<rparr>,
     pf_deriver = \<lambda>_ _ n. Inr (''j1'' @ FormatInt (uint n)), pf_embedded = None, pf_stat = \<lambda>_. Inr False,
     pf_ui = \<lambda>_ _ w. (not_found, w)\<rparr>"

lemma demo_env_simps:
  "getenv demo_env ''JUNO_PAY_ADMIN_PASSWORD'' [] = ''pw''" "getenv demo_env ''JUNO_SCAN_URL'' [] = ''http://scan''"
  "token_key demo_env = Inr (replicate 32 (CHR 0xAA))" "defaultAdminUIDir demo_env = []"
  "store_driver demo_env x = Inr (SQLiteAt x)"
proof -
  show "getenv demo_env ''JUNO_PAY_ADMIN_PASSWORD'' [] = ''pw''" "getenv demo_env ''JUNO_SCAN_URL'' [] = ''http://scan''"
    "token_key demo_env = Inr (replicate 32 (CHR 0xAA))" "defaultAdminUIDir demo_env = []"
    by code_simp+
  have "getenv demo_env ''JUNO_PAY_STORE_DRIVER'' ''sqlite'' = ''sqlite''" "ToLower (TrimSpace ''sqlite'') = ''sqlite''"
    by code_simp+
  then show "store_driver demo_env x = Inr (SQLiteAt x)" by (simp add: store_driver_def)
qed

lemma demo_started: "\<exists>pg. main_start demo_platform demo_env () = (Inr pg, ())"
proof -
  have "\<not> isl (ScanClient_New demo_net ''http://scan'')" by code_simp
  then obtain sc where sc: "ScanClient_New demo_net ''http://scan'' = Inr sc" by (metis isl_def sum.exhaust)
  have pw: "TrimSpace ''pw'' = ''pw''" by code_simp
  have opts: "\<not> parseIntClamp v 1 1000 \<le> 0" "\<not> 1000 < parseIntClamp v 1 1000" for v
    using clamp_range [of v] by linarith+
  have "\<exists>pg. main_program demo_platform demo_env ''pw'' mem_Store = Inr pg"
    by (simp add: main_program_def demo_env_simps sc pw Server_New_def WithAdminPassword_def WithAdminUI_def
        WithScannerHealth_def Ingestor_New_def Worker_New_def WithBatchSize_def WithMaxAttempts_def clamp_wrap opts
        demo_platform_def Let_def)
  then show ?thesis by (simp add: main_start_def demo_env_simps demo_platform_def)
qed

theorem main_start_sound_witness: "\<exists>pg. program_ok mem_Store ''pw'' (pg :: (MemStore, unit) Program)"
proof -
  obtain pg where "main_start demo_platform demo_env () = (Inr pg, ())" using demo_started by blast
  from main_start_sound [OF this] show ?thesis by (auto simp: demo_platform_def demo_env_def getenv_def)
qed

section \<open>The running server\<close>

lemma program_ok_R:
  assumes "program_ok mem_Store password pg" "server_step net pg y y'"
  shows "keeps (sy_st y) (sy_st y')"
  using mem_server.R_server_step [OF assms(2)] assms(1) by (simp add: program_ok_def)

lemma mem_reach_steps: "mem_reach clock prio s \<Longrightarrow> mem_step\<^sup>*\<^sup>* s t \<Longrightarrow> mem_reach clock prio t"
  by (rotate_tac, induction rule: rtranclp_induct) (auto intro: mem_next)


definition demo_login_request :: HttpRequest where
  "demo_login_request = \<lparr>hr_Method = ''POST'', hr_Path = ''/admin/login'', hr_RawQuery = [], hr_Authorization = [],
     hr_Cookies = [], hr_Body = RawJson (JObj [(''password'', JStr ''pw'')]), hr_Flusher = False, hr_Ticks = 0\<rparr>"


lemma confirmed_view_cases: "confirmed_view s best d = d \<or> d_Status (confirmed_view s best d) = DepositConfirmed"
  by (simp add: confirmed_view_def split: option.split)


text \<open>A round at the state with a detected deposit, while the scanner is down.\<close>

lemma sync_down:
  assumes "in_st i = mem_Store" "cl_http (in_scan i) = (\<lambda>_ w. (Inl err, w))"
  shows "\<exists>e t. Ingestor_Sync i s w = Some (e, t, w)"
proof -
  have up: "\<exists>e. UpsertWallet (in_scan i) a b w = (Some e, w)" for a b
    by (auto simp: UpsertWallet_def http_Do_def assms(2) Let_def)
  have "\<exists>e t. sync_wallets i mws u w = Some (e, t, w)" for mws u
  proof (cases mws)
    case (Cons mw mws')
    with up [of "mw_WalletID mw" "mw_UFVK mw"] show ?thesis by auto
  qed simp
  then show ?thesis using assms(1) by (simp add: Ingestor_Sync_def mem_Store_def ListMerchantWallets_def)
qed


end
