(* ===== verification/ApiProps.thy ===== *)
theory ApiProps
  imports ServerProps
begin

text \<open>
  The HTTP interface: who gets in - the admin's session, the token of an invoice - and what the handlers a
  merchant and a customer use answer, on the in-memory store.
\<close>

section \<open>The admin's gate\<close>

definition admin_session :: "('st, 'w) Server \<Rightarrow> HttpRequest \<Rightarrow> 'w \<Rightarrow> bool" where
  "admin_session sv r w \<longleftrightarrow> sv_adminEnabled sv \<and> fst (isAdminAuthenticated sv r w)"

lemma requireAdmin_refuses:
  assumes "\<not> admin_session sv r (sy_w y)" "requireAdmin sv r y = (a, y')"
  shows "a = Some (unauthorized ''unauthorized'') \<and> sy_st y' = sy_st y \<and> sy_rs y' = sy_rs y"
  using assms by (auto simp: requireAdmin_def admin_session_def on_world_def split: if_splits prod.splits bool.splits)

lemma admin_only_refuses:
  assumes "\<not> admin_session sv r (sy_w y)"
  shows "\<exists>y'. admin_only sv h r y = (unauthorized ''unauthorized'', y') \<and> sy_st y' = sy_st y \<and> sy_rs y' = sy_rs y"
proof -
  obtain a y' where q: "requireAdmin sv r y = (a, y')" by fastforce
  from requireAdmin_refuses [OF assms q] q show ?thesis by (auto simp: admin_only_def)
qed

definition refused :: "('st, 'w) System \<Rightarrow> Reply \<times> ('st, 'w) System \<Rightarrow> bool" where
  "refused y p \<longleftrightarrow> sy_st (snd p) = sy_st y \<and> sy_rs (snd p) = sy_rs y \<and>
     fst p \<in> {unauthorized ''unauthorized'', method_not_allowed, not_found}"

lemma refused_admin: "\<not> admin_session sv r (sy_w y) \<Longrightarrow> refused y (admin_only sv h r y)"
  using admin_only_refuses [of sv r y h] by (auto simp: refused_def)

lemma refused_get: "\<not> admin_session sv r (sy_w y) \<Longrightarrow> refused y (get_only (admin_only sv h) r y)"
  using refused_admin [of sv r y h] by (simp add: get_only_def refused_def)

lemmas admin_handlers = handleAdminStatus_def handleAdminMerchants_def handleAdminMerchantSubroutes_def
  handleAdminAPIKeys_def handleAdminEventSinks_def handleAdminEventSinkSubroutes_def handleAdminEvents_def
  handleAdminEventDeliveries_def handleAdminReviewCases_def handleAdminReviewCaseSubroutes_def
  handleAdminInvoices_def handleAdminInvoiceSubroutes_def handleAdminDeposits_def handleAdminRefunds_def


text \<open>An example server on the in-memory store, and a request.\<close>

definition demo_now :: time where
  "demo_now = 63000000000 * Second"

definition demo_server_at :: "string \<Rightarrow> bool \<Rightarrow> (MemStore, unit) Server" where
  "demo_server_at pass ok = \<lparr>sv_st = mem_Store, sv_deriver = \<lambda>_ _ n. Inr (''j1'' @ FormatInt (uint n)),
     sv_tip = \<lparr>tip_BestTip = \<lambda>w. (Inr (20, ''h''), w), tip_UptimeSeconds = \<lambda>w. (Inr 5, w)\<rparr>,
     sv_clock = \<lambda>w. (demo_now, w), sv_tokenGen = \<lambda>w. (if ok then Inr ''tok1'' else Inl ''rand'', w), sv_scanHealth = None,
     sv_adminUI = None, sv_adminEnabled = True, sv_adminPassHash = pass, sv_adminSessionKey = replicate 32 (CHR ''k''),
     sv_adminSessionTTL = 12 * Hour\<rparr>"

definition demo_server :: "(MemStore, unit) Server" where
  "demo_server = demo_server_at (sha256 ''pw'') True"

definition demo_request :: "string \<Rightarrow> string \<Rightarrow> raw_message \<Rightarrow> HttpRequest" where
  "demo_request method path body = \<lparr>hr_Method = method, hr_Path = path, hr_RawQuery = [], hr_Authorization = [],
     hr_Cookies = [], hr_Body = body, hr_Flusher = False, hr_Ticks = 0\<rparr>"

definition demo_system :: "MemStore \<Rightarrow> (MemStore, unit) System" where
  "demo_system s = \<lparr>sy_st = s, sy_rs = no_restarts, sy_w = ()\<rparr>"

definition demo_anon :: HttpRequest where
  "demo_anon = demo_request ''POST'' ''/v1/admin/merchants'' (RawJson (JObj [(''name'', JStr ''Evil'')]))"


section \<open>The admin's session\<close>

lemma session_parts:
  "Split (CHR ''.'') (session_value sv exp nonce) =
     [''v1'', FormatInt exp, hex_encode nonce,
      hex_encode (adminSign sv (Join [''v1'', FormatInt exp, hex_encode nonce] ''.''))]"
proof -
  have hex: "CHR ''.'' \<notin> set (hex_encode x)" for x using set_hex_encode is_digit_neq(4) by blast
  have "\<not> is_digit 10 (CHR ''.'')" using is_digit_mono [of 10 "CHR ''.''" 16] is_digit_neq(4) [of "CHR ''.''"] by auto
  then have "CHR ''.'' \<notin> set (FormatInt n)" for n
    by (auto simp: FormatInt_def dest!: set_fmt_uint [of 10, simplified] split: if_splits)
  then show ?thesis
    using Split_append_sep [of "CHR ''.''" "''v1''"] Split_append_sep [of "CHR ''.''" "FormatInt exp"]
      Split_append_sep [of "CHR ''.''" "hex_encode nonce"] hex
    by (simp add: session_value_def Let_def Split_no_sep)
qed

lemma session_value_accepted:
  assumes "map_of (hr_Cookies r) ''juno_admin_session'' = Some (session_value sv exp nonce)" "0 < exp" "in_int64 exp"
  shows "fst (isAdminAuthenticated sv r w) \<longleftrightarrow> Unix (fst (sv_clock sv w)) \<le> exp"
  using assms
  by (auto simp: isAdminAuthenticated_def session_parts ParseInt_FormatInt adminSign_def Let_def split: prod.split)

text \<open>C27: Logging in: the right password, and only it, is answered with a session cookie, and that cookie is
  accepted with every later request up to its time of expiry and with none after it.\<close>

theorem login_session:
  assumes "sv_adminEnabled sv" "hr_Method r = ''POST''" "decode_body login_fields [] (hr_Body r) = Some password"
    "sv_adminPassHash sv = sha256 secret" "TrimSpace password \<noteq> []"
    "sv_clock sv (sy_w y) = (now, w1)" "net_Rand net 32 w1 = (Some nonce, w2)" "0 < sv_adminSessionTTL sv"
    "0 < Unix (now + sv_adminSessionTTL sv)" "in_int64 (Unix (now + sv_adminSessionTTL sv))"
  shows "if sha256 (TrimSpace password) = sha256 secret
    then \<exists>v. handleAdminLogin net sv r y = (\<lparr>rp_Status = 204, rp_Header = [cookie_header v], rp_Body = NoBody\<rparr>, y\<lparr>sy_w := w2\<rparr>) \<and>
      (\<forall>r' w'. map_of (hr_Cookies r') ''juno_admin_session'' = Some v \<longrightarrow>
        (admin_session sv r' w' \<longleftrightarrow> Unix (fst (sv_clock sv w')) \<le> Unix (now + sv_adminSessionTTL sv)))
    else handleAdminLogin net sv r y = (unauthorized ''unauthorized'', y)"
proof (cases "sha256 (TrimSpace password) = sha256 secret")
  case True
  let ?v = "session_value sv (Unix (now + sv_adminSessionTTL sv)) nonce"
  have "handleAdminLogin net sv r y = (\<lparr>rp_Status = 204, rp_Header = [cookie_header ?v], rp_Body = NoBody\<rparr>, y\<lparr>sy_w := w2\<rparr>)"
    using assms True by (simp add: handleAdminLogin_def checkAdminPassword_def setAdminSessionCookie_def on_world_def)
  moreover have "admin_session sv r' w' \<longleftrightarrow> Unix (fst (sv_clock sv w')) \<le> Unix (now + sv_adminSessionTTL sv)"
    if "map_of (hr_Cookies r') ''juno_admin_session'' = Some ?v" for r' w'
    using session_value_accepted [OF that assms(9,10)] assms(1) by (simp add: admin_session_def)
  ultimately show ?thesis using True by auto
next
  case False
  then show ?thesis using assms by (simp add: handleAdminLogin_def checkAdminPassword_def)
qed

definition demo_exp :: int where
  "demo_exp = Unix (demo_now + 12 * Hour)"

lemma demo_exp_range: "0 < demo_exp" "in_int64 demo_exp" "Unix demo_now \<le> demo_exp"
  by code_simp+

lemma demo_server_simps:
  "sv_adminEnabled demo_server" "sv_adminPassHash demo_server = sha256 ''pw''" "sv_clock demo_server w = (demo_now, w)"
  "sv_adminSessionTTL demo_server = 12 * Hour" "sv_st demo_server = mem_Store"
  by (simp_all add: demo_server_def demo_server_at_def)

definition demo_login :: HttpRequest where
  "demo_login = demo_request ''POST'' ''/admin/login'' (RawJson (JObj [(''password'', JStr ''pw'')]))"

theorem login_session_witness:
  "\<exists>v y'. handleAdminLogin demo_net demo_server demo_login (demo_system demo_new) =
      (\<lparr>rp_Status = 204, rp_Header = [cookie_header v], rp_Body = NoBody\<rparr>, y') \<and>
    admin_session demo_server (demo_anon\<lparr>hr_Cookies := [(''juno_admin_session'', v)]\<rparr>) ()"
proof -
  have "decode_body login_fields [] (hr_Body demo_login) = Some ''pw''" "TrimSpace ''pw'' = ''pw''" by code_simp+
  moreover have "net_Rand demo_net 32 () = (Some (replicate 32 (CHR ''r'')), ())" by (simp add: demo_net_def)
  moreover have "0 < sv_adminSessionTTL demo_server" by (simp add: demo_server_simps Hour_def Minute_def Second_def)
  moreover have "hr_Method demo_login = ''POST''" by (simp add: demo_login_def demo_request_def)
  ultimately show ?thesis
    using login_session [OF demo_server_simps(1) _ _ demo_server_simps(2), of demo_login "''pw''" "demo_system demo_new"
        demo_now "()" demo_net "replicate 32 (CHR ''r'')" "()"] demo_exp_range
    by (auto simp: demo_server_simps demo_system_def demo_exp_def)
qed

text \<open>No session without a signature: a request that passes for the admin's carries a cookie of four parts, its
  last the HMAC under the server's session key of the three before it, and its time of expiry has not passed.\<close>

theorem session_sound:
  assumes "admin_session sv r w"
  shows "\<exists>exp_text nonce sig_text exp. map_of (hr_Cookies r) ''juno_admin_session'' =
      Some (''v1.'' @ exp_text @ ''.'' @ nonce @ ''.'' @ sig_text) \<and>
    ParseInt 10 exp_text = Some exp \<and> Unix (fst (sv_clock sv w)) \<le> exp \<and>
    hex_decode sig_text = Some (hmac_sha256 (sv_adminSessionKey sv) (''v1.'' @ exp_text @ ''.'' @ nonce))"
proof -
  from assms obtain v where v: "map_of (hr_Cookies r) ''juno_admin_session'' = Some v"
    by (auto simp: admin_session_def isAdminAuthenticated_def split: option.splits)
  with assms obtain p0 p1 p2 p3 where sp: "Split (CHR ''.'') v = [p0, p1, p2, p3]"
    by (auto simp: admin_session_def isAdminAuthenticated_def split: list.splits)
  have v4: "v = p0 @ ''.'' @ p1 @ ''.'' @ p2 @ ''.'' @ p3" using Join_Split [of "CHR ''.''" v] by (simp add: sp)
  show ?thesis
    by (intro exI [of _ p1] exI [of _ p2] exI [of _ p3])
      (use assms v sp v4 in \<open>auto simp: admin_session_def isAdminAuthenticated_def adminSign_def Let_def
        split: if_splits option.splits prod.splits\<close>)
qed

theorem session_sound_witness:
  "\<exists>v exp_text nonce sig_text. v = session_value demo_server demo_exp ''n'' \<and>
    v = ''v1.'' @ exp_text @ ''.'' @ nonce @ ''.'' @ sig_text \<and>
    hex_decode sig_text = Some (hmac_sha256 (sv_adminSessionKey demo_server) (''v1.'' @ exp_text @ ''.'' @ nonce))"
proof -
  let ?v = "session_value demo_server demo_exp ''n''"
  let ?r = "demo_anon\<lparr>hr_Cookies := [(''juno_admin_session'', ?v)]\<rparr>"
  have "admin_session demo_server ?r ()"
    using session_value_accepted [of ?r demo_server demo_exp "''n''" "()"] demo_exp_range
    by (simp add: admin_session_def demo_server_simps)
  from session_sound [OF this] show ?thesis by auto
qed

section \<open>Creating an invoice\<close>

lemma jmap_pair: "k \<noteq> l \<Longrightarrow> jmap [(k, a), (l, b)] = jmap [(k, a'), (l, b')] \<longleftrightarrow> a = a' \<and> b = b'"
  by (auto simp: jmap_def)

lemma writeError_inj [simp]: "writeError n c m = writeError n' c' m' \<longleftrightarrow> n = n' \<and> c = c' \<and> m = m'"
  by (auto simp: writeError_def writeJSON_def jmap_pair)

lemma reply_status [simp]: "rp_Status (writeError n c m) = n" "rp_Status (ok_reply n d) = n" "rp_Status (writeJSON n d) = n"
  "rp_Status (http_Error n msg) = n"
  by (simp_all add: writeError_def ok_reply_def writeJSON_def http_Error_def)

lemma store_reply_status: "rp_Status (store_reply e) \<ge> 400" "rp_Status (create_error e) \<ge> 400"
  by (auto simp: store_reply_def create_error_def split: option.split)

lemma store_reply_not: "store_reply e \<noteq> internal ''token generation failed''" "create_error e \<noteq> internal ''token generation failed''"
  by (auto simp: store_reply_def create_error_def split: option.split)

lemma ok_not_error [simp]: "ok_reply n d \<noteq> writeError n' c m" "writeError n' c m \<noteq> ok_reply n d"
  by (auto simp: ok_reply_def writeError_def writeJSON_def jmap_def)


text \<open>How a creation that is not refused goes: the invoice, then its token.\<close>

definition created_from :: "string \<Rightarrow> invoiceCreateRequest \<Rightarrow> MemStore \<Rightarrow> InvoiceCreate \<Rightarrow> Invoice \<Rightarrow> bool \<Rightarrow> MemStore \<Rightarrow> bool" where
  "created_from mid req s ic iv created t \<longleftrightarrow> ic_MerchantID ic = mid \<and> ic_ExternalOrderID ic = icr_ExternalOrderID req \<and>
     ic_AmountZat ic = icr_AmountZat req \<and>
     (\<exists>u. mem_step\<^sup>*\<^sup>* s u \<and> invoiceToken u = invoiceToken s \<and> CreateInvoice ic u = (Inr (iv, created), t))"

definition token_reply :: "('st, 'w) Server \<Rightarrow> Invoice \<Rightarrow> bool \<Rightarrow> Reply + string \<Rightarrow> Reply \<Rightarrow> bool" where
  "token_reply sv iv created q rep \<longleftrightarrow> (case q of Inl r \<Rightarrow> rep = r
     | Inr token \<Rightarrow> \<exists>now. rep = ok_reply (if created then 201 else 200)
         (jmap [(''invoice'', toInvoiceJSON iv now), (''invoice_token'', JStr token)]))"

definition token_failed :: Reply where
  "token_failed = internal ''token generation failed''"

lemma refusals [simp]:
  "writeError n c m = token_failed \<longleftrightarrow> n = 500 \<and> c = ''internal'' \<and> m = ''token generation failed''"
  "store_reply e \<noteq> token_failed" "create_error e \<noteq> token_failed" "\<not> rp_Status (store_reply e) < 300" "\<not> rp_Status (create_error e) < 300"
  using store_reply_not store_reply_status [of e] by (simp_all add: token_failed_def)


lemma mem_Store_ops:
  "st_NextAddressIndex mem_Store = NextAddressIndex" "st_CreateInvoice mem_Store = CreateInvoice"
  "st_GetMerchant mem_Store = GetMerchant" "st_GetMerchantWallet mem_Store = GetMerchantWallet"
  "st_PutInvoiceToken mem_Store = PutInvoiceToken" "st_GetInvoiceToken mem_Store = GetInvoiceToken"
  "st_GetInvoice mem_Store = GetInvoice" "st_LookupMerchantIDByAPIKey mem_Store = LookupMerchantIDByAPIKey"
  "st_ListInvoiceEvents mem_Store = ListInvoiceEvents"
  by (simp_all add: mem_Store_def)

lemma NextAddressIndex_token: "invoiceToken (snd (NextAddressIndex mid s)) = invoiceToken s"
  by (simp add: NextAddressIndex_def Let_def)

lemma on_store_eq: "on_store f y = (fst (f (sy_st y)), y\<lparr>sy_st := snd (f (sy_st y))\<rparr>)"
  by (simp add: on_store_def split_def Let_def)

lemma on_world_eq: "on_world f y = (fst (f (sy_w y)), y\<lparr>sy_w := snd (f (sy_w y))\<rparr>)"
  by (simp add: on_world_def split_def Let_def)

lemma create_for_wallet_done:
  assumes c: "create_for_wallet sv m mid req wl y = (rep, y1)" and st: "sv_st sv = mem_Store"
    and ok: "rp_Status rep < 300 \<or> rep = token_failed"
  shows "\<exists>ic iv created y3 q y4. created_from mid req (sy_st y) ic iv created (sy_st y3) \<and>
    invoice_token sv iv created y3 = (q, y4) \<and> token_reply sv iv created q rep \<and> sy_st y1 = sy_st y4"
proof -
  note d = create_for_wallet_def st mem_Store_ops on_store_eq on_world_eq invoice_expiry_def Let_def
  let ?n = "NextAddressIndex mid (sy_st y)"
  obtain idx where idx: "fst ?n = Inr idx"
    using c ok by (cases "fst ?n") (auto simp: d split: if_splits)
  obtain addr where addr: "sv_deriver sv (mw_UFVK wl) (mw_UAHRP wl) idx = Inr addr"
    using c ok idx by (cases "sv_deriver sv (mw_UFVK wl) (mw_UAHRP wl) idx") (auto simp: d)
  let ?t = "tip_BestTip (sv_tip sv) (sy_w y)"
  obtain h hash where tip: "fst ?t = Inr (h, hash)"
    using c ok idx addr by (cases "fst ?t") (auto simp: d)
  define y2 where "y2 = y\<lparr>sy_st := snd ?n, sy_w := snd ?t\<rparr>"
  obtain exp y2' where exp: "invoice_expiry sv (m_Settings m) y2 = (exp, y2')" by fastforce
  then have s2: "sy_st y2' = snd ?n" by (auto simp: invoice_expiry_def Let_def on_world_eq y2_def split: if_splits)
  define ic where "ic = \<lparr>ic_MerchantID = mid, ic_ExternalOrderID = icr_ExternalOrderID req,
     ic_WalletID = mw_WalletID wl, ic_AddressIndex = idx, ic_Address = addr,
     ic_CreatedAfterHeight = h, ic_CreatedAfterHash = hash, ic_AmountZat = icr_AmountZat req,
     ic_RequiredConfirmations = set_RequiredConfirmations (m_Settings m),
     ic_Policies = set_Policies (m_Settings m), ic_ExpiresAt = exp\<rparr>"
  have eq: "create_for_wallet sv m mid req wl y =
     (case on_store (CreateInvoice ic) y2' of
       (Inl e, y) \<Rightarrow> (create_error e, y)
     | (Inr (iv, created), y) \<Rightarrow>
         (case invoice_token sv iv created y of
            (Inl rep, y) \<Rightarrow> (rep, y)
          | (Inr token, y) \<Rightarrow>
              (let (now, y) = on_world (sv_clock sv) y in
               (ok_reply (if created then 201 else 200)
                 (jmap [(''invoice'', toInvoiceJSON iv now), (''invoice_token'', JStr token)]), y))))"
    unfolding ic_def
    by (simp add: create_for_wallet_def st mem_Store_ops on_store_eq on_world_eq idx addr tip exp [unfolded y2_def] Let_def)
  show ?thesis
  proof (cases "fst (CreateInvoice ic (sy_st y2'))")
    case (Inl e)
    then have "rep = create_error e" using c by (simp add: eq on_store_eq)
    with ok show ?thesis by simp
  next
    case (Inr p)
    obtain iv created where p: "p = (iv, created)" by fastforce
    define y3 where "y3 = y2'\<lparr>sy_st := snd (CreateInvoice ic (sy_st y2'))\<rparr>"
    obtain q y4 where q: "invoice_token sv iv created y3 = (q, y4)" by fastforce
    have "mem_step\<^sup>*\<^sup>* (sy_st y) (snd ?n)" by (intro r_into_rtranclp mem_step.intros)
    then have "created_from mid req (sy_st y) ic iv created (sy_st y3)"
      using Inr p s2 NextAddressIndex_token [of mid "sy_st y"]
      by (auto simp: created_from_def ic_def y3_def prod_eq_iff intro!: exI [of _ "snd ?n"])
    moreover have "token_reply sv iv created q rep \<and> sy_st y1 = sy_st y4"
      using c Inr p q
      by (auto simp: eq on_store_eq y3_def [symmetric] token_reply_def on_world_eq Let_def split: sum.splits)
    ultimately show ?thesis using q by blast
  qed
qed

definition invoice_order :: "HttpRequest \<Rightarrow> invoiceCreateRequest option" where
  "invoice_order r = map_option (\<lambda>req. req\<lparr>icr_ExternalOrderID := TrimSpace (icr_ExternalOrderID req)\<rparr>)
     (decode_body invoiceCreateRequest_fields \<lparr>icr_ExternalOrderID = [], icr_AmountZat = 0, icr_Metadata = None\<rparr> (hr_Body r))"

definition bearer :: "HttpRequest \<Rightarrow> string option" where
  "bearer r = (case SplitN2 (CHR '' '') (TrimSpace (hr_Authorization r)) of
       [scheme, key] \<Rightarrow> if EqualFold scheme ''bearer'' \<and> TrimSpace key \<noteq> [] then Some (TrimSpace key) else None
     | _ \<Rightarrow> None)"

lemma authMerchant_mem:
  assumes "sv_st sv = mem_Store"
  shows "authMerchant sv r y = ((case bearer r of None \<Rightarrow> Inr None
    | Some key \<Rightarrow> fst (LookupMerchantIDByAPIKey key (sy_st y))), y)"
  by (auto simp: authMerchant_def bearer_def assms mem_Store_ops on_store_eq Let_def split: list.split)

lemma handleCreateInvoice_done:
  assumes c: "handleCreateInvoice sv r y = (rep, y1)" and st: "sv_st sv = mem_Store"
    and ok: "rp_Status rep < 300 \<or> rep = token_failed"
  shows "\<exists>key mid req ic iv created y3 q y4. bearer r = Some key \<and>
    fst (LookupMerchantIDByAPIKey key (sy_st y)) = Inr (Some mid) \<and> invoice_order r = Some req \<and>
    created_from mid req (sy_st y) ic iv created (sy_st y3) \<and>
    invoice_token sv iv created y3 = (q, y4) \<and> token_reply sv iv created q rep \<and> sy_st y1 = sy_st y4"
proof -
  note d = handleCreateInvoice_def authMerchant_mem [OF st] st mem_Store_ops on_store_eq Let_def
  obtain key where key: "bearer r = Some key" using c ok by (cases "bearer r") (auto simp: d)
  let ?l = "fst (LookupMerchantIDByAPIKey key (sy_st y))"
  obtain mid where mid: "?l = Inr (Some mid)"
    using c ok key by (cases ?l) (auto simp: d split: option.splits)
  obtain req where req: "invoice_order r = Some req"
    using c ok key mid by (cases "invoice_order r") (auto simp: d invoice_order_def)
  from req obtain req0 where req0: "decode_body invoiceCreateRequest_fields
      \<lparr>icr_ExternalOrderID = [], icr_AmountZat = 0, icr_Metadata = None\<rparr> (hr_Body r) = Some req0"
    "req = req0\<lparr>icr_ExternalOrderID := TrimSpace (icr_ExternalOrderID req0)\<rparr>" by (auto simp: invoice_order_def)
  let ?m = "fst (GetMerchant mid (sy_st y))" and ?w = "fst (GetMerchantWallet mid (sy_st y))"
  obtain m where m: "?m = Inr (Some m)"
    using c ok key mid req0 by (cases ?m) (auto simp: d split: option.splits if_splits)
  obtain w where w: "?w = Inr (Some w)"
    using c ok key mid req0 m by (cases ?w) (auto simp: d split: option.splits if_splits)
  have "create_for_wallet sv m mid req w y = (rep, y1)"
    using c ok key mid req0 m w by (auto simp: d split: if_splits option.splits)
  from create_for_wallet_done [OF this st ok] key mid req show ?thesis by blast
qed

text \<open>The parts: a new invoice, its token, and what a page request with a token gets.\<close>

lemma created_new:
  assumes "mem_reach clock prio s" "created_from mid req s ic iv True t"
  shows "map_of (invoices t) (inv_InvoiceID iv) = Some iv" "TrimSpace (inv_InvoiceID iv) = inv_InvoiceID iv"
    "inv_InvoiceID iv \<noteq> []" "mem_reach clock prio t" "map_of (invoiceToken t) (inv_InvoiceID iv) = None"
proof -
  obtain u where u: "mem_step\<^sup>*\<^sup>* s u" "CreateInvoice ic u = (Inr (iv, True), t)"
    using assms(2) by (auto simp: created_from_def)
  have ru: "mem_reach clock prio u" by (rule mem_reach_steps [OF assms(1) u(1)])
  have inv: "invoice_inv u" by (rule mem_invD(8) [OF mem_reach_inv [OF ru]])
  show "map_of (invoices t) (inv_InvoiceID iv) = Some iv" "TrimSpace (inv_InvoiceID iv) = inv_InvoiceID iv" "inv_InvoiceID iv \<noteq> []"
    using u(2) by (cases rule: CreateInvoice_cases [of ic u]; auto simp: before_created_def TrimSpace_mk_id plain_char_def)+
  show "mem_reach clock prio t" using mem_next [OF ru mem_step.intros(7) [of u ic]] u(2) by simp
  have "map_of (invoices u) (inv_InvoiceID iv) = None"
    using u(2) invoice_id_fresh [OF inv] by (cases rule: CreateInvoice_cases [of ic u]) auto
  then have "map_of (invoiceToken u) (inv_InvoiceID iv) = None"
    using inv unfolding invoice_inv_def has_key_def by (metis option.exhaust)
  then show "map_of (invoiceToken t) (inv_InvoiceID iv) = None"
    using CreateInvoice_token [of ic u] u(2) by simp
qed

lemma invoice_token_new:
  assumes "invoice_token sv iv True y = (Inr tok, y')" "sv_st sv = mem_Store" "TrimSpace (inv_InvoiceID iv) = inv_InvoiceID iv"
  shows "\<exists>w. sv_tokenGen sv (sy_w y) = (Inr tok, w) \<and> TrimSpace tok \<noteq> [] \<and>
    sy_st y' = snd (PutInvoiceToken (inv_InvoiceID iv) tok (sy_st y)) \<and>
    map_of (invoiceToken (sy_st y')) (inv_InvoiceID iv) = Some (TrimSpace tok) \<and> invoices (sy_st y') = invoices (sy_st y)"
  using assms by (auto simp: invoice_token_def mem_Store_ops on_store_eq on_world_eq PutInvoiceToken_def Let_def prod_eq_iff
      split: sum.splits if_splits)

lemma public_page:
  assumes "sv_st sv = mem_Store" "hr_Method r = ''GET''" "map_of (invoices (sy_st y)) iid = Some iv"
    "map_of (invoiceToken (sy_st y)) (TrimSpace iid) = Some tok" "tok \<noteq> []"
  shows "if query r ''token'' = tok
    then \<exists>now w. handleGetPublicInvoice sv iid r y = (ok_reply 200 (toInvoiceJSON iv now), y\<lparr>sy_w := w\<rparr>)
    else handleGetPublicInvoice sv iid r y = (unauthorized ''invalid token'', y)"
  using assms
  by (auto simp: handleGetPublicInvoice_def authorizeInvoiceToken_def mem_Store_ops on_store_eq on_world_eq GetInvoice_def
      GetInvoiceToken_def Let_def)

text \<open>The generator makes tokens without white space around them, as \<open>NewInvoiceToken\<close> does.\<close>

definition trimmed_tokens :: "('st, 'w) Server \<Rightarrow> bool" where
  "trimmed_tokens sv \<longleftrightarrow> (\<forall>w tok w'. sv_tokenGen sv w = (Inr tok, w') \<longrightarrow> TrimSpace tok = tok)"

lemma trimmed_tokensD: "trimmed_tokens sv \<Longrightarrow> sv_tokenGen sv w = (Inr tok, w') \<Longrightarrow> TrimSpace tok = tok"
  unfolding trimmed_tokens_def by blast

text \<open>C26: From order to page: a creation answered with 201 leaves the invoice it shows in the store with the token it
  tells, and at any later time of the running server the public page of that invoice opens with this token and with no
  other.\<close>

theorem invoice_token_opens:
  assumes "mem_reach clock prio (sy_st y)" "sv_st sv = mem_Store"
    "trimmed_tokens sv"
    "handleCreateInvoice sv r y = (rep, y1)" "rp_Status rep = 201"
  shows "\<exists>iv tok now. rep = ok_reply 201 (jmap [(''invoice'', toInvoiceJSON iv now), (''invoice_token'', JStr tok)]) \<and>
    map_of (invoices (sy_st y1)) (inv_InvoiceID iv) = Some iv \<and>
    (\<forall>r2 y2. hr_Method r2 = ''GET'' \<and> kept (sy_st y1) (sy_st y2) \<longrightarrow>
      (if query r2 ''token'' = tok
       then \<exists>iv2 now2 w2. inv_static iv2 = inv_static iv \<and>
         handleGetPublicInvoice sv (inv_InvoiceID iv) r2 y2 = (ok_reply 200 (toInvoiceJSON iv2 now2), y2\<lparr>sy_w := w2\<rparr>)
       else handleGetPublicInvoice sv (inv_InvoiceID iv) r2 y2 = (unauthorized ''invalid token'', y2)))"
proof -
  have "rp_Status rep < 300 \<or> rep = token_failed" using assms(5) by simp
  from handleCreateInvoice_done [OF assms(4,2) this] obtain mid req ic iv created y3 q y4
    where c: "created_from mid req (sy_st y) ic iv created (sy_st y3)" "invoice_token sv iv created y3 = (q, y4)"
      "token_reply sv iv created q rep" "sy_st y1 = sy_st y4" by blast
  have created: created
    using c(2,3) assms(5) by (cases q) (auto simp: token_reply_def invoice_token_def split: if_splits prod.splits sum.splits option.splits)
  obtain tok where tok: "q = Inr tok"
    using c(2,3) assms(5) created
    by (cases q) (auto simp: token_reply_def invoice_token_def split: prod.splits sum.splits)
  note new = created_new [OF assms(1) c(1) [unfolded created [THEN eqTrueI]]]
  have "invoice_token sv iv True y3 = (Inr tok, y4)" using c(2) created tok by simp
  from invoice_token_new [OF this assms(2) new(2)] assms(3)
  have t: "map_of (invoiceToken (sy_st y4)) (inv_InvoiceID iv) = Some tok" "invoices (sy_st y4) = invoices (sy_st y3)"
    "tok \<noteq> []" "sy_st y4 = snd (PutInvoiceToken (inv_InvoiceID iv) tok (sy_st y3))" by (auto dest: trimmed_tokensD)
  have r1: "mem_reach clock prio (sy_st y1)"
    using mem_next [OF new(4) mem_step.intros(8)] t(4) c(4) by simp
  have iv1: "map_of (invoices (sy_st y1)) (inv_InvoiceID iv) = Some iv" using new(1) t(2) c(4) by simp
  obtain now where rep: "rep = ok_reply 201 (jmap [(''invoice'', toInvoiceJSON iv now), (''invoice_token'', JStr tok)])"
    using c(3) created tok by (auto simp: token_reply_def)
  have "if query r2 ''token'' = tok
      then \<exists>iv2 now2 w2. inv_static iv2 = inv_static iv \<and>
        handleGetPublicInvoice sv (inv_InvoiceID iv) r2 y2 = (ok_reply 200 (toInvoiceJSON iv2 now2), y2\<lparr>sy_w := w2\<rparr>)
      else handleGetPublicInvoice sv (inv_InvoiceID iv) r2 y2 = (unauthorized ''invalid token'', y2)"
    if "hr_Method r2 = ''GET''" "kept (sy_st y1) (sy_st y2)" for r2 y2
  proof -
    have "mem_step\<^sup>*\<^sup>* (sy_st y1) (sy_st y2)" using that(2) by (simp add: kept_def)
    from run_monotone_core [OF mem_reach_inv [OF r1] this iv1] obtain iv2
      where iv2: "map_of (invoices (sy_st y2)) (inv_InvoiceID iv) = Some iv2" "inv_static iv2 = inv_static iv" by blast
    have "has_key (inv_InvoiceID iv) (invoices (sy_st y1))" using iv1 by (simp add: has_key_def)
    then have "map_of (invoiceToken (sy_st y2)) (TrimSpace (inv_InvoiceID iv)) = Some tok"
      using that(2) t(1) c(4) new(2) by (simp add: kept_def)
    from public_page [OF assms(2) that(1) iv2(1) this t(3)] iv2(2) show ?thesis by (auto split: if_splits)
  qed
  with rep iv1 show ?thesis by blast
qed

text \<open>The same order again.\<close>

lemma created_again:
  assumes "mem_reach clock prio s" "created_from mid req s ic iv created t" "mem_step\<^sup>*\<^sup>* t s2"
    "created_from mid req2 s2 ic2 iv2 created2 t2" "icr_ExternalOrderID req2 = icr_ExternalOrderID req"
  shows "\<not> created2 \<and> inv_static iv2 = inv_static iv \<and> icr_AmountZat req2 = icr_AmountZat req \<and> invoiceToken t2 = invoiceToken s2"
proof -
  from assms(2,4) obtain u u2 where u: "mem_step\<^sup>*\<^sup>* s u" "CreateInvoice ic u = (Inr (iv, created), t)"
    and u2: "mem_step\<^sup>*\<^sup>* s2 u2" "invoiceToken u2 = invoiceToken s2" "CreateInvoice ic2 u2 = (Inr (iv2, created2), t2)"
    by (auto simp: created_from_def)
  have fields: "ic_MerchantID ic2 = ic_MerchantID ic" "ic_ExternalOrderID ic2 = ic_ExternalOrderID ic"
    "ic_AmountZat ic2 = icr_AmountZat req2" "ic_AmountZat ic = icr_AmountZat req"
    using assms(2,4,5) by (auto simp: created_from_def)
  have ru: "mem_reach clock prio u" by (rule mem_reach_steps [OF assms(1) u(1)])
  have "mem_step u t" using mem_step.intros(7) [of u ic] u(2) by simp
  then have "mem_step\<^sup>*\<^sup>* u u2" using assms(3) u2(1) by (meson converse_rtranclp_into_rtranclp rtranclp_trans)
  then have "mem_inv {} u2" by (rule mem_steps_inv) (rule mem_reach_inv [OF ru])
  from CreateInvoice_ok [OF this u2(3)]
  have ok: "0 < ic_AmountZat ic2" "TrimSpace (ic_Address ic2) \<noteq> []" "TrimSpace (ic_WalletID ic2) \<noteq> []"
    by (auto simp: ToLower_def)
  have "mem_step\<^sup>*\<^sup>* t u2" using assms(3) u2(1) by (rule rtranclp_trans)
  from create_again_core [OF ru u(2) this _ _ ok(3,2,1)] fields(1,2) u2(3) have
    "\<not> created2 \<and> inv_static iv2 = inv_static iv \<and> ic_AmountZat ic2 = ic_AmountZat ic" by (auto split: if_splits)
  with fields u2 CreateInvoice_token [of ic2 u2] show ?thesis by simp
qed

lemma static_id: "inv_static iv2 = inv_static iv \<Longrightarrow> inv_InvoiceID iv2 = inv_InvoiceID iv"
  by (metis inv_static_simps(1))

text \<open>Two requests for one order: the keys they carry belong to one merchant.\<close>

definition same_order :: "HttpRequest \<Rightarrow> MemStore \<Rightarrow> HttpRequest \<Rightarrow> MemStore \<Rightarrow> bool" where
  "same_order r s r2 s2 \<longleftrightarrow> (\<exists>key key2 req req2. bearer r = Some key \<and> bearer r2 = Some key2 \<and>
     fst (LookupMerchantIDByAPIKey key s) = fst (LookupMerchantIDByAPIKey key2 s2) \<and>
     invoice_order r = Some req \<and> invoice_order r2 = Some req2 \<and> icr_ExternalOrderID req = icr_ExternalOrderID req2)"

text \<open>C20: Retrying a creation: when an order was answered with 201, any later request for the same order of the same
  merchant that is answered with an invoice is answered with 200, that invoice, and the token told the first time.\<close>

theorem retry_same_answer:
  assumes "mem_reach clock prio (sy_st y)" "sv_st sv = mem_Store" "sv_st sv2 = mem_Store"
    "trimmed_tokens sv"
    "handleCreateInvoice sv r y = (rep, y1)" "rp_Status rep = 201" "kept (sy_st y1) (sy_st y2)"
    "handleCreateInvoice sv2 r2 y2 = (rep2, y3)" "rp_Status rep2 < 300" "same_order r (sy_st y) r2 (sy_st y2)"
  shows "\<exists>iv iv2 tok now now2. inv_static iv2 = inv_static iv \<and>
    rep = ok_reply 201 (jmap [(''invoice'', toInvoiceJSON iv now), (''invoice_token'', JStr tok)]) \<and>
    rep2 = ok_reply 200 (jmap [(''invoice'', toInvoiceJSON iv2 now2), (''invoice_token'', JStr tok)])"
proof -
  have "rp_Status rep < 300 \<or> rep = token_failed" using assms(6) by simp
  from handleCreateInvoice_done [OF assms(5,2) this] obtain key mid req ic iv created ya q yb
    where c: "bearer r = Some key" "fst (LookupMerchantIDByAPIKey key (sy_st y)) = Inr (Some mid)" "invoice_order r = Some req"
      "created_from mid req (sy_st y) ic iv created (sy_st ya)" "invoice_token sv iv created ya = (q, yb)"
      "token_reply sv iv created q rep" "sy_st y1 = sy_st yb" by blast
  have "rp_Status rep2 < 300 \<or> rep2 = token_failed" using assms(9) by simp
  from handleCreateInvoice_done [OF assms(8,3) this] obtain key2 mid2 req2 ic2 iv2 created2 yc q2 yd
    where d: "bearer r2 = Some key2" "fst (LookupMerchantIDByAPIKey key2 (sy_st y2)) = Inr (Some mid2)" "invoice_order r2 = Some req2"
      "created_from mid2 req2 (sy_st y2) ic2 iv2 created2 (sy_st yc)" "invoice_token sv2 iv2 created2 yc = (q2, yd)"
      "token_reply sv2 iv2 created2 q2 rep2" by blast
  have created: "created = True"
    using c(5,6) assms(6) by (cases q) (auto simp: token_reply_def invoice_token_def split: if_splits prod.splits sum.splits option.splits)
  obtain tok where tok: "q = Inr tok"
    using c(5,6) assms(6) created by (cases q) (auto simp: token_reply_def invoice_token_def split: prod.splits sum.splits)
  note new = created_new [OF assms(1) c(4) [unfolded created]]
  have "invoice_token sv iv True ya = (Inr tok, yb)" using c(5) created tok by simp
  from invoice_token_new [OF this assms(2) new(2)] assms(4)
  have t: "map_of (invoiceToken (sy_st yb)) (inv_InvoiceID iv) = Some tok" "invoices (sy_st yb) = invoices (sy_st ya)"
    "sy_st yb = snd (PutInvoiceToken (inv_InvoiceID iv) tok (sy_st ya))" by (auto dest: trimmed_tokensD)
  have "mem_step\<^sup>*\<^sup>* (sy_st ya) (sy_st y1)" using t(3) c(7) by (metis mem_step.intros(8) r_into_rtranclp)
  then have "mem_step\<^sup>*\<^sup>* (sy_st ya) (sy_st y2)" using assms(7) by (meson kept_def rtranclp_trans)
  moreover have "mid2 = mid" "icr_ExternalOrderID req2 = icr_ExternalOrderID req"
    using assms(10) c(1-3) d(1-3) by (auto simp: same_order_def)
  ultimately have again: "\<not> created2" "inv_static iv2 = inv_static iv" "invoiceToken (sy_st yc) = invoiceToken (sy_st y2)"
    using created_again [OF assms(1) c(4) _ d(4) [unfolded \<open>mid2 = mid\<close>]] by auto
  have "has_key (inv_InvoiceID iv) (invoices (sy_st y1))" using new(1) t(2) c(7) by (simp add: has_key_def)
  then have "map_of (invoiceToken (sy_st yc)) (inv_InvoiceID iv2) = Some tok"
    using assms(7) t(1) c(7) again(3) static_id [OF again(2)] by (simp add: kept_def)
  then have "q2 = Inr tok"
    using d(5) again(1) static_id [OF again(2)] new(2) by (simp add: invoice_token_def assms(3) mem_Store_ops on_store_eq GetInvoiceToken_def)
  with c(6) d(6) created tok again show ?thesis by (auto simp: token_reply_def)
qed

text \<open>The gap between an invoice and its token: when the token generator fails, the creation is answered with an
  error but the invoice stays, without a token; from then on no request for the order, to any server on the store, is
  ever answered with an invoice.\<close>

theorem token_gap:
  assumes "mem_reach clock prio (sy_st y)" "sv_st sv = mem_Store" "sv_st sv2 = mem_Store"
    "handleCreateInvoice sv r y = (token_failed, y1)" "kept (sy_st y1) (sy_st y2)"
    "handleCreateInvoice sv2 r2 y2 = (rep2, y3)" "same_order r (sy_st y) r2 (sy_st y2)"
  shows "(\<exists>iid. has_key iid (invoices (sy_st y1)) \<and> map_of (invoiceToken (sy_st y2)) iid = None) \<and> \<not> rp_Status rep2 < 300"
proof -
  from handleCreateInvoice_done [OF assms(4,2)] obtain key mid req ic iv created ya q yb
    where c: "bearer r = Some key" "fst (LookupMerchantIDByAPIKey key (sy_st y)) = Inr (Some mid)" "invoice_order r = Some req"
      "created_from mid req (sy_st y) ic iv created (sy_st ya)" "invoice_token sv iv created ya = (q, yb)"
      "token_reply sv iv created q token_failed" "sy_st y1 = sy_st yb" by blast
  have created: "created = True"
    using c(5,6)
    by (cases q) (auto simp: token_reply_def token_failed_def invoice_token_def split: if_splits prod.splits sum.splits option.splits)
  have same: "sy_st yb = sy_st ya"
    using c(5,6) created
    by (cases q) (auto simp: token_reply_def token_failed_def invoice_token_def on_world_def split: prod.splits sum.splits)
  note new = created_new [OF assms(1) c(4) [unfolded created]]
  have key: "has_key (inv_InvoiceID iv) (invoices (sy_st y1))" using new(1) c(7) same by (simp add: has_key_def)
  with assms(5) new(5) c(7) same have none: "map_of (invoiceToken (sy_st y2)) (inv_InvoiceID iv) = None"
    by (simp add: kept_def)
  have "\<not> rp_Status rep2 < 300"
  proof
    assume ok: "rp_Status rep2 < 300"
    from handleCreateInvoice_done [OF assms(6,3) disjI1 [OF ok]] obtain key2 mid2 req2 ic2 iv2 created2 yc q2 yd
      where d: "bearer r2 = Some key2" "fst (LookupMerchantIDByAPIKey key2 (sy_st y2)) = Inr (Some mid2)" "invoice_order r2 = Some req2"
        "created_from mid2 req2 (sy_st y2) ic2 iv2 created2 (sy_st yc)" "invoice_token sv2 iv2 created2 yc = (q2, yd)"
        "token_reply sv2 iv2 created2 q2 rep2" by blast
    have "mem_step\<^sup>*\<^sup>* (sy_st ya) (sy_st y2)" using assms(5) c(7) same by (simp add: kept_def)
    moreover have "mid2 = mid" "icr_ExternalOrderID req2 = icr_ExternalOrderID req"
      using assms(7) c(1-3) d(1-3) by (auto simp: same_order_def)
    ultimately have again: "\<not> created2" "inv_static iv2 = inv_static iv" "invoiceToken (sy_st yc) = invoiceToken (sy_st y2)"
      using created_again [OF assms(1) c(4) _ d(4) [unfolded \<open>mid2 = mid\<close>]] by auto
    have "q2 = Inl (internal ''invoice token missing'')"
      using d(5) again(1,3) none static_id [OF again(2)] new(2)
      by (simp add: invoice_token_def assms(3) mem_Store_ops on_store_eq GetInvoiceToken_def)
    with d(6) ok show False by (simp add: token_reply_def)
  qed
  with key none show ?thesis by blast
qed

section \<open>An order of the example merchant\<close>

text \<open>When an order gets as far as the creation.\<close>

definition order_ready :: "HttpRequest \<Rightarrow> MemStore \<Rightarrow> string \<Rightarrow> string \<Rightarrow> Merchant \<Rightarrow> MerchantWallet \<Rightarrow> invoiceCreateRequest \<Rightarrow> bool" where
  "order_ready r s key mid m wl req \<longleftrightarrow> bearer r = Some key \<and> fst (LookupMerchantIDByAPIKey key s) = Inr (Some mid) \<and>
     invoice_order r = Some req \<and> icr_ExternalOrderID req \<noteq> [] \<and> 0 < icr_AmountZat req \<and>
     fst (GetMerchant mid s) = Inr (Some m) \<and> Validate (m_Settings m) = None \<and> fst (GetMerchantWallet mid s) = Inr (Some wl)"

lemma handleCreateInvoice_ready:
  assumes "sv_st sv = mem_Store" "order_ready r (sy_st y) key mid m wl req"
  shows "handleCreateInvoice sv r y = create_for_wallet sv m mid req wl y"
  using assms(2) by (auto simp: handleCreateInvoice_def authMerchant_mem [OF assms(1)] assms(1) mem_Store_ops on_store_eq order_ready_def
      invoice_order_def Let_def)

lemma CreateInvoice_keys:
  "apiKeysByHash (snd (CreateInvoice req s)) = apiKeysByHash s" "apiKeysByID (snd (CreateInvoice req s)) = apiKeysByID s"
  by (simp_all add: CreateInvoice_def Let_def split: option.split)

lemma NextAddressIndex_keys:
  "apiKeysByHash (snd (NextAddressIndex mid s)) = apiKeysByHash s" "apiKeysByID (snd (NextAddressIndex mid s)) = apiKeysByID s"
  by (simp_all add: NextAddressIndex_def Let_def)

lemma PutInvoiceToken_keys:
  "apiKeysByHash (snd (PutInvoiceToken i t s)) = apiKeysByHash s" "apiKeysByID (snd (PutInvoiceToken i t s)) = apiKeysByID s"
  by (simp_all add: PutInvoiceToken_def Let_def)

lemma GetInvoiceToken_same: "snd (GetInvoiceToken i s) = s"
  by (simp add: GetInvoiceToken_def Let_def split: option.split)

lemma create_for_wallet_keys:
  assumes "sv_st sv = mem_Store"
  shows "fst (LookupMerchantIDByAPIKey k (sy_st (snd (create_for_wallet sv m mid req wl y)))) = fst (LookupMerchantIDByAPIKey k (sy_st y))"
proof -
  have "apiKeysByHash (sy_st (snd (invoice_token sv iv c y))) = apiKeysByHash (sy_st y) \<and>
      apiKeysByID (sy_st (snd (invoice_token sv iv c y))) = apiKeysByID (sy_st y)" for iv c y
    by (simp add: invoice_token_def assms mem_Store_ops on_store_eq on_world_eq PutInvoiceToken_keys GetInvoiceToken_same
        split: sum.split option.split)
  then have t: "apiKeysByHash (sy_st y2) = apiKeysByHash (sy_st y) \<and> apiKeysByID (sy_st y2) = apiKeysByID (sy_st y)"
    if "invoice_token sv iv c y = (q, y2)" for iv c y q y2 using that by (metis snd_conv)
  have "apiKeysByHash (sy_st (snd (create_for_wallet sv m mid req wl y))) = apiKeysByHash (sy_st y) \<and>
      apiKeysByID (sy_st (snd (create_for_wallet sv m mid req wl y))) = apiKeysByID (sy_st y)"
    by (auto simp: create_for_wallet_def assms mem_Store_ops on_store_eq on_world_eq CreateInvoice_keys NextAddressIndex_keys
        invoice_expiry_def Let_def split: sum.split prod.split dest!: t)
  then show ?thesis by (simp add: LookupMerchantIDByAPIKey_def Let_def split: option.split)
qed

definition demo_mid :: string where
  "demo_mid = ''m_0000000000000001''"

text \<open>The example merchant with an API key, and an order by it. The digest of the key is a parameter: nothing but the
  look-up depends on it.\<close>

definition with_key :: "string \<Rightarrow> MemStore \<Rightarrow> MemStore" where
  "with_key digest s = s\<lparr>apiKeySeq := Suc 0, apiKeysByHash := [(digest, ''key_0000000000000001'')],
     env_ticks := Suc (env_ticks s), apiKeysByID := [(''key_0000000000000001'',
       \<lparr>ak_KeyID = ''key_0000000000000001'', ak_MerchantID = demo_mid, ak_Label = [], ak_RevokedAt = None,
        ak_CreatedAt = time_Now s\<rparr>)]\<rparr>"

definition demo_keyed :: MemStore where
  "demo_keyed = snd (CreateMerchantAPIKey (Some ''secret'') demo_mid [] demo_sink)"

lemma demo_keyed_eq: "demo_keyed = with_key (sha256_hex ''jps_736563726574'') demo_sink"
proof -
  have "TrimSpace demo_mid = demo_mid \<and> demo_mid \<noteq> [] \<and> apiKeySeq demo_sink = 0 \<and> TrimSpace [] = [] \<and>
    apiKeysByHash demo_sink = [] \<and> apiKeysByID demo_sink = []" by code_simp
  moreover have "has_key demo_mid (merchants demo_sink)" by code_simp
  moreover have "mk_id ''key_'' 1 = ''key_0000000000000001''" by code_simp
  moreover have "''jps_'' @ hex_encode ''secret'' = ''jps_736563726574''" by code_simp
  ultimately have f: "TrimSpace demo_mid = demo_mid" "demo_mid \<noteq> []" "has_key demo_mid (merchants demo_sink)" "apiKeySeq demo_sink = 0"
    "mk_id ''key_'' (Suc 0) = ''key_0000000000000001''" "''jps_'' @ hex_encode ''secret'' = ''jps_736563726574''"
    "apiKeysByHash demo_sink = []" "apiKeysByID demo_sink = []" "TrimSpace [] = []"
    by simp_all
  show ?thesis
    by (simp only: demo_keyed_def CreateMerchantAPIKey_def Let_def f if_False if_True not_True_eq_False not_False_eq_True
        MemStore.simps option.case snd_conv ticked_def with_key_def mput_def update.simps time_Now_def add_0_left One_nat_def)
      (simp add: f(5,7,8))
qed

definition demo_order_request :: HttpRequest where
  "demo_order_request = (demo_request ''POST'' ''/v1/invoices'' (RawJson (JObj [(''external_order_id'', JStr ''o1''),
     (''amount_zat'', JNum ''500'')])))\<lparr>hr_Authorization := ''Bearer jps_736563726574''\<rparr>"

definition demo_order_body :: invoiceCreateRequest where
  "demo_order_body = \<lparr>icr_ExternalOrderID = ''o1'', icr_AmountZat = 500, icr_Metadata = None\<rparr>"

lemma demo_order_parts: "bearer demo_order_request = Some ''jps_736563726574''" "invoice_order demo_order_request = Some demo_order_body"
  by code_simp+

definition demo_M :: Merchant where
  "demo_M = the (map_of (merchants demo_sink) demo_mid)"

definition demo_W :: MerchantWallet where
  "demo_W = the (map_of (merchantWallet demo_sink) demo_mid)"

definition demo_create :: "string \<Rightarrow> bool \<Rightarrow> (MemStore, unit) System \<Rightarrow> Reply \<times> (MemStore, unit) System" where
  "demo_create pass ok y = create_for_wallet (demo_server_at pass ok) demo_M demo_mid demo_order_body demo_W y"

definition demo_asked :: "(MemStore, unit) System" where
  "demo_asked = demo_system demo_keyed"

definition demo_found :: "MemStore \<Rightarrow> bool" where
  "demo_found s \<longleftrightarrow> fst (GetMerchant demo_mid s) = Inr (Some demo_M) \<and> fst (GetMerchantWallet demo_mid s) = Inr (Some demo_W)"

definition told_token :: "Reply \<Rightarrow> string" where
  "told_token rep = (case rp_Body rep of JsonBody (JObj ((_, JObj [_, (_, JStr t)]) # _)) \<Rightarrow> t | _ \<Rightarrow> [])"

lemma demo_order_created: "case demo_create p True (demo_system (with_key d demo_sink)) of (rep, y1) \<Rightarrow>
    rp_Status rep = 201 \<and> told_token rep = ''tok1'' \<and> demo_found (sy_st y1) \<and> rp_Status (fst (demo_create p True y1)) = 200"
  by code_simp

lemma demo_failed: "fst (demo_create p False (demo_system (with_key d demo_sink))) = token_failed \<and>
    demo_found (sy_st (snd (demo_create p False (demo_system (with_key d demo_sink)))))"
  by code_simp

lemma demo_orders: "icr_ExternalOrderID demo_order_body \<noteq> [] \<and> 0 < icr_AmountZat demo_order_body \<and> Validate (m_Settings demo_M) = None"
  by code_simp

lemma demo_keyed_found: "demo_found (with_key d demo_sink)"
  by code_simp

lemma with_key_lookup:
  assumes "sha256_hex key = d" "TrimSpace key = key" "key \<noteq> []"
  shows "fst (LookupMerchantIDByAPIKey key (with_key d s)) = Inr (Some demo_mid)"
  using assms by (simp add: LookupMerchantIDByAPIKey_def with_key_def)

lemma demo_key_plain: "TrimSpace ''jps_736563726574'' = ''jps_736563726574'' \<and> ''jps_736563726574'' \<noteq> []"
  by code_simp

lemmas demo_keyed_lookup = with_key_lookup [OF refl conjunct1 [OF demo_key_plain] conjunct2 [OF demo_key_plain], of demo_sink,
  folded demo_keyed_eq]

lemma demo_keyed_reach: "mem_reach demo_clock demo_order demo_keyed"
  unfolding demo_keyed_def by (rule mem_next [OF demo_reach(2) mem_step.intros(5)])

lemma demo_ready:
  assumes "fst (LookupMerchantIDByAPIKey ''jps_736563726574'' (sy_st y)) = Inr (Some demo_mid)" "demo_found (sy_st y)"
  shows "handleCreateInvoice (demo_server_at p ok) demo_order_request y = demo_create p ok y"
    "same_order demo_order_request demo_keyed demo_order_request (sy_st y)"
proof -
  have "order_ready demo_order_request (sy_st y) ''jps_736563726574'' demo_mid demo_M demo_W demo_order_body"
    using assms demo_order_parts demo_orders unfolding order_ready_def demo_found_def by blast
  then show "handleCreateInvoice (demo_server_at p ok) demo_order_request y = demo_create p ok y"
    unfolding demo_create_def by (intro handleCreateInvoice_ready) (simp add: demo_server_at_def)
  show "same_order demo_order_request demo_keyed demo_order_request (sy_st y)"
    unfolding same_order_def using demo_order_parts demo_keyed_lookup assms(1) by metis
qed

lemma demo_create_keys:
  "fst (LookupMerchantIDByAPIKey k (sy_st (snd (demo_create p ok y)))) = fst (LookupMerchantIDByAPIKey k (sy_st y))"
  unfolding demo_create_def by (rule create_for_wallet_keys) (simp add: demo_server_at_def)

text \<open>The first order, the same order again, and an order whose token cannot be made.\<close>

lemma demo_first:
  "handleCreateInvoice (demo_server_at p ok) demo_order_request demo_asked = demo_create p ok demo_asked"
  "handleCreateInvoice (demo_server_at p ok') demo_order_request (snd (demo_create p ok demo_asked)) =
     demo_create p ok' (snd (demo_create p ok demo_asked))"
  "same_order demo_order_request (sy_st demo_asked) demo_order_request (sy_st (snd (demo_create p ok demo_asked)))"
  "rp_Status (fst (demo_create p True demo_asked)) = 201"
  "rp_Status (fst (demo_create p True (snd (demo_create p True demo_asked)))) = 200"
  "fst (demo_create p False demo_asked) = token_failed" "mem_reach demo_clock demo_order (sy_st demo_asked)"
  "told_token (fst (demo_create p True demo_asked)) = ''tok1''"
proof -
  have s: "sy_st demo_asked = demo_keyed" by (simp add: demo_asked_def demo_system_def)
  show "mem_reach demo_clock demo_order (sy_st demo_asked)" by (simp only: s demo_keyed_reach)
  have "demo_found demo_keyed" unfolding demo_keyed_eq by (rule demo_keyed_found)
  then show "handleCreateInvoice (demo_server_at p ok) demo_order_request demo_asked = demo_create p ok demo_asked"
    by (intro demo_ready) (simp_all only: s demo_keyed_lookup)
  note made = demo_order_created [of p "sha256_hex ''jps_736563726574''", folded demo_keyed_eq demo_asked_def, unfolded case_prod_unfold]
    demo_failed [of p "sha256_hex ''jps_736563726574''", folded demo_keyed_eq demo_asked_def]
  then show "rp_Status (fst (demo_create p True demo_asked)) = 201"
    "rp_Status (fst (demo_create p True (snd (demo_create p True demo_asked)))) = 200"
    "fst (demo_create p False demo_asked) = token_failed"
    "told_token (fst (demo_create p True demo_asked)) = ''tok1''" by blast+
  have f: "demo_found (sy_st (snd (demo_create p ok demo_asked)))" using made by (cases ok) simp_all
  have l: "fst (LookupMerchantIDByAPIKey ''jps_736563726574'' (sy_st (snd (demo_create p ok demo_asked)))) = Inr (Some demo_mid)"
    by (simp only: demo_create_keys s demo_keyed_lookup)
  show "handleCreateInvoice (demo_server_at p ok') demo_order_request (snd (demo_create p ok demo_asked)) =
     demo_create p ok' (snd (demo_create p ok demo_asked))" by (rule demo_ready [OF l f])
  show "same_order demo_order_request (sy_st demo_asked) demo_order_request (sy_st (snd (demo_create p ok demo_asked)))"
    unfolding s by (rule demo_ready [OF l f])
qed

lemma kept_refl: "kept s s"
  by (simp add: kept_def)

lemma demo_server_at_simps: "sv_st (demo_server_at p ok) = mem_Store" "trimmed_tokens (demo_server_at p ok)"
proof -
  have "TrimSpace ''tok1'' = ''tok1''" by code_simp
  then show "trimmed_tokens (demo_server_at p ok)" by (auto simp: trimmed_tokens_def demo_server_at_def split: if_splits)
qed (simp add: demo_server_at_def)

definition demo_page :: HttpRequest where
  "demo_page = (demo_request ''GET'' ''/v1/public/invoices/inv_0000000000000001'' RawEmpty)\<lparr>hr_RawQuery := ''token=tok1''\<rparr>"

lemma demo_page_facts: "hr_Method demo_page = ''GET'' \<and> query demo_page ''token'' = ''tok1''"
  by code_simp

lemma told_token_reply: "told_token (ok_reply n (jmap [(''invoice'', a), (''invoice_token'', JStr t)])) = t"
  by (simp add: told_token_def ok_reply_def writeJSON_def jmap_def)

lemma demo_runs:
  "\<exists>rep y1 rep2 y2. handleCreateInvoice demo_server demo_order_request demo_asked = (rep, y1) \<and> rp_Status rep = 201 \<and>
    told_token rep = ''tok1'' \<and> handleCreateInvoice demo_server demo_order_request y1 = (rep2, y2) \<and> rp_Status rep2 < 300 \<and>
    same_order demo_order_request (sy_st demo_asked) demo_order_request (sy_st y1)"
  unfolding demo_server_def
  by (rule exI, rule exI, rule exI, rule exI, intro conjI, rule trans [OF demo_first(1) prod.collapse [symmetric]],
      rule demo_first(4), rule demo_first(8), rule trans [OF demo_first(2) prod.collapse [symmetric]],
      rule ord_eq_less_trans [OF demo_first(5)], simp, rule demo_first(3))

lemma demo_gap:
  "\<exists>y1 rep2 y2. handleCreateInvoice (demo_server_at (sha256 ''pw'') False) demo_order_request demo_asked = (token_failed, y1) \<and>
    handleCreateInvoice demo_server demo_order_request y1 = (rep2, y2) \<and>
    same_order demo_order_request (sy_st demo_asked) demo_order_request (sy_st y1)"
  unfolding demo_server_def
  by (rule exI, rule exI, rule exI, intro conjI, rule trans [OF demo_first(1) trans [OF prod.collapse [symmetric]]],
      rule arg_cong [where f = "\<lambda>r. (r, snd _)", OF demo_first(6)], rule trans [OF demo_first(2) prod.collapse [symmetric]],
      rule demo_first(3))

lemmas demo_server_at' = demo_server_at_simps [of "sha256 ''pw''" True, folded demo_server_def]

theorem invoice_token_opens_witness:
  "\<exists>iv rep y1. handleCreateInvoice demo_server demo_order_request demo_asked = (rep, y1) \<and> rp_Status rep = 201 \<and>
    map_of (invoices (sy_st y1)) (inv_InvoiceID iv) = Some iv \<and>
    rp_Status (fst (handleGetPublicInvoice demo_server (inv_InvoiceID iv) demo_page y1)) = 200"
proof -
  obtain rep y1 where c: "handleCreateInvoice demo_server demo_order_request demo_asked = (rep, y1)" "rp_Status rep = 201"
    and tok1: "told_token rep = ''tok1''" using demo_runs by blast
  from invoice_token_opens [OF demo_first(7) demo_server_at' c] obtain iv tok now
    where iv: "rep = ok_reply 201 (jmap [(''invoice'', toInvoiceJSON iv now), (''invoice_token'', JStr tok)])"
      "map_of (invoices (sy_st y1)) (inv_InvoiceID iv) = Some iv"
      and page: "\<forall>r2 y2. hr_Method r2 = ''GET'' \<and> kept (sy_st y1) (sy_st y2) \<longrightarrow> (if query r2 ''token'' = tok
       then \<exists>iv2 now2 w2. inv_static iv2 = inv_static iv \<and>
         handleGetPublicInvoice demo_server (inv_InvoiceID iv) r2 y2 = (ok_reply 200 (toInvoiceJSON iv2 now2), y2\<lparr>sy_w := w2\<rparr>)
       else handleGetPublicInvoice demo_server (inv_InvoiceID iv) r2 y2 = (unauthorized ''invalid token'', y2))" by blast
  have "tok = ''tok1''" using tok1 unfolding iv(1) told_token_reply .
  with page demo_page_facts kept_refl obtain iv2 now2 w2
    where "handleGetPublicInvoice demo_server (inv_InvoiceID iv) demo_page y1 = (ok_reply 200 (toInvoiceJSON iv2 now2), y1\<lparr>sy_w := w2\<rparr>)"
    by metis
  with c iv(2) show ?thesis by (metis fst_conv reply_status(2))
qed

theorem retry_same_answer_witness:
  "\<exists>iv iv2 tok now now2 y1. inv_static iv2 = inv_static iv \<and>
    handleCreateInvoice demo_server demo_order_request demo_asked =
      (ok_reply 201 (jmap [(''invoice'', toInvoiceJSON iv now), (''invoice_token'', JStr tok)]), y1) \<and>
    fst (handleCreateInvoice demo_server demo_order_request y1) =
      ok_reply 200 (jmap [(''invoice'', toInvoiceJSON iv2 now2), (''invoice_token'', JStr tok)])"
proof -
  obtain rep y1 rep2 y2 where c: "handleCreateInvoice demo_server demo_order_request demo_asked = (rep, y1)" "rp_Status rep = 201"
    "handleCreateInvoice demo_server demo_order_request y1 = (rep2, y2)" "rp_Status rep2 < 300"
    "same_order demo_order_request (sy_st demo_asked) demo_order_request (sy_st y1)" using demo_runs by blast
  from retry_same_answer [OF demo_first(7) demo_server_at'(1) demo_server_at'(1) demo_server_at'(2) c(1,2) kept_refl c(3-5)] c
  show ?thesis by auto
qed

theorem token_gap_witness:
  "\<exists>y1. handleCreateInvoice (demo_server_at (sha256 ''pw'') False) demo_order_request demo_asked = (token_failed, y1) \<and>
    \<not> rp_Status (fst (handleCreateInvoice demo_server demo_order_request y1)) < 300"
proof -
  obtain y1 rep2 y2 where c: "handleCreateInvoice (demo_server_at (sha256 ''pw'') False) demo_order_request demo_asked = (token_failed, y1)"
    "handleCreateInvoice demo_server demo_order_request y1 = (rep2, y2)"
    "same_order demo_order_request (sy_st demo_asked) demo_order_request (sy_st y1)" using demo_gap by blast
  from token_gap [OF demo_first(7) demo_server_at_simps(1) demo_server_at'(1) c(1) kept_refl c(2,3)] c
  show ?thesis by (auto simp only: fst_conv)
qed

end
