(* ===== verification/SqlText.thy ===== *)
theory SqlText
  imports GoLib
begin

text \<open>
  The text of the statements (\<open>sqlstore.go\<close>, \<open>open.go\<close>, \<open>rebind.go\<close>): the prefix of the table names, which
  \<open>rewriteSQLIdents\<close> puts before the identifiers of a map, and the placeholders of Postgres. Both scan the
  text byte by byte and leave quoted parts alone. A reference lexer says what they do: the text is a
  sequence of quoted bytes, identifiers and other bytes, and each function maps these one by one.
\<close>

section \<open>Identifiers\<close>

definition isIdentStart :: "char \<Rightarrow> bool" where
  "isIdentStart c \<longleftrightarrow> (let n = (of_char c :: nat) in
     (97 \<le> n \<and> n \<le> 122) \<or> (65 \<le> n \<and> n \<le> 90) \<or> c = CHR ''_'')"

definition isIdentContinue :: "char \<Rightarrow> bool" where
  "isIdentContinue c \<longleftrightarrow> isIdentStart c \<or> (let n = (of_char c :: nat) in 48 \<le> n \<and> n \<le> 57)"

definition validateIdent :: "string \<Rightarrow> string option" where
  "validateIdent ident0 =
     (let ident = TrimSpace ident0 in
      case ident of
        [] \<Rightarrow> Some ''empty''
      | c # cs \<Rightarrow>
          if length ident > 63 then Some ''too long''
          else if \<not> isIdentStart c then Some ''must start with letter or underscore''
          else if \<exists>x \<in> set cs. \<not> isIdentContinue x then Some ''invalid character''
          else None)"

definition baseIdents :: "string list" where
  "baseIdents = [
     ''merchants'', ''merchant_wallets'', ''api_keys'', ''invoices'', ''invoice_tokens'', ''scan_cursors'',
     ''deposits'', ''refunds'', ''review_cases'', ''invoice_events'', ''event_sinks'', ''outbox_events'',
     ''event_deliveries'',
     ''idx_api_keys_token_hash'', ''idx_deposits_invoice_status'', ''idx_deposits_wallet_recipient_hash'',
     ''idx_invoices_merchant_seq'', ''idx_invoices_merchant_status_seq'', ''idx_refunds_merchant_id'',
     ''idx_refunds_invoice_id'', ''idx_review_cases_merchant_status'', ''idx_review_cases_invoice_unique'',
     ''idx_review_cases_deposit_unique'', ''idx_invoice_events_invoice_id'', ''idx_invoice_events_deposit_unique'',
     ''idx_invoice_events_refund_unique'', ''idx_event_sinks_merchant_id'', ''idx_outbox_events_merchant_id'',
     ''idx_event_deliveries_merchant_status_retry'', ''idx_event_deliveries_sink_id'']"

text \<open>The option's error, or the map it gives the store (no map without a prefix).\<close>

definition WithTablePrefix :: "string \<Rightarrow> string + string gomap option" where
  "WithTablePrefix prefix0 =
     (let prefix = TrimSpace prefix0 in
      if prefix = [] then Inr None
      else (case validateIdent prefix of
          Some e \<Rightarrow> Inl (''table prefix invalid: '' @ e)
        | None \<Rightarrow>
            if length prefix > 20 then Inl ''table prefix too long (max 20)''
            else Inr (Some (map (\<lambda>ident. (ident, prefix @ ''_'' @ ident)) baseIdents))))"

section \<open>Rewriting identifiers\<close>

abbreviation squote :: char where "squote \<equiv> CHR 0x27"
abbreviation dquote :: char where "dquote \<equiv> CHR 0x22"

lemma length_dropWhile_less [termination_simp]: "length (dropWhile P xs) < Suc (length xs)"
  by (simp add: length_dropWhile_le less_Suc_eq_le)

definition replaced :: "string gomap \<Rightarrow> string \<Rightarrow> string" where
  "replaced repl ident = (case map_of repl ident of Some v \<Rightarrow> v | None \<Rightarrow> ident)"

text \<open>The loop, with its flags \<open>inSingle\<close> and \<open>inDouble\<close>.\<close>

fun rewrite_loop :: "string gomap \<Rightarrow> bool \<Rightarrow> bool \<Rightarrow> string \<Rightarrow> string" where
  "rewrite_loop repl inSingle inDouble [] = []"
| "rewrite_loop repl inSingle inDouble (c # s) =
     (if c = squote \<and> \<not> inDouble then c # rewrite_loop repl (\<not> inSingle) inDouble s
      else if c = dquote \<and> \<not> inSingle then c # rewrite_loop repl inSingle (\<not> inDouble) s
      else if inSingle \<or> inDouble then c # rewrite_loop repl inSingle inDouble s
      else if isIdentStart c then
        replaced repl (c # takeWhile isIdentContinue s) @
          rewrite_loop repl inSingle inDouble (dropWhile isIdentContinue s)
      else c # rewrite_loop repl inSingle inDouble s)"

definition rewriteSQLIdents :: "string \<Rightarrow> string gomap \<Rightarrow> string" where
  "rewriteSQLIdents sqlText repl = (if repl = [] then sqlText else rewrite_loop repl False False sqlText)"

section \<open>Placeholders\<close>

fun rebind_loop :: "bool \<Rightarrow> bool \<Rightarrow> nat \<Rightarrow> string \<Rightarrow> string" where
  "rebind_loop inSingle inDouble arg [] = []"
| "rebind_loop inSingle inDouble arg (c # s) =
     (if c = squote \<and> \<not> inDouble then c # rebind_loop (\<not> inSingle) inDouble arg s
      else if c = dquote \<and> \<not> inSingle then c # rebind_loop inSingle (\<not> inDouble) arg s
      else if \<not> inSingle \<and> \<not> inDouble \<and> c = CHR ''?'' then
        CHR ''$'' # FormatInt (int arg) @ rebind_loop inSingle inDouble (arg + 1) s
      else c # rebind_loop inSingle inDouble arg s)"

definition rebindDollar :: "string \<Rightarrow> string" where
  "rebindDollar query0 = (let query = TrimSpace query0 in if query = [] then [] else rebind_loop False False 1 query)"

text \<open>\<open>Store.q\<close>: the text a dialect sends.\<close>

datatype dialect = SqliteDialect | PostgresDialect | MysqlDialect

definition rebind :: "dialect \<Rightarrow> string \<Rightarrow> string" where
  "rebind d query = (if d = PostgresDialect then rebindDollar query else query)"

definition q :: "dialect \<Rightarrow> string gomap option \<Rightarrow> string \<Rightarrow> string" where
  "q d rewriteMap query = rebind d (case rewriteMap of None \<Rightarrow> query | Some m \<Rightarrow> rewriteSQLIdents query m)"

section \<open>Errors of the drivers\<close>

text \<open>An error of a driver: with the code it reports (the SQLSTATE of Postgres, the number of MySQL), or only text.\<close>

datatype driver_error = PgError string | MyError nat | TextError string

definition dialect_isUniqueViolation :: "dialect \<Rightarrow> driver_error \<Rightarrow> bool" where
  "dialect_isUniqueViolation d e = (case (d, e) of
       (PostgresDialect, PgError code) \<Rightarrow> code = ''23505''
     | (MysqlDialect, MyError n) \<Rightarrow> n = 1062
     | (_, TextError m) \<Rightarrow> (let msg = ToLower m in
         case d of
           SqliteDialect \<Rightarrow> Contains ''unique'' msg \<or> Contains ''constraint'' msg
         | PostgresDialect \<Rightarrow> Contains ''duplicate key'' msg
         | MysqlDialect \<Rightarrow> Contains ''duplicate'' msg \<or> Contains ''unique'' msg)
     | _ \<Rightarrow> False)"

definition dialect_isAlreadyExists :: "dialect \<Rightarrow> driver_error \<Rightarrow> bool" where
  "dialect_isAlreadyExists d e = (case (d, e) of
       (PostgresDialect, PgError code) \<Rightarrow> code = ''42P07'' \<or> code = ''42710''
     | (MysqlDialect, MyError n) \<Rightarrow> n = 1050 \<or> n = 1060 \<or> n = 1061
     | (_, TextError m) \<Rightarrow> (let msg = ToLower m in
         Contains ''already exists'' msg \<or> (d \<noteq> SqliteDialect \<and> Contains ''duplicate'' msg))
     | _ \<Rightarrow> False)"

section \<open>The reference lexer\<close>

datatype token = Quoted char | Ident string | Other char

fun tokens :: "bool \<Rightarrow> bool \<Rightarrow> string \<Rightarrow> token list" where
  "tokens inSingle inDouble [] = []"
| "tokens inSingle inDouble (c # s) =
     (if c = squote \<and> \<not> inDouble then Quoted c # tokens (\<not> inSingle) inDouble s
      else if c = dquote \<and> \<not> inSingle then Quoted c # tokens inSingle (\<not> inDouble) s
      else if inSingle \<or> inDouble then Quoted c # tokens inSingle inDouble s
      else if isIdentStart c then
        Ident (c # takeWhile isIdentContinue s) # tokens inSingle inDouble (dropWhile isIdentContinue s)
      else Other c # tokens inSingle inDouble s)"

fun token_text :: "token \<Rightarrow> string" where
  "token_text (Quoted c) = [c]" | "token_text (Ident x) = x" | "token_text (Other c) = [c]"

fun rename_token :: "string gomap \<Rightarrow> token \<Rightarrow> token" where
  "rename_token repl (Ident x) = Ident (replaced repl x)"
| "rename_token repl t = t"

fun number_tokens :: "nat \<Rightarrow> token list \<Rightarrow> string" where
  "number_tokens n [] = []"
| "number_tokens n (t # ts) = (if t = Other (CHR ''?'')
     then CHR ''$'' # FormatInt (int n) @ number_tokens (Suc n) ts else token_text t @ number_tokens n ts)"

end
