(* ===== verification/SqlTextProps.thy ===== *)
theory SqlTextProps
  imports SqlText Store
begin

text \<open>
  What the two scanners over the text of a statement do, in terms of its tokens.
\<close>

section \<open>Tokens\<close>

lemma ident_chars:
  assumes "isIdentContinue c"
  shows "c \<noteq> squote" "c \<noteq> dquote" "c \<noteq> CHR ''?''"
  using assms by (auto simp: isIdentContinue_def isIdentStart_def Let_def)

lemma start_continue: "isIdentStart c \<Longrightarrow> isIdentContinue c"
  by (simp add: isIdentContinue_def)

lemma tokens_text: "concat (map token_text (tokens a b s)) = s"
  by (induction a b s rule: tokens.induct) (auto simp flip: append_assoc)

lemma rewrite_loop_tokens: "rewrite_loop repl a b s = concat (map token_text (map (rename_token repl) (tokens a b s)))"
  by (induction repl a b s rule: rewrite_loop.induct) auto

lemma rebind_ident: "\<forall>c \<in> set x. isIdentContinue c \<Longrightarrow> rebind_loop False False n (x @ s) = x @ rebind_loop False False n s"
  by (induction x) (auto dest: ident_chars)

lemma rebind_loop_tokens: "rebind_loop a b n s = number_tokens n (tokens a b s)"
proof (induction a b s arbitrary: n rule: tokens.induct)
  case (2 a b c s)
  show ?case
  proof (cases "isIdentStart c \<and> \<not> a \<and> \<not> b")
    case True
    let ?x = "c # takeWhile isIdentContinue s" and ?r = "dropWhile isIdentContinue s"
    have x: "\<forall>d \<in> set ?x. isIdentContinue d" using True start_continue by (auto dest: set_takeWhileD)
    have c: "c \<noteq> squote" "c \<noteq> dquote" using ident_chars start_continue True by blast+
    have "rebind_loop False False n (?x @ ?r) = ?x @ rebind_loop False False n ?r" by (rule rebind_ident [OF x])
    moreover have "rebind_loop False False n ?r = number_tokens n (tokens False False ?r)"
      using 2(4) [of n] True c by simp
    ultimately show ?thesis using True c by simp
  next
    case False
    then show ?thesis using 2(1-3,5) by auto
  qed
qed simp

lemma rename_none [simp]: "rename_token [] t = t"
  by (cases t) (simp_all add: replaced_def)

section \<open>Renaming keeps the tokens apart\<close>

definition ident :: "string \<Rightarrow> bool" where
  "ident x \<longleftrightarrow> (case x of [] \<Rightarrow> False | c # cs \<Rightarrow> isIdentStart c \<and> (\<forall>d \<in> set cs. isIdentContinue d))"

lemma ident_Cons: "ident (c # cs) \<longleftrightarrow> isIdentStart c \<and> (\<forall>d \<in> set cs. isIdentContinue d)"
  by (simp add: ident_def)

text \<open>Where the rewritten text goes on after an identifier.\<close>

definition breaks :: "string \<Rightarrow> bool" where
  "breaks s \<longleftrightarrow> (case s of [] \<Rightarrow> True | c # _ \<Rightarrow> \<not> isIdentContinue c)"

lemma breaks_drop: "breaks (dropWhile isIdentContinue s)"
  by (induction s) (auto simp: breaks_def)

lemma breaks_rewrite: "breaks s \<Longrightarrow> breaks (rewrite_loop repl False False s)"
  by (cases s) (auto simp: breaks_def dest: start_continue)

lemma tokens_ident:
  assumes "ident x" "breaks s"
  shows "tokens False False (x @ s) = Ident x # tokens False False s"
proof -
  obtain c cs where x: "x = c # cs" and c: "isIdentStart c" and cs: "\<forall>d \<in> set cs. isIdentContinue d"
    using assms(1) by (cases x) (auto simp: ident_def)
  have "takeWhile isIdentContinue (cs @ s) = cs" "dropWhile isIdentContinue (cs @ s) = s"
    using assms(2) cs by (cases s; auto simp: breaks_def)+
  with c ident_chars(1,2) [OF start_continue [OF c]] show ?thesis by (simp add: x)
qed

lemma tokens_rewrite:
  assumes "\<And>x v. ident x \<Longrightarrow> map_of repl x = Some v \<Longrightarrow> ident v"
  shows "tokens a b (rewrite_loop repl a b s) = map (rename_token repl) (tokens a b s)"
  using assms
proof (induction repl a b s rule: rewrite_loop.induct)
  case (2 repl a b c s)
  show ?case
  proof (cases "isIdentStart c \<and> \<not> a \<and> \<not> b")
    case True
    let ?x = "c # takeWhile isIdentContinue s" and ?r = "dropWhile isIdentContinue s"
    have c: "c \<noteq> squote" "c \<noteq> dquote" using ident_chars start_continue True by blast+
    have "ident ?x" using True by (auto simp: ident_Cons dest: set_takeWhileD)
    then have v: "ident (replaced repl ?x)" using 2(6) by (simp add: replaced_def split: option.split)
    have "tokens False False (replaced repl ?x @ rewrite_loop repl False False ?r) =
        Ident (replaced repl ?x) # tokens False False (rewrite_loop repl False False ?r)"
      by (rule tokens_ident [OF v breaks_rewrite [OF breaks_drop]])
    with 2(4) 2(6) True c show ?thesis by simp
  next
    case False
    with 2(1-3,5,6) show ?thesis by (auto dest: start_continue)
  qed
qed simp

lemma map_of_keyed: "map_of (map (\<lambda>k. (k, f k)) ks) x = (if x \<in> set ks then Some (f x) else None)"
  by (induction ks) auto

lemma prefix_idents:
  assumes "WithTablePrefix p = Inr (Some m)"
  shows "ident (TrimSpace p)" "map_of m x = (if x \<in> set baseIdents then Some (TrimSpace p @ ''_'' @ x) else None)"
proof -
  show "ident (TrimSpace p)"
    using assms by (auto simp: WithTablePrefix_def validateIdent_def ident_def Let_def split: if_splits option.splits list.splits)
  have "m = map (\<lambda>ident. (ident, TrimSpace p @ ''_'' @ ident)) baseIdents"
    using assms by (auto simp: WithTablePrefix_def Let_def split: if_splits option.splits)
  then show "map_of m x = (if x \<in> set baseIdents then Some (TrimSpace p @ ''_'' @ x) else None)"
    by (simp add: map_of_keyed)
qed

section \<open>Properties\<close>

text \<open>Both scanners over the text of a statement work token by token, quoted parts left alone: the text comes out with
  each identifier replaced by the map, and each placeholder outside quotes numbered from 1.\<close>

theorem statements_by_tokens:
  "rewriteSQLIdents sqlText repl = concat (map (\<lambda>t. token_text (rename_token repl t)) (tokens False False sqlText)) \<and>
   rebindDollar query = number_tokens 1 (tokens False False (TrimSpace query))"
  by (cases "repl = []")
    (auto simp: rewriteSQLIdents_def rebindDollar_def rewrite_loop_tokens rebind_loop_tokens tokens_text Let_def comp_def)

text \<open>With an accepted table prefix, the rewritten statement has the tokens of the original: the names of the store's
  tables and indexes carry the prefix, every other token is the same, and no two tokens run together.\<close>

theorem prefixed_tokens:
  assumes "WithTablePrefix p = Inr (Some m)"
  shows "tokens False False (rewriteSQLIdents sqlText m) =
    map (\<lambda>t. case t of Ident x \<Rightarrow> Ident (if x \<in> set baseIdents then TrimSpace p @ ''_'' @ x else x) | _ \<Rightarrow> t)
      (tokens False False sqlText)"
proof -
  note m = prefix_idents [OF assms]
  have "m \<noteq> []" using m(2) [of "''invoices''"] by (auto simp: baseIdents_def)
  have "ident v" if x: "ident x" and v: "map_of m x = Some v" for x v
  proof -
    have "v = TrimSpace p @ ''_'' @ x" using v by (simp add: m(2) split: if_splits)
    with x m(1) show ?thesis
      by (cases "TrimSpace p"; cases x) (auto simp: ident_def isIdentContinue_def isIdentStart_def)
  qed
  then have "tokens False False (rewriteSQLIdents sqlText m) = map (rename_token m) (tokens False False sqlText)"
    using \<open>m \<noteq> []\<close> by (simp add: rewriteSQLIdents_def tokens_rewrite)
  also have "\<dots> = map (\<lambda>t. case t of Ident x \<Rightarrow> Ident (if x \<in> set baseIdents then TrimSpace p @ ''_'' @ x else x) | _ \<Rightarrow> t)
      (tokens False False sqlText)"
    by (rule map_cong) (simp_all add: replaced_def m(2) split: token.split)
  finally show ?thesis .
qed

theorem prefixed_tokens_witness:
  "\<exists>m. WithTablePrefix ''shop'' = Inr (Some m) \<and>
     tokens False False (rewriteSQLIdents ''DELETE FROM deposits WHERE txid = ?'' m) =
     map (\<lambda>t. case t of Ident x \<Rightarrow> Ident (if x \<in> set baseIdents then TrimSpace ''shop'' @ ''_'' @ x else x) | _ \<Rightarrow> t)
      (tokens False False ''DELETE FROM deposits WHERE txid = ?'')"
proof -
  have "TrimSpace ''shop'' = ''shop''" by code_simp
  then have m: "WithTablePrefix ''shop'' = Inr (Some (map (\<lambda>ident. (ident, ''shop'' @ ''_'' @ ident)) baseIdents))"
    by (simp add: WithTablePrefix_def validateIdent_def isIdentStart_def isIdentContinue_def)
  from m prefixed_tokens [OF m, of "''DELETE FROM deposits WHERE txid = ?''"] show ?thesis by blast
qed

end
