(* ===== verification/Database.thy ===== *)
theory Database
  imports Store Crypto JsonText "HOL-Library.List_Lexorder" "HOL-Library.Char_ord"
begin

text \<open>
  What the stores over a database share, \<open>internal/store/sqlstore\<close> and \<open>internal/store/mongo\<close>: the
  state of a store, whose data \<open>'db\<close> is the tables or the collections; the sequencing of the calls of the code;
  the statements on a table, which is the list of its rows in the order of their insertion; random ids and sealed tokens.
\<close>

section \<open>The store\<close>

text \<open>
  \<open>db_hash\<close> is SHA-256, \<open>db_seal nonce plaintext data\<close> and \<open>db_open nonce ciphertext data\<close> the
  AES-256-GCM of the token key, whose nonces have 12 bytes. The remaining fields are the environment:
  the readings of the clock, the random bytes that are read, the error a statement fails with (\<open>None\<close> when the
  database executes it), the order in which a loop ranges over a map; each use is at the next tick. A
  statement that fails leaves the data as it was.
\<close>

record 'db DbStore =
  db_data :: 'db
  db_hash :: "string \<Rightarrow> string"
  db_seal :: "string \<Rightarrow> string \<Rightarrow> string \<Rightarrow> string"
  db_open :: "string \<Rightarrow> string \<Rightarrow> string \<Rightarrow> string option"
  db_clock :: "nat \<Rightarrow> time"
  db_rand :: "nat \<Rightarrow> nat \<Rightarrow> string option"
  db_fault :: "nat \<Rightarrow> string option"
  db_order :: "nat \<Rightarrow> string \<Rightarrow> nat"
  db_ticks :: nat

type_synonym ('a, 'db, 'z) db_act = "('a, ('db, 'z) DbStore_scheme) act"

definition db_tick :: "('db, 'z) DbStore_scheme \<Rightarrow> ('db, 'z) DbStore_scheme" where
  "db_tick s = s\<lparr>db_ticks := Suc (db_ticks s)\<rparr>"

section \<open>Sequencing\<close>

text \<open>\<open>if err != nil { return err }\<close> after every call.\<close>

definition db_return :: "'a \<Rightarrow> ('a, 's) act" where
  "db_return x s = (Inr x, s)"

definition db_fail :: "store_error \<Rightarrow> ('a, 's) act" where
  "db_fail e s = (Inl e, s)"

definition db_bind :: "('a, 's) act \<Rightarrow> ('a \<Rightarrow> ('b, 's) act) \<Rightarrow> ('b, 's) act" where
  "db_bind m f s = (case m s of (Inl e, s) \<Rightarrow> (Inl e, s) | (Inr x, s) \<Rightarrow> f x s)"

text \<open>A loop over a list.\<close>

fun db_for :: "'a list \<Rightarrow> ('a \<Rightarrow> (unit, 's) act) \<Rightarrow> (unit, 's) act" where
  "db_for [] f = db_return ()"
| "db_for (x # xs) f = db_bind (f x) (\<lambda>_. db_for xs f)"

definition db_now :: "(time, 'db, 'z) db_act" where
  "db_now s = (Inr (db_clock s (db_ticks s)), db_tick s)"

definition db_random :: "nat \<Rightarrow> (string, 'db, 'z) db_act" where
  "db_random n s = (case db_rand s (db_ticks s) n of
       None \<Rightarrow> (Inl (OtherError ''rand''), db_tick s) | Some bs \<Rightarrow> (Inr bs, db_tick s))"

text \<open>A loop over a map visits its keys in an order of the environment's.\<close>

definition db_ranged :: "'v gomap \<Rightarrow> ('v gomap, 'db, 'z) db_act" where
  "db_ranged m s = (Inr (range_map (db_order s (db_ticks s)) m), db_tick s)"

section \<open>Statements\<close>

definition db_stmt :: "('db \<Rightarrow> (store_error + 'a) \<times> 'db) \<Rightarrow> ('a, 'db, 'z) db_act" where
  "db_stmt f s = (case db_fault s (db_ticks s) of
       Some msg \<Rightarrow> (Inl (OtherError msg), db_tick s)
     | None \<Rightarrow> (case f (db_data s) of (r, t) \<Rightarrow> (r, db_tick (s\<lparr>db_data := t\<rparr>))))"

definition db_query :: "('db \<Rightarrow> 'a) \<Rightarrow> ('a, 'db, 'z) db_act" where
  "db_query f = db_stmt (\<lambda>t. (Inr (f t), t))"

text \<open>\<open>INSERT\<close>: the table with the row at its end, unless the row clashes with one of the table.\<close>

definition insert_row :: "('r \<Rightarrow> 'r \<Rightarrow> bool) \<Rightarrow> 'r \<Rightarrow> 'r list \<Rightarrow> 'r list option" where
  "insert_row clash r rs = (if list_ex (clash r) rs then None else Some (rs @ [r]))"

text \<open>\<open>UPDATE\<close>: the table with \<open>f\<close> applied to the rows that match, and how many there are.\<close>

definition update_rows :: "('r \<Rightarrow> bool) \<Rightarrow> ('r \<Rightarrow> 'r) \<Rightarrow> 'r list \<Rightarrow> nat \<times> 'r list" where
  "update_rows cond f rs = (length (filter cond rs), map (\<lambda>r. if cond r then f r else r) rs)"

text \<open>The two as statements on a table, given by its field and the update of its field; an \<open>INSERT\<close> into a table
  with a counter gives the row its next number.\<close>

definition db_insert :: "('db \<Rightarrow> 'r list) \<Rightarrow> (('r list \<Rightarrow> 'r list) \<Rightarrow> 'db \<Rightarrow> 'db) \<Rightarrow> ('r \<Rightarrow> 'r \<Rightarrow> bool) \<Rightarrow> 'r
    \<Rightarrow> 'db \<Rightarrow> (nat \<times> 'db) option" where
  "db_insert tab upd clash r t = map_option (\<lambda>rs. (1, upd (\<lambda>_. rs) t)) (insert_row clash r (tab t))"

definition db_insert_auto :: "('db \<Rightarrow> 'r list) \<Rightarrow> (('r list \<Rightarrow> 'r list) \<Rightarrow> 'db \<Rightarrow> 'db) \<Rightarrow> ('db \<Rightarrow> nat)
    \<Rightarrow> ((nat \<Rightarrow> nat) \<Rightarrow> 'db \<Rightarrow> 'db) \<Rightarrow> ('r \<Rightarrow> 'r \<Rightarrow> bool) \<Rightarrow> (nat \<Rightarrow> 'r) \<Rightarrow> 'db \<Rightarrow> (nat \<times> 'db) option" where
  "db_insert_auto tab upd num nupd clash row t =
     db_insert tab upd clash (row (Suc (num t))) (nupd Suc t)"

definition db_update :: "('db \<Rightarrow> 'r list) \<Rightarrow> (('r list \<Rightarrow> 'r list) \<Rightarrow> 'db \<Rightarrow> 'db) \<Rightarrow> ('r \<Rightarrow> bool) \<Rightarrow> ('r \<Rightarrow> 'r)
    \<Rightarrow> 'db \<Rightarrow> (nat \<times> 'db) option" where
  "db_update tab upd cond f t = (case update_rows cond f (tab t) of (n, rs) \<Rightarrow> Some (n, upd (\<lambda>_. rs) t))"

text \<open>An \<open>UPDATE\<close> of a column that is part of a unique key fails where it would make two rows clash.\<close>

fun no_clash :: "('r \<Rightarrow> 'r \<Rightarrow> bool) \<Rightarrow> 'r list \<Rightarrow> bool" where
  "no_clash clash [] \<longleftrightarrow> True"
| "no_clash clash (r # rs) \<longleftrightarrow> \<not> list_ex (clash r) rs \<and> no_clash clash rs"

definition db_update_unique :: "('db \<Rightarrow> 'r list) \<Rightarrow> (('r list \<Rightarrow> 'r list) \<Rightarrow> 'db \<Rightarrow> 'db) \<Rightarrow> ('r \<Rightarrow> 'r \<Rightarrow> bool)
    \<Rightarrow> ('r \<Rightarrow> bool) \<Rightarrow> ('r \<Rightarrow> 'r) \<Rightarrow> 'db \<Rightarrow> (nat \<times> 'db) option" where
  "db_update_unique tab upd clash cond f t = (case update_rows cond f (tab t) of
     (n, rs) \<Rightarrow> if no_clash clash rs then Some (n, upd (\<lambda>_. rs) t) else None)"

datatype 'a tx_end = Commit 'a | Rollback 'a

section \<open>Ids, hashes and sealed tokens\<close>

definition newID :: "string \<Rightarrow> (string, 'db, 'z) db_act" where
  "newID prefix = db_bind (db_random 16) (\<lambda>raw. db_return (prefix @ ''_'' @ hex_encode raw))"

definition hash32Bytes :: "string \<Rightarrow> (string, 'db, 'z) db_act" where
  "hash32Bytes v s = (Inr (db_hash s v), s)"

definition encryptToken :: "string \<Rightarrow> string \<Rightarrow> (string, 'db, 'z) db_act" where
  "encryptToken invoiceID token = db_bind (db_random 12) (\<lambda>nonce s.
     (Inr (nonce @ db_seal s nonce token invoiceID), s))"

text \<open>\<open>msg\<close> is the error of a ciphertext that is shorter than a nonce.\<close>

definition decryptToken :: "string \<Rightarrow> string \<Rightarrow> string \<Rightarrow> (string, 'db, 'z) db_act" where
  "decryptToken msg invoiceID enc s =
     (if length enc < 12 then (Inl (OtherError msg), s)
      else (case db_open s (take 12 enc) (drop 12 enc) invoiceID of
          None \<Rightarrow> (Inl (OtherError ''cipher: message authentication failed''), s)
        | Some pt \<Rightarrow> (Inr pt, s)))"

end
