(* ===== verification/SqlDb.thy ===== *)
theory SqlDb
  imports Database
begin

text \<open>
  The database under \<open>internal/store/sqlstore\<close>, by the schema of \<open>dialect_sqlite.go\<close>: a table is the
  list of its rows in the order of their insertion, a unique key or index is a relation between the
  rows that clash on it, and a statement is a function on the tables that either succeeds or fails as a
  whole. Then the plumbing of \<open>sqlstore.go\<close>: transactions, savepoints, random ids, the sealed tokens.

  A column of a named string type holds the value of that type, \<open>envelope_json\<close> the event it is
  the JSON of; the columns of an event's deposit, which are null together, are one optional column.
  Instants are whole seconds since 1970.
\<close>

section \<open>The tables\<close>

record MerchantRow =
  mr_merchant_id :: string
  mr_name :: string
  mr_status :: MerchantStatus
  mr_settings :: MerchantSettings
  mr_created_at :: int64
  mr_updated_at :: int64

record WalletRow =
  wr_merchant_id :: string
  wr_wallet_id :: string
  wr_ufvk :: string
  wr_chain :: string
  wr_ua_hrp :: string
  wr_coin_type :: int32
  wr_next_address_index :: int64
  wr_created_at :: int64

record KeyRow =
  kr_key_id :: string
  kr_merchant_id :: string
  kr_label :: string
  kr_token_hash :: string
  kr_revoked_at :: "int64 option"
  kr_created_at :: int64

record InvoiceRow =
  ir_seq :: nat
  ir_invoice_id :: string
  ir_merchant_id :: string
  ir_external_order_id :: string
  ir_external_order_id_hash :: string
  ir_wallet_id :: string
  ir_address_index :: uint32
  ir_address :: string
  ir_address_hash :: string
  ir_created_after_height :: int64
  ir_created_after_hash :: string
  ir_amount_zat :: int64
  ir_required_confirmations :: int32
  ir_policies :: InvoicePolicies
  ir_received_pending_zat :: int64
  ir_received_confirmed_zat :: int64
  ir_status :: InvoiceStatus
  ir_expires_at :: "int64 option"
  ir_created_at :: int64
  ir_updated_at :: int64

record CursorRow =
  cr_wallet_id :: string
  cr_cursor_id :: int64
  cr_last_event_at :: "int64 option"

record DepositRow =
  dr_seq :: nat
  dr_wallet_id :: string
  dr_txid :: string
  dr_action_index :: int32
  dr_recipient_address :: string
  dr_recipient_address_hash :: string
  dr_amount_zat :: int64
  dr_height :: int64
  dr_status :: DepositStatus
  dr_confirmed_height :: "int64 option"
  dr_invoice_id :: "string option"
  dr_detected_at :: int64
  dr_updated_at :: int64

record RefundRow =
  fr_id :: nat
  fr_refund_id :: string
  fr_merchant_id :: string
  fr_invoice_id :: "string option"
  fr_external_refund_id :: "string option"
  fr_to_address :: string
  fr_amount_zat :: int64
  fr_status :: RefundStatus
  fr_sent_txid :: "string option"
  fr_notes :: string
  fr_created_at :: int64
  fr_updated_at :: int64

record ReviewRow =
  vr_id :: nat
  vr_review_id :: string
  vr_merchant_id :: string
  vr_invoice_id :: "string option"
  vr_reason :: ReviewReason
  vr_status :: ReviewStatus
  vr_notes :: string
  vr_deposit :: "(string \<times> string \<times> int32) option"
  vr_created_at :: int64
  vr_updated_at :: int64

record EventRow =
  er_id :: nat
  er_invoice_id :: string
  er_type :: InvoiceEventType
  er_occurred_at :: int64
  er_deposit :: "DepositRef option"
  er_refund_id :: "string option"
  er_created_at :: int64

record SinkRow =
  xr_sink_id :: string
  xr_merchant_id :: string
  xr_kind :: EventSinkKind
  xr_status :: EventSinkStatus
  xr_config :: raw_message
  xr_created_at :: int64
  xr_updated_at :: int64

record OutboxRow =
  or_id :: nat
  or_event_id :: string
  or_merchant_id :: string
  or_envelope :: CloudEvent
  or_created_at :: int64

record DeliveryRow =
  lr_delivery_id :: string
  lr_merchant_id :: string
  lr_sink_id :: string
  lr_event_id :: string
  lr_status :: EventDeliveryStatus
  lr_attempt :: int32
  lr_next_retry_at :: "int64 option"
  lr_last_error :: "string option"
  lr_created_at :: int64
  lr_updated_at :: int64

text \<open>The \<open>n_\<close> fields are the counters behind \<open>AUTOINCREMENT\<close>: the last number given out.\<close>

record Tables =
  t_merchants :: "MerchantRow list"
  t_merchant_wallets :: "WalletRow list"
  t_api_keys :: "KeyRow list"
  t_invoices :: "InvoiceRow list"
  t_invoice_tokens :: "(string \<times> string) list"
  t_scan_cursors :: "CursorRow list"
  t_deposits :: "DepositRow list"
  t_refunds :: "RefundRow list"
  t_review_cases :: "ReviewRow list"
  t_invoice_events :: "EventRow list"
  t_event_sinks :: "SinkRow list"
  t_outbox_events :: "OutboxRow list"
  t_event_deliveries :: "DeliveryRow list"
  n_invoices :: nat
  n_deposits :: nat
  n_refunds :: nat
  n_review_cases :: nat
  n_invoice_events :: nat
  n_outbox_events :: nat

definition empty_tables :: Tables where
  "empty_tables = \<lparr>t_merchants = [], t_merchant_wallets = [], t_api_keys = [], t_invoices = [],
     t_invoice_tokens = [], t_scan_cursors = [], t_deposits = [], t_refunds = [], t_review_cases = [],
     t_invoice_events = [], t_event_sinks = [], t_outbox_events = [], t_event_deliveries = [],
     n_invoices = 0, n_deposits = 0, n_refunds = 0, n_review_cases = 0, n_invoice_events = 0, n_outbox_events = 0\<rparr>"

section \<open>The unique keys of the schema\<close>

text \<open>Null is not equal to anything, null included.\<close>

definition merchant_clash :: "MerchantRow \<Rightarrow> MerchantRow \<Rightarrow> bool" where
  "merchant_clash a b \<longleftrightarrow> mr_merchant_id a = mr_merchant_id b"

definition wallet_clash :: "WalletRow \<Rightarrow> WalletRow \<Rightarrow> bool" where
  "wallet_clash a b \<longleftrightarrow> wr_merchant_id a = wr_merchant_id b"

definition key_clash :: "KeyRow \<Rightarrow> KeyRow \<Rightarrow> bool" where
  "key_clash a b \<longleftrightarrow> kr_key_id a = kr_key_id b \<or> kr_token_hash a = kr_token_hash b"

definition invoice_clash :: "InvoiceRow \<Rightarrow> InvoiceRow \<Rightarrow> bool" where
  "invoice_clash a b \<longleftrightarrow> ir_seq a = ir_seq b \<or> ir_invoice_id a = ir_invoice_id b \<or>
     (ir_merchant_id a = ir_merchant_id b \<and> ir_external_order_id_hash a = ir_external_order_id_hash b) \<or>
     (ir_wallet_id a = ir_wallet_id b \<and> ir_address_hash a = ir_address_hash b)"

definition token_clash :: "string \<times> string \<Rightarrow> string \<times> string \<Rightarrow> bool" where
  "token_clash a b \<longleftrightarrow> fst a = fst b"

definition cursor_clash :: "CursorRow \<Rightarrow> CursorRow \<Rightarrow> bool" where
  "cursor_clash a b \<longleftrightarrow> cr_wallet_id a = cr_wallet_id b"

definition deposit_clash :: "DepositRow \<Rightarrow> DepositRow \<Rightarrow> bool" where
  "deposit_clash a b \<longleftrightarrow> dr_seq a = dr_seq b \<or> (dr_wallet_id a = dr_wallet_id b \<and> dr_txid a = dr_txid b \<and>
     dr_action_index a = dr_action_index b)"

definition refund_clash :: "RefundRow \<Rightarrow> RefundRow \<Rightarrow> bool" where
  "refund_clash a b \<longleftrightarrow> fr_id a = fr_id b \<or> fr_refund_id a = fr_refund_id b"

definition review_clash :: "ReviewRow \<Rightarrow> ReviewRow \<Rightarrow> bool" where
  "review_clash a b \<longleftrightarrow> vr_id a = vr_id b \<or> vr_review_id a = vr_review_id b \<or>
     (vr_invoice_id a \<noteq> None \<and> vr_merchant_id a = vr_merchant_id b \<and> vr_invoice_id a = vr_invoice_id b \<and>
       vr_reason a = vr_reason b \<and> vr_status a = vr_status b) \<or>
     (vr_deposit a \<noteq> None \<and> vr_deposit a = vr_deposit b \<and> vr_reason a = vr_reason b)"

definition dep_key :: "DepositRef \<Rightarrow> string \<times> string \<times> int32" where
  "dep_key d = (dref_WalletID d, dref_TxID d, dref_ActionIndex d)"

definition event_clash :: "EventRow \<Rightarrow> EventRow \<Rightarrow> bool" where
  "event_clash a b \<longleftrightarrow> er_id a = er_id b \<or> (er_invoice_id a = er_invoice_id b \<and> er_type a = er_type b \<and>
     ((er_deposit a \<noteq> None \<and> map_option dep_key (er_deposit a) = map_option dep_key (er_deposit b)) \<or>
      (er_refund_id a \<noteq> None \<and> er_refund_id a = er_refund_id b)))"

definition sink_clash :: "SinkRow \<Rightarrow> SinkRow \<Rightarrow> bool" where
  "sink_clash a b \<longleftrightarrow> xr_sink_id a = xr_sink_id b"

definition outbox_clash :: "OutboxRow \<Rightarrow> OutboxRow \<Rightarrow> bool" where
  "outbox_clash a b \<longleftrightarrow> or_id a = or_id b \<or> or_event_id a = or_event_id b"

definition delivery_clash :: "DeliveryRow \<Rightarrow> DeliveryRow \<Rightarrow> bool" where
  "delivery_clash a b \<longleftrightarrow> lr_delivery_id a = lr_delivery_id b \<or>
     (lr_sink_id a = lr_sink_id b \<and> lr_event_id a = lr_event_id b)"

section \<open>The store\<close>

text \<open>A commit that fails leaves the tables as they were. One operation runs at a time, as \<open>SetMaxOpenConns(1)\<close> makes it
  for SQLite.\<close>

type_synonym SqlStore = "Tables DbStore"

type_synonym 'a sql = "('a, SqlStore) act"

section \<open>Statements\<close>

definition unique_error :: store_error where
  "unique_error = OtherError ''UNIQUE constraint failed''"

text \<open>\<open>ExecContext\<close>: the number of affected rows, or \<open>None\<close> where a unique key is violated.\<close>

definition sql_exec :: "('db \<Rightarrow> (nat \<times> 'db) option) \<Rightarrow> (nat, 'db, 'z) db_act" where
  "sql_exec f = db_stmt (\<lambda>t. case f t of None \<Rightarrow> (Inl unique_error, t) | Some (n, t) \<Rightarrow> (Inr n, t))"

text \<open>\<open>isUniqueViolation\<close> of the SQLite dialect.\<close>

definition isUniqueViolation :: "store_error \<Rightarrow> bool" where
  "isUniqueViolation e = (case e of
       OtherError m \<Rightarrow> (let msg = ToLower m in Contains ''unique'' msg \<or> Contains ''constraint'' msg)
     | _ \<Rightarrow> False)"

text \<open>\<open>BeginTx\<close>, the deferred \<open>Rollback\<close>, and \<open>Commit\<close>.\<close>

definition sql_tx :: "('a tx_end, 'db, 'z) db_act \<Rightarrow> ('a, 'db, 'z) db_act" where
  "sql_tx body s = (case db_query (\<lambda>_. ()) s of
       (Inl e, s1) \<Rightarrow> (Inl e, s1)
     | (Inr _, s1) \<Rightarrow> (case body s1 of
         (Inl e, s2) \<Rightarrow> (Inl e, s2\<lparr>db_data := db_data s\<rparr>)
       | (Inr (Rollback x), s2) \<Rightarrow> (Inr x, s2\<lparr>db_data := db_data s\<rparr>)
       | (Inr (Commit x), s2) \<Rightarrow> (case db_query (\<lambda>_. ()) s2 of
           (Inl e, s3) \<Rightarrow> (Inl e, s3\<lparr>db_data := db_data s\<rparr>)
         | (Inr _, s3) \<Rightarrow> (Inr x, s3))))"

text \<open>A statement whose error is dropped.\<close>

definition sql_ignored :: "('a, 'db, 'z) db_act \<Rightarrow> (unit, 'db, 'z) db_act" where
  "sql_ignored m s = (Inr (), snd (m s))"

text \<open>The savepoints, \<open>SAVEPOINT\<close>, \<open>ROLLBACK TO\<close> and \<open>RELEASE\<close>, are statements that change no rows: a failed
  \<open>INSERT\<close> has none to undo.\<close>

definition execTxIgnoreUnique :: "('db \<Rightarrow> (nat \<times> 'db) option) \<Rightarrow> (bool, 'db, 'z) db_act" where
  "execTxIgnoreUnique f = db_bind (db_query (\<lambda>_. ())) (\<lambda>_ s.
     case sql_exec f s of
       (Inr n, s) \<Rightarrow> db_bind (sql_ignored (db_query (\<lambda>_. ()))) (\<lambda>_. db_return True) s
     | (Inl e, s) \<Rightarrow>
         if isUniqueViolation e then
           db_bind (db_query (\<lambda>_. ())) (\<lambda>_.
           db_bind (sql_ignored (db_query (\<lambda>_. ()))) (\<lambda>_. db_return False)) s
         else (Inl e, s))"

end
