(* ===== verification/SqlEvents.thy ===== *)
theory SqlEvents
  imports SqlDb EventStore
begin

text \<open>
  \<open>internal/store/sqlstore/sqlstore.go\<close>, invoice events, the outbox, sinks and deliveries. A row is
  read back as a value of the domain: a time comes back in whole seconds, a blank optional text as absent.
  Where \<open>ORDER BY\<close> leaves rows tied, they come in the order of their insertion.
\<close>

section \<open>Rows as values\<close>

definition nonblank :: "string option \<Rightarrow> string option" where
  "nonblank o' = (case o' of Some v \<Rightarrow> if TrimSpace v \<noteq> [] then Some v else None | None \<Rightarrow> None)"

definition sql_refund :: "RefundRow \<Rightarrow> Refund" where
  "sql_refund r = \<lparr>rf_RefundID = fr_refund_id r, rf_MerchantID = fr_merchant_id r,
     rf_InvoiceID = nonblank (fr_invoice_id r), rf_ExternalRefundID = nonblank (fr_external_refund_id r),
     rf_ToAddress = fr_to_address r, rf_AmountZat = fr_amount_zat r, rf_Status = fr_status r,
     rf_SentTxID = nonblank (fr_sent_txid r), rf_Notes = fr_notes r,
     rf_CreatedAt = unix_time (fr_created_at r), rf_UpdatedAt = unix_time (fr_updated_at r)\<rparr>"

definition sql_sink :: "SinkRow \<Rightarrow> EventSink" where
  "sql_sink r = \<lparr>sk_SinkID = xr_sink_id r, sk_MerchantID = xr_merchant_id r, sk_Kind = xr_kind r,
     sk_Status = xr_status r, sk_Config = xr_config r,
     sk_CreatedAt = unix_time (xr_created_at r), sk_UpdatedAt = unix_time (xr_updated_at r)\<rparr>"

definition sql_delivery :: "DeliveryRow \<Rightarrow> EventDelivery" where
  "sql_delivery r = \<lparr>dl_DeliveryID = lr_delivery_id r, dl_SinkID = lr_sink_id r, dl_EventID = lr_event_id r,
     dl_Status = lr_status r, dl_Attempt = lr_attempt r, dl_NextRetryAt = map_option unix_time (lr_next_retry_at r),
     dl_LastError = lr_last_error r,
     dl_CreatedAt = unix_time (lr_created_at r), dl_UpdatedAt = unix_time (lr_updated_at r)\<rparr>"

text \<open>\<open>LIMIT\<close>, and the cursor of a listing: the number of its last row, 0 when it has none.\<close>

definition sql_limit :: "int \<Rightarrow> 'r list \<Rightarrow> 'r list" where
  "sql_limit limit rs = take (nat limit) rs"

definition last_num :: "('r \<Rightarrow> nat) \<Rightarrow> 'r list \<Rightarrow> int64" where
  "last_num num rs = (if rs = [] then 0 else int (num (last rs)))"

section \<open>Appending an event\<close>

definition sql_refund_data :: "RefundRow \<Rightarrow> json" where
  "sql_refund_data r = JObj [
     (''amount_zat'', JNum (FormatInt (fr_amount_zat r))),
     (''created_at'', JStr (RFC3339Nano (unix_time (fr_created_at r)))),
     (''external_refund_id'', opt_string (nonblank (fr_external_refund_id r))),
     (''invoice_id'', opt_string (nonblank (fr_invoice_id r))),
     (''merchant_id'', JStr (fr_merchant_id r)),
     (''notes'', JStr (fr_notes r)),
     (''refund_id'', JStr (fr_refund_id r)),
     (''sent_txid'', opt_string (nonblank (fr_sent_txid r))),
     (''status'', JStr (RefundStatus_str (fr_status r))),
     (''to_address'', JStr (fr_to_address r)),
     (''updated_at'', JStr (RFC3339Nano (unix_time (fr_updated_at r))))]"

definition sql_event_data :: "string \<Rightarrow> string \<Rightarrow> string \<Rightarrow> DepositRef option \<Rightarrow> json option \<Rightarrow> json" where
  "sql_event_data merchantID externalOrderID invoiceID dep refund = JObj (
     (case dep of None \<Rightarrow> [] | Some d \<Rightarrow> [(''deposit'', deposit_data d)]) @
     [(''external_order_id'', JStr externalOrderID),
      (''invoice_id'', JStr invoiceID),
      (''merchant_id'', JStr merchantID)] @
     (case refund of None \<Rightarrow> [] | Some j \<Rightarrow> [(''refund'', j)]))"

text \<open>The refund of an event; an error of the query, or no such row, leaves its id alone.\<close>

definition refund_member :: "string option \<Rightarrow> json option sql" where
  "refund_member refundID = (case refundID of
       None \<Rightarrow> db_return None
     | Some r0 \<Rightarrow> (let r = TrimSpace r0 in
         if r = [] then db_return None
         else (\<lambda>s. case db_query (\<lambda>t. find (\<lambda>f. fr_refund_id f = r) (t_refunds t)) s of
             (Inr (Some f), s) \<Rightarrow> (Inr (Some (sql_refund_data f)), s)
           | (_, s) \<Rightarrow> (Inr (Some (JObj [(''refund_id'', JStr r)])), s))))"

definition insert_delivery :: "string \<Rightarrow> string \<Rightarrow> int64 \<Rightarrow> string \<Rightarrow> unit sql" where
  "insert_delivery merchantID eventID nowUnix sinkID =
     db_bind (newID ''del'') (\<lambda>deliveryID.
     db_bind (sql_exec (db_insert t_event_deliveries t_event_deliveries_update delivery_clash
       \<lparr>lr_delivery_id = deliveryID, lr_merchant_id = merchantID, lr_sink_id = sinkID, lr_event_id = eventID,
        lr_status = EventDeliveryPending, lr_attempt = 0, lr_next_retry_at = Some nowUnix, lr_last_error = None,
        lr_created_at = nowUnix, lr_updated_at = nowUnix\<rparr>)) (\<lambda>_. db_return ()))"

definition enqueueOutboxForInvoiceEventTx :: "string \<Rightarrow> InvoiceEventType \<Rightarrow> time \<Rightarrow> DepositRef option \<Rightarrow>
    string option \<Rightarrow> unit sql" where
  "enqueueOutboxForInvoiceEventTx invoiceID typ occurredAt dep refundID =
     db_bind (db_query (\<lambda>t. find (\<lambda>r. ir_invoice_id r = invoiceID) (t_invoices t))) (\<lambda>iv.
     case iv of
       None \<Rightarrow> db_return ()
     | Some iv \<Rightarrow>
         db_bind (refund_member refundID) (\<lambda>refund.
         db_bind (newID ''evt'') (\<lambda>eventID.
         (let ce = \<lparr>ce_SpecVersion = ''1.0'', ce_ID = eventID, ce_Source = ''juno-pay-server'',
                    ce_Type = InvoiceEventType_str typ, ce_Subject = ''invoice/'' @ invoiceID,
                    ce_Time = occurredAt, ce_DataContentType = ''application/json'',
                    ce_Data = sql_event_data (ir_merchant_id iv) (ir_external_order_id iv) invoiceID dep refund\<rparr>
          in if event_json ce = None then db_fail (OtherError ''json'')
          else
            db_bind db_now (\<lambda>now.
            db_bind (sql_exec (db_insert_auto t_outbox_events t_outbox_events_update n_outbox_events
              n_outbox_events_update outbox_clash (\<lambda>n. \<lparr>or_id = n, or_event_id = eventID,
                or_merchant_id = ir_merchant_id iv, or_envelope = ce, or_created_at = Unix now\<rparr>))) (\<lambda>_.
            db_bind (db_query (\<lambda>t. map xr_sink_id (filter (\<lambda>x. xr_merchant_id x = ir_merchant_id iv \<and>
              xr_status x = EventSinkActive) (t_event_sinks t)))) (\<lambda>sinks.
            db_for sinks (insert_delivery (ir_merchant_id iv) eventID (Unix now)))))))))"

text \<open>The keys of an event without deposit and refund are null, so no unique index finds a second one:
  the code looks first, and takes an error of that query for its absence.\<close>

definition event_exists :: "string \<Rightarrow> InvoiceEventType \<Rightarrow> Tables \<Rightarrow> bool" where
  "event_exists invoiceID typ t \<longleftrightarrow> list_ex (\<lambda>e. er_invoice_id e = invoiceID \<and> er_type e = typ \<and>
     er_deposit e = None \<and> er_refund_id e = None) (t_invoice_events t)"

definition event_row :: "string \<Rightarrow> InvoiceEventType \<Rightarrow> time \<Rightarrow> DepositRef option \<Rightarrow> string option \<Rightarrow> int64 \<Rightarrow> nat
    \<Rightarrow> EventRow" where
  "event_row invoiceID typ occurredAt dep refundID nowUnix n =
     \<lparr>er_id = n, er_invoice_id = invoiceID, er_type = typ, er_occurred_at = Unix occurredAt, er_deposit = dep,
      er_refund_id = map_option TrimSpace (nonblank refundID), er_created_at = nowUnix\<rparr>"

definition insertInvoiceEventTx :: "string \<Rightarrow> InvoiceEventType \<Rightarrow> time \<Rightarrow> DepositRef option \<Rightarrow> string option
    \<Rightarrow> unit sql" where
  "insertInvoiceEventTx invoiceID typ occurredAt dep refundID =
     db_bind (if dep = None \<and> refundID = None
       then (\<lambda>s. case db_query (event_exists invoiceID typ) s of (Inr b, s) \<Rightarrow> (Inr b, s) | (_, s) \<Rightarrow> (Inr False, s))
       else db_return False) (\<lambda>exists.
     if exists then db_return ()
     else
       db_bind db_now (\<lambda>now.
       db_bind (execTxIgnoreUnique (db_insert_auto t_invoice_events t_invoice_events_update n_invoice_events
         n_invoice_events_update event_clash (event_row invoiceID typ occurredAt dep refundID (Unix now)))) (\<lambda>inserted.
       if \<not> inserted then db_return ()
       else enqueueOutboxForInvoiceEventTx invoiceID typ occurredAt dep refundID)))"

section \<open>Invoice events\<close>

definition sql_event :: "Tables \<Rightarrow> EventRow \<Rightarrow> InvoiceEvent" where
  "sql_event t e = \<lparr>ie_EventID = FormatInt (int (er_id e)), ie_Type = er_type e,
     ie_OccurredAt = unix_time (er_occurred_at e), ie_InvoiceID = er_invoice_id e, ie_Deposit = er_deposit e,
     ie_Refund = (case find (\<lambda>r. er_refund_id e = Some (fr_refund_id r)) (t_refunds t) of
         None \<Rightarrow> None | Some r \<Rightarrow> if TrimSpace (fr_refund_id r) \<noteq> [] then Some (sql_refund r) else None)\<rparr>"

definition sql_ListInvoiceEvents :: "string \<Rightarrow> int64 \<Rightarrow> int \<Rightarrow> (InvoiceEvent list \<times> int64) sql" where
  "sql_ListInvoiceEvents invoiceID0 afterID limit0 =
     (let invoiceID = TrimSpace invoiceID0; limit = norm_limit limit0 in
      if invoiceID = [] then db_fail (invalid_argument ''invoice_id is required'')
      else db_query (\<lambda>t.
        let rows = sql_limit limit (sort_key er_id (filter (\<lambda>e. er_invoice_id e = invoiceID \<and>
              int (er_id e) > afterID) (t_invoice_events t)))
        in (map (sql_event t) rows, last_num er_id rows)))"

section \<open>Sinks\<close>

definition sql_CreateEventSink :: "EventSinkCreate \<Rightarrow> EventSink sql" where
  "sql_CreateEventSink req =
     (let merchantID = TrimSpace (skc_MerchantID req) in
      if merchantID = [] then db_fail (invalid_argument ''merchant_id is required'')
      else if skc_Config req = RawEmpty then db_fail (invalid_argument ''config is required'')
      else (case skc_Kind req of
          EventSinkOther _ \<Rightarrow> db_fail (invalid_argument ''kind invalid'')
        | _ \<Rightarrow> (case skc_Config req of
            RawJson (JObj kvs) \<Rightarrow>
              db_bind (db_query (\<lambda>t. list_ex (\<lambda>r. mr_merchant_id r = merchantID) (t_merchants t))) (\<lambda>b.
              if \<not> b then db_fail ErrNotFound
              else
                db_bind (newID ''sink'') (\<lambda>sinkID.
                db_bind db_now (\<lambda>now.
                (let cfg = RawJson (remarshal (JObj kvs)) in
                 db_bind (sql_exec (db_insert t_event_sinks t_event_sinks_update sink_clash
                   \<lparr>xr_sink_id = sinkID, xr_merchant_id = merchantID, xr_kind = skc_Kind req,
                    xr_status = EventSinkActive, xr_config = cfg, xr_created_at = Unix now, xr_updated_at = Unix now\<rparr>)) (\<lambda>_.
                 db_return \<lparr>sk_SinkID = sinkID, sk_MerchantID = merchantID, sk_Kind = skc_Kind req,
                    sk_Status = EventSinkActive, sk_Config = cfg, sk_CreatedAt = now, sk_UpdatedAt = now\<rparr>)))))
          | RawJson _ \<Rightarrow> db_fail (invalid_argument ''config must be an object'')
          | _ \<Rightarrow> db_fail (invalid_argument ''config invalid json''))))"

definition sql_GetEventSink :: "string \<Rightarrow> EventSink option sql" where
  "sql_GetEventSink sinkID0 =
     (let sinkID = TrimSpace sinkID0 in
      if sinkID = [] then db_return None
      else db_query (\<lambda>t. map_option sql_sink (find (\<lambda>r. xr_sink_id r = sinkID) (t_event_sinks t))))"

definition sql_ListEventSinks :: "string \<Rightarrow> EventSink list sql" where
  "sql_ListEventSinks merchantID0 =
     (let merchantID = TrimSpace merchantID0 in
      db_query (\<lambda>t. map sql_sink (sort_key xr_created_at (sort_key xr_sink_id
        (filter (\<lambda>r. merchantID = [] \<or> xr_merchant_id r = merchantID) (t_event_sinks t))))))"

section \<open>The outbox and its deliveries\<close>

definition sql_ListOutboundEvents :: "string \<Rightarrow> int64 \<Rightarrow> int \<Rightarrow> (CloudEvent list \<times> int64) sql" where
  "sql_ListOutboundEvents merchantID0 afterID limit0 =
     (let merchantID = TrimSpace merchantID0; limit = norm_limit limit0 in
      db_query (\<lambda>t.
        let rows = sql_limit limit (sort_key or_id (filter (\<lambda>r. (merchantID = [] \<or> or_merchant_id r = merchantID) \<and>
              int (or_id r) > afterID) (t_outbox_events t)))
        in (map or_envelope rows, last_num or_id rows)))"

definition sql_ListEventDeliveries :: "EventDeliveryFilter \<Rightarrow> EventDelivery list sql" where
  "sql_ListEventDeliveries f =
     (let merchantID = TrimSpace (edf_MerchantID f); sinkID = TrimSpace (edf_SinkID f);
          limit = norm_limit (edf_Limit f) in
      db_query (\<lambda>t. map sql_delivery (sql_limit limit (sort_key (\<lambda>r. - lr_updated_at r)
        (filter (\<lambda>r. (merchantID = [] \<or> lr_merchant_id r = merchantID) \<and> (sinkID = [] \<or> lr_sink_id r = sinkID) \<and>
           (case edf_Status f of None \<Rightarrow> True | Some st \<Rightarrow> lr_status r = st)) (t_event_deliveries t))))))"

text \<open>\<open>event_deliveries\<close> joined with the sink and the event of a row.\<close>

definition due_rows :: "int64 \<Rightarrow> Tables \<Rightarrow> (DeliveryRow \<times> SinkRow \<times> OutboxRow) list" where
  "due_rows nowUnix t = [(d, x, e). d \<leftarrow> t_event_deliveries t, x \<leftarrow> t_event_sinks t, xr_sink_id x = lr_sink_id d,
     e \<leftarrow> t_outbox_events t, or_event_id e = lr_event_id d,
     lr_status d = EventDeliveryPending \<and> xr_status x = EventSinkActive \<and>
     (case lr_next_retry_at d of None \<Rightarrow> True | Some at \<Rightarrow> at \<le> nowUnix)]"

definition sql_due :: "DeliveryRow \<times> SinkRow \<times> OutboxRow \<Rightarrow> DueDelivery" where
  "sql_due r = (case r of (d, x, e) \<Rightarrow>
     \<lparr>dd_Delivery = sql_delivery d, dd_Sink = (sql_sink x)\<lparr>sk_SinkID := lr_sink_id d, sk_MerchantID := lr_merchant_id d\<rparr>,
      dd_Event = or_envelope e\<rparr>)"

definition sql_ListDueDeliveries :: "time \<Rightarrow> int \<Rightarrow> DueDelivery list sql" where
  "sql_ListDueDeliveries now0 limit0 =
     (let limit = norm_limit limit0 in
      db_bind (if IsZero now0 then db_now else db_return now0) (\<lambda>now.
      db_query (\<lambda>t. map sql_due (sql_limit limit (sort_key (\<lambda>(d, _). lr_updated_at d)
        (sort_key (\<lambda>(d, _). lr_delivery_id d) (due_rows (Unix now) t)))))))"

definition sql_UpdateEventDelivery :: "string \<Rightarrow> EventDeliveryStatus \<Rightarrow> int32 \<Rightarrow> time option \<Rightarrow> string option \<Rightarrow> unit sql" where
  "sql_UpdateEventDelivery deliveryID0 status attempt nextRetryAt lastError =
     (let deliveryID = TrimSpace deliveryID0 in
      if deliveryID = [] then db_fail (invalid_argument ''delivery_id is required'')
      else
        db_bind db_now (\<lambda>now.
        db_bind (sql_exec (db_update t_event_deliveries t_event_deliveries_update (\<lambda>r. lr_delivery_id r = deliveryID)
          (\<lambda>r. r\<lparr>lr_status := status, lr_attempt := attempt, lr_next_retry_at := map_option Unix nextRetryAt,
                 lr_last_error := lastError, lr_updated_at := Unix now\<rparr>))) (\<lambda>n.
        if n = 0 then db_fail ErrNotFound else db_return ())))"

definition sql_PendingDeliveries :: "int64 sql" where
  "sql_PendingDeliveries =
     db_query (\<lambda>t. int (length (filter (\<lambda>r. lr_status r = EventDeliveryPending) (t_event_deliveries t))))"

end
