(* ===== verification/SqlMerchants.thy ===== *)
theory SqlMerchants
  imports SqlDb
begin

text \<open>
  \<open>internal/store/sqlstore/sqlstore.go\<close>, merchants, their wallets and API keys.
\<close>

section \<open>Merchants\<close>

definition sql_merchant :: "MerchantRow \<Rightarrow> Merchant" where
  "sql_merchant r = \<lparr>m_MerchantID = mr_merchant_id r, m_Name = mr_name r, m_Status = mr_status r,
     m_Settings = mr_settings r, m_CreatedAt = unix_time (mr_created_at r), m_UpdatedAt = unix_time (mr_updated_at r)\<rparr>"

definition sql_CreateMerchant :: "string \<Rightarrow> MerchantSettings \<Rightarrow> Merchant sql" where
  "sql_CreateMerchant name0 settings =
     (let name = TrimSpace name0 in
      if name = [] then db_fail (invalid_argument ''name is required'')
      else (case Validate settings of
          Some e \<Rightarrow> db_fail e
        | None \<Rightarrow>
            db_bind (newID ''m'') (\<lambda>mid.
            db_bind db_now (\<lambda>now.
            db_bind (sql_exec (db_insert t_merchants t_merchants_update merchant_clash
              \<lparr>mr_merchant_id = mid, mr_name = name, mr_status = MerchantActive, mr_settings = settings,
               mr_created_at = Unix now, mr_updated_at = Unix now\<rparr>)) (\<lambda>_.
            db_return \<lparr>m_MerchantID = mid, m_Name = name, m_Status = MerchantActive, m_Settings = settings,
               m_CreatedAt = now, m_UpdatedAt = now\<rparr>)))))"

definition sql_GetMerchant :: "string \<Rightarrow> Merchant option sql" where
  "sql_GetMerchant merchantID0 =
     (let merchantID = TrimSpace merchantID0 in
      if merchantID = [] then db_return None
      else db_query (\<lambda>t. map_option sql_merchant (find (\<lambda>r. mr_merchant_id r = merchantID) (t_merchants t))))"

definition sql_ListMerchants :: "Merchant list sql" where
  "sql_ListMerchants = db_query (\<lambda>t. map sql_merchant (sort_key mr_merchant_id (t_merchants t)))"

definition sql_UpdateMerchantSettings :: "string \<Rightarrow> MerchantSettings \<Rightarrow> Merchant sql" where
  "sql_UpdateMerchantSettings merchantID0 settings =
     (let merchantID = TrimSpace merchantID0 in
      if merchantID = [] then db_fail (invalid_argument ''merchant_id is required'')
      else (case Validate settings of
          Some e \<Rightarrow> db_fail e
        | None \<Rightarrow>
            db_bind db_now (\<lambda>now.
            db_bind (sql_exec (db_update t_merchants t_merchants_update (\<lambda>r. mr_merchant_id r = merchantID)
              (\<lambda>r. r\<lparr>mr_settings := settings, mr_updated_at := Unix now\<rparr>))) (\<lambda>n.
            if n = 0 then db_fail ErrNotFound
            else db_bind (sql_GetMerchant merchantID) (\<lambda>m.
              case m of None \<Rightarrow> db_fail ErrNotFound | Some m \<Rightarrow> db_return m)))))"

text \<open>\<open>SELECT 1 FROM merchants WHERE merchant_id = ?\<close>, no row being \<open>ErrNotFound\<close>.\<close>

definition merchant_exists :: "string \<Rightarrow> unit sql" where
  "merchant_exists merchantID =
     db_bind (db_query (\<lambda>t. list_ex (\<lambda>r. mr_merchant_id r = merchantID) (t_merchants t))) (\<lambda>b.
     if b then db_return () else db_fail ErrNotFound)"

section \<open>Wallets\<close>

definition sql_wallet :: "WalletRow \<Rightarrow> MerchantWallet" where
  "sql_wallet r = \<lparr>mw_MerchantID = wr_merchant_id r, mw_WalletID = wr_wallet_id r, mw_UFVK = wr_ufvk r,
     mw_Chain = wr_chain r, mw_UAHRP = wr_ua_hrp r, mw_CoinType = wr_coin_type r, mw_CreatedAt = unix_time (wr_created_at r)\<rparr>"

definition sql_SetMerchantWallet :: "string \<Rightarrow> MerchantWallet \<Rightarrow> MerchantWallet sql" where
  "sql_SetMerchantWallet merchantID0 w0 =
     (let merchantID = TrimSpace merchantID0;
          w = w0\<lparr>mw_WalletID := TrimSpace (mw_WalletID w0), mw_UFVK := TrimSpace (mw_UFVK w0),
                 mw_Chain := TrimSpace (mw_Chain w0), mw_UAHRP := TrimSpace (mw_UAHRP w0)\<rparr> in
      if merchantID = [] then db_fail (invalid_argument ''merchant_id is required'')
      else if mw_WalletID w = [] then db_fail (invalid_argument ''wallet_id is required'')
      else if mw_UFVK w = [] then db_fail (invalid_argument ''ufvk is required'')
      else if mw_Chain w = [] then db_fail (invalid_argument ''chain is required'')
      else if mw_UAHRP w = [] then db_fail (invalid_argument ''ua_hrp is required'')
      else sql_tx (
        db_bind (merchant_exists merchantID) (\<lambda>_.
        db_bind db_now (\<lambda>now s.
        (case sql_exec (db_insert t_merchant_wallets t_merchant_wallets_update wallet_clash
              \<lparr>wr_merchant_id = merchantID, wr_wallet_id = mw_WalletID w, wr_ufvk = mw_UFVK w, wr_chain = mw_Chain w,
               wr_ua_hrp = mw_UAHRP w, wr_coin_type = mw_CoinType w, wr_next_address_index = 0, wr_created_at = Unix now\<rparr>) s of
           (Inl e, s) \<Rightarrow> (Inl (if isUniqueViolation e then ErrConflict else e), s)
         | (Inr _, s) \<Rightarrow> (Inr (Commit (w\<lparr>mw_MerchantID := merchantID, mw_CreatedAt := now\<rparr>)), s))))))"

definition sql_GetMerchantWallet :: "string \<Rightarrow> MerchantWallet option sql" where
  "sql_GetMerchantWallet merchantID0 =
     (let merchantID = TrimSpace merchantID0 in
      if merchantID = [] then db_return None
      else db_query (\<lambda>t. map_option sql_wallet (find (\<lambda>r. wr_merchant_id r = merchantID) (t_merchant_wallets t))))"

definition sql_ListMerchantWallets :: "MerchantWallet list sql" where
  "sql_ListMerchantWallets = db_query (\<lambda>t. map sql_wallet (sort_key wr_merchant_id (t_merchant_wallets t)))"

definition sql_NextAddressIndex :: "string \<Rightarrow> uint32 sql" where
  "sql_NextAddressIndex merchantID0 =
     (let merchantID = TrimSpace merchantID0 in
      if merchantID = [] then db_fail (invalid_argument ''merchant_id is required'')
      else sql_tx (
        db_bind (db_query (\<lambda>t. map_option wr_next_address_index
          (find (\<lambda>r. wr_merchant_id r = merchantID) (t_merchant_wallets t)))) (\<lambda>idx.
        case idx of
          None \<Rightarrow> db_fail ErrNotFound
        | Some idx \<Rightarrow>
            db_bind (sql_exec (db_update t_merchant_wallets t_merchant_wallets_update (\<lambda>r. wr_merchant_id r = merchantID)
              (\<lambda>r. r\<lparr>wr_next_address_index := wr_next_address_index r + 1\<rparr>))) (\<lambda>_.
            db_return (Commit (word_of_int idx))))))"

section \<open>API keys\<close>

text \<open>The 32 random bytes of the key are the first argument, as in the interface.\<close>

definition sql_CreateMerchantAPIKey :: "string option \<Rightarrow> string \<Rightarrow> string \<Rightarrow> (string \<times> string) sql" where
  "sql_CreateMerchantAPIKey raw merchantID0 label0 =
     (let merchantID = TrimSpace merchantID0; label = TrimSpace label0 in
      if merchantID = [] then db_fail (invalid_argument ''merchant_id is required'')
      else
        db_bind (merchant_exists merchantID) (\<lambda>_.
        db_bind (newID ''key'') (\<lambda>keyID.
        case raw of
          None \<Rightarrow> db_fail (OtherError ''rand'')
        | Some bs \<Rightarrow>
            (let apiKey = ''jps_'' @ hex_encode bs in
             db_bind (hash32Bytes apiKey) (\<lambda>sum.
             db_bind db_now (\<lambda>now.
             db_bind (sql_exec (db_insert t_api_keys t_api_keys_update key_clash
               \<lparr>kr_key_id = keyID, kr_merchant_id = merchantID, kr_label = label, kr_token_hash = hex_encode sum,
                kr_revoked_at = None, kr_created_at = Unix now\<rparr>)) (\<lambda>_.
             db_return (keyID, apiKey))))))))"

definition sql_RevokeMerchantAPIKey :: "string \<Rightarrow> unit sql" where
  "sql_RevokeMerchantAPIKey keyID0 =
     (let keyID = TrimSpace keyID0 in
      if keyID = [] then db_fail (invalid_argument ''key_id is required'')
      else
        db_bind db_now (\<lambda>now.
        db_bind (sql_exec (db_update t_api_keys t_api_keys_update (\<lambda>r. kr_key_id r = keyID \<and> kr_revoked_at r = None)
          (\<lambda>r. r\<lparr>kr_revoked_at := Some (Unix now)\<rparr>))) (\<lambda>n.
        if n = 0 then
          db_bind (db_query (\<lambda>t. list_ex (\<lambda>r. kr_key_id r = keyID) (t_api_keys t))) (\<lambda>b.
          if b then db_return () else db_fail ErrNotFound)
        else db_return ())))"

definition sql_LookupMerchantIDByAPIKey :: "string \<Rightarrow> string option sql" where
  "sql_LookupMerchantIDByAPIKey apiKey0 =
     (let apiKey = TrimSpace apiKey0 in
      if apiKey = [] then db_return None
      else
        db_bind (hash32Bytes apiKey) (\<lambda>sum.
        db_bind (db_query (\<lambda>t. find (\<lambda>r. kr_token_hash r = hex_encode sum) (t_api_keys t))) (\<lambda>r.
        db_return (case r of None \<Rightarrow> None
          | Some r \<Rightarrow> if kr_revoked_at r \<noteq> None then None else Some (kr_merchant_id r)))))"

definition sql_api_key :: "KeyRow \<Rightarrow> MerchantAPIKey" where
  "sql_api_key r = \<lparr>mk_KeyID = kr_key_id r, mk_MerchantID = kr_merchant_id r, mk_Label = kr_label r,
     mk_CreatedAt = unix_time (kr_created_at r), mk_RevokedAt = map_option unix_time (kr_revoked_at r)\<rparr>"

text \<open>\<open>ORDER BY created_at DESC, key_id DESC\<close>.\<close>

definition sql_ListMerchantAPIKeys :: "string \<Rightarrow> MerchantAPIKey list sql" where
  "sql_ListMerchantAPIKeys merchantID0 =
     (let merchantID = TrimSpace merchantID0 in
      if merchantID = [] then db_fail (invalid_argument ''merchant_id is required'')
      else db_query (\<lambda>t. map sql_api_key (rev (sort_key kr_created_at (sort_key kr_key_id
        (filter (\<lambda>r. kr_merchant_id r = merchantID) (t_api_keys t)))))))"

end
