(* ===== verification/SqlInvoices.thy ===== *)
theory SqlInvoices
  imports SqlEvents SqlMerchants
begin

text \<open>
  \<open>internal/store/sqlstore/sqlstore.go\<close>, invoices and their sealed tokens, refunds, the review queue.
\<close>

section \<open>Invoices\<close>

definition scanInvoiceFull :: "InvoiceRow \<Rightarrow> Invoice" where
  "scanInvoiceFull r = \<lparr>inv_InvoiceID = ir_invoice_id r, inv_MerchantID = ir_merchant_id r,
     inv_ExternalOrderID = ir_external_order_id r, inv_WalletID = ir_wallet_id r,
     inv_AddressIndex = ir_address_index r, inv_Address = ir_address r,
     inv_CreatedAfterHeight = ir_created_after_height r, inv_CreatedAfterHash = ir_created_after_hash r,
     inv_AmountZat = ir_amount_zat r, inv_RequiredConfirmations = ir_required_confirmations r,
     inv_Policies = ir_policies r, inv_ReceivedPendingZat = ir_received_pending_zat r,
     inv_ReceivedConfirmedZat = ir_received_confirmed_zat r, inv_Status = ir_status r,
     inv_ExpiresAt = map_option unix_time (ir_expires_at r),
     inv_CreatedAt = unix_time (ir_created_at r), inv_UpdatedAt = unix_time (ir_updated_at r)\<rparr>"

definition sql_GetInvoice :: "string \<Rightarrow> Invoice option sql" where
  "sql_GetInvoice invoiceID0 =
     (let invoiceID = TrimSpace invoiceID0 in
      if invoiceID = [] then db_return None
      else db_query (\<lambda>t. map_option scanInvoiceFull (find (\<lambda>r. ir_invoice_id r = invoiceID) (t_invoices t))))"

definition sql_FindInvoiceByExternalOrderID :: "string \<Rightarrow> string \<Rightarrow> Invoice option sql" where
  "sql_FindInvoiceByExternalOrderID merchantID0 externalOrderID0 =
     (let merchantID = TrimSpace merchantID0; externalOrderID = TrimSpace externalOrderID0 in
      if merchantID = [] \<or> externalOrderID = [] then db_return None
      else
        db_bind (hash32Bytes externalOrderID) (\<lambda>extHash.
        db_query (\<lambda>t. map_option scanInvoiceFull (find (\<lambda>r. ir_merchant_id r = merchantID \<and>
          ir_external_order_id_hash r = extHash \<and> ir_external_order_id r = externalOrderID) (t_invoices t)))))"

text \<open>The row of a new invoice, and the invoice the call returns for it.\<close>

definition invoice_row :: "InvoiceCreate \<Rightarrow> string \<Rightarrow> string \<Rightarrow> string \<Rightarrow> int64 \<Rightarrow> nat \<Rightarrow> InvoiceRow" where
  "invoice_row req iid extHash addrHash nowUnix n =
     \<lparr>ir_seq = n, ir_invoice_id = iid, ir_merchant_id = ic_MerchantID req,
      ir_external_order_id = ic_ExternalOrderID req, ir_external_order_id_hash = extHash,
      ir_wallet_id = ic_WalletID req, ir_address_index = ic_AddressIndex req,
      ir_address = ic_Address req, ir_address_hash = addrHash,
      ir_created_after_height = ic_CreatedAfterHeight req, ir_created_after_hash = TrimSpace (ic_CreatedAfterHash req),
      ir_amount_zat = ic_AmountZat req, ir_required_confirmations = ic_RequiredConfirmations req,
      ir_policies = ic_Policies req, ir_received_pending_zat = 0, ir_received_confirmed_zat = 0,
      ir_status = InvoiceOpen, ir_expires_at = map_option Unix (ic_ExpiresAt req),
      ir_created_at = nowUnix, ir_updated_at = nowUnix\<rparr>"

definition created_invoice :: "InvoiceCreate \<Rightarrow> string \<Rightarrow> time \<Rightarrow> Invoice" where
  "created_invoice req iid now =
     \<lparr>inv_InvoiceID = iid, inv_MerchantID = ic_MerchantID req, inv_ExternalOrderID = ic_ExternalOrderID req,
      inv_WalletID = ic_WalletID req, inv_AddressIndex = ic_AddressIndex req, inv_Address = ic_Address req,
      inv_CreatedAfterHeight = ic_CreatedAfterHeight req, inv_CreatedAfterHash = TrimSpace (ic_CreatedAfterHash req),
      inv_AmountZat = ic_AmountZat req, inv_RequiredConfirmations = ic_RequiredConfirmations req,
      inv_Policies = ic_Policies req, inv_ReceivedPendingZat = 0, inv_ReceivedConfirmedZat = 0,
      inv_Status = InvoiceOpen, inv_ExpiresAt = ic_ExpiresAt req, inv_CreatedAt = now, inv_UpdatedAt = now\<rparr>"

text \<open>The transaction of \<open>CreateInvoice\<close>: \<open>None\<close> when the insertion meets a unique key, and it is rolled back.\<close>

definition create_invoice_tx :: "InvoiceCreate \<Rightarrow> string \<Rightarrow> time \<Rightarrow> Invoice option tx_end sql" where
  "create_invoice_tx req iid now =
     db_bind (hash32Bytes (ic_ExternalOrderID req)) (\<lambda>extOrderHash.
     db_bind (hash32Bytes (ic_Address req)) (\<lambda>addrHash s.
     case sql_exec (db_insert_auto t_invoices t_invoices_update n_invoices n_invoices_update invoice_clash
         (invoice_row req iid extOrderHash addrHash (Unix now))) s of
       (Inr _, s) \<Rightarrow>
         db_bind (insertInvoiceEventTx iid InvoiceEventInvoiceCreated now None None) (\<lambda>_.
         db_return (Commit (Some (created_invoice req iid now)))) s
     | (Inl e, s) \<Rightarrow> if isUniqueViolation e then (Inr (Rollback None), s) else (Inl e, s)))"

definition sql_CreateInvoice :: "InvoiceCreate \<Rightarrow> (Invoice \<times> bool) sql" where
  "sql_CreateInvoice req0 =
     (let req = req0\<lparr>ic_MerchantID := TrimSpace (ic_MerchantID req0),
            ic_ExternalOrderID := TrimSpace (ic_ExternalOrderID req0), ic_WalletID := TrimSpace (ic_WalletID req0),
            ic_Address := ToLower (TrimSpace (ic_Address req0))\<rparr> in
      if ic_MerchantID req = [] then db_fail (invalid_argument ''merchant_id is required'')
      else if ic_ExternalOrderID req = [] then db_fail (invalid_argument ''external_order_id is required'')
      else if ic_AmountZat req \<le> 0 then db_fail (invalid_argument ''amount_zat must be > 0'')
      else if ic_Address req = [] then db_fail (invalid_argument ''address is required'')
      else if ic_WalletID req = [] then db_fail (invalid_argument ''wallet_id is required'')
      else
        db_bind (newID ''inv'') (\<lambda>iid.
        db_bind db_now (\<lambda>now.
        db_bind (sql_tx (create_invoice_tx req iid now)) (\<lambda>created.
        case created of
          Some iv \<Rightarrow> db_return (iv, True)
        | None \<Rightarrow>
            db_bind (sql_FindInvoiceByExternalOrderID (ic_MerchantID req) (ic_ExternalOrderID req)) (\<lambda>existing.
            case existing of
              None \<Rightarrow> db_fail ErrConflict
            | Some iv \<Rightarrow>
                if inv_ExternalOrderID iv \<noteq> ic_ExternalOrderID req then db_fail ErrConflict
                else if inv_AmountZat iv \<noteq> ic_AmountZat req \<or> inv_WalletID iv \<noteq> ic_WalletID req \<or>
                  inv_Address iv \<noteq> ic_Address req then db_fail ErrConflict
                else db_return (iv, False))))))"

definition sql_ListInvoices :: "InvoiceFilter \<Rightarrow> (Invoice list \<times> int64) sql" where
  "sql_ListInvoices f =
     (let merchantID = TrimSpace (if_MerchantID f); externalOrderID = TrimSpace (if_ExternalOrderID f);
          afterID = (if if_AfterID f < 0 then 0 else if_AfterID f); limit = norm_limit (if_Limit f) in
      db_bind (hash32Bytes externalOrderID) (\<lambda>extHash.
      db_query (\<lambda>t.
        let rows = sql_limit limit (sort_key ir_seq (filter (\<lambda>r. int (ir_seq r) > afterID \<and>
              (merchantID = [] \<or> ir_merchant_id r = merchantID) \<and>
              (case if_Status f of None \<Rightarrow> True | Some st \<Rightarrow> ir_status r = st) \<and>
              (externalOrderID = [] \<or> (ir_external_order_id_hash r = extHash \<and> ir_external_order_id r = externalOrderID)))
              (t_invoices t)))
        in (map scanInvoiceFull rows, last_num ir_seq rows))))"

section \<open>Invoice tokens\<close>

definition set_token :: "string \<Rightarrow> string \<Rightarrow> nat sql" where
  "set_token invoiceID enc = sql_exec (db_update t_invoice_tokens t_invoice_tokens_update (\<lambda>r. fst r = invoiceID)
     (\<lambda>r. (fst r, enc)))"

definition sql_PutInvoiceToken :: "string \<Rightarrow> string \<Rightarrow> unit sql" where
  "sql_PutInvoiceToken invoiceID0 token0 =
     (let invoiceID = TrimSpace invoiceID0; token = TrimSpace token0 in
      if invoiceID = [] then db_fail (invalid_argument ''invoice_id is required'')
      else if token = [] then db_fail (invalid_argument ''token is required'')
      else
        db_bind (db_query (\<lambda>t. list_ex (\<lambda>r. ir_invoice_id r = invoiceID) (t_invoices t))) (\<lambda>b.
        if \<not> b then db_fail ErrNotFound
        else
          db_bind (encryptToken invoiceID token) (\<lambda>enc.
          db_bind (set_token invoiceID enc) (\<lambda>n.
          if n > 0 then db_return ()
          else (\<lambda>s. case sql_exec (db_insert t_invoice_tokens t_invoice_tokens_update token_clash (invoiceID, enc)) s of
              (Inr _, s) \<Rightarrow> (Inr (), s)
            | (Inl e, s) \<Rightarrow>
                if isUniqueViolation e then db_bind (set_token invoiceID enc) (\<lambda>_. db_return ()) s
                else (Inl e, s))))))"

definition sql_GetInvoiceToken :: "string \<Rightarrow> string option sql" where
  "sql_GetInvoiceToken invoiceID0 =
     (let invoiceID = TrimSpace invoiceID0 in
      if invoiceID = [] then db_return None
      else
        db_bind (db_query (\<lambda>t. map_of (t_invoice_tokens t) invoiceID)) (\<lambda>enc.
        case enc of
          None \<Rightarrow> db_return None
        | Some enc \<Rightarrow> db_bind (decryptToken ''sqlite: token ciphertext too short'' invoiceID enc) (\<lambda>tok. db_return (Some tok))))"

section \<open>Refunds\<close>

definition given :: "string \<Rightarrow> string option" where
  "given v = (if v = [] then None else Some v)"

text \<open>The invoice a refund names belongs to its merchant.\<close>

definition refund_invoice_ok :: "string \<Rightarrow> string \<Rightarrow> unit sql" where
  "refund_invoice_ok merchantID invoiceID =
     (if invoiceID = [] then db_return ()
      else
        db_bind (db_query (\<lambda>t. map_option ir_merchant_id (find (\<lambda>r. ir_invoice_id r = invoiceID) (t_invoices t)))) (\<lambda>m.
        case m of
          None \<Rightarrow> db_fail ErrNotFound
        | Some m \<Rightarrow> if m \<noteq> merchantID then db_fail ErrForbidden else db_return ()))"

definition sql_CreateRefund :: "RefundCreate \<Rightarrow> Refund sql" where
  "sql_CreateRefund req0 =
     (let merchantID = TrimSpace (rfc_MerchantID req0); invoiceID = TrimSpace (rfc_InvoiceID req0);
          externalRefundID = TrimSpace (rfc_ExternalRefundID req0); toAddress = TrimSpace (rfc_ToAddress req0);
          sentTxID = TrimSpace (rfc_SentTxID req0); notes = TrimSpace (rfc_Notes req0) in
      if merchantID = [] then db_fail (invalid_argument ''merchant_id is required'')
      else if toAddress = [] then db_fail (invalid_argument ''to_address is required'')
      else if rfc_AmountZat req0 \<le> 0 then db_fail (invalid_argument ''amount_zat must be > 0'')
      else
        db_bind (newID ''refund'') (\<lambda>refundID.
        let status = (if sentTxID \<noteq> [] then RefundSent else RefundRequested) in
        db_bind db_now (\<lambda>now.
        sql_tx (
          db_bind (merchant_exists merchantID) (\<lambda>_.
          db_bind (refund_invoice_ok merchantID invoiceID) (\<lambda>_.
          db_bind (sql_exec (db_insert_auto t_refunds t_refunds_update n_refunds n_refunds_update refund_clash
            (\<lambda>n. \<lparr>fr_id = n, fr_refund_id = refundID, fr_merchant_id = merchantID, fr_invoice_id = given invoiceID,
               fr_external_refund_id = given externalRefundID, fr_to_address = toAddress,
               fr_amount_zat = rfc_AmountZat req0, fr_status = status, fr_sent_txid = given sentTxID, fr_notes = notes,
               fr_created_at = Unix now, fr_updated_at = Unix now\<rparr>))) (\<lambda>_.
          db_bind (if invoiceID \<noteq> [] then
              insertInvoiceEventTx invoiceID (if status = RefundSent then InvoiceEventRefundSent
                else InvoiceEventRefundRequested) now None (Some refundID)
            else db_return ()) (\<lambda>_.
          db_return (Commit \<lparr>rf_RefundID = refundID, rf_MerchantID = merchantID, rf_InvoiceID = given invoiceID,
            rf_ExternalRefundID = given externalRefundID, rf_ToAddress = toAddress, rf_AmountZat = rfc_AmountZat req0,
            rf_Status = status, rf_SentTxID = given sentTxID, rf_Notes = notes,
            rf_CreatedAt = now, rf_UpdatedAt = now\<rparr>)))))))))"

definition sql_ListRefunds :: "RefundFilter \<Rightarrow> (Refund list \<times> int64) sql" where
  "sql_ListRefunds f =
     (let merchantID = TrimSpace (rff_MerchantID f); invoiceID = TrimSpace (rff_InvoiceID f);
          afterID = (if rff_AfterID f < 0 then 0 else rff_AfterID f); limit = norm_limit (rff_Limit f) in
      db_query (\<lambda>t.
        let rows = sql_limit limit (sort_key fr_id (filter (\<lambda>r. int (fr_id r) > afterID \<and>
              (merchantID = [] \<or> fr_merchant_id r = merchantID) \<and>
              (invoiceID = [] \<or> fr_invoice_id r = Some invoiceID) \<and>
              (case rff_Status f of None \<Rightarrow> True | Some st \<Rightarrow> fr_status r = st)) (t_refunds t)))
        in (map sql_refund rows, last_num fr_id rows)))"

section \<open>The review queue\<close>

definition sql_review :: "ReviewRow \<Rightarrow> ReviewCase" where
  "sql_review r = \<lparr>rc_ReviewID = vr_review_id r, rc_MerchantID = vr_merchant_id r,
     rc_InvoiceID = nonblank (vr_invoice_id r), rc_Reason = vr_reason r, rc_Status = vr_status r,
     rc_Notes = vr_notes r, rc_CreatedAt = unix_time (vr_created_at r), rc_UpdatedAt = unix_time (vr_updated_at r)\<rparr>"

definition sql_ListReviewCases :: "ReviewCaseFilter \<Rightarrow> ReviewCase list sql" where
  "sql_ListReviewCases f =
     (let merchantID = TrimSpace (rvf_MerchantID f) in
      db_query (\<lambda>t. map sql_review (rev (sort_key vr_id (filter (\<lambda>r.
        (merchantID = [] \<or> vr_merchant_id r = merchantID) \<and>
        (case rvf_Status f of None \<Rightarrow> True | Some st \<Rightarrow> vr_status r = st)) (t_review_cases t))))))"

text \<open>The statement of both: the status is a column of \<open>idx_review_cases_invoice_unique\<close>.\<close>

definition close_review :: "ReviewStatus \<Rightarrow> string \<Rightarrow> string \<Rightarrow> unit sql" where
  "close_review status reviewID notes =
     db_bind db_now (\<lambda>now.
     db_bind (sql_exec (db_update_unique t_review_cases t_review_cases_update review_clash
       (\<lambda>r. vr_review_id r = reviewID)
       (\<lambda>r. r\<lparr>vr_status := status, vr_notes := notes, vr_updated_at := Unix now\<rparr>))) (\<lambda>n.
     if n = 0 then db_fail ErrNotFound else db_return ()))"

definition sql_ResolveReviewCase :: "string \<Rightarrow> string \<Rightarrow> unit sql" where
  "sql_ResolveReviewCase reviewID0 notes0 =
     (let reviewID = TrimSpace reviewID0; notes = TrimSpace notes0 in
      if reviewID = [] then db_fail (invalid_argument ''review_id is required'')
      else if notes = [] then db_fail (invalid_argument ''notes is required'')
      else close_review ReviewResolved reviewID notes)"

definition sql_RejectReviewCase :: "string \<Rightarrow> string \<Rightarrow> unit sql" where
  "sql_RejectReviewCase reviewID0 notes0 =
     (let reviewID = TrimSpace reviewID0; notes = TrimSpace notes0 in
      if reviewID = [] then db_fail (invalid_argument ''review_id is required'')
      else if notes = [] then db_fail (invalid_argument ''notes is required'')
      else close_review ReviewRejected reviewID notes)"

end
