(* ===== verification/SqlDeposits.thy ===== *)
theory SqlDeposits
  imports SqlInvoices DepositStore
begin

text \<open>
  \<open>internal/store/sqlstore/sqlstore.go\<close>, deposits: the scan events, the confirmations, the amounts and the
  status of an invoice, and the backfill of \<open>Init\<close>.
\<close>

section \<open>The status of an invoice\<close>

definition computeInvoiceStatusSQL :: "int64 \<Rightarrow> int64 \<Rightarrow> int64 \<Rightarrow> bool \<Rightarrow> LatePaymentPolicy \<Rightarrow> InvoiceStatus" where
  "computeInvoiceStatusSQL amountZat pendingZat confirmedZat expired latePolicy =
     (let total = wrap64 (pendingZat + confirmedZat) in
      if total = 0 \<and> expired then InvoiceExpired
      else if total = 0 then InvoiceOpen
      else if confirmedZat > amountZat then InvoiceOverpaid
      else if confirmedZat = amountZat then
        (if expired \<and> latePolicy = LatePaymentMarkPaidLate then InvoicePaidLate else InvoiceConfirmed)
      else if total \<ge> amountZat then InvoicePending
      else if confirmedZat > 0 then InvoicePartialConfirmed
      else InvoicePartialPending)"

text \<open>The \<open>CASE\<close> of the backfill; SQL adds past 64 bits in floating point, which keeps these comparisons.\<close>

definition backfill_status :: "int64 \<Rightarrow> InvoiceRow \<Rightarrow> InvoiceStatus" where
  "backfill_status nowUnix r =
     (let total = ir_received_pending_zat r + ir_received_confirmed_zat r;
          expired = (case ir_expires_at r of None \<Rightarrow> False | Some at \<Rightarrow> at < nowUnix) in
      if total = 0 \<and> expired then InvoiceExpired
      else if total = 0 then InvoiceOpen
      else if ir_received_confirmed_zat r > ir_amount_zat r then InvoiceOverpaid
      else if ir_received_confirmed_zat r = ir_amount_zat r then
        (if expired \<and> pol_LatePayment (ir_policies r) = LatePaymentMarkPaidLate then InvoicePaidLate
         else InvoiceConfirmed)
      else if total \<ge> ir_amount_zat r then InvoicePending
      else if ir_received_confirmed_zat r > 0 then InvoicePartialConfirmed
      else InvoicePartialPending)"

text \<open>\<open>Init\<close> of a database that has the tables: \<open>n\<close> statements \<open>CREATE ... IF NOT EXISTS\<close> in a transaction,
  the \<open>ALTER TABLE\<close>, which fails on the duplicate column, and the backfill.\<close>

definition isAlreadyExists :: "store_error \<Rightarrow> bool" where
  "isAlreadyExists e = (case e of OtherError m \<Rightarrow> Contains ''already exists'' (ToLower m) | _ \<Rightarrow> False)"

definition schema_stmt :: "nat \<Rightarrow> unit sql" where
  "schema_stmt _ s = (case db_query (\<lambda>_. ()) s of
       (Inr _, s) \<Rightarrow> (Inr (), s)
     | (Inl e, s) \<Rightarrow> if isAlreadyExists e then (Inr (), s) else (Inl e, s))"

definition alter_stmt :: "unit sql" where
  "alter_stmt s = (case db_stmt (\<lambda>t. (Inl (OtherError ''duplicate column name: last_event_at''), t)) s of
       (Inr (), s) \<Rightarrow> (Inr (), s)
     | (Inl (OtherError m), s) \<Rightarrow>
         if Contains ''duplicate'' (ToLower m) \<or> Contains ''already exists'' (ToLower m) then (Inr (), s)
         else (Inl (OtherError m), s)
     | (Inl e, s) \<Rightarrow> (Inl e, s))"

definition sql_Init :: "nat \<Rightarrow> unit sql" where
  "sql_Init n =
     db_bind (sql_tx (db_bind (db_for [0..<n] schema_stmt) (\<lambda>_. db_return (Commit ())))) (\<lambda>_.
     db_bind alter_stmt (\<lambda>_.
     db_bind db_now (\<lambda>now.
     db_bind (sql_exec (db_update t_invoices t_invoices_update (\<lambda>r. ir_status r \<noteq> InvoiceCanceled)
       (\<lambda>r. r\<lparr>ir_status := backfill_status (Unix now) r\<rparr>))) (\<lambda>_. db_return ()))))"

section \<open>The amounts of an invoice\<close>

text \<open>\<open>SUM\<close> of a column of integers: an error when a partial sum leaves the 64 bits.\<close>

fun sql_sum :: "int64 \<Rightarrow> int64 list \<Rightarrow> int64 option" where
  "sql_sum acc [] = Some acc"
| "sql_sum acc (x # xs) = (if in_int64 (acc + x) then sql_sum (acc + x) xs else None)"

definition deposit_amounts :: "string \<Rightarrow> DepositStatus set \<Rightarrow> Tables \<Rightarrow> int64 list" where
  "deposit_amounts invoiceID sts t = map dr_amount_zat
     (filter (\<lambda>d. dr_invoice_id d = Some invoiceID \<and> dr_status d \<in> sts) (t_deposits t))"

definition select_sum :: "string \<Rightarrow> DepositStatus set \<Rightarrow> int64 sql" where
  "select_sum invoiceID sts = db_stmt (\<lambda>t. (case sql_sum 0 (deposit_amounts invoiceID sts t) of
     None \<Rightarrow> Inl (OtherError ''integer overflow'') | Some n \<Rightarrow> Inr n, t))"

definition insert_review :: "(string \<Rightarrow> nat \<Rightarrow> ReviewRow) \<Rightarrow> unit sql" where
  "insert_review row =
     db_bind (newID ''rev'') (\<lambda>reviewID.
     db_bind (execTxIgnoreUnique (db_insert_auto t_review_cases t_review_cases_update n_review_cases
       n_review_cases_update review_clash (row reviewID))) (\<lambda>_. db_return ()))"

definition invoice_review :: "string \<Rightarrow> string \<Rightarrow> ReviewReason \<Rightarrow> string \<Rightarrow> int64 \<Rightarrow> string \<Rightarrow> nat \<Rightarrow> ReviewRow" where
  "invoice_review merchantID invoiceID reason notes updatedAtUnix reviewID n =
     \<lparr>vr_id = n, vr_review_id = reviewID, vr_merchant_id = merchantID, vr_invoice_id = Some invoiceID,
      vr_reason = reason, vr_status = ReviewOpen, vr_notes = notes, vr_deposit = None,
      vr_created_at = updatedAtUnix, vr_updated_at = updatedAtUnix\<rparr>"

definition sql_status_event :: "string \<Rightarrow> InvoiceStatus \<Rightarrow> time \<Rightarrow> unit sql" where
  "sql_status_event invoiceID newStatus now =
     (if newStatus = InvoiceExpired then insertInvoiceEventTx invoiceID InvoiceEventInvoiceExpired now None None
      else if newStatus = InvoiceConfirmed \<or> newStatus = InvoicePaidLate then
        insertInvoiceEventTx invoiceID InvoiceEventInvoicePaid now None None
      else if newStatus = InvoiceOverpaid then insertInvoiceEventTx invoiceID InvoiceEventInvoiceOverpaid now None None
      else db_return ())"

definition sql_status_review :: "InvoiceRow \<Rightarrow> InvoiceStatus \<Rightarrow> bool \<Rightarrow> int64 \<Rightarrow> int64 \<Rightarrow> unit sql" where
  "sql_status_review iv newStatus expired confirmedSum updatedAtUnix =
     (let review = (\<lambda>reason notes. insert_review
            (invoice_review (ir_merchant_id iv) (ir_invoice_id iv) reason notes updatedAtUnix)) in
      if newStatus = InvoicePartialConfirmed \<and> pol_PartialPayment (ir_policies iv) = PartialPaymentReject then
        review ReviewPartialPayment ''partial payment requires review''
      else if newStatus = InvoiceOverpaid \<and> pol_Overpayment (ir_policies iv) = OverpaymentManualReview then
        review ReviewOverpayment ''overpayment requires review''
      else if (newStatus = InvoiceConfirmed \<or> newStatus = InvoicePaidLate) \<and> expired \<and>
          confirmedSum = ir_amount_zat iv \<and> pol_LatePayment (ir_policies iv) = LatePaymentManualReview then
        review ReviewLatePayment ''late payment requires review''
      else db_return ())"

definition set_amounts :: "int64 \<Rightarrow> int64 \<Rightarrow> InvoiceStatus \<Rightarrow> int64 \<Rightarrow> InvoiceRow \<Rightarrow> InvoiceRow" where
  "set_amounts pendingSum confirmedSum newStatus updatedAtUnix r =
     r\<lparr>ir_received_pending_zat := pendingSum, ir_received_confirmed_zat := confirmedSum, ir_status := newStatus,
       ir_updated_at := updatedAtUnix\<rparr>"

definition recomputeInvoiceAggregatesTx :: "string \<Rightarrow> time \<Rightarrow> unit sql" where
  "recomputeInvoiceAggregatesTx invoiceID0 now0 =
     (let invoiceID = TrimSpace invoiceID0 in
      if invoiceID = [] then db_return ()
      else
        db_bind (if IsZero now0 then db_now else db_return now0) (\<lambda>now.
        db_bind (select_sum invoiceID {DepositDetected, DepositUnconfirmed}) (\<lambda>pendingSum.
        db_bind (select_sum invoiceID {DepositConfirmed}) (\<lambda>confirmedSum.
        db_bind (db_query (\<lambda>t. find (\<lambda>r. ir_invoice_id r = invoiceID) (t_invoices t))) (\<lambda>iv.
        case iv of
          None \<Rightarrow> db_fail (OtherError ''sql: no rows in result set'')
        | Some iv \<Rightarrow>
            (let expired = (case ir_expires_at iv of None \<Rightarrow> False | Some at \<Rightarrow> Unix now > at);
                 newStatus = computeInvoiceStatusSQL (ir_amount_zat iv) pendingSum confirmedSum expired
                   (pol_LatePayment (ir_policies iv)) in
             db_bind (sql_exec (db_update t_invoices t_invoices_update (\<lambda>r. ir_invoice_id r = invoiceID)
               (set_amounts pendingSum confirmedSum newStatus (Unix now)))) (\<lambda>_.
             if newStatus = ir_status iv then db_return ()
             else
               db_bind (sql_status_event invoiceID newStatus now) (\<lambda>_.
               sql_status_review iv newStatus expired confirmedSum (Unix now)))))))))"

section \<open>A deposit of the scanner\<close>

definition merge_row :: "string \<Rightarrow> string \<Rightarrow> int64 \<Rightarrow> int64 \<Rightarrow> DepositStatus \<Rightarrow> string option \<Rightarrow> int64 \<Rightarrow> DepositRow
    \<Rightarrow> DepositRow" where
  "merge_row addr addrHash amountZat height status invoiceID updatedAtUnix r =
     r\<lparr>dr_recipient_address := addr, dr_recipient_address_hash := addrHash, dr_amount_zat := amountZat,
       dr_height := height,
       dr_status := (if dr_status r = DepositConfirmed \<and> status = DepositDetected then dr_status r else status),
       dr_confirmed_height := (if status = DepositUnconfirmed \<or> status = DepositOrphaned then None
         else dr_confirmed_height r),
       dr_invoice_id := (case dr_invoice_id r of Some i \<Rightarrow> Some i | None \<Rightarrow> invoiceID),
       dr_updated_at := updatedAtUnix\<rparr>"

definition update_deposit :: "string \<Rightarrow> string \<Rightarrow> int32 \<Rightarrow> (DepositRow \<Rightarrow> DepositRow) \<Rightarrow> nat sql" where
  "update_deposit walletID txid actionIndex f = sql_exec (db_update t_deposits t_deposits_update
     (\<lambda>r. dr_wallet_id r = walletID \<and> dr_txid r = txid \<and> dr_action_index r = actionIndex) f)"

text \<open>The merchant of a wallet: the empty string when it has none, an error when it has two.\<close>

fun one_merchant :: "string \<Rightarrow> string list \<Rightarrow> string option" where
  "one_merchant m [] = Some m"
| "one_merchant m (x # xs) = (if m \<noteq> [] \<and> m \<noteq> x then None else one_merchant x xs)"

definition unknown_review :: "string \<Rightarrow> string \<Rightarrow> string \<Rightarrow> int32 \<Rightarrow> string \<Rightarrow> int64 \<Rightarrow> string \<Rightarrow> nat \<Rightarrow> ReviewRow" where
  "unknown_review merchantID notes walletID actionIndex txid updatedAtUnix reviewID n =
     \<lparr>vr_id = n, vr_review_id = reviewID, vr_merchant_id = merchantID, vr_invoice_id = None,
      vr_reason = ReviewUnknownAddress, vr_status = ReviewOpen, vr_notes = notes,
      vr_deposit = Some (walletID, txid, actionIndex),
      vr_created_at = updatedAtUnix, vr_updated_at = updatedAtUnix\<rparr>"

definition unknown_deposit :: "string \<Rightarrow> string \<Rightarrow> int32 \<Rightarrow> string \<Rightarrow> int64 \<Rightarrow> int64 \<Rightarrow> int64 \<Rightarrow> unit sql" where
  "unknown_deposit walletID txid actionIndex addr amountZat height updatedAtUnix =
     db_bind (db_query (\<lambda>t. map wr_merchant_id (filter (\<lambda>w. wr_wallet_id w = walletID) (t_merchant_wallets t)))) (\<lambda>ms.
     case one_merchant [] ms of
       None \<Rightarrow> db_fail (OtherError (''wallet_id is mapped to multiple merchants''))
     | Some merchantID \<Rightarrow>
         if merchantID = [] then db_return ()
         else insert_review (unknown_review merchantID
           (unknown_notes walletID txid actionIndex addr amountZat height) walletID actionIndex txid updatedAtUnix))"

text \<open>The body of \<open>applyDepositEventTx\<close> after the payload is decoded.\<close>

definition apply_deposit_tx :: "ScanEvent \<Rightarrow> time \<Rightarrow> DepositStatus \<Rightarrow> 'z DepositEventPayload_scheme \<Rightarrow> unit sql" where
  "apply_deposit_tx ev now status p =
     (let walletID = de_WalletID p; txid = de_TxID p; actionIndex = wrap32 (int (de_ActionIndex p));
          amountZat = wrap64 (int (de_AmountZatoshis p)); height = de_Height p;
          addr = ToLower (TrimSpace (de_RecipientAddress p)) in
      db_bind (hash32Bytes addr) (\<lambda>addrHash.
      db_bind (db_query (\<lambda>t. find (\<lambda>r. ir_wallet_id r = walletID \<and> ir_address_hash r = addrHash) (t_invoices t))) (\<lambda>iv.
      let applied = (case iv of None \<Rightarrow> None
            | Some r \<Rightarrow> if height > ir_created_after_height r \<and> ir_invoice_id r \<noteq> [] then Some (ir_invoice_id r) else None);
          detectedAtUnix = (if IsZero (se_OccurredAt ev) then Unix now else Unix (se_OccurredAt ev));
          updatedAtUnix = Unix now;
          update = update_deposit walletID txid actionIndex
            (merge_row addr addrHash amountZat height status applied updatedAtUnix) in
      db_bind update (\<lambda>n.
      db_bind (if n > 0 then db_return ()
        else
          db_bind (execTxIgnoreUnique (db_insert_auto t_deposits t_deposits_update n_deposits n_deposits_update deposit_clash
            (\<lambda>n. \<lparr>dr_seq = n, dr_wallet_id = walletID, dr_txid = txid, dr_action_index = actionIndex,
               dr_recipient_address = addr, dr_recipient_address_hash = addrHash, dr_amount_zat = amountZat,
               dr_height = height, dr_status = status, dr_confirmed_height = None, dr_invoice_id = applied,
               dr_detected_at = detectedAtUnix, dr_updated_at = updatedAtUnix\<rparr>))) (\<lambda>inserted.
          if inserted then db_return () else db_bind update (\<lambda>_. db_return ()))) (\<lambda>_.
      case applied of
        None \<Rightarrow> unknown_deposit walletID txid actionIndex addr amountZat height updatedAtUnix
      | Some invoiceID \<Rightarrow>
          (let depRef = \<lparr>dref_WalletID = walletID, dref_TxID = txid, dref_ActionIndex = actionIndex,
                         dref_AmountZat = amountZat, dref_Height = height\<rparr> in
           db_bind (if status = DepositDetected then
               insertInvoiceEventTx invoiceID InvoiceEventDepositDetected (se_OccurredAt ev) (Some depRef) None
             else if status = DepositConfirmed then
               insertInvoiceEventTx invoiceID InvoiceEventDepositConfirmed (se_OccurredAt ev) (Some depRef) None
             else db_return ()) (\<lambda>_.
           recomputeInvoiceAggregatesTx invoiceID now)))))))"

text \<open>A deposit the node calls confirmed is recorded as detected: the confirmations that an invoice requires are
  counted by \<open>UpdateInvoiceConfirmations\<close>.\<close>

definition applyDepositEventTx :: "ScanEvent \<Rightarrow> unit sql" where
  "applyDepositEventTx ev =
     db_bind db_now (\<lambda>now.
     if se_Kind ev = ''DepositEvent'' then
       (case unmarshal DepositEventPayload_fields zero_DepositEventPayload (se_Payload ev) of
          None \<Rightarrow> db_fail json_error | Some p \<Rightarrow> apply_deposit_tx ev now DepositDetected p)
     else if se_Kind ev = ''DepositConfirmed'' then
       (case unmarshal DepositConfirmedPayload_fields zero_DepositConfirmedPayload (se_Payload ev) of
          None \<Rightarrow> db_fail json_error | Some p \<Rightarrow> apply_deposit_tx ev now DepositDetected p)
     else if se_Kind ev = ''DepositUnconfirmed'' then
       (case unmarshal DepositUnconfirmedPayload_fields zero_DepositUnconfirmedPayload (se_Payload ev) of
          None \<Rightarrow> db_fail json_error | Some p \<Rightarrow> apply_deposit_tx ev now DepositUnconfirmed p)
     else if se_Kind ev = ''DepositOrphaned'' then
       (case unmarshal DepositOrphanedPayload_fields zero_DepositOrphanedPayload (se_Payload ev) of
          None \<Rightarrow> db_fail json_error | Some p \<Rightarrow> apply_deposit_tx ev now DepositOrphaned p)
     else db_return ())"

section \<open>The scanner operations\<close>

definition row_cursor :: "string \<Rightarrow> Tables \<Rightarrow> int64" where
  "row_cursor walletID t = (case find (\<lambda>r. cr_wallet_id r = walletID) (t_scan_cursors t) of
     None \<Rightarrow> 0 | Some r \<Rightarrow> cr_cursor_id r)"

definition sql_ScanCursor :: "string \<Rightarrow> int64 sql" where
  "sql_ScanCursor walletID0 =
     (let walletID = TrimSpace walletID0 in
      if walletID = [] then db_fail (invalid_argument ''wallet_id is required'')
      else db_query (row_cursor walletID))"

definition sql_max :: "int64 list \<Rightarrow> int64 option" where
  "sql_max xs = (case xs of [] \<Rightarrow> None | x # xs \<Rightarrow> Some (foldl max x xs))"

definition sql_ScannerStatus :: "(int64 \<times> time option) sql" where
  "sql_ScannerStatus = db_query (\<lambda>t.
     (case sql_max (map cr_cursor_id (t_scan_cursors t)) of None \<Rightarrow> 0 | Some n \<Rightarrow> n,
      map_option unix_time (sql_max (List.map_filter cr_last_event_at (t_scan_cursors t)))))"

definition move_cursor :: "string \<Rightarrow> int64 \<Rightarrow> int64 \<Rightarrow> nat sql" where
  "move_cursor walletID cursor lastEventAtUnix = sql_exec (db_update t_scan_cursors t_scan_cursors_update
     (\<lambda>r. cr_wallet_id r = walletID \<and> cr_cursor_id r < cursor)
     (\<lambda>r. r\<lparr>cr_cursor_id := cursor, cr_last_event_at := Some lastEventAtUnix\<rparr>))"

definition scan_event_tx :: "ScanEvent \<Rightarrow> unit tx_end sql" where
  "scan_event_tx ev =
     db_bind (db_query (row_cursor (se_WalletID ev))) (\<lambda>cur.
     if se_Cursor ev \<le> cur then db_return (Rollback ())
     else
       db_bind (if se_Kind ev \<in> {''DepositEvent'', ''DepositConfirmed'', ''DepositUnconfirmed'', ''DepositOrphaned''}
         then applyDepositEventTx ev else db_return ()) (\<lambda>_.
       db_bind (if IsZero (se_OccurredAt ev) then db_now else db_return (se_OccurredAt ev)) (\<lambda>lastEventAt.
       db_bind (move_cursor (se_WalletID ev) (se_Cursor ev) (Unix lastEventAt)) (\<lambda>n.
       db_bind (if n > 0 then db_return ()
         else
           db_bind (execTxIgnoreUnique (db_insert t_scan_cursors t_scan_cursors_update cursor_clash
             \<lparr>cr_wallet_id = se_WalletID ev, cr_cursor_id = se_Cursor ev,
              cr_last_event_at = Some (Unix lastEventAt)\<rparr>)) (\<lambda>inserted.
           if inserted then db_return ()
           else db_bind (move_cursor (se_WalletID ev) (se_Cursor ev) (Unix lastEventAt)) (\<lambda>_. db_return ()))) (\<lambda>_.
       db_return (Commit ()))))))"

definition sql_ApplyScanEvent :: "ScanEvent \<Rightarrow> unit sql" where
  "sql_ApplyScanEvent ev0 =
     (let ev = ev0\<lparr>se_WalletID := TrimSpace (se_WalletID ev0), se_Kind := TrimSpace (se_Kind ev0)\<rparr> in
      if se_WalletID ev = [] then db_fail (invalid_argument ''wallet_id is required'')
      else if se_Cursor ev \<le> 0 then db_fail (invalid_argument ''cursor must be > 0'')
      else sql_tx (scan_event_tx ev))"

section \<open>Confirmations\<close>

text \<open>The deposits to confirm, each with its invoice and the height it is confirmed at.\<close>

definition confirmable :: "int64 \<Rightarrow> Tables \<Rightarrow> (DepositRow \<times> string \<times> int64) list" where
  "confirmable bestHeight t = List.map_filter (\<lambda>(d, i).
     let required = (if ir_required_confirmations i \<le> 0 then 1 else ir_required_confirmations i) in
     if wrap64 (wrap64 (bestHeight - dr_height d) + 1) < required then None
     else Some (d, ir_invoice_id i, wrap64 (wrap64 (dr_height d + required) - 1)))
     [(d, i). d \<leftarrow> t_deposits t, i \<leftarrow> t_invoices t, dr_invoice_id d = Some (ir_invoice_id i),
        dr_status d = DepositDetected \<and> ir_invoice_id i \<noteq> [] \<and> dr_height d \<le> bestHeight]"

definition confirm_row :: "int64 \<Rightarrow> int64 \<Rightarrow> DepositRow \<Rightarrow> DepositRow" where
  "confirm_row confHeight nowUnix r = r\<lparr>dr_status := DepositConfirmed, dr_confirmed_height := Some confHeight,
     dr_updated_at := nowUnix\<rparr>"

fun confirm_deposits :: "time \<Rightarrow> (DepositRow \<times> string \<times> int64) list \<Rightarrow> unit gomap \<Rightarrow> unit gomap sql" where
  "confirm_deposits now [] affected = db_return affected"
| "confirm_deposits now ((d, invoiceID, confHeight) # ds) affected =
     db_bind (sql_exec (db_update t_deposits t_deposits_update (\<lambda>r. dr_wallet_id r = dr_wallet_id d \<and>
       dr_txid r = dr_txid d \<and> dr_action_index r = dr_action_index d \<and> dr_status r = DepositDetected)
       (confirm_row confHeight (Unix now)))) (\<lambda>n.
     if n = 0 then confirm_deposits now ds affected
     else
       db_bind (insertInvoiceEventTx invoiceID InvoiceEventDepositConfirmed now
         (Some \<lparr>dref_WalletID = dr_wallet_id d, dref_TxID = dr_txid d, dref_ActionIndex = dr_action_index d,
                dref_AmountZat = dr_amount_zat d, dref_Height = dr_height d\<rparr>) None) (\<lambda>_.
       confirm_deposits now ds (mput invoiceID () affected)))"

definition sql_UpdateInvoiceConfirmations :: "int64 \<Rightarrow> unit sql" where
  "sql_UpdateInvoiceConfirmations bestHeight =
     db_bind db_now (\<lambda>now.
     sql_tx (
       db_bind (db_query (confirmable bestHeight)) (\<lambda>toConfirm.
       db_bind (confirm_deposits now toConfirm []) (\<lambda>affected.
       db_bind (db_ranged affected) (\<lambda>affected.
       db_bind (db_for (map fst affected) (\<lambda>invoiceID. recomputeInvoiceAggregatesTx invoiceID now)) (\<lambda>_.
       db_return (Commit ())))))))"

section \<open>Listing deposits\<close>

definition sql_deposit :: "DepositRow \<Rightarrow> Deposit" where
  "sql_deposit r = \<lparr>dp_WalletID = dr_wallet_id r, dp_TxID = dr_txid r, dp_ActionIndex = dr_action_index r,
     dp_RecipientAddress = dr_recipient_address r, dp_AmountZat = dr_amount_zat r, dp_Height = dr_height r,
     dp_Status = dr_status r, dp_ConfirmedHeight = dr_confirmed_height r, dp_InvoiceID = nonblank (dr_invoice_id r),
     dp_DetectedAt = unix_time (dr_detected_at r), dp_UpdatedAt = unix_time (dr_updated_at r)\<rparr>"

definition sql_ListDeposits :: "DepositFilter \<Rightarrow> (Deposit list \<times> int64) sql" where
  "sql_ListDeposits f =
     (let merchantID = TrimSpace (df_MerchantID f); invoiceID = TrimSpace (df_InvoiceID f); txid = TrimSpace (df_TxID f);
          afterID = (if df_AfterID f < 0 then 0 else df_AfterID f); limit = norm_limit (df_Limit f) in
      db_query (\<lambda>t.
        let joined = (if merchantID = [] then t_deposits t
              else [d. d \<leftarrow> t_deposits t, w \<leftarrow> t_merchant_wallets t, wr_wallet_id w = dr_wallet_id d,
                      wr_merchant_id w = merchantID]);
            rows = sql_limit limit (sort_key dr_seq (filter (\<lambda>d. int (dr_seq d) > afterID \<and>
              (invoiceID = [] \<or> dr_invoice_id d = Some invoiceID) \<and> (txid = [] \<or> dr_txid d = txid)) joined))
        in (map sql_deposit rows, last_num dr_seq rows)))"

end
