(* ===== verification/DbLogic.thy ===== *)
theory DbLogic
  imports Database
begin

text \<open>
  How the operations of a store over a database are reasoned about: weakest preconditions of the results that are
  no errors (\<open>wp\<close>), operations that leave the data alone (\<open>reads\<close>), that leave it alone when they fail
  (\<open>atomic\<close>), or that change it within a relation (\<open>within\<close>); and what a statement does to the rows of a
  table, apart from what the rows hold.
\<close>

named_theorems wp_rules \<open>weakest preconditions\<close>
named_theorems reads_rules \<open>operations that leave the tables alone\<close>
named_theorems atomic_rules \<open>operations that leave the tables alone when they fail\<close>
named_theorems within_rules \<open>operations that change the tables within a relation\<close>

lemma db_tick_fields [simp]:
  "db_data (db_tick s) = db_data s" "db_hash (db_tick s) = db_hash s" "db_seal (db_tick s) = db_seal s"
  "db_open (db_tick s) = db_open s" "db_clock (db_tick s) = db_clock s" "db_rand (db_tick s) = db_rand s"
  "db_fault (db_tick s) = db_fault s" "db_order (db_tick s) = db_order s" "db_ticks (db_tick s) = Suc (db_ticks s)"
  by (simp_all add: db_tick_def)

text \<open>An operation uses up readings of its environment and keeps the rest of it.\<close>

definition same_env :: "('db, 'z) DbStore_scheme \<Rightarrow> ('db, 'z) DbStore_scheme \<Rightarrow> bool" where
  "same_env s t \<longleftrightarrow> db_hash t = db_hash s \<and> db_seal t = db_seal s \<and> db_open t = db_open s \<and> db_clock t = db_clock s \<and>
     db_rand t = db_rand s \<and> db_fault t = db_fault s \<and> db_order t = db_order s"

lemma same_env_refl [simp]: "same_env s s"
  by (simp add: same_env_def)

lemma same_env_tick [simp]: "same_env s (db_tick s)" "same_env s (db_tick (s\<lparr>db_data := t\<rparr>))"
  by (simp_all add: same_env_def db_tick_def)

lemma same_env_fields:
  "same_env s t \<longleftrightarrow> db_hash t = db_hash s \<and> db_seal t = db_seal s \<and> db_open t = db_open s \<and> db_clock t = db_clock s \<and>
     db_rand t = db_rand s \<and> db_fault t = db_fault s \<and> db_order t = db_order s"
  by (simp add: same_env_def)

lemma same_env_trans: "same_env s t \<Longrightarrow> same_env t u \<Longrightarrow> same_env s u"
  by (simp add: same_env_fields)

lemma same_env_tables [simp]: "same_env s (t\<lparr>db_data := x\<rparr>) = same_env s t"
  "same_env (s\<lparr>db_data := x\<rparr>) t = same_env s t" "same_env s (db_tick t) = same_env s t"
  "same_env (db_tick s) t = same_env s t"
  by (simp_all add: same_env_fields)

section \<open>Weakest preconditions\<close>

definition wp :: "('a, 's) act \<Rightarrow> ('a \<Rightarrow> 's \<Rightarrow> bool) \<Rightarrow> 's \<Rightarrow> bool" where
  "wp m Q s \<longleftrightarrow> (case m s of (Inl _, _) \<Rightarrow> True | (Inr x, t) \<Rightarrow> Q x t)"

lemma wpD: "wp m Q s \<Longrightarrow> m s = (Inr x, t) \<Longrightarrow> Q x t"
  by (simp add: wp_def)

lemma wpI: "(\<And>x t. m s = (Inr x, t) \<Longrightarrow> Q x t) \<Longrightarrow> wp m Q s"
  by (auto simp: wp_def split: prod.split sum.split)

lemma wp_mono: "wp m Q s \<Longrightarrow> (\<And>x t. Q x t \<Longrightarrow> R x t) \<Longrightarrow> wp m R s"
  by (auto simp: wp_def split: prod.split sum.split)

lemma wp_return [wp_rules]: "Q x s \<Longrightarrow> wp (db_return x) Q s"
  by (simp add: wp_def db_return_def)

lemma wp_fail [wp_rules]: "wp (db_fail e) Q s"
  by (simp add: wp_def db_fail_def)

lemma wp_bind [wp_rules]: "wp m (\<lambda>x. wp (f x) Q) s \<Longrightarrow> wp (db_bind m f) Q s"
  by (auto simp: wp_def db_bind_def split: prod.splits sum.splits)

lemma wp_query [wp_rules]: "Q (f (db_data s)) (db_tick s) \<Longrightarrow> wp (db_query f) Q s"
  by (simp add: wp_def db_query_def db_stmt_def db_tick_def split: option.split)

lemma wp_stmt: "(\<And>x t. f (db_data s) = (Inr x, t) \<Longrightarrow> Q x (db_tick (s\<lparr>db_data := t\<rparr>))) \<Longrightarrow> wp (db_stmt f) Q s"
  by (auto simp: wp_def db_stmt_def split: option.split prod.split sum.split)

lemma wp_now [wp_rules]: "(\<And>now. Q now (db_tick s)) \<Longrightarrow> wp db_now Q s"
  by (simp add: wp_def db_now_def)

lemma wp_rand [wp_rules]: "(\<And>bs. db_rand s (db_ticks s) n = Some bs \<Longrightarrow> Q bs (db_tick s)) \<Longrightarrow> wp (db_random n) Q s"
  by (simp add: wp_def db_random_def split: option.split)

lemma wp_newID [wp_rules]: "(\<And>raw. Q (p @ ''_'' @ hex_encode raw) (db_tick s)) \<Longrightarrow> wp (newID p) Q s"
  unfolding newID_def by (intro wp_rules) simp

lemma wp_hash [wp_rules]: "Q (db_hash s v) s \<Longrightarrow> wp (hash32Bytes v) Q s"
  by (simp add: wp_def hash32Bytes_def)

lemma wp_if [wp_rules]: "(b \<Longrightarrow> wp m Q s) \<Longrightarrow> (\<not> b \<Longrightarrow> wp m' Q s) \<Longrightarrow> wp (if b then m else m') Q s"
  by simp

lemma wp_pair [wp_rules]: "Q x s \<Longrightarrow> wp (\<lambda>s. (Inr x, s)) Q s" "wp (\<lambda>s. (Inl e, s)) Q s"
  by (simp_all add: wp_def)

lemma wp_branch [wp_rules]:
  "(b \<Longrightarrow> wp m Q s) \<Longrightarrow> (\<not> b \<Longrightarrow> wp m' Q s) \<Longrightarrow> wp (\<lambda>s. if b then m s else m' s) Q s"
  by (simp add: wp_def)

lemma wp_option [wp_rules]:
  "(o' = None \<Longrightarrow> wp m Q s) \<Longrightarrow> (\<And>x. o' = Some x \<Longrightarrow> wp (f x) Q s) \<Longrightarrow>
     wp (case o' of None \<Rightarrow> m | Some x \<Rightarrow> f x) Q s"
  by (cases o') auto

text \<open>A query whose outcome is inspected at once.\<close>

lemma wp_catch_query [wp_rules]:
  assumes "wp (f (g (db_data s))) Q (db_tick s)" "\<And>e. wp (h e) Q (db_tick s)"
  shows "wp (\<lambda>s. case db_query g s of (Inr x, t) \<Rightarrow> f x t | (Inl e, t) \<Rightarrow> h e t) Q s"
  using assms by (auto simp: wp_def db_query_def db_stmt_def split: option.split)

lemma wp_for:
  assumes "\<And>x s. x \<in> set xs \<Longrightarrow> P s \<Longrightarrow> wp (f x) (\<lambda>_. P) s" "P s"
  shows "wp (db_for xs f) (\<lambda>_. P) s"
  using assms
proof (induction xs arbitrary: s)
  case Nil
  then show ?case by (simp add: wp_return)
next
  case (Cons x xs)
  have "wp (f x) (\<lambda>_. P) s" using Cons.prems by simp
  then have "wp (f x) (\<lambda>_. wp (db_for xs f) (\<lambda>_. P)) s"
    by (rule wp_mono) (rule Cons.IH, simp_all add: Cons.prems(1))
  then show ?case by (simp add: wp_bind)
qed

section \<open>Operations that leave the tables alone\<close>

definition reads :: "('a, 'db, 'z) db_act \<Rightarrow> bool" where
  "reads m \<longleftrightarrow> (\<forall>s. db_data (snd (m s)) = db_data s \<and> same_env s (snd (m s)))"

lemma readsD: "reads m \<Longrightarrow> m s = (r, t) \<Longrightarrow> db_data t = db_data s"
  by (metis reads_def snd_conv)

lemma reads_basic [reads_rules]:
  "reads (db_return x)" "reads (db_fail e)" "reads (db_query f)" "reads db_now" "reads (db_random n)"
  "reads (hash32Bytes v)" "reads (db_ranged m)"
  by (simp_all add: reads_def db_return_def db_fail_def db_query_def db_stmt_def db_now_def db_random_def
      hash32Bytes_def db_ranged_def split: option.split)

lemma reads_bind [reads_rules]: "reads m \<Longrightarrow> (\<And>x. reads (f x)) \<Longrightarrow> reads (db_bind m f)"
  by (auto simp: reads_def db_bind_def split: prod.splits sum.splits) (metis same_env_trans snd_conv)+

lemma reads_if [reads_rules]: "reads m \<Longrightarrow> reads m' \<Longrightarrow> reads (if b then m else m')"
  by simp

lemma reads_option [reads_rules]: "reads m \<Longrightarrow> (\<And>x. reads (f x)) \<Longrightarrow> reads (case o' of None \<Rightarrow> m | Some x \<Rightarrow> f x)"
  by (cases o') auto

lemma reads_ids [reads_rules]: "reads (newID p)" "reads (encryptToken i t)" "reads (decryptToken msg i enc)"
  unfolding newID_def encryptToken_def decryptToken_def
    apply (intro reads_rules)
   apply (auto simp: reads_def db_bind_def db_random_def split: option.splits prod.splits)
  done

section \<open>Operations that fail without a trace\<close>

definition atomic :: "('a, 'db, 'z) db_act \<Rightarrow> bool" where
  "atomic m \<longleftrightarrow> (\<forall>s e t. m s = (Inl e, t) \<longrightarrow> db_data t = db_data s)"

lemma atomicD: "atomic m \<Longrightarrow> m s = (Inl e, t) \<Longrightarrow> db_data t = db_data s"
  by (simp add: atomic_def)

lemma reads_atomic: "reads m \<Longrightarrow> atomic m"
  by (auto simp: atomic_def dest: readsD)

definition succeeds :: "('a, 's) act \<Rightarrow> bool" where
  "succeeds m \<longleftrightarrow> (\<forall>s e t. m s \<noteq> (Inl e, t))"

lemma succeeds_return: "succeeds (db_return x)"
  by (simp add: succeeds_def db_return_def)

lemma atomic_bind [atomic_rules]: "reads m \<Longrightarrow> (\<And>x. atomic (f x)) \<Longrightarrow> atomic (db_bind m f)"
  unfolding atomic_def db_bind_def
  by (auto split: prod.splits sum.splits dest: readsD)

lemma atomic_last: "atomic m \<Longrightarrow> (\<And>x. succeeds (f x)) \<Longrightarrow> atomic (db_bind m f)"
  unfolding atomic_def succeeds_def db_bind_def by (auto split: prod.splits sum.splits)

lemma atomic_if [atomic_rules]: "(b \<Longrightarrow> atomic m) \<Longrightarrow> (\<not> b \<Longrightarrow> atomic m') \<Longrightarrow> atomic (if b then m else m')"
  by simp

lemma atomic_option [atomic_rules]: "atomic m \<Longrightarrow> (\<And>x. atomic (f x)) \<Longrightarrow> atomic (case o' of None \<Rightarrow> m | Some x \<Rightarrow> f x)"
  by (cases o') auto

lemma atomic_return [atomic_rules]: "atomic (db_return x)" "atomic (db_fail e)"
  by (auto intro: reads_atomic reads_rules)

text \<open>An \<open>UPDATE\<close> of no rows changes none.\<close>

lemma db_update_none:
  assumes "db_update tab upd c f t = Some (0, t')" "\<And>t. upd (\<lambda>_. tab t) t = t"
  shows "t' = t"
proof -
  have "\<forall>r \<in> set (tab t). \<not> c r"
    using assms(1) by (auto simp: db_update_def update_rows_def filter_empty_conv)
  then have "map (\<lambda>r. if c r then f r else r) (tab t) = tab t" by (simp add: map_idI)
  then have "upd (\<lambda>_. tab t) t = t'" using assms(1) by (simp add: db_update_def update_rows_def)
  with assms(2) show ?thesis by metis
qed

section \<open>Operations within a relation\<close>

definition within :: "('db \<Rightarrow> 'db \<Rightarrow> bool) \<Rightarrow> ('a, 'db, 'z) db_act \<Rightarrow> bool" where
  "within R m \<longleftrightarrow> (\<forall>s. R (db_data s) (db_data (snd (m s))) \<and> same_env s (snd (m s)))"

lemma withinD: "within R m \<Longrightarrow> m s = (r, t) \<Longrightarrow> R (db_data s) (db_data t) \<and> same_env s t"
  by (metis within_def snd_conv)

locale table_order =
  fixes R :: "'db \<Rightarrow> 'db \<Rightarrow> bool"
  assumes refl: "R t t" and trans: "R t u \<Longrightarrow> R u v \<Longrightarrow> R t v"
begin

lemma within_reads: "reads m \<Longrightarrow> within R m"
  by (simp add: within_def reads_def refl)

lemma within_bind: "within R m \<Longrightarrow> (\<And>x. within R (f x)) \<Longrightarrow> within R (db_bind m f)"
  unfolding within_def db_bind_def by (auto split: prod.splits sum.splits) (metis snd_conv trans same_env_trans)+

lemma within_if: "within R m \<Longrightarrow> within R m' \<Longrightarrow> within R (if b then m else m')"
  by simp

lemma within_option: "within R m \<Longrightarrow> (\<And>x. within R (f x)) \<Longrightarrow> within R (case o' of None \<Rightarrow> m | Some x \<Rightarrow> f x)"
  by (cases o') auto

lemma within_for: "(\<And>x. within R (f x)) \<Longrightarrow> within R (db_for xs f)"
  by (induction xs) (auto intro: within_reads reads_rules within_bind)

text \<open>An operation whose outcome is inspected at once.\<close>

lemma within_catch:
  assumes "within R m" "\<And>x. within R (f x)" "\<And>e. within R (h e)"
  shows "within R (\<lambda>s. case m s of (Inr x, t) \<Rightarrow> f x t | (Inl e, t) \<Rightarrow> h e t)"
  unfolding within_def
proof
  fix s
  obtain r t where m: "m s = (r, t)" by (cases "m s")
  with assms show "R (db_data s) (db_data (snd (case m s of (Inr x, t) \<Rightarrow> f x t | (Inl e, t) \<Rightarrow> h e t))) \<and>
      same_env s (snd (case m s of (Inr x, t) \<Rightarrow> f x t | (Inl e, t) \<Rightarrow> h e t))"
    by (cases r) (auto simp: within_def intro: same_env_trans trans; metis m snd_conv same_env_trans trans)+
qed

lemma within_branch:
  "within R (\<lambda>s. (r, s))"
  "within R m1 \<Longrightarrow> within R m2 \<Longrightarrow> within R (\<lambda>s. if b then m1 s else m2 s)"
  by (simp_all add: within_def refl)

lemmas within_basic = within_reads [OF reads_basic(1)] within_reads [OF reads_basic(2)]
  within_reads [OF reads_basic(3)] within_reads [OF reads_basic(4)] within_reads [OF reads_basic(5)]
  within_reads [OF reads_basic(6)] within_reads [OF reads_ids(1)] within_reads [OF reads_ids(2)]
  within_reads [OF reads_ids(3)] within_reads [OF reads_basic(7)]

lemmas within_plain = within_basic within_bind within_if within_option within_for

end

section \<open>Rows\<close>

text \<open>A table table_evolves: rows are added at its end, and the rows it had change within a relation.\<close>

definition table_evolves :: "('r \<Rightarrow> 'r \<Rightarrow> bool) \<Rightarrow> 'r list \<Rightarrow> 'r list \<Rightarrow> bool" where
  "table_evolves r xs ys \<longleftrightarrow> length xs \<le> length ys \<and> (\<forall>i < length xs. r (xs ! i) (ys ! i))"

lemma table_evolves_refl: "(\<And>x. r x x) \<Longrightarrow> table_evolves r xs xs"
  by (simp add: table_evolves_def)

lemma table_evolves_trans:
  assumes "\<And>x y z. r x y \<Longrightarrow> r y z \<Longrightarrow> r x z" "table_evolves r xs ys" "table_evolves r ys zs"
  shows "table_evolves r xs zs"
  unfolding table_evolves_def
proof (intro conjI allI impI)
  show "length xs \<le> length zs" using assms(2,3) by (simp add: table_evolves_def)
  fix i assume "i < length xs"
  then have "r (xs ! i) (ys ! i)" "r (ys ! i) (zs ! i)" using assms(2,3) by (simp_all add: table_evolves_def)
  then show "r (xs ! i) (zs ! i)" by (rule assms(1))
qed

lemma table_evolves_append: "(\<And>x. r x x) \<Longrightarrow> table_evolves r xs (xs @ ys)"
  by (simp add: table_evolves_def nth_append)

lemma table_evolves_map: "(\<And>x. x \<in> set xs \<Longrightarrow> r x (f x)) \<Longrightarrow> table_evolves r xs (map f xs)"
  by (simp add: table_evolves_def)

lemma table_evolves_find:
  assumes "table_evolves r xs ys" "\<And>a b. r a b \<Longrightarrow> k a = k b" "find (\<lambda>x. k x = v) xs = Some a"
  shows "\<exists>b. find (\<lambda>x. k x = v) ys = Some b \<and> r a b"
proof -
  obtain i where i: "i < length xs" "k (xs ! i) = v" "a = xs ! i" "\<forall>j < i. k (xs ! j) \<noteq> v"
    using assms(3) by (auto simp: find_Some_iff)
  have kk: "k (ys ! j) = k (xs ! j)" if "j < length xs" for j
    using assms(1) assms(2) that by (metis table_evolves_def)
  have "find (\<lambda>x. k x = v) ys = Some (ys ! i)"
    unfolding find_Some_iff using i kk assms(1) by (intro exI [of _ i]) (auto simp: table_evolves_def)
  moreover have "r a (ys ! i)" using i(1,3) assms(1) by (simp add: table_evolves_def)
  ultimately show ?thesis by blast
qed

lemma table_evolves_mem:
  assumes "table_evolves r xs ys" "a \<in> set xs"
  shows "\<exists>b \<in> set ys. r a b"
proof -
  obtain i where "i < length xs" "a = xs ! i" using assms(2) by (auto simp: in_set_conv_nth)
  with assms(1) show ?thesis by (auto simp: table_evolves_def intro!: bexI [of _ "ys ! i"])
qed

text \<open>What the statements do to a table.\<close>

lemma db_insertE:
  assumes "db_insert tab upd clash r t = Some (n, t')"
  obtains "t' = upd (\<lambda>_. tab t @ [r]) t" "\<forall>x \<in> set (tab t). \<not> clash r x" "n = 1"
  using assms by (auto simp: db_insert_def insert_row_def list_ex_iff split: if_splits)

lemma db_insert_autoE:
  assumes "db_insert_auto tab upd num nupd clash row t = Some (n, t')"
  obtains "t' = upd (\<lambda>_. tab (nupd Suc t) @ [row (Suc (num t))]) (nupd Suc t)"
    "\<forall>x \<in> set (tab (nupd Suc t)). \<not> clash (row (Suc (num t))) x" "n = 1"
  using assms unfolding db_insert_auto_def by (rule db_insertE) 

lemma db_updateE:
  assumes "db_update tab upd c f t = Some (n, t')"
  obtains "t' = upd (\<lambda>_. map (\<lambda>r. if c r then f r else r) (tab t)) t" "n = length (filter c (tab t))"
  using assms by (simp add: db_update_def update_rows_def)

lemma db_update_uniqueE:
  assumes "db_update_unique tab upd clash c f t = Some (n, t')"
  obtains "t' = upd (\<lambda>_. map (\<lambda>r. if c r then f r else r) (tab t)) t" "n = length (filter c (tab t))"
    "no_clash clash (map (\<lambda>r. if c r then f r else r) (tab t))"
  using assms by (auto simp: db_update_unique_def update_rows_def split: if_splits)

text \<open>Unique keys.\<close>

lemma no_clash_append:
  assumes "no_clash clash rs" "\<forall>x \<in> set rs. \<not> clash r x" "\<And>a b. clash a b \<Longrightarrow> clash b a"
  shows "no_clash clash (rs @ [r])"
  using assms(1,2) by (induction rs) (auto simp: list_ex_iff dest: assms(3))

lemma no_clash_map:
  assumes "no_clash clash rs" "\<And>a b. clash (f a) (f b) \<Longrightarrow> clash a b"
  shows "no_clash clash (map f rs)"
  using assms(1) by (induction rs) (auto simp: list_ex_iff dest: assms(2))

lemma no_clashD:
  assumes "no_clash clash rs" "a \<in> set rs" "b \<in> set rs" "clash a b" "\<And>a b. clash a b \<Longrightarrow> clash b a"
  shows "a = b"
  using assms by (induction rs) (auto simp: list_ex_iff)

lemma find_unique:
  assumes "no_clash clash rs" "r \<in> set rs" "\<And>a b. clash a b \<Longrightarrow> clash b a" "P r" "\<And>a. P a \<Longrightarrow> clash a r"
  shows "find P rs = Some r"
proof -
  obtain a where a: "find P rs = Some a" using assms(2,4) by (cases "find P rs") (auto simp: find_None_iff)
  then have "P a" "a \<in> set rs" by (auto simp: find_Some_iff)
  with assms a show ?thesis using no_clashD [OF assms(1)] by metis
qed

end
