(* ===== verification/SqlLogic.thy ===== *)
theory SqlLogic
  imports SqlDeposits DbLogic
begin

text \<open>
  The rules of \<open>DbLogic\<close> for the statements and the transactions of the SQL store.
\<close>

section \<open>Weakest preconditions\<close>

lemma wp_exec [wp_rules]:
  "(\<And>n t. f (db_data s) = Some (n, t) \<Longrightarrow> Q n (db_tick (s\<lparr>db_data := t\<rparr>))) \<Longrightarrow> wp (sql_exec f) Q s"
  unfolding sql_exec_def by (rule wp_stmt) (auto split: option.splits prod.splits)

lemma wp_tx [wp_rules]:
  assumes "wp body (\<lambda>r t. case r of Commit x \<Rightarrow> Q x (db_tick t) | Rollback x \<Rightarrow> Q x (t\<lparr>db_data := db_data s\<rparr>)) (db_tick s)"
  shows "wp (sql_tx body) Q s"
  using assms unfolding sql_tx_def wp_def
  by (auto simp: db_query_def db_stmt_def db_tick_def split: option.splits prod.splits sum.splits tx_end.splits)

lemma wp_execTxIgnoreUnique [wp_rules]:
  assumes "\<And>n t u. f (db_data s) = Some (n, t) \<Longrightarrow> db_data u = t \<Longrightarrow> db_hash u = db_hash s \<Longrightarrow> Q True u"
    and "\<And>u. db_data u = db_data s \<Longrightarrow> db_hash u = db_hash s \<Longrightarrow> Q False u"
  shows "wp (execTxIgnoreUnique f) Q s"
  using assms unfolding execTxIgnoreUnique_def
  by (auto simp: wp_def db_bind_def db_query_def db_stmt_def sql_exec_def sql_ignored_def db_return_def db_tick_def
      split: option.splits prod.splits sum.splits if_splits)

text \<open>A statement whose outcome is inspected at once.\<close>

lemma wp_catch_exec [wp_rules]:
  assumes "\<And>n t. g (db_data s) = Some (n, t) \<Longrightarrow> wp (f n) Q (db_tick (s\<lparr>db_data := t\<rparr>))"
    and "\<And>e. wp (h e) Q (db_tick s)"
  shows "wp (\<lambda>s. case sql_exec g s of (Inr n, t) \<Rightarrow> f n t | (Inl e, t) \<Rightarrow> h e t) Q s"
  using assms by (auto simp: wp_def sql_exec_def db_stmt_def split: option.split prod.split sum.split)

section \<open>Operations that fail without a trace\<close>

lemma atomic_tx [atomic_rules]: "atomic (sql_tx body)"
  unfolding atomic_def sql_tx_def
  by (auto simp: db_query_def db_stmt_def db_tick_def split: option.splits prod.splits sum.splits tx_end.splits)

lemma atomic_exec [atomic_rules]: "atomic (sql_exec f)"
  unfolding atomic_def sql_exec_def db_stmt_def
  by (auto simp: db_tick_def split: option.splits prod.splits)

lemma atomic_update:
  assumes "\<And>t. upd (\<lambda>_. tab t) t = t" "atomic (g 0)" "\<And>n. 0 < n \<Longrightarrow> succeeds (g n)"
  shows "atomic (db_bind (sql_exec (db_update tab upd c f)) g)"
  unfolding atomic_def
proof (intro allI impI)
  fix s e t assume t: "db_bind (sql_exec (db_update tab upd c f)) g s = (Inl e, t)"
  show "db_data t = db_data s"
  proof (cases "sql_exec (db_update tab upd c f) s")
    case (Pair r u)
    show ?thesis
    proof (cases r)
      case (Inl e')
      with Pair t show ?thesis using atomicD [OF atomic_exec] by (auto simp: db_bind_def)
    next
      case (Inr n)
      with Pair t have g: "g n u = (Inl e, t)" by (simp add: db_bind_def)
      with assms(3) have n: "n = 0" by (auto simp: succeeds_def)
      have "db_data u = db_data s"
        using Pair Inr n db_update_none [where tab = tab and upd = upd and c = c and f = f and t = "db_data s", OF _ assms(1)]
        by (auto simp: sql_exec_def db_stmt_def db_tick_def split: option.splits prod.splits)
      with g n assms(2) show ?thesis by (auto simp: atomic_def)
    qed
  qed
qed

section \<open>Operations within a relation\<close>

context table_order
begin

lemma within_exec: "(\<And>t n t'. f t = Some (n, t') \<Longrightarrow> R t t') \<Longrightarrow> within R (sql_exec f)"
  unfolding within_def sql_exec_def db_stmt_def by (auto simp: refl split: option.splits prod.splits)

lemma within_execTxIgnoreUnique: "(\<And>t n t'. f t = Some (n, t') \<Longrightarrow> R t t') \<Longrightarrow> within R (execTxIgnoreUnique f)"
  unfolding within_def execTxIgnoreUnique_def
  by (auto simp: refl db_bind_def db_query_def db_stmt_def sql_exec_def sql_ignored_def db_return_def
      split: option.splits prod.splits sum.splits if_splits)

lemma within_tx:
  assumes "within R body"
  shows "within R (sql_tx body)"
  unfolding within_def
proof
  fix s
  let ?b = "snd (body (db_tick s))"
  have "R (db_data s) (db_data ?b)" "same_env s ?b"
    using assms [unfolded within_def, rule_format, of "db_tick s"] by simp_all
  then show "R (db_data s) (db_data (snd (sql_tx body s))) \<and> same_env s (snd (sql_tx body s))"
    by (auto simp: refl sql_tx_def db_query_def db_stmt_def split: option.split prod.split sum.split tx_end.split)
qed

lemmas within_intros = within_plain within_tx

end

end
