(* ===== verification/SqlModel.thy ===== *)
theory SqlModel
  imports SqlLogic
begin

text \<open>
  The SQL store as a whole: the value of the \<open>Store\<close> interface its operations make up, the calls of a
  run with their outcomes, and two facts of every call: one that fails has changed no table, and any call
  only adds rows and changes the columns the code means to change.
\<close>

section \<open>The store\<close>

definition sql_Store :: "SqlStore Store" where
  "sql_Store = \<lparr>
     st_CreateMerchant = sql_CreateMerchant, st_GetMerchant = sql_GetMerchant, st_ListMerchants = sql_ListMerchants,
     st_UpdateMerchantSettings = sql_UpdateMerchantSettings, st_SetMerchantWallet = sql_SetMerchantWallet,
     st_GetMerchantWallet = sql_GetMerchantWallet, st_ListMerchantWallets = sql_ListMerchantWallets,
     st_NextAddressIndex = sql_NextAddressIndex, st_CreateMerchantAPIKey = sql_CreateMerchantAPIKey,
     st_RevokeMerchantAPIKey = sql_RevokeMerchantAPIKey,
     st_LookupMerchantIDByAPIKey = sql_LookupMerchantIDByAPIKey,
     st_ListMerchantAPIKeys = sql_ListMerchantAPIKeys, st_CreateInvoice = sql_CreateInvoice,
     st_GetInvoice = sql_GetInvoice, st_FindInvoiceByExternalOrderID = sql_FindInvoiceByExternalOrderID,
     st_ListInvoices = sql_ListInvoices, st_PutInvoiceToken = sql_PutInvoiceToken,
     st_GetInvoiceToken = sql_GetInvoiceToken, st_ScanCursor = sql_ScanCursor, st_ApplyScanEvent = sql_ApplyScanEvent,
     st_UpdateInvoiceConfirmations = sql_UpdateInvoiceConfirmations, st_ListInvoiceEvents = sql_ListInvoiceEvents,
     st_ListDeposits = sql_ListDeposits, st_CreateRefund = sql_CreateRefund, st_ListRefunds = sql_ListRefunds,
     st_ListReviewCases = sql_ListReviewCases, st_ResolveReviewCase = sql_ResolveReviewCase,
     st_RejectReviewCase = sql_RejectReviewCase, st_CreateEventSink = sql_CreateEventSink,
     st_GetEventSink = sql_GetEventSink, st_ListEventSinks = sql_ListEventSinks,
     st_ListOutboundEvents = sql_ListOutboundEvents, st_ListEventDeliveries = sql_ListEventDeliveries,
     st_ListDueDeliveries = sql_ListDueDeliveries, st_UpdateEventDelivery = sql_UpdateEventDelivery,
     st_ScannerStatus = sql_ScannerStatus, st_PendingDeliveries = sql_PendingDeliveries\<rparr>"

text \<open>One call, with the error it returns.\<close>

fun failure :: "'e + 'a \<Rightarrow> 'e option" where
  "failure (Inl e) = Some e" | "failure (Inr _) = None"

inductive sql_call :: "SqlStore \<Rightarrow> store_error option \<Rightarrow> SqlStore \<Rightarrow> bool" where
  "sql_CreateMerchant name settings s = (r1, t) \<Longrightarrow> sql_call s (failure r1) t"
| "sql_SetMerchantWallet mid w s = (r2, t) \<Longrightarrow> sql_call s (failure r2) t"
| "sql_NextAddressIndex mid s = (r3, t) \<Longrightarrow> sql_call s (failure r3) t"
| "sql_CreateMerchantAPIKey raw mid label s = (r4, t) \<Longrightarrow> sql_call s (failure r4) t"
| "sql_RevokeMerchantAPIKey key s = (r5, t) \<Longrightarrow> sql_call s (failure r5) t"
| "sql_CreateInvoice inv_req s = (r6, t) \<Longrightarrow> sql_call s (failure r6) t"
| "sql_PutInvoiceToken iid tok s = (r7, t) \<Longrightarrow> sql_call s (failure r7) t"
| "sql_ApplyScanEvent ev s = (r8, t) \<Longrightarrow> sql_call s (failure r8) t"
| "sql_UpdateInvoiceConfirmations best s = (r9, t) \<Longrightarrow> sql_call s (failure r9) t"
| "sql_CreateRefund refund_req s = (r10, t) \<Longrightarrow> sql_call s (failure r10) t"
| "sql_ResolveReviewCase rid notes s = (r11, t) \<Longrightarrow> sql_call s (failure r11) t"
| "sql_RejectReviewCase rid notes s = (r12, t) \<Longrightarrow> sql_call s (failure r12) t"
| "sql_CreateEventSink sink_req s = (r13, t) \<Longrightarrow> sql_call s (failure r13) t"
| "sql_UpdateEventDelivery did st att nr le s = (r14, t) \<Longrightarrow> sql_call s (failure r14) t"
| "sql_GetMerchant mid s = (r15, t) \<Longrightarrow> sql_call s (failure r15) t"
| "sql_ListMerchants s = (r16, t) \<Longrightarrow> sql_call s (failure r16) t"
| "sql_GetMerchantWallet mid s = (r17, t) \<Longrightarrow> sql_call s (failure r17) t"
| "sql_ListMerchantWallets s = (r18, t) \<Longrightarrow> sql_call s (failure r18) t"
| "sql_LookupMerchantIDByAPIKey key s = (r19, t) \<Longrightarrow> sql_call s (failure r19) t"
| "sql_ListMerchantAPIKeys mid s = (r20, t) \<Longrightarrow> sql_call s (failure r20) t"
| "sql_GetInvoice iid s = (r21, t) \<Longrightarrow> sql_call s (failure r21) t"
| "sql_FindInvoiceByExternalOrderID mid oid s = (r22, t) \<Longrightarrow> sql_call s (failure r22) t"
| "sql_ListInvoices inv_filter s = (r23, t) \<Longrightarrow> sql_call s (failure r23) t"
| "sql_GetInvoiceToken iid s = (r24, t) \<Longrightarrow> sql_call s (failure r24) t"
| "sql_ScanCursor wid s = (r25, t) \<Longrightarrow> sql_call s (failure r25) t"
| "sql_ListInvoiceEvents iid after lim s = (r26, t) \<Longrightarrow> sql_call s (failure r26) t"
| "sql_ListDeposits dep_filter s = (r27, t) \<Longrightarrow> sql_call s (failure r27) t"
| "sql_ListRefunds refund_filter s = (r28, t) \<Longrightarrow> sql_call s (failure r28) t"
| "sql_ListReviewCases review_filter s = (r29, t) \<Longrightarrow> sql_call s (failure r29) t"
| "sql_GetEventSink kid s = (r30, t) \<Longrightarrow> sql_call s (failure r30) t"
| "sql_ListEventSinks mid s = (r31, t) \<Longrightarrow> sql_call s (failure r31) t"
| "sql_ListOutboundEvents mid after lim s = (r32, t) \<Longrightarrow> sql_call s (failure r32) t"
| "sql_ListEventDeliveries del_filter s = (r33, t) \<Longrightarrow> sql_call s (failure r33) t"
| "sql_ListDueDeliveries now lim s = (r34, t) \<Longrightarrow> sql_call s (failure r34) t"
| "sql_ScannerStatus s = (r35, t) \<Longrightarrow> sql_call s (failure r35) t"
| "sql_PendingDeliveries s = (r36, t) \<Longrightarrow> sql_call s (failure r36) t"
| "sql_Init n s = (r37, t) \<Longrightarrow> sql_call s (failure r37) t"

text \<open>The one operation that may have changed a row and fail still: it reads the row back.\<close>

inductive sql_step :: "SqlStore \<Rightarrow> SqlStore \<Rightarrow> bool" where
  sql_step_call: "sql_call s e t \<Longrightarrow> sql_step s t"
| sql_step_settings: "sql_UpdateMerchantSettings mid settings s = (r, t) \<Longrightarrow> sql_step s t"

inductive sql_reach :: "SqlStore \<Rightarrow> bool" where
  sql_open: "db_data s = empty_tables \<Longrightarrow> sql_reach s"
| sql_next: "sql_reach s \<Longrightarrow> sql_step s t \<Longrightarrow> sql_reach t"

section \<open>A failed call changes nothing\<close>

lemma reads_ops [reads_rules]:
  "reads (merchant_exists m)" "reads (sql_GetMerchant m)" "reads sql_ListMerchants" "reads (sql_GetMerchantWallet m)"
  "reads sql_ListMerchantWallets" "reads (sql_LookupMerchantIDByAPIKey key)" "reads (sql_ListMerchantAPIKeys m)"
  "reads (sql_GetInvoice iid)" "reads (sql_FindInvoiceByExternalOrderID m oid)" "reads (sql_ListInvoices f1)"
  "reads (sql_GetInvoiceToken iid)" "reads (sql_ScanCursor w)" "reads (sql_ListInvoiceEvents iid after lim)"
  "reads (sql_ListDeposits f2)" "reads (sql_ListRefunds f3)" "reads (sql_ListReviewCases f4)" "reads (sql_GetEventSink k)"
  "reads (sql_ListEventSinks m)" "reads (sql_ListOutboundEvents m after lim)" "reads (sql_ListEventDeliveries f5)"
  "reads (sql_ListDueDeliveries now lim)" "reads sql_ScannerStatus" "reads sql_PendingDeliveries"
  by (simp_all only: merchant_exists_def sql_GetMerchant_def sql_ListMerchants_def sql_GetMerchantWallet_def
      sql_ListMerchantWallets_def sql_LookupMerchantIDByAPIKey_def sql_ListMerchantAPIKeys_def sql_GetInvoice_def
      sql_FindInvoiceByExternalOrderID_def sql_ListInvoices_def sql_GetInvoiceToken_def sql_ScanCursor_def
      sql_ListInvoiceEvents_def sql_ListDeposits_def sql_ListRefunds_def sql_ListReviewCases_def sql_GetEventSink_def
      sql_ListEventSinks_def sql_ListOutboundEvents_def sql_ListEventDeliveries_def sql_ListDueDeliveries_def
      sql_ScannerStatus_def sql_PendingDeliveries_def Let_def)
    (intro reads_rules)+

lemma reads_schema [reads_rules]: "reads (schema_stmt k)" "reads alter_stmt"
  by (auto simp: reads_def schema_stmt_def alter_stmt_def db_query_def db_stmt_def
      split: option.split prod.split sum.split store_error.split)

lemma table_updates [simp]:
  "t_merchants_update (\<lambda>_. t_merchants t) t = t" "t_merchant_wallets_update (\<lambda>_. t_merchant_wallets t) t = t"
  "t_api_keys_update (\<lambda>_. t_api_keys t) t = t" "t_invoices_update (\<lambda>_. t_invoices t) t = t"
  "t_invoice_tokens_update (\<lambda>_. t_invoice_tokens t) t = t" "t_review_cases_update (\<lambda>_. t_review_cases t) t = t"
  "t_event_deliveries_update (\<lambda>_. t_event_deliveries t) t = t"
  by simp_all

lemma atomic_merchants [atomic_rules]:
  "atomic (sql_CreateMerchant name settings)" "atomic (sql_SetMerchantWallet mid w)" "atomic (sql_NextAddressIndex mid)"
  "atomic (sql_CreateMerchantAPIKey raw mid label)" "atomic (sql_RevokeMerchantAPIKey key)"
  unfolding sql_CreateMerchant_def sql_SetMerchantWallet_def sql_NextAddressIndex_def sql_CreateMerchantAPIKey_def
    sql_RevokeMerchantAPIKey_def Let_def
  subgoal by (auto intro!: atomic_rules reads_rules atomic_last [OF atomic_exec] succeeds_return split: option.split)
  subgoal by (intro atomic_rules)
  subgoal by (intro atomic_rules)
  subgoal by (auto intro!: atomic_rules reads_rules atomic_last [OF atomic_exec] succeeds_return split: option.split)
  subgoal by (intro atomic_if atomic_return atomic_bind [OF reads_basic(4)] atomic_update)
      (auto intro: reads_atomic reads_rules succeeds_return)
  done

lemma atomic_bind_or:
  assumes "atomic m"
    and "\<And>s x u. m s = (Inr x, u) \<Longrightarrow> succeeds (f x) \<or> (db_data u = db_data s \<and> atomic (f x))"
  shows "atomic (db_bind m f)"
  unfolding atomic_def
proof (intro allI impI)
  fix s e t assume t: "db_bind m f s = (Inl e, t)"
  obtain r u where u: "m s = (r, u)" by (cases "m s")
  show "db_data t = db_data s"
  proof (cases r)
    case (Inl e')
    with t u atomicD [OF assms(1)] show ?thesis by (simp add: db_bind_def)
  next
    case (Inr x)
    with t u have f: "f x u = (Inl e, t)" by (simp add: db_bind_def)
    with assms(2) [of s x u] u Inr show ?thesis by (auto simp: succeeds_def dest: atomicD)
  qed
qed

lemma create_invoice_rolled_back:
  assumes "sql_tx (create_invoice_tx req iid now) s = (Inr None, u)"
  shows "db_data u = db_data s"
proof -
  have "wp (create_invoice_tx req iid now)
      (\<lambda>r _. case r of Commit x \<Rightarrow> x \<noteq> None | Rollback _ \<Rightarrow> True) (db_tick s)"
    by (auto simp: create_invoice_tx_def wp_def db_bind_def db_return_def hash32Bytes_def
        split: prod.split sum.split)
  with assms show ?thesis
    by (auto simp: sql_tx_def wp_def db_query_def db_stmt_def
        split: option.splits prod.splits sum.splits tx_end.splits)
qed

lemma atomic_CreateInvoice [atomic_rules]: "atomic (sql_CreateInvoice req)"
  unfolding sql_CreateInvoice_def Let_def
  apply (intro atomic_if atomic_return atomic_bind [OF reads_basic(4)] atomic_bind [OF reads_ids(1)]
      atomic_bind_or [OF atomic_tx])
  subgoal for iid now s x u
    by (cases x) (auto intro!: succeeds_return atomic_rules reads_rules dest: create_invoice_rolled_back)
  done

lemma atomic_PutInvoiceToken [atomic_rules]: "atomic (sql_PutInvoiceToken iid tok)"
proof -
  have ins: "atomic (\<lambda>s. case sql_exec f s of (Inr _, s) \<Rightarrow> (Inr (), s)
      | (Inl e, s) \<Rightarrow> if isUniqueViolation e then db_bind (sql_exec g) (\<lambda>_. db_return ()) s else (Inl e, s))"
    for f g
    using atomicD [OF atomic_exec] atomicD [OF atomic_last [OF atomic_exec succeeds_return]]
    by (fastforce simp: atomic_def split: prod.splits sum.splits if_splits)
  show ?thesis
    unfolding sql_PutInvoiceToken_def Let_def
    apply (intro atomic_if atomic_return atomic_bind [OF reads_basic(3)] atomic_bind [OF reads_ids(2)])
    unfolding set_token_def [of "TrimSpace iid"]
    by (intro atomic_update) (auto intro: succeeds_return ins simp: atomic_return)
qed

lemma atomic_refunds [atomic_rules]:
  "atomic (sql_CreateRefund req)" "atomic (sql_ApplyScanEvent ev)" "atomic (sql_UpdateInvoiceConfirmations best)"
  "atomic (sql_CreateEventSink sink_req)"
  unfolding sql_CreateRefund_def sql_ApplyScanEvent_def sql_UpdateInvoiceConfirmations_def sql_CreateEventSink_def Let_def
  subgoal by (intro atomic_rules reads_rules)
  subgoal by (intro atomic_rules)
  subgoal by (intro atomic_rules reads_rules)
  subgoal by (auto intro!: atomic_rules reads_rules atomic_last [OF atomic_exec] succeeds_return
        split: EventSinkKind.split raw_message.split json.split)
  done

lemma db_update_unique_none:
  assumes "db_update_unique tab upd clash c f t = Some (0, t')" "\<And>t. upd (\<lambda>_. tab t) t = t"
  shows "t' = t"
  using db_update_none [where tab = tab and upd = upd and c = c and f = f and t = t and t' = t', OF _ assms(2)] assms(1)
  by (auto simp: db_update_unique_def db_update_def split: prod.splits if_splits)

lemma atomic_close_review: "atomic (close_review st rid notes)"
  unfolding close_review_def
  apply (intro atomic_bind [OF reads_basic(4)] atomic_bind_or [OF atomic_exec])
  subgoal for now s n u
    by (cases "n = 0")
      (auto intro: succeeds_return atomic_return dest!: db_update_unique_none
        simp: sql_exec_def db_stmt_def split: option.splits prod.splits)
  done

lemma atomic_reviews [atomic_rules]:
  "atomic (sql_ResolveReviewCase rid notes)" "atomic (sql_RejectReviewCase rid notes)"
  "atomic (sql_UpdateEventDelivery did st att nr le)"
  unfolding sql_ResolveReviewCase_def sql_RejectReviewCase_def sql_UpdateEventDelivery_def Let_def
  subgoal by (intro atomic_if atomic_return atomic_close_review)
  subgoal by (intro atomic_if atomic_return atomic_close_review)
  subgoal by (intro atomic_if atomic_return atomic_bind [OF reads_basic(4)] atomic_update)
      (auto intro: atomic_return succeeds_return)
  done

lemma reads_for [reads_rules]: "(\<And>x. reads (f x)) \<Longrightarrow> reads (db_for xs f)"
  by (induction xs) (auto intro: reads_rules)

lemma reads_tx [reads_rules]: "reads body \<Longrightarrow> reads (sql_tx body)"
  unfolding reads_def
  by (auto simp: sql_tx_def db_query_def db_stmt_def split: option.split prod.split sum.split tx_end.split)
    (metis same_env_tick(1) same_env_trans snd_conv db_tick_fields(1))+

lemma atomic_Init [atomic_rules]: "atomic (sql_Init n)"
  unfolding sql_Init_def by (intro atomic_bind atomic_last [OF atomic_exec] succeeds_return reads_rules)

lemma failed_call: "op s = (r, t) \<Longrightarrow> atomic op \<Longrightarrow> failure r \<noteq> None \<Longrightarrow> db_data t = db_data s"
  by (cases r) (auto dest: atomicD)

lemma sql_call_atomic:
  assumes "sql_call s e t" "e \<noteq> None"
  shows "db_data t = db_data s"
  using assms(1)
  by cases (rule failed_call, assumption, (rule atomic_rules | rule reads_atomic, rule reads_ops)+, use assms(2) in simp)+

end
