(* ===== verification/SqlGrow.thy ===== *)
theory SqlGrow
  imports SqlModel
begin

text \<open>
  What any call does to the rows of the SQL store: it adds rows, and of the rows there are it changes
  only the columns that are meant to change, never a key, the terms of an invoice or a logged event.
\<close>

section \<open>How a row may change\<close>

definition merchant_terms :: "MerchantRow \<Rightarrow> string \<times> string \<times> MerchantStatus \<times> int64" where
  "merchant_terms r = (mr_merchant_id r, mr_name r, mr_status r, mr_created_at r)"

definition wallet_step :: "WalletRow \<Rightarrow> WalletRow \<Rightarrow> bool" where
  "wallet_step a b \<longleftrightarrow> b\<lparr>wr_next_address_index := 0\<rparr> = a\<lparr>wr_next_address_index := 0\<rparr> \<and>
     wr_next_address_index a \<le> wr_next_address_index b"

definition key_step :: "KeyRow \<Rightarrow> KeyRow \<Rightarrow> bool" where
  "key_step a b \<longleftrightarrow> b\<lparr>kr_revoked_at := None\<rparr> = a\<lparr>kr_revoked_at := None\<rparr> \<and>
     (kr_revoked_at a \<noteq> None \<longrightarrow> kr_revoked_at b = kr_revoked_at a)"

definition invoice_terms :: "InvoiceRow \<Rightarrow> InvoiceRow" where
  "invoice_terms r = r\<lparr>ir_received_pending_zat := 0, ir_received_confirmed_zat := 0, ir_status := InvoiceOpen,
     ir_updated_at := 0\<rparr>"

definition cursor_step :: "CursorRow \<Rightarrow> CursorRow \<Rightarrow> bool" where
  "cursor_step a b \<longleftrightarrow> cr_wallet_id b = cr_wallet_id a \<and> cr_cursor_id a \<le> cr_cursor_id b"

definition deposit_step :: "DepositRow \<Rightarrow> DepositRow \<Rightarrow> bool" where
  "deposit_step a b \<longleftrightarrow> dr_seq b = dr_seq a \<and> dr_wallet_id b = dr_wallet_id a \<and> dr_txid b = dr_txid a \<and>
     dr_action_index b = dr_action_index a \<and> dr_detected_at b = dr_detected_at a \<and>
     (dr_invoice_id a \<noteq> None \<longrightarrow> dr_invoice_id b = dr_invoice_id a)"

definition review_terms :: "ReviewRow \<Rightarrow> ReviewRow" where
  "review_terms r = r\<lparr>vr_status := ReviewOpen, vr_notes := [], vr_updated_at := 0\<rparr>"

definition delivery_terms :: "DeliveryRow \<Rightarrow> string \<times> string \<times> string \<times> string \<times> int64" where
  "delivery_terms r = (lr_delivery_id r, lr_merchant_id r, lr_sink_id r, lr_event_id r, lr_created_at r)"

definition grows :: "Tables \<Rightarrow> Tables \<Rightarrow> bool" where
  "grows t u \<longleftrightarrow>
     table_evolves (\<lambda>a b. merchant_terms a = merchant_terms b) (t_merchants t) (t_merchants u) \<and>
     table_evolves wallet_step (t_merchant_wallets t) (t_merchant_wallets u) \<and>
     table_evolves key_step (t_api_keys t) (t_api_keys u) \<and>
     table_evolves (\<lambda>a b. invoice_terms a = invoice_terms b) (t_invoices t) (t_invoices u) \<and>
     table_evolves (\<lambda>a b. fst a = fst b) (t_invoice_tokens t) (t_invoice_tokens u) \<and>
     table_evolves cursor_step (t_scan_cursors t) (t_scan_cursors u) \<and>
     table_evolves deposit_step (t_deposits t) (t_deposits u) \<and>
     table_evolves (=) (t_refunds t) (t_refunds u) \<and>
     table_evolves (\<lambda>a b. review_terms a = review_terms b) (t_review_cases t) (t_review_cases u) \<and>
     table_evolves (=) (t_invoice_events t) (t_invoice_events u) \<and>
     table_evolves (=) (t_event_sinks t) (t_event_sinks u) \<and>
     table_evolves (=) (t_outbox_events t) (t_outbox_events u) \<and>
     table_evolves (\<lambda>a b. delivery_terms a = delivery_terms b) (t_event_deliveries t) (t_event_deliveries u)"

lemmas step_defs = merchant_terms_def wallet_step_def key_step_def invoice_terms_def cursor_step_def deposit_step_def
  review_terms_def delivery_terms_def

lemma steps_refl [simp]: "wallet_step a a" "key_step b b" "cursor_step c c" "deposit_step d d"
  by (simp_all add: step_defs)

lemma steps_trans:
  "wallet_step a1 a2 \<Longrightarrow> wallet_step a2 a3 \<Longrightarrow> wallet_step a1 a3" "key_step b1 b2 \<Longrightarrow> key_step b2 b3 \<Longrightarrow> key_step b1 b3"
  "cursor_step c1 c2 \<Longrightarrow> cursor_step c2 c3 \<Longrightarrow> cursor_step c1 c3"
  "deposit_step d1 d2 \<Longrightarrow> deposit_step d2 d3 \<Longrightarrow> deposit_step d1 d3"
  by (auto simp: step_defs)

lemma grows_refl [simp]: "grows t t"
  by (simp add: grows_def table_evolves_refl)

lemma grows_trans: "grows t u \<Longrightarrow> grows u v \<Longrightarrow> grows t v"
  unfolding grows_def
  by (elim conjE, intro conjI; (erule (1) table_evolves_trans [rotated]; metis steps_trans))

interpretation grow: table_order grows
  by unfold_locales (simp, rule grows_trans)

section \<open>Every statement\<close>

text \<open>Adding a row to any table; the counters are not part of the relation.\<close>

lemmas evolve_simps = table_evolves_refl table_evolves_append

lemma grows_add:
  "grows t (t_merchants_update (\<lambda>_. t_merchants t @ [r1]) t)"
  "grows t (t_merchant_wallets_update (\<lambda>_. t_merchant_wallets t @ [r2]) t)"
  "grows t (t_api_keys_update (\<lambda>_. t_api_keys t @ [r3]) t)"
  "grows t (t_invoices_update (\<lambda>_. t_invoices t @ [r4]) (n_invoices_update Suc t))"
  "grows t (t_invoice_tokens_update (\<lambda>_. t_invoice_tokens t @ [r5]) t)"
  "grows t (t_scan_cursors_update (\<lambda>_. t_scan_cursors t @ [r6]) t)"
  "grows t (t_deposits_update (\<lambda>_. t_deposits t @ [r7]) (n_deposits_update Suc t))"
  "grows t (t_refunds_update (\<lambda>_. t_refunds t @ [r8]) (n_refunds_update Suc t))"
  "grows t (t_review_cases_update (\<lambda>_. t_review_cases t @ [r9]) (n_review_cases_update Suc t))"
  "grows t (t_invoice_events_update (\<lambda>_. t_invoice_events t @ [r10]) (n_invoice_events_update Suc t))"
  "grows t (t_event_sinks_update (\<lambda>_. t_event_sinks t @ [r11]) t)"
  "grows t (t_outbox_events_update (\<lambda>_. t_outbox_events t @ [r12]) (n_outbox_events_update Suc t))"
  "grows t (t_event_deliveries_update (\<lambda>_. t_event_deliveries t @ [r13]) t)"
  by (simp_all add: grows_def evolve_simps)

lemma map_update_table_evolves: "(\<And>x. r x x) \<Longrightarrow> (\<And>x. c x \<Longrightarrow> r x (f x)) \<Longrightarrow> table_evolves r xs (map (\<lambda>x. if c x then f x else x) xs)"
  by (rule table_evolves_map) simp

lemma grows_change:
  "(\<And>r. merchant_terms r = merchant_terms (f1 r)) \<Longrightarrow>
     grows t (t_merchants_update (\<lambda>_. map (\<lambda>r. if c1 r then f1 r else r) (t_merchants t)) t)"
  "(\<And>r. wallet_step r (f2 r)) \<Longrightarrow>
     grows t (t_merchant_wallets_update (\<lambda>_. map (\<lambda>r. if c2 r then f2 r else r) (t_merchant_wallets t)) t)"
  "(\<And>r. c3 r \<Longrightarrow> key_step r (f3 r)) \<Longrightarrow>
     grows t (t_api_keys_update (\<lambda>_. map (\<lambda>r. if c3 r then f3 r else r) (t_api_keys t)) t)"
  "(\<And>r. invoice_terms r = invoice_terms (f4 r)) \<Longrightarrow>
     grows t (t_invoices_update (\<lambda>_. map (\<lambda>r. if c4 r then f4 r else r) (t_invoices t)) t)"
  "(\<And>r. fst r = fst (f5 r)) \<Longrightarrow>
     grows t (t_invoice_tokens_update (\<lambda>_. map (\<lambda>r. if c5 r then f5 r else r) (t_invoice_tokens t)) t)"
  "(\<And>r. c6 r \<Longrightarrow> cursor_step r (f6 r)) \<Longrightarrow>
     grows t (t_scan_cursors_update (\<lambda>_. map (\<lambda>r. if c6 r then f6 r else r) (t_scan_cursors t)) t)"
  "(\<And>r. deposit_step r (f7 r)) \<Longrightarrow>
     grows t (t_deposits_update (\<lambda>_. map (\<lambda>r. if c7 r then f7 r else r) (t_deposits t)) t)"
  "(\<And>r. review_terms r = review_terms (f8 r)) \<Longrightarrow>
     grows t (t_review_cases_update (\<lambda>_. map (\<lambda>r. if c8 r then f8 r else r) (t_review_cases t)) t)"
  "(\<And>r. delivery_terms r = delivery_terms (f9 r)) \<Longrightarrow>
     grows t (t_event_deliveries_update (\<lambda>_. map (\<lambda>r. if c9 r then f9 r else r) (t_event_deliveries t)) t)"
  by (simp_all add: grows_def evolve_simps map_update_table_evolves)

section \<open>Every call\<close>

lemma within_insert [within_rules]:
  "within grows (sql_exec (db_insert t_merchants t_merchants_update cl1 r1))"
  "within grows (sql_exec (db_insert t_merchant_wallets t_merchant_wallets_update cl2 r2))"
  "within grows (sql_exec (db_insert t_api_keys t_api_keys_update cl3 r3))"
  "within grows (sql_exec (db_insert_auto t_invoices t_invoices_update n_invoices n_invoices_update cl4 r4))"
  "within grows (sql_exec (db_insert t_invoice_tokens t_invoice_tokens_update cl5 r5))"
  "within grows (execTxIgnoreUnique (db_insert t_scan_cursors t_scan_cursors_update cl6 r6))"
  "within grows (execTxIgnoreUnique (db_insert_auto t_deposits t_deposits_update n_deposits n_deposits_update cl7 r7))"
  "within grows (sql_exec (db_insert_auto t_refunds t_refunds_update n_refunds n_refunds_update cl8 r8))"
  "within grows (execTxIgnoreUnique (db_insert_auto t_review_cases t_review_cases_update n_review_cases
     n_review_cases_update cl9 r9))"
  "within grows (execTxIgnoreUnique (db_insert_auto t_invoice_events t_invoice_events_update n_invoice_events
     n_invoice_events_update cl10 r10))"
  "within grows (sql_exec (db_insert t_event_sinks t_event_sinks_update cl11 r11))"
  "within grows (sql_exec (db_insert_auto t_outbox_events t_outbox_events_update n_outbox_events
     n_outbox_events_update cl12 r12))"
  "within grows (sql_exec (db_insert t_event_deliveries t_event_deliveries_update cl13 r13))"
  by (auto intro!: grow.within_exec grow.within_execTxIgnoreUnique elim!: db_insertE db_insert_autoE simp: grows_add)

lemma within_update [within_rules]:
  "(\<And>r. merchant_terms r = merchant_terms (f1 r)) \<Longrightarrow>
     within grows (sql_exec (db_update t_merchants t_merchants_update c1 f1))"
  "(\<And>r. wallet_step r (f2 r)) \<Longrightarrow>
     within grows (sql_exec (db_update t_merchant_wallets t_merchant_wallets_update c2 f2))"
  "(\<And>r. c3 r \<Longrightarrow> key_step r (f3 r)) \<Longrightarrow>
     within grows (sql_exec (db_update t_api_keys t_api_keys_update c3 f3))"
  "(\<And>r. invoice_terms r = invoice_terms (f4 r)) \<Longrightarrow>
     within grows (sql_exec (db_update t_invoices t_invoices_update c4 f4))"
  "(\<And>r. fst r = fst (f5 r)) \<Longrightarrow>
     within grows (sql_exec (db_update t_invoice_tokens t_invoice_tokens_update c5 f5))"
  "(\<And>r. c6 r \<Longrightarrow> cursor_step r (f6 r)) \<Longrightarrow>
     within grows (sql_exec (db_update t_scan_cursors t_scan_cursors_update c6 f6))"
  "(\<And>r. deposit_step r (f7 r)) \<Longrightarrow>
     within grows (sql_exec (db_update t_deposits t_deposits_update c7 f7))"
  "(\<And>r. review_terms r = review_terms (f8 r)) \<Longrightarrow>
     within grows (sql_exec (db_update_unique t_review_cases t_review_cases_update cl c8 f8))"
  "(\<And>r. delivery_terms r = delivery_terms (f9 r)) \<Longrightarrow>
     within grows (sql_exec (db_update t_event_deliveries t_event_deliveries_update c9 f9))"
  by (auto intro!: grow.within_exec grows_change elim!: db_updateE db_update_uniqueE)

declare grow.within_catch [within_rules] grow.within_branch [within_rules]

lemma within_stmt [within_rules]: "(\<And>t. grows t (snd (f t))) \<Longrightarrow> within grows (db_stmt f)"
  by (auto simp: within_def db_stmt_def split: option.split prod.split) (metis snd_conv)+

lemma within_merchants [within_rules]:
  "within grows (merchant_exists m)" "within grows (sql_CreateMerchant name settings)"
  "within grows (sql_UpdateMerchantSettings mid settings)"
  "within grows (sql_SetMerchantWallet mid w)" "within grows (sql_NextAddressIndex mid)"
  "within grows (sql_CreateMerchantAPIKey raw mid label)" "within grows (sql_RevokeMerchantAPIKey key)"
  subgoal by (rule grow.within_reads) (rule reads_ops)
  subgoal unfolding sql_CreateMerchant_def Let_def by (intro grow.within_intros within_rules)
  subgoal unfolding sql_UpdateMerchantSettings_def Let_def
    by (intro grow.within_intros within_rules grow.within_reads [OF reads_ops(2)]) (simp add: step_defs)
  subgoal unfolding sql_SetMerchantWallet_def merchant_exists_def Let_def by (intro grow.within_intros within_rules)
  subgoal unfolding sql_NextAddressIndex_def Let_def by (intro grow.within_intros within_rules) (simp add: step_defs)
  subgoal unfolding sql_CreateMerchantAPIKey_def merchant_exists_def Let_def by (intro grow.within_intros within_rules)
  subgoal unfolding sql_RevokeMerchantAPIKey_def Let_def by (intro grow.within_intros within_rules) (simp add: step_defs)
  done

lemma within_member [within_rules]: "within grows (refund_member rid)"
  unfolding refund_member_def Let_def
  by (auto intro!: grow.within_intros split: option.split)
    (auto simp: within_def db_query_def db_stmt_def split: option.split)

lemma within_enqueue [within_rules]: "within grows (enqueueOutboxForInvoiceEventTx iid typ at dep ref)"
  unfolding enqueueOutboxForInvoiceEventTx_def insert_delivery_def Let_def
  by (intro grow.within_intros within_rules)

lemma within_append [within_rules]: "within grows (insertInvoiceEventTx iid typ at dep ref)"
  unfolding insertInvoiceEventTx_def
  by (intro grow.within_intros within_rules)

lemma within_outbox [within_rules]:
  "within grows (sql_CreateEventSink req)" "within grows (sql_UpdateEventDelivery did st att nr le)"
  subgoal
    unfolding sql_CreateEventSink_def Let_def
    by (auto intro!: grow.within_intros within_rules split: EventSinkKind.split raw_message.split json.split)
  subgoal unfolding sql_UpdateEventDelivery_def Let_def
    by (intro grow.within_intros within_rules) (simp add: step_defs)
  done

lemma within_invoices [within_rules]:
  "within grows (sql_CreateInvoice req)" "within grows (sql_PutInvoiceToken iid tok)"
  "within grows (sql_CreateRefund refund_req)"
  "within grows (sql_ResolveReviewCase rid notes)" "within grows (sql_RejectReviewCase rid notes)"
  subgoal
    unfolding sql_CreateInvoice_def create_invoice_tx_def Let_def
    by (intro grow.within_intros grow.within_reads [OF reads_ops(9)] within_rules)
  subgoal
    unfolding sql_PutInvoiceToken_def set_token_def Let_def
    by (intro grow.within_intros within_rules) simp_all
  subgoal
    unfolding sql_CreateRefund_def refund_invoice_ok_def Let_def by (intro grow.within_intros within_rules)
  subgoal
    unfolding sql_ResolveReviewCase_def close_review_def Let_def
    by (intro grow.within_intros within_rules) (simp add: step_defs)
  subgoal
    unfolding sql_RejectReviewCase_def close_review_def Let_def
    by (intro grow.within_intros within_rules) (simp add: step_defs)
  done

lemma within_review [within_rules]: "within grows (insert_review row)"
  unfolding insert_review_def by (intro grow.within_intros within_rules)

lemma within_sum [within_rules]: "within grows (select_sum iid sts)"
  unfolding select_sum_def by (intro within_rules) simp

lemma within_recompute [within_rules]: "within grows (recomputeInvoiceAggregatesTx iid now)"
  unfolding recomputeInvoiceAggregatesTx_def sql_status_event_def sql_status_review_def Let_def
  by (intro grow.within_intros within_rules) (simp add: step_defs set_amounts_def)

lemma merge_row_step: "deposit_step r (merge_row addr h am ht st i up r)"
  by (auto simp: deposit_step_def merge_row_def split: option.split)

lemma within_deposit [within_rules]: "within grows (apply_deposit_tx ev now st p)"
  unfolding apply_deposit_tx_def unknown_deposit_def update_deposit_def Let_def
  by (intro grow.within_intros within_rules merge_row_step)

lemma within_scan [within_rules]: "within grows (sql_ApplyScanEvent ev)"
  unfolding sql_ApplyScanEvent_def scan_event_tx_def applyDepositEventTx_def move_cursor_def Let_def
  by (intro grow.within_intros within_rules) (simp_all add: cursor_step_def)

lemma within_confirm [within_rules]: "within grows (confirm_deposits now ds affected)"
proof (induction ds arbitrary: affected)
  case (Cons d ds)
  obtain r i h where d: "d = (r, i, h)" by (cases d)
  show ?case
    unfolding d confirm_deposits.simps
    by (intro grow.within_intros within_rules Cons) (simp add: deposit_step_def confirm_row_def)
qed (simp add: grow.within_intros)

lemma within_ranged [within_rules]: "within grows (db_ranged m)"
  by (simp add: within_def db_ranged_def)

lemma within_confirmations [within_rules]:
  "within grows (sql_UpdateInvoiceConfirmations best)" "within grows (sql_Init n)"
  subgoal unfolding sql_UpdateInvoiceConfirmations_def by (intro grow.within_intros within_rules)
  subgoal unfolding sql_Init_def
    by (intro grow.within_intros within_rules grow.within_reads [OF reads_schema(1)] grow.within_reads [OF reads_schema(2)])
      (simp add: step_defs)
  done

lemma sql_call_within:
  assumes "sql_call s e t"
  shows "grows (db_data s) (db_data t) \<and> same_env s t"
  using assms
  by cases (rule withinD [where R = grows, rotated], assumption,
    (rule within_rules | rule grow.within_reads, rule reads_ops)+)+

lemma sql_step_within: "sql_step s t \<Longrightarrow> grows (db_data s) (db_data t) \<and> same_env s t"
  by (cases rule: sql_step.cases) (auto dest: sql_call_within withinD [OF within_merchants(3)])

lemma sql_steps_within:
  "sql_step\<^sup>*\<^sup>* s t \<Longrightarrow> grows (db_data s) (db_data t) \<and> same_env s t"
  by (induction rule: rtranclp_induct) (auto dest: sql_step_within intro: grows_trans same_env_trans)

end
