(* ===== verification/SqlInv.thy ===== *)
theory SqlInv
  imports SqlGrow
begin

text \<open>
  The invariant of the tables: the unique keys hold, automatic numbers are gapless, every
  reference of a row leads to a row that belongs to the same merchant or wallet, the hash columns are the
  hashes of their texts, and the outbox tells the invoice events one by one. Every successful
  call keeps it; a failed one changes nothing.
\<close>

section \<open>The invariant\<close>

definition merchant_at :: "Tables \<Rightarrow> string \<Rightarrow> MerchantRow option" where
  "merchant_at t m = find (\<lambda>r. mr_merchant_id r = m) (t_merchants t)"

definition invoice_at :: "Tables \<Rightarrow> string \<Rightarrow> InvoiceRow option" where
  "invoice_at t i = find (\<lambda>r. ir_invoice_id r = i) (t_invoices t)"

definition refund_at :: "Tables \<Rightarrow> string \<Rightarrow> RefundRow option" where
  "refund_at t f = find (\<lambda>r. fr_refund_id r = f) (t_refunds t)"

definition sink_at :: "Tables \<Rightarrow> string \<Rightarrow> SinkRow option" where
  "sink_at t k = find (\<lambda>r. xr_sink_id r = k) (t_event_sinks t)"

definition outbox_at :: "Tables \<Rightarrow> string \<Rightarrow> OutboxRow option" where
  "outbox_at t e = find (\<lambda>r. or_event_id r = e) (t_outbox_events t)"

definition keys_ok :: "Tables \<Rightarrow> bool" where
  "keys_ok t \<longleftrightarrow> no_clash merchant_clash (t_merchants t) \<and> no_clash wallet_clash (t_merchant_wallets t) \<and>
     no_clash key_clash (t_api_keys t) \<and> no_clash invoice_clash (t_invoices t) \<and>
     no_clash token_clash (t_invoice_tokens t) \<and> no_clash cursor_clash (t_scan_cursors t) \<and>
     no_clash deposit_clash (t_deposits t) \<and> no_clash refund_clash (t_refunds t) \<and>
     no_clash review_clash (t_review_cases t) \<and> no_clash event_clash (t_invoice_events t) \<and>
     no_clash sink_clash (t_event_sinks t) \<and> no_clash outbox_clash (t_outbox_events t) \<and>
     no_clash delivery_clash (t_event_deliveries t)"

definition numbered :: "('r \<Rightarrow> nat) \<Rightarrow> nat \<Rightarrow> 'r list \<Rightarrow> bool" where
  "numbered num n rs \<longleftrightarrow> map num rs = [1..<Suc n]"

definition nums_ok :: "Tables \<Rightarrow> bool" where
  "nums_ok t \<longleftrightarrow> numbered ir_seq (n_invoices t) (t_invoices t) \<and> numbered dr_seq (n_deposits t) (t_deposits t) \<and>
     numbered fr_id (n_refunds t) (t_refunds t) \<and> numbered vr_id (n_review_cases t) (t_review_cases t) \<and>
     numbered er_id (n_invoice_events t) (t_invoice_events t) \<and> numbered or_id (n_outbox_events t) (t_outbox_events t)"

lemma numbered_Nil [simp]: "numbered num 0 []"
  by (simp add: numbered_def)

lemma numbered_append: "numbered num n rs \<Longrightarrow> num r = Suc n \<Longrightarrow> numbered num (Suc n) (rs @ [r])"
  by (simp add: numbered_def)

lemma numbered_change:
  "numbered num n rs \<Longrightarrow> (\<And>r. num (f r) = num r) \<Longrightarrow> numbered num n (map (\<lambda>r. if c r then f r else r) rs)"
proof -
  assume "numbered num n rs" and f: "\<And>r. num (f r) = num r"
  moreover have "map num (map (\<lambda>r. if c r then f r else r) rs) = map num rs" by (simp add: f)
  ultimately show ?thesis by (simp only: numbered_def)
qed

definition wallet_row_ok :: "Tables \<Rightarrow> WalletRow \<Rightarrow> bool" where
  "wallet_row_ok t w \<longleftrightarrow> merchant_at t (wr_merchant_id w) \<noteq> None \<and> 0 \<le> wr_next_address_index w"

definition invoice_row_ok :: "(string \<Rightarrow> string) \<Rightarrow> InvoiceRow \<Rightarrow> bool" where
  "invoice_row_ok H r \<longleftrightarrow> 0 < ir_amount_zat r \<and> TrimSpace (ir_invoice_id r) = ir_invoice_id r \<and> ir_invoice_id r \<noteq> [] \<and>
     ir_external_order_id_hash r = H (ir_external_order_id r) \<and> ir_address_hash r = H (ir_address r)"

definition deposit_row_ok :: "(string \<Rightarrow> string) \<Rightarrow> Tables \<Rightarrow> DepositRow \<Rightarrow> bool" where
  "deposit_row_ok H t d \<longleftrightarrow>
     (\<forall>i. dr_invoice_id d = Some i \<longrightarrow> (\<exists>r. invoice_at t i = Some r \<and> ir_wallet_id r = dr_wallet_id d)) \<and>
     (dr_status d = DepositConfirmed \<longleftrightarrow> dr_confirmed_height d \<noteq> None) \<and>
     (dr_status d = DepositConfirmed \<longrightarrow> dr_invoice_id d \<noteq> None) \<and>
     dr_recipient_address_hash d = H (dr_recipient_address d)"

definition refund_row_ok :: "Tables \<Rightarrow> RefundRow \<Rightarrow> bool" where
  "refund_row_ok t f \<longleftrightarrow> merchant_at t (fr_merchant_id f) \<noteq> None \<and> 0 < fr_amount_zat f \<and> fr_refund_id f \<noteq> [] \<and>
     (\<forall>i. fr_invoice_id f = Some i \<longrightarrow> (\<exists>r. invoice_at t i = Some r \<and> ir_merchant_id r = fr_merchant_id f))"

definition review_row_ok :: "Tables \<Rightarrow> ReviewRow \<Rightarrow> bool" where
  "review_row_ok t v \<longleftrightarrow>
     (\<forall>i. vr_invoice_id v = Some i \<longrightarrow> (\<exists>r. invoice_at t i = Some r \<and> ir_merchant_id r = vr_merchant_id v))"

definition event_row_ok :: "Tables \<Rightarrow> EventRow \<Rightarrow> bool" where
  "event_row_ok t e \<longleftrightarrow> invoice_at t (er_invoice_id e) \<noteq> None \<and> (er_deposit e = None \<or> er_refund_id e = None) \<and>
     (\<forall>f. er_refund_id e = Some f \<longrightarrow> (\<exists>r. refund_at t f = Some r \<and> fr_invoice_id r = Some (er_invoice_id e)))"

definition delivery_row_ok :: "Tables \<Rightarrow> DeliveryRow \<Rightarrow> bool" where
  "delivery_row_ok t l \<longleftrightarrow> (\<exists>e. outbox_at t (lr_event_id l) = Some e \<and> or_merchant_id e = lr_merchant_id l) \<and>
     (\<exists>x. sink_at t (lr_sink_id l) = Some x \<and> xr_merchant_id x = lr_merchant_id l)"

definition rows_ok :: "(string \<Rightarrow> string) \<Rightarrow> Tables \<Rightarrow> bool" where
  "rows_ok H t \<longleftrightarrow> (\<forall>w \<in> set (t_merchant_wallets t). wallet_row_ok t w) \<and>
     (\<forall>k \<in> set (t_api_keys t). merchant_at t (kr_merchant_id k) \<noteq> None) \<and>
     (\<forall>r \<in> set (t_invoices t). invoice_row_ok H r) \<and>
     (\<forall>x \<in> set (t_invoice_tokens t). invoice_at t (fst x) \<noteq> None) \<and>
     (\<forall>c \<in> set (t_scan_cursors t). 0 < cr_cursor_id c) \<and>
     (\<forall>d \<in> set (t_deposits t). deposit_row_ok H t d) \<and>
     (\<forall>f \<in> set (t_refunds t). refund_row_ok t f) \<and>
     (\<forall>v \<in> set (t_review_cases t). review_row_ok t v) \<and>
     (\<forall>e \<in> set (t_invoice_events t). event_row_ok t e) \<and>
     (\<forall>x \<in> set (t_event_sinks t). merchant_at t (xr_merchant_id x) \<noteq> None) \<and>
     (\<forall>l \<in> set (t_event_deliveries t). delivery_row_ok t l)"

text \<open>An event and the row of the outbox that tells it.\<close>

definition tells :: "Tables \<Rightarrow> EventRow \<Rightarrow> OutboxRow \<Rightarrow> bool" where
  "tells t e x \<longleftrightarrow> or_id x = er_id e \<and> ce_ID (or_envelope x) = or_event_id x \<and>
     ce_Type (or_envelope x) = InvoiceEventType_str (er_type e) \<and>
     ce_Subject (or_envelope x) = ''invoice/'' @ er_invoice_id e \<and> Unix (ce_Time (or_envelope x)) = er_occurred_at e \<and>
     (\<exists>r. invoice_at t (er_invoice_id e) = Some r \<and> or_merchant_id x = ir_merchant_id r)"

definition core_ok :: "(string \<Rightarrow> string) \<Rightarrow> Tables \<Rightarrow> bool" where
  "core_ok H t \<longleftrightarrow> keys_ok t \<and> nums_ok t \<and> rows_ok H t"

definition told :: "Tables \<Rightarrow> bool" where
  "told t \<longleftrightarrow> list_all2 (tells t) (t_invoice_events t) (t_outbox_events t)"

definition tables_ok :: "(string \<Rightarrow> string) \<Rightarrow> Tables \<Rightarrow> bool" where
  "tables_ok H t \<longleftrightarrow> core_ok H t \<and> told t"

definition sql_ok :: "SqlStore \<Rightarrow> bool" where
  "sql_ok s \<longleftrightarrow> tables_ok (db_hash s) (db_data s)"

lemma sql_ok_view [simp]: "sql_ok (db_tick s) = sql_ok s" "sql_ok (s\<lparr>db_data := t\<rparr>) = tables_ok (db_hash s) t"
  by (simp_all add: sql_ok_def)

lemma empty_ok: "tables_ok H empty_tables"
  by (simp add: tables_ok_def core_ok_def told_def keys_ok_def nums_ok_def rows_ok_def empty_tables_def)

section \<open>References survive\<close>

lemma merchant_at_grows:
  assumes "grows t u" "merchant_at t m \<noteq> None"
  shows "merchant_at u m \<noteq> None"
proof -
  obtain r where r: "find (\<lambda>r. mr_merchant_id r = m) (t_merchants t) = Some r" using assms(2) by (auto simp: merchant_at_def)
  have "table_evolves (\<lambda>a b. merchant_terms a = merchant_terms b) (t_merchants t) (t_merchants u)"
    using assms(1) by (simp add: grows_def)
  from table_evolves_find [OF this _ r] show ?thesis by (auto simp: merchant_at_def merchant_terms_def)
qed

lemma invoice_termsD:
  assumes "invoice_terms a = invoice_terms b"
  shows "ir_seq b = ir_seq a" "ir_invoice_id b = ir_invoice_id a" "ir_merchant_id b = ir_merchant_id a"
    "ir_external_order_id b = ir_external_order_id a" "ir_external_order_id_hash b = ir_external_order_id_hash a"
    "ir_wallet_id b = ir_wallet_id a" "ir_address b = ir_address a" "ir_address_hash b = ir_address_hash a"
    "ir_amount_zat b = ir_amount_zat a" "ir_created_after_height b = ir_created_after_height a"
    "ir_address_index b = ir_address_index a" "ir_expires_at b = ir_expires_at a" "ir_created_at b = ir_created_at a"
  using assms by (cases a; cases b; simp add: invoice_terms_def)+

lemma invoice_at_grows:
  assumes "grows t u" "invoice_at t i = Some r"
  shows "\<exists>r'. invoice_at u i = Some r' \<and> invoice_terms r = invoice_terms r'"
proof -
  have "table_evolves (\<lambda>a b. invoice_terms a = invoice_terms b) (t_invoices t) (t_invoices u)"
    using assms(1) by (simp add: grows_def)
  then show ?thesis
    unfolding invoice_at_def
    by (rule table_evolves_find) (erule invoice_termsD(2) [symmetric], rule assms(2) [unfolded invoice_at_def])
qed

lemma fixed_at_grows:
  "grows t u \<Longrightarrow> refund_at t f = Some r1 \<Longrightarrow> refund_at u f = Some r1"
  "grows t u \<Longrightarrow> sink_at t k = Some r2 \<Longrightarrow> sink_at u k = Some r2"
  "grows t u \<Longrightarrow> outbox_at t e = Some r3 \<Longrightarrow> outbox_at u e = Some r3"
  using table_evolves_find [where r = "(=)" and k = fr_refund_id] table_evolves_find [where r = "(=)" and k = xr_sink_id]
    table_evolves_find [where r = "(=)" and k = or_event_id]
  by (fastforce simp: grows_def refund_at_def sink_at_def outbox_at_def)+

lemma invoice_at_same:
  assumes "grows t u" "invoice_at t i = Some r"
  shows "\<exists>r'. invoice_at u i = Some r' \<and> ir_merchant_id r' = ir_merchant_id r \<and> ir_wallet_id r' = ir_wallet_id r"
  using invoice_at_grows [OF assms] invoice_termsD(3,6) by metis

lemma row_ok_grows:
  assumes "grows t u"
  shows "invoice_at t i \<noteq> None \<Longrightarrow> invoice_at u i \<noteq> None"
    "wallet_row_ok t w \<Longrightarrow> wallet_row_ok u w" "deposit_row_ok H t d \<Longrightarrow> deposit_row_ok H u d"
    "refund_row_ok t f \<Longrightarrow> refund_row_ok u f" "review_row_ok t v \<Longrightarrow> review_row_ok u v"
    "event_row_ok t e \<Longrightarrow> event_row_ok u e" "delivery_row_ok t l \<Longrightarrow> delivery_row_ok u l"
    "tells t ev x \<Longrightarrow> tells u ev x"
proof -
  note m = merchant_at_grows [OF assms] and i = invoice_at_same [OF assms] and f = fixed_at_grows [OF assms]
  show iv: "invoice_at t i \<noteq> None \<Longrightarrow> invoice_at u i \<noteq> None" for i using i by fastforce
  show "wallet_row_ok t w \<Longrightarrow> wallet_row_ok u w" using m by (simp add: wallet_row_ok_def)
  show "deposit_row_ok H t d \<Longrightarrow> deposit_row_ok H u d" using i by (fastforce simp: deposit_row_ok_def)
  show "refund_row_ok t f \<Longrightarrow> refund_row_ok u f" using m i by (fastforce simp: refund_row_ok_def)
  show "review_row_ok t v \<Longrightarrow> review_row_ok u v" using i by (fastforce simp: review_row_ok_def)
  show "event_row_ok t e \<Longrightarrow> event_row_ok u e" using iv f(1) by (fastforce simp: event_row_ok_def)
  show "delivery_row_ok t l \<Longrightarrow> delivery_row_ok u l" using f(2,3) by (fastforce simp: delivery_row_ok_def)
  show "tells t ev x \<Longrightarrow> tells u ev x" using i by (fastforce simp: tells_def)
qed

text \<open>The rows of the new tables are old ones, or have to be looked at.\<close>

lemma rows_okI:
  assumes "rows_ok H t" "grows t u"
    and "\<And>w. w \<in> set (t_merchant_wallets u) \<Longrightarrow> w \<in> set (t_merchant_wallets t) \<or> wallet_row_ok t w"
    and "\<And>k. k \<in> set (t_api_keys u) \<Longrightarrow> k \<in> set (t_api_keys t) \<or> merchant_at t (kr_merchant_id k) \<noteq> None"
    and "\<And>r. r \<in> set (t_invoices u) \<Longrightarrow> r \<in> set (t_invoices t) \<or> invoice_row_ok H r"
    and "\<And>x. x \<in> set (t_invoice_tokens u) \<Longrightarrow> x \<in> set (t_invoice_tokens t) \<or> invoice_at t (fst x) \<noteq> None"
    and "\<And>c. c \<in> set (t_scan_cursors u) \<Longrightarrow> c \<in> set (t_scan_cursors t) \<or> 0 < cr_cursor_id c"
    and "\<And>d. d \<in> set (t_deposits u) \<Longrightarrow> d \<in> set (t_deposits t) \<or> deposit_row_ok H t d"
    and "\<And>f. f \<in> set (t_refunds u) \<Longrightarrow> f \<in> set (t_refunds t) \<or> refund_row_ok t f"
    and "\<And>v. v \<in> set (t_review_cases u) \<Longrightarrow> v \<in> set (t_review_cases t) \<or> review_row_ok t v"
    and "\<And>e. e \<in> set (t_invoice_events u) \<Longrightarrow> e \<in> set (t_invoice_events t) \<or> event_row_ok t e"
    and "\<And>x. x \<in> set (t_event_sinks u) \<Longrightarrow> x \<in> set (t_event_sinks t) \<or> merchant_at t (xr_merchant_id x) \<noteq> None"
    and "\<And>l. l \<in> set (t_event_deliveries u) \<Longrightarrow> l \<in> set (t_event_deliveries t) \<or> delivery_row_ok t l"
  shows "rows_ok H u"
proof -
  note old = assms(1) [unfolded rows_ok_def] and g = row_ok_grows [OF assms(2)] and m = merchant_at_grows [OF assms(2)]
  show ?thesis
    unfolding rows_ok_def
    apply (intro conjI ballI)
    subgoal using old assms(3) g(2) by blast
    subgoal using old assms(4) m by blast
    subgoal using old assms(5) by blast
    subgoal using old assms(6) g(1) by blast
    subgoal using old assms(7) by blast
    subgoal using old assms(8) g(3) by blast
    subgoal using old assms(9) g(4) by blast
    subgoal using old assms(10) g(5) by blast
    subgoal using old assms(11) g(6) by blast
    subgoal using old assms(12) m by blast
    subgoal using old assms(13) g(7) by blast
    done
qed

section \<open>Every statement\<close>

lemma clash_sym:
  "merchant_clash a1 b1 \<Longrightarrow> merchant_clash b1 a1" "wallet_clash a2 b2 \<Longrightarrow> wallet_clash b2 a2"
  "key_clash a3 b3 \<Longrightarrow> key_clash b3 a3" "invoice_clash a4 b4 \<Longrightarrow> invoice_clash b4 a4"
  "token_clash a5 b5 \<Longrightarrow> token_clash b5 a5" "cursor_clash a6 b6 \<Longrightarrow> cursor_clash b6 a6"
  "deposit_clash a7 b7 \<Longrightarrow> deposit_clash b7 a7" "refund_clash a8 b8 \<Longrightarrow> refund_clash b8 a8"
  "review_clash a9 b9 \<Longrightarrow> review_clash b9 a9" "event_clash a10 b10 \<Longrightarrow> event_clash b10 a10"
  "sink_clash a11 b11 \<Longrightarrow> sink_clash b11 a11" "outbox_clash a12 b12 \<Longrightarrow> outbox_clash b12 a12"
  "delivery_clash a13 b13 \<Longrightarrow> delivery_clash b13 a13"
  by (auto simp: merchant_clash_def wallet_clash_def key_clash_def invoice_clash_def token_clash_def cursor_clash_def
      deposit_clash_def refund_clash_def review_clash_def sink_clash_def outbox_clash_def delivery_clash_def)
    (cases "er_deposit a10"; cases "er_deposit b10"; cases "er_refund_id a10"; cases "er_refund_id b10";
      auto simp: event_clash_def)

lemmas keys_append = no_clash_append [OF _ _ clash_sym(1)] no_clash_append [OF _ _ clash_sym(2)]
  no_clash_append [OF _ _ clash_sym(3)] no_clash_append [OF _ _ clash_sym(4)] no_clash_append [OF _ _ clash_sym(5)]
  no_clash_append [OF _ _ clash_sym(6)] no_clash_append [OF _ _ clash_sym(7)] no_clash_append [OF _ _ clash_sym(8)]
  no_clash_append [OF _ _ clash_sym(9)] no_clash_append [OF _ _ clash_sym(10)] no_clash_append [OF _ _ clash_sym(11)]
  no_clash_append [OF _ _ clash_sym(12)] no_clash_append [OF _ _ clash_sym(13)]

lemma rows_okD:
  assumes "tables_ok H t"
  shows "w \<in> set (t_merchant_wallets t) \<Longrightarrow> wallet_row_ok t w"
    "k \<in> set (t_api_keys t) \<Longrightarrow> merchant_at t (kr_merchant_id k) \<noteq> None"
    "r \<in> set (t_invoices t) \<Longrightarrow> invoice_row_ok H r"
    "x \<in> set (t_invoice_tokens t) \<Longrightarrow> invoice_at t (fst x) \<noteq> None"
    "c \<in> set (t_scan_cursors t) \<Longrightarrow> 0 < cr_cursor_id c"
    "d \<in> set (t_deposits t) \<Longrightarrow> deposit_row_ok H t d"
    "f \<in> set (t_refunds t) \<Longrightarrow> refund_row_ok t f"
    "v \<in> set (t_review_cases t) \<Longrightarrow> review_row_ok t v"
    "e \<in> set (t_invoice_events t) \<Longrightarrow> event_row_ok t e"
    "y \<in> set (t_event_sinks t) \<Longrightarrow> merchant_at t (xr_merchant_id y) \<noteq> None"
    "l \<in> set (t_event_deliveries t) \<Longrightarrow> delivery_row_ok t l"
  using assms unfolding tables_ok_def core_ok_def rows_ok_def by blast+

lemma told_grows:
  assumes "told t" "grows t u" "t_invoice_events u = t_invoice_events t" "t_outbox_events u = t_outbox_events t"
  shows "told u"
  using assms row_ok_grows(8) [OF assms(2)] by (auto simp: told_def elim!: list_all2_mono)

lemma core_okD: "core_ok H t \<Longrightarrow> keys_ok t" "core_ok H t \<Longrightarrow> nums_ok t" "core_ok H t \<Longrightarrow> rows_ok H t"
  by (simp_all add: core_ok_def)

lemma tables_okI:
  assumes "tables_ok H t" "grows t u" "keys_ok u" "nums_ok u" "rows_ok H u"
    "t_invoice_events u = t_invoice_events t" "t_outbox_events u = t_outbox_events t"
  shows "tables_ok H u"
  using assms told_grows [OF _ assms(2)] by (simp add: tables_ok_def core_ok_def)

lemma tables_okD: "tables_ok H t \<Longrightarrow> keys_ok t" "tables_ok H t \<Longrightarrow> nums_ok t" "tables_ok H t \<Longrightarrow> rows_ok H t"
    "tables_ok H t \<Longrightarrow> told t" "tables_ok H t \<Longrightarrow> core_ok H t"
  by (simp_all add: tables_ok_def core_ok_def)

text \<open>A statement on a table other than the events and the outbox.\<close>

lemma change_ok:
  assumes "grows t u" "tables_ok H t" "keys_ok t \<Longrightarrow> keys_ok u" "nums_ok t \<Longrightarrow> nums_ok u"
    "t_invoice_events u = t_invoice_events t" "t_outbox_events u = t_outbox_events t"
    and "\<And>w. w \<in> set (t_merchant_wallets u) \<Longrightarrow> w \<in> set (t_merchant_wallets t) \<or> wallet_row_ok t w"
    and "\<And>k. k \<in> set (t_api_keys u) \<Longrightarrow> k \<in> set (t_api_keys t) \<or> merchant_at t (kr_merchant_id k) \<noteq> None"
    and "\<And>r. r \<in> set (t_invoices u) \<Longrightarrow> r \<in> set (t_invoices t) \<or> invoice_row_ok H r"
    and "\<And>x. x \<in> set (t_invoice_tokens u) \<Longrightarrow> x \<in> set (t_invoice_tokens t) \<or> invoice_at t (fst x) \<noteq> None"
    and "\<And>c. c \<in> set (t_scan_cursors u) \<Longrightarrow> c \<in> set (t_scan_cursors t) \<or> 0 < cr_cursor_id c"
    and "\<And>d. d \<in> set (t_deposits u) \<Longrightarrow> d \<in> set (t_deposits t) \<or> deposit_row_ok H t d"
    and "\<And>f. f \<in> set (t_refunds u) \<Longrightarrow> f \<in> set (t_refunds t) \<or> refund_row_ok t f"
    and "\<And>v. v \<in> set (t_review_cases u) \<Longrightarrow> v \<in> set (t_review_cases t) \<or> review_row_ok t v"
    and "\<And>e. e \<in> set (t_invoice_events u) \<Longrightarrow> e \<in> set (t_invoice_events t) \<or> event_row_ok t e"
    and "\<And>x. x \<in> set (t_event_sinks u) \<Longrightarrow> x \<in> set (t_event_sinks t) \<or> merchant_at t (xr_merchant_id x) \<noteq> None"
    and "\<And>l. l \<in> set (t_event_deliveries u) \<Longrightarrow> l \<in> set (t_event_deliveries t) \<or> delivery_row_ok t l"
  shows "tables_ok H u"
proof (rule tables_okI [OF assms(2,1)])
  show "keys_ok u" "nums_ok u" using tables_okD(1,2) [OF assms(2)] assms(3,4) by simp_all
  show "rows_ok H u" by (rule rows_okI [OF tables_okD(3) [OF assms(2)] assms(1,7-)])
qed (rule assms(5,6))+

lemmas change_simps = keys_ok_def nums_ok_def keys_append numbered_append

lemma insert_ok:
  "db_insert t_merchants t_merchants_update merchant_clash r1 t = Some (n, u) \<Longrightarrow> tables_ok H t \<Longrightarrow> tables_ok H u"
  "db_insert t_merchant_wallets t_merchant_wallets_update wallet_clash r2 t = Some (n, u) \<Longrightarrow> tables_ok H t \<Longrightarrow>
     wallet_row_ok t r2 \<Longrightarrow> tables_ok H u"
  "db_insert t_api_keys t_api_keys_update key_clash r3 t = Some (n, u) \<Longrightarrow> tables_ok H t \<Longrightarrow>
     merchant_at t (kr_merchant_id r3) \<noteq> None \<Longrightarrow> tables_ok H u"
  "db_insert_auto t_invoices t_invoices_update n_invoices n_invoices_update invoice_clash r4 t = Some (n, u) \<Longrightarrow>
     tables_ok H t \<Longrightarrow> (\<And>n. ir_seq (r4 n) = n) \<Longrightarrow> (\<And>n. invoice_row_ok H (r4 n)) \<Longrightarrow> tables_ok H u"
  "db_insert t_invoice_tokens t_invoice_tokens_update token_clash r5 t = Some (n, u) \<Longrightarrow> tables_ok H t \<Longrightarrow>
     invoice_at t (fst r5) \<noteq> None \<Longrightarrow> tables_ok H u"
  "db_insert t_scan_cursors t_scan_cursors_update cursor_clash r6 t = Some (n, u) \<Longrightarrow> tables_ok H t \<Longrightarrow>
     0 < cr_cursor_id r6 \<Longrightarrow> tables_ok H u"
  "db_insert_auto t_deposits t_deposits_update n_deposits n_deposits_update deposit_clash r7 t = Some (n, u) \<Longrightarrow>
     tables_ok H t \<Longrightarrow> (\<And>n. dr_seq (r7 n) = n) \<Longrightarrow> (\<And>n. deposit_row_ok H t (r7 n)) \<Longrightarrow> tables_ok H u"
  "db_insert_auto t_refunds t_refunds_update n_refunds n_refunds_update refund_clash r8 t = Some (n, u) \<Longrightarrow>
     tables_ok H t \<Longrightarrow> (\<And>n. fr_id (r8 n) = n) \<Longrightarrow> (\<And>n. refund_row_ok t (r8 n)) \<Longrightarrow> tables_ok H u"
  "db_insert_auto t_review_cases t_review_cases_update n_review_cases n_review_cases_update review_clash r9 t = Some (n, u) \<Longrightarrow>
     tables_ok H t \<Longrightarrow> (\<And>n. vr_id (r9 n) = n) \<Longrightarrow> (\<And>n. review_row_ok t (r9 n)) \<Longrightarrow> tables_ok H u"
  "db_insert t_event_sinks t_event_sinks_update sink_clash r11 t = Some (n, u) \<Longrightarrow> tables_ok H t \<Longrightarrow>
     merchant_at t (xr_merchant_id r11) \<noteq> None \<Longrightarrow> tables_ok H u"
  "db_insert t_event_deliveries t_event_deliveries_update delivery_clash r13 t = Some (n, u) \<Longrightarrow> tables_ok H t \<Longrightarrow>
     delivery_row_ok t r13 \<Longrightarrow> tables_ok H u"
  subgoal by (elim db_insertE, hypsubst, rule change_ok [OF grows_add(1)]) (auto simp: change_simps)
  subgoal by (elim db_insertE, hypsubst, rule change_ok [OF grows_add(2)]) (auto simp: change_simps)
  subgoal by (elim db_insertE, hypsubst, rule change_ok [OF grows_add(3)]) (auto simp: change_simps)
  subgoal by (elim db_insert_autoE, clarsimp, rule change_ok [OF grows_add(4)]) (auto simp: change_simps)
  subgoal by (elim db_insertE, hypsubst, rule change_ok [OF grows_add(5)]) (auto simp: change_simps)
  subgoal by (elim db_insertE, hypsubst, rule change_ok [OF grows_add(6)]) (auto simp: change_simps)
  subgoal by (elim db_insert_autoE, clarsimp, rule change_ok [OF grows_add(7)]) (auto simp: change_simps)
  subgoal by (elim db_insert_autoE, clarsimp, rule change_ok [OF grows_add(8)]) (auto simp: change_simps)
  subgoal by (elim db_insert_autoE, clarsimp, rule change_ok [OF grows_add(9)]) (auto simp: change_simps)
  subgoal by (elim db_insertE, hypsubst, rule change_ok [OF grows_add(11)]) (auto simp: change_simps)
  subgoal by (elim db_insertE, hypsubst, rule change_ok [OF grows_add(13)]) (auto simp: change_simps)
  done

text \<open>Updates.\<close>

lemma no_clash_change:
  "no_clash clash rs \<Longrightarrow> (\<And>a b. clash (if c a then f a else a) (if c b then f b else b) \<Longrightarrow> clash a b) \<Longrightarrow>
     no_clash clash (map (\<lambda>r. if c r then f r else r) rs)"
  by (rule no_clash_map)

lemma wallet_stepD: "wallet_step a b \<Longrightarrow> wr_merchant_id b = wr_merchant_id a \<and> wr_next_address_index a \<le> wr_next_address_index b"
  by (cases a; cases b) (simp add: wallet_step_def)

lemma key_stepD: "key_step a b \<Longrightarrow> kr_key_id b = kr_key_id a \<and> kr_token_hash b = kr_token_hash a \<and> kr_merchant_id b = kr_merchant_id a"
  by (cases a; cases b) (simp add: key_step_def)

lemma update_ok:
  "db_update t_merchants t_merchants_update c1 f1 t = Some (n, u) \<Longrightarrow> tables_ok H t \<Longrightarrow>
     (\<And>r. merchant_terms r = merchant_terms (f1 r)) \<Longrightarrow> tables_ok H u"
  "db_update t_merchant_wallets t_merchant_wallets_update c2 f2 t = Some (n, u) \<Longrightarrow> tables_ok H t \<Longrightarrow>
     (\<And>r. wallet_step r (f2 r)) \<Longrightarrow> tables_ok H u"
  "db_update t_api_keys t_api_keys_update c3 f3 t = Some (n, u) \<Longrightarrow> tables_ok H t \<Longrightarrow>
     (\<And>r. c3 r \<Longrightarrow> key_step r (f3 r)) \<Longrightarrow> tables_ok H u"
  "db_update t_invoices t_invoices_update c4 f4 t = Some (n, u) \<Longrightarrow> tables_ok H t \<Longrightarrow>
     (\<And>r. invoice_terms r = invoice_terms (f4 r)) \<Longrightarrow> tables_ok H u"
  "db_update t_invoice_tokens t_invoice_tokens_update c5 f5 t = Some (n, u) \<Longrightarrow> tables_ok H t \<Longrightarrow>
     (\<And>r. fst r = fst (f5 r)) \<Longrightarrow> tables_ok H u"
  "db_update t_scan_cursors t_scan_cursors_update c6 f6 t = Some (n, u) \<Longrightarrow> tables_ok H t \<Longrightarrow>
     (\<And>r. c6 r \<Longrightarrow> cursor_step r (f6 r)) \<Longrightarrow> tables_ok H u"
  "db_update t_deposits t_deposits_update c7 f7 t = Some (n, u) \<Longrightarrow> tables_ok H t \<Longrightarrow>
     (\<And>r. deposit_step r (f7 r)) \<Longrightarrow>
     (\<And>r. r \<in> set (t_deposits t) \<Longrightarrow> c7 r \<Longrightarrow> deposit_row_ok H t r \<Longrightarrow> deposit_row_ok H t (f7 r)) \<Longrightarrow> tables_ok H u"
  "db_update_unique t_review_cases t_review_cases_update review_clash c8 f8 t = Some (n, u) \<Longrightarrow> tables_ok H t \<Longrightarrow>
     (\<And>r. review_terms r = review_terms (f8 r)) \<Longrightarrow> tables_ok H u"
  "db_update t_event_deliveries t_event_deliveries_update c9 f9 t = Some (n, u) \<Longrightarrow> tables_ok H t \<Longrightarrow>
     (\<And>r. delivery_terms r = delivery_terms (f9 r)) \<Longrightarrow> tables_ok H u"
proof -
  show "tables_ok H u" if "db_update t_merchants t_merchants_update c1 f1 t = Some (n, u)" "tables_ok H t"
    and f: "\<And>r. merchant_terms r = merchant_terms (f1 r)"
  proof -
    have "mr_merchant_id (f1 r) = mr_merchant_id r" for r using f [of r] by (simp add: merchant_terms_def)
    with that(1,2) show ?thesis
      by (elim db_updateE, hypsubst, intro change_ok [OF grows_change(1) [OF f]])
        (auto simp: keys_ok_def nums_ok_def merchant_clash_def intro!: no_clash_change split: if_splits)
  qed
  show "tables_ok H u" if "db_update t_merchant_wallets t_merchant_wallets_update c2 f2 t = Some (n, u)" "tables_ok H t"
    and f: "\<And>r. wallet_step r (f2 r)"
  proof -
    have g: "wr_merchant_id (f2 r) = wr_merchant_id r" "wr_next_address_index r \<le> wr_next_address_index (f2 r)" for r
      using wallet_stepD [OF f] by blast+
    have "r \<in> set (t_merchant_wallets t) \<Longrightarrow> wallet_row_ok t (f2 r)" for r
      using rows_okD(1) [OF that(2)] g(1) [of r] g(2) [of r] by (fastforce simp: wallet_row_ok_def)
    with that(1,2) g(1) show ?thesis
      by (elim db_updateE, hypsubst, intro change_ok [OF grows_change(2) [OF f]])
        (auto simp: keys_ok_def nums_ok_def wallet_clash_def intro!: no_clash_change split: if_splits)
  qed
  show "tables_ok H u" if "db_update t_api_keys t_api_keys_update c3 f3 t = Some (n, u)" "tables_ok H t"
    and f: "\<And>r. c3 r \<Longrightarrow> key_step r (f3 r)"
  proof -
    note g = key_stepD [OF f]
    have "r \<in> set (t_api_keys t) \<Longrightarrow> c3 r \<Longrightarrow> merchant_at t (kr_merchant_id (f3 r)) \<noteq> None" for r
      using rows_okD(2) [OF that(2)] g [of r] by simp
    with that(1,2) g show ?thesis
      by (elim db_updateE, hypsubst, intro change_ok [OF grows_change(3) [OF f]])
        (auto simp: keys_ok_def nums_ok_def key_clash_def intro!: no_clash_change split: if_splits)
  qed
  show "tables_ok H u" if "db_update t_invoices t_invoices_update c4 f4 t = Some (n, u)" "tables_ok H t"
    and f: "\<And>r. invoice_terms r = invoice_terms (f4 r)"
  proof -
    note g = invoice_termsD [OF f]
    have rows: "r \<in> set (t_invoices t) \<Longrightarrow> invoice_row_ok H (f4 r)" for r
      using rows_okD(3) [OF that(2)] by (simp add: invoice_row_ok_def g)
    have "invoice_clash (if c4 a then f4 a else a) (if c4 b then f4 b else b) \<longleftrightarrow> invoice_clash a b" for a b
      by (cases "c4 a"; cases "c4 b"; simp add: invoice_clash_def g)
    then have keys: "no_clash invoice_clash (t_invoices t) \<Longrightarrow>
        no_clash invoice_clash (map (\<lambda>r. if c4 r then f4 r else r) (t_invoices t))"
      by (intro no_clash_change) simp_all
    from that(1) show ?thesis
      apply (elim db_updateE, hypsubst)
      apply (rule change_ok [OF grows_change(4) [OF f]], rule that(2))
      apply (simp add: keys_ok_def keys)
      apply (simp add: nums_ok_def g numbered_change)
      apply simp_all
      using rows by auto
  qed
  show "tables_ok H u" if "db_update t_invoice_tokens t_invoice_tokens_update c5 f5 t = Some (n, u)" "tables_ok H t"
    and f: "\<And>r. fst r = fst (f5 r)"
  proof -
    have "r \<in> set (t_invoice_tokens t) \<Longrightarrow> invoice_at t (fst (f5 r)) \<noteq> None" for r
      using rows_okD(4) [OF that(2)] by (simp add: f [symmetric])
    with that(1,2) show ?thesis
      by (elim db_updateE, hypsubst, intro change_ok [OF grows_change(5) [OF f]])
        (auto simp: keys_ok_def nums_ok_def token_clash_def f [symmetric] intro!: no_clash_change split: if_splits)
  qed
  show "tables_ok H u" if "db_update t_scan_cursors t_scan_cursors_update c6 f6 t = Some (n, u)" "tables_ok H t"
    and f: "\<And>r. c6 r \<Longrightarrow> cursor_step r (f6 r)"
  proof -
    have g: "c6 r \<Longrightarrow> cr_wallet_id (f6 r) = cr_wallet_id r" "c6 r \<Longrightarrow> cr_cursor_id r \<le> cr_cursor_id (f6 r)" for r
      using f by (auto simp: cursor_step_def)
    have "r \<in> set (t_scan_cursors t) \<Longrightarrow> c6 r \<Longrightarrow> 0 < cr_cursor_id (f6 r)" for r
      using rows_okD(5) [OF that(2)] g(2) by fastforce
    with that(1,2) g(1) show ?thesis
      by (elim db_updateE, hypsubst, intro change_ok [OF grows_change(6) [OF f]])
        (auto simp: keys_ok_def nums_ok_def cursor_clash_def intro!: no_clash_change split: if_splits)
  qed
  show "tables_ok H u" if "db_update t_deposits t_deposits_update c7 f7 t = Some (n, u)" "tables_ok H t"
    and f: "\<And>r. deposit_step r (f7 r)"
    and ok: "\<And>r. r \<in> set (t_deposits t) \<Longrightarrow> c7 r \<Longrightarrow> deposit_row_ok H t r \<Longrightarrow> deposit_row_ok H t (f7 r)"
  proof -
    note g = f [unfolded deposit_step_def]
    have "r \<in> set (t_deposits t) \<Longrightarrow> c7 r \<Longrightarrow> deposit_row_ok H t (f7 r)" for r
      using rows_okD(6) [OF that(2)] ok by blast
    with that(1,2) show ?thesis
      by (elim db_updateE, hypsubst, intro change_ok [OF grows_change(7) [OF f]])
        (auto simp: keys_ok_def nums_ok_def deposit_clash_def g intro!: no_clash_change numbered_change split: if_splits)
  qed
  show "tables_ok H u" if "db_update_unique t_review_cases t_review_cases_update review_clash c8 f8 t = Some (n, u)"
    "tables_ok H t" and f: "\<And>r. review_terms r = review_terms (f8 r)"
  proof -
    have g: "vr_id (f8 r) = vr_id r" "vr_invoice_id (f8 r) = vr_invoice_id r" "vr_merchant_id (f8 r) = vr_merchant_id r" for r
      using f [of r] by (cases r; cases "f8 r"; simp add: review_terms_def)+
    have "r \<in> set (t_review_cases t) \<Longrightarrow> review_row_ok t (f8 r)" for r
      using rows_okD(8) [OF that(2)] by (simp add: review_row_ok_def g)
    with that(1,2) show ?thesis
      by (elim db_update_uniqueE, hypsubst, intro change_ok [OF grows_change(8) [OF f]])
        (auto simp: keys_ok_def nums_ok_def g intro: numbered_change)
  qed
  show "tables_ok H u" if "db_update t_event_deliveries t_event_deliveries_update c9 f9 t = Some (n, u)" "tables_ok H t"
    and f: "\<And>r. delivery_terms r = delivery_terms (f9 r)"
  proof -
    have g: "lr_delivery_id (f9 r) = lr_delivery_id r" "lr_merchant_id (f9 r) = lr_merchant_id r"
      "lr_sink_id (f9 r) = lr_sink_id r" "lr_event_id (f9 r) = lr_event_id r" for r
      using f [of r] by (simp_all add: delivery_terms_def)
    have "r \<in> set (t_event_deliveries t) \<Longrightarrow> delivery_row_ok t (f9 r)" for r
      using rows_okD(11) [OF that(2)] by (simp add: delivery_row_ok_def g)
    with that(1,2) show ?thesis
      by (elim db_updateE, hypsubst, intro change_ok [OF grows_change(9) [OF f]])
        (auto simp: keys_ok_def nums_ok_def delivery_clash_def g intro!: no_clash_change split: if_splits)
  qed
qed

end
