(* ===== verification/SqlKeep.thy ===== *)
theory SqlKeep
  imports SqlInv
begin

text \<open>
  Every call of the SQL store upholds the invariant of the tables: the operations by weakest preconditions,
  statement by statement; between the row of an event and the row of the outbox that tells it the invariant
  holds in part.
\<close>

section \<open>Rules\<close>

lemma wp_keep:
  assumes "wp m (\<lambda>_. sql_ok) s" "within grows m"
    and "\<And>x t. sql_ok t \<Longrightarrow> grows (db_data s) (db_data t) \<Longrightarrow> db_hash t = db_hash s \<Longrightarrow> Q x t"
  shows "wp m Q s"
proof (rule wpI)
  fix x t assume m: "m s = (Inr x, t)"
  have "sql_ok t" by (rule wpD [OF assms(1) m])
  with withinD [OF assms(2) m] assms(3) show "Q x t" by (simp add: same_env_fields)
qed

lemma wp_reads:
  assumes "reads m" "\<And>x t. db_data t = db_data s \<Longrightarrow> db_hash t = db_hash s \<Longrightarrow> Q x t"
  shows "wp m Q s"
  using assms by (intro wpI) (metis reads_def same_env_fields snd_conv)

lemma sql_okD: "sql_ok s \<Longrightarrow> tables_ok (db_hash s) (db_data s)"
  by (simp add: sql_ok_def)

lemma sql_ok_same: "db_data t = db_data s \<Longrightarrow> db_hash t = db_hash s \<Longrightarrow> sql_ok t = sql_ok s"
  by (simp add: sql_ok_def)

lemma found:
  assumes "tables_ok H t"
  shows "r1 \<in> set (t_invoices t) \<Longrightarrow> invoice_at t (ir_invoice_id r1) = Some r1"
    "r2 \<in> set (t_refunds t) \<Longrightarrow> refund_at t (fr_refund_id r2) = Some r2"
    "r3 \<in> set (t_event_sinks t) \<Longrightarrow> sink_at t (xr_sink_id r3) = Some r3"
    "r4 \<in> set (t_outbox_events t) \<Longrightarrow> outbox_at t (or_event_id r4) = Some r4"
proof -
  note k = tables_okD(1) [OF assms, unfolded keys_ok_def]
  show "r1 \<in> set (t_invoices t) \<Longrightarrow> invoice_at t (ir_invoice_id r1) = Some r1"
    unfolding invoice_at_def by (rule find_unique [where clash = invoice_clash]) (use k clash_sym in \<open>auto simp: invoice_clash_def\<close>)
  show "r2 \<in> set (t_refunds t) \<Longrightarrow> refund_at t (fr_refund_id r2) = Some r2"
    unfolding refund_at_def by (rule find_unique [where clash = refund_clash]) (use k clash_sym in \<open>auto simp: refund_clash_def\<close>)
  show "r3 \<in> set (t_event_sinks t) \<Longrightarrow> sink_at t (xr_sink_id r3) = Some r3"
    unfolding sink_at_def by (rule find_unique [where clash = sink_clash]) (use k clash_sym in \<open>auto simp: sink_clash_def\<close>)
  show "r4 \<in> set (t_outbox_events t) \<Longrightarrow> outbox_at t (or_event_id r4) = Some r4"
    unfolding outbox_at_def by (rule find_unique [where clash = outbox_clash]) (use k clash_sym in \<open>auto simp: outbox_clash_def\<close>)
qed

lemma has_merchant: "list_ex (\<lambda>r. mr_merchant_id r = m) (t_merchants t) \<longleftrightarrow> merchant_at t m \<noteq> None"
  by (auto simp: merchant_at_def find_None_iff list_ex_iff)

lemma has_invoice: "list_ex (\<lambda>r. ir_invoice_id r = i) (t_invoices t) \<longleftrightarrow> invoice_at t i \<noteq> None"
  by (auto simp: invoice_at_def find_None_iff list_ex_iff)

lemma invoice_at_mem: "invoice_at t i = Some r \<Longrightarrow> r \<in> set (t_invoices t) \<and> ir_invoice_id r = i"
  by (auto simp: invoice_at_def find_Some_iff)

section \<open>An event and its outbox row\<close>

text \<open>The last event has not been told yet.\<close>

definition untold :: "(string \<Rightarrow> string) \<Rightarrow> Tables \<Rightarrow> EventRow \<Rightarrow> bool" where
  "untold H t e \<longleftrightarrow> core_ok H t \<and>
     (\<exists>es. t_invoice_events t = es @ [e] \<and> list_all2 (tells t) es (t_outbox_events t))"

lemma core_okI:
  assumes "core_ok H t" "grows t u" "keys_ok t \<Longrightarrow> keys_ok u" "nums_ok t \<Longrightarrow> nums_ok u" "rows_ok H t \<Longrightarrow> rows_ok H u"
  shows "core_ok H u"
  using assms by (simp add: core_ok_def)

lemma insert_event:
  assumes "db_insert_auto t_invoice_events t_invoice_events_update n_invoice_events n_invoice_events_update event_clash row t
      = Some (n, u)"
    and ok: "tables_ok H t" and row: "\<And>n. er_id (row n) = n" "\<And>n. event_row_ok t (row n)"
  shows "untold H u (row (Suc (n_invoice_events t))) \<and> grows t u"
proof -
  let ?e = "row (Suc (n_invoice_events t))"
  have u: "u = t_invoice_events_update (\<lambda>_. t_invoice_events t @ [?e]) (n_invoice_events_update Suc t)"
    and new: "\<forall>x \<in> set (t_invoice_events t). \<not> event_clash ?e x"
    using assms(1) by (auto elim!: db_insert_autoE)
  have g: "grows t u" unfolding u by (rule grows_add(10))
  have "core_ok H u"
  proof (rule core_okI [OF tables_okD(5) [OF ok] g])
    show "keys_ok t \<Longrightarrow> keys_ok u" using new by (auto simp: u keys_ok_def intro: keys_append)
    show "nums_ok t \<Longrightarrow> nums_ok u" by (auto simp: u nums_ok_def row(1) intro: numbered_append)
    show "rows_ok H t \<Longrightarrow> rows_ok H u" by (rule rows_okI [OF _ g]) (auto simp: u row(2))
  qed
  moreover have "list_all2 (tells u) (t_invoice_events t) (t_outbox_events u)"
    using tables_okD(4) [OF ok] row_ok_grows(8) [OF g] by (auto simp: told_def u elim!: list_all2_mono)
  ultimately show ?thesis using g by (auto simp: untold_def u)
qed

lemma insert_outbox:
  assumes "db_insert_auto t_outbox_events t_outbox_events_update n_outbox_events n_outbox_events_update outbox_clash row t
      = Some (n, u)"
    and un: "untold H t e" and row: "\<And>n. or_id (row n) = n" "\<And>n. or_id (row n) = er_id e \<Longrightarrow> tells t e (row n)"
  shows "tables_ok H u \<and> grows t u \<and> row (Suc (n_outbox_events t)) \<in> set (t_outbox_events u)"
proof -
  let ?x = "row (Suc (n_outbox_events t))"
  obtain es where core: "core_ok H t" and es: "t_invoice_events t = es @ [e]" "list_all2 (tells t) es (t_outbox_events t)"
    using un by (auto simp: untold_def)
  have u: "u = t_outbox_events_update (\<lambda>_. t_outbox_events t @ [?x]) (n_outbox_events_update Suc t)"
    and new: "\<forall>x \<in> set (t_outbox_events t). \<not> outbox_clash ?x x"
    using assms(1) by (auto elim!: db_insert_autoE)
  have g: "grows t u" unfolding u by (rule grows_add(12))
  have c: "core_ok H u"
  proof (rule core_okI [OF core g])
    show "keys_ok t \<Longrightarrow> keys_ok u" using new by (auto simp: u keys_ok_def intro: keys_append)
    show "nums_ok t \<Longrightarrow> nums_ok u" by (auto simp: u nums_ok_def row(1) intro: numbered_append)
    show "rows_ok H t \<Longrightarrow> rows_ok H u" by (rule rows_okI [OF _ g]) (auto simp: u)
  qed
  have n: "map er_id (es @ [e]) = [1..<Suc (n_invoice_events t)]" "map or_id (t_outbox_events t) = [1..<Suc (n_outbox_events t)]"
    using core_okD(2) [OF core] es(1) by (auto simp: nums_ok_def numbered_def)
  have len: "length es + 1 = n_invoice_events t" "length (t_outbox_events t) = n_outbox_events t"
    using arg_cong [OF n(1), of length] arg_cong [OF n(2), of length] by simp_all
  with es(2) have "Suc (n_outbox_events t) = n_invoice_events t" by (simp add: list_all2_lengthD)
  moreover have "er_id e = n_invoice_events t"
    using arg_cong [OF n(1), of last] len(1) by auto
  ultimately have "tells t e ?x" using row by simp
  then have "told u"
    using es row_ok_grows(8) [OF g] by (auto simp: told_def u elim!: list_all2_mono intro!: list_all2_appendI)
  with c g show ?thesis by (simp add: tables_ok_def u)
qed

lemma untold_tick [simp]: "db_hash (db_tick (s\<lparr>db_data := t\<rparr>)) = db_hash s" "db_data (db_tick (s\<lparr>db_data := t\<rparr>)) = t"
  by (simp_all add: db_tick_def)

lemma wp_insert_delivery:
  assumes "sql_ok s" "outbox_at (db_data s) ev = Some e" "or_merchant_id e = m"
    "sink_at (db_data s) k = Some x" "xr_merchant_id x = m"
  shows "wp (insert_delivery m ev n k) (\<lambda>_. sql_ok) s"
  unfolding insert_delivery_def
  by (intro wp_rules)
    (use insert_ok(11) [OF _ sql_okD [OF assms(1)]] assms in \<open>simp add: delivery_row_ok_def\<close>)

lemma reads_member [reads_rules]: "reads (refund_member rid)"
  unfolding refund_member_def Let_def
  by (auto intro!: reads_rules split: option.split)
    (auto simp: reads_def db_query_def db_stmt_def split: option.split)

lemma wp_deliveries:
  assumes "sql_ok s" "outbox_at (db_data s) ev = Some e" "or_merchant_id e = m"
    and "\<And>k. k \<in> set ks \<Longrightarrow> \<exists>x. sink_at (db_data s) k = Some x \<and> xr_merchant_id x = m"
  shows "wp (db_for ks (insert_delivery m ev n)) (\<lambda>_. sql_ok) s"
proof -
  let ?P = "\<lambda>t. sql_ok t \<and> outbox_at (db_data t) ev = Some e \<and>
    (\<forall>k \<in> set ks. \<exists>x. sink_at (db_data t) k = Some x \<and> xr_merchant_id x = m)"
  have "wp (insert_delivery m ev n k) (\<lambda>_. ?P) t" if k: "k \<in> set ks" and P: "?P t" for k t
  proof -
    have "wp (insert_delivery m ev n k) (\<lambda>_. sql_ok) t"
      using P k assms(3) by (auto intro: wp_insert_delivery)
    moreover have "within grows (insert_delivery m ev n k)"
      unfolding insert_delivery_def by (intro grow.within_intros within_rules)
    ultimately show ?thesis
      by (rule wp_keep) (use P fixed_at_grows in blast)
  qed
  then have "wp (db_for ks (insert_delivery m ev n)) (\<lambda>_. ?P) s"
    using assms by (intro wp_for) simp_all
  then show ?thesis by (rule wp_mono) simp
qed

lemma wp_enqueue:
  assumes un: "untold (db_hash s) (db_data s) e" and e: "er_invoice_id e = iid" "er_type e = typ" "er_occurred_at e = Unix at"
    and iv: "invoice_at (db_data s) iid \<noteq> None"
  shows "wp (enqueueOutboxForInvoiceEventTx iid typ at dep ref) (\<lambda>_. sql_ok) s"
  unfolding enqueueOutboxForInvoiceEventTx_def Let_def
  apply (intro wp_bind wp_query wp_option)
  subgoal using iv by (simp add: invoice_at_def)
  subgoal for r
    apply (rule wp_reads [OF reads_member])
    apply (intro wp_newID wp_if wp_fail wp_bind wp_now wp_exec wp_query)
    subgoal for refund t raw now n u
      apply (simp only: db_tick_fields untold_tick)
      apply (drule insert_outbox [OF _ un])
        apply simp
       apply (use iv in \<open>simp add: tells_def e invoice_at_def\<close>)
      apply (elim conjE)
      apply (rule wp_deliveries)
         apply (simp add: sql_ok_def)
        apply (simp only: db_tick_fields untold_tick)
        apply (drule (1) found(4))
        apply (simp only: OutboxRow.select_convs)
       apply simp
      apply (auto simp: sql_ok_def dest: found(3))
      done
    done
  done

text \<open>An event of an invoice; one of a refund, if it has any, is the invoice's.\<close>

lemma wp_insert_event:
  assumes ok: "sql_ok s" and iv: "invoice_at (db_data s) iid \<noteq> None" and one: "dep = None \<or> ref = None"
    and ref: "\<And>f. map_option TrimSpace (nonblank ref) = Some f \<Longrightarrow>
      \<exists>r. refund_at (db_data s) f = Some r \<and> fr_invoice_id r = Some iid"
  shows "wp (insertInvoiceEventTx iid typ at dep ref) (\<lambda>_. sql_ok) s"
proof -
  have row: "event_row_ok (db_data s) (event_row iid typ at dep ref now n)" for now n
    using iv one ref by (auto simp: event_row_ok_def event_row_def nonblank_def)
  have fresh: "wp (if ex then db_return () else db_bind db_now (\<lambda>now.
      db_bind (execTxIgnoreUnique (db_insert_auto t_invoice_events t_invoice_events_update n_invoice_events
        n_invoice_events_update event_clash (event_row iid typ at dep ref (Unix now)))) (\<lambda>inserted.
      if \<not> inserted then db_return () else enqueueOutboxForInvoiceEventTx iid typ at dep ref))) (\<lambda>_. sql_ok) t"
    if t: "db_data t = db_data s" "db_hash t = db_hash s" for ex t
    apply (intro wp_if wp_return wp_bind wp_now wp_execTxIgnoreUnique)
    subgoal using ok t by (simp add: sql_ok_def)
    subgoal by simp
    subgoal for now n u v
      apply (simp only: db_tick_fields t)
      apply (drule insert_event [OF _ sql_okD [OF ok] _ row])
       apply (simp add: event_row_def)
      apply (elim conjE)
      apply (rule wp_enqueue)
          apply simp
      using row_ok_grows(1) iv by (auto simp: event_row_def)
    subgoal using ok t by (simp add: sql_ok_def)
    subgoal by simp
    done
  show ?thesis
    unfolding insertInvoiceEventTx_def
    apply (rule wp_bind)
    apply (rule wp_mono [where Q = "\<lambda>_ t. db_data t = db_data s \<and> db_hash t = db_hash s"])
     apply (intro wp_if wp_return wp_catch_query wp_pair)
       apply simp_all [3]
    by (rule fresh) blast+
qed

section \<open>Every call\<close>

lemma wp_eta: "wp (Pair r) Q s \<longleftrightarrow> (case r of Inl _ \<Rightarrow> True | Inr x \<Rightarrow> Q x s)"
  by (simp add: wp_def)

lemma wp_merchant_exists:
  "(merchant_at (db_data s) m \<noteq> None \<Longrightarrow> Q () (db_tick s)) \<Longrightarrow> wp (merchant_exists m) Q s"
  unfolding merchant_exists_def has_merchant by (intro wp_rules)

lemma hash_tick: "sql_ok s \<Longrightarrow> f (db_data s) = Some (n, u) \<Longrightarrow>
    (f (db_data s) = Some (n, u) \<Longrightarrow> tables_ok (db_hash s) (db_data s) \<Longrightarrow> tables_ok (db_hash s) u) \<Longrightarrow>
    sql_ok (db_tick (s\<lparr>db_data := u\<rparr>))"
  by (simp add: sql_ok_def)

lemma keep_merchants:
  assumes "sql_ok s"
  shows "wp (sql_CreateMerchant name settings) (\<lambda>_. sql_ok) s" "wp (sql_SetMerchantWallet mid w) (\<lambda>_. sql_ok) s"
    "wp (sql_NextAddressIndex mid) (\<lambda>_. sql_ok) s" "wp (sql_CreateMerchantAPIKey raw mid label) (\<lambda>_. sql_ok) s"
    "wp (sql_RevokeMerchantAPIKey key) (\<lambda>_. sql_ok) s"
  subgoal
    unfolding sql_CreateMerchant_def Let_def
    apply (intro wp_rules)
    using insert_ok(1) [OF _ sql_okD [OF assms]] by simp
  subgoal
    unfolding sql_SetMerchantWallet_def Let_def
    apply (intro wp_if wp_fail wp_tx wp_bind wp_merchant_exists wp_now wp_catch_exec wp_pair)
    using insert_ok(2) [OF _ sql_okD [OF assms]] by (simp add: wallet_row_ok_def)
  subgoal
    unfolding sql_NextAddressIndex_def Let_def
    apply (intro wp_rules)
    using update_ok(2) [OF _ sql_okD [OF assms]] by (simp add: wallet_step_def)
  subgoal
    unfolding sql_CreateMerchantAPIKey_def Let_def
    apply (intro wp_if wp_fail wp_merchant_exists wp_rules)
    using insert_ok(3) [OF _ sql_okD [OF assms]] by simp
  subgoal
    unfolding sql_RevokeMerchantAPIKey_def Let_def
    apply (intro wp_rules)
    using update_ok(3) [OF _ sql_okD [OF assms]] by (simp_all add: key_step_def)
  done

text \<open>The operation that may fail after a change.\<close>

definition upholds :: "'a sql \<Rightarrow> bool" where
  "upholds m \<longleftrightarrow> (\<forall>s. sql_ok s \<longrightarrow> sql_ok (snd (m s)))"

lemma upholds_reads: "reads m \<Longrightarrow> upholds m"
  unfolding upholds_def reads_def by (metis same_env_fields sql_ok_same)

lemma upholds_bind: "upholds m \<Longrightarrow> (\<And>x. upholds (f x)) \<Longrightarrow> upholds (db_bind m f)"
  by (auto simp: upholds_def db_bind_def split: prod.split sum.split)

lemma upholds_if: "upholds m \<Longrightarrow> upholds m' \<Longrightarrow> upholds (if b then m else m')"
  by simp

lemma upholds_option: "upholds m \<Longrightarrow> (\<And>x. upholds (f x)) \<Longrightarrow> upholds (case o' of None \<Rightarrow> m | Some x \<Rightarrow> f x)"
  by (cases o') auto

lemma upholds_exec: "(\<And>H t n u. f t = Some (n, u) \<Longrightarrow> tables_ok H t \<Longrightarrow> tables_ok H u) \<Longrightarrow> upholds (sql_exec f)"
  by (auto simp: upholds_def sql_exec_def db_stmt_def sql_ok_def split: option.split prod.split)

lemma keep_settings:
  assumes "sql_UpdateMerchantSettings mid settings s = (r, t)" "sql_ok s"
  shows "sql_ok t"
proof -
  have "upholds (sql_UpdateMerchantSettings mid settings)"
    unfolding sql_UpdateMerchantSettings_def Let_def
    apply (intro upholds_if upholds_option upholds_bind upholds_exec upholds_reads [OF reads_ops(2)] upholds_reads [OF reads_basic(1)]
        upholds_reads [OF reads_basic(2)] upholds_reads [OF reads_basic(4)])
    apply (erule (1) update_ok(1), simp add: merchant_terms_def)
    done
  with assms show ?thesis unfolding upholds_def by (metis snd_conv)
qed

lemma keep_outbox:
  assumes "sql_ok s"
  shows "wp (sql_CreateEventSink req) (\<lambda>_. sql_ok) s" "wp (sql_UpdateEventDelivery did st att nr le) (\<lambda>_. sql_ok) s"
    "wp (sql_ResolveReviewCase rid notes) (\<lambda>_. sql_ok) s" "wp (sql_RejectReviewCase rid notes) (\<lambda>_. sql_ok) s"
    "wp (sql_Init k) (\<lambda>_. sql_ok) s" "wp (sql_PutInvoiceToken iid tok) (\<lambda>_. sql_ok) s"
  subgoal
    unfolding sql_CreateEventSink_def has_merchant Let_def
    apply (auto intro!: wp_rules split: EventSinkKind.split raw_message.split json.split)
    using insert_ok(10) [OF _ sql_okD [OF assms]] by fastforce+
  subgoal
    unfolding sql_UpdateEventDelivery_def Let_def
    apply (intro wp_rules)
    using update_ok(9) [OF _ sql_okD [OF assms]] by (simp add: delivery_terms_def)
  subgoal
    unfolding sql_ResolveReviewCase_def close_review_def Let_def
    apply (intro wp_rules)
    using update_ok(8) [OF _ sql_okD [OF assms]] by (simp add: review_terms_def)
  subgoal
    unfolding sql_RejectReviewCase_def close_review_def Let_def
    apply (intro wp_rules)
    using update_ok(8) [OF _ sql_okD [OF assms]] by (simp add: review_terms_def)
  subgoal
    unfolding sql_Init_def
    apply (intro wp_bind)
    apply (rule wp_reads)
     apply (intro reads_rules)
    apply (rule wp_bind)
    apply (rule wp_reads [OF reads_schema(2)])
    apply (intro wp_rules)
    using update_ok(4) [OF _ sql_okD [OF assms]] by (simp add: invoice_terms_def)
  subgoal
    unfolding sql_PutInvoiceToken_def set_token_def has_invoice Let_def
    apply (intro wp_if wp_fail wp_bind wp_query wp_reads [OF reads_ids(2)] wp_exec wp_return wp_catch_exec wp_branch)
    using update_ok(5) [OF _ sql_okD [OF assms]] insert_ok(5) [OF _ sql_okD [OF assms]]
    by (auto simp: wp_eta sql_ok_def dest!: db_update_none)
  done

lemma trim_plain:
  assumes "plain_char c" "\<forall>x \<in> set p. plain_char x"
  shows "TrimSpace (c # p @ hex_encode raw) = c # p @ hex_encode raw"
proof (rule TrimSpace_id, rule no_outer_space_plain)
  have "\<forall>x \<in> set (c # p @ hex_encode raw). plain_char x"
    using assms set_hex_encode plain_digit by auto
  then show "plain_char (hd (c # p @ hex_encode raw))" "plain_char (last (c # p @ hex_encode raw))"
    using last_in_set [of "c # p @ hex_encode raw"] by auto
qed simp

lemma trim_id [simp]: "TrimSpace (''inv_'' @ hex_encode raw) = ''inv_'' @ hex_encode raw"
    "TrimSpace (''refund_'' @ hex_encode raw) = ''refund_'' @ hex_encode raw"
  using trim_plain [of "CHR ''i''" "''nv_''" raw] trim_plain [of "CHR ''r''" "''efund_''" raw]
  by (simp_all add: plain_char_def)

lemma wp_bind_reads:
  assumes "reads m" "\<And>x t. db_data t = db_data s \<Longrightarrow> db_hash t = db_hash s \<Longrightarrow> wp (f x) Q t"
  shows "wp (db_bind m f) Q s"
  by (rule wp_bind, rule wp_reads) (use assms in auto)

lemma wp_bind_keep:
  assumes "wp m (\<lambda>_. sql_ok) s" "within grows m"
    and "\<And>x t. sql_ok t \<Longrightarrow> grows (db_data s) (db_data t) \<Longrightarrow> db_hash t = db_hash s \<Longrightarrow> wp (f x) Q t"
  shows "wp (db_bind m f) Q s"
  by (rule wp_bind, rule wp_keep) (use assms in auto)

lemma invoice_added:
  assumes "db_insert_auto t_invoices t_invoices_update n_invoices n_invoices_update invoice_clash row t = Some (n, u)"
    "\<And>n. ir_invoice_id (row n) = i"
  shows "invoice_at u i \<noteq> None"
  using assms by (elim db_insert_autoE) (auto simp: invoice_at_def find_None_iff)

lemma keep_CreateInvoice:
  assumes "sql_ok s"
  shows "wp (sql_CreateInvoice req) (\<lambda>_. sql_ok) s"
proof -
  have tx: "wp (sql_tx (create_invoice_tx req (''inv'' @ ''_'' @ hex_encode raw) now)) (\<lambda>_. sql_ok) t"
    if t: "sql_ok t" and a: "0 < ic_AmountZat req" for req raw now t
    unfolding create_invoice_tx_def
    apply (intro wp_tx wp_bind wp_hash wp_catch_exec wp_branch wp_pair)
    subgoal for n u
      apply (rule wp_keep)
        apply (rule wp_insert_event)
           apply (use t a trim_id(1) in \<open>auto simp: sql_ok_def invoice_row_def invoice_row_ok_def elim!: insert_ok(4)\<close>) []
          apply (drule invoice_added [where i = "''inv'' @ ''_'' @ hex_encode raw"], simp add: invoice_row_def, simp)
         apply (simp_all add: nonblank_def within_rules)
      by (intro wp_rules) simp
    using t by (simp_all add: sql_ok_def)
  show ?thesis
    unfolding sql_CreateInvoice_def Let_def
    apply (intro wp_if wp_fail)
    apply (intro wp_bind wp_newID wp_now)
    apply (rule wp_mono, rule tx)
      apply (use assms in simp)
     apply simp
    subgoal for now r x t
      apply (intro wp_option wp_return wp_bind wp_reads [OF reads_ops(9)] wp_if wp_fail)
        apply (simp_all add: sql_ok_def)
      done
    done
qed

lemma wp_insert_review:
  assumes "sql_ok s" "\<And>r n. vr_id (row r n) = n" "\<And>r n. review_row_ok (db_data s) (row r n)"
  shows "wp (insert_review row) (\<lambda>_. sql_ok) s"
  unfolding insert_review_def
  apply (intro wp_rules)
  using insert_ok(9) [OF _ sql_okD [OF assms(1)]] assms by (simp_all add: sql_ok_def)

lemma wp_status_event:
  assumes "sql_ok s" "invoice_at (db_data s) i \<noteq> None"
  shows "wp (sql_status_event i st now) (\<lambda>_. sql_ok) s"
  unfolding sql_status_event_def
  by (intro wp_if wp_return wp_insert_event assms) (simp_all add: nonblank_def)

lemma wp_status_review:
  assumes "sql_ok s" "invoice_at (db_data s) (ir_invoice_id iv) = Some r" "ir_merchant_id r = ir_merchant_id iv"
  shows "wp (sql_status_review iv st ex c n) (\<lambda>_. sql_ok) s"
  unfolding sql_status_review_def Let_def
  by (intro wp_if wp_return wp_insert_review) (use assms in \<open>simp_all add: invoice_review_def review_row_ok_def\<close>)

lemma within_status_event: "within grows (sql_status_event i st now)"
  unfolding sql_status_event_def by (intro grow.within_intros within_rules)

lemma reads_sum [reads_rules]: "reads (select_sum i sts)"
  by (auto simp: reads_def select_sum_def db_stmt_def split: option.split prod.split)

lemma wp_recompute:
  assumes ok: "sql_ok s"
  shows "wp (recomputeInvoiceAggregatesTx i now) (\<lambda>_. sql_ok) s"
  unfolding recomputeInvoiceAggregatesTx_def Let_def
  apply (rule wp_if, rule wp_return, rule ok)
  apply (intro wp_bind_reads [OF reads_if [OF reads_basic(4) reads_basic(1)]]
      wp_bind_reads [OF reads_sum] wp_bind wp_query wp_option wp_fail wp_exec)
  subgoal for now t p t1 c t2 iv n u
  proof -
    assume same: "db_data t = db_data s" "db_hash t = db_hash s" "db_data t1 = db_data t" "db_hash t1 = db_hash t"
        "db_data t2 = db_data t1" "db_hash t2 = db_hash t1"
      and iv: "find (\<lambda>r. ir_invoice_id r = TrimSpace i) (t_invoices (db_data t2)) = Some iv"
      and u: "db_update t_invoices t_invoices_update (\<lambda>r. ir_invoice_id r = TrimSpace i)
        (set_amounts p c (computeInvoiceStatusSQL (ir_amount_zat iv) p c
          (case ir_expires_at iv of None \<Rightarrow> False | Some at \<Rightarrow> at < Unix now) (pol_LatePayment (ir_policies iv)))
        (Unix now)) (db_data (db_tick t2)) = Some (n, u)"
    let ?t = "db_tick (db_tick t2\<lparr>db_data := u\<rparr>)"
    have ok3: "sql_ok ?t"
      using update_ok(4) [OF u] ok same by (simp add: sql_ok_def set_amounts_def invoice_terms_def)
    have g: "grows (db_data s) u"
      using u grows_change(4) same by (auto simp: invoice_terms_def set_amounts_def elim!: db_updateE)
    obtain r where r: "invoice_at u (TrimSpace i) = Some r" "invoice_terms iv = invoice_terms r"
      using invoice_at_grows [OF g] iv same by (auto simp: invoice_at_def)
    have i: "ir_invoice_id iv = TrimSpace i" using iv by (auto simp: find_Some_iff)
    show ?thesis
      apply (intro wp_if wp_return ok3)
      apply (rule wp_bind_keep [OF wp_status_event within_status_event, OF ok3])
       apply (use r in simp)
      subgoal for x t4
        using invoice_at_grows [of u "db_data t4", OF _ r(1)] invoice_termsD(3) r(2) by (fastforce simp: i intro: wp_status_review)
      done
  qed
  done

lemma wp_refund_invoice_ok:
  assumes "\<And>t. db_data t = db_data s \<Longrightarrow> db_hash t = db_hash s \<Longrightarrow>
      i = [] \<or> (\<exists>r. invoice_at (db_data s) i = Some r \<and> ir_merchant_id r = m) \<Longrightarrow> Q () t"
  shows "wp (refund_invoice_ok m i) Q s"
  unfolding refund_invoice_ok_def
  by (intro wp_if wp_return wp_bind wp_query wp_option wp_fail) (use assms in \<open>auto simp: invoice_at_def\<close>)

lemma refund_added:
  assumes "db_insert_auto t_refunds t_refunds_update n_refunds n_refunds_update refund_clash row t = Some (n, u)" "tables_ok H u"
    "\<And>n. fr_refund_id (row n) = f" "\<And>n. fr_invoice_id (row n) = i"
  shows "\<exists>r. refund_at u f = Some r \<and> fr_invoice_id r = i"
  using assms(1)
proof (elim db_insert_autoE)
  assume "u = t_refunds_update (\<lambda>_. t_refunds (n_refunds_update Suc t) @ [row (Suc (n_refunds t))]) (n_refunds_update Suc t)"
  then have "row (Suc (n_refunds t)) \<in> set (t_refunds u)" by simp
  from found(2) [OF assms(2) this] assms(3,4) show ?thesis by auto
qed

lemma keep_CreateRefund:
  assumes ok: "sql_ok s"
  shows "wp (sql_CreateRefund req) (\<lambda>_. sql_ok) s"
  unfolding sql_CreateRefund_def Let_def
  apply (intro wp_if [where m = "db_fail _"] wp_fail)
  apply (intro wp_bind wp_newID wp_now wp_tx wp_merchant_exists wp_refund_invoice_ok wp_exec)
  subgoal for raw now t n u
  proof -
    let ?i = "TrimSpace (rfc_InvoiceID req)"
    let ?t = "db_tick (t\<lparr>db_data := u\<rparr>)"
    assume *: "\<not> rfc_AmountZat req \<le> 0"
      and m: "merchant_at (db_data (db_tick (db_tick (db_tick s)))) (TrimSpace (rfc_MerchantID req)) \<noteq> None"
      and t: "db_data t = db_data (db_tick (db_tick (db_tick (db_tick s))))" "db_hash t = db_hash (db_tick (db_tick (db_tick (db_tick s))))"
      and i: "?i = [] \<or> (\<exists>r. invoice_at (db_data (db_tick (db_tick (db_tick (db_tick s))))) ?i = Some r \<and>
            ir_merchant_id r = TrimSpace (rfc_MerchantID req))"
      and u: "db_insert_auto t_refunds t_refunds_update n_refunds n_refunds_update refund_clash
         (\<lambda>n. \<lparr>fr_id = n, fr_refund_id = ''refund'' @ ''_'' @ hex_encode raw, fr_merchant_id = TrimSpace (rfc_MerchantID req),
               fr_invoice_id = given ?i, fr_external_refund_id = given (TrimSpace (rfc_ExternalRefundID req)),
               fr_to_address = TrimSpace (rfc_ToAddress req), fr_amount_zat = rfc_AmountZat req,
               fr_status = if TrimSpace (rfc_SentTxID req) \<noteq> [] then RefundSent else RefundRequested,
               fr_sent_txid = given (TrimSpace (rfc_SentTxID req)), fr_notes = TrimSpace (rfc_Notes req),
               fr_created_at = Unix now, fr_updated_at = Unix now\<rparr>) (db_data t) = Some (n, u)"
    have okt: "sql_ok ?t"
      using insert_ok(8) [OF u] sql_okD [OF ok] t * m i by (auto simp: sql_ok_def refund_row_ok_def given_def)
    have g: "grows (db_data s) u"
      using u t by (auto elim!: db_insert_autoE simp: grows_add)
    have f: "\<exists>r. refund_at u (''refund'' @ ''_'' @ hex_encode raw) = Some r \<and> fr_invoice_id r = given ?i"
      by (rule refund_added [OF u]) (use sql_okD [OF okt] in simp_all)
    have ev: "wp (if ?i \<noteq> [] then insertInvoiceEventTx ?i k now None (Some (''refund'' @ ''_'' @ hex_encode raw))
        else db_return ()) (\<lambda>_. sql_ok) ?t" for k
      apply (intro wp_if wp_return wp_insert_event okt)
      using i g f trim_id(2) by (auto simp: nonblank_def given_def intro: row_ok_grows(1) dest!: invoice_at_grows [OF g])
    show ?thesis
      by (rule wp_mono [OF ev], rule wp_return) simp
  qed
  done

end
