(* ===== verification/SqlScan.thy ===== *)
theory SqlScan
  imports SqlKeep
begin

text \<open>
  The scanner's part of the invariant: deposits, confirmations, and every run.
\<close>

lemma invoice_of_hash:
  assumes "tables_ok H t" "find P (t_invoices t) = Some r"
  shows "invoice_at t (ir_invoice_id r) = Some r \<and> P r"
proof -
  have "r \<in> set (t_invoices t)" "P r" using assms(2) by (auto simp: find_Some_iff)
  with found(1) [OF assms(1)] show ?thesis by blast
qed

text \<open>A deposit of the scanner is never confirmed by it, and its invoice has its wallet.\<close>

definition owned :: "Tables \<Rightarrow> string \<Rightarrow> string option \<Rightarrow> bool" where
  "owned t w a \<longleftrightarrow> (\<forall>i. a = Some i \<longrightarrow> (\<exists>r. invoice_at t i = Some r \<and> ir_wallet_id r = w))"

lemma merge_row_ok:
  assumes "deposit_row_ok H t d" "owned t (dr_wallet_id d) a" "st \<noteq> DepositConfirmed"
    "st \<in> {DepositDetected, DepositUnconfirmed, DepositOrphaned}"
  shows "deposit_row_ok H t (merge_row addr (H addr) z h st a n d)"
  using assms by (auto simp: deposit_row_ok_def merge_row_def owned_def split: option.splits)

lemma owned_grows: "owned t w a \<Longrightarrow> grows t u \<Longrightarrow> owned u w a"
  unfolding owned_def using invoice_at_same by metis

lemma wp_update_deposit:
  assumes "sql_ok s" "owned (db_data s) w a" "st \<in> {DepositDetected, DepositUnconfirmed, DepositOrphaned}"
    "ah = db_hash s addr"
    "\<And>t n. sql_ok t \<Longrightarrow> grows (db_data s) (db_data t) \<Longrightarrow> db_hash t = db_hash s \<Longrightarrow> Q n t"
  shows "wp (update_deposit w x ai (merge_row addr ah z h st a n)) Q s"
  unfolding update_deposit_def
proof (rule wp_keep)
  show "wp (sql_exec (db_update t_deposits t_deposits_update
      (\<lambda>r. dr_wallet_id r = w \<and> dr_txid r = x \<and> dr_action_index r = ai)
      (merge_row addr ah z h st a n))) (\<lambda>_. sql_ok) s"
    apply (rule wp_exec, simp)
    apply (erule update_ok(7) [OF _ sql_okD [OF assms(1)] merge_row_step])
    using assms(2,3,4) by (auto intro!: merge_row_ok)
qed (auto intro: within_rules merge_row_step assms(5))

lemma wp_unknown_deposit:
  assumes "sql_ok s"
  shows "wp (unknown_deposit w x ai addr z h n) (\<lambda>_. sql_ok) s"
  unfolding unknown_deposit_def
  by (intro wp_bind wp_query wp_option wp_fail wp_if wp_return wp_insert_review)
    (use assms in \<open>simp_all add: unknown_review_def review_row_ok_def\<close>)

lemma wp_apply_deposit:
  assumes ok: "sql_ok s" and st: "st \<in> {DepositDetected, DepositUnconfirmed, DepositOrphaned}"
  shows "wp (apply_deposit_tx ev now st p) (\<lambda>_. sql_ok) s"
proof -
  let ?w = "de_WalletID p"
  let ?addr = "ToLower (TrimSpace (de_RecipientAddress p))"
  have rest: "wp (db_bind (update_deposit ?w x ai (merge_row ?addr (db_hash s ?addr) z h st a up)) (\<lambda>n.
      db_bind (if n > 0 then db_return ()
        else db_bind (execTxIgnoreUnique (db_insert_auto t_deposits t_deposits_update n_deposits n_deposits_update deposit_clash
            (\<lambda>n. \<lparr>dr_seq = n, dr_wallet_id = ?w, dr_txid = x, dr_action_index = ai,
               dr_recipient_address = ?addr, dr_recipient_address_hash = db_hash s ?addr, dr_amount_zat = z,
               dr_height = h, dr_status = st, dr_confirmed_height = None, dr_invoice_id = a,
               dr_detected_at = dt, dr_updated_at = up\<rparr>))) (\<lambda>inserted.
          if inserted then db_return () else
            db_bind (update_deposit ?w x ai (merge_row ?addr (db_hash s ?addr) z h st a up)) (\<lambda>_. db_return ()))) (\<lambda>_. k)))
      (\<lambda>_. sql_ok) t"
    if t: "db_data t = db_data s" "db_hash t = db_hash s" and a: "owned (db_data s) ?w a"
      and k: "\<And>u. sql_ok u \<Longrightarrow> grows (db_data s) (db_data u) \<Longrightarrow> wp k (\<lambda>_. sql_ok) u"
    for x ai z h a up dt k t
    apply (rule wp_bind, rule wp_update_deposit [OF _ _ st])
       apply (use ok t in \<open>simp add: sql_ok_def\<close>)
      apply (use a t in simp)
     apply (use t in simp)
    subgoal premises u for u n
    proof -
      have gu: "grows (db_data s) (db_data u)" and au: "owned (db_data u) ?w a" using u t a by (auto intro: owned_grows)
      have ins: "sql_ok v"
        if "db_insert_auto t_deposits t_deposits_update n_deposits n_deposits_update deposit_clash
            (\<lambda>n. \<lparr>dr_seq = n, dr_wallet_id = ?w, dr_txid = x, dr_action_index = ai,
               dr_recipient_address = ?addr, dr_recipient_address_hash = db_hash s ?addr, dr_amount_zat = z,
               dr_height = h, dr_status = st, dr_confirmed_height = None, dr_invoice_id = a,
               dr_detected_at = dt, dr_updated_at = up\<rparr>) (db_data u) = Some (m, w)"
          "db_data v = w" "db_hash v = db_hash u" for m w v
        using insert_ok(7) [OF that(1) sql_okD [OF u(1)]] that(2,3) u(3) t(2) st au
        by (auto simp: sql_ok_def deposit_row_ok_def owned_def)
      show ?thesis
        apply (intro wp_bind wp_if wp_return wp_execTxIgnoreUnique)
           apply (rule k [OF u(1) gu])
          apply (rule k)
           apply (erule (2) ins)
        subgoal for m w v
          using withinD [OF within_insert(7)] u gu grows_trans
          by (auto elim!: db_insert_autoE intro!: grows_trans [OF gu] simp: grows_add)
         apply simp
        apply simp
        apply (rule wp_update_deposit [OF _ _ st])
           apply (use u in \<open>simp add: sql_ok_def\<close>)
          apply (use au in simp)
         apply (use u t in simp)
        apply (rule wp_return, rule k, assumption)
        using gu grows_trans by metis
    qed
    done
  show ?thesis
    unfolding apply_deposit_tx_def Let_def
    apply (rule wp_bind, rule wp_hash, rule wp_bind, rule wp_query, rule rest)
       apply simp_all [2]
    subgoal
      using invoice_of_hash [OF sql_okD [OF ok]] by (fastforce simp: owned_def split: option.splits if_splits)
    subgoal for u
      apply (intro wp_option wp_unknown_deposit, assumption)
      subgoal premises u for i
      proof -
        have iv: "invoice_at (db_data u) i \<noteq> None"
          using invoice_of_hash [OF sql_okD [OF ok]] u(3) row_ok_grows(1) [OF u(2)]
          by (fastforce split: option.splits if_splits)
        show ?thesis
          by (rule wp_bind_keep, intro wp_if wp_return wp_insert_event)
            (auto simp: iv u(1) nonblank_def intro: wp_recompute grow.within_intros within_rules)
      qed
      done
    done
qed

lemma wp_scan_event:
  assumes ok: "sql_ok s"
  shows "wp (applyDepositEventTx ev) (\<lambda>_. sql_ok) s"
  unfolding applyDepositEventTx_def
  by (intro wp_bind wp_now wp_if wp_option wp_fail wp_return wp_apply_deposit) (simp_all add: ok)

lemma wp_bind_ok:
  assumes "wp m (\<lambda>_. sql_ok) s" "\<And>x t. sql_ok t \<Longrightarrow> wp (f x) Q t"
  shows "wp (db_bind m f) Q s"
  by (rule wp_bind, rule wp_mono, rule assms(1)) (rule assms(2))

lemma reads_keep: "reads m \<Longrightarrow> sql_ok s \<Longrightarrow> wp m (\<lambda>_. sql_ok) s"
  by (rule wp_reads, assumption) (simp add: sql_ok_def)

lemma wp_cursor:
  assumes "sql_ok s" "0 < c"
  shows "wp (move_cursor w c l) (\<lambda>_. sql_ok) s"
    "wp (execTxIgnoreUnique (db_insert t_scan_cursors t_scan_cursors_update cursor_clash
       \<lparr>cr_wallet_id = w, cr_cursor_id = c, cr_last_event_at = l'\<rparr>)) (\<lambda>_. sql_ok) s"
  subgoal
    unfolding move_cursor_def
    by (rule wp_exec) (use update_ok(6) [OF _ sql_okD [OF assms(1)]] in \<open>simp add: cursor_step_def\<close>)
  subgoal
    by (rule wp_execTxIgnoreUnique)
      (use insert_ok(6) [OF _ sql_okD [OF assms(1)]] assms in \<open>simp_all add: sql_ok_def\<close>)
  done

lemma keep_ApplyScanEvent:
  assumes ok: "sql_ok s"
  shows "wp (sql_ApplyScanEvent ev) (\<lambda>_. sql_ok) s"
proof -
  have tx: "wp (scan_event_tx ev) (\<lambda>r t. case r of Commit x \<Rightarrow> sql_ok (db_tick t)
      | Rollback x \<Rightarrow> sql_ok (t\<lparr>db_data := db_data s\<rparr>)) (db_tick s)" if pos: "0 < se_Cursor ev" for ev
    unfolding scan_event_tx_def
    apply (rule wp_bind, rule wp_query, rule wp_if, rule wp_return, use ok in \<open>simp add: sql_ok_def\<close>)
    apply (rule wp_bind_ok, intro wp_if wp_scan_event wp_return, use ok in simp, use ok in simp)
    apply (rule wp_bind_ok, rule reads_keep, intro reads_rules, assumption)
    apply (rule wp_bind_ok, erule wp_cursor(1) [OF _ pos])
    apply (rule wp_bind_ok, intro wp_if wp_return, assumption)
     apply (rule wp_bind_ok, erule wp_cursor(2) [OF _ pos], intro wp_if wp_return, assumption)
     apply (rule wp_bind_ok, erule wp_cursor(1) [OF _ pos], rule wp_return, assumption)
    by (rule wp_return) simp
  show ?thesis
    unfolding sql_ApplyScanEvent_def Let_def
    by (intro wp_if wp_fail wp_tx tx) simp
qed

section \<open>Confirmations\<close>

text \<open>A deposit on the list is still there, with the invoice it had.\<close>

definition listed :: "Tables \<Rightarrow> DepositRow \<times> string \<times> int64 \<Rightarrow> bool" where
  "listed t x \<longleftrightarrow> (case x of (d, i, _) \<Rightarrow> invoice_at t i \<noteq> None \<and>
     (\<exists>r \<in> set (t_deposits t). dr_wallet_id r = dr_wallet_id d \<and> dr_txid r = dr_txid d \<and>
       dr_action_index r = dr_action_index d \<and> dr_invoice_id r = Some i))"

lemma listed_grows:
  assumes "listed t x" "grows t u"
  shows "listed u x"
proof -
  obtain d i h where x: "x = (d, i, h)" by (cases x)
  have "table_evolves deposit_step (t_deposits t) (t_deposits u)" using assms(2) by (simp add: grows_def)
  with assms(1) obtain r r' where "r \<in> set (t_deposits t)" "dr_wallet_id r = dr_wallet_id d" "dr_txid r = dr_txid d"
      "dr_action_index r = dr_action_index d" "dr_invoice_id r = Some i" "r' \<in> set (t_deposits u)" "deposit_step r r'"
    using table_evolves_mem by (fastforce simp: listed_def x)
  then show ?thesis
    using assms row_ok_grows(1) [OF assms(2)] by (auto simp: listed_def x deposit_step_def intro!: bexI [of _ r'])
qed

lemma confirmable_listed:
  assumes "tables_ok H t"
  shows "\<forall>x \<in> set (confirmable best t). listed t x"
  using found(1) [OF assms]
  by (auto simp: confirmable_def listed_def List.map_filter_def Let_def split: if_splits)

lemma wp_confirm:
  assumes "sql_ok s" "\<forall>x \<in> set ds. listed (db_data s) x"
  shows "wp (confirm_deposits now ds affected) (\<lambda>_. sql_ok) s"
  using assms
proof (induction ds arbitrary: affected s)
  case Nil
  then show ?case by (simp add: wp_return)
next
  case (Cons x ds)
  obtain d i h where x: "x = (d, i, h)" by (cases x)
  note ok = Cons.prems(1) and l = Cons.prems(2) [unfolded x]
  let ?c = "\<lambda>r. dr_wallet_id r = dr_wallet_id d \<and> dr_txid r = dr_txid d \<and> dr_action_index r = dr_action_index d \<and>
       dr_status r = DepositDetected"
  have same: "dr_invoice_id r = Some i" if "r \<in> set (t_deposits (db_data s))" "?c r" for r
  proof -
    obtain r' where r': "r' \<in> set (t_deposits (db_data s))" "dr_wallet_id r' = dr_wallet_id d" "dr_txid r' = dr_txid d"
        "dr_action_index r' = dr_action_index d" "dr_invoice_id r' = Some i"
      using l by (auto simp: listed_def)
    have "no_clash deposit_clash (t_deposits (db_data s))"
      using tables_okD(1) [OF sql_okD [OF ok]] by (simp add: keys_ok_def)
    from no_clashD [OF this that(1) r'(1)] that(2) r' show ?thesis
      using clash_sym(7) by (simp add: deposit_clash_def)
  qed
  have upd: "wp (sql_exec (db_update t_deposits t_deposits_update ?c (confirm_row h (Unix now)))) (\<lambda>_. sql_ok) s"
    apply (rule wp_exec, simp)
    apply (erule update_ok(7) [OF _ sql_okD [OF ok]])
    using same by (auto simp: deposit_step_def confirm_row_def deposit_row_ok_def)
  have grown: "\<forall>x \<in> set ds. listed (db_data t) x" if "grows (db_data s) (db_data t)" for t
    using l listed_grows [OF _ that] by auto
  show ?case
    unfolding x confirm_deposits.simps
    apply (rule wp_bind_keep [OF upd])
     apply (intro within_rules, simp add: deposit_step_def confirm_row_def)
    subgoal premises t for n t
      apply (rule wp_if, rule Cons.IH [OF t(1) grown [OF t(2)]])
      apply (rule wp_bind_keep)
        apply (rule wp_insert_event [OF t(1)])
          apply (use l row_ok_grows(1) [OF t(2)] in \<open>simp add: listed_def\<close>)
         apply (simp_all add: nonblank_def within_rules)
      by (erule Cons.IH, rule grown, rule grows_trans [OF t(2)])
    done
qed

lemma keep_Confirmations:
  assumes ok: "sql_ok s"
  shows "wp (sql_UpdateInvoiceConfirmations best) (\<lambda>_. sql_ok) s"
  unfolding sql_UpdateInvoiceConfirmations_def
  apply (intro wp_bind wp_now wp_tx wp_query)
  apply (rule wp_mono, rule wp_confirm)
    apply (use ok in simp)
   apply (use confirmable_listed [OF sql_okD [OF ok]] in simp)
  apply (rule wp_bind_ok, simp add: wp_def db_ranged_def)
  apply (rule wp_bind_ok, rule wp_for, erule wp_recompute, assumption)
  by (rule wp_return) simp


section \<open>Every run\<close>

lemma sql_reach_ok_call:
  assumes "sql_call s e t" "sql_ok s"
  shows "sql_ok t"
proof (cases e)
  case (Some _)
  then have "db_data t = db_data s" using sql_call_atomic [OF assms(1)] by simp
  with assms(2) sql_call_within [OF assms(1)] show ?thesis by (simp add: sql_ok_def same_env_fields)
next
  case None
  have ok: "sql_ok t" if "wp op (\<lambda>_. sql_ok) s" "op s = (r, t)" "None = failure r" for op :: "'x sql" and r
    using that by (cases r) (auto dest: wpD)
  show ?thesis
    using assms(1) unfolding None
    by cases (rule ok [rotated], assumption, assumption,
      (rule keep_merchants keep_outbox keep_CreateInvoice keep_CreateRefund keep_ApplyScanEvent keep_Confirmations
        | rule reads_keep, rule reads_ops), rule assms(2))+
qed

lemma sql_reach_ok: "sql_reach s \<Longrightarrow> sql_ok s"
proof (induction rule: sql_reach.induct)
  case (sql_open s)
  then show ?case by (simp add: sql_ok_def empty_ok)
next
  case (sql_next s t)
  from sql_next(2) show ?case
    by cases (use sql_next.IH keep_settings sql_reach_ok_call in blast)+
qed

end
