(* ===== verification/SqlProps.thy ===== *)
theory SqlProps
  imports SqlScan ServerProps
begin

text \<open>
  The properties of the SQL store, and of the program with the SQL store behind it.
\<close>

section \<open>A database to try\<close>

text \<open>An empty database without failures, whose hash is the identity and whose random bytes tell the tick.\<close>

definition demo_sql :: SqlStore where
  "demo_sql = \<lparr>db_data = empty_tables, db_hash = (\<lambda>m. m), db_seal = (\<lambda>n p d. rev p), db_open = (\<lambda>n c d. Some (rev c)),
     db_clock = (\<lambda>n. unix_time 100), db_rand = (\<lambda>k n. Some (replicate n (char_of k))), db_fault = (\<lambda>_. None),
     db_order = (\<lambda>_ _. 0), db_ticks = 0\<rparr>"

lemma demo_sql_reach: "sql_reach demo_sql"
  by (rule sql_open) (simp add: demo_sql_def)

definition demo_sql_merchant :: SqlStore where
  "demo_sql_merchant = snd (sql_CreateMerchant ''shop'' demo_settings demo_sql)"

definition demo_sql_req :: InvoiceCreate where
  "demo_sql_req = \<lparr>ic_MerchantID = ''m'', ic_ExternalOrderID = ''o1'', ic_WalletID = ''w'', ic_AddressIndex = 0,
     ic_Address = ''j1abc'', ic_CreatedAfterHeight = 5, ic_CreatedAfterHash = ''h'', ic_AmountZat = 10,
     ic_RequiredConfirmations = 1, ic_Policies = set_Policies demo_settings, ic_ExpiresAt = None\<rparr>"

definition demo_sql_invoice :: SqlStore where
  "demo_sql_invoice = snd (sql_CreateInvoice demo_sql_req demo_sql_merchant)"

lemma demo_sql_step: "sql_step demo_sql demo_sql_merchant" "sql_step demo_sql_merchant demo_sql_invoice"
  unfolding demo_sql_merchant_def demo_sql_invoice_def
  by (rule sql_step_call [OF sql_call.intros(1) [OF prod.collapse [symmetric]]],
      rule sql_step_call [OF sql_call.intros(6) [OF prod.collapse [symmetric]]])

lemma demo_sql_reaches: "sql_reach demo_sql_merchant" "sql_reach demo_sql_invoice"
  using demo_sql_reach demo_sql_step sql_next by blast+

lemma demo_sql_created:
  "\<exists>iv. sql_CreateInvoice demo_sql_req demo_sql_merchant = (Inr (iv, True), demo_sql_invoice)"
proof -
  have "case fst (sql_CreateInvoice demo_sql_req demo_sql_merchant) of Inr (_, b) \<Rightarrow> b | _ \<Rightarrow> False"
    by code_simp
  then show ?thesis by (auto simp: demo_sql_invoice_def prod_eq_iff split: sum.splits prod.splits)
qed

section \<open>Every run\<close>

text \<open>C3: The tables are well typed in every reachable state: the unique keys hold, automatic numbers are gapless, a
  row refers to rows that exist and belong to the same merchant or wallet, a confirmed deposit has a height and an
  invoice, amounts of invoices and refunds are positive, and the hash columns are the hashes of their texts.\<close>

theorem sql_wellformed:
  assumes "sql_reach s"
  shows "keys_ok (db_data s) \<and> nums_ok (db_data s) \<and> rows_ok (db_hash s) (db_data s)"
  using sql_reach_ok [OF assms] by (simp add: sql_ok_def tables_ok_def core_ok_def)

theorem sql_wellformed_witness: "rows_ok (db_hash demo_sql_invoice) (db_data demo_sql_invoice)"
  using sql_wellformed [OF demo_sql_reaches(2)] by simp

text \<open>C8: The outbox tells the invoice events one by one, in order: there are as many, and each outbox row has the number,
  the type, the invoice, the time and the merchant of its event.\<close>

theorem sql_outbox_exact:
  assumes "sql_reach s"
  shows "length (t_outbox_events (db_data s)) = length (t_invoice_events (db_data s)) \<and>
    (\<forall>i < length (t_invoice_events (db_data s)).
       tells (db_data s) (t_invoice_events (db_data s) ! i) (t_outbox_events (db_data s) ! i))"
  using sql_reach_ok [OF assms]
  by (simp add: sql_ok_def tables_ok_def told_def list_all2_conv_all_nth)

theorem sql_outbox_exact_witness:
  "length (t_outbox_events (db_data demo_sql_invoice)) = 1"
proof -
  have "length (t_invoice_events (db_data demo_sql_invoice)) = 1" by code_simp
  with sql_outbox_exact [OF demo_sql_reaches(2)] show ?thesis by simp
qed


text \<open>A database whose third statement fails.\<close>

definition demo_sql_full :: SqlStore where
  "demo_sql_full = demo_sql_merchant\<lparr>db_fault := (\<lambda>n. if n = 6 then Some ''disk full'' else None)\<rparr>"


text \<open>C22: Whatever the calls, no row is ever removed or moved; a merchant keeps its id and name, a wallet all but
  its next address index, which grows; a key stays revoked; an invoice keeps its terms; a deposit keeps its
  invoice once it has one; a cursor never goes back; refunds, events, sinks and the outbox are written once.\<close>

theorem sql_append_only:
  assumes "sql_step\<^sup>*\<^sup>* s t"
  shows "grows (db_data s) (db_data t)"
  using sql_steps_within [OF assms] by simp

theorem sql_append_only_witness: "grows (db_data demo_sql) (db_data demo_sql_invoice)"
  by (rule sql_append_only) (use demo_sql_step in \<open>meson rtranclp.simps\<close>)

section \<open>The status of an invoice\<close>

text \<open>C31: The three copies of the rule for the status of an invoice agree: the one of the in-memory store,
  the one of the SQL store, and the \<open>CASE\<close> expression of the backfill - on every row whose amounts add up to an \<open>int64\<close>.\<close>

theorem status_rules_agree:
  assumes "in_int64 (ir_received_pending_zat r + ir_received_confirmed_zat r)"
  shows "backfill_status now r = computeInvoiceStatus (scanInvoiceFull r) (unix_time now) \<and>
    backfill_status now r = computeInvoiceStatusSQL (ir_amount_zat r) (ir_received_pending_zat r)
      (ir_received_confirmed_zat r) (case ir_expires_at r of None \<Rightarrow> False | Some at \<Rightarrow> at < now)
      (pol_LatePayment (ir_policies r))"
  using assms
  by (simp add: backfill_status_def computeInvoiceStatus_def computeInvoiceStatusSQL_def scanInvoiceFull_def
      expired_at_def unix_time_def Let_def wrap64_id split: option.split)

definition demo_sql_row :: InvoiceRow where
  "demo_sql_row = (invoice_row demo_sql_req ''i'' [] [] 0 1)\<lparr>ir_received_pending_zat := 4, ir_received_confirmed_zat := 7\<rparr>"

theorem status_rules_agree_witness:
  "computeInvoiceStatus (scanInvoiceFull demo_sql_row) (unix_time 7) = InvoicePending"
proof -
  have "in_int64 (ir_received_pending_zat demo_sql_row + ir_received_confirmed_zat demo_sql_row)"
    by (simp add: demo_sql_row_def in_int64_def)
  from status_rules_agree [OF this, of 7] show ?thesis
    by (simp add: backfill_status_def demo_sql_row_def invoice_row_def demo_sql_req_def Let_def)
qed

section \<open>The program over the SQL store\<close>

lemma sql_store_call:
  assumes "store_call sql_Store s t"
  shows "sql_step s t"
proof -
  have settings: "sql_step s (snd (sql_UpdateMerchantSettings m a s))" for m a
    by (rule sql_step_settings [OF prod.collapse [symmetric]])
  show ?thesis
    using assms
    by (cases rule: store_call.cases)
      (simp only: sql_Store_def Store.Store.select_convs,
        (rule settings | (rule sql_step_call, rule sql_call.intros, rule prod.collapse [symmetric])))+
qed

lemma sql_put: "sql_step s (snd (sql_PutInvoiceToken iid tok s))"
  by (rule sql_step_call [OF sql_call.intros(7) [OF prod.collapse [symmetric]]])

lemma sql_create: "sql_CreateInvoice req s = (r, t) \<Longrightarrow> sql_step s t"
  by (rule sql_step_call [OF sql_call.intros(6)])

interpretation sql_server: closed_store sql_Store "sql_step\<^sup>*\<^sup>*"
proof unfold_locales
  fix s t assume "store_call sql_Store s t"
  then show "sql_step\<^sup>*\<^sup>* s t" using sql_store_call by blast
next
  fix s u ic iv t tok assume "sql_step\<^sup>*\<^sup>* s u" "st_CreateInvoice sql_Store ic u = (Inr (iv, True), t)"
  then have "sql_step\<^sup>*\<^sup>* s t" using sql_create by (simp add: sql_Store_def) (metis rtranclp.rtrancl_into_rtrancl)
  then show "sql_step\<^sup>*\<^sup>* s (snd (st_PutInvoiceToken sql_Store (inv_InvoiceID iv) tok t))"
    using sql_put by (simp add: sql_Store_def) (metis rtranclp.rtrancl_into_rtrancl)
qed simp_all

lemma sql_reach_steps: "sql_reach s \<Longrightarrow> sql_step\<^sup>*\<^sup>* s t \<Longrightarrow> sql_reach t"
  by (rotate_tac, induction rule: rtranclp_induct) (auto intro: sql_next)

text \<open>C7: With the SQL store behind it, the program moves the database by the store's calls only, whatever
  requests come in between rounds of the scan loop and passes of the outbox worker: the tables stay well typed, the
  outbox tells the events, and no row is ever lost or rewritten in its fixed columns.\<close>

theorem server_over_sql:
  assumes "main_start pf e w = (Inr pg, w1)" "\<And>d k p v. fst (pf_open pf d k p v) = Inr sql_Store"
    "sql_reach (sy_st y0)" "(server_step net pg)\<^sup>*\<^sup>* y0 y"
  shows "sql_reach (sy_st y) \<and> sql_ok (sy_st y) \<and> grows (db_data (sy_st y0)) (db_data (sy_st y))"
proof -
  from main_start_core [OF assms(1)] obtain d k p st where "pf_open pf d k p w = (Inr st, w1)"
    and "program_ok st (getenv e ''JUNO_PAY_ADMIN_PASSWORD'' []) pg" by blast
  with assms(2) [of d k p w] have ok: "program_ok sql_Store (getenv e ''JUNO_PAY_ADMIN_PASSWORD'' []) pg" by simp
  have step: "sql_step\<^sup>*\<^sup>* (sy_st x) (sy_st x')" if "server_step net pg x x'" for x x'
    using sql_server.R_server_step [OF that] ok by (simp add: program_ok_def)
  from assms(4) have "sql_step\<^sup>*\<^sup>* (sy_st y0) (sy_st y)"
    by (induction rule: rtranclp_induct) (auto intro: rtranclp_trans step)
  with sql_reach_steps [OF assms(3)] sql_reach_ok sql_steps_within show ?thesis by blast
qed

text \<open>A platform whose databases open as a given store.\<close>

definition demo_store_platform :: "'st Store \<Rightarrow> ('st, unit) platform" where
  "demo_store_platform st = \<lparr>pf_net = demo_net, pf_dataDir = ''d'', pf_open = \<lambda>_ _ _ w. (Inr st, w),
     pf_junocashd = \<lambda>_ _ _. \<lparr>jc_GetBlockCount = \<lambda>w. (Inr 22, w), jc_GetBlockHash = \<lambda>_ w. (Inr ''h'', w),
       jc_Uptime = \<lambda>w. (Inr 5, w)\<rparr>,
     pf_deriver = \<lambda>_ _ n. Inr (''j1'' @ FormatInt (uint n)), pf_embedded = None, pf_stat = \<lambda>_. Inr False,
     pf_ui = \<lambda>_ _ w. (not_found, w)\<rparr>"

lemma demo_store_started: "\<exists>pg. main_start (demo_store_platform st) demo_env () = (Inr pg, ())"
proof -
  have "\<not> isl (ScanClient_New demo_net ''http://scan'')" by code_simp
  then obtain sc where sc: "ScanClient_New demo_net ''http://scan'' = Inr sc" by (metis isl_def sum.exhaust)
  have pw: "TrimSpace ''pw'' = ''pw''" by code_simp
  have opts: "\<not> parseIntClamp v 1 1000 \<le> 0" "\<not> 1000 < parseIntClamp v 1 1000" for v
    using clamp_range [of v] by linarith+
  have "\<exists>pg. main_program (demo_store_platform st) demo_env ''pw'' st = Inr pg"
    by (simp add: main_program_def demo_env_simps sc pw Server_New_def WithAdminPassword_def WithAdminUI_def
        WithScannerHealth_def Ingestor_New_def Worker_New_def WithBatchSize_def WithMaxAttempts_def clamp_wrap opts
        demo_store_platform_def Let_def)
  then show ?thesis by (simp add: main_start_def demo_env_simps demo_store_platform_def)
qed

theorem server_over_sql_witness:
  "\<exists>(pg :: (SqlStore, unit) Program) y. sql_ok (sy_st y) \<and>
    y = snd (Server_Handler demo_net (pg_server pg) demo_login_request \<lparr>sy_st = demo_sql_invoice, sy_rs = no_restarts, sy_w = ()\<rparr>)"
proof -
  let ?start = "\<lparr>sy_st = demo_sql_invoice, sy_rs = no_restarts, sy_w = ()\<rparr>"
  obtain pg where pg: "main_start (demo_store_platform sql_Store) demo_env () = (Inr pg, ())" using demo_store_started by blast
  let ?after = "snd (Server_Handler demo_net (pg_server pg) demo_login_request ?start)"
  have "server_step demo_net pg ?start ?after" by (rule server_step.step_request)
  then have run: "(server_step demo_net pg)\<^sup>*\<^sup>* ?start ?after" by blast
  have "sql_ok (sy_st ?after)"
    using server_over_sql [OF pg _ _ run] demo_sql_reaches(2) by (simp add: demo_store_platform_def)
  then show ?thesis by blast
qed

end
