(* ===== verification/SqlRetry.thy ===== *)
theory SqlRetry
  imports SqlProps
begin

text \<open>
  A scan event that is delivered a second time. The database reports a failure as a violated key only when a key is
  violated (\<open>honest\<close>).
\<close>

section \<open>Failures of the database\<close>

definition honest :: "SqlStore \<Rightarrow> bool" where
  "honest s \<longleftrightarrow> (\<forall>k m. db_fault s k = Some m \<longrightarrow> \<not> isUniqueViolation (OtherError m))"

definition healthy :: "SqlStore \<Rightarrow> bool" where
  "healthy s \<longleftrightarrow> (\<forall>k. db_fault s k = None) \<and> (\<forall>k n. db_rand s k n \<noteq> None)"

lemma unique_error_unique [simp]: "isUniqueViolation unique_error"
proof -
  have "Contains ''unique'' (ToLower ''UNIQUE constraint failed'')" by code_simp
  then show ?thesis by (simp add: isUniqueViolation_def unique_error_def)
qed

lemma honest_tick [simp]: "honest (db_tick s) = honest s" "honest (s\<lparr>db_data := t\<rparr>) = honest s"
  by (simp_all add: honest_def)

lemma wp_ignore_honest:
  assumes "honest s" "\<And>n t u. f (db_data s) = Some (n, t) \<Longrightarrow> db_data u = t \<Longrightarrow> Q True u"
    and "\<And>u. f (db_data s) = None \<Longrightarrow> db_data u = db_data s \<Longrightarrow> Q False u"
  shows "wp (execTxIgnoreUnique f) Q s"
  using assms unfolding execTxIgnoreUnique_def honest_def
  by (auto simp: wp_def db_bind_def db_query_def db_stmt_def sql_exec_def sql_ignored_def db_return_def
      split: option.splits prod.splits sum.splits if_splits)

lemma wp_catch_honest:
  assumes "honest s" "\<And>n t. g (db_data s) = Some (n, t) \<Longrightarrow> wp (f n) Q (db_tick (s\<lparr>db_data := t\<rparr>))"
    and "g (db_data s) = None \<Longrightarrow> wp (h unique_error) Q (db_tick s)"
    and "\<And>m. \<not> isUniqueViolation (OtherError m) \<Longrightarrow> wp (h (OtherError m)) Q (db_tick s)"
  shows "wp (\<lambda>s. case sql_exec g s of (Inr n, t) \<Rightarrow> f n t | (Inl e, t) \<Rightarrow> h e t) Q s"
  using assms by (auto simp: wp_def sql_exec_def db_stmt_def honest_def split: option.split prod.split sum.split)

section \<open>A scan event once\<close>

definition at_cursor :: "Tables \<Rightarrow> string \<Rightarrow> int64 \<Rightarrow> bool" where
  "at_cursor t w c \<longleftrightarrow> (\<exists>r \<in> set (t_scan_cursors t). cr_wallet_id r = w \<and> c \<le> cr_cursor_id r)"

lemma at_cursor_row: "0 < c \<Longrightarrow> c \<le> row_cursor w t \<Longrightarrow> at_cursor t w c"
  by (auto simp: row_cursor_def at_cursor_def find_Some_iff split: option.splits)

lemma row_at_cursor:
  assumes "tables_ok H t" "at_cursor t w c"
  shows "c \<le> row_cursor w t"
proof -
  obtain r where r: "r \<in> set (t_scan_cursors t)" "cr_wallet_id r = w" "c \<le> cr_cursor_id r"
    using assms(2) by (auto simp: at_cursor_def)
  have "find (\<lambda>r. cr_wallet_id r = w) (t_scan_cursors t) = Some r"
    by (rule find_unique [where clash = cursor_clash])
      (use tables_okD(1) [OF assms(1)] r in \<open>auto simp: keys_ok_def cursor_clash_def\<close>)
  with r show ?thesis by (simp add: row_cursor_def)
qed

lemma at_cursor_grows:
  assumes "at_cursor t w c" "grows t u"
  shows "at_cursor u w c"
proof -
  have "table_evolves cursor_step (t_scan_cursors t) (t_scan_cursors u)" using assms(2) by (simp add: grows_def)
  from table_evolves_mem [OF this] assms(1) show ?thesis
    by (fastforce simp: at_cursor_def cursor_step_def)
qed

text \<open>Where no row of the wallet was moved, each is at the cursor already.\<close>

definition caught_up :: "Tables \<Rightarrow> string \<Rightarrow> int64 \<Rightarrow> bool" where
  "caught_up t w c \<longleftrightarrow> (\<forall>r \<in> set (t_scan_cursors t). cr_wallet_id r = w \<longrightarrow> c \<le> cr_cursor_id r)"

lemma moved_cursor:
  assumes "db_update t_scan_cursors t_scan_cursors_update (\<lambda>r. cr_wallet_id r = w \<and> cr_cursor_id r < c)
      (\<lambda>r. r\<lparr>cr_cursor_id := c, cr_last_event_at := Some l\<rparr>) t = Some (n, u)"
  shows "0 < n \<or> at_cursor t w c \<Longrightarrow> at_cursor u w c" "n = 0 \<Longrightarrow> caught_up u w c"
proof -
  let ?f = "\<lambda>r. if cr_wallet_id r = w \<and> cr_cursor_id r < c then r\<lparr>cr_cursor_id := c, cr_last_event_at := Some l\<rparr> else r"
  have u: "t_scan_cursors u = map ?f (t_scan_cursors t)"
    and n: "n = length (filter (\<lambda>r. cr_wallet_id r = w \<and> cr_cursor_id r < c) (t_scan_cursors t))"
    using assms by (auto elim!: db_updateE)
  show "at_cursor u w c" if "0 < n \<or> at_cursor t w c"
  proof -
    have "filter (\<lambda>r. cr_wallet_id r = w \<and> cr_cursor_id r < c) (t_scan_cursors t) \<noteq> [] \<or> at_cursor t w c"
      using that n by auto
    then obtain r where "r \<in> set (t_scan_cursors t)" "cr_wallet_id r = w"
      by (auto simp: at_cursor_def filter_empty_conv)
    then have "?f r \<in> set (t_scan_cursors u)" "cr_wallet_id (?f r) = w" "c \<le> cr_cursor_id (?f r)" by (auto simp: u)
    then show ?thesis unfolding at_cursor_def by blast
  qed
  show "caught_up u w c" if "n = 0"
    using that by (auto simp: u n caught_up_def filter_empty_conv)
qed

lemma wp_move_cursor:
  assumes "\<And>n t. honest t = honest s \<Longrightarrow> (0 < n \<or> at_cursor (db_data s) w c \<Longrightarrow> at_cursor (db_data t) w c) \<Longrightarrow>
      (n = 0 \<Longrightarrow> caught_up (db_data t) w c) \<Longrightarrow> Q n t"
  shows "wp (move_cursor w c l) Q s"
  unfolding move_cursor_def
  by (rule wp_exec, rule assms) (auto dest: moved_cursor)

lemma honest_same: "same_env s t \<Longrightarrow> honest t = honest s"
  by (simp add: same_env_fields honest_def)

lemma wp_within:
  assumes "within grows m" "\<And>x t. same_env s t \<Longrightarrow> grows (db_data s) (db_data t) \<Longrightarrow> Q x t"
  shows "wp m Q s"
  by (rule wpI) (use withinD [OF assms(1)] assms(2) in blast)

lemma wp_both:
  assumes "within grows m" "wp m P s" "\<And>x t. same_env s t \<Longrightarrow> P x t \<Longrightarrow> Q x t"
  shows "wp m Q s"
  by (rule wpI) (use withinD [OF assms(1)] wpD [OF assms(2)] assms(3) in blast)

lemma wp_cursor_row:
  assumes "honest s" "caught_up (db_data s) w c"
    and "\<And>b t. honest t \<Longrightarrow> at_cursor (db_data t) w c \<Longrightarrow> Q b t"
  shows "wp (execTxIgnoreUnique (db_insert t_scan_cursors t_scan_cursors_update cursor_clash
     \<lparr>cr_wallet_id = w, cr_cursor_id = c, cr_last_event_at = l\<rparr>)) Q s"
proof -
  let ?f = "db_insert t_scan_cursors t_scan_cursors_update cursor_clash
     \<lparr>cr_wallet_id = w, cr_cursor_id = c, cr_last_event_at = l\<rparr>"
  have "wp (execTxIgnoreUnique ?f) (\<lambda>_ t. at_cursor (db_data t) w c) s"
  proof (rule wp_ignore_honest [OF assms(1)])
    fix u assume "?f (db_data s) = None" "db_data u = db_data s"
    then show "at_cursor (db_data u) w c"
      using assms(2) by (auto simp: db_insert_def insert_row_def list_ex_iff cursor_clash_def at_cursor_def caught_up_def
          split: if_splits)
  qed (auto elim!: db_insertE simp: at_cursor_def)
  then show ?thesis
    by (rule wp_both [OF within_insert(6)]) (use assms(1,3) honest_same in blast)
qed

lemma within_apply: "within grows (applyDepositEventTx ev)"
  unfolding applyDepositEventTx_def Let_def by (intro grow.within_intros within_rules)

lemma wp_scan_event_tx:
  assumes "honest s" "0 < se_Cursor ev"
  shows "wp (scan_event_tx ev) (\<lambda>r t. case r of Commit _ \<Rightarrow> at_cursor (db_data t) (se_WalletID ev) (se_Cursor ev)
      | Rollback _ \<Rightarrow> at_cursor (db_data s) (se_WalletID ev) (se_Cursor ev)) s"
  unfolding scan_event_tx_def
  apply (rule wp_bind, rule wp_query, rule wp_if, rule wp_return)
  using at_cursor_row [OF assms(2)] apply simp
  apply (rule wp_bind, rule wp_within, intro grow.within_intros within_apply)
  apply (rule wp_bind, rule wp_within, intro grow.within_intros)
  apply (rule wp_bind, rule wp_move_cursor)
  subgoal premises h for x t x1 t1 n t2
  proof -
    have ht: "honest t2" using h(6) honest_same h(2,4) assms(1) by (metis honest_tick(1))
    show ?thesis
      apply (rule wp_bind, rule wp_mono [where Q = "\<lambda>_ t. at_cursor (db_data t) (se_WalletID ev) (se_Cursor ev)"])
       apply (rule wp_if, rule wp_return, use h in blast)
       apply (rule wp_bind, rule wp_cursor_row [OF ht], use h in blast)
       apply (rule wp_if, rule wp_return, assumption)
       apply (rule wp_bind, rule wp_move_cursor, rule wp_return, blast)
      by (rule wp_return) simp
  qed
  done

lemma applied_cursor:
  assumes "honest s" "sql_ApplyScanEvent ev s = (Inr (), t)"
  shows "TrimSpace (se_WalletID ev) \<noteq> [] \<and> 0 < se_Cursor ev \<and>
    at_cursor (db_data t) (TrimSpace (se_WalletID ev)) (se_Cursor ev)"
proof -
  have "wp (sql_ApplyScanEvent ev) (\<lambda>_ t. TrimSpace (se_WalletID ev) \<noteq> [] \<and> 0 < se_Cursor ev \<and>
      at_cursor (db_data t) (TrimSpace (se_WalletID ev)) (se_Cursor ev)) s"
    unfolding sql_ApplyScanEvent_def Let_def
    apply (intro wp_if wp_fail wp_tx)
    apply (rule wp_mono, rule wp_scan_event_tx)
      apply (use assms(1) in simp)
     apply simp
    by (simp split: tx_end.splits)
  from wpD [OF this assms(2)] show ?thesis .
qed

lemma applied_again:
  assumes "TrimSpace (se_WalletID ev) \<noteq> []" "0 < se_Cursor ev"
    "se_Cursor ev \<le> row_cursor (TrimSpace (se_WalletID ev)) (db_data u)" "sql_ApplyScanEvent ev u = (r, v)"
  shows "db_data v = db_data u \<and> (healthy u \<longrightarrow> r = Inr ())"
  using assms
  by (auto simp: sql_ApplyScanEvent_def sql_tx_def scan_event_tx_def db_bind_def db_query_def db_stmt_def db_return_def
      healthy_def Let_def split: option.splits)

text \<open>C16: A scan event that was applied is applied once: delivered again, after whatever else happened, it changes no
  table, and is acknowledged when the database answers.\<close>

theorem sql_scan_event_once:
  assumes "sql_reach s" "honest s" "sql_ApplyScanEvent ev s = (Inr (), t)" "sql_step\<^sup>*\<^sup>* t u"
    "sql_ApplyScanEvent ev u = (r, v)"
  shows "db_data v = db_data u \<and> (healthy u \<longrightarrow> r = Inr ())"
proof (rule applied_again [OF _ _ _ assms(5)])
  note a = applied_cursor [OF assms(2,3)]
  then show "TrimSpace (se_WalletID ev) \<noteq> []" "0 < se_Cursor ev" by simp_all
  have "sql_reach t" by (rule sql_next [OF assms(1) sql_step_call [OF sql_call.intros(8) [OF assms(3)]]])
  then have "sql_ok u" using sql_reach_ok sql_reach_steps [OF _ assms(4)] by blast
  then have ok: "tables_ok (db_hash u) (db_data u)" by (rule sql_okD)
  have "at_cursor (db_data u) (TrimSpace (se_WalletID ev)) (se_Cursor ev)"
    using at_cursor_grows a sql_steps_within [OF assms(4)] by blast
  then show "se_Cursor ev \<le> row_cursor (TrimSpace (se_WalletID ev)) (db_data u)" by (rule row_at_cursor [OF ok])
qed

lemma demo_env_same: "same_env demo_sql demo_sql_invoice"
  using demo_sql_step sql_step_within same_env_trans by blast

definition demo_sql_scan :: ScanEvent where
  "demo_sql_scan = \<lparr>se_WalletID = '' w'', se_Cursor = 3, se_Kind = ''BlockMined'', se_Height = 9, se_Payload = RawEmpty,
     se_OccurredAt = unix_time 50\<rparr>"

theorem sql_scan_event_once_witness:
  "\<exists>t. sql_ApplyScanEvent demo_sql_scan demo_sql_invoice = (Inr (), t) \<and>
     (\<exists>v. sql_ApplyScanEvent demo_sql_scan t = (Inr (), v) \<and> db_data v = db_data t)"
proof -
  have "\<not> isl (fst (sql_ApplyScanEvent demo_sql_scan demo_sql_invoice))" by code_simp
  then obtain t where t: "sql_ApplyScanEvent demo_sql_scan demo_sql_invoice = (Inr (), t)"
    by (cases "fst (sql_ApplyScanEvent demo_sql_scan demo_sql_invoice)") (auto simp: prod_eq_iff)
  have honest: "honest demo_sql_invoice" using demo_env_same by (simp add: honest_def same_env_fields demo_sql_def)
  have "same_env demo_sql t"
    using same_env_trans [OF demo_env_same] sql_step_within [OF sql_step_call [OF sql_call.intros(8) [OF t]]] by blast
  then have h: "healthy t" by (auto simp: healthy_def same_env_fields demo_sql_def)
  obtain r v where v: "sql_ApplyScanEvent demo_sql_scan t = (r, v)" by fastforce
  from sql_scan_event_once [OF demo_sql_reaches(2) honest t _ v] h v t show ?thesis by blast
qed

end
