(* ===== verification/SqlAgain.thy ===== *)
theory SqlAgain
  imports SqlRetry
begin

text \<open>
  Creating an invoice a second time, reading back a token, closing a review case that cannot be closed, and the
  deposit whose invoice is not brought up to date.
\<close>

section \<open>An invoice created twice\<close>

definition trimmed :: "InvoiceCreate \<Rightarrow> InvoiceCreate" where
  "trimmed req = req\<lparr>ic_MerchantID := TrimSpace (ic_MerchantID req),
     ic_ExternalOrderID := TrimSpace (ic_ExternalOrderID req), ic_WalletID := TrimSpace (ic_WalletID req),
     ic_Address := ToLower (TrimSpace (ic_Address req))\<rparr>"

definition complete :: "InvoiceCreate \<Rightarrow> bool" where
  "complete req \<longleftrightarrow> ic_MerchantID req \<noteq> [] \<and> ic_ExternalOrderID req \<noteq> [] \<and> 0 < ic_AmountZat req \<and>
     ic_Address req \<noteq> [] \<and> ic_WalletID req \<noteq> []"

text \<open>The row the call has inserted, as a later state has it.\<close>

definition row_of :: "('db, 'z) DbStore_scheme \<Rightarrow> InvoiceCreate \<Rightarrow> string \<Rightarrow> InvoiceRow \<Rightarrow> bool" where
  "row_of s req iid r \<longleftrightarrow> (\<exists>now n. invoice_terms r = invoice_terms (invoice_row req iid (db_hash s (ic_ExternalOrderID req))
     (db_hash s (ic_Address req)) now n))"

lemma row_ofD:
  assumes "row_of s req iid r"
  shows "ir_invoice_id r = iid" "ir_merchant_id r = ic_MerchantID req" "ir_external_order_id r = ic_ExternalOrderID req"
    "ir_external_order_id_hash r = db_hash s (ic_ExternalOrderID req)" "ir_wallet_id r = ic_WalletID req"
    "ir_address r = ic_Address req" "ir_amount_zat r = ic_AmountZat req"
proof -
  obtain now n where "invoice_terms (invoice_row req iid (db_hash s (ic_ExternalOrderID req))
      (db_hash s (ic_Address req)) now n) = invoice_terms r" using assms by (auto simp: row_of_def)
  note t = invoice_termsD [OF this]
  show "ir_invoice_id r = iid" "ir_merchant_id r = ic_MerchantID req" "ir_external_order_id r = ic_ExternalOrderID req"
    "ir_external_order_id_hash r = db_hash s (ic_ExternalOrderID req)" "ir_wallet_id r = ic_WalletID req"
    "ir_address r = ic_Address req" "ir_amount_zat r = ic_AmountZat req"
    using t by (simp_all add: invoice_row_def)
qed

lemma row_of_new: "row_of s req iid (invoice_row req iid (db_hash s (ic_ExternalOrderID req)) (db_hash s (ic_Address req)) now n)"
  by (auto simp: row_of_def)

lemma row_of_grows:
  assumes "r \<in> set (t_invoices t)" "row_of s req iid r" "grows t u"
  shows "\<exists>r' \<in> set (t_invoices u). row_of s req iid r'"
proof -
  have "table_evolves (\<lambda>a b. invoice_terms a = invoice_terms b) (t_invoices t) (t_invoices u)"
    using assms(3) by (simp add: grows_def)
  from table_evolves_mem [OF this assms(1)] assms(2) show ?thesis unfolding row_of_def by metis
qed

lemma wp_created:
  shows "wp (create_invoice_tx req iid now) (\<lambda>r t. case r of Rollback x \<Rightarrow> x = None
      | Commit x \<Rightarrow> x = Some (created_invoice req iid now) \<and> (\<exists>row \<in> set (t_invoices (db_data t)). row_of s req iid row)) s"
  unfolding create_invoice_tx_def
  apply (intro wp_bind wp_hash wp_catch_exec wp_branch wp_pair)
   apply (rule wp_within, rule within_append)
   apply (rule wp_return)
  subgoal for n u x t
    by (auto elim!: db_insert_autoE) (rule row_of_grows [OF _ row_of_new [of s req iid "Unix now" "Suc (n_invoices (db_data s))"], rotated], assumption, simp)
  by simp

lemma created_row:
  assumes "sql_CreateInvoice req s = (Inr (iv, True), t)"
  shows "complete (trimmed req) \<and> (\<exists>row \<in> set (t_invoices (db_data t)). row_of s (trimmed req) (inv_InvoiceID iv) row)"
proof -
  have "wp (sql_CreateInvoice req) (\<lambda>(iv, b) t. b \<longrightarrow> complete (trimmed req) \<and>
      (\<exists>row \<in> set (t_invoices (db_data t)). row_of s (trimmed req) (inv_InvoiceID iv) row)) s"
    unfolding sql_CreateInvoice_def Let_def trimmed_def [symmetric]
    apply (intro wp_if wp_fail)
    apply (rule wp_bind, rule wp_newID, rule wp_bind, rule wp_now, rule wp_bind, rule wp_tx, rule wp_mono, rule wp_created)
    subgoal for raw now r t
      apply (cases r)
      subgoal for x
        by (auto simp: wp_def db_return_def complete_def created_invoice_def row_of_def)
      by (auto intro!: wp_bind wp_option wp_reads [OF reads_ops(9)] wp_if wp_fail wp_return)
    done
  from wpD [OF this assms] show ?thesis by simp
qed

text \<open>The call for a request whose row is there.\<close>

lemma clashing_insert:
  assumes "row \<in> set (t_invoices t)" "ir_merchant_id row = ic_MerchantID req" "ir_external_order_id_hash row = h"
  shows "db_insert_auto t_invoices t_invoices_update n_invoices n_invoices_update invoice_clash (invoice_row req iid h a now) t = None"
  using assms
  by (auto simp: db_insert_auto_def db_insert_def insert_row_def list_ex_iff invoice_clash_def invoice_row_def
      intro!: bexI [of _ row])

lemma found_by_order:
  assumes "no_clash invoice_clash rs" "row \<in> set rs"
  shows "find (\<lambda>r. ir_merchant_id r = ir_merchant_id row \<and> ir_external_order_id_hash r = ir_external_order_id_hash row \<and>
    ir_external_order_id r = ir_external_order_id row) rs = Some row"
  by (rule find_unique [where clash = invoice_clash]) (use assms in \<open>auto simp: invoice_clash_def\<close>)

lemma recreated:
  assumes "sql_ok u" "complete (trimmed req)" "row \<in> set (t_invoices (db_data u))" "row_of s (trimmed req) iid row"
    "db_hash s = db_hash u" "honest u" "sql_CreateInvoice req u = (r, v)"
  shows "db_data v = db_data u \<and> (\<forall>iv b. r = Inr (iv, b) \<longrightarrow> iv = scanInvoiceFull row \<and> \<not> b) \<and>
    (healthy u \<longrightarrow> r = Inr (scanInvoiceFull row, False))"
proof -
  note row = row_ofD [OF assms(4)]
  have trim: "TrimSpace (ic_MerchantID (trimmed req)) = ic_MerchantID (trimmed req)"
    "TrimSpace (ic_ExternalOrderID (trimmed req)) = ic_ExternalOrderID (trimmed req)" by (simp_all add: trimmed_def)
  have find: "find (\<lambda>r. ir_merchant_id r = ic_MerchantID (trimmed req) \<and>
      ir_external_order_id_hash r = db_hash u (ic_ExternalOrderID (trimmed req)) \<and>
      ir_external_order_id r = ic_ExternalOrderID (trimmed req)) (t_invoices (db_data u)) = Some row"
    using found_by_order [OF _ assms(3)] tables_okD(1) [OF sql_okD [OF assms(1)]] row assms(5) by (simp add: keys_ok_def)
  have none: "db_insert_auto t_invoices t_invoices_update n_invoices n_invoices_update invoice_clash
      (invoice_row (trimmed req) i (db_hash u (ic_ExternalOrderID (trimmed req))) a now) (db_data u) = None" for i a now
    by (rule clashing_insert [OF assms(3)]) (use row assms(5) in simp_all)
  have req: "ic_MerchantID (trimmed req) \<noteq> []" "ic_ExternalOrderID (trimmed req) \<noteq> []" "0 < ic_AmountZat (trimmed req)"
    "ic_Address (trimmed req) \<noteq> []" "ic_WalletID (trimmed req) \<noteq> []" using assms(2) by (simp_all add: complete_def)
  have same: "inv_ExternalOrderID (scanInvoiceFull row) = ic_ExternalOrderID (trimmed req)"
    "inv_AmountZat (scanInvoiceFull row) = ic_AmountZat (trimmed req)"
    "inv_WalletID (scanInvoiceFull row) = ic_WalletID (trimmed req)"
    "inv_Address (scanInvoiceFull row) = ic_Address (trimmed req)" using row by (simp_all add: scanInvoiceFull_def)
  have call: "sql_CreateInvoice req u = db_bind (newID ''inv'') (\<lambda>iid. db_bind db_now (\<lambda>now.
      db_bind (sql_tx (create_invoice_tx (trimmed req) iid now)) (\<lambda>created. case created of
          Some iv \<Rightarrow> db_return (iv, True)
        | None \<Rightarrow> db_bind (sql_FindInvoiceByExternalOrderID (ic_MerchantID (trimmed req)) (ic_ExternalOrderID (trimmed req)))
           (\<lambda>existing. case existing of
              None \<Rightarrow> db_fail ErrConflict
            | Some iv \<Rightarrow>
                if inv_ExternalOrderID iv \<noteq> ic_ExternalOrderID (trimmed req) then db_fail ErrConflict
                else if inv_AmountZat iv \<noteq> ic_AmountZat (trimmed req) \<or> inv_WalletID iv \<noteq> ic_WalletID (trimmed req) \<or>
                  inv_Address iv \<noteq> ic_Address (trimmed req) then db_fail ErrConflict
                else db_return (iv, False))))) u"
    using req unfolding sql_CreateInvoice_def Let_def trimmed_def [symmetric] by simp
  show ?thesis
    using assms(6,7) unfolding call
    by (auto simp: newID_def db_random_def db_now_def sql_tx_def create_invoice_tx_def hash32Bytes_def
        sql_FindInvoiceByExternalOrderID_def db_bind_def db_query_def sql_exec_def db_stmt_def db_return_def none find req same
        trim healthy_def honest_def Let_def split: option.splits) (metis option.distinct(1))
qed

text \<open>C12: Repeating the creation of an invoice, after whatever else happened, creates nothing: it changes no table, and when the
  database answers it returns the invoice of the first call, with the same terms, and says that it is not new.\<close>

theorem sql_create_invoice_retry:
  assumes "sql_reach s" "honest s" "sql_CreateInvoice req s = (Inr (iv, True), t)" "sql_step\<^sup>*\<^sup>* t u"
    "sql_CreateInvoice req u = (r, v)"
  shows "db_data v = db_data u \<and> (healthy u \<longrightarrow> (\<exists>iv'. r = Inr (iv', False))) \<and>
    (\<forall>iv' b. r = Inr (iv', b) \<longrightarrow> \<not> b \<and> inv_InvoiceID iv' = inv_InvoiceID iv \<and>
      inv_MerchantID iv' = TrimSpace (ic_MerchantID req) \<and> inv_AmountZat iv' = ic_AmountZat req \<and>
      inv_Address iv' = ToLower (TrimSpace (ic_Address req)))"
proof -
  have step: "sql_step s t" by (rule sql_create [OF assms(3)])
  then have "sql_step\<^sup>*\<^sup>* s u" using assms(4) by (rule converse_rtranclp_into_rtranclp)
  then have u: "sql_ok u" "same_env s u"
    using sql_reach_ok sql_reach_steps [OF assms(1)] sql_steps_within by blast+
  obtain row where "row \<in> set (t_invoices (db_data t))" "row_of s (trimmed req) (inv_InvoiceID iv) row"
    and req: "complete (trimmed req)" using created_row [OF assms(3)] by blast
  then obtain row where row: "row \<in> set (t_invoices (db_data u))" "row_of s (trimmed req) (inv_InvoiceID iv) row"
    using row_of_grows sql_steps_within [OF assms(4)] by blast
  have "db_hash s = db_hash u" "honest u" using u(2) honest_same [OF u(2)] assms(2) by (simp_all add: same_env_fields)
  note again = recreated [OF u(1) req row this assms(5)]
  have "inv_InvoiceID (scanInvoiceFull row) = inv_InvoiceID iv" "inv_MerchantID (scanInvoiceFull row) = TrimSpace (ic_MerchantID req)"
    "inv_AmountZat (scanInvoiceFull row) = ic_AmountZat req"
    "inv_Address (scanInvoiceFull row) = ToLower (TrimSpace (ic_Address req))"
    using row_ofD [OF row(2)] by (simp_all add: scanInvoiceFull_def trimmed_def)
  with again show ?thesis by blast
qed

theorem sql_create_invoice_retry_witness:
  "\<exists>iv iv' v. sql_CreateInvoice demo_sql_req demo_sql_merchant = (Inr (iv, True), demo_sql_invoice) \<and>
    sql_CreateInvoice demo_sql_req demo_sql_invoice = (Inr (iv', False), v) \<and> inv_InvoiceID iv' = inv_InvoiceID iv \<and>
    db_data v = db_data demo_sql_invoice"
proof -
  obtain iv where iv: "sql_CreateInvoice demo_sql_req demo_sql_merchant = (Inr (iv, True), demo_sql_invoice)"
    using demo_sql_created by blast
  obtain r v where v: "sql_CreateInvoice demo_sql_req demo_sql_invoice = (r, v)" by fastforce
  have "same_env demo_sql demo_sql_merchant" using demo_sql_step(1) sql_step_within by blast
  then have h: "honest demo_sql_merchant" "healthy demo_sql_invoice"
    using demo_env_same by (auto simp: honest_def healthy_def same_env_fields demo_sql_def)
  from sql_create_invoice_retry [OF demo_sql_reaches(1) h(1) iv _ v] h(2) iv v show ?thesis by blast
qed

section \<open>A token read back\<close>

text \<open>The cipher opens what it has sealed with a nonce, and the random source gives as many bytes as it is asked for.\<close>

definition sealing :: "('db, 'z) DbStore_scheme \<Rightarrow> bool" where
  "sealing s \<longleftrightarrow> (\<forall>n p d. db_open s n (db_seal s n p d) d = Some p) \<and> (\<forall>k n bs. db_rand s k n = Some bs \<longrightarrow> length bs = n)"

definition sealed :: "('db, 'z) DbStore_scheme \<Rightarrow> string \<Rightarrow> string \<Rightarrow> string \<Rightarrow> bool" where
  "sealed s iid tok enc \<longleftrightarrow> (\<exists>nonce. length nonce = 12 \<and> enc = nonce @ db_seal s nonce tok iid)"

lemma map_of_set_token:
  "map_of (map (\<lambda>r. if fst r = i then (fst r, enc) else r) xs) i =
     (if filter (\<lambda>r. fst r = i) xs = [] then None else Some enc)"
  by (induction xs) auto

lemma map_of_fresh: "map_of xs i = None \<Longrightarrow> map_of (xs @ [(i, enc)]) i = Some enc"
  by (simp add: map_add_def)

lemma wp_set_token:
  "(\<And>n t. honest t = honest s \<Longrightarrow>
      0 < n \<and> map_of (t_invoice_tokens (db_data t)) i = Some enc \<or>
      n = 0 \<and> map_of (t_invoice_tokens (db_data t)) i = None \<Longrightarrow> Q n t) \<Longrightarrow> wp (set_token i enc) Q s"
  unfolding set_token_def
  apply (rule wp_exec)
  subgoal premises p for n t
    using p(2) by (intro p(1)) (auto elim!: db_updateE simp: map_of_set_token split: if_splits)
  done

lemma wp_encrypt:
  "(\<And>nonce. db_rand s (db_ticks s) 12 = Some nonce \<Longrightarrow> Q (nonce @ db_seal s nonce tok iid) (db_tick s)) \<Longrightarrow>
     wp (encryptToken iid tok) Q s"
  by (auto simp: wp_def encryptToken_def db_bind_def db_random_def split: option.split)

lemma wp_put_token:
  assumes "honest s" "sealing s"
  shows "wp (sql_PutInvoiceToken iid tok) (\<lambda>_ t. \<exists>enc. sealed s (TrimSpace iid) (TrimSpace tok) enc \<and>
    map_of (t_invoice_tokens (db_data t)) (TrimSpace iid) = Some enc) s"
  unfolding sql_PutInvoiceToken_def Let_def
  apply (intro wp_if wp_fail)
  apply (rule wp_bind, rule wp_query, rule wp_if, rule wp_fail)
  apply (rule wp_bind, rule wp_encrypt)
  subgoal premises p for nonce
  proof -
    have enc: "sealed s (TrimSpace iid) (TrimSpace tok) (nonce @ db_seal (db_tick s) nonce (TrimSpace tok) (TrimSpace iid))"
      using p(4) assms(2) by (simp add: sealed_def sealing_def) blast
    show ?thesis
      apply (rule wp_bind, rule wp_set_token, rule wp_if, rule wp_return)
      using enc apply auto[1]
      apply (rule wp_catch_honest)
         apply (use assms(1) in simp)
      subgoal premises i for n t m u
      proof -
        have "map_of (t_invoice_tokens (db_data t)) (TrimSpace iid) = None" using i(2,3) by simp
        with i(4) have "map_of (t_invoice_tokens u) (TrimSpace iid) =
            Some (nonce @ db_seal (db_tick s) nonce (TrimSpace tok) (TrimSpace iid))"
          by (elim db_insertE) (simp add: map_add_def)
        with enc show ?thesis by (auto simp: wp_eta)
      qed
      subgoal premises i for n t
        using i(2-4) by (auto simp: db_insert_def insert_row_def list_ex_iff token_clash_def map_of_eq_None_iff image_iff
            split: if_splits)
      by (simp add: wp_eta)
  qed
  done

lemma read_token:
  assumes "sealing s" "sealed s (TrimSpace iid) tok enc" "map_of (t_invoice_tokens (db_data t)) (TrimSpace iid) = Some enc"
    "same_env s t" "TrimSpace iid \<noteq> []" "sql_GetInvoiceToken iid t = (r, v)"
  shows "(\<forall>x. r = Inr x \<longrightarrow> x = Some tok) \<and> (healthy t \<longrightarrow> r = Inr (Some tok))"
  using assms
  by (auto simp: sql_GetInvoiceToken_def db_bind_def db_query_def db_stmt_def db_return_def decryptToken_def sealed_def
      sealing_def same_env_fields healthy_def Let_def split: option.splits)

text \<open>C28: The access token of an invoice survives sealing, the database and opening: after it was put, it is read back as it
  was, up to the white space around it, and reading succeeds when the database answers.\<close>

theorem sql_token_roundtrip:
  assumes "honest s" "sealing s" "sql_PutInvoiceToken iid tok s = (Inr (), t)" "sql_GetInvoiceToken iid t = (r, v)"
  shows "(\<forall>x. r = Inr x \<longrightarrow> x = Some (TrimSpace tok)) \<and> (healthy t \<longrightarrow> r = Inr (Some (TrimSpace tok)))"
proof -
  have "TrimSpace iid \<noteq> []"
    using assms(3) by (auto simp: sql_PutInvoiceToken_def db_fail_def Let_def split: if_splits)
  moreover have "same_env s t"
    using sql_step_within [OF sql_step_call [OF sql_call.intros(7) [OF assms(3)]]] by simp
  moreover obtain enc where "sealed s (TrimSpace iid) (TrimSpace tok) enc"
      "map_of (t_invoice_tokens (db_data t)) (TrimSpace iid) = Some enc"
    using wpD [OF wp_put_token [OF assms(1,2)] assms(3)] by blast
  ultimately show ?thesis using read_token [OF assms(2) _ _ _ _ assms(4)] by blast
qed

definition demo_sql_iid :: string where
  "demo_sql_iid = ir_invoice_id (hd (t_invoices (db_data demo_sql_invoice)))"

theorem sql_token_roundtrip_witness:
  "\<exists>t v. sql_PutInvoiceToken demo_sql_iid '' tok '' demo_sql_invoice = (Inr (), t) \<and>
    sql_GetInvoiceToken demo_sql_iid t = (Inr (Some (TrimSpace '' tok '')), v)"
proof -
  have "\<not> isl (fst (sql_PutInvoiceToken demo_sql_iid '' tok '' demo_sql_invoice))" by code_simp
  then obtain t where t: "sql_PutInvoiceToken demo_sql_iid '' tok '' demo_sql_invoice = (Inr (), t)"
    by (cases "fst (sql_PutInvoiceToken demo_sql_iid '' tok '' demo_sql_invoice)") (auto simp: prod_eq_iff)
  have "same_env demo_sql_invoice t"
    using sql_step_within [OF sql_step_call [OF sql_call.intros(7) [OF t]]] by simp
  then have h: "honest demo_sql_invoice" "sealing demo_sql_invoice" "healthy t"
    using demo_env_same by (auto simp: honest_def sealing_def healthy_def same_env_fields demo_sql_def)
  obtain r v where v: "sql_GetInvoiceToken demo_sql_iid t = (r, v)" by fastforce
  from sql_token_roundtrip [OF h(1,2) t v] h(3) v t show ?thesis by blast
qed

section \<open>A review case that cannot be closed\<close>

text \<open>The status of a review case is a column of a unique index: when one case of an invoice and reason has been
  resolved, a second one can not be, whatever the notes; the call fails with the violation of the key.\<close>

theorem sql_review_stuck:
  assumes "a \<in> set (t_review_cases (db_data s))" "b \<in> set (t_review_cases (db_data s))" "vr_status a = ReviewResolved"
    "vr_status b = ReviewOpen" "vr_invoice_id a \<noteq> None" "vr_invoice_id b = vr_invoice_id a"
    "vr_merchant_id b = vr_merchant_id a" "vr_reason b = vr_reason a" "vr_review_id a \<noteq> TrimSpace rid"
    "vr_review_id b = TrimSpace rid" "vr_id a \<noteq> vr_id b" "TrimSpace rid \<noteq> []" "TrimSpace notes \<noteq> []" "healthy s"
  shows "fst (sql_ResolveReviewCase rid notes s) = Inl unique_error"
proof -
  have "db_update_unique t_review_cases t_review_cases_update review_clash (\<lambda>r. vr_review_id r = TrimSpace rid)
      (\<lambda>r. r\<lparr>vr_status := ReviewResolved, vr_notes := n, vr_updated_at := at\<rparr>) (db_data s) = None" for n at
  proof -
    let ?f = "\<lambda>r. if vr_review_id r = TrimSpace rid then r\<lparr>vr_status := ReviewResolved, vr_notes := n, vr_updated_at := at\<rparr> else r"
    let ?rs = "map ?f (t_review_cases (db_data s))"
    have mem: "a \<in> set ?rs" "?f b \<in> set ?rs" using assms(1,2,9) by (auto simp: image_iff intro: bexI [of _ a])
    have clash: "review_clash a (?f b)" using assms(3,5-10) by (simp add: review_clash_def)
    have "a \<noteq> ?f b" using assms(11) by auto
    with no_clashD [where clash = review_clash, OF _ mem clash clash_sym(9)] have "\<not> no_clash review_clash ?rs" by blast
    then show ?thesis by (simp add: db_update_unique_def update_rows_def)
  qed
  then show ?thesis
    using assms(12-14)
    by (simp add: sql_ResolveReviewCase_def close_review_def db_bind_def db_now_def sql_exec_def db_stmt_def healthy_def Let_def)
qed

definition demo_case :: "nat \<Rightarrow> string \<Rightarrow> ReviewStatus \<Rightarrow> ReviewRow" where
  "demo_case n rid st = \<lparr>vr_id = n, vr_review_id = rid, vr_merchant_id = ''m'', vr_invoice_id = Some ''i'',
     vr_reason = ReviewOverpayment, vr_status = st, vr_notes = [], vr_deposit = None, vr_created_at = 0, vr_updated_at = 0\<rparr>"

definition demo_sql_cases :: SqlStore where
  "demo_sql_cases = demo_sql\<lparr>db_data := empty_tables\<lparr>t_review_cases :=
     [demo_case 1 ''r1'' ReviewResolved, demo_case 2 ''r2'' ReviewOpen]\<rparr>\<rparr>"

theorem sql_review_stuck_witness: "fst (sql_ResolveReviewCase ''r2'' ''done'' demo_sql_cases) = Inl unique_error"
proof -
  have t: "TrimSpace ''r2'' = ''r2''" "TrimSpace ''done'' = ''done''" by code_simp+
  show ?thesis
    by (rule sql_review_stuck [of "demo_case 1 ''r1'' ReviewResolved" _ "demo_case 2 ''r2'' ReviewOpen"])
      (simp_all add: t demo_case_def demo_sql_cases_def demo_sql_def healthy_def)
qed

section \<open>Amounts that are not brought up to date\<close>

definition demo_deposit :: "int64 \<Rightarrow> DepositEventPayload" where
  "demo_deposit h = zero_DepositEventPayload\<lparr>de_WalletID := ''w'', de_TxID := ''t'', de_Height := h,
     de_AmountZatoshis := 10, de_RecipientAddress := ''j1abc''\<rparr>"

definition demo_sql_paid :: SqlStore where
  "demo_sql_paid = snd (apply_deposit_tx demo_sql_scan (unix_time 60) DepositDetected (demo_deposit 6) demo_sql_invoice)"

definition demo_sql_orphaned :: SqlStore where
  "demo_sql_orphaned = snd (apply_deposit_tx demo_sql_scan (unix_time 70) DepositOrphaned (demo_deposit 5) demo_sql_paid)"

text \<open>A deposit of an invoice that is reported again at a height at or below the one the invoice was created after is
  updated, but the amounts of its invoice are not: the orphaned deposit still counts as received.\<close>

theorem sql_stale_amounts:
  "map dr_status (t_deposits (db_data demo_sql_orphaned)) = [DepositOrphaned] \<and>
   map ir_received_pending_zat (t_invoices (db_data demo_sql_orphaned)) = [10] \<and>
   map ir_status (t_invoices (db_data demo_sql_orphaned)) = [InvoicePending] \<and>
   fst (apply_deposit_tx demo_sql_scan (unix_time 70) DepositOrphaned (demo_deposit 5) demo_sql_paid) = Inr ()"
  by code_simp

end
