(* ===== verification/MongoDb.thy ===== *)
theory MongoDb
  imports SqlDb SqlText
begin

text \<open>
  The database under \<open>internal/store/mongo\<close>, with the indexes of \<open>Init\<close>: a collection is the list of its
  documents in the order of their insertion, a unique index is a relation between the documents that clash on
  it (\<open>_id\<close> is one), and a statement is a function on the collections. A document with the fields of a row of the SQL store is
  a value of that row's type, with \<open>_id\<close> for its key. Then the plumbing of \<open>mongo.go\<close> and \<open>open.go\<close>: the
  statements of the driver, sessions and their transactions, the counters.
\<close>

section \<open>The collections\<close>

text \<open>The fields of an event's deposit, which are absent together, are one optional field.\<close>

record EventDoc =
  ed_id :: nat
  ed_dedupe_key :: string
  ed_invoice_id :: string
  ed_type :: InvoiceEventType
  ed_occurred_at :: int64
  ed_deposit :: "DepositRef option"
  ed_refund_id :: "string option"
  ed_created_at :: int64

record ReviewDoc =
  vd_review_id :: string
  vd_merchant_id :: string
  vd_invoice_id :: "string option"
  vd_reason :: ReviewReason
  vd_status :: ReviewStatus
  vd_notes :: string
  vd_deposit :: "(string \<times> string \<times> int32) option"
  vd_created_at :: int64
  vd_updated_at :: int64

record Collections =
  k_merchants :: "MerchantRow list"
  k_merchant_wallets :: "WalletRow list"
  k_api_keys :: "KeyRow list"
  k_invoices :: "InvoiceRow list"
  k_invoice_tokens :: "(string \<times> string) list"
  k_scan_cursors :: "CursorRow list"
  k_deposits :: "DepositRow list"
  k_refunds :: "RefundRow list"
  k_review_cases :: "ReviewDoc list"
  k_invoice_events :: "EventDoc list"
  k_event_sinks :: "SinkRow list"
  k_outbox_events :: "OutboxRow list"
  k_event_deliveries :: "DeliveryRow list"
  k_counters :: "nat gomap"

definition empty_collections :: Collections where
  "empty_collections = \<lparr>k_merchants = [], k_merchant_wallets = [], k_api_keys = [], k_invoices = [],
     k_invoice_tokens = [], k_scan_cursors = [], k_deposits = [], k_refunds = [], k_review_cases = [],
     k_invoice_events = [], k_event_sinks = [], k_outbox_events = [], k_event_deliveries = [], k_counters = []\<rparr>"

section \<open>The unique indexes\<close>

text \<open>Where they are those of the SQL store, the relation of the rows is used.\<close>

definition mongo_wallet_clash :: "WalletRow \<Rightarrow> WalletRow \<Rightarrow> bool" where
  "mongo_wallet_clash a b \<longleftrightarrow> wr_merchant_id a = wr_merchant_id b \<or> wr_wallet_id a = wr_wallet_id b"

definition mongo_review_clash :: "ReviewDoc \<Rightarrow> ReviewDoc \<Rightarrow> bool" where
  "mongo_review_clash a b \<longleftrightarrow> vd_review_id a = vd_review_id b \<or>
     (vd_invoice_id a \<noteq> None \<and> vd_merchant_id a = vd_merchant_id b \<and> vd_invoice_id a = vd_invoice_id b \<and>
       vd_reason a = vd_reason b \<and> vd_status a = vd_status b) \<or>
     (vd_deposit a \<noteq> None \<and> vd_deposit a = vd_deposit b \<and> vd_reason a = vd_reason b)"

definition mongo_event_clash :: "EventDoc \<Rightarrow> EventDoc \<Rightarrow> bool" where
  "mongo_event_clash a b \<longleftrightarrow> ed_id a = ed_id b \<or> ed_dedupe_key a = ed_dedupe_key b"

section \<open>The store\<close>

text \<open>
  \<open>mg_session\<close> says whether a session has a transaction, and whether the server has aborted it. The rest is of the driver:
  \<open>WithTransaction\<close> runs the callback again when its error, or that of the commit, is transient (\<open>mg_transient\<close>), at most
  \<open>mg_attempts\<close> more times (until its time limit); \<open>mg_overflow\<close> is what the sum of integers beyond 64 bits decodes to,
  \<open>None\<close> for an error.
\<close>

datatype SessionState = NoTransaction | InTransaction | Aborted

record MongoStore = "Collections DbStore" +
  mg_session :: SessionState
  mg_attempts :: nat
  mg_transient :: "store_error \<Rightarrow> bool"
  mg_overflow :: "int list \<Rightarrow> int64 option"

type_synonym 'a mongo = "('a, MongoStore) act"

section \<open>Statements\<close>

text \<open>An error aborts the transaction of the session, and no statement of an aborted transaction is executed.\<close>

definition no_transaction :: store_error where
  "no_transaction = OtherError ''NoSuchTransaction''"

definition mongo_stmt :: "(Collections \<Rightarrow> (store_error + 'a) \<times> Collections) \<Rightarrow> 'a mongo" where
  "mongo_stmt f s =
     (if mg_session s = Aborted then (Inl no_transaction, s)
      else (case db_stmt f s of
          (Inl e, s) \<Rightarrow> (Inl e, if mg_session s = InTransaction then s\<lparr>mg_session := Aborted\<rparr> else s)
        | (Inr x, s) \<Rightarrow> (Inr x, s)))"

definition mongo_query :: "(Collections \<Rightarrow> 'a) \<Rightarrow> 'a mongo" where
  "mongo_query f = mongo_stmt (\<lambda>t. (Inr (f t), t))"

definition duplicate_error :: store_error where
  "duplicate_error = OtherError ''E11000 duplicate key error''"

text \<open>A write: \<open>None\<close> where it violates a unique index.\<close>

definition mongo_exec :: "(Collections \<Rightarrow> ('a \<times> Collections) option) \<Rightarrow> 'a mongo" where
  "mongo_exec f = mongo_stmt (\<lambda>t. case f t of None \<Rightarrow> (Inl duplicate_error, t) | Some (x, t) \<Rightarrow> (Inr x, t))"

definition isDuplicateKey :: "store_error \<Rightarrow> bool" where
  "isDuplicateKey e = (case e of
       OtherError m \<Rightarrow> (let msg = ToLower m in Contains ''duplicate key'' msg \<or> Contains ''e11000'' msg)
     | _ \<Rightarrow> False)"

text \<open>\<open>UpdateOne\<close> changes the first document that matches; its result is the number that matched.\<close>

fun update_first :: "('r \<Rightarrow> bool) \<Rightarrow> ('r \<Rightarrow> 'r) \<Rightarrow> 'r list \<Rightarrow> 'r list" where
  "update_first cond f [] = []"
| "update_first cond f (r # rs) = (if cond r then f r # rs else r # update_first cond f rs)"

definition update_one :: "(Collections \<Rightarrow> 'r list) \<Rightarrow> (('r list \<Rightarrow> 'r list) \<Rightarrow> Collections \<Rightarrow> Collections)
    \<Rightarrow> ('r \<Rightarrow> bool) \<Rightarrow> ('r \<Rightarrow> 'r) \<Rightarrow> Collections \<Rightarrow> (nat \<times> Collections) option" where
  "update_one tab upd cond f t =
     Some (if list_ex cond (tab t) then 1 else 0, upd (\<lambda>_. update_first cond f (tab t)) t)"

text \<open>An \<open>UpdateOne\<close> of a field of a unique index.\<close>

definition update_one_unique :: "(Collections \<Rightarrow> 'r list) \<Rightarrow> (('r list \<Rightarrow> 'r list) \<Rightarrow> Collections \<Rightarrow> Collections)
    \<Rightarrow> ('r \<Rightarrow> 'r \<Rightarrow> bool) \<Rightarrow> ('r \<Rightarrow> bool) \<Rightarrow> ('r \<Rightarrow> 'r) \<Rightarrow> Collections \<Rightarrow> (nat \<times> Collections) option" where
  "update_one_unique tab upd clash cond f t =
     (if no_clash clash (update_first cond f (tab t)) then update_one tab upd cond f t else None)"

text \<open>\<open>UpdateOne\<close> with \<open>SetUpsert\<close>: whether a document was inserted.\<close>

definition upsert_one :: "(Collections \<Rightarrow> 'r list) \<Rightarrow> (('r list \<Rightarrow> 'r list) \<Rightarrow> Collections \<Rightarrow> Collections)
    \<Rightarrow> ('r \<Rightarrow> 'r \<Rightarrow> bool) \<Rightarrow> ('r \<Rightarrow> bool) \<Rightarrow> ('r \<Rightarrow> 'r) \<Rightarrow> 'r \<Rightarrow> Collections \<Rightarrow> (bool \<times> Collections) option" where
  "upsert_one tab upd clash cond f doc t =
     (if list_ex cond (tab t) then Some (False, upd (\<lambda>_. update_first cond f (tab t)) t)
      else map_option (\<lambda>(n, t). (True, t)) (db_insert tab upd clash doc t))"

section \<open>Sessions\<close>

text \<open>One run of the callback, with the commit or the abort of its transaction; a commit that fails leaves the
  collections as they were.\<close>

definition run_callback :: "'a mongo \<Rightarrow> 'a mongo" where
  "run_callback body s =
     (case db_bind body (\<lambda>x. db_bind (mongo_query (\<lambda>_. ())) (\<lambda>_. db_return x)) (s\<lparr>mg_session := InTransaction\<rparr>) of
        (Inl e, t) \<Rightarrow> (Inl e, t\<lparr>db_data := db_data s, mg_session := NoTransaction\<rparr>)
      | (Inr x, t) \<Rightarrow> (Inr x, t\<lparr>mg_session := NoTransaction\<rparr>))"

fun with_transaction :: "nat \<Rightarrow> 'a mongo \<Rightarrow> 'a mongo" where
  "with_transaction 0 body = run_callback body"
| "with_transaction (Suc n) body = (\<lambda>s. case run_callback body s of
       (Inl e, t) \<Rightarrow> if mg_transient t e then with_transaction n body t else (Inl e, t)
     | (Inr x, t) \<Rightarrow> (Inr x, t))"

definition WithTransaction :: "'a mongo \<Rightarrow> 'a mongo" where
  "WithTransaction body s = with_transaction (mg_attempts s) body s"

text \<open>\<open>StartSession\<close> reads and writes no documents.\<close>

definition StartSession :: "unit mongo" where
  "StartSession = mongo_query (\<lambda>_. ())"

section \<open>Counters and indexes\<close>

definition nextSeq :: "string \<Rightarrow> nat mongo" where
  "nextSeq key = mongo_exec (\<lambda>t.
     let v = Suc (case map_of (k_counters t) key of None \<Rightarrow> 0 | Some v \<Rightarrow> v) in
     Some (v, t\<lparr>k_counters := mput key v (k_counters t)\<rparr>))"

text \<open>\<open>Init\<close>: an index has its keys, all ascending, whether it is unique, and the field that must be a string for a document to
  be in it; a collection with no index is left alone.\<close>

definition ensure :: "(string list \<times> bool \<times> string option) list \<Rightarrow> unit mongo" where
  "ensure models = (if models = [] then db_return () else mongo_query (\<lambda>_. ()))"

definition mongo_indexes :: "(string \<times> (string list \<times> bool \<times> string option) list) list" where
  "mongo_indexes =
     [(''merchants'', []),
      (''merchant_wallets'', [([''wallet_id''], True, None)]),
      (''api_keys'', [([''token_hash''], True, None)]),
      (''invoices'', [([''seq''], True, None), ([''merchant_id'', ''seq''], False, None),
         ([''merchant_id'', ''status'', ''seq''], False, None), ([''merchant_id'', ''external_order_id_hash''], True, None),
         ([''wallet_id'', ''address_hash''], True, None)]),
      (''invoice_tokens'', []),
      (''scan_cursors'', []),
      (''deposits'', [([''seq''], True, None), ([''wallet_id'', ''txid'', ''action_index''], True, None),
         ([''invoice_id'', ''status'', ''seq''], False, None), ([''wallet_id'', ''recipient_address_hash''], False, None)]),
      (''refunds'', [([''seq''], True, None), ([''merchant_id'', ''seq''], False, None), ([''invoice_id'', ''seq''], False, None)]),
      (''review_cases'', [([''merchant_id'', ''status'', ''created_at''], False, None),
         ([''merchant_id'', ''invoice_id'', ''reason'', ''status''], True, Some ''invoice_id''),
         ([''deposit_wallet_id'', ''deposit_txid'', ''deposit_action_index'', ''reason''], True, Some ''deposit_txid'')]),
      (''invoice_events'', [([''invoice_id'', ''_id''], False, None), ([''dedupe_key''], True, Some ''dedupe_key'')]),
      (''event_sinks'', [([''merchant_id''], False, None)]),
      (''outbox_events'', [([''merchant_id'', ''_id''], False, None), ([''event_id''], True, None)]),
      (''event_deliveries'', [([''sink_id'', ''event_id''], True, None),
         ([''merchant_id'', ''status'', ''next_retry_at''], False, None), ([''sink_id''], False, None)]),
      (''counters'', [])]"

definition mongo_Init :: "unit mongo" where
  "mongo_Init = db_for mongo_indexes (\<lambda>(name, models). ensure models)"

section \<open>Opening\<close>

definition mongo_validateIdent :: "string \<Rightarrow> string option" where
  "mongo_validateIdent ident0 =
     (let ident = TrimSpace ident0 in
      case ident of
        [] \<Rightarrow> Some ''empty''
      | c # cs \<Rightarrow>
          if \<not> isIdentStart c then Some ''must start with letter or underscore''
          else if \<exists>x \<in> set cs. \<not> isIdentContinue x then Some ''invalid character''
          else None)"

text \<open>An option takes the prefix the store has to the one it gives it, or fails.\<close>

definition WithCollectionPrefix :: "string \<Rightarrow> string \<Rightarrow> string + string" where
  "WithCollectionPrefix prefix0 =
     (let prefix = TrimSpace prefix0 in
      (\<lambda>_. if prefix = [] then Inr []
      else (case mongo_validateIdent prefix of
          Some e \<Rightarrow> Inl (''collection prefix invalid: '' @ e)
        | None \<Rightarrow> if length prefix > 32 then Inl ''collection prefix too long (max 32)'' else Inr prefix)))"

fun mongo_options :: "(string \<Rightarrow> string + string) option list \<Rightarrow> string \<Rightarrow> string + string" where
  "mongo_options [] p = Inr p"
| "mongo_options (None # os) p = mongo_options os p"
| "mongo_options (Some o' # os) p = (case o' p of Inl e \<Rightarrow> Inl e | Inr p \<Rightarrow> mongo_options os p)"

definition mongo_newAEAD :: "string \<Rightarrow> string option" where
  "mongo_newAEAD tokenKey =
     (if length tokenKey \<noteq> 32 then Some ''mongostore: token key must be 32 bytes'' else None)"

text \<open>\<open>connect\<close> and \<open>ping\<close> are the driver's, with the error they fail with; the store that is opened is told by its URI, its
  database, its token key and its prefix.\<close>

definition mongo_Open :: "(string \<Rightarrow> string option) \<Rightarrow> (string \<Rightarrow> string option) \<Rightarrow> string \<Rightarrow> string \<Rightarrow> string \<Rightarrow>
    (string \<Rightarrow> string + string) option list \<Rightarrow> string + string \<times> string \<times> string \<times> string" where
  "mongo_Open connect ping uri0 database0 tokenKey opts =
     (let uri = TrimSpace uri0; database = TrimSpace database0 in
      if uri = [] then Inl ''mongostore: uri is required''
      else if database = [] then Inl ''mongostore: database is required''
      else (case mongo_newAEAD tokenKey of
          Some e \<Rightarrow> Inl e
        | None \<Rightarrow> (case connect uri of
            Some e \<Rightarrow> Inl e
          | None \<Rightarrow> (case ping uri of
              Some e \<Rightarrow> Inl e
            | None \<Rightarrow> (case mongo_options opts [] of
                Inl e \<Rightarrow> Inl e
              | Inr prefix \<Rightarrow> Inr (uri, database, tokenKey, prefix))))))"

text \<open>The name of a collection.\<close>

definition collection_name :: "string \<Rightarrow> string \<Rightarrow> string" where
  "collection_name prefix name = (if prefix = [] then name else prefix @ ''_'' @ name)"

end
