(* ===== verification/MongoMerchants.thy ===== *)
theory MongoMerchants
  imports MongoDb SqlMerchants SqlEvents
begin

text \<open>
  \<open>internal/store/mongo/mongo.go\<close>, merchants, their wallets and API keys, and the event sinks. A document is read back as
  the row of the SQL store is.
\<close>

section \<open>Merchants\<close>

definition mongo_CreateMerchant :: "string \<Rightarrow> MerchantSettings \<Rightarrow> Merchant mongo" where
  "mongo_CreateMerchant name0 settings =
     (let name = TrimSpace name0 in
      if name = [] then db_fail (invalid_argument ''name is required'')
      else (case Validate settings of
          Some e \<Rightarrow> db_fail e
        | None \<Rightarrow>
            db_bind (newID ''m'') (\<lambda>mid.
            db_bind db_now (\<lambda>now.
            db_bind (mongo_exec (db_insert k_merchants k_merchants_update merchant_clash
              \<lparr>mr_merchant_id = mid, mr_name = name, mr_status = MerchantActive, mr_settings = settings,
               mr_created_at = Unix now, mr_updated_at = Unix now\<rparr>)) (\<lambda>_.
            db_return \<lparr>m_MerchantID = mid, m_Name = name, m_Status = MerchantActive, m_Settings = settings,
               m_CreatedAt = now, m_UpdatedAt = now\<rparr>)))))"

definition mongo_GetMerchant :: "string \<Rightarrow> Merchant option mongo" where
  "mongo_GetMerchant merchantID0 =
     (let merchantID = TrimSpace merchantID0 in
      if merchantID = [] then db_return None
      else mongo_query (\<lambda>t. map_option sql_merchant (find (\<lambda>r. mr_merchant_id r = merchantID) (k_merchants t))))"

definition mongo_ListMerchants :: "Merchant list mongo" where
  "mongo_ListMerchants = mongo_query (\<lambda>t. map sql_merchant (sort_key mr_merchant_id (k_merchants t)))"

definition mongo_UpdateMerchantSettings :: "string \<Rightarrow> MerchantSettings \<Rightarrow> Merchant mongo" where
  "mongo_UpdateMerchantSettings merchantID0 settings =
     (let merchantID = TrimSpace merchantID0 in
      if merchantID = [] then db_fail (invalid_argument ''merchant_id is required'')
      else (case Validate settings of
          Some e \<Rightarrow> db_fail e
        | None \<Rightarrow>
            db_bind db_now (\<lambda>now.
            db_bind (mongo_exec (update_one k_merchants k_merchants_update (\<lambda>r. mr_merchant_id r = merchantID)
              (\<lambda>r. r\<lparr>mr_settings := settings, mr_updated_at := Unix now\<rparr>))) (\<lambda>n.
            if n = 0 then db_fail ErrNotFound
            else db_bind (mongo_GetMerchant merchantID) (\<lambda>m.
              case m of None \<Rightarrow> db_fail ErrNotFound | Some m \<Rightarrow> db_return m)))))"

text \<open>\<open>GetMerchant\<close>, and \<open>ErrNotFound\<close> when there is none.\<close>

definition mongo_merchant_exists :: "string \<Rightarrow> unit mongo" where
  "mongo_merchant_exists merchantID =
     db_bind (mongo_GetMerchant merchantID) (\<lambda>m. if m = None then db_fail ErrNotFound else db_return ())"

section \<open>Wallets\<close>

definition mongo_SetMerchantWallet :: "string \<Rightarrow> MerchantWallet \<Rightarrow> MerchantWallet mongo" where
  "mongo_SetMerchantWallet merchantID0 w0 =
     (let merchantID = TrimSpace merchantID0;
          w = w0\<lparr>mw_WalletID := TrimSpace (mw_WalletID w0), mw_UFVK := TrimSpace (mw_UFVK w0),
                 mw_Chain := TrimSpace (mw_Chain w0), mw_UAHRP := TrimSpace (mw_UAHRP w0)\<rparr> in
      if merchantID = [] then db_fail (invalid_argument ''merchant_id is required'')
      else if mw_WalletID w = [] then db_fail (invalid_argument ''wallet_id is required'')
      else if mw_UFVK w = [] then db_fail (invalid_argument ''ufvk is required'')
      else if mw_Chain w = [] then db_fail (invalid_argument ''chain is required'')
      else if mw_UAHRP w = [] then db_fail (invalid_argument ''ua_hrp is required'')
      else
        db_bind (mongo_merchant_exists merchantID) (\<lambda>_.
        db_bind db_now (\<lambda>now s.
        (case mongo_exec (db_insert k_merchant_wallets k_merchant_wallets_update mongo_wallet_clash
              \<lparr>wr_merchant_id = merchantID, wr_wallet_id = mw_WalletID w, wr_ufvk = mw_UFVK w, wr_chain = mw_Chain w,
               wr_ua_hrp = mw_UAHRP w, wr_coin_type = mw_CoinType w, wr_next_address_index = 0, wr_created_at = Unix now\<rparr>) s of
           (Inl e, s) \<Rightarrow> (Inl (if isDuplicateKey e then ErrConflict else e), s)
         | (Inr _, s) \<Rightarrow> (Inr (w\<lparr>mw_MerchantID := merchantID, mw_CreatedAt := now\<rparr>), s)))))"

definition mongo_GetMerchantWallet :: "string \<Rightarrow> MerchantWallet option mongo" where
  "mongo_GetMerchantWallet merchantID0 =
     (let merchantID = TrimSpace merchantID0 in
      if merchantID = [] then db_return None
      else mongo_query (\<lambda>t. map_option sql_wallet (find (\<lambda>r. wr_merchant_id r = merchantID) (k_merchant_wallets t))))"

definition mongo_ListMerchantWallets :: "MerchantWallet list mongo" where
  "mongo_ListMerchantWallets = mongo_query (\<lambda>t. map sql_wallet (sort_key wr_merchant_id (k_merchant_wallets t)))"

text \<open>\<open>FindOneAndUpdate\<close>, which returns the number before the increment.\<close>

definition mongo_NextAddressIndex :: "string \<Rightarrow> uint32 mongo" where
  "mongo_NextAddressIndex merchantID0 =
     (let merchantID = TrimSpace merchantID0 in
      if merchantID = [] then db_fail (invalid_argument ''merchant_id is required'')
      else
        db_bind (mongo_exec (\<lambda>t. Some (map_option wr_next_address_index
            (find (\<lambda>r. wr_merchant_id r = merchantID) (k_merchant_wallets t)),
          k_merchant_wallets_update (update_first (\<lambda>r. wr_merchant_id r = merchantID)
            (\<lambda>r. r\<lparr>wr_next_address_index := wr_next_address_index r + 1\<rparr>)) t))) (\<lambda>idx.
        case idx of
          None \<Rightarrow> db_fail ErrNotFound
        | Some idx \<Rightarrow> db_return (word_of_int (if idx < 0 then 0 else idx))))"

section \<open>API keys\<close>

definition mongo_CreateMerchantAPIKey :: "string option \<Rightarrow> string \<Rightarrow> string \<Rightarrow> (string \<times> string) mongo" where
  "mongo_CreateMerchantAPIKey raw merchantID0 label0 =
     (let merchantID = TrimSpace merchantID0; label = TrimSpace label0 in
      if merchantID = [] then db_fail (invalid_argument ''merchant_id is required'')
      else
        db_bind (mongo_merchant_exists merchantID) (\<lambda>_.
        db_bind (newID ''key'') (\<lambda>keyID.
        case raw of
          None \<Rightarrow> db_fail (OtherError ''rand'')
        | Some bs \<Rightarrow>
            (let apiKey = ''jps_'' @ hex_encode bs in
             db_bind (hash32Bytes apiKey) (\<lambda>sum.
             db_bind db_now (\<lambda>now.
             db_bind (mongo_exec (db_insert k_api_keys k_api_keys_update key_clash
               \<lparr>kr_key_id = keyID, kr_merchant_id = merchantID, kr_label = label, kr_token_hash = hex_encode sum,
                kr_revoked_at = None, kr_created_at = Unix now\<rparr>)) (\<lambda>_.
             db_return (keyID, apiKey))))))))"

definition mongo_RevokeMerchantAPIKey :: "string \<Rightarrow> unit mongo" where
  "mongo_RevokeMerchantAPIKey keyID0 =
     (let keyID = TrimSpace keyID0 in
      if keyID = [] then db_fail (invalid_argument ''key_id is required'')
      else
        db_bind db_now (\<lambda>now.
        db_bind (mongo_exec (update_one k_api_keys k_api_keys_update (\<lambda>r. kr_key_id r = keyID \<and> kr_revoked_at r = None)
          (\<lambda>r. r\<lparr>kr_revoked_at := Some (Unix now)\<rparr>))) (\<lambda>n.
        if n = 0 then
          db_bind (mongo_query (\<lambda>t. list_ex (\<lambda>r. kr_key_id r = keyID) (k_api_keys t))) (\<lambda>b.
          if b then db_return () else db_fail ErrNotFound)
        else db_return ())))"

definition mongo_LookupMerchantIDByAPIKey :: "string \<Rightarrow> string option mongo" where
  "mongo_LookupMerchantIDByAPIKey apiKey0 =
     (let apiKey = TrimSpace apiKey0 in
      if apiKey = [] then db_return None
      else
        db_bind (hash32Bytes apiKey) (\<lambda>sum.
        db_bind (mongo_query (\<lambda>t. find (\<lambda>r. kr_token_hash r = hex_encode sum) (k_api_keys t))) (\<lambda>r.
        db_return (case r of None \<Rightarrow> None
          | Some r \<Rightarrow> if kr_revoked_at r \<noteq> None then None else Some (kr_merchant_id r)))))"

definition mongo_ListMerchantAPIKeys :: "string \<Rightarrow> MerchantAPIKey list mongo" where
  "mongo_ListMerchantAPIKeys merchantID0 =
     (let merchantID = TrimSpace merchantID0 in
      if merchantID = [] then db_fail (invalid_argument ''merchant_id is required'')
      else mongo_query (\<lambda>t. map sql_api_key (rev (sort_key kr_created_at (sort_key kr_key_id
        (filter (\<lambda>r. kr_merchant_id r = merchantID) (k_api_keys t)))))))"

section \<open>Sinks\<close>

definition mongo_CreateEventSink :: "EventSinkCreate \<Rightarrow> EventSink mongo" where
  "mongo_CreateEventSink req =
     (let merchantID = TrimSpace (skc_MerchantID req) in
      if merchantID = [] then db_fail (invalid_argument ''merchant_id is required'')
      else if skc_Config req = RawEmpty then db_fail (invalid_argument ''config is required'')
      else (case skc_Kind req of
          EventSinkOther _ \<Rightarrow> db_fail (invalid_argument ''kind invalid'')
        | _ \<Rightarrow> (case skc_Config req of
            RawJson (JObj kvs) \<Rightarrow>
              db_bind (mongo_merchant_exists merchantID) (\<lambda>_.
              db_bind (newID ''sink'') (\<lambda>sinkID.
              db_bind db_now (\<lambda>now.
              (let cfg = RawJson (remarshal (JObj kvs)) in
               db_bind (mongo_exec (db_insert k_event_sinks k_event_sinks_update sink_clash
                 \<lparr>xr_sink_id = sinkID, xr_merchant_id = merchantID, xr_kind = skc_Kind req,
                  xr_status = EventSinkActive, xr_config = cfg, xr_created_at = Unix now, xr_updated_at = Unix now\<rparr>)) (\<lambda>_.
               db_return \<lparr>sk_SinkID = sinkID, sk_MerchantID = merchantID, sk_Kind = skc_Kind req,
                  sk_Status = EventSinkActive, sk_Config = cfg, sk_CreatedAt = now, sk_UpdatedAt = now\<rparr>)))))
          | RawJson _ \<Rightarrow> db_fail (invalid_argument ''config must be an object'')
          | _ \<Rightarrow> db_fail (invalid_argument ''config invalid json''))))"

definition mongo_GetEventSink :: "string \<Rightarrow> EventSink option mongo" where
  "mongo_GetEventSink sinkID0 =
     (let sinkID = TrimSpace sinkID0 in
      if sinkID = [] then db_return None
      else mongo_query (\<lambda>t. map_option sql_sink (find (\<lambda>r. xr_sink_id r = sinkID) (k_event_sinks t))))"

definition mongo_ListEventSinks :: "string \<Rightarrow> EventSink list mongo" where
  "mongo_ListEventSinks merchantID0 =
     (let merchantID = TrimSpace merchantID0 in
      mongo_query (\<lambda>t. map sql_sink (sql_limit 1000 (sort_key xr_sink_id
        (filter (\<lambda>r. merchantID = [] \<or> xr_merchant_id r = merchantID) (k_event_sinks t))))))"

end
