(* ===== verification/MongoEvents.thy ===== *)
theory MongoEvents
  imports MongoMerchants
begin

text \<open>
  \<open>internal/store/mongo/mongo.go\<close>, invoice events, the outbox and its deliveries.
\<close>

section \<open>Refunds\<close>

definition mongo_refund :: "RefundRow \<Rightarrow> Refund" where
  "mongo_refund r = \<lparr>rf_RefundID = fr_refund_id r, rf_MerchantID = fr_merchant_id r,
     rf_InvoiceID = fr_invoice_id r, rf_ExternalRefundID = fr_external_refund_id r,
     rf_ToAddress = fr_to_address r, rf_AmountZat = fr_amount_zat r, rf_Status = fr_status r,
     rf_SentTxID = fr_sent_txid r, rf_Notes = fr_notes r,
     rf_CreatedAt = unix_time (fr_created_at r), rf_UpdatedAt = unix_time (fr_updated_at r)\<rparr>"

definition mongo_getRefund :: "string \<Rightarrow> Refund option mongo" where
  "mongo_getRefund refundID =
     mongo_query (\<lambda>t. map_option mongo_refund (find (\<lambda>r. fr_refund_id r = refundID) (k_refunds t)))"

section \<open>Appending an event\<close>

text \<open>The key that tells a repeated event: its invoice, its type, and its deposit or refund.\<close>

definition invoiceEventDedupeKey :: "string \<Rightarrow> InvoiceEventType \<Rightarrow> DepositRef option \<Rightarrow> string option \<Rightarrow> string" where
  "invoiceEventDedupeKey invoiceID0 typ dep refundID =
     (let invoiceID = TrimSpace invoiceID0 in
      if invoiceID = [] then []
      else
        ''inv:'' @ invoiceID @ ''|type:'' @ InvoiceEventType_str typ @ ''|'' @
        (case dep of
           Some d \<Rightarrow> ''dep:'' @ TrimSpace (dref_WalletID d) @ '':'' @ TrimSpace (dref_TxID d) @ '':'' @
             FormatInt (dref_ActionIndex d)
         | None \<Rightarrow> (case nonblank refundID of
             Some r \<Rightarrow> ''refund:'' @ TrimSpace r
           | None \<Rightarrow> ''none'')))"

definition mongo_refund_data :: "Refund \<Rightarrow> json" where
  "mongo_refund_data r = JObj [
     (''amount_zat'', JNum (FormatInt (rf_AmountZat r))),
     (''notes'', JStr (rf_Notes r)),
     (''refund_id'', JStr (rf_RefundID r)),
     (''sent_txid'', opt_string (rf_SentTxID r)),
     (''status'', JStr (RefundStatus_str (rf_Status r))),
     (''to_address'', JStr (rf_ToAddress r))]"

text \<open>The refund of an event, if it has one that is found; an error of the query is returned.\<close>

definition event_refund :: "string option \<Rightarrow> Refund option mongo" where
  "event_refund refundID = (case nonblank refundID of
     None \<Rightarrow> db_return None | Some r \<Rightarrow> mongo_getRefund (TrimSpace r))"

text \<open>A delivery has no \<open>next_retry_at\<close>; one that exists is left alone.\<close>

definition mongo_insert_delivery :: "string \<Rightarrow> string \<Rightarrow> int64 \<Rightarrow> string \<Rightarrow> unit mongo" where
  "mongo_insert_delivery merchantID eventID nowUnix sinkID =
     db_bind (newID ''del'') (\<lambda>deliveryID s.
     case mongo_exec (db_insert k_event_deliveries k_event_deliveries_update delivery_clash
       \<lparr>lr_delivery_id = deliveryID, lr_merchant_id = merchantID, lr_sink_id = sinkID, lr_event_id = eventID,
        lr_status = EventDeliveryPending, lr_attempt = 0, lr_next_retry_at = None, lr_last_error = None,
        lr_created_at = nowUnix, lr_updated_at = nowUnix\<rparr>) s of
       (Inr _, s) \<Rightarrow> (Inr (), s)
     | (Inl e, s) \<Rightarrow> if isDuplicateKey e then (Inr (), s) else (Inl e, s))"

definition insert_outbox_event :: "OutboxRow \<Rightarrow> unit mongo" where
  "insert_outbox_event doc s =
     (case mongo_exec (db_insert k_outbox_events k_outbox_events_update outbox_clash doc) s of
        (Inr _, s) \<Rightarrow> (Inr (), s)
      | (Inl e, s) \<Rightarrow> if isDuplicateKey e then (Inr (), s) else (Inl e, s))"

definition enqueueOutbox :: "string \<Rightarrow> InvoiceEventType \<Rightarrow> time \<Rightarrow> DepositRef option \<Rightarrow> string option \<Rightarrow> unit mongo" where
  "enqueueOutbox invoiceID typ occurredAt dep refundID =
     db_bind (mongo_query (\<lambda>t. find (\<lambda>r. ir_invoice_id r = invoiceID) (k_invoices t))) (\<lambda>iv.
     case iv of
       None \<Rightarrow> db_return ()
     | Some iv \<Rightarrow>
         db_bind (event_refund refundID) (\<lambda>refund.
         db_bind (newID ''evt'') (\<lambda>eventID.
         (let ce = \<lparr>ce_SpecVersion = ''1.0'', ce_ID = eventID, ce_Source = ''juno-pay-server'',
                    ce_Type = InvoiceEventType_str typ, ce_Subject = ''invoice/'' @ invoiceID,
                    ce_Time = occurredAt, ce_DataContentType = ''application/json'',
                    ce_Data = sql_event_data (ir_merchant_id iv) (ir_external_order_id iv) invoiceID dep
                      (map_option mongo_refund_data refund)\<rparr>
          in if event_json ce = None then db_fail (OtherError ''json'')
          else
            db_bind (nextSeq ''outbox_seq'') (\<lambda>seq.
            db_bind db_now (\<lambda>createdAt.
            db_bind (insert_outbox_event \<lparr>or_id = seq, or_event_id = eventID, or_merchant_id = ir_merchant_id iv,
              or_envelope = ce, or_created_at = Unix createdAt\<rparr>) (\<lambda>_.
            db_bind (mongo_query (\<lambda>t. map xr_sink_id (filter (\<lambda>x. xr_merchant_id x = ir_merchant_id iv \<and>
              xr_status x = EventSinkActive) (k_event_sinks t)))) (\<lambda>sinks.
            db_bind db_now (\<lambda>now.
            db_for sinks (mongo_insert_delivery (ir_merchant_id iv) eventID (Unix now)))))))))))"

definition insertInvoiceEvent :: "string \<Rightarrow> InvoiceEventType \<Rightarrow> time \<Rightarrow> DepositRef option \<Rightarrow> string option \<Rightarrow> unit mongo" where
  "insertInvoiceEvent invoiceID0 typ occurredAt0 dep refundID =
     (let invoiceID = TrimSpace invoiceID0 in
      if invoiceID = [] then db_return ()
      else
        db_bind db_now (\<lambda>now.
        let occurredAt = (if IsZero occurredAt0 then now else occurredAt0);
            dedupeKey = invoiceEventDedupeKey invoiceID typ dep refundID in
        if dedupeKey = [] then db_return ()
        else
          db_bind (nextSeq ''invoice_event_seq'') (\<lambda>n.
          db_bind (mongo_exec (upsert_one k_invoice_events k_invoice_events_update mongo_event_clash
            (\<lambda>e. ed_dedupe_key e = dedupeKey) (\<lambda>e. e)
            \<lparr>ed_id = n, ed_dedupe_key = dedupeKey, ed_invoice_id = invoiceID, ed_type = typ,
             ed_occurred_at = Unix occurredAt, ed_deposit = dep, ed_refund_id = map_option TrimSpace (nonblank refundID),
             ed_created_at = Unix now\<rparr>)) (\<lambda>inserted.
          if \<not> inserted then db_return ()
          else enqueueOutbox invoiceID typ occurredAt dep refundID))))"

section \<open>Invoice events\<close>

text \<open>The documents of a cursor, each with the query for its refund.\<close>

fun mongo_events :: "string \<Rightarrow> EventDoc list \<Rightarrow> InvoiceEvent list mongo" where
  "mongo_events invoiceID [] = db_return []"
| "mongo_events invoiceID (e # es) =
     db_bind (event_refund (ed_refund_id e)) (\<lambda>refund.
     db_bind (mongo_events invoiceID es) (\<lambda>evs.
     db_return (\<lparr>ie_EventID = FormatInt (int (ed_id e)), ie_Type = ed_type e,
       ie_OccurredAt = unix_time (ed_occurred_at e), ie_InvoiceID = invoiceID,
       ie_Deposit = (case ed_deposit e of None \<Rightarrow> None
         | Some d \<Rightarrow> if TrimSpace (dref_TxID d) \<noteq> [] then Some d else None),
       ie_Refund = refund\<rparr> # evs)))"

definition mongo_ListInvoiceEvents :: "string \<Rightarrow> int64 \<Rightarrow> int \<Rightarrow> (InvoiceEvent list \<times> int64) mongo" where
  "mongo_ListInvoiceEvents invoiceID0 afterID limit0 =
     (let invoiceID = TrimSpace invoiceID0; limit = norm_limit limit0 in
      if invoiceID = [] then db_fail (invalid_argument ''invoice_id is required'')
      else
        db_bind (mongo_query (\<lambda>t. sql_limit limit (sort_key ed_id (filter (\<lambda>e. ed_invoice_id e = invoiceID \<and>
          int (ed_id e) > afterID) (k_invoice_events t))))) (\<lambda>docs.
        db_bind (mongo_events invoiceID docs) (\<lambda>evs.
        db_return (evs, last_num ed_id docs))))"

section \<open>The outbox and its deliveries\<close>

definition mongo_ListOutboundEvents :: "string \<Rightarrow> int64 \<Rightarrow> int \<Rightarrow> (CloudEvent list \<times> int64) mongo" where
  "mongo_ListOutboundEvents merchantID0 afterID limit0 =
     (let merchantID = TrimSpace merchantID0; limit = norm_limit limit0 in
      mongo_query (\<lambda>t.
        let docs = sql_limit limit (sort_key or_id (filter (\<lambda>r. (merchantID = [] \<or> or_merchant_id r = merchantID) \<and>
              int (or_id r) > afterID) (k_outbox_events t)))
        in (map or_envelope docs, last_num or_id docs)))"

definition mongo_ListEventDeliveries :: "EventDeliveryFilter \<Rightarrow> EventDelivery list mongo" where
  "mongo_ListEventDeliveries f =
     (let merchantID = TrimSpace (edf_MerchantID f); sinkID = TrimSpace (edf_SinkID f);
          limit = norm_limit (edf_Limit f) in
      mongo_query (\<lambda>t. map sql_delivery (sql_limit limit (sort_key lr_created_at
        (filter (\<lambda>r. (merchantID = [] \<or> lr_merchant_id r = merchantID) \<and> (sinkID = [] \<or> lr_sink_id r = sinkID) \<and>
           (case edf_Status f of None \<Rightarrow> True | Some st \<Rightarrow> lr_status r = st)) (k_event_deliveries t))))))"

text \<open>The deliveries of the cursor with their active sinks and their events; null sorts before any number.\<close>

fun mongo_due :: "nat \<Rightarrow> DeliveryRow list \<Rightarrow> DueDelivery list mongo" where
  "mongo_due limit [] = db_return []"
| "mongo_due limit (d # ds) =
     (if limit = 0 then db_return []
      else
        db_bind (mongo_GetEventSink (lr_sink_id d)) (\<lambda>sink.
        case sink of
          None \<Rightarrow> mongo_due limit ds
        | Some x \<Rightarrow>
            if sk_Status x \<noteq> EventSinkActive then mongo_due limit ds
            else
              db_bind (mongo_query (\<lambda>t. find (\<lambda>r. or_event_id r = lr_event_id d) (k_outbox_events t))) (\<lambda>oe.
              case oe of
                None \<Rightarrow> mongo_due limit ds
              | Some e \<Rightarrow>
                  db_bind (mongo_due (limit - 1) ds) (\<lambda>due.
                  db_return (\<lparr>dd_Delivery = sql_delivery d, dd_Sink = x, dd_Event = or_envelope e\<rparr> # due)))))"

definition retry_order :: "DeliveryRow \<Rightarrow> int \<times> int64" where
  "retry_order d = (case lr_next_retry_at d of None \<Rightarrow> (0, 0) | Some at \<Rightarrow> (1, at))"

definition mongo_ListDueDeliveries :: "time \<Rightarrow> int \<Rightarrow> DueDelivery list mongo" where
  "mongo_ListDueDeliveries now0 limit0 =
     (let limit = norm_limit limit0 in
      db_bind (if IsZero now0 then db_now else db_return now0) (\<lambda>now.
      db_bind (mongo_query (\<lambda>t. sql_limit limit
        (sort_key (\<lambda>d. fst (retry_order d)) (sort_key (\<lambda>d. snd (retry_order d)) (sort_key lr_created_at
          (filter (\<lambda>d. lr_status d = EventDeliveryPending \<and>
            (case lr_next_retry_at d of None \<Rightarrow> True | Some at \<Rightarrow> at \<le> Unix now)) (k_event_deliveries t)))))))
        (mongo_due (nat limit))))"

definition mongo_UpdateEventDelivery :: "string \<Rightarrow> EventDeliveryStatus \<Rightarrow> int32 \<Rightarrow> time option \<Rightarrow> string option \<Rightarrow> unit mongo" where
  "mongo_UpdateEventDelivery deliveryID0 status attempt nextRetryAt lastError =
     (let deliveryID = TrimSpace deliveryID0 in
      if deliveryID = [] then db_fail (invalid_argument ''delivery_id is required'')
      else
        db_bind db_now (\<lambda>now.
        db_bind (mongo_exec (update_one k_event_deliveries k_event_deliveries_update (\<lambda>r. lr_delivery_id r = deliveryID)
          (\<lambda>r. r\<lparr>lr_status := status, lr_attempt := attempt, lr_next_retry_at := map_option Unix nextRetryAt,
                 lr_last_error := lastError, lr_updated_at := Unix now\<rparr>))) (\<lambda>n.
        if n = 0 then db_fail ErrNotFound else db_return ())))"

definition mongo_PendingDeliveries :: "int64 mongo" where
  "mongo_PendingDeliveries =
     mongo_query (\<lambda>t. int (length (filter (\<lambda>r. lr_status r = EventDeliveryPending) (k_event_deliveries t))))"

end
