(* ===== verification/MongoInvoices.thy ===== *)
theory MongoInvoices
  imports MongoEvents SqlInvoices
begin

text \<open>
  \<open>internal/store/mongo/mongo.go\<close>, invoices and their sealed tokens, refunds, the review queue.
\<close>

section \<open>Invoices\<close>

definition toDomain :: "InvoiceRow \<Rightarrow> Invoice" where
  "toDomain d = \<lparr>inv_InvoiceID = ir_invoice_id d, inv_MerchantID = ir_merchant_id d,
     inv_ExternalOrderID = ir_external_order_id d, inv_WalletID = ir_wallet_id d,
     inv_AddressIndex = ir_address_index d, inv_Address = ir_address d,
     inv_CreatedAfterHeight = ir_created_after_height d, inv_CreatedAfterHash = ir_created_after_hash d,
     inv_AmountZat = ir_amount_zat d, inv_RequiredConfirmations = ir_required_confirmations d,
     inv_Policies = ir_policies d, inv_ReceivedPendingZat = ir_received_pending_zat d,
     inv_ReceivedConfirmedZat = ir_received_confirmed_zat d, inv_Status = ir_status d,
     inv_ExpiresAt = map_option unix_time (ir_expires_at d),
     inv_CreatedAt = unix_time (ir_created_at d), inv_UpdatedAt = unix_time (ir_updated_at d)\<rparr>"

definition mongo_GetInvoice :: "string \<Rightarrow> Invoice option mongo" where
  "mongo_GetInvoice invoiceID0 =
     (let invoiceID = TrimSpace invoiceID0 in
      if invoiceID = [] then db_return None
      else mongo_query (\<lambda>t. map_option toDomain (find (\<lambda>r. ir_invoice_id r = invoiceID) (k_invoices t))))"

definition findInvoiceByExternal :: "string \<Rightarrow> string \<Rightarrow> string \<Rightarrow> Invoice option mongo" where
  "findInvoiceByExternal merchantID externalOrderID externalOrderIDHash =
     mongo_query (\<lambda>t. map_option toDomain (find (\<lambda>r. ir_merchant_id r = merchantID \<and>
       ir_external_order_id_hash r = externalOrderIDHash \<and> ir_external_order_id r = externalOrderID) (k_invoices t)))"

definition mongo_FindInvoiceByExternalOrderID :: "string \<Rightarrow> string \<Rightarrow> Invoice option mongo" where
  "mongo_FindInvoiceByExternalOrderID merchantID0 externalOrderID0 =
     (let merchantID = TrimSpace merchantID0; externalOrderID = TrimSpace externalOrderID0 in
      if merchantID = [] \<or> externalOrderID = [] then db_return None
      else db_bind (hash32Bytes externalOrderID) (findInvoiceByExternal merchantID externalOrderID))"

text \<open>The callback of \<open>CreateInvoice\<close>.\<close>

definition create_invoice_callback :: "InvoiceCreate \<Rightarrow> string \<Rightarrow> time \<Rightarrow> string \<Rightarrow> string \<Rightarrow> Invoice mongo" where
  "create_invoice_callback req iid now extHash addrHash =
     db_bind (nextSeq ''invoice_seq'') (\<lambda>seq.
     db_bind (mongo_exec (db_insert k_invoices k_invoices_update invoice_clash
       (invoice_row req iid extHash addrHash (Unix now) seq))) (\<lambda>_.
     db_bind (insertInvoiceEvent iid InvoiceEventInvoiceCreated now None None) (\<lambda>_.
     db_return (created_invoice req iid now))))"

definition mongo_CreateInvoice :: "InvoiceCreate \<Rightarrow> (Invoice \<times> bool) mongo" where
  "mongo_CreateInvoice req0 =
     (let req = req0\<lparr>ic_MerchantID := TrimSpace (ic_MerchantID req0),
            ic_ExternalOrderID := TrimSpace (ic_ExternalOrderID req0), ic_WalletID := TrimSpace (ic_WalletID req0),
            ic_Address := ToLower (TrimSpace (ic_Address req0))\<rparr> in
      if ic_MerchantID req = [] then db_fail (invalid_argument ''merchant_id is required'')
      else if ic_ExternalOrderID req = [] then db_fail (invalid_argument ''external_order_id is required'')
      else if ic_AmountZat req \<le> 0 then db_fail (invalid_argument ''amount_zat must be > 0'')
      else if ic_Address req = [] then db_fail (invalid_argument ''address is required'')
      else if ic_WalletID req = [] then db_fail (invalid_argument ''wallet_id is required'')
      else
        db_bind (newID ''inv'') (\<lambda>iid.
        db_bind db_now (\<lambda>now.
        db_bind (hash32Bytes (ic_ExternalOrderID req)) (\<lambda>extHash.
        db_bind (hash32Bytes (ic_Address req)) (\<lambda>addrHash.
        db_bind StartSession (\<lambda>_ s.
        case WithTransaction (create_invoice_callback req iid now extHash addrHash) s of
          (Inr iv, s) \<Rightarrow> (Inr (iv, True), s)
        | (Inl e, s) \<Rightarrow>
            if \<not> isDuplicateKey e then (Inl e, s)
            else
              db_bind (findInvoiceByExternal (ic_MerchantID req) (ic_ExternalOrderID req) extHash) (\<lambda>existing.
              case existing of
                None \<Rightarrow> db_fail ErrConflict
              | Some iv \<Rightarrow>
                  if inv_AmountZat iv \<noteq> ic_AmountZat req \<or> inv_WalletID iv \<noteq> ic_WalletID req \<or>
                    inv_Address iv \<noteq> ic_Address req then db_fail ErrConflict
                  else db_return (iv, False)) s))))))"

definition mongo_ListInvoices :: "InvoiceFilter \<Rightarrow> (Invoice list \<times> int64) mongo" where
  "mongo_ListInvoices f =
     (let merchantID = TrimSpace (if_MerchantID f); externalOrderID = TrimSpace (if_ExternalOrderID f);
          afterID = (if if_AfterID f < 0 then 0 else if_AfterID f); limit = norm_limit (if_Limit f) in
      db_bind (hash32Bytes externalOrderID) (\<lambda>extHash.
      mongo_query (\<lambda>t.
        let docs = sql_limit limit (sort_key ir_seq (filter (\<lambda>r. int (ir_seq r) > afterID \<and>
              (merchantID = [] \<or> ir_merchant_id r = merchantID) \<and>
              (case if_Status f of None \<Rightarrow> True | Some st \<Rightarrow> ir_status r = st) \<and>
              (externalOrderID = [] \<or> (ir_external_order_id_hash r = extHash \<and> ir_external_order_id r = externalOrderID)))
              (k_invoices t)))
        in (map toDomain docs, last_num ir_seq docs))))"

section \<open>Invoice tokens\<close>

definition mongo_PutInvoiceToken :: "string \<Rightarrow> string \<Rightarrow> unit mongo" where
  "mongo_PutInvoiceToken invoiceID0 token0 =
     (let invoiceID = TrimSpace invoiceID0; token = TrimSpace token0 in
      if invoiceID = [] then db_fail (invalid_argument ''invoice_id is required'')
      else if token = [] then db_fail (invalid_argument ''token is required'')
      else
        db_bind (mongo_GetInvoice invoiceID) (\<lambda>iv.
        if iv = None then db_fail ErrNotFound
        else
          db_bind (encryptToken invoiceID token) (\<lambda>enc.
          db_bind (mongo_exec (upsert_one k_invoice_tokens k_invoice_tokens_update token_clash
            (\<lambda>r. fst r = invoiceID) (\<lambda>r. (fst r, enc)) (invoiceID, enc))) (\<lambda>_. db_return ()))))"

definition mongo_GetInvoiceToken :: "string \<Rightarrow> string option mongo" where
  "mongo_GetInvoiceToken invoiceID0 =
     (let invoiceID = TrimSpace invoiceID0 in
      if invoiceID = [] then db_return None
      else
        db_bind (mongo_query (\<lambda>t. map_of (k_invoice_tokens t) invoiceID)) (\<lambda>enc.
        case enc of
          None \<Rightarrow> db_return None
        | Some enc \<Rightarrow> db_bind (decryptToken ''mongostore: token ciphertext too short'' invoiceID enc)
            (\<lambda>tok. db_return (Some tok))))"

section \<open>Refunds\<close>

definition mongo_refund_invoice_ok :: "string \<Rightarrow> string \<Rightarrow> unit mongo" where
  "mongo_refund_invoice_ok merchantID invoiceID =
     (if invoiceID = [] then db_return ()
      else
        db_bind (mongo_GetInvoice invoiceID) (\<lambda>iv.
        case iv of
          None \<Rightarrow> db_fail ErrNotFound
        | Some iv \<Rightarrow> if inv_MerchantID iv \<noteq> merchantID then db_fail ErrForbidden else db_return ()))"

definition mongo_CreateRefund :: "RefundCreate \<Rightarrow> Refund mongo" where
  "mongo_CreateRefund req0 =
     (let merchantID = TrimSpace (rfc_MerchantID req0); invoiceID = TrimSpace (rfc_InvoiceID req0);
          externalRefundID = TrimSpace (rfc_ExternalRefundID req0); toAddress = TrimSpace (rfc_ToAddress req0);
          sentTxID = TrimSpace (rfc_SentTxID req0); notes = TrimSpace (rfc_Notes req0) in
      if merchantID = [] then db_fail (invalid_argument ''merchant_id is required'')
      else if toAddress = [] then db_fail (invalid_argument ''to_address is required'')
      else if rfc_AmountZat req0 \<le> 0 then db_fail (invalid_argument ''amount_zat must be > 0'')
      else
        db_bind (newID ''refund'') (\<lambda>refundID.
        let status = (if sentTxID \<noteq> [] then RefundSent else RefundRequested) in
        db_bind db_now (\<lambda>now.
        db_bind StartSession (\<lambda>_.
        db_bind (WithTransaction (
          db_bind (mongo_merchant_exists merchantID) (\<lambda>_.
          db_bind (mongo_refund_invoice_ok merchantID invoiceID) (\<lambda>_.
          db_bind (nextSeq ''refund_seq'') (\<lambda>seq.
          db_bind (mongo_exec (db_insert k_refunds k_refunds_update refund_clash
            \<lparr>fr_id = seq, fr_refund_id = refundID, fr_merchant_id = merchantID, fr_invoice_id = given invoiceID,
             fr_external_refund_id = given externalRefundID, fr_to_address = toAddress,
             fr_amount_zat = rfc_AmountZat req0, fr_status = status, fr_sent_txid = given sentTxID, fr_notes = notes,
             fr_created_at = Unix now, fr_updated_at = Unix now\<rparr>)) (\<lambda>_.
          if invoiceID \<noteq> [] then
            insertInvoiceEvent invoiceID (if status = RefundSent then InvoiceEventRefundSent
              else InvoiceEventRefundRequested) now None (Some refundID)
          else db_return ())))))) (\<lambda>_.
        db_return \<lparr>rf_RefundID = refundID, rf_MerchantID = merchantID, rf_InvoiceID = given invoiceID,
          rf_ExternalRefundID = given externalRefundID, rf_ToAddress = toAddress, rf_AmountZat = rfc_AmountZat req0,
          rf_Status = status, rf_SentTxID = given sentTxID, rf_Notes = notes,
          rf_CreatedAt = now, rf_UpdatedAt = now\<rparr>)))))"

definition mongo_ListRefunds :: "RefundFilter \<Rightarrow> (Refund list \<times> int64) mongo" where
  "mongo_ListRefunds f =
     (let merchantID = TrimSpace (rff_MerchantID f); invoiceID = TrimSpace (rff_InvoiceID f);
          afterID = (if rff_AfterID f < 0 then 0 else rff_AfterID f); limit = norm_limit (rff_Limit f) in
      mongo_query (\<lambda>t.
        let docs = sql_limit limit (sort_key fr_id (filter (\<lambda>r. int (fr_id r) > afterID \<and>
              (merchantID = [] \<or> fr_merchant_id r = merchantID) \<and>
              (invoiceID = [] \<or> fr_invoice_id r = Some invoiceID) \<and>
              (case rff_Status f of None \<Rightarrow> True | Some st \<Rightarrow> fr_status r = st)) (k_refunds t)))
        in (map mongo_refund docs, last_num fr_id docs)))"

section \<open>The review queue\<close>

text \<open>The filter of the document there may be, for a case of an invoice or of a deposit, or \<open>None\<close> when the case is of neither.\<close>

definition existing_case :: "string \<Rightarrow> string option \<Rightarrow> ReviewReason \<Rightarrow> string \<Rightarrow> string \<Rightarrow> int32
    \<Rightarrow> (ReviewDoc \<Rightarrow> bool) option" where
  "existing_case merchantID invoiceID reason depWalletID depTxID depActionIndex =
     (case nonblank invoiceID of
        Some i \<Rightarrow> Some (\<lambda>d. vd_merchant_id d = merchantID \<and> vd_invoice_id d = Some (TrimSpace i) \<and> vd_reason d = reason \<and>
          vd_status d = ReviewOpen)
      | None \<Rightarrow>
          if depWalletID \<noteq> [] \<and> depTxID \<noteq> [] then
            Some (\<lambda>d. vd_deposit d = Some (depWalletID, depTxID, depActionIndex) \<and> vd_reason d = reason)
          else None)"

definition createReviewCase :: "string \<Rightarrow> string option \<Rightarrow> ReviewReason \<Rightarrow> string \<Rightarrow> string \<Rightarrow> string \<Rightarrow> int32 \<Rightarrow> unit mongo" where
  "createReviewCase merchantID0 invoiceID reason notes depWalletID depTxID depActionIndex =
     (let merchantID = TrimSpace merchantID0 in
      if merchantID = [] then db_return ()
      else
        db_bind db_now (\<lambda>now.
        case existing_case merchantID invoiceID reason depWalletID depTxID depActionIndex of
          None \<Rightarrow> db_return ()
        | Some cond \<Rightarrow>
            db_bind (newID ''rev'') (\<lambda>reviewID.
            db_bind (mongo_exec (upsert_one k_review_cases k_review_cases_update mongo_review_clash cond (\<lambda>d. d)
              \<lparr>vd_review_id = reviewID, vd_merchant_id = merchantID, vd_invoice_id = invoiceID, vd_reason = reason,
               vd_status = ReviewOpen, vd_notes = TrimSpace notes,
               vd_deposit = (if depWalletID \<noteq> [] \<and> depTxID \<noteq> [] then Some (depWalletID, depTxID, depActionIndex) else None),
               vd_created_at = Unix now, vd_updated_at = Unix now\<rparr>)) (\<lambda>_. db_return ()))))"

definition mongo_review :: "ReviewDoc \<Rightarrow> ReviewCase" where
  "mongo_review d = \<lparr>rc_ReviewID = vd_review_id d, rc_MerchantID = vd_merchant_id d,
     rc_InvoiceID = map_option TrimSpace (nonblank (vd_invoice_id d)), rc_Reason = vd_reason d, rc_Status = vd_status d,
     rc_Notes = vd_notes d, rc_CreatedAt = unix_time (vd_created_at d), rc_UpdatedAt = unix_time (vd_updated_at d)\<rparr>"

definition mongo_ListReviewCases :: "ReviewCaseFilter \<Rightarrow> ReviewCase list mongo" where
  "mongo_ListReviewCases f =
     (let merchantID = TrimSpace (rvf_MerchantID f) in
      mongo_query (\<lambda>t. map mongo_review (sql_limit 1000 (sort_key vd_created_at (filter (\<lambda>d.
        (merchantID = [] \<or> vd_merchant_id d = merchantID) \<and>
        (case rvf_Status f of None \<Rightarrow> True | Some st \<Rightarrow> vd_status d = st)) (k_review_cases t))))))"

text \<open>The notes may be blank.\<close>

definition updateReviewCaseStatus :: "string \<Rightarrow> ReviewStatus \<Rightarrow> string \<Rightarrow> unit mongo" where
  "updateReviewCaseStatus reviewID0 status notes0 =
     (let reviewID = TrimSpace reviewID0; notes = TrimSpace notes0 in
      if reviewID = [] then db_fail (invalid_argument ''review_id is required'')
      else
        db_bind db_now (\<lambda>now.
        db_bind (mongo_exec (update_one_unique k_review_cases k_review_cases_update mongo_review_clash
          (\<lambda>d. vd_review_id d = reviewID)
          (\<lambda>d. d\<lparr>vd_status := status, vd_notes := notes, vd_updated_at := Unix now\<rparr>))) (\<lambda>n.
        if n = 0 then db_fail ErrNotFound else db_return ())))"

definition mongo_ResolveReviewCase :: "string \<Rightarrow> string \<Rightarrow> unit mongo" where
  "mongo_ResolveReviewCase reviewID notes = updateReviewCaseStatus reviewID ReviewResolved notes"

definition mongo_RejectReviewCase :: "string \<Rightarrow> string \<Rightarrow> unit mongo" where
  "mongo_RejectReviewCase reviewID notes = updateReviewCaseStatus reviewID ReviewRejected notes"

end
