(* ===== verification/MongoDeposits.thy ===== *)
theory MongoDeposits
  imports MongoInvoices SqlDeposits
begin

text \<open>
  \<open>internal/store/mongo/mongo.go\<close>, deposits: the scan events, the confirmations, the amounts and the
  status of an invoice.
\<close>

section \<open>The amounts of an invoice\<close>

definition mongo_computeInvoiceStatusSQL :: "int64 \<Rightarrow> int64 \<Rightarrow> int64 \<Rightarrow> bool \<Rightarrow> LatePaymentPolicy \<Rightarrow> InvoiceStatus" where
  "mongo_computeInvoiceStatusSQL amountZat pendingZat confirmedZat expired latePolicy =
     (let total = wrap64 (pendingZat + confirmedZat) in
      if total = 0 \<and> expired then InvoiceExpired
      else if total = 0 then InvoiceOpen
      else if confirmedZat > amountZat then InvoiceOverpaid
      else if confirmedZat = amountZat then
        (if expired \<and> latePolicy = LatePaymentMarkPaidLate then InvoicePaidLate else InvoiceConfirmed)
      else if total \<ge> amountZat then InvoicePending
      else if confirmedZat > 0 then InvoicePartialConfirmed
      else InvoicePartialPending)"

text \<open>\<open>$sum\<close> is the sum where it has 64 bits, and a floating-point number that the driver decodes where it has not.\<close>

definition sumDeposits :: "string \<Rightarrow> DepositStatus set \<Rightarrow> int64 mongo" where
  "sumDeposits invoiceID statuses =
     (if invoiceID = [] then db_return 0
      else
        db_bind (mongo_query (\<lambda>t. map dr_amount_zat (filter (\<lambda>d. dr_invoice_id d = Some invoiceID \<and>
          dr_status d \<in> statuses) (k_deposits t)))) (\<lambda>amounts s.
        if in_int64 (sum_list amounts) then (Inr (sum_list amounts), s)
        else (case mg_overflow s amounts of
            None \<Rightarrow> (Inl (OtherError ''overflow''), s) | Some v \<Rightarrow> (Inr v, s))))"

definition mongo_status_event :: "string \<Rightarrow> InvoiceStatus \<Rightarrow> time \<Rightarrow> unit mongo" where
  "mongo_status_event invoiceID newStatus now =
     (if newStatus = InvoiceExpired then insertInvoiceEvent invoiceID InvoiceEventInvoiceExpired now None None
      else if newStatus = InvoiceConfirmed \<or> newStatus = InvoicePaidLate then
        insertInvoiceEvent invoiceID InvoiceEventInvoicePaid now None None
      else if newStatus = InvoiceOverpaid then insertInvoiceEvent invoiceID InvoiceEventInvoiceOverpaid now None None
      else db_return ())"

definition mongo_status_review :: "InvoiceRow \<Rightarrow> InvoiceStatus \<Rightarrow> bool \<Rightarrow> int64 \<Rightarrow> unit mongo" where
  "mongo_status_review iv newStatus expired confirmedSum =
     (let review = (\<lambda>reason notes. createReviewCase (ir_merchant_id iv) (Some (ir_invoice_id iv)) reason notes [] [] 0) in
      if newStatus = InvoicePartialConfirmed \<and> pol_PartialPayment (ir_policies iv) = PartialPaymentReject then
        review ReviewPartialPayment ''partial payment requires review''
      else if newStatus = InvoiceOverpaid \<and> pol_Overpayment (ir_policies iv) = OverpaymentManualReview then
        review ReviewOverpayment ''overpayment requires review''
      else if (newStatus = InvoiceConfirmed \<or> newStatus = InvoicePaidLate) \<and> expired \<and>
          confirmedSum = ir_amount_zat iv \<and> pol_LatePayment (ir_policies iv) = LatePaymentManualReview then
        review ReviewLatePayment ''late payment requires review''
      else db_return ())"

definition recomputeInvoiceAggregates :: "string \<Rightarrow> time \<Rightarrow> unit mongo" where
  "recomputeInvoiceAggregates invoiceID0 now0 =
     (let invoiceID = TrimSpace invoiceID0 in
      if invoiceID = [] then db_return ()
      else
        db_bind (if IsZero now0 then db_now else db_return now0) (\<lambda>now.
        db_bind (sumDeposits invoiceID {DepositDetected, DepositUnconfirmed}) (\<lambda>pendingSum.
        db_bind (sumDeposits invoiceID {DepositConfirmed}) (\<lambda>confirmedSum.
        db_bind (mongo_query (\<lambda>t. find (\<lambda>r. ir_invoice_id r = invoiceID) (k_invoices t))) (\<lambda>iv.
        case iv of
          None \<Rightarrow> db_fail (OtherError ''mongo: no documents in result'')
        | Some iv \<Rightarrow>
            (let expired = (case ir_expires_at iv of None \<Rightarrow> False | Some at \<Rightarrow> Unix now > at);
                 newStatus = mongo_computeInvoiceStatusSQL (ir_amount_zat iv) pendingSum confirmedSum expired
                   (pol_LatePayment (ir_policies iv)) in
             db_bind (mongo_exec (update_one k_invoices k_invoices_update (\<lambda>r. ir_invoice_id r = invoiceID)
               (set_amounts pendingSum confirmedSum newStatus (Unix now)))) (\<lambda>_.
             if newStatus = ir_status iv then db_return ()
             else
               db_bind (mongo_status_event invoiceID newStatus now) (\<lambda>_.
               mongo_status_review iv newStatus expired confirmedSum))))))))"

section \<open>A deposit of the scanner\<close>

text \<open>The status and the height of confirmation of a deposit that is there or not.\<close>

definition final_deposit :: "DepositRow option \<Rightarrow> DepositStatus \<Rightarrow> DepositStatus \<times> int64 option" where
  "final_deposit existing incoming = (case existing of
       Some d \<Rightarrow> if dr_status d = DepositConfirmed \<and> incoming = DepositDetected
         then (dr_status d, dr_confirmed_height d) else (incoming, None)
     | None \<Rightarrow> (incoming, None))"

definition set_deposit :: "string \<Rightarrow> string \<Rightarrow> int64 \<Rightarrow> int64 \<Rightarrow> DepositStatus \<times> int64 option \<Rightarrow> int64 \<Rightarrow> DepositRow
    \<Rightarrow> DepositRow" where
  "set_deposit addr addrHash amountZat height final updatedAtUnix r =
     r\<lparr>dr_recipient_address := addr, dr_recipient_address_hash := addrHash, dr_amount_zat := amountZat,
       dr_height := height, dr_status := fst final, dr_confirmed_height := snd final, dr_updated_at := updatedAtUnix\<rparr>"

definition new_deposit :: "nat \<Rightarrow> string \<Rightarrow> string \<Rightarrow> int32 \<Rightarrow> string \<Rightarrow> int64 \<Rightarrow> DepositRow" where
  "new_deposit seq walletID txid actionIndex invoiceID detectedAtUnix =
     \<lparr>dr_seq = seq, dr_wallet_id = walletID, dr_txid = txid, dr_action_index = actionIndex,
      dr_recipient_address = [], dr_recipient_address_hash = [], dr_amount_zat = 0, dr_height = 0,
      dr_status = DepositDetected, dr_confirmed_height = None, dr_invoice_id = given invoiceID,
      dr_detected_at = detectedAtUnix, dr_updated_at = 0\<rparr>"

definition same_deposit_row :: "string \<Rightarrow> string \<Rightarrow> int32 \<Rightarrow> DepositRow \<Rightarrow> bool" where
  "same_deposit_row walletID txid actionIndex r \<longleftrightarrow>
     dr_wallet_id r = walletID \<and> dr_txid r = txid \<and> dr_action_index r = actionIndex"

definition mongo_unknown_deposit :: "string \<Rightarrow> string \<Rightarrow> int32 \<Rightarrow> string \<Rightarrow> int64 \<Rightarrow> int64 \<Rightarrow> unit mongo" where
  "mongo_unknown_deposit walletID txid actionIndex addr amountZat height =
     db_bind (mongo_query (\<lambda>t. find (\<lambda>w. wr_wallet_id w = walletID) (k_merchant_wallets t))) (\<lambda>mw.
     case mw of
       None \<Rightarrow> db_return ()
     | Some w \<Rightarrow> createReviewCase (wr_merchant_id w) None ReviewUnknownAddress
         (unknown_notes walletID txid actionIndex addr amountZat height) walletID txid actionIndex)"

text \<open>The body of \<open>applyDepositEvent\<close> after the payload is decoded.\<close>

definition apply_deposit :: "ScanEvent \<Rightarrow> time \<Rightarrow> DepositStatus \<Rightarrow> 'z DepositEventPayload_scheme \<Rightarrow> unit mongo" where
  "apply_deposit ev now status p =
     (let walletID = de_WalletID p; txid = de_TxID p; actionIndex = wrap32 (int (de_ActionIndex p));
          amountZat = wrap64 (int (de_AmountZatoshis p)); height = de_Height p;
          addr = ToLower (TrimSpace (de_RecipientAddress p)) in
      if addr = [] then db_return ()
      else
        db_bind (hash32Bytes addr) (\<lambda>addrHash.
        db_bind (mongo_query (\<lambda>t. find (\<lambda>r. ir_wallet_id r = walletID \<and> ir_address_hash r = addrHash) (k_invoices t))) (\<lambda>iv.
        let applied = (case iv of None \<Rightarrow> []
              | Some r \<Rightarrow> if height > ir_created_after_height r then ir_invoice_id r else []);
            detectedAtUnix = (if IsZero (se_OccurredAt ev) then Unix now else Unix (se_OccurredAt ev));
            this = same_deposit_row walletID txid actionIndex in
        db_bind (mongo_query (\<lambda>t. find this (k_deposits t))) (\<lambda>existing.
        let upd = set_deposit addr addrHash amountZat height (final_deposit existing status) (Unix now) in
        db_bind (nextSeq ''deposit_seq'') (\<lambda>seq.
        db_bind (mongo_exec (upsert_one k_deposits k_deposits_update deposit_clash this upd
          (upd (new_deposit seq walletID txid actionIndex applied detectedAtUnix)))) (\<lambda>_.
        db_bind (if applied = [] then db_return ()
          else db_bind (mongo_exec (update_one k_deposits k_deposits_update
              (\<lambda>r. this r \<and> (dr_invoice_id r = None \<or> dr_invoice_id r = Some []))
              (\<lambda>r. r\<lparr>dr_invoice_id := Some applied\<rparr>))) (\<lambda>_. db_return ())) (\<lambda>_.
        if applied = [] then mongo_unknown_deposit walletID txid actionIndex addr amountZat height
        else
          (let depRef = \<lparr>dref_WalletID = walletID, dref_TxID = txid, dref_ActionIndex = actionIndex,
                         dref_AmountZat = amountZat, dref_Height = height\<rparr> in
           db_bind (if status = DepositDetected then
               insertInvoiceEvent applied InvoiceEventDepositDetected (se_OccurredAt ev) (Some depRef) None
             else if status = DepositConfirmed then
               insertInvoiceEvent applied InvoiceEventDepositConfirmed (se_OccurredAt ev) (Some depRef) None
             else db_return ()) (\<lambda>_.
           recomputeInvoiceAggregates applied now)))))))))"

definition applyDepositEvent :: "ScanEvent \<Rightarrow> unit mongo" where
  "applyDepositEvent ev =
     db_bind db_now (\<lambda>now.
     if se_Kind ev = ''DepositEvent'' then
       (case unmarshal DepositEventPayload_fields zero_DepositEventPayload (se_Payload ev) of
          None \<Rightarrow> db_fail json_error | Some p \<Rightarrow> apply_deposit ev now DepositDetected p)
     else if se_Kind ev = ''DepositConfirmed'' then
       (case unmarshal DepositConfirmedPayload_fields zero_DepositConfirmedPayload (se_Payload ev) of
          None \<Rightarrow> db_fail json_error | Some p \<Rightarrow> apply_deposit ev now DepositDetected p)
     else if se_Kind ev = ''DepositUnconfirmed'' then
       (case unmarshal DepositUnconfirmedPayload_fields zero_DepositUnconfirmedPayload (se_Payload ev) of
          None \<Rightarrow> db_fail json_error | Some p \<Rightarrow> apply_deposit ev now DepositUnconfirmed p)
     else if se_Kind ev = ''DepositOrphaned'' then
       (case unmarshal DepositOrphanedPayload_fields zero_DepositOrphanedPayload (se_Payload ev) of
          None \<Rightarrow> db_fail json_error | Some p \<Rightarrow> apply_deposit ev now DepositOrphaned p)
     else db_return ())"

section \<open>The scanner operations\<close>

definition doc_cursor :: "string \<Rightarrow> Collections \<Rightarrow> int64" where
  "doc_cursor walletID t = (case find (\<lambda>r. cr_wallet_id r = walletID) (k_scan_cursors t) of
     None \<Rightarrow> 0 | Some r \<Rightarrow> cr_cursor_id r)"

definition mongo_ScanCursor :: "string \<Rightarrow> int64 mongo" where
  "mongo_ScanCursor walletID0 =
     (let walletID = TrimSpace walletID0 in
      if walletID = [] then db_fail (invalid_argument ''wallet_id is required'')
      else mongo_query (doc_cursor walletID))"

definition mongo_ScannerStatus :: "(int64 \<times> time option) mongo" where
  "mongo_ScannerStatus = mongo_query (\<lambda>t.
     (case sql_max (map cr_cursor_id (k_scan_cursors t)) of None \<Rightarrow> 0 | Some n \<Rightarrow> if n < 0 then 0 else n,
      map_option unix_time (sql_max (List.map_filter cr_last_event_at (k_scan_cursors t)))))"

definition scan_event_callback :: "ScanEvent \<Rightarrow> unit mongo" where
  "scan_event_callback ev =
     db_bind (mongo_query (doc_cursor (se_WalletID ev))) (\<lambda>cur.
     if se_Cursor ev \<le> cur then db_return ()
     else
       db_bind (if se_Kind ev \<in> {''DepositEvent'', ''DepositConfirmed'', ''DepositUnconfirmed'', ''DepositOrphaned''}
         then applyDepositEvent ev else db_return ()) (\<lambda>_.
       db_bind (if IsZero (se_OccurredAt ev) then db_now else db_return (se_OccurredAt ev)) (\<lambda>lastEventAt.
       db_bind (mongo_exec (upsert_one k_scan_cursors k_scan_cursors_update cursor_clash
         (\<lambda>r. cr_wallet_id r = se_WalletID ev)
         (\<lambda>r. r\<lparr>cr_cursor_id := se_Cursor ev, cr_last_event_at := Some (Unix lastEventAt)\<rparr>)
         \<lparr>cr_wallet_id = se_WalletID ev, cr_cursor_id = se_Cursor ev,
          cr_last_event_at = Some (Unix lastEventAt)\<rparr>)) (\<lambda>_. db_return ()))))"

definition mongo_ApplyScanEvent :: "ScanEvent \<Rightarrow> unit mongo" where
  "mongo_ApplyScanEvent ev0 =
     (let ev = ev0\<lparr>se_WalletID := TrimSpace (se_WalletID ev0), se_Kind := TrimSpace (se_Kind ev0)\<rparr> in
      if se_WalletID ev = [] then db_fail (invalid_argument ''wallet_id is required'')
      else if se_Cursor ev \<le> 0 then db_fail (invalid_argument ''cursor must be > 0'')
      else db_bind StartSession (\<lambda>_. WithTransaction (scan_event_callback ev)))"

section \<open>Confirmations\<close>

text \<open>The deposits of the cursor, one after the other, with the invoices affected so far.\<close>

fun mongo_confirm :: "int64 \<Rightarrow> time \<Rightarrow> DepositRow list \<Rightarrow> unit gomap \<Rightarrow> unit gomap mongo" where
  "mongo_confirm bestHeight now [] affected = db_return affected"
| "mongo_confirm bestHeight now (d # ds) affected =
     (case nonblank (dr_invoice_id d) of
        None \<Rightarrow> mongo_confirm bestHeight now ds affected
      | Some invoiceID \<Rightarrow>
          db_bind (mongo_query (\<lambda>t. find (\<lambda>r. ir_invoice_id r = invoiceID) (k_invoices t))) (\<lambda>iv.
          case iv of
            None \<Rightarrow> mongo_confirm bestHeight now ds affected
          | Some iv \<Rightarrow>
              let required = (if ir_required_confirmations iv \<le> 0 then 1 else ir_required_confirmations iv) in
              if wrap64 (wrap64 (bestHeight - dr_height d) + 1) < required then mongo_confirm bestHeight now ds affected
              else
                db_bind (mongo_exec (update_one k_deposits k_deposits_update
                  (\<lambda>r. same_deposit_row (dr_wallet_id d) (dr_txid d) (dr_action_index d) r \<and> dr_status r = DepositDetected)
                  (confirm_row (wrap64 (wrap64 (dr_height d + required) - 1)) (Unix now)))) (\<lambda>n.
                if n = 0 then mongo_confirm bestHeight now ds affected
                else
                  db_bind (insertInvoiceEvent invoiceID InvoiceEventDepositConfirmed now
                    (Some \<lparr>dref_WalletID = dr_wallet_id d, dref_TxID = dr_txid d, dref_ActionIndex = dr_action_index d,
                           dref_AmountZat = dr_amount_zat d, dref_Height = dr_height d\<rparr>) None) (\<lambda>_.
                  mongo_confirm bestHeight now ds (mput invoiceID () affected)))))"

definition mongo_UpdateInvoiceConfirmations :: "int64 \<Rightarrow> unit mongo" where
  "mongo_UpdateInvoiceConfirmations bestHeight =
     db_bind StartSession (\<lambda>_.
     WithTransaction (
       db_bind db_now (\<lambda>now.
       db_bind (mongo_query (\<lambda>t. filter (\<lambda>d. dr_status d = DepositDetected \<and> dr_invoice_id d \<noteq> None \<and>
         dr_invoice_id d \<noteq> Some [] \<and> dr_height d \<le> bestHeight) (k_deposits t))) (\<lambda>docs.
       db_bind (mongo_confirm bestHeight now docs []) (\<lambda>affected.
       db_bind (db_ranged affected) (\<lambda>affected.
       db_for (map fst affected) (\<lambda>invoiceID. recomputeInvoiceAggregates invoiceID now)))))))"

section \<open>Listing deposits\<close>

definition mongo_deposit :: "DepositRow \<Rightarrow> Deposit" where
  "mongo_deposit r = (sql_deposit r)\<lparr>dp_InvoiceID := map_option TrimSpace (nonblank (dr_invoice_id r))\<rparr>"

definition mongo_ListDeposits :: "DepositFilter \<Rightarrow> (Deposit list \<times> int64) mongo" where
  "mongo_ListDeposits f =
     (let merchantID = TrimSpace (df_MerchantID f); invoiceID = TrimSpace (df_InvoiceID f); txid = TrimSpace (df_TxID f);
          afterID = (if df_AfterID f < 0 then 0 else df_AfterID f); limit = norm_limit (df_Limit f);
          list = (\<lambda>wallet. mongo_query (\<lambda>t.
            let docs = sql_limit limit (sort_key dr_seq (filter (\<lambda>d. int (dr_seq d) > afterID \<and>
                  (txid = [] \<or> dr_txid d = txid) \<and> (invoiceID = [] \<or> dr_invoice_id d = Some invoiceID) \<and>
                  (case wallet of None \<Rightarrow> True | Some w \<Rightarrow> dr_wallet_id d = w)) (k_deposits t)))
            in (map mongo_deposit docs, last_num dr_seq docs))) in
      if merchantID = [] then list None
      else
        db_bind (mongo_query (\<lambda>t. find (\<lambda>w. wr_merchant_id w = merchantID) (k_merchant_wallets t))) (\<lambda>mw.
        case mw of
          None \<Rightarrow> db_return ([], 0)
        | Some w \<Rightarrow> list (Some (wr_wallet_id w))))"

end
