(* ===== verification/MongoLogic.thy ===== *)
theory MongoLogic
  imports MongoDeposits DbLogic
begin

text \<open>
  The rules of \<open>DbLogic\<close> for the statements and the transactions of the MongoDB store. A transaction that succeeds is
  one successful run of its callback, after runs that left nothing; one that fails has left nothing.
\<close>

section \<open>Statements\<close>

lemma same_env_session [simp]: "same_env s (t\<lparr>mg_session := x\<rparr>) = same_env s t"
  "same_env (s\<lparr>mg_session := x\<rparr>) t = same_env s t"
  by (simp_all add: same_env_fields)

lemma db_tick_session [simp]: "mg_session (db_tick s) = mg_session s"
  by (simp add: db_tick_def)

lemma wp_mongo_query [wp_rules]:
  "Q (f (db_data s)) (db_tick s) \<Longrightarrow> wp (mongo_query f) Q s"
  by (auto simp: wp_def mongo_query_def mongo_stmt_def db_stmt_def db_tick_def split: option.split)

lemma wp_mongo_exec [wp_rules]:
  "(\<And>x t. mg_session s \<noteq> Aborted \<Longrightarrow> f (db_data s) = Some (x, t) \<Longrightarrow> Q x (db_tick (s\<lparr>db_data := t\<rparr>))) \<Longrightarrow>
     wp (mongo_exec f) Q s"
  by (simp add: wp_def mongo_exec_def mongo_stmt_def db_stmt_def split: option.split prod.split sum.split)

text \<open>A write whose outcome is inspected at once: when it failed inside a transaction, the transaction is aborted.\<close>

lemma wp_catch_mongo [wp_rules]:
  assumes "\<And>x t. g (db_data s) = Some (x, t) \<Longrightarrow> wp (f x) Q (db_tick (s\<lparr>db_data := t\<rparr>))"
    and "\<And>e t. db_data t = db_data s \<Longrightarrow> same_env s t \<Longrightarrow> mg_session s \<noteq> NoTransaction \<Longrightarrow> mg_session t = Aborted \<Longrightarrow>
      wp (h e) Q t"
    and "\<And>e t. db_data t = db_data s \<Longrightarrow> same_env s t \<Longrightarrow> mg_session s = NoTransaction \<Longrightarrow> mg_session t = NoTransaction \<Longrightarrow>
      wp (h e) Q t"
  shows "wp (\<lambda>s. case mongo_exec g s of (Inr x, t) \<Rightarrow> f x t | (Inl e, t) \<Rightarrow> h e t) Q s"
proof -
  consider "mg_session s = Aborted" | "mg_session s = InTransaction" | "mg_session s = NoTransaction"
    by (cases "mg_session s") auto
  then show ?thesis
  proof cases
    case 1
    then show ?thesis using assms(2) [of s] by (simp add: wp_def mongo_exec_def mongo_stmt_def)
  next
    case 2
    then show ?thesis
      using assms(1,2) by (auto simp: wp_def mongo_exec_def mongo_stmt_def db_stmt_def split: option.split prod.split)
  next
    case 3
    then show ?thesis
      using assms(1,3) by (auto simp: wp_def mongo_exec_def mongo_stmt_def db_stmt_def split: option.split prod.split)
  qed
qed

lemma reads_mongo [reads_rules]: "reads (mongo_query f)" "reads StartSession" "reads (mongo_getRefund r)"
  by (auto simp: reads_def mongo_query_def mongo_stmt_def db_stmt_def StartSession_def mongo_getRefund_def
      split: option.split)

lemma reads_event_refund [reads_rules]: "reads (event_refund r)"
  unfolding event_refund_def by (intro reads_rules)

lemma atomic_mongo_exec [atomic_rules]: "atomic (mongo_exec f)"
  by (auto simp: atomic_def mongo_exec_def mongo_stmt_def db_stmt_def split: option.splits prod.splits if_splits)

section \<open>Transactions\<close>

lemma run_callback_result:
  assumes "run_callback body s = (r, t)"
  obtains (failed) e where "r = Inl e" "db_data t = db_data s" "mg_session t = NoTransaction"
  | (ran) x u where "r = Inr x" "mg_session t = NoTransaction"
      "body (s\<lparr>mg_session := InTransaction\<rparr>) = (Inr x, u)" "db_data t = db_data u"
proof (cases r)
  case (Inl e)
  with assms failed show ?thesis
    by (auto simp: run_callback_def split: prod.splits sum.splits)
next
  case (Inr x)
  obtain b u where b: "body (s\<lparr>mg_session := InTransaction\<rparr>) = (b, u)" by fastforce
  with assms Inr have "b = Inr x" "mg_session t = NoTransaction" "db_data t = db_data u"
    by (auto simp: run_callback_def db_bind_def mongo_query_def mongo_stmt_def db_stmt_def db_return_def
        split: prod.splits sum.splits option.splits if_splits)
  with b Inr ran show ?thesis by blast
qed

lemma run_callback_env:
  assumes "run_callback body s = (r, t)" "\<And>s. same_env s (snd (body s))"
  shows "same_env s t"
proof -
  obtain b u where b: "body (s\<lparr>mg_session := InTransaction\<rparr>) = (b, u)" by fastforce
  with assms(2) [of "s\<lparr>mg_session := InTransaction\<rparr>"] have "same_env s u" by simp
  with assms(1) b show ?thesis
    by (auto simp: run_callback_def db_bind_def mongo_query_def mongo_stmt_def db_stmt_def db_return_def
        split: prod.splits sum.splits option.splits if_splits)
qed

text \<open>However often the callback was run, it took effect once, from the data there were.\<close>

lemma with_transaction_once:
  assumes "with_transaction n body s = (Inr x, t)"
  shows "\<exists>u. db_data u = db_data s \<and> run_callback body u = (Inr x, t)"
  using assms
proof (induction n arbitrary: s)
  case (Suc n)
  obtain r u where u: "run_callback body s = (r, u)" by fastforce
  then show ?case
  proof (cases rule: run_callback_result)
    case (failed e)
    with Suc u have "with_transaction n body u = (Inr x, t)" by (simp split: if_splits)
    from Suc.IH [OF this] failed show ?thesis by simp
  next
    case (ran y v)
    with Suc.prems u show ?thesis by auto
  qed
qed auto

lemma with_transaction_failed:
  assumes "with_transaction n body s = (Inl e, t)"
  shows "db_data t = db_data s"
  using assms
proof (induction n arbitrary: s)
  case 0
  then show ?case by (auto elim: run_callback_result)
next
  case (Suc n)
  obtain r u where u: "run_callback body s = (r, u)" by fastforce
  then show ?case
  proof (cases rule: run_callback_result)
    case (failed e')
    with Suc u show ?thesis by (auto split: if_splits)
  next
    case (ran y v)
    with Suc.prems u show ?thesis by auto
  qed
qed

lemma atomic_transaction [atomic_rules]: "atomic (WithTransaction body)"
  using with_transaction_failed by (fastforce simp: atomic_def WithTransaction_def)

lemma with_transaction_env:
  assumes "with_transaction n body s = (r, t)" "\<And>s. same_env s (snd (body s))"
  shows "same_env s t"
  using assms(1)
proof (induction n arbitrary: s)
  case 0
  then show ?case using run_callback_env assms(2) by fastforce
next
  case (Suc n)
  obtain b u where u: "run_callback body s = (b, u)" by fastforce
  have "same_env s u" by (rule run_callback_env [OF u assms(2)])
  with Suc u show ?case by (auto split: sum.splits if_splits intro: same_env_trans)
qed

lemma wp_WithTransaction:
  assumes "\<And>u. db_data u = db_data s \<Longrightarrow> mg_session u = InTransaction \<Longrightarrow> wp body (\<lambda>x v. P x (db_data v)) u"
    and "\<And>x t. P x (db_data t) \<Longrightarrow> Q x t"
  shows "wp (WithTransaction body) Q s"
proof (rule wpI)
  fix x t assume "WithTransaction body s = (Inr x, t)"
  then obtain u where u: "db_data u = db_data s" "run_callback body u = (Inr x, t)"
    using with_transaction_once by (metis WithTransaction_def)
  from u(2) show "Q x t"
  proof (cases rule: run_callback_result)
    case (ran y v)
    have "wp body (\<lambda>x v. P x (db_data v)) (u\<lparr>mg_session := InTransaction\<rparr>)"
      by (rule assms(1)) (simp_all add: u)
    from wpD [OF this ran(3)] ran have "P x (db_data t)" by simp
    then show ?thesis by (rule assms(2))
  qed simp
qed

lemma within_mongo_exec:
  "(\<And>t. R t t) \<Longrightarrow> (\<And>t x t'. f t = Some (x, t') \<Longrightarrow> R t t') \<Longrightarrow> within R (mongo_exec f)"
  unfolding within_def mongo_exec_def mongo_stmt_def db_stmt_def
  by (auto split: option.splits prod.splits)

section \<open>Documents\<close>

lemma update_first_evolves: "(\<And>x. r x x) \<Longrightarrow> (\<And>x. c x \<Longrightarrow> r x (f x)) \<Longrightarrow> table_evolves r xs (update_first c f xs)"
  by (induction xs) (auto simp: table_evolves_def nth_Cons split: nat.splits)

lemma list_ex_append_clash: "\<not> list_ex (clash r) xs \<longleftrightarrow> (\<forall>x \<in> set xs. \<not> clash r x)"
  by (auto simp: list_ex_iff)

lemma set_update_first: "x \<in> set (update_first c f xs) \<Longrightarrow> x \<in> set xs \<or> (\<exists>y \<in> set xs. c y \<and> x = f y)"
  by (induction xs) (auto split: if_splits)

lemma update_first_id [simp]: "update_first c (\<lambda>x. x) xs = xs"
  by (induction xs) auto

lemma update_first_none: "\<not> list_ex c xs \<Longrightarrow> update_first c f xs = xs"
  by (induction xs) auto

lemma find_update_first:
  "(\<And>x. c x \<Longrightarrow> c (f x)) \<Longrightarrow> find c (update_first c f xs) = map_option f (find c xs)"
  by (induction xs) auto

lemma no_clash_update_first:
  assumes "no_clash clash rs" "\<And>a b. clash (f a) b = clash a b" "\<And>a b. clash a (f b) = clash a b"
  shows "no_clash clash (update_first c f rs)"
proof -
  have *: "list_ex (clash a) (update_first c f xs) = list_ex (clash a) xs" for a xs
    by (induction xs) (auto simp: assms(3))
  have "list_ex (clash (f a)) xs = list_ex (clash a) xs" for a xs
    by (simp add: list_ex_iff assms(2))
  with assms(1) show ?thesis by (induction rs) (auto simp: *)
qed

lemma upsert_oneE:
  assumes "upsert_one tab upd clash c f doc t = Some (b, t')"
  obtains (match) "\<not> b" "list_ex c (tab t)" "t' = upd (\<lambda>_. update_first c f (tab t)) t"
  | (insert) "b" "\<not> list_ex c (tab t)" "\<forall>x \<in> set (tab t). \<not> clash doc x" "t' = upd (\<lambda>_. tab t @ [doc]) t"
  using assms by (auto simp: upsert_one_def elim!: db_insertE split: if_splits)

lemma update_oneE:
  assumes "update_one tab upd c f t = Some (n, t')"
  obtains "t' = upd (\<lambda>_. update_first c f (tab t)) t" "n = (if list_ex c (tab t) then 1 else 0)"
  using assms by (simp add: update_one_def)

lemma update_one_uniqueE:
  assumes "update_one_unique tab upd clash c f t = Some (n, t')"
  obtains "t' = upd (\<lambda>_. update_first c f (tab t)) t" "n = (if list_ex c (tab t) then 1 else 0)"
    "no_clash clash (update_first c f (tab t))"
  using assms by (auto simp: update_one_unique_def update_one_def split: if_splits)

end
