(* ===== verification/MongoModel.thy ===== *)
theory MongoModel
  imports MongoLogic SqlModel
begin

text \<open>
  The MongoDB store as a whole: the value of the \<open>Store\<close> interface its operations make up, the calls of a
  run with their outcomes, and that a call that fails has changed no collection.
\<close>

section \<open>The store\<close>

definition mongo_Store :: "MongoStore Store" where
  "mongo_Store = \<lparr>
     st_CreateMerchant = mongo_CreateMerchant, st_GetMerchant = mongo_GetMerchant, st_ListMerchants = mongo_ListMerchants,
     st_UpdateMerchantSettings = mongo_UpdateMerchantSettings, st_SetMerchantWallet = mongo_SetMerchantWallet,
     st_GetMerchantWallet = mongo_GetMerchantWallet, st_ListMerchantWallets = mongo_ListMerchantWallets,
     st_NextAddressIndex = mongo_NextAddressIndex, st_CreateMerchantAPIKey = mongo_CreateMerchantAPIKey,
     st_RevokeMerchantAPIKey = mongo_RevokeMerchantAPIKey,
     st_LookupMerchantIDByAPIKey = mongo_LookupMerchantIDByAPIKey,
     st_ListMerchantAPIKeys = mongo_ListMerchantAPIKeys, st_CreateInvoice = mongo_CreateInvoice,
     st_GetInvoice = mongo_GetInvoice, st_FindInvoiceByExternalOrderID = mongo_FindInvoiceByExternalOrderID,
     st_ListInvoices = mongo_ListInvoices, st_PutInvoiceToken = mongo_PutInvoiceToken,
     st_GetInvoiceToken = mongo_GetInvoiceToken, st_ScanCursor = mongo_ScanCursor, st_ApplyScanEvent = mongo_ApplyScanEvent,
     st_UpdateInvoiceConfirmations = mongo_UpdateInvoiceConfirmations, st_ListInvoiceEvents = mongo_ListInvoiceEvents,
     st_ListDeposits = mongo_ListDeposits, st_CreateRefund = mongo_CreateRefund, st_ListRefunds = mongo_ListRefunds,
     st_ListReviewCases = mongo_ListReviewCases, st_ResolveReviewCase = mongo_ResolveReviewCase,
     st_RejectReviewCase = mongo_RejectReviewCase, st_CreateEventSink = mongo_CreateEventSink,
     st_GetEventSink = mongo_GetEventSink, st_ListEventSinks = mongo_ListEventSinks,
     st_ListOutboundEvents = mongo_ListOutboundEvents, st_ListEventDeliveries = mongo_ListEventDeliveries,
     st_ListDueDeliveries = mongo_ListDueDeliveries, st_UpdateEventDelivery = mongo_UpdateEventDelivery,
     st_ScannerStatus = mongo_ScannerStatus, st_PendingDeliveries = mongo_PendingDeliveries\<rparr>"

inductive mongo_call :: "MongoStore \<Rightarrow> store_error option \<Rightarrow> MongoStore \<Rightarrow> bool" where
  "mongo_CreateMerchant name settings s = (r1, t) \<Longrightarrow> mongo_call s (failure r1) t"
| "mongo_SetMerchantWallet mid w s = (r2, t) \<Longrightarrow> mongo_call s (failure r2) t"
| "mongo_NextAddressIndex mid s = (r3, t) \<Longrightarrow> mongo_call s (failure r3) t"
| "mongo_CreateMerchantAPIKey raw mid label s = (r4, t) \<Longrightarrow> mongo_call s (failure r4) t"
| "mongo_RevokeMerchantAPIKey key s = (r5, t) \<Longrightarrow> mongo_call s (failure r5) t"
| "mongo_CreateInvoice inv_req s = (r6, t) \<Longrightarrow> mongo_call s (failure r6) t"
| "mongo_PutInvoiceToken iid tok s = (r7, t) \<Longrightarrow> mongo_call s (failure r7) t"
| "mongo_ApplyScanEvent ev s = (r8, t) \<Longrightarrow> mongo_call s (failure r8) t"
| "mongo_UpdateInvoiceConfirmations best s = (r9, t) \<Longrightarrow> mongo_call s (failure r9) t"
| "mongo_CreateRefund refund_req s = (r10, t) \<Longrightarrow> mongo_call s (failure r10) t"
| "mongo_ResolveReviewCase rid notes s = (r11, t) \<Longrightarrow> mongo_call s (failure r11) t"
| "mongo_RejectReviewCase rid notes s = (r12, t) \<Longrightarrow> mongo_call s (failure r12) t"
| "mongo_CreateEventSink sink_req s = (r13, t) \<Longrightarrow> mongo_call s (failure r13) t"
| "mongo_UpdateEventDelivery did st att nr le s = (r14, t) \<Longrightarrow> mongo_call s (failure r14) t"
| "mongo_GetMerchant mid s = (r15, t) \<Longrightarrow> mongo_call s (failure r15) t"
| "mongo_ListMerchants s = (r16, t) \<Longrightarrow> mongo_call s (failure r16) t"
| "mongo_GetMerchantWallet mid s = (r17, t) \<Longrightarrow> mongo_call s (failure r17) t"
| "mongo_ListMerchantWallets s = (r18, t) \<Longrightarrow> mongo_call s (failure r18) t"
| "mongo_LookupMerchantIDByAPIKey key s = (r19, t) \<Longrightarrow> mongo_call s (failure r19) t"
| "mongo_ListMerchantAPIKeys mid s = (r20, t) \<Longrightarrow> mongo_call s (failure r20) t"
| "mongo_GetInvoice iid s = (r21, t) \<Longrightarrow> mongo_call s (failure r21) t"
| "mongo_FindInvoiceByExternalOrderID mid oid s = (r22, t) \<Longrightarrow> mongo_call s (failure r22) t"
| "mongo_ListInvoices inv_filter s = (r23, t) \<Longrightarrow> mongo_call s (failure r23) t"
| "mongo_GetInvoiceToken iid s = (r24, t) \<Longrightarrow> mongo_call s (failure r24) t"
| "mongo_ScanCursor wid s = (r25, t) \<Longrightarrow> mongo_call s (failure r25) t"
| "mongo_ListInvoiceEvents iid after lim s = (r26, t) \<Longrightarrow> mongo_call s (failure r26) t"
| "mongo_ListDeposits dep_filter s = (r27, t) \<Longrightarrow> mongo_call s (failure r27) t"
| "mongo_ListRefunds refund_filter s = (r28, t) \<Longrightarrow> mongo_call s (failure r28) t"
| "mongo_ListReviewCases review_filter s = (r29, t) \<Longrightarrow> mongo_call s (failure r29) t"
| "mongo_GetEventSink kid s = (r30, t) \<Longrightarrow> mongo_call s (failure r30) t"
| "mongo_ListEventSinks mid s = (r31, t) \<Longrightarrow> mongo_call s (failure r31) t"
| "mongo_ListOutboundEvents mid after lim s = (r32, t) \<Longrightarrow> mongo_call s (failure r32) t"
| "mongo_ListEventDeliveries del_filter s = (r33, t) \<Longrightarrow> mongo_call s (failure r33) t"
| "mongo_ListDueDeliveries now lim s = (r34, t) \<Longrightarrow> mongo_call s (failure r34) t"
| "mongo_ScannerStatus s = (r35, t) \<Longrightarrow> mongo_call s (failure r35) t"
| "mongo_PendingDeliveries s = (r36, t) \<Longrightarrow> mongo_call s (failure r36) t"
| "mongo_Init s = (r37, t) \<Longrightarrow> mongo_call s (failure r37) t"

text \<open>The one operation that may have changed a row and fail still: it reads the row back.\<close>

inductive mongo_step :: "MongoStore \<Rightarrow> MongoStore \<Rightarrow> bool" where
  mongo_step_call: "mongo_call s e t \<Longrightarrow> mongo_step s t"
| mongo_step_settings: "mongo_UpdateMerchantSettings mid settings s = (r, t) \<Longrightarrow> mongo_step s t"

inductive mongo_reach :: "MongoStore \<Rightarrow> bool" where
  mongo_open: "db_data s = empty_collections \<Longrightarrow> mg_session s = NoTransaction \<Longrightarrow> mongo_reach s"
| mongo_next: "mongo_reach s \<Longrightarrow> mongo_step s t \<Longrightarrow> mongo_reach t"

section \<open>A failed call changes nothing\<close>

lemma reads_mongo_events [reads_rules]: "reads (mongo_events iid docs)"
  by (induction docs) (auto intro!: reads_rules)

lemma reads_mongo_sinks [reads_rules]: "reads (mongo_GetEventSink k)" "reads (mongo_GetMerchant m)" "reads (mongo_GetInvoice i)"
    "reads (findInvoiceByExternal m e h)"
  by (simp_all only: mongo_GetEventSink_def mongo_GetMerchant_def mongo_GetInvoice_def findInvoiceByExternal_def Let_def)
    (intro reads_rules)+

lemma reads_mongo_due [reads_rules]: "reads (mongo_due n ds)"
  by (induction ds arbitrary: n) (auto intro!: reads_rules)

lemma reads_mongo_ops [reads_rules]:
  "reads (mongo_merchant_exists m)" "reads mongo_ListMerchants" "reads (mongo_GetMerchantWallet m)"
  "reads mongo_ListMerchantWallets" "reads (mongo_LookupMerchantIDByAPIKey key)" "reads (mongo_ListMerchantAPIKeys m)"
  "reads (mongo_FindInvoiceByExternalOrderID m oid)" "reads (mongo_ListInvoices f1)"
  "reads (mongo_GetInvoiceToken iid)" "reads (mongo_ScanCursor w)" "reads (mongo_ListInvoiceEvents iid after lim)"
  "reads (mongo_ListDeposits f2)" "reads (mongo_ListRefunds f3)" "reads (mongo_ListReviewCases f4)"
  "reads (mongo_ListEventSinks m)" "reads (mongo_ListOutboundEvents m after lim)" "reads (mongo_ListEventDeliveries f5)"
  "reads (mongo_ListDueDeliveries now lim)" "reads mongo_ScannerStatus" "reads mongo_PendingDeliveries"
  "reads (mongo_refund_invoice_ok m iid)"
  by (simp_all only: mongo_merchant_exists_def mongo_ListMerchants_def mongo_GetMerchantWallet_def
      mongo_ListMerchantWallets_def mongo_LookupMerchantIDByAPIKey_def mongo_ListMerchantAPIKeys_def
      mongo_FindInvoiceByExternalOrderID_def mongo_ListInvoices_def mongo_GetInvoiceToken_def mongo_ScanCursor_def
      mongo_ListInvoiceEvents_def mongo_ListDeposits_def mongo_ListRefunds_def mongo_ListReviewCases_def
      mongo_ListEventSinks_def mongo_ListOutboundEvents_def mongo_ListEventDeliveries_def mongo_ListDueDeliveries_def
      mongo_ScannerStatus_def mongo_PendingDeliveries_def mongo_refund_invoice_ok_def Let_def)
    (intro reads_rules)+

lemma reads_mongo_Init [reads_rules]: "reads mongo_Init"
  unfolding mongo_Init_def mongo_indexes_def ensure_def by (auto intro!: reads_rules)

lemma collection_updates [simp]:
  "k_merchant_wallets_update (\<lambda>_. k_merchant_wallets t) t = t" "k_api_keys_update (\<lambda>_. k_api_keys t) t = t"
  "k_review_cases_update (\<lambda>_. k_review_cases t) t = t" "k_event_deliveries_update (\<lambda>_. k_event_deliveries t) t = t"
  by simp_all

text \<open>A write after which the call fails only when the write changed nothing.\<close>

lemma atomic_write:
  assumes "\<And>t x u. f t = Some (x, u) \<Longrightarrow> succeeds (g x) \<or> (u = t \<and> atomic (g x))"
  shows "atomic (db_bind (mongo_exec f) g)"
proof (rule atomic_bind_or [OF atomic_mongo_exec])
  fix s x u assume "mongo_exec f s = (Inr x, u)"
  then have "f (db_data s) = Some (x, db_data u)"
    by (auto simp: mongo_exec_def mongo_stmt_def db_stmt_def split: option.splits prod.splits if_splits)
  then show "succeeds (g x) \<or> db_data u = db_data s \<and> atomic (g x)" by (rule assms)
qed

lemma atomic_update_one:
  assumes "\<And>t. upd (\<lambda>_. tab t) t = t" "atomic (g 0)" "\<And>n. 0 < n \<Longrightarrow> succeeds (g n)"
  shows "atomic (db_bind (mongo_exec (update_one tab upd c f)) g)"
    "atomic (db_bind (mongo_exec (update_one_unique tab upd clash c f)) g)"
proof -
  have one: "succeeds (g n) \<or> (u = t \<and> atomic (g n))" if "update_one tab upd c f t = Some (n, u)" for t n u
    using that assms by (cases "list_ex c (tab t)") (simp_all add: update_one_def update_first_none)
  then show "atomic (db_bind (mongo_exec (update_one tab upd c f)) g)" by (intro atomic_write)
  show "atomic (db_bind (mongo_exec (update_one_unique tab upd clash c f)) g)"
    by (intro atomic_write one) (simp add: update_one_unique_def split: if_splits)
qed

lemma atomic_mongo_merchants [atomic_rules]:
  "atomic (mongo_CreateMerchant name settings)" "atomic (mongo_SetMerchantWallet mid w)" "atomic (mongo_NextAddressIndex mid)"
  "atomic (mongo_CreateMerchantAPIKey raw mid label)" "atomic (mongo_RevokeMerchantAPIKey key)"
  unfolding mongo_CreateMerchant_def mongo_SetMerchantWallet_def mongo_NextAddressIndex_def mongo_CreateMerchantAPIKey_def
    mongo_RevokeMerchantAPIKey_def Let_def
  subgoal by (auto intro!: atomic_rules reads_rules atomic_last [OF atomic_mongo_exec] succeeds_return split: option.split)
  subgoal
    apply (intro atomic_if atomic_return atomic_bind [OF reads_mongo_ops(1)] atomic_bind [OF reads_basic(4)])
    using atomicD [OF atomic_mongo_exec] by (fastforce simp: atomic_def split: prod.splits sum.splits)
  subgoal
    apply (intro atomic_if atomic_return atomic_write)
    subgoal for t x u
    proof (cases x)
      case None
      assume "Some (map_option wr_next_address_index (find (\<lambda>r. wr_merchant_id r = TrimSpace mid) (k_merchant_wallets t)),
          k_merchant_wallets_update (update_first (\<lambda>r. wr_merchant_id r = TrimSpace mid)
            (\<lambda>r. r\<lparr>wr_next_address_index := wr_next_address_index r + 1\<rparr>)) t) = Some (x, u)"
      with None have "\<not> list_ex (\<lambda>r. wr_merchant_id r = TrimSpace mid) (k_merchant_wallets t)"
        and u: "u = k_merchant_wallets_update (update_first (\<lambda>r. wr_merchant_id r = TrimSpace mid)
            (\<lambda>r. r\<lparr>wr_next_address_index := wr_next_address_index r + 1\<rparr>)) t"
        by (auto simp: find_None_iff list_ex_iff)
      then have "u = t" by (cases t) (simp add: update_first_none)
      with None show ?thesis by (simp add: atomic_return)
    qed (simp add: succeeds_return)
    done
  subgoal by (auto intro!: atomic_rules reads_rules atomic_last [OF atomic_mongo_exec] succeeds_return split: option.split)
  subgoal by (intro atomic_if atomic_return atomic_bind [OF reads_basic(4)] atomic_update_one)
      (auto intro: reads_atomic intro!: reads_rules succeeds_return)
  done

lemma atomic_mongo_CreateInvoice [atomic_rules]: "atomic (mongo_CreateInvoice req)"
proof -
  have *: "atomic (\<lambda>s. case WithTransaction body s of (Inr iv, s) \<Rightarrow> (Inr (iv, True), s)
      | (Inl e, s) \<Rightarrow> if \<not> isDuplicateKey e then (Inl e, s) else db_bind (findInvoiceByExternal m x h) g s)"
    if "\<And>x. reads (g x)" for body m x h and g :: "_ \<Rightarrow> (Invoice \<times> bool) mongo"
  proof -
    have "reads (db_bind (findInvoiceByExternal m x h) g)" by (intro reads_rules that)
    then show ?thesis
      using atomicD [OF atomic_transaction [of body]]
      by (auto simp: atomic_def split: prod.splits sum.splits if_splits dest: readsD)
  qed
  show ?thesis
    unfolding mongo_CreateInvoice_def Let_def
    by (intro atomic_if atomic_return atomic_bind [OF reads_basic(4)] atomic_bind [OF reads_ids(1)]
        atomic_bind [OF reads_basic(6)] atomic_bind [OF reads_mongo(2)] * reads_rules)
qed

lemma atomic_mongo_others [atomic_rules]:
  "atomic (mongo_PutInvoiceToken iid tok)" "atomic (mongo_CreateRefund req)" "atomic (mongo_ApplyScanEvent ev)"
  "atomic (mongo_UpdateInvoiceConfirmations best)" "atomic (mongo_CreateEventSink sink_req)"
  "atomic (updateReviewCaseStatus rid st notes)" "atomic (mongo_UpdateEventDelivery did dst att nr le)"
  unfolding mongo_PutInvoiceToken_def mongo_CreateRefund_def mongo_ApplyScanEvent_def mongo_UpdateInvoiceConfirmations_def
    mongo_CreateEventSink_def updateReviewCaseStatus_def mongo_UpdateEventDelivery_def Let_def
  subgoal by (intro atomic_if atomic_return atomic_bind [OF reads_mongo_sinks(3)] atomic_bind [OF reads_ids(2)]
        atomic_last [OF atomic_mongo_exec] succeeds_return)
  subgoal by (intro atomic_if atomic_return atomic_bind [OF reads_basic(4)] atomic_bind [OF reads_ids(1)]
        atomic_bind [OF reads_mongo(2)] atomic_last [OF atomic_transaction] succeeds_return)
  subgoal by (intro atomic_if atomic_return atomic_bind [OF reads_mongo(2)] atomic_transaction)
  subgoal by (intro atomic_bind [OF reads_mongo(2)] atomic_transaction)
  subgoal by (auto intro!: atomic_rules reads_rules atomic_last [OF atomic_mongo_exec] succeeds_return
        split: EventSinkKind.split raw_message.split json.split)
  subgoal by (intro atomic_if atomic_return atomic_bind [OF reads_basic(4)] atomic_update_one)
      (auto intro: atomic_return succeeds_return)
  subgoal by (intro atomic_if atomic_return atomic_bind [OF reads_basic(4)] atomic_update_one)
      (auto intro: atomic_return succeeds_return)
  done

lemma atomic_mongo_reviews [atomic_rules]: "atomic (mongo_ResolveReviewCase rid notes)" "atomic (mongo_RejectReviewCase rid notes)"
  by (simp_all add: mongo_ResolveReviewCase_def mongo_RejectReviewCase_def atomic_mongo_others)

lemma mongo_call_atomic:
  assumes "mongo_call s e t" "e \<noteq> None"
  shows "db_data t = db_data s"
  using assms(1)
  by cases (rule failed_call, assumption, (rule atomic_rules | rule reads_atomic, rule reads_rules)+, use assms(2) in simp)+

end
