(* ===== verification/MongoGrow.thy ===== *)
theory MongoGrow
  imports MongoModel SqlKeep
begin

text \<open>
  What a call does to the documents of the MongoDB store: it adds documents, and of those there are it changes
  only the fields that are meant to change (\<open>mongo_grows\<close>), with the steps of the rows of the SQL store; it keeps the unique
  indexes, that the id of an invoice has no white space around it and that no address index is negative (\<open>mongo_keys\<close>). Two finer relations: an operation is
  \<open>quiet\<close> when it leaves the cursors alone, and \<open>mute\<close> when it adds no event and no outbox document besides.
\<close>

section \<open>How a document may change\<close>

definition counter :: "Collections \<Rightarrow> string \<Rightarrow> nat" where
  "counter t key = (case map_of (k_counters t) key of None \<Rightarrow> 0 | Some v \<Rightarrow> v)"

text \<open>The code takes an empty invoice id for none.\<close>

definition deposit_doc_step :: "DepositRow \<Rightarrow> DepositRow \<Rightarrow> bool" where
  "deposit_doc_step a b \<longleftrightarrow> dr_seq b = dr_seq a \<and> dr_wallet_id b = dr_wallet_id a \<and> dr_txid b = dr_txid a \<and>
     dr_action_index b = dr_action_index a \<and> dr_detected_at b = dr_detected_at a \<and>
     (dr_invoice_id a \<notin> {None, Some []} \<longrightarrow> dr_invoice_id b = dr_invoice_id a)"

definition case_terms :: "ReviewDoc \<Rightarrow> ReviewDoc" where
  "case_terms d = d\<lparr>vd_status := ReviewOpen, vd_notes := [], vd_updated_at := 0\<rparr>"

definition mongo_grows :: "Collections \<Rightarrow> Collections \<Rightarrow> bool" where
  "mongo_grows t u \<longleftrightarrow>
     table_evolves (\<lambda>a b. merchant_terms a = merchant_terms b) (k_merchants t) (k_merchants u) \<and>
     table_evolves wallet_step (k_merchant_wallets t) (k_merchant_wallets u) \<and>
     table_evolves key_step (k_api_keys t) (k_api_keys u) \<and>
     table_evolves (\<lambda>a b. invoice_terms a = invoice_terms b) (k_invoices t) (k_invoices u) \<and>
     table_evolves (\<lambda>a b. fst a = fst b) (k_invoice_tokens t) (k_invoice_tokens u) \<and>
     table_evolves cursor_step (k_scan_cursors t) (k_scan_cursors u) \<and>
     table_evolves deposit_doc_step (k_deposits t) (k_deposits u) \<and>
     table_evolves (=) (k_refunds t) (k_refunds u) \<and>
     table_evolves (\<lambda>a b. case_terms a = case_terms b) (k_review_cases t) (k_review_cases u) \<and>
     table_evolves (=) (k_invoice_events t) (k_invoice_events u) \<and>
     table_evolves (=) (k_event_sinks t) (k_event_sinks u) \<and>
     table_evolves (=) (k_outbox_events t) (k_outbox_events u) \<and>
     table_evolves (\<lambda>a b. delivery_terms a = delivery_terms b) (k_event_deliveries t) (k_event_deliveries u) \<and>
     (\<forall>key. counter t key \<le> counter u key)"

definition mongo_keys :: "Collections \<Rightarrow> bool" where
  "mongo_keys t \<longleftrightarrow> no_clash merchant_clash (k_merchants t) \<and> no_clash mongo_wallet_clash (k_merchant_wallets t) \<and>
     no_clash key_clash (k_api_keys t) \<and> no_clash invoice_clash (k_invoices t) \<and> no_clash token_clash (k_invoice_tokens t) \<and>
     no_clash cursor_clash (k_scan_cursors t) \<and> no_clash deposit_clash (k_deposits t) \<and> no_clash refund_clash (k_refunds t) \<and>
     no_clash mongo_review_clash (k_review_cases t) \<and> no_clash mongo_event_clash (k_invoice_events t) \<and>
     no_clash sink_clash (k_event_sinks t) \<and> no_clash outbox_clash (k_outbox_events t) \<and>
     no_clash delivery_clash (k_event_deliveries t) \<and>
     (\<forall>r \<in> set (k_invoices t). TrimSpace (ir_invoice_id r) = ir_invoice_id r) \<and>
     (\<forall>w \<in> set (k_merchant_wallets t). 0 \<le> wr_next_address_index w)"

definition quiet :: "Collections \<Rightarrow> Collections \<Rightarrow> bool" where
  "quiet t u \<longleftrightarrow> mongo_grows t u \<and> (mongo_keys t \<longrightarrow> mongo_keys u) \<and> k_scan_cursors u = k_scan_cursors t"

definition mute :: "Collections \<Rightarrow> Collections \<Rightarrow> bool" where
  "mute t u \<longleftrightarrow> quiet t u \<and> k_invoice_events u = k_invoice_events t \<and> k_outbox_events u = k_outbox_events t"

definition sound :: "Collections \<Rightarrow> Collections \<Rightarrow> bool" where
  "sound t u \<longleftrightarrow> mongo_grows t u \<and> (mongo_keys t \<longrightarrow> mongo_keys u)"

lemma deposit_doc_step_trans: "deposit_doc_step a b \<Longrightarrow> deposit_doc_step b c \<Longrightarrow> deposit_doc_step a c"
  by (auto simp: deposit_doc_step_def)

lemma deposit_doc_step_refl [simp]: "deposit_doc_step a a"
  by (simp add: deposit_doc_step_def)

lemma mongo_grows_refl [simp]: "mongo_grows t t"
  by (simp add: mongo_grows_def table_evolves_refl)

lemma mongo_grows_trans: "mongo_grows t u \<Longrightarrow> mongo_grows u v \<Longrightarrow> mongo_grows t v"
  unfolding mongo_grows_def
  apply (elim conjE, intro conjI)
  prefer 14
  subgoal by (metis order_trans)
  by (erule (1) table_evolves_trans [rotated]; metis steps_trans deposit_doc_step_trans)+

interpretation mgrow: table_order mongo_grows
  by unfold_locales (simp, rule mongo_grows_trans)

interpretation quiet: table_order quiet
  by unfold_locales (auto simp: quiet_def intro: mongo_grows_trans)

interpretation mute: table_order mute
  by unfold_locales (auto simp: mute_def quiet_def intro: mongo_grows_trans)

interpretation sound: table_order sound
  by unfold_locales (auto simp: sound_def intro: mongo_grows_trans)

interpretation anything: table_order "\<lambda>_ _. True"
  by unfold_locales simp_all

lemma mute_quiet: "within mute m \<Longrightarrow> within quiet m"
  by (simp add: within_def mute_def)

lemma quiet_sound: "within quiet m \<Longrightarrow> within sound m"
  by (simp add: within_def quiet_def sound_def)

lemma quiet_anything: "within quiet m \<Longrightarrow> within (\<lambda>_ _. True) m"
  by (simp add: within_def)

section \<open>Every statement\<close>

lemma clash_symmetric:
  "mongo_wallet_clash a1 b1 \<Longrightarrow> mongo_wallet_clash b1 a1" "mongo_review_clash a2 b2 \<Longrightarrow> mongo_review_clash b2 a2"
  "mongo_event_clash a3 b3 \<Longrightarrow> mongo_event_clash b3 a3"
  by (auto simp: mongo_wallet_clash_def mongo_review_clash_def mongo_event_clash_def)

lemmas doc_keys_append = keys_append no_clash_append [OF _ _ clash_symmetric(1)]
  no_clash_append [OF _ _ clash_symmetric(2)] no_clash_append [OF _ _ clash_symmetric(3)]

lemmas mute_defs = mute_def quiet_def mongo_grows_def mongo_keys_def counter_def

text \<open>Adding a document.\<close>

lemma mute_add:
  "\<forall>x \<in> set (k_merchants t). \<not> merchant_clash r1 x \<Longrightarrow> mute t (k_merchants_update (\<lambda>_. k_merchants t @ [r1]) t)"
  "\<forall>x \<in> set (k_merchant_wallets t). \<not> mongo_wallet_clash r2 x \<Longrightarrow> 0 \<le> wr_next_address_index r2 \<Longrightarrow>
     mute t (k_merchant_wallets_update (\<lambda>_. k_merchant_wallets t @ [r2]) t)"
  "\<forall>x \<in> set (k_api_keys t). \<not> key_clash r3 x \<Longrightarrow> mute t (k_api_keys_update (\<lambda>_. k_api_keys t @ [r3]) t)"
  "\<forall>x \<in> set (k_invoices t). \<not> invoice_clash r4 x \<Longrightarrow> TrimSpace (ir_invoice_id r4) = ir_invoice_id r4 \<Longrightarrow>
     mute t (k_invoices_update (\<lambda>_. k_invoices t @ [r4]) t)"
  "\<forall>x \<in> set (k_invoice_tokens t). \<not> token_clash r5 x \<Longrightarrow>
     mute t (k_invoice_tokens_update (\<lambda>_. k_invoice_tokens t @ [r5]) t)"
  "\<forall>x \<in> set (k_deposits t). \<not> deposit_clash r6 x \<Longrightarrow> mute t (k_deposits_update (\<lambda>_. k_deposits t @ [r6]) t)"
  "\<forall>x \<in> set (k_refunds t). \<not> refund_clash r7 x \<Longrightarrow> mute t (k_refunds_update (\<lambda>_. k_refunds t @ [r7]) t)"
  "\<forall>x \<in> set (k_review_cases t). \<not> mongo_review_clash r8 x \<Longrightarrow>
     mute t (k_review_cases_update (\<lambda>_. k_review_cases t @ [r8]) t)"
  "\<forall>x \<in> set (k_event_sinks t). \<not> sink_clash r9 x \<Longrightarrow> mute t (k_event_sinks_update (\<lambda>_. k_event_sinks t @ [r9]) t)"
  "\<forall>x \<in> set (k_event_deliveries t). \<not> delivery_clash r10 x \<Longrightarrow>
     mute t (k_event_deliveries_update (\<lambda>_. k_event_deliveries t @ [r10]) t)"
  by (simp_all add: mute_defs evolve_simps doc_keys_append)

lemma quiet_add:
  "\<forall>x \<in> set (k_invoice_events t). \<not> mongo_event_clash e x \<Longrightarrow>
     quiet t (k_invoice_events_update (\<lambda>_. k_invoice_events t @ [e]) t)"
  "\<forall>x \<in> set (k_outbox_events t). \<not> outbox_clash r x \<Longrightarrow>
     quiet t (k_outbox_events_update (\<lambda>_. k_outbox_events t @ [r]) t)"
  by (simp_all add: quiet_def mongo_grows_def mongo_keys_def counter_def evolve_simps doc_keys_append)

text \<open>Changing the first document that matches.\<close>

lemma all_update_first: "(\<And>r. P (f r) = P r) \<Longrightarrow> (\<forall>r \<in> set (update_first c f xs). P r) = (\<forall>r \<in> set xs. P r)"
  by (induction xs) auto

lemma mute_change:
  "(\<And>r. merchant_terms r = merchant_terms (f1 r)) \<Longrightarrow>
     mute t (k_merchants_update (\<lambda>_. update_first c1 f1 (k_merchants t)) t)"
  "(\<And>r. wallet_step r (f2 r)) \<Longrightarrow>
     mute t (k_merchant_wallets_update (\<lambda>_. update_first c2 f2 (k_merchant_wallets t)) t)"
  "(\<And>r. c3 r \<Longrightarrow> key_step r (f3 r)) \<Longrightarrow> (\<And>r. kr_key_id (f3 r) = kr_key_id r \<and> kr_token_hash (f3 r) = kr_token_hash r) \<Longrightarrow>
     mute t (k_api_keys_update (\<lambda>_. update_first c3 f3 (k_api_keys t)) t)"
  "(\<And>r. invoice_terms r = invoice_terms (f4 r)) \<Longrightarrow>
     mute t (k_invoices_update (\<lambda>_. update_first c4 f4 (k_invoices t)) t)"
  "(\<And>r. fst r = fst (f5 r)) \<Longrightarrow>
     mute t (k_invoice_tokens_update (\<lambda>_. update_first c5 f5 (k_invoice_tokens t)) t)"
  "(\<And>r. c6 r \<Longrightarrow> deposit_doc_step r (f6 r)) \<Longrightarrow> (\<And>r a. deposit_clash a (f6 r) = deposit_clash a r) \<Longrightarrow>
     (\<And>r a. deposit_clash (f6 r) a = deposit_clash r a) \<Longrightarrow>
     mute t (k_deposits_update (\<lambda>_. update_first c6 f6 (k_deposits t)) t)"
  "(\<And>r. delivery_terms r = delivery_terms (f7 r)) \<Longrightarrow>
     mute t (k_event_deliveries_update (\<lambda>_. update_first c7 f7 (k_event_deliveries t)) t)"
  "(\<And>r. case_terms r = case_terms (f8 r)) \<Longrightarrow> no_clash mongo_review_clash (update_first c8 f8 (k_review_cases t)) \<Longrightarrow>
     mute t (k_review_cases_update (\<lambda>_. update_first c8 f8 (k_review_cases t)) t)"
  subgoal premises p
  proof -
    have "mr_merchant_id (f1 r) = mr_merchant_id r" for r using p [of r] by (simp add: merchant_terms_def)
    with p show ?thesis
      by (simp add: mute_defs evolve_simps update_first_evolves no_clash_update_first merchant_clash_def)
  qed
  subgoal premises p
  proof -
    have "wr_merchant_id (f2 r) = wr_merchant_id r \<and> wr_wallet_id (f2 r) = wr_wallet_id r" for r
      using p [of r] by (auto simp: wallet_step_def dest: arg_cong [where f = wr_merchant_id] arg_cong [where f = wr_wallet_id])
    moreover have "(\<forall>w \<in> set (k_merchant_wallets t). 0 \<le> wr_next_address_index w) \<longrightarrow>
        (\<forall>w \<in> set (update_first c2 f2 (k_merchant_wallets t)). 0 \<le> wr_next_address_index w)"
    proof (intro impI ballI)
      fix w assume pos: "\<forall>w \<in> set (k_merchant_wallets t). 0 \<le> wr_next_address_index w"
        and "w \<in> set (update_first c2 f2 (k_merchant_wallets t))"
      from set_update_first [OF this(2)] show "0 \<le> wr_next_address_index w"
        using pos p by (auto simp: wallet_step_def intro: order_trans)
    qed
    ultimately show ?thesis
      using p by (simp add: mute_defs evolve_simps update_first_evolves no_clash_update_first mongo_wallet_clash_def)
  qed
  subgoal by (simp add: mute_defs evolve_simps update_first_evolves no_clash_update_first key_clash_def)
  subgoal premises p
  proof -
    have "invoice_clash (f4 a) b = invoice_clash a b" "invoice_clash b (f4 a) = invoice_clash b a"
      "ir_invoice_id (f4 a) = ir_invoice_id a" for a b
      using invoice_termsD [OF p [of a]] by (auto simp: invoice_clash_def)
    with p show ?thesis
      by (simp add: mute_defs evolve_simps update_first_evolves no_clash_update_first all_update_first)
  qed
  subgoal by (simp add: mute_defs evolve_simps update_first_evolves no_clash_update_first token_clash_def)
  subgoal by (simp add: mute_defs evolve_simps update_first_evolves no_clash_update_first)
  subgoal premises p
  proof -
    have "delivery_clash (f7 a) b = delivery_clash a b" "delivery_clash b (f7 a) = delivery_clash b a" for a b
      using p [of a] by (auto simp: delivery_clash_def delivery_terms_def)
    with p show ?thesis by (simp add: mute_defs evolve_simps update_first_evolves no_clash_update_first)
  qed
  subgoal by (simp add: mute_defs evolve_simps update_first_evolves)
  done

section \<open>Every statement, as an operation\<close>

lemma mute_exec: "(\<And>t x t'. f t = Some (x, t') \<Longrightarrow> mute t t') \<Longrightarrow> within mute (mongo_exec f)"
  by (rule within_mongo_exec) (rule mute.refl)

lemma quiet_exec: "(\<And>t x t'. f t = Some (x, t') \<Longrightarrow> quiet t t') \<Longrightarrow> within quiet (mongo_exec f)"
  by (rule within_mongo_exec) (rule quiet.refl)

named_theorems mute_rules \<open>operations that are mute\<close>

lemma mute_insert [mute_rules]:
  "within mute (mongo_exec (db_insert k_merchants k_merchants_update merchant_clash r1))"
  "0 \<le> wr_next_address_index r2 \<Longrightarrow>
     within mute (mongo_exec (db_insert k_merchant_wallets k_merchant_wallets_update mongo_wallet_clash r2))"
  "within mute (mongo_exec (db_insert k_api_keys k_api_keys_update key_clash r3))"
  "TrimSpace (ir_invoice_id r4) = ir_invoice_id r4 \<Longrightarrow>
     within mute (mongo_exec (db_insert k_invoices k_invoices_update invoice_clash r4))"
  "within mute (mongo_exec (db_insert k_refunds k_refunds_update refund_clash r5))"
  "within mute (mongo_exec (db_insert k_event_sinks k_event_sinks_update sink_clash r6))"
  "within mute (mongo_exec (db_insert k_event_deliveries k_event_deliveries_update delivery_clash r7))"
  by (rule mute_exec, elim db_insertE, simp only:, rule mute_add, assumption+)+

lemma mute_update [mute_rules]:
  "(\<And>r. merchant_terms r = merchant_terms (f1 r)) \<Longrightarrow>
     within mute (mongo_exec (update_one k_merchants k_merchants_update c1 f1))"
  "(\<And>r. c2 r \<Longrightarrow> key_step r (f2 r)) \<Longrightarrow> (\<And>r. kr_key_id (f2 r) = kr_key_id r \<and> kr_token_hash (f2 r) = kr_token_hash r) \<Longrightarrow>
     within mute (mongo_exec (update_one k_api_keys k_api_keys_update c2 f2))"
  "(\<And>r. invoice_terms r = invoice_terms (f3 r)) \<Longrightarrow>
     within mute (mongo_exec (update_one k_invoices k_invoices_update c3 f3))"
  "(\<And>r. c4 r \<Longrightarrow> deposit_doc_step r (f4 r)) \<Longrightarrow> (\<And>r a. deposit_clash a (f4 r) = deposit_clash a r) \<Longrightarrow>
     (\<And>r a. deposit_clash (f4 r) a = deposit_clash r a) \<Longrightarrow>
     within mute (mongo_exec (update_one k_deposits k_deposits_update c4 f4))"
  "(\<And>r. delivery_terms r = delivery_terms (f5 r)) \<Longrightarrow>
     within mute (mongo_exec (update_one k_event_deliveries k_event_deliveries_update c5 f5))"
  "(\<And>r. case_terms r = case_terms (f6 r)) \<Longrightarrow>
     within mute (mongo_exec (update_one_unique k_review_cases k_review_cases_update mongo_review_clash c6 f6))"
  by (rule mute_exec, elim update_oneE update_one_uniqueE, simp only:, rule mute_change, assumption+)+

lemma mute_upsert [mute_rules]:
  "(\<And>r. fst r = fst (f1 r)) \<Longrightarrow>
     within mute (mongo_exec (upsert_one k_invoice_tokens k_invoice_tokens_update token_clash c1 f1 d1))"
  "(\<And>r. c2 r \<Longrightarrow> deposit_doc_step r (f2 r)) \<Longrightarrow> (\<And>r a. deposit_clash a (f2 r) = deposit_clash a r) \<Longrightarrow>
     (\<And>r a. deposit_clash (f2 r) a = deposit_clash r a) \<Longrightarrow>
     within mute (mongo_exec (upsert_one k_deposits k_deposits_update deposit_clash c2 f2 d2))"
  "within mute (mongo_exec (upsert_one k_review_cases k_review_cases_update mongo_review_clash c3 (\<lambda>d. d) d3))"
  subgoal by (rule mute_exec, erule upsert_oneE) (simp_all only:, rule mute_change, assumption, rule mute_add, assumption)
  subgoal by (rule mute_exec, erule upsert_oneE) (simp_all only:, rule mute_change, assumption+, rule mute_add, assumption)
  subgoal by (rule mute_exec, erule upsert_oneE) (simp_all add: mute.refl mute_add)
  done

lemma quiet_insert [within_rules]:
  "within quiet (mongo_exec (upsert_one k_invoice_events k_invoice_events_update mongo_event_clash c (\<lambda>d. d) d))"
  "within quiet (mongo_exec (db_insert k_outbox_events k_outbox_events_update outbox_clash r))"
  subgoal by (rule quiet_exec, erule upsert_oneE) (simp_all add: quiet.refl quiet_add)
  subgoal by (rule quiet_exec, erule db_insertE) (simp add: quiet_add)
  done

lemma mute_nextSeq [mute_rules]: "within mute (nextSeq key)"
  unfolding nextSeq_def
  by (rule mute_exec) (auto simp: mute_defs evolve_simps Let_def map_of_mput)

lemma mute_next_address [mute_rules]:
  "within mute (mongo_exec (\<lambda>t. Some (g t, k_merchant_wallets_update (update_first c
     (\<lambda>r. r\<lparr>wr_next_address_index := wr_next_address_index r + 1\<rparr>)) t)))"
proof (rule mute_exec)
  fix t x t' assume "Some (g t, k_merchant_wallets_update (update_first c
     (\<lambda>r. r\<lparr>wr_next_address_index := wr_next_address_index r + 1\<rparr>)) t) = Some (x, t')"
  then have "t' = k_merchant_wallets_update (\<lambda>_. update_first c
     (\<lambda>r. r\<lparr>wr_next_address_index := wr_next_address_index r + 1\<rparr>) (k_merchant_wallets t)) t" by (cases t) simp
  then show "mute t t'" by (simp only:) (rule mute_change, simp add: wallet_step_def)
qed

section \<open>Every operation\<close>

text \<open>An id that was just made.\<close>

lemma within_newID:
  assumes "\<And>t. R t t" "\<And>raw. within R (f (p @ ''_'' @ hex_encode raw))"
  shows "within R (db_bind (newID p) f)"
  unfolding within_def
proof
  fix s
  show "R (db_data s) (db_data (snd (db_bind (newID p) f s))) \<and> same_env s (snd (db_bind (newID p) f s))"
  proof (cases "db_rand s (db_ticks s) 16")
    case (Some raw)
    have "db_bind (newID p) f s = f (p @ ''_'' @ hex_encode raw) (db_tick s)"
      by (simp add: newID_def db_bind_def db_random_def db_return_def Some)
    with assms(2) [of raw, unfolded within_def, rule_format, of "db_tick s"] show ?thesis by simp
  qed (simp add: newID_def db_bind_def db_random_def assms(1))
qed

lemma mute_merchants [mute_rules]:
  "within mute (mongo_CreateMerchant name settings)" "within mute (mongo_UpdateMerchantSettings mid settings)"
  "within mute (mongo_SetMerchantWallet mid w)" "within mute (mongo_NextAddressIndex mid)"
  "within mute (mongo_CreateMerchantAPIKey raw mid label)" "within mute (mongo_RevokeMerchantAPIKey key)"
  "within mute (mongo_CreateEventSink req)" "within mute (mongo_UpdateEventDelivery did st att nr le)"
  unfolding mongo_CreateMerchant_def mongo_UpdateMerchantSettings_def mongo_SetMerchantWallet_def
    mongo_NextAddressIndex_def mongo_CreateMerchantAPIKey_def mongo_RevokeMerchantAPIKey_def mongo_CreateEventSink_def
    mongo_UpdateEventDelivery_def Let_def
  subgoal by (intro mute.within_plain mute_rules)
  subgoal by (intro mute.within_plain mute_rules mute.within_reads [OF reads_mongo_sinks(2)]) (simp add: step_defs)
  subgoal by (intro mute.within_plain mute.within_catch mute.within_branch mute_rules mute.within_reads [OF reads_mongo_ops(1)]) simp
  subgoal by (intro mute.within_plain mute_rules)
  subgoal by (intro mute.within_plain mute_rules mute.within_reads [OF reads_mongo_ops(1)])
  subgoal by (intro mute.within_plain mute_rules mute.within_reads [OF reads_mongo(1)]) (simp_all add: step_defs)
  subgoal
    by (auto intro!: mute.within_plain mute_rules mute.within_reads [OF reads_mongo_ops(1)]
        split: EventSinkKind.split raw_message.split json.split)
  subgoal by (intro mute.within_plain mute_rules) (simp add: step_defs)
  done

lemma mute_invoices [mute_rules]:
  "within mute (mongo_PutInvoiceToken iid tok)" "within mute (updateReviewCaseStatus rid vst notes)"
  "within mute (createReviewCase m i reason notes dw dt da)" "within mute (sumDeposits iid sts)"
  "within mute (mongo_unknown_deposit w x a addr am h)"
  unfolding mongo_PutInvoiceToken_def updateReviewCaseStatus_def createReviewCase_def sumDeposits_def
    mongo_unknown_deposit_def Let_def
  subgoal by (intro mute.within_plain mute_rules mute.within_reads [OF reads_mongo_sinks(3)]) simp
  subgoal by (intro mute.within_plain mute_rules) (simp add: case_terms_def)
  subgoal by (intro mute.within_plain mute_rules)
  subgoal
    apply (intro mute.within_plain mute.within_reads [OF reads_mongo(1)])
    by (auto simp: within_def mute.refl split: option.split)
  subgoal
    unfolding createReviewCase_def Let_def by (intro mute.within_plain mute_rules mute.within_reads [OF reads_mongo(1)])
  done

lemma mute_delivery [mute_rules]: "within mute (mongo_insert_delivery m ev now k)"
  unfolding mongo_insert_delivery_def
  by (intro mute.within_plain mute.within_catch mute.within_branch mute_rules)

lemmas quiet_of_mute = mute_rules [THEN mute_quiet]

lemma quiet_enqueue [within_rules]: "within quiet (enqueueOutbox iid typ at dep ref)"
  unfolding enqueueOutbox_def insert_outbox_event_def Let_def
  by (intro quiet.within_plain quiet.within_catch quiet.within_branch within_rules quiet_of_mute
      quiet.within_reads reads_mongo(1) reads_event_refund)

lemma quiet_event [within_rules]: "within quiet (insertInvoiceEvent iid typ at dep ref)"
  unfolding insertInvoiceEvent_def Let_def
  by (intro quiet.within_plain within_rules quiet_of_mute)

lemma quiet_recompute [within_rules]: "within quiet (recomputeInvoiceAggregates iid now)"
  unfolding recomputeInvoiceAggregates_def mongo_status_event_def mongo_status_review_def Let_def
  by (intro quiet.within_plain within_rules quiet_of_mute quiet.within_reads [OF reads_mongo(1)])
    (simp add: step_defs set_amounts_def)

lemma set_deposit_step: "deposit_doc_step r (set_deposit addr h am ht final up r)"
  "deposit_clash a (set_deposit addr h am ht final up r) = deposit_clash a r"
  "deposit_clash (set_deposit addr h am ht final up r) a = deposit_clash r a"
  by (simp_all add: deposit_doc_step_def set_deposit_def deposit_clash_def)

lemma attribute_step:
  "c r \<and> (dr_invoice_id r = None \<or> dr_invoice_id r = Some []) \<Longrightarrow> deposit_doc_step r (r\<lparr>dr_invoice_id := i\<rparr>)"
  "deposit_clash a (r\<lparr>dr_invoice_id := i\<rparr>) = deposit_clash a r" "deposit_clash (r\<lparr>dr_invoice_id := i\<rparr>) a = deposit_clash r a"
  by (auto simp: deposit_doc_step_def deposit_clash_def)

lemma confirm_step: "deposit_doc_step r (confirm_row h now r)"
  "deposit_clash a (confirm_row h now r) = deposit_clash a r" "deposit_clash (confirm_row h now r) a = deposit_clash r a"
  by (simp_all add: deposit_doc_step_def confirm_row_def deposit_clash_def)

lemma quiet_deposit [within_rules]: "within quiet (apply_deposit ev now st p)"
  unfolding apply_deposit_def Let_def
  by (intro quiet.within_plain within_rules quiet_of_mute quiet.within_reads [OF reads_mongo(1)])
    (simp_all add: set_deposit_step attribute_step)

lemma quiet_apply [within_rules]: "within quiet (applyDepositEvent ev)"
  unfolding applyDepositEvent_def Let_def by (intro quiet.within_plain within_rules)

lemma quiet_confirm [within_rules]: "within quiet (mongo_confirm best now ds affected)"
proof (induction ds arbitrary: affected)
  case (Cons d ds)
  show ?case
    unfolding mongo_confirm.simps Let_def
    by (intro quiet.within_plain within_rules quiet_of_mute Cons quiet.within_reads [OF reads_mongo(1)])
      (simp_all add: confirm_step)
qed (simp add: quiet.within_plain)

section \<open>Transactions\<close>

lemma within_WithTransaction:
  assumes "\<And>t. R t t" "within (\<lambda>_ _. True) body"
    and "\<And>u. mg_session u = InTransaction \<Longrightarrow> wp body (\<lambda>_ v. R (db_data u) (db_data v)) u"
  shows "within R (WithTransaction body)"
  unfolding within_def
proof
  fix s
  obtain r t where t: "WithTransaction body s = (r, t)" by fastforce
  have env: "same_env s t"
    by (rule with_transaction_env) (use t assms(2) in \<open>auto simp: WithTransaction_def within_def\<close>)
  have "R (db_data s) (db_data t)"
  proof (cases r)
    case (Inl e)
    with t assms(1) show ?thesis using with_transaction_failed by (metis WithTransaction_def)
  next
    case (Inr x)
    have "wp (WithTransaction body) (\<lambda>_ v. R (db_data s) (db_data v)) s"
      by (rule wp_WithTransaction [where P = "\<lambda>_ v. R (db_data s) v"]) (use assms(3) in fastforce)+
    from wpD [OF this] t Inr show ?thesis by simp
  qed
  with t env show "R (db_data s) (db_data (snd (WithTransaction body s))) \<and> same_env s (snd (WithTransaction body s))"
    by simp
qed

lemma within_wp: "within R m \<Longrightarrow> wp m (\<lambda>_ t. R (db_data s) (db_data t)) s"
  by (rule wpI) (auto dest: withinD)

lemma quiet_transaction: "within quiet body \<Longrightarrow> within quiet (WithTransaction body)"
  by (rule within_WithTransaction) (auto intro: quiet.refl quiet_anything within_wp)

lemma quiet_calls [within_rules]:
  "within quiet (mongo_CreateInvoice req)" "within quiet (mongo_CreateRefund refund_req)"
  "within quiet (mongo_UpdateInvoiceConfirmations best)"
  unfolding mongo_CreateInvoice_def create_invoice_callback_def mongo_CreateRefund_def mongo_UpdateInvoiceConfirmations_def
    Let_def
  subgoal
    apply (intro quiet.within_if quiet.within_basic(2) within_newID quiet.refl)
    apply (intro quiet.within_plain quiet.within_catch quiet.within_branch quiet_transaction within_rules
        quiet_of_mute quiet.within_reads [OF reads_mongo(2)] quiet.within_reads [OF reads_mongo_sinks(4)])
    using trim_id(1) by (simp add: invoice_row_def)
  subgoal
    by (intro quiet.within_plain quiet_transaction within_rules quiet_of_mute
        quiet.within_reads [OF reads_mongo(2)] quiet.within_reads [OF reads_mongo_ops(1)]
        quiet.within_reads [OF reads_mongo_ops(21)])
  subgoal
    by (intro quiet.within_plain quiet_transaction within_rules quiet.within_for
        quiet.within_reads [OF reads_mongo(1)] quiet.within_reads [OF reads_mongo(2)])
  done

lemma quiet_reviews [within_rules]: "within quiet (mongo_ResolveReviewCase rid notes)" "within quiet (mongo_RejectReviewCase rid notes)"
  unfolding mongo_ResolveReviewCase_def mongo_RejectReviewCase_def by (intro quiet_of_mute)+

lemma find_app: "find P (xs @ ys) = (case find P xs of None \<Rightarrow> find P ys | Some x \<Rightarrow> Some x)"
  by (induction xs) auto

lemma sound_upsert_cursor:
  assumes "upsert_one k_scan_cursors k_scan_cursors_update cursor_clash (\<lambda>r. cr_wallet_id r = w)
      (\<lambda>r. r\<lparr>cr_cursor_id := c, cr_last_event_at := l\<rparr>) \<lparr>cr_wallet_id = w, cr_cursor_id = c, cr_last_event_at = l\<rparr> t = Some (b, u)"
    and "doc_cursor w t \<le> c"
  shows "sound t u \<and> doc_cursor w u = c \<and> (\<exists>r. find (\<lambda>r. cr_wallet_id r = w) (k_scan_cursors u) = Some r)"
  using assms(1)
proof (cases rule: upsert_oneE)
  case match
  let ?f = "\<lambda>r. r\<lparr>cr_cursor_id := c, cr_last_event_at := l\<rparr>"
  let ?xs = "k_scan_cursors t"
  obtain r where r: "find (\<lambda>r. cr_wallet_id r = w) ?xs = Some r"
    using match(2) by (cases "find (\<lambda>r. cr_wallet_id r = w) ?xs") (auto simp: find_None_iff list_ex_iff)
  have "table_evolves cursor_step xs (update_first (\<lambda>r. cr_wallet_id r = w) ?f xs)"
    if "find (\<lambda>r. cr_wallet_id r = w) xs = Some x" "cr_cursor_id x \<le> c" for xs x
    using that
  proof (induction xs)
    case (Cons y ys)
    then show ?case
      by (auto simp: table_evolves_def cursor_step_def nth_Cons split: if_splits nat.splits)
  qed simp
  from this [OF r] assms(2) r
  have evolve: "table_evolves cursor_step ?xs (update_first (\<lambda>r. cr_wallet_id r = w) ?f ?xs)" by (simp add: doc_cursor_def)
  have "no_clash cursor_clash (update_first (\<lambda>r. cr_wallet_id r = w) ?f ?xs)" if "no_clash cursor_clash ?xs"
    by (rule no_clash_update_first [OF that]) (simp_all add: cursor_clash_def)
  with evolve have "sound t u"
    by (auto simp: match(3) sound_def mongo_grows_def mongo_keys_def counter_def evolve_simps)
  with r show ?thesis by (simp add: match(3) doc_cursor_def find_update_first)
next
  case insert
  have "sound t u"
    using insert(3) by (simp add: insert(4) sound_def mongo_grows_def mongo_keys_def counter_def evolve_simps doc_keys_append)
  moreover have "find (\<lambda>r. cr_wallet_id r = w) (k_scan_cursors t) = None"
    using insert(2) by (auto simp: find_None_iff list_ex_iff)
  then have "find (\<lambda>r. cr_wallet_id r = w) (k_scan_cursors u) = Some \<lparr>cr_wallet_id = w, cr_cursor_id = c, cr_last_event_at = l\<rparr>"
    by (simp add: insert(4) find_app)
  ultimately show ?thesis by (simp add: doc_cursor_def)
qed

lemma doc_cursor_same: "k_scan_cursors u = k_scan_cursors t \<Longrightarrow> doc_cursor w u = doc_cursor w t"
  by (simp add: doc_cursor_def)

text \<open>The callback of a scan event: it moves the cursor forward, or finds it there.\<close>

definition cursor_at :: "Collections \<Rightarrow> string \<Rightarrow> int64 \<Rightarrow> bool" where
  "cursor_at t w c \<longleftrightarrow> (\<exists>r. find (\<lambda>r. cr_wallet_id r = w) (k_scan_cursors t) = Some r \<and> c \<le> cr_cursor_id r)"

lemma wp_within_at:
  assumes "within R m" "\<And>x t. same_env s t \<Longrightarrow> R (db_data s) (db_data t) \<Longrightarrow> Q x t"
  shows "wp m Q s"
  by (rule wpI) (use withinD [OF assms(1)] assms(2) in blast)

lemma wp_scan_event_callback:
  assumes "0 < se_Cursor ev"
  shows "wp (scan_event_callback ev)
    (\<lambda>_ t. sound (db_data s) (db_data t) \<and> cursor_at (db_data t) (se_WalletID ev) (se_Cursor ev)) s"
  unfolding scan_event_callback_def
  apply (rule wp_bind, rule wp_mongo_query, rule wp_if, rule wp_return)
  subgoal using assms by (auto simp: doc_cursor_def cursor_at_def sound.refl split: option.splits)
  apply (rule wp_bind, rule wp_within_at [where R = quiet])
  subgoal by (intro quiet.within_plain within_rules)
  apply (rule wp_bind, rule wp_within_at [where R = quiet])
  subgoal by (intro quiet.within_plain)
  apply (rule wp_bind, rule wp_mongo_exec, rule wp_return)
  subgoal premises p for x t y t' b u
  proof -
    have q: "quiet (db_data s) (db_data t')" using p quiet.trans by auto
    then have "doc_cursor (se_WalletID ev) (db_data t') = doc_cursor (se_WalletID ev) (db_data s)"
      by (auto simp: quiet_def intro: doc_cursor_same)
    with p(1) have le: "doc_cursor (se_WalletID ev) (db_data t') \<le> se_Cursor ev" by simp
    from sound_upsert_cursor [OF p(7) le] q show ?thesis
      by (auto simp: cursor_at_def doc_cursor_def quiet_def sound_def intro: mongo_grows_trans)
  qed
  done

lemma env_scan_callback: "within (\<lambda>_ _. True) (scan_event_callback ev)"
  unfolding scan_event_callback_def
  by (intro anything.within_plain quiet_anything within_rules anything.within_reads [OF reads_mongo(1)]
      within_mongo_exec) simp_all

lemma within_if_either: "(b \<Longrightarrow> within R m) \<Longrightarrow> (\<not> b \<Longrightarrow> within R m') \<Longrightarrow> within R (if b then m else m')"
  by simp

lemma sound_scan [within_rules]: "within sound (mongo_ApplyScanEvent ev)"
  unfolding mongo_ApplyScanEvent_def Let_def
  apply (intro within_if_either sound.within_basic(2) sound.within_bind sound.within_reads [OF reads_mongo(2)])
  apply (rule within_WithTransaction [OF sound.refl env_scan_callback])
  apply (rule wp_mono, rule wp_scan_event_callback)
  by simp_all

section \<open>Every call\<close>

lemma sound_call:
  assumes "mongo_call s e t"
  shows "sound (db_data s) (db_data t) \<and> same_env s t"
  using assms
  by cases (rule withinD [where R = sound, rotated], assumption,
    (rule sound_scan | rule quiet_sound, rule within_rules | rule quiet_sound, rule quiet_of_mute
      | rule sound.within_reads, rule reads_rules)+)+

lemma sound_step: "mongo_step s t \<Longrightarrow> sound (db_data s) (db_data t) \<and> same_env s t"
  by (cases rule: mongo_step.cases) (auto dest: sound_call withinD [OF quiet_sound [OF mute_quiet [OF mute_merchants(2)]]])

lemma sound_steps: "mongo_step\<^sup>*\<^sup>* s t \<Longrightarrow> sound (db_data s) (db_data t) \<and> same_env s t"
  by (induction rule: rtranclp_induct) (auto dest: sound_step intro: sound.refl sound.trans same_env_trans)

lemma empty_keys: "mongo_keys empty_collections"
  by (simp add: mongo_keys_def empty_collections_def)

end
