(* ===== verification/MongoKeep.thy ===== *)
theory MongoKeep
  imports MongoGrow
begin

text \<open>
  The outbox of the MongoDB store tells its events: every call keeps it so. The insertion of the outbox document is best effort
  in the code, which goes on when its key exists already; but inside a transaction the server has then aborted it, so that
  no event is committed without its outbox document.
\<close>

section \<open>The invariant\<close>

definition tells_doc :: "Collections \<Rightarrow> EventDoc \<Rightarrow> OutboxRow \<Rightarrow> bool" where
  "tells_doc t e x \<longleftrightarrow> (\<exists>iv. find (\<lambda>r. ir_invoice_id r = ed_invoice_id e) (k_invoices t) = Some iv \<and>
     or_merchant_id x = ir_merchant_id iv \<and> ce_ID (or_envelope x) = or_event_id x \<and>
     ce_Type (or_envelope x) = InvoiceEventType_str (ed_type e) \<and>
     ce_Subject (or_envelope x) = ''invoice/'' @ ed_invoice_id e \<and> Unix (ce_Time (or_envelope x)) = ed_occurred_at e)"

definition mongo_ok :: "Collections \<Rightarrow> bool" where
  "mongo_ok t \<longleftrightarrow> mongo_keys t \<and> list_all2 (tells_doc t) (k_invoice_events t) (k_outbox_events t) \<and>
     (\<forall>x \<in> set (k_outbox_events t). 0 < or_id x)"

lemma found_grows:
  assumes "mongo_grows t u" "find (\<lambda>r. ir_invoice_id r = i) (k_invoices t) = Some iv"
  shows "\<exists>iv'. find (\<lambda>r. ir_invoice_id r = i) (k_invoices u) = Some iv' \<and> invoice_terms iv = invoice_terms iv'"
proof -
  have "table_evolves (\<lambda>a b. invoice_terms a = invoice_terms b) (k_invoices t) (k_invoices u)"
    using assms(1) by (simp add: mongo_grows_def)
  then show ?thesis by (rule table_evolves_find) (erule invoice_termsD(2) [symmetric], rule assms(2))
qed

lemma tells_doc_grows: "mongo_grows t u \<Longrightarrow> tells_doc t e x \<Longrightarrow> tells_doc u e x"
proof -
  assume g: "mongo_grows t u" and "tells_doc t e x"
  then obtain iv where iv: "find (\<lambda>r. ir_invoice_id r = ed_invoice_id e) (k_invoices t) = Some iv"
    and x: "or_merchant_id x = ir_merchant_id iv" "ce_ID (or_envelope x) = or_event_id x"
      "ce_Type (or_envelope x) = InvoiceEventType_str (ed_type e)"
      "ce_Subject (or_envelope x) = ''invoice/'' @ ed_invoice_id e" "Unix (ce_Time (or_envelope x)) = ed_occurred_at e"
    unfolding tells_doc_def by blast
  obtain iv' where iv': "find (\<lambda>r. ir_invoice_id r = ed_invoice_id e) (k_invoices u) = Some iv'"
    and t: "invoice_terms iv = invoice_terms iv'" using found_grows [OF g iv] by blast
  show "tells_doc u e x" unfolding tells_doc_def using iv' x invoice_termsD(3) [OF t] by simp
qed

lemma doc_told_grows: "mongo_grows t u \<Longrightarrow> list_all2 (tells_doc t) es xs \<Longrightarrow> list_all2 (tells_doc u) es xs"
  by (erule list_all2_mono) (rule tells_doc_grows)

lemma mongo_ok_mute: "mute t u \<Longrightarrow> mongo_ok t \<Longrightarrow> mongo_ok u"
  by (auto simp: mute_def quiet_def mongo_ok_def intro: doc_told_grows)

section \<open>Sessions\<close>

text \<open>An operation inside a transaction stays inside one, aborted or not.\<close>

definition tied :: "'a mongo \<Rightarrow> bool" where
  "tied m \<longleftrightarrow> (\<forall>s. mg_session s \<noteq> NoTransaction \<longrightarrow> mg_session (snd (m s)) \<noteq> NoTransaction)"

named_theorems tied_rules \<open>operations inside a transaction\<close>

lemma tied_basic [tied_rules]:
  "tied (db_return x)" "tied (db_fail e)" "tied db_now" "tied (db_random n)" "tied (hash32Bytes v)" "tied (db_ranged m)"
  "tied (\<lambda>s. (r, s))"
  by (auto simp: tied_def db_return_def db_fail_def db_now_def db_random_def hash32Bytes_def db_ranged_def split: option.split)

lemma tied_stmt: "tied (mongo_stmt f)"
  by (auto simp: tied_def mongo_stmt_def db_stmt_def split: option.split prod.split sum.split)

lemma tied_stmts [tied_rules]: "tied (mongo_query g)" "tied (mongo_exec h)" "tied (nextSeq key)"
  unfolding mongo_query_def mongo_exec_def nextSeq_def by (rule tied_stmt)+

lemma tied_catch [tied_rules]:
  "tied m \<Longrightarrow> (\<And>x. tied (f x)) \<Longrightarrow> (\<And>e. tied (h e)) \<Longrightarrow>
     tied (\<lambda>s. case m s of (Inr x, t) \<Rightarrow> f x t | (Inl e, t) \<Rightarrow> h e t)"
  unfolding tied_def by (auto split: prod.split sum.split)

lemma tied_bind [tied_rules]: "tied m \<Longrightarrow> (\<And>x. tied (f x)) \<Longrightarrow> tied (db_bind m f)"
  unfolding tied_def db_bind_def by (auto split: prod.split sum.split)

lemma tied_if [tied_rules]: "tied m \<Longrightarrow> tied m' \<Longrightarrow> tied (if b then m else m')"
  "tied m1 \<Longrightarrow> tied m2 \<Longrightarrow> tied (\<lambda>s. if c then m1 s else m2 s)"
  by (auto simp: tied_def)

lemma tied_option [tied_rules]: "tied m \<Longrightarrow> (\<And>x. tied (f x)) \<Longrightarrow> tied (case o' of None \<Rightarrow> m | Some x \<Rightarrow> f x)"
  by (cases o') auto

lemma tied_ids [tied_rules]: "tied (newID p)"
  unfolding newID_def by (intro tied_rules)

lemma tied_for [tied_rules]: "(\<And>x. tied (f x)) \<Longrightarrow> tied (db_for xs f)"
  by (induction xs) (auto intro!: tied_rules)

lemma tied_ops [tied_rules]:
  "tied (event_refund r)" "tied (mongo_insert_delivery m ev now k)" "tied (insert_outbox_event doc)"
  "tied (createReviewCase m i reason notes dw dt da)" "tied (sumDeposits iid sts)"
  "tied (mongo_merchant_exists m)" "tied (mongo_refund_invoice_ok m iid)" "tied (mongo_unknown_deposit w x a addr am h)"
  unfolding event_refund_def mongo_getRefund_def mongo_insert_delivery_def insert_outbox_event_def createReviewCase_def
    sumDeposits_def mongo_merchant_exists_def mongo_GetMerchant_def mongo_refund_invoice_ok_def mongo_GetInvoice_def
    mongo_unknown_deposit_def Let_def
  by (intro tied_rules | simp add: tied_def split: option.split)+

section \<open>An event and its outbox document\<close>

text \<open>What holds between the statements of a transaction that is on its way.\<close>

definition underway :: "MongoStore \<Rightarrow> bool" where
  "underway s \<longleftrightarrow> mongo_ok (db_data s) \<and> mg_session s \<noteq> NoTransaction"

lemma underway_tick [simp]: "underway (db_tick s) = underway s"
  by (simp add: underway_def)

lemma wp_mute:
  assumes "within mute m" "tied m" "underway s"
    and "\<And>x t. underway t \<Longrightarrow> quiet (db_data s) (db_data t) \<Longrightarrow> Q x t"
  shows "wp m Q s"
proof (rule wpI)
  fix x t assume m: "m s = (Inr x, t)"
  have mu: "mute (db_data s) (db_data t)" using withinD [OF assms(1) m] by simp
  have "mg_session (snd (m s)) \<noteq> NoTransaction"
    using assms(2) [unfolded tied_def, rule_format, of s] assms(3) by (simp add: underway_def)
  moreover have "mongo_ok (db_data t)" using mongo_ok_mute [OF mu] assms(3) by (simp add: underway_def)
  ultimately have "underway t" by (simp add: underway_def m)
  then show "Q x t" by (rule assms(4)) (use mu in \<open>simp add: mute_def\<close>)
qed

lemma wp_deliveries_doc:
  assumes "underway s"
  shows "wp (db_for ks (mongo_insert_delivery m ev now)) (\<lambda>_. underway) s"
  by (rule wp_mute [OF _ _ assms]) (intro mute.within_for mute_rules, intro tied_rules)

lemma wp_insert_outbox:
  assumes s: "mongo_keys (db_data s)" "list_all2 (tells_doc (db_data s)) es (k_outbox_events (db_data s))"
      "k_invoice_events (db_data s) = es @ [e]" "mg_session s \<noteq> NoTransaction" "tells_doc (db_data s) e doc"
      "\<forall>x \<in> set (k_outbox_events (db_data s)). 0 < or_id x" "0 < or_id doc"
    and Q: "\<And>t. underway t \<Longrightarrow> Q () t" "\<And>t. mg_session t = Aborted \<Longrightarrow> Q () t"
  shows "wp (insert_outbox_event doc) Q s"
  unfolding insert_outbox_event_def
proof (rule wp_catch_mongo)
  fix n t assume "db_insert k_outbox_events k_outbox_events_update outbox_clash doc (db_data s) = Some (n, t)"
  then have t: "t = k_outbox_events_update (\<lambda>_. k_outbox_events (db_data s) @ [doc]) (db_data s)"
    and new: "\<forall>x \<in> set (k_outbox_events (db_data s)). \<not> outbox_clash doc x" by (auto elim!: db_insertE)
  have g: "quiet (db_data s) t" unfolding t using new by (rule quiet_add(2))
  then have "mongo_keys t" using s(1) by (simp add: quiet_def)
  moreover have "list_all2 (tells_doc t) (es @ [e]) (k_outbox_events (db_data s) @ [doc])"
  proof (rule list_all2_appendI)
    have gr: "mongo_grows (db_data s) t" using g by (simp add: quiet_def)
    show "list_all2 (tells_doc t) es (k_outbox_events (db_data s))" by (rule doc_told_grows [OF gr s(2)])
    show "list_all2 (tells_doc t) [e] [doc]" using tells_doc_grows [OF gr s(5)] by simp
  qed
  ultimately have "mongo_ok t" using s(3,6,7) by (simp add: mongo_ok_def t)
  then show "wp (\<lambda>s. (Inr (), s)) Q (db_tick (s\<lparr>db_data := t\<rparr>))"
    using s(4) by (intro wp_pair Q(1)) (simp add: underway_def)
next
  fix e' and t :: MongoStore assume "mg_session t = Aborted"
  then show "wp (\<lambda>s. if isDuplicateKey e' then (Inr (), s) else (Inl e', s)) Q t"
    by (intro wp_branch wp_pair Q(2))
next
  fix e' and t :: MongoStore assume "mg_session s = NoTransaction"
  with s(4) show "wp (\<lambda>s. if isDuplicateKey e' then (Inr (), s) else (Inl e', s)) Q t" by simp
qed

lemma insert_event_doc:
  assumes "upsert_one k_invoice_events k_invoice_events_update mongo_event_clash c (\<lambda>e. e) e t = Some (b, u)" "mongo_ok t"
  shows "b \<Longrightarrow> mongo_keys u \<and> list_all2 (tells_doc u) (k_invoice_events t) (k_outbox_events u) \<and>
      k_invoice_events u = k_invoice_events t @ [e] \<and> k_invoices u = k_invoices t \<and>
      (\<forall>x \<in> set (k_outbox_events u). 0 < or_id x)"
    "\<not> b \<Longrightarrow> mongo_ok u"
proof -
  show "mongo_ok u" if "\<not> b" using assms that by (auto elim!: upsert_oneE)
  assume b
  then have u: "u = k_invoice_events_update (\<lambda>_. k_invoice_events t @ [e]) t"
    and new: "\<forall>x \<in> set (k_invoice_events t). \<not> mongo_event_clash e x" using assms(1) by (auto elim!: upsert_oneE)
  have g: "quiet t u" unfolding u using new by (rule quiet_add(1))
  then have "mongo_keys u" using assms(2) by (simp add: quiet_def mongo_ok_def)
  moreover have "list_all2 (tells_doc u) (k_invoice_events t) (k_outbox_events t)"
    using g assms(2) by (auto simp: quiet_def mongo_ok_def intro: doc_told_grows)
  ultimately show "mongo_keys u \<and> list_all2 (tells_doc u) (k_invoice_events t) (k_outbox_events u) \<and>
      k_invoice_events u = k_invoice_events t @ [e] \<and> k_invoices u = k_invoices t \<and>
      (\<forall>x \<in> set (k_outbox_events u). 0 < or_id x)" using assms(2) by (simp add: u mongo_ok_def)
qed

text \<open>The last event has no outbox document yet.\<close>

definition untold_doc :: "EventDoc \<Rightarrow> MongoStore \<Rightarrow> bool" where
  "untold_doc e s \<longleftrightarrow> mongo_keys (db_data s) \<and> mg_session s \<noteq> NoTransaction \<and>
     (\<forall>x \<in> set (k_outbox_events (db_data s)). 0 < or_id x) \<and>
     (\<exists>es. k_invoice_events (db_data s) = es @ [e] \<and>
       list_all2 (tells_doc (db_data s)) es (k_outbox_events (db_data s)))"

lemma untold_doc_tick [simp]: "untold_doc e (db_tick s) = untold_doc e s"
  by (simp add: untold_doc_def)

lemma wp_untold:
  assumes "within mute m" "tied m" "untold_doc e s"
    and "\<And>x t. untold_doc e t \<Longrightarrow> mongo_grows (db_data s) (db_data t) \<Longrightarrow> Q x t"
  shows "wp m Q s"
proof (rule wpI)
  fix x t assume m: "m s = (Inr x, t)"
  have mu: "mute (db_data s) (db_data t)" using withinD [OF assms(1) m] by simp
  have "mg_session (snd (m s)) \<noteq> NoTransaction"
    using assms(2) [unfolded tied_def, rule_format, of s] assms(3) by (simp add: untold_doc_def)
  moreover have "list_all2 (tells_doc (db_data t)) es (k_outbox_events (db_data t))"
    if "list_all2 (tells_doc (db_data s)) es (k_outbox_events (db_data s))" for es
    using mu that by (auto simp: mute_def quiet_def intro: doc_told_grows)
  ultimately have "untold_doc e t"
    using mu assms(3) unfolding untold_doc_def by (auto simp: m mute_def quiet_def)
  then show "Q x t" by (rule assms(4)) (use mu in \<open>simp add: mute_def quiet_def\<close>)
qed

lemma aborted_query: "mg_session s = Aborted \<Longrightarrow> wp (db_bind (mongo_query f) g) Q s"
  by (simp add: wp_def db_bind_def mongo_query_def mongo_stmt_def)

lemma wp_conj: "wp m P s \<Longrightarrow> wp m P' s \<Longrightarrow> (\<And>x t. P x t \<Longrightarrow> P' x t \<Longrightarrow> Q x t) \<Longrightarrow> wp m Q s"
  by (auto simp: wp_def split: prod.splits sum.splits)

lemma wp_nextSeq_pos: "wp (nextSeq key) (\<lambda>n _. 0 < n) s"
  unfolding nextSeq_def by (rule wp_mongo_exec) (auto simp: Let_def)

lemma wp_enqueueOutbox:
  assumes e: "ed_invoice_id e = iid" "ed_type e = typ" "ed_occurred_at e = Unix at"
    and iv: "find (\<lambda>r. ir_invoice_id r = iid) (k_invoices (db_data s)) = Some iv" and un: "untold_doc e s"
  shows "wp (enqueueOutbox iid typ at dep ref) (\<lambda>_. underway) s"
  unfolding enqueueOutbox_def Let_def
  apply (rule wp_bind, rule wp_mongo_query)
  apply (simp only: iv option.simps)
  apply (rule wp_bind, rule wp_untold [where e = e])
     apply (rule mute.within_reads, rule reads_event_refund, rule tied_rules, use un in simp)
  subgoal for refund t
    apply (rule wp_bind, rule wp_newID, rule wp_if, rule wp_fail)
    apply (rule wp_bind, rule wp_conj [OF wp_nextSeq_pos])
     apply (rule wp_untold [where e = e and Q = "\<lambda>_ t'. untold_doc e t' \<and> mongo_grows (db_data t) (db_data t')"],
        rule mute_rules, rule tied_rules, simp, simp)
    apply (rule wp_bind, rule wp_now)
    subgoal premises p for raw seq t' now
    proof -
      have g: "mongo_grows (db_data s) (db_data t')" using p(2,5) by (auto intro: mongo_grows_trans)
      obtain iv' where iv': "find (\<lambda>r. ir_invoice_id r = iid) (k_invoices (db_data t')) = Some iv'"
        and "invoice_terms iv = invoice_terms iv'" using found_grows [OF g iv] by blast
      then have m: "ir_merchant_id iv' = ir_merchant_id iv" using invoice_termsD(3) by blast
      obtain es where es: "k_invoice_events (db_data t') = es @ [e]"
        "list_all2 (tells_doc (db_data t')) es (k_outbox_events (db_data t'))"
        using p(5) by (auto simp: untold_doc_def)
      show ?thesis
        apply (rule wp_bind, rule wp_insert_outbox [where es = es and e = e])
              apply (use p(5) in \<open>simp add: untold_doc_def\<close>)
             apply (use es in simp)
            apply (use es in simp)
           apply (use p(5) in \<open>simp add: untold_doc_def\<close>)
            apply (simp add: tells_doc_def e iv' m)
           apply (use p(5) in \<open>simp add: untold_doc_def\<close>)
          apply (use p(4) in simp)
         apply (intro wp_bind wp_mongo_query wp_now wp_deliveries_doc, simp)
        by (rule aborted_query)
    qed
    done
  done

lemma wp_and_within:
  assumes "wp m P s" "within R m" "\<And>x t. P x t \<Longrightarrow> R (db_data s) (db_data t) \<Longrightarrow> Q x t"
  shows "wp m Q s"
  by (rule wpI) (use wpD [OF assms(1)] withinD [OF assms(2)] assms(3) in blast)

lemma wp_event_doc:
  assumes s: "underway s" and iv: "find (\<lambda>r. ir_invoice_id r = TrimSpace iid) (k_invoices (db_data s)) = Some iv"
    and Q: "\<And>t. underway t \<Longrightarrow> quiet (db_data s) (db_data t) \<Longrightarrow> Q () t"
  shows "wp (insertInvoiceEvent iid typ at dep ref) Q s"
proof -
  have "wp (insertInvoiceEvent iid typ at dep ref) (\<lambda>_. underway) s"
    unfolding insertInvoiceEvent_def Let_def
    apply (intro wp_if wp_return s)
    apply (rule wp_bind, rule wp_now)
    apply (intro wp_if wp_return)
    apply (use s in simp)
    apply (rule wp_bind, rule wp_mute, rule mute_rules, rule tied_rules, use s in simp)
    apply (rule wp_bind, rule wp_mongo_exec)
    subgoal premises p for now n t b u
    proof -
      have ok: "mongo_ok (db_data t)" "mg_session t \<noteq> NoTransaction" using p(3) by (simp_all add: underway_def)
      note ins = insert_event_doc [OF p(6) ok(1)]
      obtain iv' where iv': "find (\<lambda>r. ir_invoice_id r = TrimSpace iid) (k_invoices (db_data t)) = Some iv'"
        using found_grows [OF _ iv] p(4) by (auto simp: quiet_def)
      show ?thesis
        apply (rule wp_if, rule wp_return)
        subgoal using ins(2) ok(2) by (simp add: underway_def)
        subgoal premises b
        proof -
          from b have b by simp
          then obtain e where "ed_invoice_id e = TrimSpace iid" "ed_type e = typ"
              "ed_occurred_at e = Unix (if IsZero at then now else at)" "untold_doc e (db_tick (t\<lparr>db_data := u\<rparr>))"
            and same: "k_invoices u = k_invoices (db_data t)"
            using ins(1) ok(2) by (fastforce simp: untold_doc_def)
          then show ?thesis by (intro wp_enqueueOutbox) (use iv' in simp_all)
        qed
        done
    qed
    done
  then show ?thesis
    by (rule wp_and_within [OF _ quiet_event]) (simp add: Q)
qed

section \<open>Invoices and deposits\<close>

lemma wp_underway_query:
  "underway s \<Longrightarrow> (underway (db_tick s) \<Longrightarrow> Q (f (db_data s)) (db_tick s)) \<Longrightarrow> wp (mongo_query f) Q s"
  by (rule wp_mongo_query) simp

lemma found_trimmed:
  assumes "underway s" "find (\<lambda>r. P r) (k_invoices (db_data s)) = Some iv"
  shows "TrimSpace (ir_invoice_id iv) = ir_invoice_id iv"
    "find (\<lambda>r. ir_invoice_id r = ir_invoice_id iv) (k_invoices (db_data s)) = Some iv"
proof -
  have keys: "mongo_keys (db_data s)" using assms(1) by (simp add: underway_def mongo_ok_def)
  have iv: "iv \<in> set (k_invoices (db_data s))" using assms(2) by (auto simp: find_Some_iff)
  with keys show "TrimSpace (ir_invoice_id iv) = ir_invoice_id iv" by (simp add: mongo_keys_def)
  show "find (\<lambda>r. ir_invoice_id r = ir_invoice_id iv) (k_invoices (db_data s)) = Some iv"
    by (rule find_unique [where clash = invoice_clash])
      (use keys iv in \<open>auto simp: mongo_keys_def invoice_clash_def\<close>)
qed

lemma wp_status_event_doc:
  assumes "underway s" "find (\<lambda>r. ir_invoice_id r = TrimSpace iid) (k_invoices (db_data s)) = Some iv"
  shows "wp (mongo_status_event iid st now) (\<lambda>_. underway) s"
  unfolding mongo_status_event_def
  by (intro wp_if wp_return assms(1) wp_event_doc [OF assms])

lemma wp_recompute_doc:
  assumes s: "underway s"
  shows "wp (recomputeInvoiceAggregates iid now) (\<lambda>_. underway) s"
  unfolding recomputeInvoiceAggregates_def Let_def
  apply (intro wp_if wp_return s)
  apply (rule wp_bind, rule wp_mute [OF _ _ s], intro mute.within_plain, intro tied_rules)
  apply (rule wp_bind, rule wp_mute, rule mute_rules, rule tied_rules, assumption)
  apply (rule wp_bind, rule wp_mute, rule mute_rules, rule tied_rules, assumption)
  apply (rule wp_bind, rule wp_underway_query, assumption, rule wp_option, rule wp_fail)
  apply (rule wp_bind, rule wp_mute, rule mute_rules)
     apply (simp add: step_defs set_amounts_def)
    apply (rule tied_rules)
   apply assumption
  apply (rule wp_if, rule wp_return, assumption)
  subgoal premises p for now t pending u confirmed v iv n w
  proof -
    have "mongo_grows (db_data (db_tick v)) (db_data w)" using p(11) by (simp add: quiet_def)
    from found_grows [OF this] p(9) obtain iv' where iv': "find (\<lambda>r. ir_invoice_id r = TrimSpace iid) (k_invoices (db_data w)) = Some iv'"
      by auto
    show ?thesis
      apply (rule wp_bind, rule wp_mono, rule wp_status_event_doc [OF p(10)])
      using iv' apply simp
      unfolding mongo_status_review_def Let_def
      by (rule wp_mute) (intro mute.within_plain mute_rules, intro tied_rules, assumption)
  qed
  done

lemma wp_recomputes:
  "underway s \<Longrightarrow> wp (db_for xs (\<lambda>iid. recomputeInvoiceAggregates iid now)) (\<lambda>_. underway) s"
  by (rule wp_for) (rule wp_recompute_doc)

lemma wp_paid:
  assumes "underway s" "find (\<lambda>r. ir_invoice_id r = TrimSpace a) (k_invoices (db_data s)) = Some iv"
  shows "wp (db_bind (if st = DepositDetected then insertInvoiceEvent a typ1 at dep ref
      else if st = DepositConfirmed then insertInvoiceEvent a typ2 at dep ref else db_return ())
      (\<lambda>_. recomputeInvoiceAggregates a now)) (\<lambda>_. underway) s"
  by (intro wp_bind wp_if wp_return wp_event_doc [OF assms] wp_recompute_doc assms(1))

lemma applied_found:
  assumes "underway s" "a = (case find P (k_invoices (db_data s)) of None \<Rightarrow> [] | Some r \<Rightarrow> if b r then ir_invoice_id r else [])"
    "a \<noteq> []" "mongo_grows (db_data s) (db_data t)"
  shows "\<exists>iv. find (\<lambda>r. ir_invoice_id r = TrimSpace a) (k_invoices (db_data t)) = Some iv"
proof -
  obtain r where r: "find P (k_invoices (db_data s)) = Some r" "a = ir_invoice_id r"
    using assms(2,3) by (auto split: option.splits if_splits)
  with found_trimmed [OF assms(1) r(1)] show ?thesis using found_grows [OF assms(4)] by fastforce
qed

lemma wp_apply_doc:
  assumes s: "underway s"
  shows "wp (apply_deposit ev now st p) (\<lambda>_. underway) s"
  unfolding apply_deposit_def Let_def
  apply (intro wp_if wp_return s)
  apply (rule wp_bind, rule wp_hash)
  apply (rule wp_bind, rule wp_underway_query, rule s)
  apply (rule wp_bind, rule wp_underway_query, assumption)
  apply (rule wp_bind, rule wp_mute, rule mute_rules, rule tied_rules, assumption)
  apply (rule wp_bind, rule wp_mute, rule mute_rules)
       apply (simp_all add: set_deposit_step)[3]
    apply (rule tied_rules, assumption)
  apply (rule wp_bind, rule wp_mute)
     apply (intro mute.within_plain mute_rules)
       apply (simp_all add: attribute_step)[3]
    apply (intro tied_rules, assumption)
  apply (rule wp_if)
   apply (rule wp_mute, rule mute_rules, rule tied_rules, assumption, assumption)
  subgoal premises q for n t b u x v
  proof -
    have "mongo_grows (db_data s) (db_data v)"
      using q(5,7,9) by (auto simp: quiet_def intro: mongo_grows_trans)
    from applied_found [OF s refl q(10) this] show ?thesis by (elim exE) (rule wp_paid [OF q(8)])
  qed
  done

lemma wp_applyDepositEvent: "underway s \<Longrightarrow> wp (applyDepositEvent ev) (\<lambda>_. underway) s"
  unfolding applyDepositEvent_def
  by (intro wp_bind wp_now wp_if wp_return wp_option wp_fail wp_apply_doc) simp_all

section \<open>The callbacks\<close>

lemma mongo_ok_sound:
  "sound t u \<Longrightarrow> k_invoice_events u = k_invoice_events t \<Longrightarrow> k_outbox_events u = k_outbox_events t \<Longrightarrow> mongo_ok t \<Longrightarrow> mongo_ok u"
  by (auto simp: sound_def mongo_ok_def intro: doc_told_grows)

lemma wp_scan_underway:
  assumes s: "underway s"
  shows "wp (scan_event_callback ev) (\<lambda>_. underway) s"
  unfolding scan_event_callback_def
  apply (rule wp_bind, rule wp_underway_query, rule s, rule wp_if, rule wp_return, assumption)
  apply (rule wp_bind, rule wp_and_within [where R = quiet and P = "\<lambda>_. underway"])
    apply (intro wp_if wp_return wp_applyDepositEvent, assumption, assumption)
   apply (intro quiet.within_plain within_rules)
  apply (rule wp_bind, rule wp_mute, intro mute.within_plain, intro tied_rules, assumption)
  apply (rule wp_bind, rule wp_mongo_exec, rule wp_return)
  subgoal premises p for x t y t' b u
  proof -
    have "k_scan_cursors (db_data t') = k_scan_cursors (db_data s)" using p by (simp add: quiet_def)
    then have "doc_cursor (se_WalletID ev) (db_data t') = doc_cursor (se_WalletID ev) (db_data s)" by (rule doc_cursor_same)
    with p(2) have le: "doc_cursor (se_WalletID ev) (db_data t') \<le> se_Cursor ev" by simp
    have "k_invoice_events u = k_invoice_events (db_data t') \<and> k_outbox_events u = k_outbox_events (db_data t')"
      using p(8) by (auto elim!: upsert_oneE)
    with sound_upsert_cursor [OF p(8) le] p(5) show ?thesis by (auto simp: underway_def intro: mongo_ok_sound)
  qed
  done

lemma wp_confirm_docs: "underway s \<Longrightarrow> wp (mongo_confirm best now ds affected) (\<lambda>_. underway) s"
proof (induction ds arbitrary: affected s)
  case (Cons d ds)
  show ?case
    unfolding mongo_confirm.simps Let_def
    apply (rule wp_option, rule Cons.IH, rule Cons.prems)
    apply (rule wp_bind, rule wp_underway_query, rule Cons.prems, rule wp_option, rule Cons.IH, assumption)
    apply (rule wp_if, rule Cons.IH, assumption)
    apply (rule wp_bind, rule wp_mute, rule mute_rules)
         apply (simp_all add: confirm_step)[3]
      apply (rule tied_rules, assumption)
    apply (rule wp_if, rule Cons.IH, assumption)
    subgoal premises p for i iv n t
    proof -
      have i: "ir_invoice_id iv = i" using p(3) by (auto simp: find_Some_iff)
      have "mongo_grows (db_data s) (db_data t)" using p(6) by (simp add: quiet_def)
      with found_grows [OF this p(3)] found_trimmed(1) [OF Cons.prems p(3)] obtain iv'
        where "find (\<lambda>r. ir_invoice_id r = TrimSpace i) (k_invoices (db_data t)) = Some iv'" by (auto simp: i)
      then show ?thesis by (intro wp_bind wp_event_doc [OF p(5)] Cons.IH)
    qed
    done
qed (simp add: wp_return)

text \<open>An invoice that was just inserted.\<close>

lemma found_inserted:
  assumes "db_insert k_invoices k_invoices_update invoice_clash r t = Some (n, u)" "ir_invoice_id r = i"
  shows "\<exists>iv. find (\<lambda>r. ir_invoice_id r = i) (k_invoices u) = Some iv"
  using assms by (auto elim!: db_insertE simp: find_app split: option.split)

lemma wp_create_invoice:
  assumes "underway s" "TrimSpace iid = iid"
  shows "wp (create_invoice_callback req iid now ext addr) (\<lambda>_. underway) s"
  unfolding create_invoice_callback_def
  apply (rule wp_bind, rule wp_mute, rule mute_rules, rule tied_rules, rule assms)
  apply (rule wp_bind, rule wp_conj [where P = "\<lambda>_. underway"
      and P' = "\<lambda>_ t. \<exists>iv. find (\<lambda>r. ir_invoice_id r = iid) (k_invoices (db_data t)) = Some iv"])
    apply (rule wp_mute, rule mute_rules, simp add: invoice_row_def assms, rule tied_rules, assumption, assumption)
   apply (rule wp_mongo_exec, simp, rule found_inserted, assumption, simp add: invoice_row_def)
  apply (simp, elim exE)
  by (intro wp_bind wp_event_doc wp_return) (simp_all add: assms)

text \<open>The callback of a refund: its invoice is there.\<close>

lemma wp_refund_invoice:
  assumes "underway s" "iid = TrimSpace iid0"
  shows "wp (mongo_refund_invoice_ok m iid)
    (\<lambda>_ t. underway t \<and> (iid = [] \<or> (\<exists>iv. find (\<lambda>r. ir_invoice_id r = TrimSpace iid) (k_invoices (db_data t)) = Some iv))) s"
  unfolding mongo_refund_invoice_ok_def mongo_GetInvoice_def Let_def
  apply (rule wp_if, rule wp_return, simp add: assms)
  apply (rule wp_bind, rule wp_if, rule wp_return, rule wp_option, rule wp_fail)
   apply simp
  apply (rule wp_mongo_query, rule wp_option, rule wp_fail, rule wp_if, rule wp_fail, rule wp_return)
  using assms by auto

lemma wp_refund_callback:
  assumes "underway s" "iid = TrimSpace iid0"
  shows "wp (db_bind (mongo_merchant_exists m) (\<lambda>_. db_bind (mongo_refund_invoice_ok m iid) (\<lambda>_.
      db_bind (nextSeq ''refund_seq'') (\<lambda>seq.
      db_bind (mongo_exec (db_insert k_refunds k_refunds_update refund_clash (row seq))) (\<lambda>_.
      if iid \<noteq> [] then insertInvoiceEvent iid k now None r else db_return ()))))) (\<lambda>_. underway) s"
  apply (rule wp_bind, rule wp_mute, rule mute.within_reads, rule reads_mongo_ops, rule tied_rules, rule assms)
  apply (rule wp_bind, rule wp_mono, rule wp_refund_invoice, assumption, rule assms)
  apply (rule wp_bind, rule wp_mute, rule mute_rules, rule tied_rules, simp)
  apply (rule wp_bind, rule wp_mute, rule mute_rules, rule tied_rules, assumption)
  apply (rule wp_if)
  subgoal premises p for x t xa ta xb tb xc tc
  proof -
    have g: "mongo_grows (db_data ta) (db_data tc)" using p by (auto simp: quiet_def intro: mongo_grows_trans)
    obtain iv where iv: "find (\<lambda>r. ir_invoice_id r = TrimSpace iid) (k_invoices (db_data ta)) = Some iv" using p by auto
    from found_grows [OF g iv] show ?thesis by (elim exE conjE) (rule wp_event_doc [OF p(6)])
  qed
  by (rule wp_return)

section \<open>Every call\<close>

text \<open>A call of the store is made outside transactions.\<close>

lemma keep_transaction:
  assumes "mongo_ok (db_data s)" "\<And>u. underway u \<Longrightarrow> wp body (\<lambda>_. underway) u"
  shows "wp (WithTransaction body) (\<lambda>_ t. mongo_ok (db_data t)) s"
proof (rule wp_WithTransaction [where P = "\<lambda>_. mongo_ok"])
  fix u :: MongoStore assume "db_data u = db_data s" "mg_session u = InTransaction"
  then have "underway u" using assms(1) by (simp add: underway_def)
  then show "wp body (\<lambda>x v. mongo_ok (db_data v)) u" by (rule wp_mono [OF assms(2)]) (simp add: underway_def)
qed

lemma wp_session: "mongo_ok (db_data s) \<Longrightarrow> (\<And>t. mongo_ok (db_data t) \<Longrightarrow> wp m Q t) \<Longrightarrow> wp (db_bind StartSession (\<lambda>_. m)) Q s"
  unfolding StartSession_def by (intro wp_bind wp_mongo_query) simp

lemma keep_scan: "mongo_ok (db_data s) \<Longrightarrow> wp (mongo_ApplyScanEvent ev) (\<lambda>_ t. mongo_ok (db_data t)) s"
  unfolding mongo_ApplyScanEvent_def Let_def
  by (intro wp_if wp_fail wp_session keep_transaction wp_scan_underway)

lemma keep_confirmations: "mongo_ok (db_data s) \<Longrightarrow> wp (mongo_UpdateInvoiceConfirmations best) (\<lambda>_ t. mongo_ok (db_data t)) s"
  unfolding mongo_UpdateInvoiceConfirmations_def
  apply (intro wp_session keep_transaction, assumption, assumption)
  apply (rule wp_bind, rule wp_now, rule wp_bind, rule wp_underway_query, simp)
  apply (rule wp_bind, rule wp_mono, rule wp_confirm_docs, assumption)
  apply (rule wp_bind, rule wp_mute, intro mute.within_plain, rule tied_rules, assumption)
  by (rule wp_recomputes)

lemma keep_refund: "mongo_ok (db_data s) \<Longrightarrow> wp (mongo_CreateRefund req) (\<lambda>_ t. mongo_ok (db_data t)) s"
  unfolding mongo_CreateRefund_def Let_def
  apply (intro wp_if [where m = "db_fail _"] wp_fail)
  apply (rule wp_bind, rule wp_newID, rule wp_bind, rule wp_now)
  apply (rule wp_session, simp)
  apply (rule wp_bind, rule wp_mono, rule keep_transaction, assumption)
   apply (rule wp_refund_callback, assumption, rule refl)
  by (rule wp_return)

lemma wp_caught:
  assumes "wp m (\<lambda>x t. wp (f x) Q t) s" "atomic m" "\<And>e t. db_data t = db_data s \<Longrightarrow> wp (h e) Q t"
  shows "wp (\<lambda>s. case m s of (Inr x, t) \<Rightarrow> f x t | (Inl e, t) \<Rightarrow> h e t) Q s"
proof (cases "m s")
  case (Pair r t)
  with assms(1) assms(3) [of t] atomicD [OF assms(2)] show ?thesis by (cases r) (simp_all add: wp_def)
qed

lemma keep_invoice: "mongo_ok (db_data s) \<Longrightarrow> wp (mongo_CreateInvoice req) (\<lambda>_ t. mongo_ok (db_data t)) s"
  unfolding mongo_CreateInvoice_def Let_def
  apply (intro wp_if [where m = "db_fail _"] wp_fail)
  apply (rule wp_bind, rule wp_newID, rule wp_bind, rule wp_now, rule wp_bind, rule wp_hash, rule wp_bind, rule wp_hash)
  subgoal premises p for raw now
  proof -
    have tx: "wp (WithTransaction (create_invoice_callback r i now e a)) (\<lambda>_ t. mongo_ok (db_data t)) t"
      if "mongo_ok (db_data t)" "TrimSpace i = i" for r i e a t
      by (rule keep_transaction [OF that(1)]) (rule wp_create_invoice [OF _ that(2)])
    show ?thesis
      apply (rule wp_session, use p in simp)
      apply (rule wp_caught)
         apply (rule wp_mono)
         apply (rule tx, assumption)
         apply (use trim_id(1) in simp)
        apply (simp add: wp_def)
       apply (rule atomic_transaction)
      apply (intro wp_branch wp_pair)
      unfolding findInvoiceByExternal_def
      by (intro wp_bind wp_mongo_query wp_option wp_fail wp_if wp_return) simp_all
  qed
  done

lemma mongo_ok_reads: "reads m \<Longrightarrow> mongo_ok (db_data s) \<Longrightarrow> wp m (\<lambda>_ t. mongo_ok (db_data t)) s"
  by (rule wpI) (simp add: readsD)

lemma mongo_ok_muted: "within mute m \<Longrightarrow> mongo_ok (db_data s) \<Longrightarrow> wp m (\<lambda>_ t. mongo_ok (db_data t)) s"
  by (rule wpI) (blast dest: withinD intro: mongo_ok_mute)

lemma keep_reviews:
  "mongo_ok (db_data s) \<Longrightarrow> wp (mongo_ResolveReviewCase rid notes) (\<lambda>_ t. mongo_ok (db_data t)) s"
  "mongo_ok (db_data s) \<Longrightarrow> wp (mongo_RejectReviewCase rid notes) (\<lambda>_ t. mongo_ok (db_data t)) s"
  unfolding mongo_ResolveReviewCase_def mongo_RejectReviewCase_def by (simp_all add: mongo_ok_muted mute_rules)

lemma mongo_call_ok:
  assumes "mongo_call s e t" "mongo_ok (db_data s)"
  shows "mongo_ok (db_data t)"
proof (cases "e = None")
  case False
  then show ?thesis using mongo_call_atomic [OF assms(1)] assms(2) by simp
next
  case True
  have *: "mongo_ok (db_data t)" if "m s = (r, t)" "failure r = None" "wp m (\<lambda>_ t. mongo_ok (db_data t)) s" for m r
    using that by (cases r) (auto dest: wpD)
  show ?thesis
    using assms(1)
    by cases (rule *, assumption, use True in simp,
      (rule keep_scan keep_confirmations keep_refund keep_invoice keep_reviews
        | rule mongo_ok_muted, rule mute_rules | rule mongo_ok_reads, rule reads_rules), rule assms(2))+
qed

lemma mongo_step_ok: "mongo_step s t \<Longrightarrow> mongo_ok (db_data s) \<Longrightarrow> mongo_ok (db_data t)"
  by (cases rule: mongo_step.cases) (auto dest: mongo_call_ok withinD [OF mute_merchants(2)] intro: mongo_ok_mute)

lemma mongo_reach_ok: "mongo_reach s \<Longrightarrow> mongo_ok (db_data s)"
proof (induction rule: mongo_reach.induct)
  case (mongo_open s)
  then show ?case using empty_keys by (simp add: mongo_ok_def empty_collections_def)
qed (rule mongo_step_ok)

end
