(* ===== verification/MongoSession.thy ===== *)
theory MongoSession
  imports MongoKeep
begin

text \<open>
  No call of the MongoDB store leaves its transaction open: outside of calls there is none, which every statement of the next
  call relies on.
\<close>

section \<open>Outside transactions\<close>

text \<open>No call leaves its transaction open.\<close>

definition outside :: "'a mongo \<Rightarrow> bool" where
  "outside m \<longleftrightarrow> (\<forall>s. mg_session s = NoTransaction \<longrightarrow> mg_session (snd (m s)) = NoTransaction)"

named_theorems outside_rules \<open>operations that leave no transaction open\<close>

lemma outside_basic [outside_rules]:
  "outside (db_return x)" "outside (db_fail e)" "outside db_now" "outside (db_random n)" "outside (hash32Bytes v)"
  "outside (db_ranged m)" "outside (\<lambda>s. (r, s))"
  by (auto simp: outside_def db_return_def db_fail_def db_now_def db_random_def hash32Bytes_def db_ranged_def split: option.split)

lemma outside_stmt: "outside (mongo_stmt f)"
  by (auto simp: outside_def mongo_stmt_def db_stmt_def split: option.split prod.split sum.split)

lemma outside_stmts [outside_rules]: "outside (mongo_query g)" "outside (mongo_exec h)" "outside (nextSeq key)" "outside StartSession"
  unfolding mongo_query_def mongo_exec_def nextSeq_def StartSession_def by (rule outside_stmt)+

lemma outside_catch [outside_rules]:
  "outside m \<Longrightarrow> (\<And>x. outside (f x)) \<Longrightarrow> (\<And>e. outside (h e)) \<Longrightarrow>
     outside (\<lambda>s. case m s of (Inr x, t) \<Rightarrow> f x t | (Inl e, t) \<Rightarrow> h e t)"
  unfolding outside_def by (auto split: prod.split sum.split)

lemma outside_bind [outside_rules]: "outside m \<Longrightarrow> (\<And>x. outside (f x)) \<Longrightarrow> outside (db_bind m f)"
  unfolding outside_def db_bind_def by (auto split: prod.splits sum.splits)

lemma outside_if [outside_rules]: "outside m \<Longrightarrow> outside m' \<Longrightarrow> outside (if b then m else m')"
  "outside m1 \<Longrightarrow> outside m2 \<Longrightarrow> outside (\<lambda>s. if c then m1 s else m2 s)"
  by (auto simp: outside_def)

lemma outside_option [outside_rules]: "outside m \<Longrightarrow> (\<And>x. outside (f x)) \<Longrightarrow> outside (case o' of None \<Rightarrow> m | Some x \<Rightarrow> f x)"
  by (cases o') auto

lemma outside_ids [outside_rules]: "outside (newID p)" "outside (encryptToken i tok)"
  unfolding newID_def encryptToken_def
  subgoal by (intro outside_rules)
  subgoal by (auto simp: outside_def db_bind_def db_random_def split: option.split)
  done

lemma outside_for [outside_rules]: "(\<And>x. outside (f x)) \<Longrightarrow> outside (db_for xs f)"
  by (induction xs) (auto intro!: outside_rules)

lemma outside_transaction [outside_rules]: "outside (WithTransaction body)"
proof -
  have "mg_session t = NoTransaction" if "with_transaction n body s = (r, t)" for n s r t
    using that
  proof (induction n arbitrary: s)
    case 0
    then show ?case by (auto elim: run_callback_result)
  next
    case (Suc n)
    obtain b u where u: "run_callback body s = (b, u)" by fastforce
    then have "mg_session u = NoTransaction" by (auto elim: run_callback_result)
    with Suc u show ?case by (auto split: sum.splits if_splits)
  qed
  then show ?thesis by (auto simp: outside_def WithTransaction_def) (metis prod.collapse)
qed

lemma outside_decrypt [outside_rules]: "outside (decryptToken msg i enc)"
  by (auto simp: outside_def decryptToken_def split: option.split)

lemma outside_gets [outside_rules]: "outside (mongo_GetEventSink k)" "outside (mongo_GetMerchant mid)" "outside (mongo_GetInvoice i)"
    "outside (findInvoiceByExternal mid e h)" "outside (event_refund r)"
  unfolding mongo_GetEventSink_def mongo_GetMerchant_def mongo_GetInvoice_def findInvoiceByExternal_def event_refund_def
    mongo_getRefund_def Let_def
  by (intro outside_rules)+

lemma outside_exists [outside_rules]: "outside (mongo_merchant_exists mid)"
  unfolding mongo_merchant_exists_def by (intro outside_rules)

lemma outside_events [outside_rules]: "outside (mongo_events iid docs)"
  by (induction docs) (auto intro!: outside_rules)

lemma outside_due [outside_rules]: "outside (mongo_due n ds)"
  by (induction ds arbitrary: n) (auto intro!: outside_rules)

lemma outside_Init [outside_rules]: "outside mongo_Init"
  unfolding mongo_Init_def ensure_def by (rule outside_for) (auto intro!: outside_rules split: prod.split)

lemma outside_writes [outside_rules]:
  "outside (mongo_CreateMerchant name settings)" "outside (mongo_UpdateMerchantSettings mid settings)"
  "outside (mongo_SetMerchantWallet mid w)" "outside (mongo_NextAddressIndex mid)"
  "outside (mongo_CreateMerchantAPIKey raw mid label)" "outside (mongo_RevokeMerchantAPIKey key)"
  "outside (mongo_CreateInvoice req)" "outside (mongo_PutInvoiceToken iid tok)" "outside (mongo_ApplyScanEvent ev)"
  "outside (mongo_UpdateInvoiceConfirmations best)" "outside (mongo_CreateRefund refund_req)"
  "outside (mongo_ResolveReviewCase rid notes)" "outside (mongo_RejectReviewCase rid notes)"
  "outside (mongo_CreateEventSink sink_req)" "outside (mongo_UpdateEventDelivery did st att nr le)"
  unfolding mongo_CreateMerchant_def mongo_UpdateMerchantSettings_def mongo_SetMerchantWallet_def mongo_NextAddressIndex_def
    mongo_CreateMerchantAPIKey_def mongo_RevokeMerchantAPIKey_def mongo_CreateInvoice_def mongo_PutInvoiceToken_def
    mongo_ApplyScanEvent_def mongo_UpdateInvoiceConfirmations_def mongo_CreateRefund_def mongo_ResolveReviewCase_def
    mongo_RejectReviewCase_def updateReviewCaseStatus_def mongo_CreateEventSink_def mongo_UpdateEventDelivery_def
    Let_def
  by (intro outside_rules | simp split: EventSinkKind.split raw_message.split json.split | intro conjI allI impI)+

lemma outside_reads [outside_rules]:
  "outside mongo_ListMerchants" "outside (mongo_GetMerchantWallet m)"
  "outside mongo_ListMerchantWallets" "outside (mongo_LookupMerchantIDByAPIKey key)" "outside (mongo_ListMerchantAPIKeys m)"
  "outside (mongo_FindInvoiceByExternalOrderID m oid)" "outside (mongo_ListInvoices f1)"
  "outside (mongo_GetInvoiceToken iid)" "outside (mongo_ScanCursor w)" "outside (mongo_ListInvoiceEvents iid after lim)"
  "outside (mongo_ListDeposits f2)" "outside (mongo_ListRefunds f3)" "outside (mongo_ListReviewCases f4)"
  "outside (mongo_ListEventSinks m)" "outside (mongo_ListOutboundEvents m after lim)" "outside (mongo_ListEventDeliveries f5)"
  "outside (mongo_ListDueDeliveries now lim)" "outside mongo_ScannerStatus" "outside mongo_PendingDeliveries"
  unfolding mongo_ListMerchants_def mongo_GetMerchantWallet_def
      mongo_ListMerchantWallets_def mongo_LookupMerchantIDByAPIKey_def mongo_ListMerchantAPIKeys_def
      mongo_FindInvoiceByExternalOrderID_def mongo_ListInvoices_def mongo_GetInvoiceToken_def mongo_ScanCursor_def
      mongo_ListInvoiceEvents_def mongo_ListDeposits_def mongo_ListRefunds_def mongo_ListReviewCases_def
      mongo_ListEventSinks_def mongo_ListOutboundEvents_def mongo_ListEventDeliveries_def mongo_ListDueDeliveries_def
      mongo_ScannerStatus_def mongo_PendingDeliveries_def Let_def
  by (intro outside_rules)+

lemma outsideD: "outside m \<Longrightarrow> m s = (r, t) \<Longrightarrow> mg_session s = NoTransaction \<Longrightarrow> mg_session t = NoTransaction"
  by (metis outside_def snd_conv)

lemma mongo_call_outside:
  assumes "mongo_call s e t" "mg_session s = NoTransaction"
  shows "mg_session t = NoTransaction"
  using assms(1) by cases (rule outsideD, rule outside_rules, assumption, rule assms(2))+

lemma mongo_step_outside: "mongo_step s t \<Longrightarrow> mg_session s = NoTransaction \<Longrightarrow> mg_session t = NoTransaction"
  by (cases rule: mongo_step.cases) (auto dest: mongo_call_outside outsideD [OF outside_writes(2)])

lemma mongo_reach_outside: "mongo_reach s \<Longrightarrow> mg_session s = NoTransaction"
  by (induction rule: mongo_reach.induct) (auto dest: mongo_step_outside)

lemma mongo_reach_steps: "mongo_reach s \<Longrightarrow> mongo_step\<^sup>*\<^sup>* s t \<Longrightarrow> mongo_reach t"
  by (rotate_tac, induction rule: rtranclp_induct) (auto intro: mongo_next)

end
