(* ===== verification/MongoProps.thy ===== *)
theory MongoProps
  imports MongoSession SqlAgain
begin

text \<open>
  The properties of the MongoDB store, and of the program with the MongoDB store behind it.
\<close>

section \<open>A database to try\<close>

definition demo_mongo :: MongoStore where
  "demo_mongo = \<lparr>db_data = empty_collections, db_hash = (\<lambda>m. m), db_seal = (\<lambda>n p d. rev p), db_open = (\<lambda>n c d. Some (rev c)),
     db_clock = (\<lambda>n. unix_time 100), db_rand = (\<lambda>k n. Some (replicate n (char_of k))), db_fault = (\<lambda>_. None),
     db_order = (\<lambda>_ _. 0), db_ticks = 0, mg_session = NoTransaction, mg_attempts = 1, mg_transient = (\<lambda>_. True),
     mg_overflow = (\<lambda>_. None)\<rparr>"

lemma demo_mongo_reach: "mongo_reach demo_mongo"
  by (rule mongo_open) (simp_all add: demo_mongo_def)

definition demo_mongo_merchant :: MongoStore where
  "demo_mongo_merchant = snd (mongo_CreateMerchant ''shop'' demo_settings demo_mongo)"

definition demo_mongo_invoice :: MongoStore where
  "demo_mongo_invoice = snd (mongo_CreateInvoice demo_sql_req demo_mongo_merchant)"

lemma demo_mongo_step: "mongo_step demo_mongo demo_mongo_merchant" "mongo_step demo_mongo_merchant demo_mongo_invoice"
  unfolding demo_mongo_merchant_def demo_mongo_invoice_def
  by (rule mongo_step_call [OF mongo_call.intros(1) [OF prod.collapse [symmetric]]],
      rule mongo_step_call [OF mongo_call.intros(6) [OF prod.collapse [symmetric]]])

lemma demo_mongo_reaches: "mongo_reach demo_mongo_merchant" "mongo_reach demo_mongo_invoice"
  using demo_mongo_reach demo_mongo_step mongo_next by blast+

lemma demo_mongo_env: "same_env demo_mongo demo_mongo_merchant" "same_env demo_mongo demo_mongo_invoice"
  using demo_mongo_step sound_step same_env_trans by blast+

lemma demo_mongo_created:
  "\<exists>iv. mongo_CreateInvoice demo_sql_req demo_mongo_merchant = (Inr (iv, True), demo_mongo_invoice)"
proof -
  have "case fst (mongo_CreateInvoice demo_sql_req demo_mongo_merchant) of Inr (_, b) \<Rightarrow> b | _ \<Rightarrow> False"
    by code_simp
  then show ?thesis by (auto simp: demo_mongo_invoice_def prod_eq_iff split: sum.splits prod.splits)
qed

section \<open>Every run\<close>

text \<open>C11: No two documents clash on a unique index, and the outbox tells the invoice events one by one, in order.\<close>

theorem mongo_outbox_exact:
  assumes "mongo_reach s"
  shows "mongo_keys (db_data s) \<and> length (k_outbox_events (db_data s)) = length (k_invoice_events (db_data s)) \<and>
    (\<forall>i < length (k_invoice_events (db_data s)).
       tells_doc (db_data s) (k_invoice_events (db_data s) ! i) (k_outbox_events (db_data s) ! i))"
  using mongo_reach_ok [OF assms] by (simp add: mongo_ok_def list_all2_conv_all_nth)

theorem mongo_outbox_exact_witness: "length (k_outbox_events (db_data demo_mongo_invoice)) = 1"
proof -
  have "length (k_invoice_events (db_data demo_mongo_invoice)) = 1" by code_simp
  with mongo_outbox_exact [OF demo_mongo_reaches(2)] show ?thesis by simp
qed


text \<open>A database that stops answering in the middle of the call.\<close>

definition demo_mongo_full :: MongoStore where
  "demo_mongo_full = demo_mongo_merchant\<lparr>db_fault := (\<lambda>n. if n \<ge> 9 then Some ''disk full'' else None)\<rparr>"


text \<open>C23: Whatever the calls, no document is removed or moved, the fixed fields of one stay as they are, and neither a cursor
  nor a counter goes back.\<close>

theorem mongo_append_only:
  assumes "mongo_step\<^sup>*\<^sup>* s t"
  shows "mongo_grows (db_data s) (db_data t)"
  using sound_steps [OF assms] by (simp add: sound_def)

theorem mongo_append_only_witness: "mongo_grows (db_data demo_mongo) (db_data demo_mongo_invoice)"
proof -
  have "mongo_step\<^sup>*\<^sup>* demo_mongo demo_mongo_invoice" using demo_mongo_step by (meson rtranclp.simps)
  from mongo_append_only [OF this] show ?thesis .
qed

section \<open>A scan event once\<close>

definition reliable :: "MongoStore \<Rightarrow> bool" where
  "reliable s \<longleftrightarrow> (\<forall>k. db_fault s k = None) \<and> (\<forall>k n. db_rand s k n \<noteq> None)"

lemma cursor_at_grows:
  assumes "cursor_at t w c" "mongo_grows t u"
  shows "c \<le> doc_cursor w u"
proof -
  obtain r where r: "find (\<lambda>r. cr_wallet_id r = w) (k_scan_cursors t) = Some r" "c \<le> cr_cursor_id r"
    using assms(1) by (auto simp: cursor_at_def)
  have "table_evolves cursor_step (k_scan_cursors t) (k_scan_cursors u)" using assms(2) by (simp add: mongo_grows_def)
  from table_evolves_find [OF this, of cr_wallet_id, OF _ r(1)] r(2) show ?thesis
    by (auto simp: cursor_step_def doc_cursor_def)
qed

lemma mongo_applied_cursor:
  assumes "mongo_ApplyScanEvent ev s = (Inr (), t)"
  shows "TrimSpace (se_WalletID ev) \<noteq> [] \<and> 0 < se_Cursor ev \<and>
    cursor_at (db_data t) (TrimSpace (se_WalletID ev)) (se_Cursor ev)"
proof -
  have "wp (mongo_ApplyScanEvent ev) (\<lambda>_ t. TrimSpace (se_WalletID ev) \<noteq> [] \<and> 0 < se_Cursor ev \<and>
      cursor_at (db_data t) (TrimSpace (se_WalletID ev)) (se_Cursor ev)) s"
    unfolding mongo_ApplyScanEvent_def Let_def StartSession_def
    apply (intro wp_if wp_fail wp_bind wp_mongo_query)
    apply (rule wp_WithTransaction [where P = "\<lambda>_ t. cursor_at t (TrimSpace (se_WalletID ev)) (se_Cursor ev)"])
     apply (rule wp_mono, rule wp_scan_event_callback)
    by simp_all
  from wpD [OF this assms] show ?thesis .
qed

lemma passed_callback:
  "se_Cursor ev \<le> doc_cursor (se_WalletID ev) (db_data s) \<Longrightarrow> wp (scan_event_callback ev) (\<lambda>_ t. db_data t = db_data s) s"
  unfolding scan_event_callback_def
  by (rule wp_bind, rule wp_mongo_query, rule wp_if, rule wp_return) simp_all

lemma with_transaction_success:
  "run_callback body s = (Inr x, t) \<Longrightarrow> with_transaction n body s = (Inr x, t)"
  by (cases n) simp_all

lemma mongo_applied_again:
  assumes "TrimSpace (se_WalletID ev) \<noteq> []" "0 < se_Cursor ev"
    "se_Cursor ev \<le> doc_cursor (TrimSpace (se_WalletID ev)) (db_data u)" "mongo_ApplyScanEvent ev u = (r, v)"
  shows "db_data v = db_data u" "mg_session u = NoTransaction \<Longrightarrow> reliable u \<Longrightarrow> r = Inr ()"
proof -
  let ?ev = "ev\<lparr>se_WalletID := TrimSpace (se_WalletID ev), se_Kind := TrimSpace (se_Kind ev)\<rparr>"
  have call: "mongo_ApplyScanEvent ev u = db_bind StartSession (\<lambda>_. WithTransaction (scan_event_callback ?ev)) u"
    using assms(1,2) by (simp add: mongo_ApplyScanEvent_def)
  show "db_data v = db_data u"
  proof (cases r)
    case (Inl e)
    with assms(4) show ?thesis using atomicD [OF atomic_mongo_others(3)] by simp
  next
    case (Inr x)
    have "wp (db_bind StartSession (\<lambda>_. WithTransaction (scan_event_callback ?ev))) (\<lambda>_ t. db_data t = db_data u) u"
      unfolding StartSession_def
      apply (intro wp_bind wp_mongo_query)
      apply (rule wp_WithTransaction [where P = "\<lambda>_ t. t = db_data u"])
       apply (rule wp_mono, rule passed_callback)
      using assms(3) by simp_all
    from wpD [OF this] assms(4) Inr show ?thesis by (simp add: call)
  qed
  assume o: "mg_session u = NoTransaction" and h: "reliable u"
  have "fst (run_callback (scan_event_callback ?ev) (db_tick u)) = Inr ()"
    using assms(3) h
    by (simp add: run_callback_def scan_event_callback_def db_bind_def mongo_query_def mongo_stmt_def db_stmt_def
        db_return_def reliable_def)
  then obtain t where "run_callback (scan_event_callback ?ev) (db_tick u) = (Inr (), t)" by (metis prod.collapse)
  from with_transaction_success [OF this] assms(4) h o show "r = Inr ()"
    by (simp add: call StartSession_def mongo_query_def mongo_stmt_def db_stmt_def db_bind_def reliable_def
        WithTransaction_def db_tick_def [symmetric])
qed

text \<open>C17: A scan event that was applied is applied once: delivered again, after whatever else happened, it changes no
  document, and is acknowledged when the database answers.\<close>

theorem mongo_scan_event_once:
  assumes "mongo_reach s" "mongo_ApplyScanEvent ev s = (Inr (), t)" "mongo_step\<^sup>*\<^sup>* t u" "mongo_ApplyScanEvent ev u = (r, v)"
  shows "db_data v = db_data u \<and> (reliable u \<longrightarrow> r = Inr ())"
proof -
  note a = mongo_applied_cursor [OF assms(2)]
  have "mongo_reach t" by (rule mongo_next [OF assms(1) mongo_step_call [OF mongo_call.intros(8) [OF assms(2)]]])
  then have o: "mg_session u = NoTransaction" using mongo_reach_outside mongo_reach_steps [OF _ assms(3)] by blast
  have "mongo_grows (db_data t) (db_data u)" using sound_steps [OF assms(3)] by (simp add: sound_def)
  then have "se_Cursor ev \<le> doc_cursor (TrimSpace (se_WalletID ev)) (db_data u)" using cursor_at_grows a by blast
  from mongo_applied_again [OF _ _ this assms(4)] a o show ?thesis by blast
qed

theorem mongo_scan_event_once_witness:
  "\<exists>t. mongo_ApplyScanEvent demo_sql_scan demo_mongo_invoice = (Inr (), t) \<and>
     (\<exists>v. mongo_ApplyScanEvent demo_sql_scan t = (Inr (), v) \<and> db_data v = db_data t)"
proof -
  have "\<not> isl (fst (mongo_ApplyScanEvent demo_sql_scan demo_mongo_invoice))" by code_simp
  then obtain t where t: "mongo_ApplyScanEvent demo_sql_scan demo_mongo_invoice = (Inr (), t)"
    by (cases "fst (mongo_ApplyScanEvent demo_sql_scan demo_mongo_invoice)") (auto simp: prod_eq_iff)
  have "same_env demo_mongo t"
    using same_env_trans [OF demo_mongo_env(2)] sound_step [OF mongo_step_call [OF mongo_call.intros(8) [OF t]]] by blast
  then have h: "reliable t" by (auto simp: reliable_def same_env_fields demo_mongo_def)
  obtain r v where v: "mongo_ApplyScanEvent demo_sql_scan t = (r, v)" by fastforce
  from mongo_scan_event_once [OF demo_mongo_reaches(2) t _ v] h v t show ?thesis by blast
qed

section \<open>The program over the MongoDB store\<close>

lemma mongo_store_call:
  assumes "store_call mongo_Store s t"
  shows "mongo_step s t"
proof -
  have settings: "mongo_step s (snd (mongo_UpdateMerchantSettings m a s))" for m a
    by (rule mongo_step_settings [OF prod.collapse [symmetric]])
  show ?thesis
    using assms
    by (cases rule: store_call.cases)
      (simp only: mongo_Store_def Store.Store.select_convs,
        (rule settings | (rule mongo_step_call, rule mongo_call.intros, rule prod.collapse [symmetric])))+
qed

lemma mongo_put: "mongo_step s (snd (mongo_PutInvoiceToken iid tok s))"
  by (rule mongo_step_call [OF mongo_call.intros(7) [OF prod.collapse [symmetric]]])

lemma mongo_create: "mongo_CreateInvoice req s = (r, t) \<Longrightarrow> mongo_step s t"
  by (rule mongo_step_call [OF mongo_call.intros(6)])

interpretation mongo_server: closed_store mongo_Store "mongo_step\<^sup>*\<^sup>*"
proof unfold_locales
  fix s t assume "store_call mongo_Store s t"
  then show "mongo_step\<^sup>*\<^sup>* s t" using mongo_store_call by blast
next
  fix s u ic iv t tok assume "mongo_step\<^sup>*\<^sup>* s u" "st_CreateInvoice mongo_Store ic u = (Inr (iv, True), t)"
  then have "mongo_step\<^sup>*\<^sup>* s t" using mongo_create by (simp add: mongo_Store_def) (metis rtranclp.rtrancl_into_rtrancl)
  then show "mongo_step\<^sup>*\<^sup>* s (snd (st_PutInvoiceToken mongo_Store (inv_InvoiceID iv) tok t))"
    using mongo_put by (simp add: mongo_Store_def) (metis rtranclp.rtrancl_into_rtrancl)
qed simp_all

text \<open>C10: With the MongoDB store behind it, the program moves the database by the store's calls only, whatever
  requests come in between rounds of the scan loop and passes of the outbox worker: the unique indexes hold, the
  outbox tells the events, no document is ever lost or rewritten in its fixed fields, and no transaction is left open.\<close>

theorem server_over_mongo:
  assumes "main_start pf e w = (Inr pg, w1)" "\<And>d k p v. fst (pf_open pf d k p v) = Inr mongo_Store"
    "mongo_reach (sy_st y0)" "(server_step net pg)\<^sup>*\<^sup>* y0 y"
  shows "mongo_ok (db_data (sy_st y)) \<and> mongo_grows (db_data (sy_st y0)) (db_data (sy_st y)) \<and>
    mg_session (sy_st y) = NoTransaction"
proof -
  from main_start_core [OF assms(1)] obtain d k p st where "pf_open pf d k p w = (Inr st, w1)"
    and "program_ok st (getenv e ''JUNO_PAY_ADMIN_PASSWORD'' []) pg" by blast
  with assms(2) [of d k p w] have ok: "program_ok mongo_Store (getenv e ''JUNO_PAY_ADMIN_PASSWORD'' []) pg" by simp
  have step: "mongo_step\<^sup>*\<^sup>* (sy_st x) (sy_st x')" if "server_step net pg x x'" for x x'
    using mongo_server.R_server_step [OF that] ok by (simp add: program_ok_def)
  from assms(4) have "mongo_step\<^sup>*\<^sup>* (sy_st y0) (sy_st y)"
    by (induction rule: rtranclp_induct) (auto intro: rtranclp_trans step)
  with mongo_reach_steps [OF assms(3)] mongo_reach_ok mongo_reach_outside sound_steps show ?thesis
    by (metis sound_def)
qed

theorem server_over_mongo_witness:
  "\<exists>(pg :: (MongoStore, unit) Program) y. mongo_ok (db_data (sy_st y)) \<and>
    y = snd (Server_Handler demo_net (pg_server pg) demo_login_request \<lparr>sy_st = demo_mongo_invoice, sy_rs = no_restarts, sy_w = ()\<rparr>)"
proof -
  let ?start = "\<lparr>sy_st = demo_mongo_invoice, sy_rs = no_restarts, sy_w = ()\<rparr>"
  obtain pg where pg: "main_start (demo_store_platform mongo_Store) demo_env () = (Inr pg, ())" using demo_store_started by blast
  let ?after = "snd (Server_Handler demo_net (pg_server pg) demo_login_request ?start)"
  have "server_step demo_net pg ?start ?after" by (rule server_step.step_request)
  then have run: "(server_step demo_net pg)\<^sup>*\<^sup>* ?start ?after" by blast
  have "mongo_ok (db_data (sy_st ?after))"
    using server_over_mongo [OF pg _ _ run] demo_mongo_reaches(2) by (simp add: demo_store_platform_def)
  then show ?thesis by blast
qed

end
