(* ===== verification/MongoAgain.thy ===== *)
theory MongoAgain
  imports MongoProps
begin

text \<open>
  Creating an invoice a second time and reading back a token, on the MongoDB store; and the rule by which a deposit that is
  reported again is merged with the one there is, which is the same in the three stores.
\<close>

section \<open>An invoice created twice\<close>

lemma inserted_doc:
  assumes "db_insert k_invoices k_invoices_update invoice_clash r t = Some (n, u)"
  shows "r \<in> set (k_invoices u)"
  using assms by (auto elim!: db_insertE)

lemma row_of_docs:
  assumes "r \<in> set (k_invoices t)" "row_of s req iid r" "mongo_grows t u"
  shows "\<exists>r' \<in> set (k_invoices u). row_of s req iid r'"
proof -
  have "table_evolves (\<lambda>a b. invoice_terms a = invoice_terms b) (k_invoices t) (k_invoices u)"
    using assms(3) by (simp add: mongo_grows_def)
  from table_evolves_mem [OF this assms(1)] assms(2) show ?thesis unfolding row_of_def by metis
qed

lemma wp_created_doc:
  fixes s :: MongoStore
  assumes "ext = db_hash s (ic_ExternalOrderID req)" "addr = db_hash s (ic_Address req)"
  shows "wp (create_invoice_callback req iid now ext addr) (\<lambda>iv t. inv_InvoiceID iv = iid \<and>
    (\<exists>row \<in> set (k_invoices (db_data t)). row_of s req iid row)) u"
  unfolding create_invoice_callback_def nextSeq_def
  apply (rule wp_bind, rule wp_mongo_exec, rule wp_bind, rule wp_mongo_exec)
  subgoal premises p for seq t n t'
  proof -
    have "row_of s req iid (invoice_row req iid ext addr (Unix now) seq)"
      unfolding assms by (rule row_of_new)
    then obtain row where row: "row \<in> set (k_invoices t')" "row_of s req iid row" using inserted_doc [OF p(4)] by blast
    show ?thesis
      apply (rule wp_bind, rule wp_within_at, rule quiet_event, rule wp_return)
      using row_of_docs [OF row] by (simp add: created_invoice_def quiet_def)
  qed
  done

lemma mongo_created_row:
  assumes "mongo_CreateInvoice req s = (Inr (iv, True), t)"
  shows "complete (trimmed req) \<and> (\<exists>row \<in> set (k_invoices (db_data t)). row_of s (trimmed req) (inv_InvoiceID iv) row)"
proof -
  have "wp (mongo_CreateInvoice req) (\<lambda>(iv, b) t. b \<longrightarrow> complete (trimmed req) \<and>
      (\<exists>row \<in> set (k_invoices (db_data t)). row_of s (trimmed req) (inv_InvoiceID iv) row)) s"
    unfolding mongo_CreateInvoice_def Let_def trimmed_def [symmetric] StartSession_def
    apply (intro wp_if wp_fail)
    apply (rule wp_bind, rule wp_newID, rule wp_bind, rule wp_now, rule wp_bind, rule wp_hash, rule wp_bind, rule wp_hash)
    apply (rule wp_bind, rule wp_mongo_query, rule wp_caught)
      apply (rule wp_WithTransaction)
       apply (rule wp_created_doc [where s = s])
        apply simp
       apply simp
      apply (fastforce simp: wp_def complete_def)
     apply (rule atomic_transaction)
    apply (intro wp_branch wp_pair)
    unfolding findInvoiceByExternal_def
    by (intro wp_bind wp_mongo_query wp_option wp_fail wp_if wp_return) simp
  from wpD [OF this assms] show ?thesis by simp
qed

text \<open>The call for a request whose invoice is there.\<close>

lemma clashing_doc:
  assumes "row \<in> set (k_invoices t)" "ir_merchant_id row = ic_MerchantID req" "ir_external_order_id_hash row = h"
  shows "db_insert k_invoices k_invoices_update invoice_clash (invoice_row req iid h a now n) t = None"
  using assms
  by (auto simp: db_insert_def insert_row_def list_ex_iff invoice_clash_def invoice_row_def intro!: bexI [of _ row])

lemma wp_clashing_callback:
  assumes "row \<in> set (k_invoices (db_data s))" "ir_merchant_id row = ic_MerchantID req" "ir_external_order_id_hash row = h"
  shows "wp (create_invoice_callback req iid now h a) (\<lambda>_ _. False) s"
  unfolding create_invoice_callback_def nextSeq_def
  apply (rule wp_bind, rule wp_mongo_exec, rule wp_bind, rule wp_mongo_exec)
  subgoal premises p for seq t n t'
  proof -
    have "k_invoices t = k_invoices (db_data s)" using p(2) by (auto simp: Let_def)
    then have "row \<in> set (k_invoices t)" using assms(1) by simp
    from clashing_doc [OF this assms(2,3)] p(4) show ?thesis by simp
  qed
  done

text \<open>A callback that fails the same way in every attempt.\<close>

lemma with_transaction_same:
  assumes "\<And>u. db_data u = db_data s \<Longrightarrow> same_env s u \<Longrightarrow> fst (run_callback body u) = Inl e"
    and "\<And>u. same_env u (snd (body u))"
  shows "fst (with_transaction n body s) = Inl e"
  using assms(1)
proof (induction n arbitrary: s)
  case (Suc n)
  obtain r u where u: "run_callback body s = (r, u)" by fastforce
  then have r: "r = Inl e" using Suc.prems [of s] by simp
  have env: "same_env s u" by (rule run_callback_env [OF u assms(2)])
  moreover have "db_data u = db_data s" using u r by (auto elim: run_callback_result)
  ultimately have "fst (with_transaction n body u) = Inl e"
    by (intro Suc.IH Suc.prems) (auto intro: same_env_trans)
  with u r show ?case by simp
qed simp

lemma duplicate_duplicate [simp]: "isDuplicateKey duplicate_error"
  by code_simp

lemma env_create_callback:
  assumes "TrimSpace iid = iid"
  shows "within quiet (create_invoice_callback req iid now h a)"
  unfolding create_invoice_callback_def
  by (intro quiet.within_plain within_rules quiet_of_mute) (simp add: invoice_row_def assms)

lemma reliable_clash:
  assumes "row \<in> set (k_invoices (db_data s))" "ir_merchant_id row = ic_MerchantID req" "ir_external_order_id_hash row = h"
    "reliable s" "TrimSpace iid = iid"
  shows "fst (WithTransaction (create_invoice_callback req iid now h a) s) = Inl duplicate_error"
  unfolding WithTransaction_def
proof (rule with_transaction_same)
  fix u assume u: "db_data u = db_data s" "same_env s u"
  have none: "db_insert k_invoices k_invoices_update invoice_clash (invoice_row req iid h a at n)
      (k_counters_update c (db_data s)) = None" for at n c
    by (rule clashing_doc) (use assms in simp_all)
  have "db_fault u k = None" for k using u(2) assms(4) by (simp add: same_env_fields reliable_def)
  then show "fst (run_callback (create_invoice_callback req iid now h a) u) = Inl duplicate_error"
    by (simp add: run_callback_def create_invoice_callback_def nextSeq_def db_bind_def mongo_exec_def mongo_stmt_def db_stmt_def
        u(1) none Let_def)
next
  show "same_env u (snd (create_invoice_callback req iid now h a u))" for u
    using env_create_callback [OF assms(5)] by (simp add: within_def)
qed

lemma mongo_query_answers:
  assumes "\<And>k. db_fault s k = None" "mg_session s = NoTransaction"
  shows "mongo_query f s = (Inr (f (db_data s)), db_tick s)"
  by (simp add: mongo_query_def mongo_stmt_def db_stmt_def assms db_tick_def)

text \<open>What the call does after the checks of its request.\<close>

lemma create_unfold:
  assumes "complete (trimmed req)"
  shows "mongo_CreateInvoice req = (let r = trimmed req in db_bind (newID ''inv'') (\<lambda>iid. db_bind db_now (\<lambda>now.
    db_bind (hash32Bytes (ic_ExternalOrderID r)) (\<lambda>ext. db_bind (hash32Bytes (ic_Address r)) (\<lambda>addr.
    db_bind StartSession (\<lambda>_ s. case WithTransaction (create_invoice_callback r iid now ext addr) s of
        (Inr iv, s) \<Rightarrow> (Inr (iv, True), s)
      | (Inl e, s) \<Rightarrow> if \<not> isDuplicateKey e then (Inl e, s)
          else db_bind (findInvoiceByExternal (ic_MerchantID r) (ic_ExternalOrderID r) ext) (\<lambda>existing. case existing of
              None \<Rightarrow> db_fail ErrConflict
            | Some iv \<Rightarrow> if inv_AmountZat iv \<noteq> ic_AmountZat r \<or> inv_WalletID iv \<noteq> ic_WalletID r \<or>
                inv_Address iv \<noteq> ic_Address r then db_fail ErrConflict else db_return (iv, False)) s))))))"
  using assms unfolding mongo_CreateInvoice_def complete_def Let_def trimmed_def [symmetric] by simp

lemma mongo_recreated:
  assumes "mongo_ok (db_data u)" "complete (trimmed req)" "row \<in> set (k_invoices (db_data u))"
    "row_of s (trimmed req) iid row" "db_hash s = db_hash u" "mongo_CreateInvoice req u = (r, v)"
  shows "db_data v = db_data u" "r = Inr (iv, b) \<Longrightarrow> iv = MongoInvoices.toDomain row \<and> \<not> b"
    "mg_session u = NoTransaction \<Longrightarrow> reliable u \<Longrightarrow> r = Inr (MongoInvoices.toDomain row, False)"
proof -
  let ?r = "trimmed req"
  note row = row_ofD [OF assms(4)]
  have keys: "no_clash invoice_clash (k_invoices (db_data u))" using assms(1) by (simp add: mongo_ok_def mongo_keys_def)
  have find: "find (\<lambda>r. ir_merchant_id r = ic_MerchantID ?r \<and> ir_external_order_id_hash r = db_hash u (ic_ExternalOrderID ?r) \<and>
      ir_external_order_id r = ic_ExternalOrderID ?r) (k_invoices (db_data u)) = Some row"
    using found_by_order [OF keys assms(3)] row assms(5) by simp
  have same: "inv_AmountZat (MongoInvoices.toDomain row) = ic_AmountZat ?r" "inv_WalletID (MongoInvoices.toDomain row) = ic_WalletID ?r"
    "inv_Address (MongoInvoices.toDomain row) = ic_Address ?r" using row by (simp_all add: MongoInvoices.toDomain_def)
  have wp: "wp (mongo_CreateInvoice req) (\<lambda>(iv, b) t. iv = MongoInvoices.toDomain row \<and> \<not> b \<and> db_data t = db_data u) u"
    unfolding create_unfold [OF assms(2)] Let_def StartSession_def
    apply (rule wp_bind, rule wp_newID, rule wp_bind, rule wp_now, rule wp_bind, rule wp_hash, rule wp_bind, rule wp_hash)
    apply (rule wp_bind, rule wp_mongo_query, rule wp_caught)
      apply (rule wp_WithTransaction [where P = "\<lambda>_ _. False"])
       apply (rule wp_clashing_callback [of row])
         apply (use assms(3) row assms(5) in simp_all)[4]
     apply (rule atomic_transaction)
    apply (intro wp_branch wp_pair)
    unfolding findInvoiceByExternal_def
    by (intro wp_bind wp_mongo_query wp_option wp_fail wp_if wp_return) (simp_all add: find)
  show "db_data v = db_data u"
  proof (cases r)
    case (Inl e)
    with assms(6) show ?thesis using atomicD [OF atomic_mongo_CreateInvoice] by simp
  next
    case (Inr x)
    with wpD [OF wp] assms(6) show ?thesis by (cases x) auto
  qed
  show "iv = MongoInvoices.toDomain row \<and> \<not> b" if "r = Inr (iv, b)" using wpD [OF wp] assms(6) that by auto
  assume o: "mg_session u = NoTransaction" and h: "reliable u"
  obtain raw where raw: "db_rand u (db_ticks u) 16 = Some raw" using h by (metis not_None_eq reliable_def)
  let ?i = "''inv'' @ ''_'' @ hex_encode raw" and ?s = "db_tick (db_tick (db_tick u))"
  let ?now = "db_clock u (db_ticks (db_tick u))" and ?h = "db_hash u (ic_ExternalOrderID ?r)" and ?a = "db_hash u (ic_Address ?r)"
  obtain t where t: "WithTransaction (create_invoice_callback ?r ?i ?now ?h ?a) ?s = (Inl duplicate_error, t)"
    using reliable_clash [of row ?s ?r ?h ?i ?now ?a] assms(3,5) row h trim_id(1)
    by (cases "WithTransaction (create_invoice_callback ?r ?i ?now ?h ?a) ?s") (auto simp: reliable_def)
  have "db_data t = db_data u" using atomicD [OF atomic_transaction t] by simp
  moreover have "mg_session t = NoTransaction" using outsideD [OF outside_transaction t] o by simp
  moreover have "db_fault t k = None" for k
  proof -
    have "within quiet (WithTransaction (create_invoice_callback ?r ?i ?now ?h ?a))"
      by (intro quiet_transaction env_create_callback) (use trim_id(1) in simp)
    from withinD [OF this t] h show ?thesis by (simp add: same_env_fields reliable_def)
  qed
  ultimately show "r = Inr (MongoInvoices.toDomain row, False)"
    using assms(6) h o t
    by (simp add: create_unfold [OF assms(2)] Let_def newID_def db_bind_def db_random_def raw db_now_def hash32Bytes_def
        StartSession_def mongo_query_answers reliable_def db_return_def db_tick_def [symmetric]
        findInvoiceByExternal_def find same)
qed

text \<open>C13: Repeating the creation of an invoice, after whatever else happened and whatever the database reports, creates nothing: it
  changes no document, and when the database answers it returns the invoice of the first call, with the same terms, and
  says that it is not new.\<close>

theorem mongo_create_invoice_retry:
  assumes "mongo_reach s" "mongo_CreateInvoice req s = (Inr (iv, True), t)" "mongo_step\<^sup>*\<^sup>* t u"
    "mongo_CreateInvoice req u = (r, v)"
  shows "db_data v = db_data u \<and> (reliable u \<longrightarrow> (\<exists>iv'. r = Inr (iv', False))) \<and>
    (\<forall>iv' b. r = Inr (iv', b) \<longrightarrow> \<not> b \<and> inv_InvoiceID iv' = inv_InvoiceID iv \<and>
      inv_MerchantID iv' = TrimSpace (ic_MerchantID req) \<and> inv_AmountZat iv' = ic_AmountZat req \<and>
      inv_Address iv' = ToLower (TrimSpace (ic_Address req)))"
proof -
  have "mongo_step\<^sup>*\<^sup>* s u" using mongo_create [OF assms(2)] assms(3) by (rule converse_rtranclp_into_rtranclp)
  then have u: "mongo_ok (db_data u)" "same_env s u" "mg_session u = NoTransaction"
    using mongo_reach_ok mongo_reach_outside mongo_reach_steps [OF assms(1)] sound_steps by blast+
  obtain row where "row \<in> set (k_invoices (db_data t))" "row_of s (trimmed req) (inv_InvoiceID iv) row"
    and req: "complete (trimmed req)" using mongo_created_row [OF assms(2)] by blast
  then obtain row where row: "row \<in> set (k_invoices (db_data u))" "row_of s (trimmed req) (inv_InvoiceID iv) row"
    using row_of_docs sound_steps [OF assms(3)] by (meson sound_def)
  have "db_hash s = db_hash u" using u(2) by (simp add: same_env_fields)
  note again = mongo_recreated [OF u(1) req row this assms(4)]
  have "inv_InvoiceID (MongoInvoices.toDomain row) = inv_InvoiceID iv"
    "inv_MerchantID (MongoInvoices.toDomain row) = TrimSpace (ic_MerchantID req)"
    "inv_AmountZat (MongoInvoices.toDomain row) = ic_AmountZat req"
    "inv_Address (MongoInvoices.toDomain row) = ToLower (TrimSpace (ic_Address req))"
    using row_ofD [OF row(2)] by (simp_all add: MongoInvoices.toDomain_def trimmed_def)
  with again u(3) show ?thesis by blast
qed

theorem mongo_create_invoice_retry_witness:
  "\<exists>iv iv' v. mongo_CreateInvoice demo_sql_req demo_mongo_merchant = (Inr (iv, True), demo_mongo_invoice) \<and>
    mongo_CreateInvoice demo_sql_req demo_mongo_invoice = (Inr (iv', False), v) \<and> inv_InvoiceID iv' = inv_InvoiceID iv \<and>
    db_data v = db_data demo_mongo_invoice"
proof -
  obtain iv where iv: "mongo_CreateInvoice demo_sql_req demo_mongo_merchant = (Inr (iv, True), demo_mongo_invoice)"
    using demo_mongo_created by blast
  obtain r v where v: "mongo_CreateInvoice demo_sql_req demo_mongo_invoice = (r, v)" by fastforce
  have h: "reliable demo_mongo_invoice" using demo_mongo_env(2) by (auto simp: reliable_def same_env_fields demo_mongo_def)
  from mongo_create_invoice_retry [OF demo_mongo_reaches(1) iv _ v] h iv v show ?thesis by blast
qed

section \<open>A token read back\<close>

lemma put_doc:
  assumes "upsert_one k_invoice_tokens k_invoice_tokens_update token_clash (\<lambda>r. fst r = i) (\<lambda>r. (fst r, enc)) (i, enc) t = Some (b, u)"
  shows "map_of (k_invoice_tokens u) i = Some enc"
  using assms
proof (cases rule: upsert_oneE)
  case match
  have "list_ex (\<lambda>r. fst r = i) xs \<Longrightarrow> map_of (update_first (\<lambda>r. fst r = i) (\<lambda>r. (fst r, enc)) xs) i = Some enc"
    for xs :: "(string \<times> string) list"
    by (induction xs) auto
  with match show ?thesis by simp
next
  case insert
  then have "map_of (k_invoice_tokens t) i = None" by (auto simp: map_of_eq_None_iff list_ex_iff)
  then show ?thesis by (simp add: insert(4) map_add_def)
qed

lemma wp_put_doc:
  fixes s :: MongoStore
  assumes "sealing s"
  shows "wp (mongo_PutInvoiceToken iid tok) (\<lambda>_ t. TrimSpace iid \<noteq> [] \<and> (\<exists>enc. sealed s (TrimSpace iid) (TrimSpace tok) enc \<and>
    map_of (k_invoice_tokens (db_data t)) (TrimSpace iid) = Some enc)) s"
  unfolding mongo_PutInvoiceToken_def mongo_GetInvoice_def Let_def
  apply (intro wp_if [where m = "db_fail _"] wp_fail)
  apply (rule wp_bind, simp only: TrimSpace_idem if_False, rule wp_mongo_query, rule wp_if, rule wp_fail)
  apply (rule wp_bind, rule wp_encrypt, rule wp_bind, rule wp_mongo_exec, rule wp_return)
  subgoal premises p for nonce b u
  proof -
    have "length nonce = 12" using p(4) assms by (simp add: sealing_def)
    then show ?thesis using put_doc [OF p(6)] p(1) by (auto simp: sealed_def)
  qed
  done

lemma read_doc:
  fixes s t :: MongoStore
  assumes "sealing s" "sealed s (TrimSpace iid) tok enc" "map_of (k_invoice_tokens (db_data t)) (TrimSpace iid) = Some enc"
    "same_env s t" "TrimSpace iid \<noteq> []" "mongo_GetInvoiceToken iid t = (r, v)" "mg_session t = NoTransaction"
  shows "(\<forall>x. r = Inr x \<longrightarrow> x = Some tok) \<and> (reliable t \<longrightarrow> r = Inr (Some tok))"
  using assms
  by (auto simp: mongo_GetInvoiceToken_def db_bind_def mongo_query_def mongo_stmt_def db_stmt_def db_return_def
      decryptToken_def sealed_def sealing_def same_env_fields reliable_def Let_def split: option.splits)

text \<open>The access token of an invoice survives sealing, the MongoDB store and opening: after it was put, it is read back as it
  was, up to the white space around it, and reading succeeds when the database answers.\<close>

theorem mongo_token_roundtrip:
  assumes "mongo_reach s" "sealing s" "mongo_PutInvoiceToken iid tok s = (Inr (), t)" "mongo_GetInvoiceToken iid t = (r, v)"
  shows "(\<forall>x. r = Inr x \<longrightarrow> x = Some (TrimSpace tok)) \<and> (reliable t \<longrightarrow> r = Inr (Some (TrimSpace tok)))"
proof -
  have step: "mongo_step s t" by (rule mongo_step_call [OF mongo_call.intros(7) [OF assms(3)]])
  obtain enc where "TrimSpace iid \<noteq> []" "sealed s (TrimSpace iid) (TrimSpace tok) enc"
      "map_of (k_invoice_tokens (db_data t)) (TrimSpace iid) = Some enc"
    using wpD [OF wp_put_doc [OF assms(2)] assms(3)] by blast
  moreover have "same_env s t" "mg_session t = NoTransaction"
    using sound_step [OF step] mongo_reach_outside [OF mongo_next [OF assms(1) step]] by simp_all
  ultimately show ?thesis using read_doc [OF assms(2) _ _ _ _ assms(4)] by blast
qed

definition demo_mongo_iid :: string where
  "demo_mongo_iid = ir_invoice_id (hd (k_invoices (db_data demo_mongo_invoice)))"

theorem mongo_token_roundtrip_witness:
  "\<exists>t v. mongo_PutInvoiceToken demo_mongo_iid '' tok '' demo_mongo_invoice = (Inr (), t) \<and>
    mongo_GetInvoiceToken demo_mongo_iid t = (Inr (Some (TrimSpace '' tok '')), v)"
proof -
  have "\<not> isl (fst (mongo_PutInvoiceToken demo_mongo_iid '' tok '' demo_mongo_invoice))" by code_simp
  then obtain t where t: "mongo_PutInvoiceToken demo_mongo_iid '' tok '' demo_mongo_invoice = (Inr (), t)"
    by (cases "fst (mongo_PutInvoiceToken demo_mongo_iid '' tok '' demo_mongo_invoice)") (auto simp: prod_eq_iff)
  have "same_env demo_mongo_invoice t" using sound_step [OF mongo_step_call [OF mongo_call.intros(7) [OF t]]] by simp
  then have h: "sealing demo_mongo_invoice" "reliable t"
    using demo_mongo_env(2) by (auto simp: sealing_def reliable_def same_env_fields demo_mongo_def)
  obtain r v where v: "mongo_GetInvoiceToken demo_mongo_iid t = (r, v)" by fastforce
  from mongo_token_roundtrip [OF demo_mongo_reaches(2) h(1) t v] h(2) v t show ?thesis by blast
qed

section \<open>A deposit reported again\<close>

text \<open>The row of a deposit as the store in memory has it.\<close>

definition deposit_record :: "DepositRow \<Rightarrow> depositRecord" where
  "deposit_record r = \<lparr>d_Seq = dr_seq r, d_WalletID = dr_wallet_id r, d_TxID = dr_txid r, d_ActionIndex = dr_action_index r,
     d_RecipientAddress = dr_recipient_address r, d_AmountZat = dr_amount_zat r, d_Height = dr_height r,
     d_Status = dr_status r, d_ConfirmedHeight = dr_confirmed_height r,
     d_InvoiceID = (case dr_invoice_id r of None \<Rightarrow> [] | Some i \<Rightarrow> i), d_DetectedAt = unix_time (dr_detected_at r),
     d_UpdatedAt = unix_time (dr_updated_at r)\<rparr>"

text \<open>C25: The three stores merge a deposit that is reported again in the same way: a confirmed deposit stays confirmed when it
  is reported as detected, with its height; it loses both when it is reported unconfirmed or orphaned; the rest is
  replaced, except that an invoice once given is kept. The row of the MongoDB store is that of the SQL store, and the
  record of the store in memory is what the row stands for.\<close>

theorem deposit_merge_agrees:
  assumes "st \<noteq> DepositConfirmed" "dr_status r \<noteq> DepositConfirmed \<longrightarrow> dr_confirmed_height r = None" "dr_invoice_id r \<noteq> Some []"
  shows "(let merged = set_deposit addr h amount height (final_deposit (Some r) st) at r in
      if iid \<noteq> [] \<and> (dr_invoice_id merged = None \<or> dr_invoice_id merged = Some []) then merged\<lparr>dr_invoice_id := Some iid\<rparr>
      else merged) = merge_row addr h amount height st (given iid) at r \<and>
    deposit_record (merge_row addr h amount height st (given iid) at r) =
      merge_deposit (deposit_record r) addr amount height st None iid (unix_time at)"
proof
  show "(let merged = set_deposit addr h amount height (final_deposit (Some r) st) at r in
      if iid \<noteq> [] \<and> (dr_invoice_id merged = None \<or> dr_invoice_id merged = Some []) then merged\<lparr>dr_invoice_id := Some iid\<rparr>
      else merged) = merge_row addr h amount height st (given iid) at r"
    using assms
    by (cases r, cases st) (auto simp: set_deposit_def final_deposit_def merge_row_def given_def split: option.splits)
  show "deposit_record (merge_row addr h amount height st (given iid) at r) =
      merge_deposit (deposit_record r) addr amount height st None iid (unix_time at)"
    using assms
    by (cases st; cases "dr_status r"; cases "dr_invoice_id r")
      (simp_all add: merge_row_def given_def merge_deposit_def deposit_record_def)
qed

definition demo_confirmed :: DepositRow where
  "demo_confirmed = confirm_row 8 3 (new_deposit 1 ''w'' ''t'' 0 [] 2)"

theorem deposit_merge_agrees_witness:
  "d_Status (merge_deposit (deposit_record demo_confirmed) ''j1'' 7 9 DepositDetected None ''i'' (unix_time 5)) = DepositConfirmed"
proof -
  have "dr_status demo_confirmed \<noteq> DepositConfirmed \<longrightarrow> dr_confirmed_height demo_confirmed = None" "dr_invoice_id demo_confirmed \<noteq> Some []"
    by code_simp+
  from deposit_merge_agrees [OF DepositStatus.distinct(2) [symmetric] this, of "''j1''" "[]" 7 9 5 "''i''"]
  have "merge_deposit (deposit_record demo_confirmed) ''j1'' 7 9 DepositDetected None ''i'' (unix_time 5) =
      deposit_record (merge_row ''j1'' [] 7 9 DepositDetected (given ''i'') 5 demo_confirmed)" by simp
  moreover have "dr_status (merge_row ''j1'' [] 7 9 DepositDetected (given ''i'') 5 demo_confirmed) = DepositConfirmed" by code_simp
  ultimately show ?thesis by (simp add: deposit_record_def)
qed

end
