(* ===== verification/AddressIndex.thy ===== *)
theory AddressIndex
  imports MongoProps
begin

text \<open>
  The address of an invoice is derived from an index that the store hands out. What makes the indexes of a merchant distinct is
  one contract (\<open>index_source\<close>), which the stores on databases keep.
\<close>

section \<open>The contract\<close>

text \<open>A store with its states, its steps and the number that its next index is read from.\<close>

locale index_source =
  fixes take_index :: "string \<Rightarrow> (uint32, 's) act" and index_step :: "'s \<Rightarrow> 's \<Rightarrow> bool" and good :: "'s \<Rightarrow> bool"
    and index_of :: "string \<Rightarrow> 's \<Rightarrow> int"
  assumes good_step: "good s \<Longrightarrow> index_step s t \<Longrightarrow> good t"
    and monotone: "good s \<Longrightarrow> index_step s t \<Longrightarrow> index_of m s \<le> index_of m t"
    and nonnegative: "good s \<Longrightarrow> 0 \<le> index_of m s"
    and taken: "good s \<Longrightarrow> take_index m s = (Inr i, t) \<Longrightarrow>
      index_step s t \<and> i = word_of_int (index_of (TrimSpace m) s) \<and> index_of (TrimSpace m) s < index_of (TrimSpace m) t"
begin

lemma good_steps: "index_step\<^sup>*\<^sup>* s t \<Longrightarrow> good s \<Longrightarrow> good t \<and> index_of m s \<le> index_of m t"
  by (induction rule: rtranclp_induct) (simp, meson good_step monotone order_trans)

lemma fresh:
  assumes "good s" "take_index m s = (Inr i, t)" "index_step\<^sup>*\<^sup>* t u" "take_index m' u = (Inr j, v)" "TrimSpace m' = TrimSpace m"
    "index_of (TrimSpace m) u < 2 ^ 32"
  shows "i < j"
proof -
  note a = taken [OF assms(1,2)]
  have t: "good t" using good_step [OF assms(1)] a by blast
  note u = good_steps [OF assms(3) t, of "TrimSpace m"]
  have "j = word_of_int (index_of (TrimSpace m) u)" using taken [OF _ assms(4)] u assms(5) by simp
  moreover have "0 \<le> index_of (TrimSpace m) s" "index_of (TrimSpace m) s < index_of (TrimSpace m) u"
    using nonnegative [OF assms(1)] a u by auto
  ultimately show ?thesis using a assms(6) by (simp add: word_less_def uint_word_of_int take_bit_int_eq_self)
qed

end

section \<open>The stores on databases keep it\<close>

definition wallet_index :: "string \<Rightarrow> WalletRow list \<Rightarrow> int" where
  "wallet_index m ws = (case find (\<lambda>r. wr_merchant_id r = m) ws of None \<Rightarrow> 0 | Some r \<Rightarrow> wr_next_address_index r)"

lemma wallet_index_grows:
  assumes "table_evolves wallet_step xs ys" "\<forall>w \<in> set ys. 0 \<le> wr_next_address_index w"
  shows "wallet_index m xs \<le> wallet_index m ys"
proof (cases "find (\<lambda>r. wr_merchant_id r = m) xs")
  case None
  then show ?thesis using assms(2) by (auto simp: wallet_index_def find_Some_iff split: option.split)
next
  case (Some r)
  have "wallet_step a b \<Longrightarrow> wr_merchant_id a = wr_merchant_id b" for a b by (simp add: wallet_stepD)
  from table_evolves_find [OF assms(1) this Some] show ?thesis
    by (auto simp: wallet_index_def Some dest: wallet_stepD)
qed

lemma wallet_index_nonneg: "\<forall>w \<in> set ws. 0 \<le> wr_next_address_index w \<Longrightarrow> 0 \<le> wallet_index m ws"
  by (auto simp: wallet_index_def find_Some_iff split: option.split)

lemma find_updated: "(\<And>r. c r \<Longrightarrow> c (f r)) \<Longrightarrow> find c (map (\<lambda>r. if c r then f r else r) xs) = map_option f (find c xs)"
  by (induction xs) auto

lemma sql_taken:
  "wp (sql_NextAddressIndex m) (\<lambda>i t. i = word_of_int (wallet_index (TrimSpace m) (t_merchant_wallets (db_data s))) \<and>
     wallet_index (TrimSpace m) (t_merchant_wallets (db_data s)) < wallet_index (TrimSpace m) (t_merchant_wallets (db_data t))) s"
  unfolding sql_NextAddressIndex_def Let_def
  apply (intro wp_if wp_fail wp_tx wp_bind wp_query wp_option wp_exec wp_return)
  by (auto simp: wallet_index_def find_updated elim!: db_updateE)

lemma mongo_taken:
  "wp (mongo_NextAddressIndex m) (\<lambda>i t. i = word_of_int (wallet_index (TrimSpace m) (k_merchant_wallets (db_data s))) \<and>
     wallet_index (TrimSpace m) (k_merchant_wallets (db_data s)) < wallet_index (TrimSpace m) (k_merchant_wallets (db_data t))) s"
  if "\<forall>w \<in> set (k_merchant_wallets (db_data s)). 0 \<le> wr_next_address_index w"
proof -
  have "\<not> wr_next_address_index z < 0" if "find (\<lambda>r. wr_merchant_id r = TrimSpace m) (k_merchant_wallets (db_data s)) = Some z" for z
    using find_SomeD [OF that] \<open>\<forall>w \<in> _. _\<close> by (simp add: not_less)
  then show ?thesis
    unfolding mongo_NextAddressIndex_def Let_def
    apply (intro wp_if wp_fail wp_bind wp_mongo_exec wp_option wp_return)
    by (auto simp: wallet_index_def find_update_first)
qed

interpretation sql_index: index_source sql_NextAddressIndex sql_step sql_reach "\<lambda>m s. wallet_index m (t_merchant_wallets (db_data s))"
proof
  have pos: "\<forall>w \<in> set (t_merchant_wallets (db_data u)). 0 \<le> wr_next_address_index w" if "sql_reach u" for u
    using sql_reach_ok [OF that] by (auto simp: sql_ok_def tables_ok_def core_ok_def rows_ok_def wallet_row_ok_def)
  show reach: "sql_reach t" if "sql_reach s" "sql_step s t" for s t by (rule sql_next [OF that])
  show "0 \<le> wallet_index m (t_merchant_wallets (db_data s))" if "sql_reach s" for m and s :: SqlStore
    by (rule wallet_index_nonneg [OF pos [OF that]])
  show "wallet_index m (t_merchant_wallets (db_data s)) \<le> wallet_index m (t_merchant_wallets (db_data t))"
    if "sql_reach s" "sql_step s t" for m and s t :: SqlStore
    by (rule wallet_index_grows [OF _ pos [OF reach [OF that]]]) (use sql_step_within [OF that(2)] in \<open>simp add: grows_def\<close>)
  show "sql_step s t \<and> i = word_of_int (wallet_index (TrimSpace m) (t_merchant_wallets (db_data s))) \<and>
      wallet_index (TrimSpace m) (t_merchant_wallets (db_data s)) < wallet_index (TrimSpace m) (t_merchant_wallets (db_data t))"
    if "sql_NextAddressIndex m s = (Inr i, t)" for m i and s t :: SqlStore
    using wpD [OF sql_taken that] sql_step_call [OF sql_call.intros(3) [OF that]] by blast
qed

interpretation mongo_index: index_source mongo_NextAddressIndex mongo_step mongo_reach
  "\<lambda>m s. wallet_index m (k_merchant_wallets (db_data s))"
proof
  have pos: "\<forall>w \<in> set (k_merchant_wallets (db_data u)). 0 \<le> wr_next_address_index w" if "mongo_reach u" for u
    using mongo_reach_ok [OF that] by (simp add: mongo_ok_def mongo_keys_def)
  show reach: "mongo_reach t" if "mongo_reach s" "mongo_step s t" for s t by (rule mongo_next [OF that])
  show "0 \<le> wallet_index m (k_merchant_wallets (db_data s))" if "mongo_reach s" for m and s :: MongoStore
    by (rule wallet_index_nonneg [OF pos [OF that]])
  show "wallet_index m (k_merchant_wallets (db_data s)) \<le> wallet_index m (k_merchant_wallets (db_data t))"
    if "mongo_reach s" "mongo_step s t" for m and s t :: MongoStore
    by (rule wallet_index_grows [OF _ pos [OF reach [OF that]]])
      (use sound_step [OF that(2)] in \<open>simp add: sound_def mongo_grows_def\<close>)
  show "mongo_step s t \<and> i = word_of_int (wallet_index (TrimSpace m) (k_merchant_wallets (db_data s))) \<and>
      wallet_index (TrimSpace m) (k_merchant_wallets (db_data s)) < wallet_index (TrimSpace m) (k_merchant_wallets (db_data t))"
    if "mongo_reach s" "mongo_NextAddressIndex m s = (Inr i, t)" for m i and s t :: MongoStore
    using wpD [OF mongo_taken [OF pos [OF that(1)]] that(2)] mongo_step_call [OF mongo_call.intros(3) [OF that(2)]] by blast
qed

section \<open>No address twice\<close>

text \<open>The SQL store never hands out an address index of a merchant twice: after whatever calls, the next one is
  greater, as long as the number has 32 bits.\<close>

theorem sql_address_fresh:
  assumes "sql_reach s" "sql_NextAddressIndex m s = (Inr i, t)" "sql_step\<^sup>*\<^sup>* t u" "sql_NextAddressIndex m u = (Inr j, v)"
    "wallet_index (TrimSpace m) (t_merchant_wallets (db_data u)) < 2 ^ 32"
  shows "i < j"
  by (rule sql_index.fresh [OF assms(1-4) refl assms(5)])

text \<open>C32: Nor does the MongoDB store.\<close>

theorem mongo_address_fresh:
  assumes "mongo_reach s" "mongo_NextAddressIndex m s = (Inr i, t)" "mongo_step\<^sup>*\<^sup>* t u" "mongo_NextAddressIndex m u = (Inr j, v)"
    "wallet_index (TrimSpace m) (k_merchant_wallets (db_data u)) < 2 ^ 32"
  shows "i < j"
  by (rule mongo_index.fresh [OF assms(1-4) refl assms(5)])

lemma not_isl_pair: "\<not> isl (fst p) \<Longrightarrow> \<exists>x t. p = (Inr x, t)"
  by (metis isl_def prod.collapse sum.exhaust)

definition demo_wallet_of :: "string \<Rightarrow> MerchantWallet" where
  "demo_wallet_of w = \<lparr>mw_MerchantID = [], mw_WalletID = w, mw_UFVK = ''uview1'', mw_Chain = ''mainnet'', mw_UAHRP = ''j'',
     mw_CoinType = 133, mw_CreatedAt = unix_time 0\<rparr>"

definition demo_sql_wallet :: "string \<times> SqlStore" where
  "demo_sql_wallet = (let m = mr_merchant_id (hd (t_merchants (db_data demo_sql_merchant)))
     in (m, snd (sql_SetMerchantWallet m (demo_wallet_of ''w'') demo_sql_merchant)))"

definition demo_mongo_wallet :: "string \<times> MongoStore" where
  "demo_mongo_wallet = (let m = mr_merchant_id (hd (k_merchants (db_data demo_mongo_merchant)))
     in (m, snd (mongo_SetMerchantWallet m (demo_wallet_of ''w'') demo_mongo_merchant)))"

theorem mongo_address_fresh_witness:
  "\<exists>i j t v. mongo_NextAddressIndex (fst demo_mongo_wallet) (snd demo_mongo_wallet) = (Inr i, t) \<and>
     mongo_NextAddressIndex (fst demo_mongo_wallet) t = (Inr j, v) \<and> i < j"
proof -
  let ?m = "fst demo_mongo_wallet" and ?s = "snd demo_mongo_wallet"
  have two: "\<not> isl (fst (mongo_NextAddressIndex ?m ?s))" "\<not> isl (fst (mongo_NextAddressIndex ?m (snd (mongo_NextAddressIndex ?m ?s))))"
    "wallet_index (TrimSpace ?m) (k_merchant_wallets (db_data (snd (mongo_NextAddressIndex ?m ?s)))) < 2 ^ 32"
    by code_simp+
  obtain i t where i: "mongo_NextAddressIndex ?m ?s = (Inr i, t)" using not_isl_pair [OF two(1)] by blast
  obtain j v where j: "mongo_NextAddressIndex ?m t = (Inr j, v)" using not_isl_pair [OF two(2)] i by auto
  have "mongo_reach ?s"
    using mongo_next [OF demo_mongo_reaches(1) mongo_step_call [OF mongo_call.intros(2) [OF prod.collapse [symmetric]]]]
    by (simp add: demo_mongo_wallet_def Let_def)
  from mongo_address_fresh [OF this i _ j] two(3) i j show ?thesis by auto
qed

theorem sql_address_fresh_witness:
  "\<exists>i j t v. sql_NextAddressIndex (fst demo_sql_wallet) (snd demo_sql_wallet) = (Inr i, t) \<and>
     sql_NextAddressIndex (fst demo_sql_wallet) t = (Inr j, v) \<and> i < j"
proof -
  let ?m = "fst demo_sql_wallet" and ?s = "snd demo_sql_wallet"
  have two: "\<not> isl (fst (sql_NextAddressIndex ?m ?s))" "\<not> isl (fst (sql_NextAddressIndex ?m (snd (sql_NextAddressIndex ?m ?s))))"
    "wallet_index (TrimSpace ?m) (t_merchant_wallets (db_data (snd (sql_NextAddressIndex ?m ?s)))) < 2 ^ 32"
    by code_simp+
  obtain i t where i: "sql_NextAddressIndex ?m ?s = (Inr i, t)" using not_isl_pair [OF two(1)] by blast
  obtain j v where j: "sql_NextAddressIndex ?m t = (Inr j, v)" using not_isl_pair [OF two(2)] i by auto
  have "sql_reach ?s"
    using sql_next [OF demo_sql_reaches(1) sql_step_call [OF sql_call.intros(2) [OF prod.collapse [symmetric]]]]
    by (simp add: demo_sql_wallet_def Let_def)
  from sql_address_fresh [OF this i _ j] two(3) i j show ?thesis by auto
qed

end
