(* ===== verification/DbPaging.thy ===== *)
theory DbPaging
  imports MongoAgain
begin

text \<open>
  The listings by cursor of the stores on databases: the contract \<open>cursor_log\<close> of \<open>Paging\<close>, with the numbered rows of a
  table for the log.
\<close>

lemma sorted_page:
  assumes "0 < limit"
  shows "(map g (sql_limit limit (sort_key num (filter P xs))), last_num num (sql_limit limit (sort_key num (filter P xs)))) =
    map_prod (map g) (\<lambda>n. n) (page (\<lambda>r. int (num r)) P limit [] 0 (sort_key num xs))"
  using assms by (simp add: page_eq filter_sort sql_limit_def last_num_def Let_def)

lemma sorted_numbers: "distinct (map num xs) \<Longrightarrow> sorted_wrt (<) (map (\<lambda>r. int (num r)) (sort_key num xs))"
proof -
  assume d: "distinct (map num xs)"
  have "sorted (map num (sort_key num xs))" by simp
  moreover have "distinct (map num (sort_key num xs))" using d by (simp add: distinct_map)
  ultimately have "sorted_wrt (<) (map num (sort_key num xs))" by (simp add: strict_sorted_iff)
  then show ?thesis by (simp add: sorted_wrt_map)
qed

interpretation sql_outbox_log: cursor_log "\<lambda>r. int (or_id r)" "\<lambda>t. sort_key or_id (t_outbox_events t)" nums_ok
proof
  fix t assume t: "nums_ok t"
  then have ids: "map or_id (t_outbox_events t) = [1..<Suc (n_outbox_events t)]" by (simp add: nums_ok_def numbered_def)
  show "sorted_wrt (<) (map (\<lambda>r. int (or_id r)) (sort_key or_id (t_outbox_events t)))"
    by (rule sorted_numbers) (simp add: ids del: upt_Suc)
  fix r assume "r \<in> set (sort_key or_id (t_outbox_events t))"
  then have "or_id r \<in> set (map or_id (t_outbox_events t))" by simp
  then show "0 < int (or_id r)" by (simp add: ids del: upt_Suc)
qed

lemma clash_distinct:
  assumes "no_clash clash xs" "\<And>a b. num a = num b \<Longrightarrow> clash a b"
  shows "distinct (map num xs)"
  using assms(1) by (induction xs) (auto simp: list_ex_iff dest: assms(2))

interpretation mongo_outbox_log: cursor_log "\<lambda>r. int (or_id r)" "\<lambda>t. sort_key or_id (k_outbox_events t)" mongo_ok
proof
  fix t assume t: "mongo_ok t"
  show "sorted_wrt (<) (map (\<lambda>r. int (or_id r)) (sort_key or_id (k_outbox_events t)))"
    by (rule sorted_numbers, rule clash_distinct [where clash = outbox_clash])
      (use t in \<open>simp_all add: mongo_ok_def mongo_keys_def outbox_clash_def\<close>)
  show "0 < int (or_id r)" if "r \<in> set (sort_key or_id (k_outbox_events t))" for r
    using that t by (simp add: mongo_ok_def)
qed

text \<open>A client that reads the outbound events of a merchant, or of all, page by page, from the start until a page is empty, receives
  every event that was published, once, in the order of their numbers: on the SQL store, when the database answers.\<close>

theorem sql_outbound_complete:
  assumes "sql_reach s" "healthy s" "0 < limit" "limit \<le> 1000" "length (t_outbox_events (db_data s)) < fuel"
  shows "walk (\<lambda>c. page_of (fst (sql_ListOutboundEvents mid c limit s))) fuel 0 =
    Some (map or_envelope (filter (\<lambda>r. TrimSpace mid = [] \<or> or_merchant_id r = TrimSpace mid) (sort_key or_id (t_outbox_events (db_data s)))))"
proof -
  let ?match = "\<lambda>r. TrimSpace mid = [] \<or> or_merchant_id r = TrimSpace mid"
  have good: "nums_ok (db_data s)" using sql_reach_ok [OF assms(1)] by (simp add: sql_ok_def tables_ok_def core_ok_def)
  have page: "page_of (fst (sql_ListOutboundEvents mid c limit s)) =
      map_prod (map or_envelope) (\<lambda>n. n) (sql_outbox_log.fetch ?match limit (db_data s) c)" for c
    using assms(2-4)
    by (simp add: sql_ListOutboundEvents_def db_query_def db_stmt_def healthy_def page_of_def sorted_page
        sql_outbox_log.fetch_def conj_commute Let_def)
  show ?thesis
    unfolding page walk_map using sql_outbox_log.walk_all [OF good assms(3), of fuel ?match] assms(5) by simp
qed

text \<open>C33: And on the MongoDB store.\<close>

theorem mongo_outbound_complete:
  assumes "mongo_reach s" "reliable s" "0 < limit" "limit \<le> 1000" "length (k_outbox_events (db_data s)) < fuel"
  shows "walk (\<lambda>c. page_of (fst (mongo_ListOutboundEvents mid c limit s))) fuel 0 =
    Some (map or_envelope (filter (\<lambda>r. TrimSpace mid = [] \<or> or_merchant_id r = TrimSpace mid) (sort_key or_id (k_outbox_events (db_data s)))))"
proof -
  let ?match = "\<lambda>r. TrimSpace mid = [] \<or> or_merchant_id r = TrimSpace mid"
  have good: "mongo_ok (db_data s)" by (rule mongo_reach_ok [OF assms(1)])
  have "mongo_query f s = (Inr (f (db_data s)), db_tick s)" for f :: "Collections \<Rightarrow> CloudEvent list \<times> int64"
    by (rule mongo_query_answers) (use assms(2) mongo_reach_outside [OF assms(1)] in \<open>simp_all add: reliable_def\<close>)
  then have page: "page_of (fst (mongo_ListOutboundEvents mid c limit s)) =
      map_prod (map or_envelope) (\<lambda>n. n) (mongo_outbox_log.fetch ?match limit (db_data s) c)" for c
    using assms(3,4)
    by (simp add: mongo_ListOutboundEvents_def page_of_def sorted_page mongo_outbox_log.fetch_def conj_commute Let_def)
  show ?thesis
    unfolding page walk_map using mongo_outbox_log.walk_all [OF good assms(3), of fuel ?match] assms(5) by simp
qed

theorem sql_outbound_complete_witness:
  "\<exists>e. walk (\<lambda>c. page_of (fst (sql_ListOutboundEvents [] c 1 demo_sql_invoice))) 2 0 = Some [e]"
proof -
  have "length (t_outbox_events (db_data demo_sql_invoice)) = 1" by code_simp
  then obtain x where x: "t_outbox_events (db_data demo_sql_invoice) = [x]" by (cases "t_outbox_events (db_data demo_sql_invoice)") auto
  have "healthy demo_sql_invoice" using demo_env_same by (auto simp: healthy_def same_env_fields demo_sql_def)
  moreover have "TrimSpace [] = ([] :: string)" by code_simp
  ultimately show ?thesis using sql_outbound_complete [OF demo_sql_reaches(2), of 1 2 "[]"] by (simp add: x)
qed

theorem mongo_outbound_complete_witness:
  "\<exists>e. walk (\<lambda>c. page_of (fst (mongo_ListOutboundEvents [] c 1 demo_mongo_invoice))) 2 0 = Some [e]"
proof -
  have "length (k_outbox_events (db_data demo_mongo_invoice)) = 1" by code_simp
  then obtain x where x: "k_outbox_events (db_data demo_mongo_invoice) = [x]" by (cases "k_outbox_events (db_data demo_mongo_invoice)") auto
  have "reliable demo_mongo_invoice" using demo_mongo_env(2) by (auto simp: reliable_def same_env_fields demo_mongo_def)
  moreover have "TrimSpace [] = ([] :: string)" by code_simp
  ultimately show ?thesis using mongo_outbound_complete [OF demo_mongo_reaches(2), of 1 2 "[]"] by (simp add: x)
qed

end
