(* ===== verification/SqlSchema.thy ===== *)
theory SqlSchema
  imports SqlTextProps
begin

text \<open>
  The schemas of the three dialects (\<open>schemaStmts\<close> of \<open>dialect_sqlite.go\<close>, \<open>dialect_postgres.go\<close>,
  \<open>dialect_mysql.go\<close>), statement by statement, the text a statement has, and the loop of \<open>Store.Init\<close> that
  executes them. The blanks between the words of a text are single, where the source breaks lines.
\<close>

section \<open>Statements\<close>

datatype column_type = INTEGER | BIGINT | INT_TYPE | BIGSERIAL | TEXT | VARCHAR nat | BLOB | LONGBLOB | BYTEA | BINARY nat

datatype column_option = NOT_NULL | NULLABLE | PRIMARY_KEY | AUTOINCREMENT | AUTO_INCREMENT | UNIQUE

text \<open>\<open>NULLABLE\<close> is the \<open>NULL\<close> that the MySQL schema writes out.\<close>

datatype column = Col (col_name: string) (col_type: column_type) (col_options: "column_option list")

text \<open>\<open>CREATE TABLE IF NOT EXISTS\<close> with its columns and its \<open>UNIQUE\<close> constraints; \<open>CREATE [UNIQUE] INDEX [IF NOT EXISTS]\<close>
  with its name, its table and its columns.\<close>

datatype ddl =
    CreateTable string "column list" "string list list"
  | CreateIndex bool bool string string "string list"

section \<open>SQLite\<close>

definition sqlite_accounts :: "ddl list" where
  "sqlite_accounts = [
     CreateTable ''merchants''
       [Col ''merchant_id'' TEXT [PRIMARY_KEY],
        Col ''name'' TEXT [NOT_NULL],
        Col ''status'' TEXT [NOT_NULL],
        Col ''settings_invoice_ttl_seconds'' INTEGER [NOT_NULL],
        Col ''settings_required_confirmations'' INTEGER [NOT_NULL],
        Col ''settings_late_payment_policy'' TEXT [NOT_NULL],
        Col ''settings_partial_payment_policy'' TEXT [NOT_NULL],
        Col ''settings_overpayment_policy'' TEXT [NOT_NULL],
        Col ''created_at'' INTEGER [NOT_NULL],
        Col ''updated_at'' INTEGER [NOT_NULL]]
       [],
     CreateTable ''merchant_wallets''
       [Col ''merchant_id'' TEXT [PRIMARY_KEY],
        Col ''wallet_id'' TEXT [NOT_NULL],
        Col ''ufvk'' TEXT [NOT_NULL],
        Col ''chain'' TEXT [NOT_NULL],
        Col ''ua_hrp'' TEXT [NOT_NULL],
        Col ''coin_type'' INTEGER [NOT_NULL],
        Col ''next_address_index'' INTEGER [NOT_NULL],
        Col ''created_at'' INTEGER [NOT_NULL]]
       [],
     CreateTable ''api_keys''
       [Col ''key_id'' TEXT [PRIMARY_KEY],
        Col ''merchant_id'' TEXT [NOT_NULL],
        Col ''label'' TEXT [NOT_NULL],
        Col ''token_hash'' TEXT [NOT_NULL],
        Col ''revoked_at'' INTEGER [],
        Col ''created_at'' INTEGER [NOT_NULL]]
       [],
     CreateIndex True True ''idx_api_keys_token_hash'' ''api_keys'' [''token_hash'']]"

definition sqlite_invoices :: "ddl list" where
  "sqlite_invoices = [
     CreateTable ''invoices''
       [Col ''seq'' INTEGER [PRIMARY_KEY, AUTOINCREMENT],
        Col ''invoice_id'' TEXT [NOT_NULL, UNIQUE],
        Col ''merchant_id'' TEXT [NOT_NULL],
        Col ''external_order_id'' TEXT [NOT_NULL],
        Col ''external_order_id_hash'' BLOB [NOT_NULL],
        Col ''wallet_id'' TEXT [NOT_NULL],
        Col ''address_index'' INTEGER [NOT_NULL],
        Col ''address'' TEXT [NOT_NULL],
        Col ''address_hash'' BLOB [NOT_NULL],
        Col ''created_after_height'' INTEGER [NOT_NULL],
        Col ''created_after_hash'' TEXT [NOT_NULL],
        Col ''amount_zat'' INTEGER [NOT_NULL],
        Col ''required_confirmations'' INTEGER [NOT_NULL],
        Col ''policy_late_payment'' TEXT [NOT_NULL],
        Col ''policy_partial_payment'' TEXT [NOT_NULL],
        Col ''policy_overpayment'' TEXT [NOT_NULL],
        Col ''received_pending_zat'' INTEGER [NOT_NULL],
        Col ''received_confirmed_zat'' INTEGER [NOT_NULL],
        Col ''status'' TEXT [NOT_NULL],
        Col ''expires_at'' INTEGER [],
        Col ''created_at'' INTEGER [NOT_NULL],
        Col ''updated_at'' INTEGER [NOT_NULL]]
       [[''merchant_id'', ''external_order_id_hash''], [''wallet_id'', ''address_hash'']],
     CreateIndex False True ''idx_invoices_merchant_seq'' ''invoices'' [''merchant_id'', ''seq''],
     CreateIndex False True ''idx_invoices_merchant_status_seq'' ''invoices'' [''merchant_id'', ''status'', ''seq''],
     CreateTable ''invoice_tokens''
       [Col ''invoice_id'' TEXT [PRIMARY_KEY],
        Col ''token_enc'' BLOB [NOT_NULL]]
       [],
     CreateTable ''scan_cursors''
       [Col ''wallet_id'' TEXT [PRIMARY_KEY],
        Col ''cursor_id'' INTEGER [NOT_NULL],
        Col ''last_event_at'' INTEGER []]
       []]"

definition sqlite_deposits :: "ddl list" where
  "sqlite_deposits = [
     CreateTable ''deposits''
       [Col ''seq'' INTEGER [PRIMARY_KEY, AUTOINCREMENT],
        Col ''wallet_id'' TEXT [NOT_NULL],
        Col ''txid'' TEXT [NOT_NULL],
        Col ''action_index'' INTEGER [NOT_NULL],
        Col ''recipient_address'' TEXT [NOT_NULL],
        Col ''recipient_address_hash'' BLOB [NOT_NULL],
        Col ''amount_zat'' INTEGER [NOT_NULL],
        Col ''height'' INTEGER [NOT_NULL],
        Col ''status'' TEXT [NOT_NULL],
        Col ''confirmed_height'' INTEGER [],
        Col ''invoice_id'' TEXT [],
        Col ''detected_at'' INTEGER [NOT_NULL],
        Col ''updated_at'' INTEGER [NOT_NULL]]
       [[''wallet_id'', ''txid'', ''action_index'']],
     CreateIndex False True ''idx_deposits_invoice_status'' ''deposits'' [''invoice_id'', ''status'', ''seq''],
     CreateIndex False True ''idx_deposits_wallet_recipient_hash'' ''deposits'' [''wallet_id'', ''recipient_address_hash'']]"

definition sqlite_reviews :: "ddl list" where
  "sqlite_reviews = [
     CreateTable ''refunds''
       [Col ''id'' INTEGER [PRIMARY_KEY, AUTOINCREMENT],
        Col ''refund_id'' TEXT [NOT_NULL, UNIQUE],
        Col ''merchant_id'' TEXT [NOT_NULL],
        Col ''invoice_id'' TEXT [],
        Col ''external_refund_id'' TEXT [],
        Col ''to_address'' TEXT [NOT_NULL],
        Col ''amount_zat'' INTEGER [NOT_NULL],
        Col ''status'' TEXT [NOT_NULL],
        Col ''sent_txid'' TEXT [],
        Col ''notes'' TEXT [NOT_NULL],
        Col ''created_at'' INTEGER [NOT_NULL],
        Col ''updated_at'' INTEGER [NOT_NULL]]
       [],
     CreateIndex False True ''idx_refunds_merchant_id'' ''refunds'' [''merchant_id'', ''id''],
     CreateIndex False True ''idx_refunds_invoice_id'' ''refunds'' [''invoice_id'', ''id''],
     CreateTable ''review_cases''
       [Col ''id'' INTEGER [PRIMARY_KEY, AUTOINCREMENT],
        Col ''review_id'' TEXT [NOT_NULL, UNIQUE],
        Col ''merchant_id'' TEXT [NOT_NULL],
        Col ''invoice_id'' TEXT [],
        Col ''reason'' TEXT [NOT_NULL],
        Col ''status'' TEXT [NOT_NULL],
        Col ''notes'' TEXT [NOT_NULL],
        Col ''deposit_wallet_id'' TEXT [],
        Col ''deposit_txid'' TEXT [],
        Col ''deposit_action_index'' INTEGER [],
        Col ''created_at'' INTEGER [NOT_NULL],
        Col ''updated_at'' INTEGER [NOT_NULL]]
       [],
     CreateIndex False True ''idx_review_cases_merchant_status'' ''review_cases'' [''merchant_id'', ''status'', ''id''],
     CreateIndex True True ''idx_review_cases_invoice_unique'' ''review_cases'' [''merchant_id'', ''invoice_id'', ''reason'', ''status''],
     CreateIndex True True ''idx_review_cases_deposit_unique'' ''review_cases'' [''deposit_wallet_id'', ''deposit_txid'', ''deposit_action_index'', ''reason'']]"

definition sqlite_events :: "ddl list" where
  "sqlite_events = [
     CreateTable ''invoice_events''
       [Col ''id'' INTEGER [PRIMARY_KEY, AUTOINCREMENT],
        Col ''invoice_id'' TEXT [NOT_NULL],
        Col ''type'' TEXT [NOT_NULL],
        Col ''occurred_at'' INTEGER [NOT_NULL],
        Col ''deposit_wallet_id'' TEXT [],
        Col ''deposit_txid'' TEXT [],
        Col ''deposit_action_index'' INTEGER [],
        Col ''deposit_amount_zat'' INTEGER [],
        Col ''deposit_height'' INTEGER [],
        Col ''refund_id'' TEXT [],
        Col ''created_at'' INTEGER [NOT_NULL]]
       [],
     CreateIndex False True ''idx_invoice_events_invoice_id'' ''invoice_events'' [''invoice_id'', ''id''],
     CreateIndex True True ''idx_invoice_events_deposit_unique'' ''invoice_events'' [''invoice_id'', ''type'', ''deposit_wallet_id'', ''deposit_txid'', ''deposit_action_index''],
     CreateIndex True True ''idx_invoice_events_refund_unique'' ''invoice_events'' [''invoice_id'', ''type'', ''refund_id''],
     CreateTable ''event_sinks''
       [Col ''sink_id'' TEXT [PRIMARY_KEY],
        Col ''merchant_id'' TEXT [NOT_NULL],
        Col ''kind'' TEXT [NOT_NULL],
        Col ''status'' TEXT [NOT_NULL],
        Col ''config_json'' BLOB [NOT_NULL],
        Col ''created_at'' INTEGER [NOT_NULL],
        Col ''updated_at'' INTEGER [NOT_NULL]]
       [],
     CreateIndex False True ''idx_event_sinks_merchant_id'' ''event_sinks'' [''merchant_id''],
     CreateTable ''outbox_events''
       [Col ''id'' INTEGER [PRIMARY_KEY, AUTOINCREMENT],
        Col ''event_id'' TEXT [NOT_NULL, UNIQUE],
        Col ''merchant_id'' TEXT [NOT_NULL],
        Col ''envelope_json'' BLOB [NOT_NULL],
        Col ''created_at'' INTEGER [NOT_NULL]]
       [],
     CreateIndex False True ''idx_outbox_events_merchant_id'' ''outbox_events'' [''merchant_id'', ''id''],
     CreateTable ''event_deliveries''
       [Col ''delivery_id'' TEXT [PRIMARY_KEY],
        Col ''merchant_id'' TEXT [NOT_NULL],
        Col ''sink_id'' TEXT [NOT_NULL],
        Col ''event_id'' TEXT [NOT_NULL],
        Col ''status'' TEXT [NOT_NULL],
        Col ''attempt'' INTEGER [NOT_NULL],
        Col ''next_retry_at'' INTEGER [],
        Col ''last_error'' TEXT [],
        Col ''created_at'' INTEGER [NOT_NULL],
        Col ''updated_at'' INTEGER [NOT_NULL]]
       [[''sink_id'', ''event_id'']],
     CreateIndex False True ''idx_event_deliveries_merchant_status_retry'' ''event_deliveries'' [''merchant_id'', ''status'', ''next_retry_at''],
     CreateIndex False True ''idx_event_deliveries_sink_id'' ''event_deliveries'' [''sink_id'']]"

definition sqlite_schema :: "ddl list" where
  "sqlite_schema = sqlite_accounts @ sqlite_invoices @ sqlite_deposits @ sqlite_reviews @ sqlite_events"

section \<open>Postgres\<close>

definition postgres_accounts :: "ddl list" where
  "postgres_accounts = [
     CreateTable ''merchants''
       [Col ''merchant_id'' TEXT [PRIMARY_KEY],
        Col ''name'' TEXT [NOT_NULL],
        Col ''status'' TEXT [NOT_NULL],
        Col ''settings_invoice_ttl_seconds'' BIGINT [NOT_NULL],
        Col ''settings_required_confirmations'' INTEGER [NOT_NULL],
        Col ''settings_late_payment_policy'' TEXT [NOT_NULL],
        Col ''settings_partial_payment_policy'' TEXT [NOT_NULL],
        Col ''settings_overpayment_policy'' TEXT [NOT_NULL],
        Col ''created_at'' BIGINT [NOT_NULL],
        Col ''updated_at'' BIGINT [NOT_NULL]]
       [],
     CreateTable ''merchant_wallets''
       [Col ''merchant_id'' TEXT [PRIMARY_KEY],
        Col ''wallet_id'' TEXT [NOT_NULL],
        Col ''ufvk'' TEXT [NOT_NULL],
        Col ''chain'' TEXT [NOT_NULL],
        Col ''ua_hrp'' TEXT [NOT_NULL],
        Col ''coin_type'' INTEGER [NOT_NULL],
        Col ''next_address_index'' BIGINT [NOT_NULL],
        Col ''created_at'' BIGINT [NOT_NULL]]
       [],
     CreateTable ''api_keys''
       [Col ''key_id'' TEXT [PRIMARY_KEY],
        Col ''merchant_id'' TEXT [NOT_NULL],
        Col ''label'' TEXT [NOT_NULL],
        Col ''token_hash'' TEXT [NOT_NULL],
        Col ''revoked_at'' BIGINT [],
        Col ''created_at'' BIGINT [NOT_NULL]]
       [],
     CreateIndex True True ''idx_api_keys_token_hash'' ''api_keys'' [''token_hash'']]"

definition postgres_invoices :: "ddl list" where
  "postgres_invoices = [
     CreateTable ''invoices''
       [Col ''seq'' BIGSERIAL [PRIMARY_KEY],
        Col ''invoice_id'' TEXT [NOT_NULL, UNIQUE],
        Col ''merchant_id'' TEXT [NOT_NULL],
        Col ''external_order_id'' TEXT [NOT_NULL],
        Col ''external_order_id_hash'' BYTEA [NOT_NULL],
        Col ''wallet_id'' TEXT [NOT_NULL],
        Col ''address_index'' BIGINT [NOT_NULL],
        Col ''address'' TEXT [NOT_NULL],
        Col ''address_hash'' BYTEA [NOT_NULL],
        Col ''created_after_height'' BIGINT [NOT_NULL],
        Col ''created_after_hash'' TEXT [NOT_NULL],
        Col ''amount_zat'' BIGINT [NOT_NULL],
        Col ''required_confirmations'' INTEGER [NOT_NULL],
        Col ''policy_late_payment'' TEXT [NOT_NULL],
        Col ''policy_partial_payment'' TEXT [NOT_NULL],
        Col ''policy_overpayment'' TEXT [NOT_NULL],
        Col ''received_pending_zat'' BIGINT [NOT_NULL],
        Col ''received_confirmed_zat'' BIGINT [NOT_NULL],
        Col ''status'' TEXT [NOT_NULL],
        Col ''expires_at'' BIGINT [],
        Col ''created_at'' BIGINT [NOT_NULL],
        Col ''updated_at'' BIGINT [NOT_NULL]]
       [[''merchant_id'', ''external_order_id_hash''], [''wallet_id'', ''address_hash'']],
     CreateIndex False True ''idx_invoices_merchant_seq'' ''invoices'' [''merchant_id'', ''seq''],
     CreateIndex False True ''idx_invoices_merchant_status_seq'' ''invoices'' [''merchant_id'', ''status'', ''seq''],
     CreateTable ''invoice_tokens''
       [Col ''invoice_id'' TEXT [PRIMARY_KEY],
        Col ''token_enc'' BYTEA [NOT_NULL]]
       [],
     CreateTable ''scan_cursors''
       [Col ''wallet_id'' TEXT [PRIMARY_KEY],
        Col ''cursor_id'' BIGINT [NOT_NULL],
        Col ''last_event_at'' BIGINT []]
       []]"

definition postgres_deposits :: "ddl list" where
  "postgres_deposits = [
     CreateTable ''deposits''
       [Col ''seq'' BIGSERIAL [PRIMARY_KEY],
        Col ''wallet_id'' TEXT [NOT_NULL],
        Col ''txid'' TEXT [NOT_NULL],
        Col ''action_index'' INTEGER [NOT_NULL],
        Col ''recipient_address'' TEXT [NOT_NULL],
        Col ''recipient_address_hash'' BYTEA [NOT_NULL],
        Col ''amount_zat'' BIGINT [NOT_NULL],
        Col ''height'' BIGINT [NOT_NULL],
        Col ''status'' TEXT [NOT_NULL],
        Col ''confirmed_height'' BIGINT [],
        Col ''invoice_id'' TEXT [],
        Col ''detected_at'' BIGINT [NOT_NULL],
        Col ''updated_at'' BIGINT [NOT_NULL]]
       [[''wallet_id'', ''txid'', ''action_index'']],
     CreateIndex False True ''idx_deposits_invoice_status'' ''deposits'' [''invoice_id'', ''status'', ''seq''],
     CreateIndex False True ''idx_deposits_wallet_recipient_hash'' ''deposits'' [''wallet_id'', ''recipient_address_hash'']]"

definition postgres_reviews :: "ddl list" where
  "postgres_reviews = [
     CreateTable ''refunds''
       [Col ''id'' BIGSERIAL [PRIMARY_KEY],
        Col ''refund_id'' TEXT [NOT_NULL, UNIQUE],
        Col ''merchant_id'' TEXT [NOT_NULL],
        Col ''invoice_id'' TEXT [],
        Col ''external_refund_id'' TEXT [],
        Col ''to_address'' TEXT [NOT_NULL],
        Col ''amount_zat'' BIGINT [NOT_NULL],
        Col ''status'' TEXT [NOT_NULL],
        Col ''sent_txid'' TEXT [],
        Col ''notes'' TEXT [NOT_NULL],
        Col ''created_at'' BIGINT [NOT_NULL],
        Col ''updated_at'' BIGINT [NOT_NULL]]
       [],
     CreateIndex False True ''idx_refunds_merchant_id'' ''refunds'' [''merchant_id'', ''id''],
     CreateIndex False True ''idx_refunds_invoice_id'' ''refunds'' [''invoice_id'', ''id''],
     CreateTable ''review_cases''
       [Col ''id'' BIGSERIAL [PRIMARY_KEY],
        Col ''review_id'' TEXT [NOT_NULL, UNIQUE],
        Col ''merchant_id'' TEXT [NOT_NULL],
        Col ''invoice_id'' TEXT [],
        Col ''reason'' TEXT [NOT_NULL],
        Col ''status'' TEXT [NOT_NULL],
        Col ''notes'' TEXT [NOT_NULL],
        Col ''deposit_wallet_id'' TEXT [],
        Col ''deposit_txid'' TEXT [],
        Col ''deposit_action_index'' INTEGER [],
        Col ''created_at'' BIGINT [NOT_NULL],
        Col ''updated_at'' BIGINT [NOT_NULL]]
       [],
     CreateIndex False True ''idx_review_cases_merchant_status'' ''review_cases'' [''merchant_id'', ''status'', ''id''],
     CreateIndex True True ''idx_review_cases_invoice_unique'' ''review_cases'' [''merchant_id'', ''invoice_id'', ''reason'', ''status''],
     CreateIndex True True ''idx_review_cases_deposit_unique'' ''review_cases'' [''deposit_wallet_id'', ''deposit_txid'', ''deposit_action_index'', ''reason'']]"

definition postgres_events :: "ddl list" where
  "postgres_events = [
     CreateTable ''invoice_events''
       [Col ''id'' BIGSERIAL [PRIMARY_KEY],
        Col ''invoice_id'' TEXT [NOT_NULL],
        Col ''type'' TEXT [NOT_NULL],
        Col ''occurred_at'' BIGINT [NOT_NULL],
        Col ''deposit_wallet_id'' TEXT [],
        Col ''deposit_txid'' TEXT [],
        Col ''deposit_action_index'' INTEGER [],
        Col ''deposit_amount_zat'' BIGINT [],
        Col ''deposit_height'' BIGINT [],
        Col ''refund_id'' TEXT [],
        Col ''created_at'' BIGINT [NOT_NULL]]
       [],
     CreateIndex False True ''idx_invoice_events_invoice_id'' ''invoice_events'' [''invoice_id'', ''id''],
     CreateIndex True True ''idx_invoice_events_deposit_unique'' ''invoice_events'' [''invoice_id'', ''type'', ''deposit_wallet_id'', ''deposit_txid'', ''deposit_action_index''],
     CreateIndex True True ''idx_invoice_events_refund_unique'' ''invoice_events'' [''invoice_id'', ''type'', ''refund_id''],
     CreateTable ''event_sinks''
       [Col ''sink_id'' TEXT [PRIMARY_KEY],
        Col ''merchant_id'' TEXT [NOT_NULL],
        Col ''kind'' TEXT [NOT_NULL],
        Col ''status'' TEXT [NOT_NULL],
        Col ''config_json'' BYTEA [NOT_NULL],
        Col ''created_at'' BIGINT [NOT_NULL],
        Col ''updated_at'' BIGINT [NOT_NULL]]
       [],
     CreateIndex False True ''idx_event_sinks_merchant_id'' ''event_sinks'' [''merchant_id''],
     CreateTable ''outbox_events''
       [Col ''id'' BIGSERIAL [PRIMARY_KEY],
        Col ''event_id'' TEXT [NOT_NULL, UNIQUE],
        Col ''merchant_id'' TEXT [NOT_NULL],
        Col ''envelope_json'' BYTEA [NOT_NULL],
        Col ''created_at'' BIGINT [NOT_NULL]]
       [],
     CreateIndex False True ''idx_outbox_events_merchant_id'' ''outbox_events'' [''merchant_id'', ''id''],
     CreateTable ''event_deliveries''
       [Col ''delivery_id'' TEXT [PRIMARY_KEY],
        Col ''merchant_id'' TEXT [NOT_NULL],
        Col ''sink_id'' TEXT [NOT_NULL],
        Col ''event_id'' TEXT [NOT_NULL],
        Col ''status'' TEXT [NOT_NULL],
        Col ''attempt'' INTEGER [NOT_NULL],
        Col ''next_retry_at'' BIGINT [],
        Col ''last_error'' TEXT [],
        Col ''created_at'' BIGINT [NOT_NULL],
        Col ''updated_at'' BIGINT [NOT_NULL]]
       [[''sink_id'', ''event_id'']],
     CreateIndex False True ''idx_event_deliveries_merchant_status_retry'' ''event_deliveries'' [''merchant_id'', ''status'', ''next_retry_at''],
     CreateIndex False True ''idx_event_deliveries_sink_id'' ''event_deliveries'' [''sink_id'']]"

definition postgres_schema :: "ddl list" where
  "postgres_schema = postgres_accounts @ postgres_invoices @ postgres_deposits @ postgres_reviews @ postgres_events"

section \<open>MySQL\<close>

definition mysql_accounts :: "ddl list" where
  "mysql_accounts = [
     CreateTable ''merchants''
       [Col ''merchant_id'' (VARCHAR 64) [PRIMARY_KEY],
        Col ''name'' TEXT [NOT_NULL],
        Col ''status'' (VARCHAR 32) [NOT_NULL],
        Col ''settings_invoice_ttl_seconds'' BIGINT [NOT_NULL],
        Col ''settings_required_confirmations'' INT_TYPE [NOT_NULL],
        Col ''settings_late_payment_policy'' (VARCHAR 32) [NOT_NULL],
        Col ''settings_partial_payment_policy'' (VARCHAR 32) [NOT_NULL],
        Col ''settings_overpayment_policy'' (VARCHAR 32) [NOT_NULL],
        Col ''created_at'' BIGINT [NOT_NULL],
        Col ''updated_at'' BIGINT [NOT_NULL]]
       [],
     CreateTable ''merchant_wallets''
       [Col ''merchant_id'' (VARCHAR 64) [PRIMARY_KEY],
        Col ''wallet_id'' (VARCHAR 64) [NOT_NULL],
        Col ''ufvk'' TEXT [NOT_NULL],
        Col ''chain'' (VARCHAR 32) [NOT_NULL],
        Col ''ua_hrp'' (VARCHAR 16) [NOT_NULL],
        Col ''coin_type'' INT_TYPE [NOT_NULL],
        Col ''next_address_index'' BIGINT [NOT_NULL],
        Col ''created_at'' BIGINT [NOT_NULL]]
       [],
     CreateTable ''api_keys''
       [Col ''key_id'' (VARCHAR 64) [PRIMARY_KEY],
        Col ''merchant_id'' (VARCHAR 64) [NOT_NULL],
        Col ''label'' (VARCHAR 255) [NOT_NULL],
        Col ''token_hash'' (VARCHAR 64) [NOT_NULL],
        Col ''revoked_at'' BIGINT [NULLABLE],
        Col ''created_at'' BIGINT [NOT_NULL]]
       [],
     CreateIndex True False ''idx_api_keys_token_hash'' ''api_keys'' [''token_hash'']]"

definition mysql_invoices :: "ddl list" where
  "mysql_invoices = [
     CreateTable ''invoices''
       [Col ''seq'' BIGINT [AUTO_INCREMENT, PRIMARY_KEY],
        Col ''invoice_id'' (VARCHAR 64) [NOT_NULL],
        Col ''merchant_id'' (VARCHAR 64) [NOT_NULL],
        Col ''external_order_id'' TEXT [NOT_NULL],
        Col ''external_order_id_hash'' (BINARY 32) [NOT_NULL],
        Col ''wallet_id'' (VARCHAR 64) [NOT_NULL],
        Col ''address_index'' BIGINT [NOT_NULL],
        Col ''address'' TEXT [NOT_NULL],
        Col ''address_hash'' (BINARY 32) [NOT_NULL],
        Col ''created_after_height'' BIGINT [NOT_NULL],
        Col ''created_after_hash'' TEXT [NOT_NULL],
        Col ''amount_zat'' BIGINT [NOT_NULL],
        Col ''required_confirmations'' INT_TYPE [NOT_NULL],
        Col ''policy_late_payment'' (VARCHAR 32) [NOT_NULL],
        Col ''policy_partial_payment'' (VARCHAR 32) [NOT_NULL],
        Col ''policy_overpayment'' (VARCHAR 32) [NOT_NULL],
        Col ''received_pending_zat'' BIGINT [NOT_NULL],
        Col ''received_confirmed_zat'' BIGINT [NOT_NULL],
        Col ''status'' (VARCHAR 32) [NOT_NULL],
        Col ''expires_at'' BIGINT [NULLABLE],
        Col ''created_at'' BIGINT [NOT_NULL],
        Col ''updated_at'' BIGINT [NOT_NULL]]
       [[''invoice_id''], [''merchant_id'', ''external_order_id_hash''], [''wallet_id'', ''address_hash'']],
     CreateIndex False False ''idx_invoices_merchant_seq'' ''invoices'' [''merchant_id'', ''seq''],
     CreateIndex False False ''idx_invoices_merchant_status_seq'' ''invoices'' [''merchant_id'', ''status'', ''seq''],
     CreateTable ''invoice_tokens''
       [Col ''invoice_id'' (VARCHAR 64) [PRIMARY_KEY],
        Col ''token_enc'' BLOB [NOT_NULL]]
       [],
     CreateTable ''scan_cursors''
       [Col ''wallet_id'' (VARCHAR 64) [PRIMARY_KEY],
        Col ''cursor_id'' BIGINT [NOT_NULL],
        Col ''last_event_at'' BIGINT [NULLABLE]]
       []]"

definition mysql_deposits :: "ddl list" where
  "mysql_deposits = [
     CreateTable ''deposits''
       [Col ''seq'' BIGINT [AUTO_INCREMENT, PRIMARY_KEY],
        Col ''wallet_id'' (VARCHAR 64) [NOT_NULL],
        Col ''txid'' (VARCHAR 128) [NOT_NULL],
        Col ''action_index'' INT_TYPE [NOT_NULL],
        Col ''recipient_address'' TEXT [NOT_NULL],
        Col ''recipient_address_hash'' (BINARY 32) [NOT_NULL],
        Col ''amount_zat'' BIGINT [NOT_NULL],
        Col ''height'' BIGINT [NOT_NULL],
        Col ''status'' (VARCHAR 32) [NOT_NULL],
        Col ''confirmed_height'' BIGINT [NULLABLE],
        Col ''invoice_id'' (VARCHAR 64) [NULLABLE],
        Col ''detected_at'' BIGINT [NOT_NULL],
        Col ''updated_at'' BIGINT [NOT_NULL]]
       [[''wallet_id'', ''txid'', ''action_index'']],
     CreateIndex False False ''idx_deposits_invoice_status'' ''deposits'' [''invoice_id'', ''status'', ''seq''],
     CreateIndex False False ''idx_deposits_wallet_recipient_hash'' ''deposits'' [''wallet_id'', ''recipient_address_hash'']]"

definition mysql_reviews :: "ddl list" where
  "mysql_reviews = [
     CreateTable ''refunds''
       [Col ''id'' BIGINT [AUTO_INCREMENT, PRIMARY_KEY],
        Col ''refund_id'' (VARCHAR 64) [NOT_NULL],
        Col ''merchant_id'' (VARCHAR 64) [NOT_NULL],
        Col ''invoice_id'' (VARCHAR 64) [NULLABLE],
        Col ''external_refund_id'' TEXT [NULLABLE],
        Col ''to_address'' TEXT [NOT_NULL],
        Col ''amount_zat'' BIGINT [NOT_NULL],
        Col ''status'' (VARCHAR 32) [NOT_NULL],
        Col ''sent_txid'' TEXT [NULLABLE],
        Col ''notes'' TEXT [NOT_NULL],
        Col ''created_at'' BIGINT [NOT_NULL],
        Col ''updated_at'' BIGINT [NOT_NULL]]
       [[''refund_id'']],
     CreateIndex False False ''idx_refunds_merchant_id'' ''refunds'' [''merchant_id'', ''id''],
     CreateIndex False False ''idx_refunds_invoice_id'' ''refunds'' [''invoice_id'', ''id''],
     CreateTable ''review_cases''
       [Col ''id'' BIGINT [AUTO_INCREMENT, PRIMARY_KEY],
        Col ''review_id'' (VARCHAR 64) [NOT_NULL],
        Col ''merchant_id'' (VARCHAR 64) [NOT_NULL],
        Col ''invoice_id'' (VARCHAR 64) [NULLABLE],
        Col ''reason'' (VARCHAR 64) [NOT_NULL],
        Col ''status'' (VARCHAR 32) [NOT_NULL],
        Col ''notes'' TEXT [NOT_NULL],
        Col ''deposit_wallet_id'' (VARCHAR 64) [NULLABLE],
        Col ''deposit_txid'' (VARCHAR 128) [NULLABLE],
        Col ''deposit_action_index'' INT_TYPE [NULLABLE],
        Col ''created_at'' BIGINT [NOT_NULL],
        Col ''updated_at'' BIGINT [NOT_NULL]]
       [[''review_id'']],
     CreateIndex False False ''idx_review_cases_merchant_status'' ''review_cases'' [''merchant_id'', ''status'', ''id''],
     CreateIndex True False ''idx_review_cases_invoice_unique'' ''review_cases'' [''merchant_id'', ''invoice_id'', ''reason'', ''status''],
     CreateIndex True False ''idx_review_cases_deposit_unique'' ''review_cases'' [''deposit_wallet_id'', ''deposit_txid'', ''deposit_action_index'', ''reason'']]"

definition mysql_events :: "ddl list" where
  "mysql_events = [
     CreateTable ''invoice_events''
       [Col ''id'' BIGINT [AUTO_INCREMENT, PRIMARY_KEY],
        Col ''invoice_id'' (VARCHAR 64) [NOT_NULL],
        Col ''type'' (VARCHAR 64) [NOT_NULL],
        Col ''occurred_at'' BIGINT [NOT_NULL],
        Col ''deposit_wallet_id'' (VARCHAR 64) [NULLABLE],
        Col ''deposit_txid'' (VARCHAR 128) [NULLABLE],
        Col ''deposit_action_index'' INT_TYPE [NULLABLE],
        Col ''deposit_amount_zat'' BIGINT [NULLABLE],
        Col ''deposit_height'' BIGINT [NULLABLE],
        Col ''refund_id'' (VARCHAR 64) [NULLABLE],
        Col ''created_at'' BIGINT [NOT_NULL]]
       [],
     CreateIndex False False ''idx_invoice_events_invoice_id'' ''invoice_events'' [''invoice_id'', ''id''],
     CreateIndex True False ''idx_invoice_events_deposit_unique'' ''invoice_events'' [''invoice_id'', ''type'', ''deposit_wallet_id'', ''deposit_txid'', ''deposit_action_index''],
     CreateIndex True False ''idx_invoice_events_refund_unique'' ''invoice_events'' [''invoice_id'', ''type'', ''refund_id''],
     CreateTable ''event_sinks''
       [Col ''sink_id'' (VARCHAR 64) [PRIMARY_KEY],
        Col ''merchant_id'' (VARCHAR 64) [NOT_NULL],
        Col ''kind'' (VARCHAR 32) [NOT_NULL],
        Col ''status'' (VARCHAR 32) [NOT_NULL],
        Col ''config_json'' LONGBLOB [NOT_NULL],
        Col ''created_at'' BIGINT [NOT_NULL],
        Col ''updated_at'' BIGINT [NOT_NULL]]
       [],
     CreateIndex False False ''idx_event_sinks_merchant_id'' ''event_sinks'' [''merchant_id''],
     CreateTable ''outbox_events''
       [Col ''id'' BIGINT [AUTO_INCREMENT, PRIMARY_KEY],
        Col ''event_id'' (VARCHAR 64) [NOT_NULL],
        Col ''merchant_id'' (VARCHAR 64) [NOT_NULL],
        Col ''envelope_json'' LONGBLOB [NOT_NULL],
        Col ''created_at'' BIGINT [NOT_NULL]]
       [[''event_id'']],
     CreateIndex False False ''idx_outbox_events_merchant_id'' ''outbox_events'' [''merchant_id'', ''id''],
     CreateTable ''event_deliveries''
       [Col ''delivery_id'' (VARCHAR 64) [PRIMARY_KEY],
        Col ''merchant_id'' (VARCHAR 64) [NOT_NULL],
        Col ''sink_id'' (VARCHAR 64) [NOT_NULL],
        Col ''event_id'' (VARCHAR 64) [NOT_NULL],
        Col ''status'' (VARCHAR 32) [NOT_NULL],
        Col ''attempt'' INT_TYPE [NOT_NULL],
        Col ''next_retry_at'' BIGINT [NULLABLE],
        Col ''last_error'' TEXT [NULLABLE],
        Col ''created_at'' BIGINT [NOT_NULL],
        Col ''updated_at'' BIGINT [NOT_NULL]]
       [[''sink_id'', ''event_id'']],
     CreateIndex False False ''idx_event_deliveries_merchant_status_retry'' ''event_deliveries'' [''merchant_id'', ''status'', ''next_retry_at''],
     CreateIndex False False ''idx_event_deliveries_sink_id'' ''event_deliveries'' [''sink_id'']]"

definition mysql_schema :: "ddl list" where
  "mysql_schema = mysql_accounts @ mysql_invoices @ mysql_deposits @ mysql_reviews @ mysql_events"

section \<open>The schema of a dialect\<close>

fun schemaStmts :: "dialect \<Rightarrow> ddl list" where
  "schemaStmts SqliteDialect = sqlite_schema"
| "schemaStmts PostgresDialect = postgres_schema"
| "schemaStmts MysqlDialect = mysql_schema"

text \<open>The text of a statement, as its tokens; a word is an identifier of the lexer, keywords included.\<close>

abbreviation blank :: token where "blank \<equiv> Other CHR '' ''"
abbreviation lparen :: token where "lparen \<equiv> Other CHR ''(''"
abbreviation rparen :: token where "rparen \<equiv> Other CHR '')''"

fun sep_tokens :: "token list \<Rightarrow> token list list \<Rightarrow> token list" where
  "sep_tokens sep [] = []"
| "sep_tokens sep [x] = x"
| "sep_tokens sep (x # xs) = x @ sep @ sep_tokens sep xs"

definition word_tokens :: "string list \<Rightarrow> token list" where
  "word_tokens ws = sep_tokens [blank] (map (\<lambda>w. [Ident w]) ws)"

definition comma_tokens :: "token list list \<Rightarrow> token list" where
  "comma_tokens xs = [lparen] @ sep_tokens [Other CHR '','', blank] xs @ [rparen]"

definition sized_tokens :: "string \<Rightarrow> nat \<Rightarrow> token list" where
  "sized_tokens w n = [Ident w, lparen] @ map Other (FormatInt (int n)) @ [rparen]"

fun type_tokens :: "column_type \<Rightarrow> token list" where
  "type_tokens INTEGER = [Ident ''INTEGER'']"
| "type_tokens BIGINT = [Ident ''BIGINT'']"
| "type_tokens INT_TYPE = [Ident ''INT'']"
| "type_tokens BIGSERIAL = [Ident ''BIGSERIAL'']"
| "type_tokens TEXT = [Ident ''TEXT'']"
| "type_tokens (VARCHAR n) = sized_tokens ''VARCHAR'' n"
| "type_tokens BLOB = [Ident ''BLOB'']"
| "type_tokens LONGBLOB = [Ident ''LONGBLOB'']"
| "type_tokens BYTEA = [Ident ''BYTEA'']"
| "type_tokens (BINARY n) = sized_tokens ''BINARY'' n"

fun option_words :: "column_option \<Rightarrow> string list" where
  "option_words NOT_NULL = [''NOT'', ''NULL'']"
| "option_words NULLABLE = [''NULL'']"
| "option_words PRIMARY_KEY = [''PRIMARY'', ''KEY'']"
| "option_words AUTOINCREMENT = [''AUTOINCREMENT'']"
| "option_words AUTO_INCREMENT = [''AUTO_INCREMENT'']"
| "option_words UNIQUE = [''UNIQUE'']"

fun column_tokens :: "column \<Rightarrow> token list" where
  "column_tokens (Col name ty opts) =
     sep_tokens [blank] ([Ident name] # type_tokens ty # map (\<lambda>w. [Ident w]) (concat (map option_words opts)))"

definition idents_tokens :: "string list \<Rightarrow> token list" where
  "idents_tokens xs = comma_tokens (map (\<lambda>x. [Ident x]) xs)"

fun ddl_tokens :: "dialect \<Rightarrow> ddl \<Rightarrow> token list" where
  "ddl_tokens d (CreateTable name cols uniques) =
     word_tokens [''CREATE'', ''TABLE'', ''IF'', ''NOT'', ''EXISTS'', name] @ [blank] @
     comma_tokens (map column_tokens cols @ map (\<lambda>u. word_tokens [''UNIQUE''] @ [blank] @ idents_tokens u) uniques) @
     (if d = MysqlDialect then [blank, Ident ''ENGINE'', Other CHR ''='', Ident ''InnoDB''] else [])"
| "ddl_tokens d (CreateIndex unique guarded name table cols) =
     word_tokens ([''CREATE''] @ (if unique then [''UNIQUE''] else []) @ [''INDEX''] @
       (if guarded then [''IF'', ''NOT'', ''EXISTS''] else []) @ [name, ''ON'', table]) @ idents_tokens cols"

definition ddl_text :: "dialect \<Rightarrow> ddl \<Rightarrow> string" where
  "ddl_text d s = concat (map token_text (ddl_tokens d s))"

section \<open>Init\<close>

fun ddl_name :: "ddl \<Rightarrow> string" where
  "ddl_name (CreateTable name _ _) = name"
| "ddl_name (CreateIndex _ _ name _ _) = name"

text \<open>The loop of \<open>Init\<close> over the statements: \<open>exec\<close> is the transaction's \<open>ExecContext\<close>, on the state \<open>'c\<close> of the
  database and its transaction, \<open>rm\<close> the map of the table prefix.\<close>

fun init_schema :: "('c \<Rightarrow> string \<Rightarrow> driver_error option \<times> 'c) \<Rightarrow> dialect \<Rightarrow> string gomap option \<Rightarrow> ddl list \<Rightarrow> 'c \<Rightarrow>
    driver_error option \<times> 'c" where
  "init_schema exec d rm [] c = (None, c)"
| "init_schema exec d rm (s # ss) c = (case exec c (q d rm (ddl_text d s)) of
       (None, c) \<Rightarrow> init_schema exec d rm ss c
     | (Some e, c) \<Rightarrow> if dialect_isAlreadyExists d e then init_schema exec d rm ss c else (Some e, c))"

end
