(* ===== verification/SqlSchemaText.thy ===== *)
theory SqlSchemaText
  imports SqlSchema
begin

text \<open>
  The text of the statements of the schemas: its tokens are those it was put together from, so the rewriting of identifiers gives
  the objects of a statement their names under the table prefix and leaves its columns and keywords alone.
\<close>

section \<open>Texts whose tokens are known\<close>

fun plain_token :: "token \<Rightarrow> bool" where
  "plain_token (Ident x) = ident x"
| "plain_token (Other c) = (\<not> isIdentStart c \<and> c \<noteq> squote \<and> c \<noteq> dquote \<and> c \<noteq> CHR ''?'')"
| "plain_token (Quoted _) = False"

fun apart :: "token \<Rightarrow> token list \<Rightarrow> bool" where
  "apart (Ident _) (Ident _ # _) = False"
| "apart (Ident _) (Other c # _) = (\<not> isIdentContinue c)"
| "apart _ _ = True"

fun separated :: "token list \<Rightarrow> bool" where
  "separated [] = True"
| "separated (t # ts) = (plain_token t \<and> apart t ts \<and> separated ts)"

lemma separated_tokens: "separated ts \<Longrightarrow> tokens False False (concat (map token_text ts)) = ts"
proof (induction ts rule: separated.induct)
  case (2 t ts)
  show ?case
  proof (cases t)
    case (Ident x)
    have "breaks (concat (map token_text ts))"
    proof (cases ts)
      case (Cons u us)
      with 2(2) Ident show ?thesis by (cases u) (auto simp: breaks_def)
    qed (simp add: breaks_def)
    with 2 Ident show ?thesis by (simp add: tokens_ident)
  qed (use 2 in auto)
qed simp

text \<open>A list that begins with a byte no identifier has can follow any other.\<close>

fun opens :: "token list \<Rightarrow> bool" where
  "opens (Other c # _) = (\<not> isIdentContinue c)"
| "opens _ = False"

lemma apart_Other: "\<not> isIdentContinue c \<Longrightarrow> apart t (Other c # ts)"
  by (cases t) auto

lemma separated_append: "separated xs \<Longrightarrow> separated ys \<Longrightarrow> opens ys \<Longrightarrow> separated (xs @ ys)"
proof (induction xs)
  case (Cons t ts)
  then have "apart t (ts @ ys)"
    by (cases "(t, ts)" rule: apart.cases; cases ys rule: opens.cases) (auto simp: apart_Other)
  with Cons show ?case by simp
qed simp

lemma separated_Other [simp]: "separated (Other c # ts) \<longleftrightarrow> plain_token (Other c) \<and> separated ts"
  by (cases ts) auto

lemma punctuation [simp]:
  "\<not> isIdentStart CHR '' ''" "\<not> isIdentStart CHR ''(''" "\<not> isIdentStart CHR '')''" "\<not> isIdentStart CHR '',''"
  "\<not> isIdentStart CHR ''=''" "\<not> isIdentContinue CHR '' ''" "\<not> isIdentContinue CHR ''(''" "\<not> isIdentContinue CHR '')''"
  "\<not> isIdentContinue CHR '',''" "\<not> isIdentContinue CHR ''=''"
  by (simp_all add: isIdentStart_def isIdentContinue_def)

lemma separated_sep:
  assumes "\<forall>x \<in> set xs. separated x"
  shows "separated (sep_tokens [blank] xs)" "separated (sep_tokens [Other CHR '','', blank] xs)"
  using assms by (induction xs rule: induct_list012) (simp_all add: separated_append)

lemma separated_Ident [simp]: "separated [Ident x] = ident x"
  by simp

lemma separated_words: "\<forall>w \<in> set ws. ident w \<Longrightarrow> separated (word_tokens ws)"
  unfolding word_tokens_def by (rule separated_sep) simp

lemma separated_commas: "\<forall>x \<in> set xs. separated x \<Longrightarrow> separated (comma_tokens xs)"
  by (simp add: comma_tokens_def separated_append separated_sep)

lemma separated_idents: "\<forall>x \<in> set xs. ident x \<Longrightarrow> separated (idents_tokens xs)"
  unfolding idents_tokens_def by (rule separated_commas) auto

lemma opens_commas: "opens (comma_tokens xs @ ys)"
  by (simp add: comma_tokens_def)

lemma opens_idents: "opens (idents_tokens xs)"
  using opens_commas [of _ "[]"] by (simp add: idents_tokens_def)

lemma number_plain: "c \<in> set (FormatInt (int n)) \<Longrightarrow> plain_token (Other c)"
proof -
  assume "c \<in> set (FormatInt (int n))"
  then obtain d :: nat where "d < 10" "c = char_of (48 + d)"
    by (auto simp: FormatInt_def digit_char_def dest!: set_fmt_uint [rotated] elim!: is_digitE)
  then show ?thesis by (auto simp: isIdentStart_def Let_def dest!: arg_cong [where f = "of_char :: char \<Rightarrow> nat"])
qed

lemma separated_others: "(\<And>c. c \<in> set cs \<Longrightarrow> plain_token (Other c)) \<Longrightarrow> separated ts \<Longrightarrow> separated (map Other cs @ ts)"
  by (induction cs) auto

lemma separated_sized: "ident w \<Longrightarrow> separated (sized_tokens w n)"
  using separated_others [of "FormatInt (int n)" "[rparen]"] number_plain by (simp add: sized_tokens_def)

lemma separated_type: "separated (type_tokens ty)"
  by (cases ty) (simp_all add: separated_sized ident_def isIdentStart_def isIdentContinue_def)

lemma option_idents: "w \<in> set (option_words op) \<Longrightarrow> ident w"
  by (cases op) (auto simp: ident_def isIdentStart_def isIdentContinue_def)

lemma separated_column: "ident (col_name c) \<Longrightarrow> separated (column_tokens c)"
  by (cases c) (auto intro!: separated_sep(1) simp: separated_type option_idents simp del: sep_tokens.simps)

section \<open>The text of a statement\<close>

text \<open>The identifiers a statement holds: of the objects, which a prefix changes, and of the columns.\<close>

fun ddl_objects :: "ddl \<Rightarrow> string list" where
  "ddl_objects (CreateTable name _ _) = [name]"
| "ddl_objects (CreateIndex _ _ name table _) = [name, table]"

fun ddl_columns :: "ddl \<Rightarrow> string list" where
  "ddl_columns (CreateTable _ cols _) = map col_name cols"
| "ddl_columns (CreateIndex _ _ _ _ _) = []"

fun ddl_keys :: "ddl \<Rightarrow> string list" where
  "ddl_keys (CreateTable _ _ uniques) = concat uniques"
| "ddl_keys (CreateIndex _ _ _ _ cols) = cols"

definition ddl_keywords :: "string list" where
  "ddl_keywords = [''CREATE'', ''TABLE'', ''IF'', ''NOT'', ''EXISTS'', ''UNIQUE'', ''INDEX'', ''ON'', ''ENGINE'', ''InnoDB'',
     ''INTEGER'', ''BIGINT'', ''INT'', ''BIGSERIAL'', ''TEXT'', ''VARCHAR'', ''BLOB'', ''LONGBLOB'', ''BYTEA'', ''BINARY'',
     ''NULL'', ''PRIMARY'', ''KEY'', ''AUTOINCREMENT'', ''AUTO_INCREMENT'']"

lemma keyword_idents: "\<forall>w \<in> set ddl_keywords. ident w"
  by (simp add: ddl_keywords_def ident_def isIdentStart_def isIdentContinue_def)

lemma separated_ddl:
  assumes "\<forall>x \<in> set (ddl_objects s @ ddl_columns s @ ddl_keys s). ident x"
  shows "separated (ddl_tokens d s)"
proof (cases s)
  case (CreateTable name cols uniques)
  have k: "ident ''CREATE''" "ident ''TABLE''" "ident ''IF''" "ident ''NOT''" "ident ''EXISTS''" "ident ''UNIQUE''"
    "ident ''ENGINE''" "ident ''InnoDB''"
    using keyword_idents by (simp_all add: ddl_keywords_def)
  let ?u = "\<lambda>u. word_tokens [''UNIQUE''] @ [blank] @ idents_tokens u"
  have "separated (column_tokens c)" if "c \<in> set cols" for c
    using assms that by (intro separated_column) (simp add: CreateTable)
  moreover have "separated (?u u)" if "u \<in> set uniques" for u
    using assms that k by (intro separated_append separated_words) (auto simp: CreateTable opens_idents intro!: separated_idents)
  ultimately have "separated (comma_tokens (map column_tokens cols @ map ?u uniques))"
    by (intro separated_commas) auto
  moreover have "separated (word_tokens [''CREATE'', ''TABLE'', ''IF'', ''NOT'', ''EXISTS'', name])"
    using assms k by (intro separated_words) (simp add: CreateTable)
  ultimately show ?thesis using k by (simp add: CreateTable separated_append opens_commas)
next
  case (CreateIndex unique guarded name table cols)
  have k: "ident ''CREATE''" "ident ''UNIQUE''" "ident ''INDEX''" "ident ''IF''" "ident ''NOT''" "ident ''EXISTS''" "ident ''ON''"
    using keyword_idents by (simp_all add: ddl_keywords_def)
  have "separated (idents_tokens cols)" using assms by (intro separated_idents) (simp add: CreateIndex)
  then show ?thesis using assms k
    by (auto simp: CreateIndex idents_tokens_def comma_tokens_def intro!: separated_append separated_words)
qed

section \<open>The prefix in the text\<close>

fun rename_ddl :: "(string \<Rightarrow> string) \<Rightarrow> ddl \<Rightarrow> ddl" where
  "rename_ddl f (CreateTable name cols uniques) = CreateTable (f name) cols uniques"
| "rename_ddl f (CreateIndex unique guarded name table cols) = CreateIndex unique guarded (f name) (f table) cols"

text \<open>The name an object of the store has in the database.\<close>

definition db_name :: "string gomap option \<Rightarrow> string \<Rightarrow> string" where
  "db_name rm x = (case rm of None \<Rightarrow> x | Some m \<Rightarrow> replaced m x)"

lemma prefix_name:
  assumes "WithTablePrefix p = Inr rm"
  shows "db_name rm x = (if x \<in> set baseIdents \<and> TrimSpace p \<noteq> [] then TrimSpace p @ ''_'' @ x else x)"
proof (cases rm)
  case None
  then have "TrimSpace p = []"
    using assms by (auto simp: WithTablePrefix_def Let_def split: if_splits option.splits)
  then show ?thesis by (simp add: None db_name_def)
next
  case (Some m)
  then have "TrimSpace p \<noteq> []" using assms by (auto simp: WithTablePrefix_def Let_def)
  then show ?thesis using prefix_idents(2) [of p m x] assms by (simp add: Some db_name_def replaced_def)
qed

lemma map_sep_tokens: "map f (sep_tokens sep xs) = sep_tokens (map f sep) (map (map f) xs)"
  by (induction sep xs rule: sep_tokens.induct) simp_all

text \<open>A map that leaves the keywords and the columns of a statement alone renames its objects.\<close>

locale renaming =
  fixes m :: "string gomap"
  assumes words: "\<And>w. w \<in> set ddl_keywords \<Longrightarrow> replaced m w = w"
begin

abbreviation ren :: "token \<Rightarrow> token" where "ren \<equiv> rename_token m"

lemma type_same: "map ren (type_tokens ty) = type_tokens ty"
  by (cases ty) (simp_all add: sized_tokens_def comp_def words ddl_keywords_def)

lemma option_same: "w \<in> set (option_words op) \<Longrightarrow> replaced m w = w"
  by (cases op) (auto simp: words ddl_keywords_def)

lemma column_same: "replaced m (col_name c) = col_name c \<Longrightarrow> map ren (column_tokens c) = column_tokens c"
  by (cases c) (auto simp: map_sep_tokens type_same option_same comp_def simp del: sep_tokens.simps
      intro!: arg_cong [where f = "sep_tokens [blank]"])

lemma words_same: "\<forall>w \<in> set ws. replaced m w = w \<Longrightarrow> map ren (word_tokens ws) = word_tokens ws"
  by (simp add: word_tokens_def map_sep_tokens comp_def cong: map_cong)

lemma words_renamed: "map ren (word_tokens ws) = word_tokens (map (replaced m) ws)"
  by (simp add: word_tokens_def map_sep_tokens comp_def)

lemma commas_renamed: "map ren (comma_tokens xs) = comma_tokens (map (map ren) xs)"
  by (simp add: comma_tokens_def map_sep_tokens)

lemma idents_same: "\<forall>x \<in> set xs. replaced m x = x \<Longrightarrow> map ren (idents_tokens xs) = idents_tokens xs"
  by (simp add: idents_tokens_def commas_renamed comp_def cong: map_cong)

lemma ddl_renamed:
  assumes "\<forall>x \<in> set (ddl_columns s @ ddl_keys s). replaced m x = x"
  shows "map ren (ddl_tokens d s) = ddl_tokens d (rename_ddl (replaced m) s)"
proof (cases s)
  case (CreateTable name cols uniques)
  have c: "map ren (column_tokens c) = column_tokens c" if "c \<in> set cols" for c
    using assms that by (intro column_same) (simp add: CreateTable)
  have u: "map ren (idents_tokens u) = idents_tokens u" if "u \<in> set uniques" for u
    using assms that by (intro idents_same) (auto simp: CreateTable)
  show ?thesis
    by (simp add: CreateTable words_renamed commas_renamed comp_def c u words ddl_keywords_def cong: map_cong)
next
  case (CreateIndex unique guarded name table cols)
  then show ?thesis using assms idents_same [of cols]
    by (simp add: words_renamed words ddl_keywords_def)
qed

end

definition prefix_map :: "string \<Rightarrow> string gomap" where
  "prefix_map p = map (\<lambda>ident. (ident, p @ ''_'' @ ident)) baseIdents"

lemma prefix_map_eq: "WithTablePrefix p = Inr (Some m) \<Longrightarrow> m = prefix_map (TrimSpace p)"
  by (auto simp: WithTablePrefix_def prefix_map_def Let_def split: if_splits option.splits)

lemma replaced_prefix: "replaced (prefix_map p) x = (if x \<in> set baseIdents then p @ ''_'' @ x else x)"
  by (simp add: prefix_map_def replaced_def map_of_keyed)

interpretation prefixed: renaming "prefix_map p" for p
  by unfold_locales (auto simp: replaced_prefix ddl_keywords_def baseIdents_def)

section \<open>The names in the schemas\<close>

lemmas sqlite_defs = sqlite_schema_def sqlite_accounts_def sqlite_invoices_def sqlite_deposits_def sqlite_reviews_def sqlite_events_def
lemmas postgres_defs = postgres_schema_def postgres_accounts_def postgres_invoices_def postgres_deposits_def postgres_reviews_def
  postgres_events_def
lemmas mysql_defs = mysql_schema_def mysql_accounts_def mysql_invoices_def mysql_deposits_def mysql_reviews_def mysql_events_def

definition column_word :: "string \<Rightarrow> bool" where
  "column_word x \<longleftrightarrow> ident x \<and> x \<notin> set baseIdents"

lemma column_wordI: "ident x \<Longrightarrow> x \<notin> set baseIdents \<Longrightarrow> column_word x"
  by (simp add: column_word_def)

lemma object_names: "map ddl_objects (schemaStmts d) = map ddl_objects sqlite_schema"
  by (cases d) (simp_all add: sqlite_defs postgres_defs mysql_defs)

lemma column_names: "map ddl_columns (schemaStmts d) = map ddl_columns sqlite_schema"
  by (cases d) (simp_all add: sqlite_defs postgres_defs mysql_defs)

lemma postgres_keys: "map ddl_keys postgres_schema = map ddl_keys sqlite_schema"
  by (simp add: sqlite_defs postgres_defs)

lemma base_idents: "list_all ident baseIdents"
  by (simp add: baseIdents_def ident_def isIdentStart_def isIdentContinue_def)

lemma schema_objects: "map ddl_name sqlite_schema = [
    ''merchants'', ''merchant_wallets'', ''api_keys'', ''idx_api_keys_token_hash'', ''invoices'', ''idx_invoices_merchant_seq'',
    ''idx_invoices_merchant_status_seq'', ''invoice_tokens'', ''scan_cursors'', ''deposits'', ''idx_deposits_invoice_status'',
    ''idx_deposits_wallet_recipient_hash'', ''refunds'', ''idx_refunds_merchant_id'', ''idx_refunds_invoice_id'', ''review_cases'',
    ''idx_review_cases_merchant_status'', ''idx_review_cases_invoice_unique'', ''idx_review_cases_deposit_unique'',
    ''invoice_events'', ''idx_invoice_events_invoice_id'', ''idx_invoice_events_deposit_unique'',
    ''idx_invoice_events_refund_unique'', ''event_sinks'', ''idx_event_sinks_merchant_id'', ''outbox_events'',
    ''idx_outbox_events_merchant_id'', ''event_deliveries'', ''idx_event_deliveries_merchant_status_retry'',
    ''idx_event_deliveries_sink_id'']"
  by (simp add: sqlite_defs)

lemmas word_defs = column_word_def ident_def isIdentStart_def isIdentContinue_def baseIdents_def

lemma sqlite_columns: "list_all (\<lambda>s. list_all column_word (ddl_columns s)) sqlite_schema"
  by (simp add: sqlite_defs word_defs)

lemma sqlite_keys: "list_all (\<lambda>s. list_all column_word (ddl_keys s)) sqlite_schema"
  by (simp add: sqlite_defs word_defs)

lemma mysql_keys: "list_all (\<lambda>s. list_all column_word (ddl_keys s)) mysql_schema"
  by (simp add: mysql_defs word_defs)

lemma sqlite_objects: "list_all (\<lambda>s. list_all (\<lambda>x. x \<in> set baseIdents) (ddl_objects s)) sqlite_schema"
  by (simp add: sqlite_defs baseIdents_def)

lemma all_mapped: "map f xs = map f ys \<Longrightarrow> list_all (\<lambda>s. P (f s)) ys \<Longrightarrow> list_all (\<lambda>s. P (f s)) xs"
proof -
  assume eq: "map f xs = map f ys" and "list_all (\<lambda>s. P (f s)) ys"
  then have "list_all P (map f ys)" by (simp add: list.pred_map comp_def)
  then have "list_all P (map f xs)" by (simp add: eq)
  then show ?thesis by (simp add: list.pred_map comp_def)
qed

lemma schema_words:
  assumes s: "s \<in> set (schemaStmts d)"
  shows "\<forall>x \<in> set (ddl_objects s). x \<in> set baseIdents" "\<forall>x \<in> set (ddl_columns s @ ddl_keys s). column_word x"
proof -
  have "list_all (\<lambda>s. list_all (\<lambda>x. x \<in> set baseIdents) (ddl_objects s)) (schemaStmts d)"
    by (rule all_mapped [OF object_names sqlite_objects])
  then show "\<forall>x \<in> set (ddl_objects s). x \<in> set baseIdents" using s by (simp add: list_all_iff)
  have c: "list_all (\<lambda>s. list_all column_word (ddl_columns s)) (schemaStmts d)"
    by (rule all_mapped [OF column_names sqlite_columns])
  have k: "list_all (\<lambda>s. list_all column_word (ddl_keys s)) (schemaStmts d)"
    by (cases d) (simp_all add: sqlite_keys mysql_keys all_mapped [OF postgres_keys sqlite_keys])
  show "\<forall>x \<in> set (ddl_columns s @ ddl_keys s). column_word x" using c k s by (auto simp: list_all_iff)
qed

lemma schema_separated: "s \<in> set (schemaStmts d) \<Longrightarrow> separated (ddl_tokens d s)"
  using schema_words [of s d] base_idents by (intro separated_ddl) (auto simp: column_word_def list_all_iff)

section \<open>What the database is sent\<close>

lemma number_separated: "separated ts \<Longrightarrow> number_tokens n ts = concat (map token_text ts)"
  by (induction ts arbitrary: n) auto

lemma ddl_rewritten:
  assumes "s \<in> set (schemaStmts d)" "WithTablePrefix p = Inr rm"
  shows "(case rm of None \<Rightarrow> ddl_text d s | Some m \<Rightarrow> rewriteSQLIdents (ddl_text d s) m) = ddl_text d (rename_ddl (db_name rm) s)"
proof (cases rm)
  case None
  have "rename_ddl (db_name None) s = s" by (cases s) (simp_all add: db_name_def)
  then show ?thesis by (simp add: None)
next
  case (Some m)
  have m: "m = prefix_map (TrimSpace p)" using assms Some by (simp add: prefix_map_eq)
  have "\<forall>x \<in> set (ddl_columns s @ ddl_keys s). replaced m x = x"
    using schema_words(2) [OF assms(1)] by (auto simp: m replaced_prefix column_word_def)
  from prefixed.ddl_renamed [OF this [unfolded m]]
  have "map (rename_token m) (ddl_tokens d s) = ddl_tokens d (rename_ddl (replaced m) s)" by (simp add: m)
  moreover have "m \<noteq> []" by (simp add: m prefix_map_def baseIdents_def)
  moreover have "db_name (Some m) = replaced m" by (simp add: db_name_def fun_eq_iff)
  ultimately show ?thesis
    by (simp add: Some rewriteSQLIdents_def rewrite_loop_tokens ddl_text_def separated_tokens [OF schema_separated [OF assms(1)]])
qed

end
