(* ===== verification/SqlSchemaProps.thy ===== *)
theory SqlSchemaProps
  imports SqlSchemaText SqlDb
begin

text \<open>
  The schemas: what the database is sent under a table prefix, the names two prefixes give, the agreement of the three
  dialects with each other and with the unique keys of \<open>SqlDb\<close>, and what \<open>Init\<close> creates.
\<close>

section \<open>Statements under a prefix\<close>

lemma ident_prefixed: "ident p \<Longrightarrow> ident x \<Longrightarrow> ident (p @ ''_'' @ x)"
  by (cases p; cases x) (auto simp: ident_def isIdentContinue_def isIdentStart_def)

lemma prefix_ident: "WithTablePrefix p = Inr rm \<Longrightarrow> TrimSpace p \<noteq> [] \<Longrightarrow> ident (TrimSpace p)"
  by (auto simp: WithTablePrefix_def validateIdent_def ident_def Let_def split: if_splits option.splits list.splits)

lemma ident_db_name: "WithTablePrefix p = Inr rm \<Longrightarrow> x \<in> set baseIdents \<Longrightarrow> ident (db_name rm x)"
  using base_idents ident_prefixed [OF prefix_ident, of p rm x] by (simp add: prefix_name list_all_iff)

lemma renamed_parts [simp]:
  "ddl_objects (rename_ddl f s) = map f (ddl_objects s)" "ddl_columns (rename_ddl f s) = ddl_columns s"
  "ddl_keys (rename_ddl f s) = ddl_keys s" "ddl_name (rename_ddl f s) = f (ddl_name s)"
  by (cases s; simp)+

lemma renamed_separated:
  assumes "s \<in> set (schemaStmts d)" "WithTablePrefix p = Inr rm"
  shows "separated (ddl_tokens d (rename_ddl (db_name rm) s))"
  using schema_words [OF assms(1)] ident_db_name [OF assms(2)]
  by (intro separated_ddl) (auto simp: column_word_def)

lemma ddl_text_first: "\<exists>u. ddl_text d s = CHR ''C'' # u"
  by (cases s) (simp_all add: ddl_text_def word_tokens_def)

lemma comma_last: "last (concat (map token_text (xs @ comma_tokens ys))) = CHR '')''"
  by (simp add: comma_tokens_def)

lemma ddl_text_last: "last (ddl_text PostgresDialect s) = CHR '')''"
  using comma_last [of "xs @ [blank]" for xs] comma_last
  by (cases s) (simp_all add: ddl_text_def idents_tokens_def)

lemma ddl_text_trim: "TrimSpace (ddl_text PostgresDialect s) = ddl_text PostgresDialect s"
proof -
  obtain u where u: "ddl_text PostgresDialect s = CHR ''C'' # u" using ddl_text_first by blast
  with ddl_text_last [of s] show ?thesis
    by (intro TrimSpace_id no_outer_space_plain) (simp_all add: plain_char_def)
qed

theorem schema_sent:
  assumes "s \<in> set (schemaStmts d)" "WithTablePrefix p = Inr rm"
  shows "q d rm (ddl_text d s) = ddl_text d (rename_ddl (db_name rm) s)"
proof -
  let ?s = "rename_ddl (db_name rm) s"
  have "rebind d (ddl_text d ?s) = ddl_text d ?s"
  proof (cases "d = PostgresDialect")
    case True
    have "tokens False False (ddl_text d ?s) = ddl_tokens d ?s"
      by (simp add: ddl_text_def separated_tokens [OF renamed_separated [OF assms]])
    then show ?thesis using True ddl_text_first [of d ?s] number_separated [OF renamed_separated [OF assms]]
      by (auto simp: rebind_def rebindDollar_def ddl_text_trim rebind_loop_tokens Let_def simp flip: ddl_text_def)
  qed (simp add: rebind_def)
  then show ?thesis using ddl_rewritten [OF assms] by (simp add: q_def)
qed

section \<open>The names under two prefixes\<close>

text \<open>No name of the store ends in an underscore and another.\<close>

definition ends_with :: "string \<Rightarrow> string \<Rightarrow> bool" where
  "ends_with y x \<longleftrightarrow> drop (length x - length y) x = y"

lemma base_ends: "list_all (\<lambda>y. list_all (\<lambda>x. \<not> ends_with (CHR ''_'' # y) x) baseIdents) baseIdents"
  by code_simp

lemma base_short: "list_all (\<lambda>x. length x \<le> 42 \<and> ToLower x = x) baseIdents"
  by code_simp

lemma prefix_length: "WithTablePrefix p = Inr rm \<Longrightarrow> length (TrimSpace p) \<le> 20"
  by (auto simp: WithTablePrefix_def Let_def split: if_splits option.splits)

text \<open>What stands before a name.\<close>

definition name_head :: "string \<Rightarrow> string" where
  "name_head p = (if p = [] then [] else p @ ''_'')"

lemma prefix_name_head:
  "WithTablePrefix p = Inr rm \<Longrightarrow> x \<in> set baseIdents \<Longrightarrow> db_name rm x = name_head (TrimSpace p) @ x"
  by (simp add: prefix_name name_head_def)

lemma name_head_lower: "ToLower (name_head p) = name_head (ToLower p)"
  by (simp add: name_head_def ToLower_def lower_char_def)

lemma ToLower_append: "ToLower (a @ b) = ToLower a @ ToLower b"
  by (simp add: ToLower_def)

lemma name_head_inj: "name_head a = name_head b \<Longrightarrow> a = b"
  by (simp add: name_head_def split: if_splits)

lemma name_head_tail:
  assumes "h @ u = name_head p" "u \<noteq> []"
  shows "\<exists>v. u = v @ ''_''"
proof -
  have "p \<noteq> []" using assms by (auto simp: name_head_def)
  then have "last (h @ u) = CHR ''_''" unfolding assms(1) by (simp add: name_head_def)
  then have "u = butlast u @ ''_''" using assms(2) append_butlast_last_id [of u] by simp
  then show ?thesis by blast
qed

lemma base_apart:
  assumes "name_head a @ x = name_head b @ y" "x \<in> set baseIdents" "y \<in> set baseIdents"
  shows "a = b \<and> x = y"
proof -
  have no: False if h: "z = u @ w" "h @ u = name_head c" "u \<noteq> []" "z \<in> set baseIdents" "w \<in> set baseIdents" for c h u w z
  proof -
    obtain v where "u = v @ ''_''" using name_head_tail [OF h(2,3)] by blast
    then have "ends_with (CHR ''_'' # w) z" by (simp add: h(1) ends_with_def)
    then show False using base_ends h(4,5) by (auto simp: list_all_iff)
  qed
  obtain u where u: "name_head a = name_head b @ u \<and> y = u @ x \<or> name_head a @ u = name_head b \<and> x = u @ y"
    using assms(1) by (auto simp: append_eq_append_conv2)
  then have "u = []"
    using no [of y u x "name_head b" a] no [of x u y "name_head a" b] assms(2,3) by metis
  with u show ?thesis by (auto dest: name_head_inj)
qed

text \<open>C36: Two stores in one database whose prefixes differ in more than case name no object alike; every name is an identifier of at
  most the 63 bytes that Postgres keeps.\<close>

theorem store_names_apart:
  assumes "WithTablePrefix p = Inr rm" "WithTablePrefix p' = Inr rm'" "x \<in> set baseIdents" "y \<in> set baseIdents"
  shows "ident (db_name rm x) \<and> length (db_name rm x) \<le> 63 \<and>
    (ToLower (db_name rm x) = ToLower (db_name rm' y) \<longrightarrow> x = y \<and> ToLower (TrimSpace p) = ToLower (TrimSpace p'))"
proof (intro conjI impI)
  note n = prefix_name_head [OF assms(1,3)] prefix_name_head [OF assms(2,4)]
  have low: "ToLower z = z \<and> length z \<le> 42" if "z \<in> set baseIdents" for z
    using base_short that by (simp add: list_all_iff)
  show "ident (db_name rm x)" by (rule ident_db_name [OF assms(1,3)])
  show "length (db_name rm x) \<le> 63"
    using prefix_length [OF assms(1)] low [OF assms(3)] by (simp add: n name_head_def)
  assume "ToLower (db_name rm x) = ToLower (db_name rm' y)"
  then have "name_head (ToLower (TrimSpace p)) @ x = name_head (ToLower (TrimSpace p')) @ y"
    using low assms(3,4) by (simp add: n ToLower_append name_head_lower)
  from base_apart [OF this assms(3,4)]
  show "x = y" "ToLower (TrimSpace p) = ToLower (TrimSpace p')" by simp_all
qed

theorem store_names_apart_witness:
  "\<exists>rm rm'. WithTablePrefix ''shop'' = Inr rm \<and> WithTablePrefix '' '' = Inr rm' \<and>
     db_name rm ''deposits'' = ''shop_deposits'' \<and> ident ''shop_deposits'' \<and>
     ToLower (db_name rm ''deposits'') \<noteq> ToLower (db_name rm' ''deposits'')"
proof -
  have t: "TrimSpace ''shop'' = ''shop''" "TrimSpace '' '' = []" by code_simp+
  have s: "WithTablePrefix ''shop'' = Inr (Some (prefix_map ''shop''))"
    by (simp add: t WithTablePrefix_def validateIdent_def isIdentStart_def isIdentContinue_def prefix_map_def)
  have n: "WithTablePrefix '' '' = Inr None" by (simp add: t WithTablePrefix_def)
  have b: "''deposits'' \<in> set baseIdents" by (simp add: baseIdents_def)
  have "db_name (Some (prefix_map ''shop'')) ''deposits'' = ''shop_deposits''"
    using b by (simp add: db_name_def replaced_prefix)
  moreover have "ToLower ''shop'' \<noteq> ToLower []" by (simp add: ToLower_def)
  ultimately show ?thesis using store_names_apart [OF s n b b] s n by (auto simp: t)
qed

section \<open>The unique keys of the model\<close>

text \<open>The unique keys a schema declares for a table: its primary key, its unique columns and constraints, its unique indexes.\<close>

fun stmt_keys :: "string \<Rightarrow> ddl \<Rightarrow> string list list" where
  "stmt_keys t (CreateTable name cols uniques) =
     (if name = t then map (\<lambda>c. [col_name c]) (filter (\<lambda>c. PRIMARY_KEY \<in> set (col_options c) \<or> UNIQUE \<in> set (col_options c)) cols) @
        uniques else [])"
| "stmt_keys t (CreateIndex unique _ _ table cols) = (if unique \<and> table = t then [cols] else [])"

definition table_keys :: "dialect \<Rightarrow> string \<Rightarrow> string list set" where
  "table_keys d t = set (concat (map (stmt_keys t) (schemaStmts d)))"

text \<open>Two rows clash on a key when they have equal values, none of them null, in its columns.\<close>

datatype sql_value = VText string | VNumber int

definition col_value :: "(string \<times> sql_value option) list \<Rightarrow> string \<Rightarrow> sql_value option" where
  "col_value r c = (case map_of r c of Some v \<Rightarrow> v | None \<Rightarrow> None)"

definition clash_on :: "('r \<Rightarrow> (string \<times> sql_value option) list) \<Rightarrow> string list set \<Rightarrow> 'r \<Rightarrow> 'r \<Rightarrow> bool" where
  "clash_on row ks a b \<longleftrightarrow> (\<exists>k \<in> ks. \<forall>c \<in> set k. col_value (row a) c \<noteq> None \<and> col_value (row a) c = col_value (row b) c)"

lemma clash_on_simps [simp]:
  "clash_on row {} a b \<longleftrightarrow> False"
  "clash_on row (insert k ks) a b \<longleftrightarrow>
    (\<forall>c \<in> set k. col_value (row a) c \<noteq> None \<and> col_value (row a) c = col_value (row b) c) \<or> clash_on row ks a b"
  by (auto simp: clash_on_def)

abbreviation sql_text :: "string \<Rightarrow> sql_value option" where "sql_text x \<equiv> Some (VText x)"
abbreviation auto_number :: "nat \<Rightarrow> sql_value option" where "auto_number n \<equiv> Some (VNumber (int n))"

text \<open>The columns of the rows that are in a key.\<close>

definition merchant_cols :: "MerchantRow \<Rightarrow> (string \<times> sql_value option) list" where
  "merchant_cols r = [(''merchant_id'', sql_text (mr_merchant_id r))]"

definition wallet_cols :: "WalletRow \<Rightarrow> (string \<times> sql_value option) list" where
  "wallet_cols r = [(''merchant_id'', sql_text (wr_merchant_id r))]"

definition key_cols :: "KeyRow \<Rightarrow> (string \<times> sql_value option) list" where
  "key_cols r = [(''key_id'', sql_text (kr_key_id r)), (''token_hash'', sql_text (kr_token_hash r))]"

definition invoice_cols :: "InvoiceRow \<Rightarrow> (string \<times> sql_value option) list" where
  "invoice_cols r = [(''seq'', auto_number (ir_seq r)), (''invoice_id'', sql_text (ir_invoice_id r)),
     (''merchant_id'', sql_text (ir_merchant_id r)), (''external_order_id_hash'', sql_text (ir_external_order_id_hash r)),
     (''wallet_id'', sql_text (ir_wallet_id r)), (''address_hash'', sql_text (ir_address_hash r))]"

definition token_cols :: "string \<times> string \<Rightarrow> (string \<times> sql_value option) list" where
  "token_cols r = [(''invoice_id'', sql_text (fst r))]"

definition cursor_cols :: "CursorRow \<Rightarrow> (string \<times> sql_value option) list" where
  "cursor_cols r = [(''wallet_id'', sql_text (cr_wallet_id r))]"

definition deposit_cols :: "DepositRow \<Rightarrow> (string \<times> sql_value option) list" where
  "deposit_cols r = [(''seq'', auto_number (dr_seq r)), (''wallet_id'', sql_text (dr_wallet_id r)), (''txid'', sql_text (dr_txid r)),
     (''action_index'', Some (VNumber (dr_action_index r)))]"

definition refund_cols :: "RefundRow \<Rightarrow> (string \<times> sql_value option) list" where
  "refund_cols r = [(''id'', auto_number (fr_id r)), (''refund_id'', sql_text (fr_refund_id r))]"

definition review_cols :: "ReviewRow \<Rightarrow> (string \<times> sql_value option) list" where
  "review_cols r = [(''id'', auto_number (vr_id r)), (''review_id'', sql_text (vr_review_id r)),
     (''merchant_id'', sql_text (vr_merchant_id r)), (''invoice_id'', map_option VText (vr_invoice_id r)),
     (''reason'', sql_text (ReviewReason_str (vr_reason r))), (''status'', sql_text (ReviewStatus_str (vr_status r))),
     (''deposit_wallet_id'', map_option (\<lambda>(w, t, i). VText w) (vr_deposit r)),
     (''deposit_txid'', map_option (\<lambda>(w, t, i). VText t) (vr_deposit r)),
     (''deposit_action_index'', map_option (\<lambda>(w, t, i). VNumber i) (vr_deposit r))]"

definition event_cols :: "EventRow \<Rightarrow> (string \<times> sql_value option) list" where
  "event_cols r = [(''id'', auto_number (er_id r)), (''invoice_id'', sql_text (er_invoice_id r)),
     (''type'', sql_text (InvoiceEventType_str (er_type r))),
     (''deposit_wallet_id'', map_option (\<lambda>d. VText (dref_WalletID d)) (er_deposit r)),
     (''deposit_txid'', map_option (\<lambda>d. VText (dref_TxID d)) (er_deposit r)),
     (''deposit_action_index'', map_option (\<lambda>d. VNumber (dref_ActionIndex d)) (er_deposit r)),
     (''refund_id'', map_option VText (er_refund_id r))]"

definition sink_cols :: "SinkRow \<Rightarrow> (string \<times> sql_value option) list" where
  "sink_cols r = [(''sink_id'', sql_text (xr_sink_id r))]"

definition outbox_cols :: "OutboxRow \<Rightarrow> (string \<times> sql_value option) list" where
  "outbox_cols r = [(''id'', auto_number (or_id r)), (''event_id'', sql_text (or_event_id r))]"

definition delivery_cols :: "DeliveryRow \<Rightarrow> (string \<times> sql_value option) list" where
  "delivery_cols r = [(''delivery_id'', sql_text (lr_delivery_id r)), (''sink_id'', sql_text (lr_sink_id r)),
     (''event_id'', sql_text (lr_event_id r))]"

lemma account_keys:
  "table_keys d ''merchants'' = {[''merchant_id'']}" "table_keys d ''merchant_wallets'' = {[''merchant_id'']}"
  "table_keys d ''api_keys'' = {[''key_id''], [''token_hash'']}"
  by (cases d; simp add: table_keys_def sqlite_defs postgres_defs mysql_defs; blast?)+

lemma invoice_keys:
  "table_keys d ''invoices'' = {[''seq''], [''invoice_id''], [''merchant_id'', ''external_order_id_hash''],
    [''wallet_id'', ''address_hash'']}"
  "table_keys d ''invoice_tokens'' = {[''invoice_id'']}" "table_keys d ''scan_cursors'' = {[''wallet_id'']}"
  "table_keys d ''deposits'' = {[''seq''], [''wallet_id'', ''txid'', ''action_index'']}"
  by (cases d; simp add: table_keys_def sqlite_defs postgres_defs mysql_defs; blast?)+

lemma review_keys:
  "table_keys d ''refunds'' = {[''id''], [''refund_id'']}"
  "table_keys d ''review_cases'' = {[''id''], [''review_id''], [''merchant_id'', ''invoice_id'', ''reason'', ''status''],
    [''deposit_wallet_id'', ''deposit_txid'', ''deposit_action_index'', ''reason'']}"
  by (cases d; simp add: table_keys_def sqlite_defs postgres_defs mysql_defs; blast?)+

lemma event_keys:
  "table_keys d ''invoice_events'' = {[''id''],
    [''invoice_id'', ''type'', ''deposit_wallet_id'', ''deposit_txid'', ''deposit_action_index''],
    [''invoice_id'', ''type'', ''refund_id'']}"
  "table_keys d ''event_sinks'' = {[''sink_id'']}" "table_keys d ''outbox_events'' = {[''id''], [''event_id'']}"
  "table_keys d ''event_deliveries'' = {[''delivery_id''], [''sink_id'', ''event_id'']}"
  by (cases d; simp add: table_keys_def sqlite_defs postgres_defs mysql_defs; blast?)+

lemma reason_text: "ReviewReason_str a = ReviewReason_str b \<longleftrightarrow> a = b"
  by (cases a; cases b; simp)

lemma review_status_text: "ReviewStatus_str a = ReviewStatus_str b \<longleftrightarrow> a = b"
  by (cases a; cases b; simp)

lemma event_type_text: "InvoiceEventType_str a = InvoiceEventType_str b \<longleftrightarrow> a = b"
  by (cases a; cases b; simp)

lemmas cols_defs = merchant_cols_def wallet_cols_def key_cols_def invoice_cols_def token_cols_def cursor_cols_def deposit_cols_def
  refund_cols_def sink_cols_def outbox_cols_def delivery_cols_def col_value_def
lemmas clash_defs = merchant_clash_def wallet_clash_def key_clash_def invoice_clash_def token_clash_def cursor_clash_def
  deposit_clash_def refund_clash_def sink_clash_def outbox_clash_def delivery_clash_def

lemma review_clash_declared: "review_clash a b \<longleftrightarrow> clash_on review_cols (table_keys d ''review_cases'') a b"
  by (cases "vr_deposit a"; cases "vr_deposit b"; cases "vr_invoice_id a"; cases "vr_invoice_id b")
    (auto simp: review_keys review_clash_def review_cols_def col_value_def reason_text review_status_text)

lemma event_clash_declared: "event_clash a b \<longleftrightarrow> clash_on event_cols (table_keys d ''invoice_events'') a b"
  by (cases "er_deposit a"; cases "er_deposit b"; cases "er_refund_id a"; cases "er_refund_id b")
    (auto simp: event_keys event_clash_def event_cols_def col_value_def event_type_text dep_key_def)

text \<open>C34: The rows that clash in the model are those that clash on a unique key of the schema, whichever dialect's.\<close>

theorem unique_keys_declared:
  "merchant_clash = clash_on merchant_cols (table_keys d ''merchants'') \<and>
   wallet_clash = clash_on wallet_cols (table_keys d ''merchant_wallets'') \<and>
   key_clash = clash_on key_cols (table_keys d ''api_keys'') \<and>
   invoice_clash = clash_on invoice_cols (table_keys d ''invoices'') \<and>
   token_clash = clash_on token_cols (table_keys d ''invoice_tokens'') \<and>
   cursor_clash = clash_on cursor_cols (table_keys d ''scan_cursors'') \<and>
   deposit_clash = clash_on deposit_cols (table_keys d ''deposits'') \<and>
   refund_clash = clash_on refund_cols (table_keys d ''refunds'') \<and>
   review_clash = clash_on review_cols (table_keys d ''review_cases'') \<and>
   event_clash = clash_on event_cols (table_keys d ''invoice_events'') \<and>
   sink_clash = clash_on sink_cols (table_keys d ''event_sinks'') \<and>
   outbox_clash = clash_on outbox_cols (table_keys d ''outbox_events'') \<and>
   delivery_clash = clash_on delivery_cols (table_keys d ''event_deliveries'')"
  by (intro conjI ext)
    (simp_all only: account_keys invoice_keys review_keys event_keys clash_defs review_clash_declared [of _ _ d]
      event_clash_declared [of _ _ d], auto simp: cols_defs)

section \<open>The columns of the dialects\<close>

datatype column_kind = TextKind | BytesKind | NumberKind

fun kind_of :: "column_type \<Rightarrow> column_kind" where
  "kind_of TEXT = TextKind" | "kind_of (VARCHAR _) = TextKind"
| "kind_of BLOB = BytesKind" | "kind_of LONGBLOB = BytesKind" | "kind_of BYTEA = BytesKind" | "kind_of (BINARY _) = BytesKind"
| "kind_of INTEGER = NumberKind" | "kind_of BIGINT = NumberKind" | "kind_of INT_TYPE = NumberKind" | "kind_of BIGSERIAL = NumberKind"

definition column_shape :: "column \<Rightarrow> string \<times> column_kind \<times> bool" where
  "column_shape c = (col_name c, kind_of (col_type c), NOT_NULL \<in> set (col_options c) \<or> PRIMARY_KEY \<in> set (col_options c))"

text \<open>A table by its columns; an index by its table, its columns and whether it is unique.\<close>

fun shape :: "ddl \<Rightarrow> string \<times> (string \<times> column_kind \<times> bool) list + string \<times> string \<times> string list \<times> bool" where
  "shape (CreateTable name cols _) = Inl (name, map column_shape cols)"
| "shape (CreateIndex unique _ name table cols) = Inr (name, table, cols, unique)"

text \<open>The number columns of 32 bits; an \<open>INTEGER\<close> of SQLite has 64.\<close>

fun narrow :: "dialect \<Rightarrow> ddl \<Rightarrow> (string \<times> string) list" where
  "narrow d (CreateTable name cols _) = map (\<lambda>c. (name, col_name c))
     (filter (\<lambda>c. col_type c = INT_TYPE \<or> col_type c = INTEGER \<and> d \<noteq> SqliteDialect) cols)"
| "narrow d (CreateIndex _ _ _ _ _) = []"

text \<open>The three schemas have the same tables, columns, kinds, null constraints and indexes in the same order, and what Postgres
  and MySQL hold in 32 bits are the numbers the source has as \<open>int32\<close>.\<close>

theorem schemas_agree:
  "map shape (schemaStmts d) = map shape sqlite_schema \<and>
   set (concat (map (narrow d) (schemaStmts d))) \<subseteq> {(''merchants'', ''settings_required_confirmations''),
     (''merchant_wallets'', ''coin_type''), (''invoices'', ''required_confirmations''), (''deposits'', ''action_index''),
     (''review_cases'', ''deposit_action_index''), (''invoice_events'', ''deposit_action_index''), (''event_deliveries'', ''attempt'')}"
  by (cases d) (simp_all add: sqlite_defs postgres_defs mysql_defs column_shape_def)

section \<open>What Init creates\<close>

fun guarded :: "ddl \<Rightarrow> bool" where
  "guarded (CreateTable _ _ _) = True"
| "guarded (CreateIndex _ g _ _ _) = g"

text \<open>
  What the databases document of \<open>CREATE\<close>, for a state \<open>c\<close> whose transaction is not aborted: a new object is created, if the
  table of an index is there; where an object of the name exists, \<open>IF NOT EXISTS\<close> skips the statement, and without it MySQL
  answers with error 1061 and goes on. Postgres would abort the transaction, of which nothing is said here.
\<close>

definition creates :: "('c \<Rightarrow> string \<Rightarrow> driver_error option \<times> 'c) \<Rightarrow> ('c \<Rightarrow> bool) \<Rightarrow> ('c \<Rightarrow> string \<Rightarrow> bool) \<Rightarrow> dialect \<Rightarrow> ddl \<Rightarrow> bool" where
  "creates exec ok has d s \<longleftrightarrow> (\<forall>c. ok c \<longrightarrow> (case exec c (ddl_text d s) of (e, c') \<Rightarrow>
     if has c (ddl_name s) then
       (guarded s \<longrightarrow> e = None \<and> ok c' \<and> has c' = has c) \<and>
       (\<not> guarded s \<and> d = MysqlDialect \<longrightarrow> e = Some (MyError 1061) \<and> ok c' \<and> has c' = has c)
     else list_all (has c) (tl (ddl_objects s)) \<longrightarrow>
       e = None \<and> ok c' \<and> (\<forall>x. has c' x \<longleftrightarrow> has c x \<or> x = ddl_name s)))"

lemma createsD:
  assumes "creates exec ok has d s" "ok c" "list_all (has c) (tl (ddl_objects s))" "guarded s \<or> d = MysqlDialect"
  shows "\<exists>e c'. exec c (ddl_text d s) = (e, c') \<and> (e = None \<or> e = Some (MyError 1061) \<and> d = MysqlDialect) \<and> ok c' \<and>
    (\<forall>x. has c' x \<longleftrightarrow> has c x \<or> x = ddl_name s)"
  using assms by (cases "exec c (ddl_text d s)") (fastforce simp: creates_def split: if_splits)

text \<open>Every index comes after its table.\<close>

fun tables_first :: "string list \<Rightarrow> string list list \<Rightarrow> bool" where
  "tables_first known [] \<longleftrightarrow> True"
| "tables_first known (os # oss) \<longleftrightarrow> list_all (\<lambda>t. t \<in> set known) (tl os) \<and> tables_first (hd os # known) oss"

lemma hd_objects: "hd (ddl_objects s) = ddl_name s" "tl (map f (ddl_objects s)) = map f (tl (ddl_objects s))"
  by (cases s; simp)+

lemma init_loop:
  assumes "\<forall>s \<in> set ss. q d rm (ddl_text d s) = ddl_text d (rename_ddl f s) \<and> creates exec ok has d (rename_ddl f s) \<and>
      (guarded s \<or> d = MysqlDialect)"
    "ok c" "tables_first known (map ddl_objects ss)" "\<forall>x \<in> set known. has c (f x)"
  shows "\<exists>c'. init_schema exec d rm ss c = (None, c') \<and> ok c' \<and> (\<forall>x. has c' x \<longleftrightarrow> has c x \<or> x \<in> (\<lambda>s. f (ddl_name s)) ` set ss)"
  using assms
proof (induction ss arbitrary: c known)
  case (Cons s ss)
  let ?s = "rename_ddl f s"
  have t: "list_all (has c) (tl (ddl_objects ?s))"
    using Cons.prems(3,4) by (auto simp: hd_objects list_all_iff)
  have g: "guarded ?s \<or> d = MysqlDialect" using Cons.prems(1) by (cases s) auto
  have "creates exec ok has d ?s" using Cons.prems(1) by simp
  note created = createsD [where exec = exec and ok = ok and has = has and c = c, OF this Cons.prems(2) t g]
  obtain e c1 where c1: "exec c (ddl_text d ?s) = (e, c1)" "e = None \<or> e = Some (MyError 1061) \<and> d = MysqlDialect" "ok c1"
    "\<forall>x. has c1 x \<longleftrightarrow> has c x \<or> x = f (ddl_name s)"
    using created by auto
  have go: "init_schema exec d rm (s # ss) c = init_schema exec d rm ss c1"
    using c1(1,2) Cons.prems(1) by (auto simp: dialect_isAlreadyExists_def)
  have "\<exists>c'. init_schema exec d rm ss c1 = (None, c') \<and> ok c' \<and>
      (\<forall>x. has c' x \<longleftrightarrow> has c1 x \<or> x \<in> (\<lambda>s. f (ddl_name s)) ` set ss)"
  proof (rule Cons.IH [where c = c1 and known = "ddl_name s # known"])
    show "ok c1" by (rule c1(3))
    show "tables_first (ddl_name s # known) (map ddl_objects ss)" using Cons.prems(3) by (simp add: hd_objects)
  qed (use Cons.prems(1,4) c1(4) in auto)
  then show ?case using go c1(4) by auto
qed simp

lemma schema_order: "tables_first [] (map ddl_objects (schemaStmts d))"
  unfolding object_names by (simp add: sqlite_defs)

lemma schema_guarded: "list_all (\<lambda>s. guarded s \<or> d = MysqlDialect) (schemaStmts d)"
  by (cases d) (simp_all add: sqlite_defs postgres_defs list_all_iff)

lemma schema_names: "set (map ddl_name (schemaStmts d)) = set baseIdents"
proof -
  have "map ddl_name (schemaStmts d) = map hd (map ddl_objects (schemaStmts d))" by (simp add: hd_objects)
  also have "\<dots> = map ddl_name sqlite_schema" unfolding object_names by (simp add: hd_objects)
  finally have eq: "map ddl_name (schemaStmts d) = map ddl_name sqlite_schema" .
  have "list_all (\<lambda>x. x \<in> set baseIdents) (map ddl_name sqlite_schema)"
    using sqlite_objects by (auto simp: list_all_iff hd_objects(1) [symmetric] dest!: bspec) (metis ddl_objects.elims list.sel(1) list.set_intros(1))
  moreover have "list_all (\<lambda>x. x \<in> set (map ddl_name sqlite_schema)) baseIdents"
    unfolding schema_objects by (simp add: baseIdents_def)
  ultimately show ?thesis unfolding eq by (auto simp: list_all_iff)
qed


definition token_idents :: "token list \<Rightarrow> string list" where
  "token_idents ts = concat (map (\<lambda>t. case t of Ident x \<Rightarrow> [x] | _ \<Rightarrow> []) ts)"

lemma token_idents_append [simp]: "token_idents (xs @ ys) = token_idents xs @ token_idents ys"
  by (simp add: token_idents_def)

lemma token_idents_words [simp]: "token_idents (word_tokens ws) = ws"
  unfolding word_tokens_def by (induction ws rule: induct_list012) (simp_all add: token_idents_def)

fun text_head :: "ddl \<Rightarrow> string list" where
  "text_head (CreateTable name _ _) = [''CREATE'', ''TABLE'', ''IF'', ''NOT'', ''EXISTS'', name]"
| "text_head (CreateIndex unique g name table _) = [''CREATE''] @ (if unique then [''UNIQUE''] else []) @ [''INDEX''] @
     (if g then [''IF'', ''NOT'', ''EXISTS''] else []) @ [name, ''ON'', table]"

lemma token_idents_ddl: "\<exists>r. token_idents (ddl_tokens d s) = text_head s @ r"
  by (cases s) simp_all

lemma head_name:
  assumes "text_head s @ r = text_head s' @ r'"
  shows "ddl_name s = ddl_name s'"
proof (cases s)
  case (CreateTable _ _ _)
  then show ?thesis using assms by (cases s') (simp_all split: if_splits)
next
  case (CreateIndex unique g _ _ _)
  then show ?thesis using assms by (cases s'; cases unique; cases g) (simp_all split: if_splits)
qed

lemma tokens_name:
  assumes "ddl_tokens d s = ddl_tokens d s'"
  shows "ddl_name s = ddl_name s'"
proof -
  obtain r r' where "text_head s @ r = text_head s' @ r'"
    using token_idents_ddl [of d s] token_idents_ddl [of d s'] assms by metis
  then show ?thesis by (rule head_name)
qed

lemma text_name:
  assumes "s \<in> set (schemaStmts d)" "s' \<in> set (schemaStmts d)" "ddl_text d s = ddl_text d s'"
  shows "ddl_name s = ddl_name s'"
proof (rule tokens_name)
  have "tokens False False (ddl_text d z) = ddl_tokens d z" if "z \<in> set (schemaStmts d)" for z
    unfolding ddl_text_def by (rule separated_tokens [OF schema_separated [OF that]])
  with assms show "ddl_tokens d s = ddl_tokens d s'" by metis
qed

text \<open>A database that remembers the statements it has executed.\<close>

definition demo_has :: "string list \<Rightarrow> string \<Rightarrow> bool" where
  "demo_has c x \<longleftrightarrow> list_ex (\<lambda>s. ddl_name s = x \<and> ddl_text PostgresDialect s \<in> set c) (schemaStmts PostgresDialect)"

lemma db_name_None: "db_name None = (\<lambda>x. x)" "rename_ddl (\<lambda>x. x) s = s"
  by (auto simp: db_name_def fun_eq_iff) (cases s; simp)


end
