(* ===== verification/GoPath.thy ===== *)
theory GoPath
  imports GoLib
begin

text \<open>
  \<open>path.Clean\<close>, \<open>path.Base\<close> and \<open>filepath.Join\<close> of Go's library, as they are on Unix, on the parts between the slashes.
\<close>

fun clean_parts :: "bool \<Rightarrow> string list \<Rightarrow> string list \<Rightarrow> string list" where
  "clean_parts rooted out [] = rev out"
| "clean_parts rooted out (p # ps) =
     (if p = [] \<or> p = ''.'' then clean_parts rooted out ps
      else if p = ''..'' then
        (case out of
           [] \<Rightarrow> clean_parts rooted (if rooted then [] else [''..'']) ps
         | o1 # os \<Rightarrow> if o1 = ''..'' then clean_parts rooted (''..'' # out) ps else clean_parts rooted os ps)
      else clean_parts rooted (p # out) ps)"

definition path_Clean :: "string \<Rightarrow> string" where
  "path_Clean p =
     (let rooted = has_prefix ''/'' p;
          s = (if rooted then ''/'' else []) @ Join (clean_parts rooted [] (Split CHR ''/'' p)) ''/''
      in if s = [] then ''.'' else s)"

definition path_Join :: "string list \<Rightarrow> string" where
  "path_Join es = (case filter (\<lambda>e. e \<noteq> []) es of [] \<Rightarrow> [] | es \<Rightarrow> path_Clean (Join es ''/''))"

definition path_Base :: "string \<Rightarrow> string" where
  "path_Base p =
     (if p = [] then ''.''
      else (let s = TrimRightChar CHR ''/'' p; b = rev (takeWhile (\<lambda>c. c \<noteq> CHR ''/'') (rev s))
            in if b = [] then ''/'' else b))"

text \<open>A rooted path leads nowhere above the root.\<close>

definition proper_part :: "string \<Rightarrow> bool" where
  "proper_part p \<longleftrightarrow> p \<noteq> [] \<and> p \<noteq> ''.'' \<and> p \<noteq> ''..''"

lemma clean_rooted: "list_all proper_part out \<Longrightarrow> list_all proper_part (clean_parts True out ps)"
proof (induction ps arbitrary: out)
  case Nil
  then show ?case by (simp add: list_all_rev)
next
  case (Cons p ps)
  show ?case
  proof (cases "proper_part p")
    case True
    then show ?thesis using Cons.IH [of "p # out"] Cons.prems by (simp add: proper_part_def)
  next
    case False
    then consider "p = [] \<or> p = ''.''" | "p = ''..''" by (auto simp: proper_part_def)
    then show ?thesis
    proof cases
      case 2
      have "o1 \<noteq> ''..''" if "out = o1 # os" for o1 os using Cons.prems that by (simp add: proper_part_def)
      then show ?thesis using Cons.IH [of "tl out"] Cons.prems 2 by (cases out) simp_all
    qed (use Cons in auto)
  qed
qed

lemma Base_last:
  assumes "b \<noteq> []" "CHR ''/'' \<notin> set b"
  shows "path_Base (d @ ''/'' @ b) = b"
proof -
  have "dropWhile ((=) CHR ''/'') (rev b @ r) = rev b @ r" for r
    using assms by (cases "rev b") auto
  then have "TrimRightChar CHR ''/'' (d @ ''/'' @ b) = d @ ''/'' @ b"
    by (simp add: TrimRightChar_def)
  moreover have "takeWhile (\<lambda>c. c \<noteq> CHR ''/'') (rev b @ CHR ''/'' # rev d) = rev b"
    using assms(2) by (subst takeWhile_append2) auto
  ultimately show ?thesis using assms(1) by (simp add: path_Base_def)
qed

end
