(* ===== verification/StoreOpen.thy ===== *)
theory StoreOpen
  imports PayServer MongoDb SqlSchemaProps GoPath
begin

text \<open>
  Opening a database: \<open>internal/store/sqlstore/open.go\<close>, and the switch of \<open>main\<close> over the drivers. The file system and the drivers
  are parameters, with the message they fail with.
\<close>

section \<open>The SQL store\<close>

text \<open>What an opened store holds besides its tables; \<open>sh_conns\<close> is the limit on open and idle connections, where one is set.\<close>

record SqlHandle =
  sh_dialect :: dialect
  sh_dsn :: string
  sh_key :: string
  sh_conns :: "nat option"
  sh_rewriteMap :: "string gomap option"

text \<open>An option takes the rewrite map a store has to the one it gives it, or fails.\<close>

type_synonym sql_option = "string gomap option \<Rightarrow> string + string gomap option"

definition table_prefix :: "string \<Rightarrow> sql_option" where
  "table_prefix prefix = (\<lambda>_. WithTablePrefix prefix)"

fun applyOptions :: "sql_option option list \<Rightarrow> sql_option" where
  "applyOptions [] rm = Inr rm"
| "applyOptions (None # opts) rm = applyOptions opts rm"
| "applyOptions (Some opt # opts) rm = (case opt rm of Inl e \<Rightarrow> Inl e | Inr rm \<Rightarrow> applyOptions opts rm)"

text \<open>With a key of 32 bytes the cipher is there.\<close>

definition sql_newAEAD :: "string \<Rightarrow> string option" where
  "sql_newAEAD tokenKey =
     (if length tokenKey \<noteq> 32 then Some ''sqlstore: token key must be 32 bytes'' else None)"

text \<open>The end of the three functions: \<open>sql.Open\<close> of a driver, and the options.\<close>

definition open_handle :: "(string \<Rightarrow> string \<Rightarrow> string option) \<Rightarrow> string \<Rightarrow> string \<Rightarrow> dialect \<Rightarrow> nat option \<Rightarrow> string \<Rightarrow> string \<Rightarrow>
    sql_option option list \<Rightarrow> string + SqlHandle" where
  "open_handle sql_Open driver name d conns dsn tokenKey opts =
     (case sql_Open driver dsn of
        Some e \<Rightarrow> Inl (''sqlstore: '' @ name @ '': open: '' @ e)
      | None \<Rightarrow> (case applyOptions opts None of
            Inl e \<Rightarrow> Inl e
          | Inr rm \<Rightarrow> Inr \<lparr>sh_dialect = d, sh_dsn = dsn, sh_key = tokenKey, sh_conns = conns, sh_rewriteMap = rm\<rparr>))"

definition OpenSQLite :: "(string \<Rightarrow> string option) \<Rightarrow> (string \<Rightarrow> string \<Rightarrow> string option) \<Rightarrow> string \<Rightarrow> string \<Rightarrow>
    sql_option option list \<Rightarrow> string + SqlHandle" where
  "OpenSQLite mkdirAll sql_Open dataDir0 tokenKey opts =
     (let dataDir = path_Clean (TrimSpace dataDir0) in
      if dataDir = [] \<or> dataDir = ''.'' \<or> dataDir = ''/'' then Inl ''sqlstore: sqlite: invalid data dir''
      else (case sql_newAEAD tokenKey of
          Some e \<Rightarrow> Inl e
        | None \<Rightarrow> (case mkdirAll dataDir of
            Some e \<Rightarrow> Inl (''sqlstore: sqlite: mkdir: '' @ e)
          | None \<Rightarrow>
              (let dsn = ''file:'' @ path_Join [dataDir, ''state.sqlite''] @ ''?_pragma=busy_timeout(5000)'' in
               open_handle sql_Open ''sqlite'' ''sqlite'' SqliteDialect (Some 1) dsn tokenKey opts))))"

definition OpenPostgres :: "(string \<Rightarrow> string \<Rightarrow> string option) \<Rightarrow> string \<Rightarrow> string \<Rightarrow> sql_option option list \<Rightarrow> string + SqlHandle" where
  "OpenPostgres sql_Open dsn0 tokenKey opts =
     (let dsn = TrimSpace dsn0 in
      if dsn = [] then Inl ''sqlstore: postgres: dsn is required''
      else (case sql_newAEAD tokenKey of
          Some e \<Rightarrow> Inl e
        | None \<Rightarrow> open_handle sql_Open ''pgx'' ''postgres'' PostgresDialect None dsn tokenKey opts))"

definition OpenMySQL :: "(string \<Rightarrow> string \<Rightarrow> string option) \<Rightarrow> string \<Rightarrow> string \<Rightarrow> sql_option option list \<Rightarrow> string + SqlHandle" where
  "OpenMySQL sql_Open dsn0 tokenKey opts =
     (let dsn = TrimSpace dsn0 in
      if dsn = [] then Inl ''sqlstore: mysql: dsn is required''
      else (case sql_newAEAD tokenKey of
          Some e \<Rightarrow> Inl e
        | None \<Rightarrow> open_handle sql_Open ''mysql'' ''mysql'' MysqlDialect None dsn tokenKey opts))"

text \<open>\<open>Open\<close>, of this package and of \<open>internal/store/sqlite\<close>.\<close>

definition Open_sqlite :: "(string \<Rightarrow> string option) \<Rightarrow> (string \<Rightarrow> string \<Rightarrow> string option) \<Rightarrow> string \<Rightarrow> string \<Rightarrow> string + SqlHandle" where
  "Open_sqlite mkdirAll sql_Open dataDir tokenKey = OpenSQLite mkdirAll sql_Open dataDir tokenKey []"

section \<open>The switch of the main program\<close>

text \<open>The directory the program keeps its data in by default, from the home directory of the user.\<close>

definition defaultDataDir :: "string option \<Rightarrow> string" where
  "defaultDataDir home = (case home of
       Some h \<Rightarrow> if h \<noteq> [] then path_Join [h, ''.juno-pay-server''] else ''.juno-pay-server''
     | None \<Rightarrow> ''.juno-pay-server'')"

datatype OpenedStore = OpenedSql SqlHandle | OpenedMongo string string string string

record drivers =
  dv_mkdirAll :: "string \<Rightarrow> string option"
  dv_sqlOpen :: "string \<Rightarrow> string \<Rightarrow> string option"
  dv_mongoConnect :: "string \<Rightarrow> string option"
  dv_mongoPing :: "string \<Rightarrow> string option"

definition opened :: "string \<Rightarrow> ('a \<Rightarrow> OpenedStore) \<Rightarrow> string + 'a \<Rightarrow> string + OpenedStore" where
  "opened name f res = (case res of Inl e \<Rightarrow> Inl (''open '' @ name @ '' store: '' @ e) | Inr x \<Rightarrow> Inr (f x))"

definition open_store :: "drivers \<Rightarrow> StoreDriver \<Rightarrow> string \<Rightarrow> string \<Rightarrow> string + OpenedStore" where
  "open_store dv d tokenKey storePrefix =
     (let opts = (if storePrefix \<noteq> [] then [Some (table_prefix storePrefix)] else []) in
      case d of
        SQLiteAt dataDir \<Rightarrow> opened ''sqlite'' OpenedSql (OpenSQLite (dv_mkdirAll dv) (dv_sqlOpen dv) dataDir tokenKey opts)
      | PostgresAt dsn \<Rightarrow> opened ''postgres'' OpenedSql (OpenPostgres (dv_sqlOpen dv) dsn tokenKey opts)
      | MySQLAt dsn \<Rightarrow> opened ''mysql'' OpenedSql (OpenMySQL (dv_sqlOpen dv) dsn tokenKey opts)
      | MongoAt uri db \<Rightarrow> opened ''mongo'' (\<lambda>(u, n, k, p). OpenedMongo u n k p)
          (mongo_Open (dv_mongoConnect dv) (dv_mongoPing dv) uri db tokenKey
            (if storePrefix \<noteq> [] then [Some (WithCollectionPrefix storePrefix)] else [])))"

section \<open>What is opened\<close>

fun driver_dialect :: "StoreDriver \<Rightarrow> dialect option" where
  "driver_dialect (SQLiteAt _) = Some SqliteDialect"
| "driver_dialect (PostgresAt _) = Some PostgresDialect"
| "driver_dialect (MySQLAt _) = Some MysqlDialect"
| "driver_dialect (MongoAt _ _) = None"

lemma open_handleD:
  "open_handle so drv n d cs dsn k opts = Inr h \<Longrightarrow>
   sh_dialect h = d \<and> sh_dsn h = dsn \<and> sh_key h = k \<and> sh_conns h = cs \<and> applyOptions opts None = Inr (sh_rewriteMap h) \<and> so drv dsn = None"
  by (auto simp: open_handle_def split: option.splits sum.splits)

lemma prefix_options:
  "applyOptions (if p \<noteq> [] then [Some (table_prefix p)] else []) None = Inr rm \<Longrightarrow> WithTablePrefix p = Inr rm"
  by (auto simp: table_prefix_def WithTablePrefix_def Let_def split: if_splits sum.splits)

lemma newAEAD_None: "sql_newAEAD k = None \<longleftrightarrow> length k = 32" "mongo_newAEAD k = None \<longleftrightarrow> length k = 32"
  by (simp_all add: sql_newAEAD_def mongo_newAEAD_def)

lemma mongo_prefix: "WithCollectionPrefix p pre0 = Inr pre \<Longrightarrow> pre = TrimSpace p"
  by (auto simp: WithCollectionPrefix_def Let_def split: if_splits option.splits)

lemma opened_Inr: "opened n f res = Inr x \<longleftrightarrow> (\<exists>y. res = Inr y \<and> x = f y)"
  by (auto simp: opened_def split: sum.splits)

lemma sqlite_opened:
  "OpenSQLite mk so dir k opts = Inr h \<Longrightarrow> length k = 32 \<and> sh_dialect h = SqliteDialect \<and> sh_key h = k \<and> sh_conns h = Some 1 \<and>
     applyOptions opts None = Inr (sh_rewriteMap h)"
  by (auto simp: OpenSQLite_def Let_def newAEAD_None dest!: open_handleD split: if_splits option.splits)

lemma server_opened:
  "OpenPostgres so dsn k opts = Inr h \<Longrightarrow> length k = 32 \<and> sh_dialect h = PostgresDialect \<and> sh_key h = k \<and> sh_conns h = None \<and>
     applyOptions opts None = Inr (sh_rewriteMap h)"
  "OpenMySQL so dsn k opts = Inr h \<Longrightarrow> length k = 32 \<and> sh_dialect h = MysqlDialect \<and> sh_key h = k \<and> sh_conns h = None \<and>
     applyOptions opts None = Inr (sh_rewriteMap h)"
  by (auto simp: OpenPostgres_def OpenMySQL_def Let_def newAEAD_None dest!: open_handleD split: if_splits option.splits)

text \<open>A store the program has opened is the driver's, under the program's key of 32 bytes and the accepted prefix; only SQLite is
  limited to one connection.\<close>

theorem opened_store:
  assumes "open_store dv d k p = Inr st"
  shows "length k = 32 \<and> (case st of
      OpenedSql h \<Rightarrow> driver_dialect d = Some (sh_dialect h) \<and> sh_key h = k \<and> WithTablePrefix p = Inr (sh_rewriteMap h) \<and>
        (sh_conns h = (if sh_dialect h = SqliteDialect then Some 1 else None))
    | OpenedMongo u n k' pre \<Rightarrow> driver_dialect d = None \<and> u \<noteq> [] \<and> n \<noteq> [] \<and> k' = k \<and> pre = TrimSpace p)"
proof (cases d)
  case (MongoAt uri db)
  then show ?thesis using assms
    by (auto simp: open_store_def opened_Inr mongo_Open_def Let_def newAEAD_None split: if_splits option.splits sum.splits
        dest!: mongo_prefix)
qed (use assms in \<open>auto simp: open_store_def opened_Inr simp del: applyOptions.simps
    dest!: sqlite_opened server_opened dest: prefix_options\<close>)

theorem opened_store_witness:
  "\<exists>h. open_store \<lparr>dv_mkdirAll = \<lambda>_. None, dv_sqlOpen = \<lambda>_ _. None, dv_mongoConnect = \<lambda>_. None, dv_mongoPing = \<lambda>_. None\<rparr>
     (SQLiteAt '' /var//data/../juno '') (replicate 32 CHR ''k'') [] = Inr (OpenedSql h) \<and>
     sh_dsn h = ''file:/var/juno/state.sqlite?_pragma=busy_timeout(5000)'' \<and> sh_conns h = Some 1"
proof -
  have p: "path_Clean (TrimSpace '' /var//data/../juno '') = ''/var/juno''"
    "path_Join [''/var/juno'', ''state.sqlite''] = ''/var/juno/state.sqlite''"
    by code_simp+
  obtain h where h: "open_store \<lparr>dv_mkdirAll = \<lambda>_. None, dv_sqlOpen = \<lambda>_ _. None, dv_mongoConnect = \<lambda>_. None, dv_mongoPing = \<lambda>_. None\<rparr>
     (SQLiteAt '' /var//data/../juno '') (replicate 32 CHR ''k'') [] = Inr (OpenedSql h)"
    "sh_dsn h = ''file:/var/juno/state.sqlite?_pragma=busy_timeout(5000)''"
    by (simp add: open_store_def OpenSQLite_def open_handle_def sql_newAEAD_def opened_def p)
  from opened_store [OF h(1)] h show ?thesis by auto
qed

end
