(* ===== verification/AdminUI.thy ===== *)
theory AdminUI
  imports ApiTypes GoPath
begin

text \<open>
  \<open>internal/api/adminui.go\<close>: the handler of the admin pages, under the parts of \<open>net/http\<close> it is put together from. A tree of
  files is a parameter: whether a clean path can be opened and is a directory, and how a file or a listing is served. The path of a
  request has its default encoding, so that no raw path comes with it.
\<close>

section \<open>Serving files\<close>

text \<open>\<open>Inl\<close> is the status of an error, \<open>Inr\<close> whether the path is a directory.\<close>

record 'w files =
  fi_stat :: "string \<Rightarrow> 'w \<Rightarrow> int + bool"
  fi_file :: "string \<Rightarrow> HttpRequest \<Rightarrow> 'w \<Rightarrow> Reply \<times> 'w"
  fi_list :: "string \<Rightarrow> HttpRequest \<Rightarrow> 'w \<Rightarrow> Reply \<times> 'w"

definition has_suffix :: "string \<Rightarrow> string \<Rightarrow> bool" where
  "has_suffix p s \<longleftrightarrow> has_prefix (rev p) (rev s)"

definition localRedirect :: "HttpRequest \<Rightarrow> string \<Rightarrow> Reply" where
  "localRedirect r newPath = \<lparr>rp_Status = 301,
     rp_Header = [(''Location'', newPath @ (if hr_RawQuery r = [] then [] else ''?'' @ hr_RawQuery r))], rp_Body = NoBody\<rparr>"

definition file_error :: "int \<Rightarrow> Reply" where
  "file_error code = http_Error code (if code = 404 then ''404 page not found'' else if code = 403 then ''403 Forbidden''
     else ''500 Internal Server Error'')"

text \<open>\<open>http.FileServer\<close>: a path that ends in \<open>index.html\<close> is sent to its directory, a directory without a slash to the
  path with one, a file with a slash to the path without, each by a relative location.\<close>

definition FileServer :: "'w files \<Rightarrow> HttpRequest \<Rightarrow> 'w \<Rightarrow> Reply \<times> 'w" where
  "FileServer fs r0 w =
     (let r = (if has_prefix ''/'' (hr_Path r0) then r0 else r0\<lparr>hr_Path := ''/'' @ hr_Path r0\<rparr>);
          url = hr_Path r; name = path_Clean url; slash = has_suffix ''/'' url in
      if has_suffix ''/index.html'' url then (localRedirect r ''./'', w)
      else (case fi_stat fs name w of
          Inl code \<Rightarrow> (file_error code, w)
        | Inr False \<Rightarrow>
            if \<not> slash then fi_file fs name r w
            else if path_Base url = ''/'' \<or> path_Base url = ''.'' then
              (http_Error 500 ''http: attempting to traverse a non-directory'', w)
            else (localRedirect r (''../'' @ path_Base url), w)
        | Inr True \<Rightarrow>
            if \<not> slash then (localRedirect r (path_Base url @ ''/''), w)
            else (let index = (if has_suffix ''/'' name then butlast name else name) @ ''/index.html'' in
              case fi_stat fs index w of
                Inl _ \<Rightarrow> fi_list fs name r w
              | Inr True \<Rightarrow> fi_list fs index r w
              | Inr False \<Rightarrow> fi_file fs index r w)))"

definition StripPrefix :: "string \<Rightarrow> (HttpRequest \<Rightarrow> 'w \<Rightarrow> Reply \<times> 'w) \<Rightarrow> HttpRequest \<Rightarrow> 'w \<Rightarrow> Reply \<times> 'w" where
  "StripPrefix prefix h r w =
     (let p = TrimPrefix (hr_Path r) prefix in
      if length p < length (hr_Path r) then h (r\<lparr>hr_Path := p\<rparr>) w else (not_found, w))"

section \<open>The prefix of locations\<close>

text \<open>The writer under the handler: its header map, and the codes written through it.\<close>

record location_writer =
  lw_Header :: "string gomap"
  lw_prefix :: string
  lw_wrote :: bool
  lw_codes :: "int list"

definition header_get :: "string \<Rightarrow> string gomap \<Rightarrow> string" where
  "header_get k h = (case map_of h k of Some v \<Rightarrow> v | None \<Rightarrow> [])"

definition WriteHeader :: "int \<Rightarrow> location_writer \<Rightarrow> location_writer" where
  "WriteHeader code w =
     (let w = (if lw_wrote w then w
        else (let w = w\<lparr>lw_wrote := True\<rparr>; loc = TrimSpace (header_get ''Location'' (lw_Header w)) in
          if has_prefix ''/'' loc then
            (if \<not> has_prefix (lw_prefix w @ ''/'') loc \<and> loc \<noteq> lw_prefix w
             then w\<lparr>lw_Header := mput ''Location'' (lw_prefix w @ loc) (lw_Header w)\<rparr> else w)
          else if loc \<noteq> [] \<and> \<not> Contains ''://'' loc
            then w\<lparr>lw_Header := mput ''Location'' (lw_prefix w @ ''/'' @ loc) (lw_Header w)\<rparr> else w))
      in w\<lparr>lw_codes := lw_codes w @ [code]\<rparr>)"

text \<open>A reply that was written through it: the header is set before the one \<open>WriteHeader\<close>.\<close>

definition locationPrefixWriter :: "string \<Rightarrow> Reply \<Rightarrow> Reply" where
  "locationPrefixWriter prefix rep =
     rep\<lparr>rp_Header := lw_Header (WriteHeader (rp_Status rep)
       \<lparr>lw_Header = rp_Header rep, lw_prefix = prefix, lw_wrote = False, lw_codes = []\<rparr>)\<rparr>"

section \<open>The handler\<close>

text \<open>\<open>embedded\<close> is \<open>embeddedAdminUI()\<close>, \<open>stat\<close> is \<open>os.Stat\<close> and \<open>IsDir\<close>, \<open>DirFS\<close> the tree below a directory.\<close>

definition admin_tree :: "'w files option \<Rightarrow> (string \<Rightarrow> string + bool) \<Rightarrow> (string \<Rightarrow> 'w files) \<Rightarrow> string \<Rightarrow> 'w files option" where
  "admin_tree embedded stat DirFS dir0 =
     (let dir = TrimSpace dir0 in
      if dir \<noteq> [] then (case stat dir of Inr True \<Rightarrow> Some (DirFS dir) | _ \<Rightarrow> None) else embedded)"

definition newAdminUIHandler :: "'w files option \<Rightarrow> (string \<Rightarrow> string + bool) \<Rightarrow> (string \<Rightarrow> 'w files) \<Rightarrow> string \<Rightarrow>
    HttpRequest \<Rightarrow> 'w \<Rightarrow> Reply \<times> 'w" where
  "newAdminUIHandler embedded stat DirFS dir r w =
     (case admin_tree embedded stat DirFS dir of
        None \<Rightarrow> (not_found, w)
      | Some webfs \<Rightarrow>
          if hr_Method r \<noteq> ''GET'' \<and> hr_Method r \<noteq> ''HEAD'' then (method_not_allowed, w)
          else apfst (locationPrefixWriter ''/admin'') (StripPrefix ''/admin'' (FileServer webfs) r w))"

text \<open>The option of the server with this handler.\<close>

definition admin_ui_option :: "'w files option \<Rightarrow> (string \<Rightarrow> string + bool) \<Rightarrow> (string \<Rightarrow> 'w files) \<Rightarrow> string \<Rightarrow>
    ('st, 'w) ServerOption" where
  "admin_ui_option embedded stat DirFS =
     WithAdminUI (map_option (\<lambda>_. newAdminUIHandler embedded stat DirFS []) embedded) stat (newAdminUIHandler embedded stat DirFS)"

section \<open>What the pages answer\<close>

lemma header_mput [simp]: "header_get k (mput k v h) = v"
  by (simp add: header_get_def)

text \<open>A server that has the handler has a tree to serve.\<close>

lemma admin_ui_served:
  assumes "admin_ui_option embedded stat DirFS dir sv = Inr sv'" "sv_adminUI sv = None" "sv_adminUI sv' = Some h"
  shows "\<exists>webfs d. admin_tree embedded stat DirFS d = Some webfs \<and> h = newAdminUIHandler embedded stat DirFS d"
proof (cases "TrimSpace dir = []")
  case True
  then show ?thesis using assms
    by (auto simp: admin_ui_option_def WithAdminUI_def admin_tree_def Let_def split: option.splits intro!: exI [of _ "[]"])
next
  case False
  then show ?thesis using assms
    by (auto simp: admin_ui_option_def WithAdminUI_def admin_tree_def Let_def split: sum.splits if_splits
        intro!: exI [of _ "TrimSpace dir"])
qed

text \<open>A location below the host stays below \<open>/admin\<close>; one with a scheme is left as it is.\<close>

lemma written_location:
  fixes prefix rep
  defines "loc \<equiv> header_get ''Location'' (rp_Header (locationPrefixWriter prefix rep))"
  shows "TrimSpace loc = [] \<or> has_prefix prefix loc \<or> has_prefix prefix (TrimSpace loc) \<or> Contains ''://'' (TrimSpace loc)"
  by (auto simp: loc_def locationPrefixWriter_def WriteHeader_def Let_def has_prefix_iff)

lemma written_relative:
  assumes "no_outer_space loc" "loc \<noteq> []" "\<not> has_prefix ''/'' loc" "\<not> Contains ''://'' loc"
  shows "locationPrefixWriter prefix \<lparr>rp_Status = n, rp_Header = [(''Location'', loc)], rp_Body = b\<rparr> =
    \<lparr>rp_Status = n, rp_Header = [(''Location'', prefix @ ''/'' @ loc)], rp_Body = b\<rparr>"
  using assms by (simp add: locationPrefixWriter_def WriteHeader_def header_get_def TrimSpace_id mput_def Let_def)

lemma handler_under_admin:
  assumes "admin_tree embedded stat DirFS d = Some webfs" "hr_Method r = ''GET''" "hr_Path r = ''/admin'' @ url"
  shows "newAdminUIHandler embedded stat DirFS d r w =
    apfst (locationPrefixWriter ''/admin'') (FileServer webfs (r\<lparr>hr_Path := url\<rparr>) w)"
  using assms by (simp add: newAdminUIHandler_def StripPrefix_def TrimPrefix_def)

lemma suffix_slash: "x \<noteq> [] \<Longrightarrow> has_suffix ''/'' x \<longleftrightarrow> last x = CHR ''/''"
  by (cases x rule: rev_cases) (auto simp: has_suffix_def)

lemma suffix_part:
  assumes "CHR ''/'' \<notin> set a" "CHR ''/'' \<notin> set b" "has_suffix (CHR ''/'' # a) (d @ CHR ''/'' # b)"
  shows "a = b"
proof -
  obtain t where "rev b @ CHR ''/'' # rev d = rev a @ CHR ''/'' # t"
    using assms(3) by (auto simp: has_suffix_def has_prefix_iff)
  moreover have "takeWhile (\<lambda>c. c \<noteq> CHR ''/'') (rev x @ CHR ''/'' # y) = rev x" if "CHR ''/'' \<notin> set x" for x y
    using that by (subst takeWhile_append2) auto
  ultimately show ?thesis using assms(1,2) by (metis rev_rev_ident)
qed

text \<open>C40: The request for a directory without the slash is sent to a path below \<open>/admin\<close> that has only the last part of its own: right for
  a directory at the top, and for no other. The relative location of the file server meant the directory of the request.\<close>

theorem admin_directory_redirect:
  assumes "admin_tree embedded stat DirFS d = Some webfs" "hr_Method r = ''GET''" "hr_RawQuery r = []"
    "hr_Path r = ''/admin'' @ dir @ ''/'' @ base" "has_prefix ''/'' (dir @ ''/'')"
    "base \<noteq> []" "CHR ''/'' \<notin> set base" "base \<noteq> ''index.html''" "no_outer_space (base @ ''/'')" "\<not> Contains ''://'' (base @ ''/'')"
    "path_Clean (dir @ ''/'' @ base) = dir @ ''/'' @ base" "fi_stat webfs (dir @ ''/'' @ base) w = Inr True"
  shows "newAdminUIHandler embedded stat DirFS d r w =
      (\<lparr>rp_Status = 301, rp_Header = [(''Location'', ''/admin/'' @ base @ ''/'')], rp_Body = NoBody\<rparr>, w) \<and>
    (''/admin/'' @ base @ ''/'' = hr_Path r @ ''/'' \<longleftrightarrow> dir = [])"
proof -
  let ?url = "dir @ ''/'' @ base"
  have l: "last base \<noteq> CHR ''/''" using assms(6,7) by (metis last_in_set)
  have s: "\<not> has_suffix ''/'' ?url" using assms(6) l by (simp add: suffix_slash)
  have i: "\<not> has_suffix ''/index.html'' ?url"
    using suffix_part [of "''index.html''" base dir] assms(7,8) by auto
  have root: "has_prefix ''/'' ?url" using assms(5) by (cases dir) (auto simp: has_prefix_iff)
  have h: "hd base \<noteq> CHR ''/''" using assms(6,7) by (metis hd_in_set)
  have "FileServer webfs (r\<lparr>hr_Path := ?url\<rparr>) w =
      (\<lparr>rp_Status = 301, rp_Header = [(''Location'', base @ ''/'')], rp_Body = NoBody\<rparr>, w)"
    using root s i assms(3,11,12) Base_last [OF assms(6,7), of dir] by (simp add: FileServer_def localRedirect_def Let_def)
  moreover have "\<not> has_prefix ''/'' (base @ ''/'')" using h assms(6) by (cases base) (auto simp: has_prefix_iff)
  ultimately show ?thesis using assms(6,9,10)
    by (simp add: handler_under_admin [OF assms(1,2,4)] written_relative assms(4))
qed

text \<open>An index page named in full is sent to the admin root, whichever directory it is in.\<close>

theorem admin_index_redirect:
  assumes "admin_tree embedded stat DirFS d = Some webfs" "hr_Method r = ''GET''" "hr_RawQuery r = []"
    "hr_Path r = ''/admin'' @ dir @ ''/index.html''" "has_prefix ''/'' (dir @ ''/'')"
  shows "newAdminUIHandler embedded stat DirFS d r w =
    (\<lparr>rp_Status = 301, rp_Header = [(''Location'', ''/admin/./'')], rp_Body = NoBody\<rparr>, w)"
proof -
  let ?url = "dir @ ''/index.html''"
  have "has_prefix ''/'' ?url" using assms(5) by (cases dir) (auto simp: has_prefix_iff)
  moreover have "has_suffix ''/index.html'' ?url" by (simp add: has_suffix_def)
  ultimately have "FileServer webfs (r\<lparr>hr_Path := ?url\<rparr>) w =
      (\<lparr>rp_Status = 301, rp_Header = [(''Location'', ''./'')], rp_Body = NoBody\<rparr>, w)"
    using assms(3) by (simp add: FileServer_def localRedirect_def Let_def)
  moreover have "no_outer_space ''./''" by (rule no_outer_space_plain) (simp_all add: plain_char_def)
  ultimately show ?thesis by (simp add: handler_under_admin [OF assms(1,2,4)] written_relative)
qed

definition demo_files :: "unit files" where
  "demo_files = \<lparr>fi_stat = \<lambda>p _. if p = ''/docs'' \<or> p = ''/docs/help'' then Inr True else Inl 404,
     fi_file = \<lambda>_ _ w. (not_found, w), fi_list = \<lambda>_ _ w. (not_found, w)\<rparr>"

definition page_request :: "string \<Rightarrow> HttpRequest" where
  "page_request path = \<lparr>hr_Method = ''GET'', hr_Path = path, hr_RawQuery = [], hr_Authorization = [], hr_Cookies = [],
     hr_Body = RawEmpty, hr_Flusher = False, hr_Ticks = 0\<rparr>"

theorem admin_directory_redirect_witness:
  "newAdminUIHandler (Some demo_files) (\<lambda>_. Inl ''none'') (\<lambda>_. demo_files) [] (page_request ''/admin/docs/help'') () =
    (\<lparr>rp_Status = 301, rp_Header = [(''Location'', ''/admin/help/'')], rp_Body = NoBody\<rparr>, ())"
proof -
  have t: "admin_tree (Some demo_files) (\<lambda>_. Inl ''none'') (\<lambda>_. demo_files) [] = Some demo_files" by (simp add: admin_tree_def)
  have p: "no_outer_space (''help'' @ ''/'')" by (rule no_outer_space_plain) (simp_all add: plain_char_def)
  have c: "path_Clean (''/docs'' @ ''/'' @ ''help'') = ''/docs'' @ ''/'' @ ''help''" "\<not> Contains ''://'' (''help'' @ ''/'')"
    by code_simp+
  show ?thesis
    using admin_directory_redirect [OF t, of "page_request ''/admin/docs/help''" "''/docs''" "''help''" "()"] p c
    by (simp add: page_request_def demo_files_def)
qed

end
