(* ===== verification/KeysFfi.thy ===== *)
theory KeysFfi
  imports ApiTypes ScanTypes
begin

text \<open>
  \<open>internal/keys\<close>: the deriver over the native library (\<open>src/rust/keys\<close>), whose two functions take a request and answer with a JSON
  text, or a null pointer. They are parameters, on JSON values; the wrapper of \<open>ffi_cgo.go\<close> builds the requests and reads the answers.
\<close>

datatype Scope = ScopeExternal | ScopeInternal

fun Scope_str :: "Scope \<Rightarrow> string" where
  "Scope_str ScopeExternal = ''external''"
| "Scope_str ScopeInternal = ''internal''"

definition ErrUnavailable :: string where
  "ErrUnavailable = ''keys: unavailable''"

text \<open>\<open>None\<close> is the null pointer.\<close>

type_synonym native = "json \<Rightarrow> raw_message option"

record native_response =
  nr_Status :: string
  nr_Value :: string
  nr_Error :: string

definition zero_response :: native_response where
  "zero_response = \<lparr>nr_Status = [], nr_Value = [], nr_Error = []\<rparr>"

definition response_fields :: "string \<Rightarrow> native_response field list" where
  "response_fields value = [str_field ''status'' nr_Status_update, str_field value nr_Value_update,
     str_field ''error'' nr_Error_update]"

text \<open>The part the two functions share: the answer is unmarshalled, its status decides.\<close>

definition native_result :: "string \<Rightarrow> raw_message option \<Rightarrow> string + string" where
  "native_result value out =
     (case out of
        None \<Rightarrow> Inl ErrUnavailable
      | Some raw \<Rightarrow>
          (case unmarshal (response_fields value) zero_response raw of
             None \<Rightarrow> Inl ''keys: invalid response''
           | Some resp \<Rightarrow>
               if nr_Status resp = ''ok'' then
                 (let v = TrimSpace (nr_Value resp) in if v = [] then Inl ''keys: invalid response'' else Inr v)
               else if nr_Status resp = ''err'' then
                 (let code = TrimSpace (nr_Error resp) in
                  if code = [] then Inl ''keys: failed'' else Inl (''keys: '' @ code))
               else Inl ''keys: invalid response''))"

definition UFVKFromSeedBase64 :: "native \<Rightarrow> string \<Rightarrow> string \<Rightarrow> uint32 \<Rightarrow> uint32 \<Rightarrow> string + string" where
  "UFVKFromSeedBase64 juno_keys_ufvk_from_seed_json seedBase64 uaHRP coinType account =
     native_result ''ufvk'' (juno_keys_ufvk_from_seed_json (jmap [(''seed_base64'', JStr seedBase64), (''ua_hrp'', JStr uaHRP),
       (''coin_type'', jint (uint coinType)), (''account'', jint (uint account))]))"

definition AddressFromUFVK :: "native \<Rightarrow> string \<Rightarrow> string \<Rightarrow> Scope \<Rightarrow> uint32 \<Rightarrow> string + string" where
  "AddressFromUFVK juno_keys_address_from_ufvk_json ufvk uaHRP scope index =
     native_result ''address'' (juno_keys_address_from_ufvk_json (jmap [(''ufvk'', JStr ufvk), (''ua_hrp'', JStr uaHRP),
       (''scope'', JStr (Scope_str scope)), (''index'', jint (uint index)), (''version'', jint 1)]))"

text \<open>A build without cgo.\<close>

definition stub_AddressFromUFVK :: "string \<Rightarrow> string \<Rightarrow> Scope \<Rightarrow> uint32 \<Rightarrow> string + string" where
  "stub_AddressFromUFVK _ _ _ _ = Inl ErrUnavailable"

definition stub_UFVKFromSeedBase64 :: "string \<Rightarrow> string \<Rightarrow> uint32 \<Rightarrow> uint32 \<Rightarrow> string + string" where
  "stub_UFVKFromSeedBase64 _ _ _ _ = Inl ErrUnavailable"

text \<open>\<open>keysDeriver\<close> of the main program.\<close>

definition keysDeriver :: "(string \<Rightarrow> string \<Rightarrow> Scope \<Rightarrow> uint32 \<Rightarrow> string + string) \<Rightarrow> Deriver" where
  "keysDeriver addressFromUFVK ufvk uaHRP index = addressFromUFVK ufvk uaHRP ScopeExternal index"

section \<open>Addresses\<close>

text \<open>A derived address is never empty and has no blanks around it; it is the one of an answer with status \<open>ok\<close>.\<close>

theorem derived_address:
  assumes "keysDeriver (AddressFromUFVK f) ufvk hrp i = Inr a"
  shows "a \<noteq> [] \<and> TrimSpace a = a \<and> (\<exists>req v resp. f req = Some (RawJson v) \<and>
    dec_object (response_fields ''address'') v zero_response = Some resp \<and> nr_Status resp = ''ok'' \<and> a = TrimSpace (nr_Value resp))"
proof -
  let ?req = "jmap [(''ufvk'', JStr ufvk), (''ua_hrp'', JStr hrp), (''scope'', JStr ''external''), (''index'', jint (uint i)),
    (''version'', jint 1)]"
  have r: "native_result ''address'' (f ?req) = Inr a"
    using assms by (simp add: keysDeriver_def AddressFromUFVK_def)
  then obtain raw resp where raw: "f ?req = Some raw" "unmarshal (response_fields ''address'') zero_response raw = Some resp"
    by (auto simp: native_result_def split: option.splits)
  then obtain v where v: "raw = RawJson v" "dec_object (response_fields ''address'') v zero_response = Some resp"
    by (cases raw) (simp_all add: unmarshal_def)
  have "nr_Status resp = ''ok''" "a = TrimSpace (nr_Value resp)" "a \<noteq> []"
    using r raw by (auto simp: native_result_def Let_def split: if_splits)
  with raw(1) v show ?thesis by auto
qed

theorem derived_address_witness:
  "TrimSpace ''j1abc'' = ''j1abc'' \<and>
   keysDeriver (AddressFromUFVK (\<lambda>_. Some (RawJson (JObj [(''status'', JStr ''ok''), (''address'', JStr ''j1abc'')])))) ''u'' ''j'' 0 =
     Inr ''j1abc''"
proof -
  have "keysDeriver (AddressFromUFVK (\<lambda>_. Some (RawJson (JObj [(''status'', JStr ''ok''), (''address'', JStr ''j1abc'')])))) ''u'' ''j'' 0 =
      Inr ''j1abc''"
    by code_simp
  with derived_address [OF this] show ?thesis by simp
qed

end
