(* ===== verification/Spec2Isabelle.thy ===== *)
theory Spec2Isabelle
  imports JsonText GoUrl GoHttp OutboxProps IngestProps MemProps ServerProps ApiProps SqlTextProps SqlAgain
  MongoAgain AddressIndex DbPaging StoreOpen AdminUI KeysFfi
begin

text \<open>
  A model of juno-pay-server, a payment server for merchants who are paid in Juno Cash, and the theorems that make
  it correct.

  \<^bold>\<open>The program.\<close> A merchant's server creates an invoice over HTTP; the server derives a fresh address for it and hands out
  an access token. A scanner (another process) watches the wallets and serves a log of events for each; the ingestor
  reads these logs page by page and applies every event to the store, which matches deposits with invoices by their address.
  A node tells the height of the chain; deposits with the confirmations an invoice asks for are confirmed. Every change of an
  invoice the merchant should know of is an event of the invoice, is published in the outbox and is delivered to the merchant's
  sinks by the outbox worker. Doubtful payments go to a review queue. The admin configures all this behind a password.
  The parts meet in one interface, the store (\<open>internal/store/store.go\<close>), which has an implementation in memory and others on
  databases.

  \<^bold>\<open>Foundations.\<close>
  \<^item> \<open>Prelude\<close>: machine integers (\<open>int64\<close> and \<open>int32\<close> are integers with \<open>wrap64\<close> and \<open>wrap32\<close> after each operation that can leave
    the range, unsigned ones are words), Go's maps as association lists in the order of insertion (\<open>gomap\<close>, \<open>mput\<close>), results.
  \<^item> \<open>GoLib\<close>, \<open>GoUrl\<close>, \<open>JsonText\<close>, \<open>Crypto\<close>: what the source uses of Go's library - trimming, number formats, hex, times,
    URLs, the text of \<open>encoding/json\<close>, SHA-256 and HMAC, which are computed.
  \<^item> \<open>GoHttp\<close>: the world outside the process, a parameter \<open>'w\<close> with an HTTP client and the clients of Kafka, NATS and RabbitMQ.
  \<^item> \<open>Domain\<close> (\<open>internal/domain\<close>) and \<open>Store\<close> (\<open>internal/store/store.go\<close>): the data, and the interface as the record \<open>Store\<close>
    of operations over an abstract state \<open>'st\<close>; \<open>ScanTypes\<close>: the scanner's payloads.

  \<^bold>\<open>The store in memory\<close> (\<open>internal/store/mem.go\<close>). The struct is the record \<open>MemStore\<close>; each method is one definition of its name,
  a function from the state to a result and a state. \<open>MerchantStore\<close> has merchants, wallets, keys, \<open>ReviewStore\<close> the review queue,
  \<open>EventStore\<close> events, outbox and deliveries, \<open>InvoiceStore\<close> invoices and refunds, \<open>DepositStore\<close> deposits, scan events, confirmations
  and the status of invoices; each with the invariant of its fields. The mutex makes a method atomic. The clock and the order
  in which Go ranges over a map are fields of the state. \<open>MemModel\<close> puts the invariants together (\<open>mem_inv\<close>), has the step relation
  \<open>mem_step\<close> and the reachable states \<open>mem_reach\<close>; \<open>Paging\<close> has the locale \<open>cursor_log\<close> of the listings by cursor; \<open>Demo\<close> a run
  the witnesses use; \<open>MemProps\<close> the properties: amounts and status of an invoice are those of its deposits, the outbox is the event
  log, an event of the scanner is applied once, a repeated creation returns the same invoice, nothing recorded is undone.

  \<^bold>\<open>Databases.\<close> \<open>Database\<close> has what the two stores on databases share: the record \<open>DbStore\<close> over any kind of data, statements that may
  fail, with any message, the bind of the operations, inserts and updates of rows under unique keys, random ids, sealed tokens.
  Clock, random bytes, failures and map orders are fields read at increasing ticks; hash and cipher are parameters. \<open>DbLogic\<close> has
  the reasoning: weakest preconditions (\<open>wp\<close>), operations that fail without a trace (\<open>atomic\<close>), the locale \<open>table_order\<close> of
  operations within an order on the data.

  \<^bold>\<open>The store on SQL\<close> (\<open>internal/store/sqlstore\<close>). \<open>SqlDb\<close>: a table of \<open>dialect_sqlite.go\<close> is the list of its rows, each with the
  columns of the schema; its unique keys and indexes are the relations \<open>..._clash\<close>; transactions (\<open>sql_tx\<close>) and savepoints.
  \<open>SqlMerchants\<close>, \<open>SqlEvents\<close>, \<open>SqlInvoices\<close> and \<open>SqlDeposits\<close>: the methods of
  \<open>sqlstore.go\<close>, statement by statement, \<open>Init\<close> with its backfill included.
  \<open>SqlText\<close>: the rewriting of the statements' text (\<open>WithTablePrefix\<close>, \<open>rebind.go\<close>) and the errors of the three drivers.
  \<open>SqlSchema\<close>: the schemas of SQLite, Postgres and MySQL statement by statement (\<open>schemaStmts\<close> of the dialects), the text of a
  statement and the loop of \<open>Init\<close>; \<open>SqlSchemaText\<close> and \<open>SqlSchemaProps\<close>: what is sent under a prefix, that the relations \<open>..._clash\<close> are the
  unique keys of each schema, what \<open>Init\<close> creates; the locale \<open>renaming\<close> is the contract of a table prefix.
  \<open>SqlLogic\<close>: the rules of the statements and transactions. \<open>SqlModel\<close>: the store as a \<open>Store\<close>, its calls (\<open>sql_call\<close>, \<open>sql_step\<close>, \<open>sql_reach\<close>),
  failed calls change nothing. \<open>SqlGrow\<close>: what a call may change in a row (\<open>grows\<close>). \<open>SqlInv\<close>, \<open>SqlKeep\<close>, \<open>SqlScan\<close>: the invariant
  \<open>tables_ok\<close> and that every call keeps it, operation by operation. \<open>SqlProps\<close>, \<open>SqlRetry\<close>, \<open>SqlAgain\<close>, \<open>SqlTextProps\<close>: the properties.

  \<^bold>\<open>The store on MongoDB\<close> (\<open>internal/store/mongo\<close>). \<open>MongoDb\<close>: a collection is the list of its documents, a unique index of \<open>Init\<close> a
  relation \<open>..._clash\<close>; the single-document updates of the driver; sessions: an error aborts the transaction, after which every
  statement of it fails, and \<open>WithTransaction\<close> runs its callback again after an error the driver takes for transient; \<open>open.go\<close>.
  \<open>MongoMerchants\<close>, \<open>MongoEvents\<close>, \<open>MongoInvoices\<close> and \<open>MongoDeposits\<close>: the methods of \<open>mongo.go\<close>. \<open>MongoLogic\<close>: their rules; a
  transaction that succeeds took effect once, one that fails not at all. \<open>MongoModel\<close>: calls, reachable states, failed calls.
  \<open>MongoGrow\<close>: what a call may change (\<open>mongo_grows\<close>), the unique indexes (\<open>mongo_keys\<close>). \<open>MongoKeep\<close>: the outbox tells the events
  (\<open>mongo_ok\<close>), in every callback. \<open>MongoSession\<close>: no transaction stays open. \<open>MongoProps\<close> and \<open>MongoAgain\<close>: the properties, and that the
  three stores merge a deposit by one rule. \<open>AddressIndex\<close> (locale \<open>index_source\<close>) and \<open>DbPaging\<close> (locale \<open>cursor_log\<close> of \<open>Paging\<close>) have
  contracts that both stores on databases keep: address indexes are not reused, reading by cursor misses nothing.

  \<^bold>\<open>Around the store\<close>, for any store.
  \<^item> \<open>OutboxWorker\<close> (\<open>internal/outbox/outbox.go\<close>): webhooks with their signature, the brokers, retries with backoff; the locale
    \<open>delivery_store\<close> is what it needs of a store. \<open>OutboxProps\<close>: a pass attempts what is due once each, and the attempts are bounded.
  \<^item> \<open>ScanClient\<close> (\<open>internal/scanclient\<close>) and \<open>Ingest\<close> (\<open>internal/ingest\<close>): the locale \<open>cursor_store\<close>; \<open>IngestProps\<close>: paging does not
    show, draining catches up, an event the store refuses blocks its wallet.
  \<^item> \<open>ApiTypes\<close>, \<open>ApiJson\<close>, \<open>ApiAuth\<close>, \<open>ApiPublic\<close>, \<open>ApiAdmin\<close>, \<open>ApiAdminLists\<close> (\<open>internal/api/api.go\<close>): every handler and the router
    (\<open>routes\<close>, \<open>Server_Handler\<close>); \<open>ApiProps\<close>: who gets in, what tokens open, what a retried request is told.
  \<^item> \<open>PayServer\<close> (\<open>cmd/juno-pay-server/main.go\<close>): settings, start, the loops of the program as \<open>server_step\<close>.
    \<open>ServerPaths\<close> follows every handler, scan round and outbox pass through the calls it makes of the store (locale \<open>closed_store\<close>);
    \<open>ServerProps\<close>, \<open>SqlProps\<close> and \<open>MongoProps\<close> interpret it on the three stores: the whole program keeps what every call keeps.

  \<^item> \<open>StoreOpen\<close>: opening the SQL databases (\<open>internal/store/sqlstore/open.go\<close>) and the switch of \<open>main\<close> over the drivers, which ends in
    the parameter \<open>pf_open\<close> of \<open>PayServer\<close>. \<open>KeysFfi\<close> (\<open>internal/keys\<close>): the deriver, a wrapper of two native functions.
  \<^item> \<open>AdminUI\<close> (\<open>internal/api/adminui.go\<close>): the handler of the admin pages, with the redirects of \<open>http.FileServer\<close> under it and the prefix it
    puts before their locations, an instance of the parameter \<open>pf_ui\<close>; \<open>GoPath\<close> has the cleaning of paths.

  \<^bold>\<open>Interleaving.\<close> A method of a store is one step: the mutex of the store in memory and the single connection of SQLite make it
  one. On MongoDB only the transactions are; the statements of a call outside of them are taken together, which concerns checks that a
  merchant or an invoice exists before a single write, and reading back. Steps of \<open>server_step\<close> are whole requests, scan rounds and passes of the worker in any order; the calls of two requests are
  not interleaved, while the theorems on stores hold for calls in any order.

  \<^bold>\<open>Termination and fuel.\<close> The pages of the scanner's log are drained by a loop that ends only if the log does (\<open>partial_function\<close>,
  \<open>None\<close> for not returning); for a finite log it is proved to end. The event stream and the loops of \<open>Run\<close> take the number of their
  ticks from the request or the caller. Everything else is total.

  \<^bold>\<open>Simplifications.\<close> Texts are lists of bytes; lower-casing is ASCII's. Times are nanoseconds since year 1 without a
  zone. Contexts and time limits are left out. Columns with a named string type hold the value of that type; \<open>envelope_json\<close> holds
  the event. Where \<open>ORDER BY\<close> ties, rows come in the order of insertion, as the documents of an unsorted query do. The text of an error of a driver is kept
  only as far as the code looks at it. \<open>honest\<close>, \<open>sealing\<close>, \<open>healthy\<close> and \<open>reliable\<close> are the assumptions on the outside that some theorems name: failures of the
  database are not reported as violated keys, the cipher opens what it has sealed, the SQL database answers, the MongoDB database answers.
  A query of MongoDB reads the documents at once, not batch by batch; \<open>$sum\<close> beyond 64 bits is a parameter; the fields of a document
  that are absent or null are the same \<open>None\<close>.

  \<^bold>\<open>Not modelled.\<close> The database engines, their drivers and the connections, but for what the code relies on. The files of the admin
  interface and how they are served, a parameter. The native library of \<open>internal/keys\<close> (\<open>src/rust\<close>), a parameter, as are the node's calls: of
  the vendored SDK (\<open>third_party\<close>) only the payload types are modelled. Tests and their support.
\<close>

end
